(* ===== verification/Prelude.thy ===== *)
theory Prelude imports Main "HOL-Library.Sublist" begin

text \<open>
  Shared vocabulary of the development: JavaScript values that the services use (optional
  values, truthiness, decimal rendering of integers, string splitting and joining, JSON text),
  the exception-and-state type of the asynchronous handlers with its combinators, and the
  generic lemmas about them. Every other theory imports this one.
\<close>

named_theorems io_simps \<open>unfolding rules of the handler combinators\<close>
named_theorems key_simps \<open>unfolding rules of the cache keys\<close>
named_theorems status_simps \<open>unfolding rules of the status machines\<close>

section \<open>Optional values\<close>

text \<open>\<open>x ?? y\<close> on values that may be \<open>undefined\<close> or \<open>null\<close>.\<close>

fun coalesce :: "'a option \<Rightarrow> 'a \<Rightarrow> 'a" where
  "coalesce (Some x) y = x"
| "coalesce None y = y"

fun orelse :: "'a option \<Rightarrow> 'a option \<Rightarrow> 'a option" where
  "orelse (Some x) y = Some x"
| "orelse None y = y"

text \<open>A string is truthy when it is present and not empty.\<close>

fun truthy :: "string option \<Rightarrow> bool" where
  "truthy None = False"
| "truthy (Some s) = (s \<noteq> [])"

text \<open>\<open>xs[i]\<close>: \<open>undefined\<close> outside the array.\<close>

definition nth_opt :: "'a list \<Rightarrow> nat \<Rightarrow> 'a option" where
  "nth_opt xs i = (if i < length xs then Some (xs ! i) else None)"

lemma nth_opt_Nil [simp]: "nth_opt [] i = None"
  by (simp add: nth_opt_def)

lemma nth_opt_Cons_0 [simp]: "nth_opt (x # xs) 0 = Some x"
  by (simp add: nth_opt_def)

lemma nth_opt_Cons_Suc [simp]: "nth_opt (x # xs) (Suc i) = nth_opt xs i"
  by (simp add: nth_opt_def)

lemma nth_opt_numeral [simp]: "nth_opt (x # xs) (numeral n) = nth_opt xs (pred_numeral n)"
  by (simp add: numeral_eq_Suc)

lemma nth_opt_SomeD: "nth_opt xs i = Some x \<Longrightarrow> x \<in> set xs"
  by (auto simp: nth_opt_def split: if_splits)

lemma orelse_None [simp]: "orelse x None = x"
  by (cases x) simp_all

lemma orelse_assoc: "orelse (orelse x y) z = orelse x (orelse y z)"
  by (cases x) simp_all

lemma orelse_eq_None [simp]: "orelse x y = None \<longleftrightarrow> x = None \<and> y = None"
  by (cases x) simp_all

lemma orelse_SomeD: "orelse x y = Some z \<Longrightarrow> x = Some z \<or> (x = None \<and> y = Some z)"
  by (cases x) simp_all

section \<open>Numbers and orders\<close>

text \<open>
  A floating point number, as the text that JavaScript prints for it. Nothing here computes with
  such numbers; prices and values only pass through.
\<close>

datatype js_float = JsFloat string

definition float_truthy :: "js_float option \<Rightarrow> bool" where
  "float_truthy x \<longleftrightarrow> x \<notin> {None, Some (JsFloat ''0''), Some (JsFloat ''NaN'')}"

datatype sort_order = Sort_asc | Sort_desc

section \<open>Strings\<close>

text \<open>\<open>s.split(c)\<close> with a one-character separator, and \<open>xs.join(sep)\<close>.\<close>

fun split_on :: "char \<Rightarrow> string \<Rightarrow> string list" where
  "split_on c [] = [[]]"
| "split_on c (x # xs) =
     (if x = c then [] # split_on c xs
      else (case split_on c xs of [] \<Rightarrow> [[x]] | y # ys \<Rightarrow> (x # y) # ys))"

fun join :: "string \<Rightarrow> string list \<Rightarrow> string" where
  "join sep [] = []"
| "join sep [x] = x"
| "join sep (x # y # ys) = x @ sep @ join sep (y # ys)"

lemma split_on_nonempty [simp]: "split_on c s \<noteq> []"
  by (induction s) (auto split: list.splits)

lemma split_on_free: "c \<notin> set s \<Longrightarrow> split_on c s = [s]"
  by (induction s) auto

lemma split_on_append: "c \<notin> set s \<Longrightarrow> split_on c (s @ c # t) = s # split_on c t"
  by (induction s) auto

lemma split_on_pieces_free: "p \<in> set (split_on c s) \<Longrightarrow> c \<notin> set p"
  by (induction s arbitrary: p) (auto split: list.splits if_splits)

lemma join_split_on: "join [c] (split_on c s) = s"
proof (induction s)
  case Nil
  then show ?case by simp
next
  case (Cons x s)
  obtain y ys where eq: "split_on c s = y # ys"
    by (cases "split_on c s") auto
  show ?case
    using Cons.IH eq by (cases ys) auto
qed

lemma split_on_join:
  "xs \<noteq> [] \<Longrightarrow> \<forall>x \<in> set xs. c \<notin> set x \<Longrightarrow> split_on c (join [c] xs) = xs"
proof (induction xs)
  case Nil
  then show ?case by simp
next
  case (Cons x xs)
  then show ?case by (cases xs) (auto simp: split_on_free split_on_append)
qed

definition startsWith :: "string \<Rightarrow> string \<Rightarrow> bool" where
  "startsWith s p = prefix p s"

lemma startsWith_append [simp]: "startsWith (p @ s) p"
  by (simp add: startsWith_def)

lemma startsWith_code [code]:
  "startsWith s [] = True"
  "startsWith [] (x # p) = False"
  "startsWith (y # s) (x # p) = (x = y \<and> startsWith s p)"
  by (auto simp: startsWith_def)

text \<open>\<open>s.includes(t)\<close>.\<close>

fun str_includes :: "string \<Rightarrow> string \<Rightarrow> bool" where
  "str_includes s [] = True"
| "str_includes [] (x # t) = False"
| "str_includes (y # s) (x # t) = (startsWith (y # s) (x # t) \<or> str_includes s (x # t))"

lemma str_includes_iff: "str_includes s t \<longleftrightarrow> sublist t s"
  by (induction s t rule: str_includes.induct) (auto simp: startsWith_def sublist_Cons_right)

text \<open>\<open>s.replace(p, r)\<close> with a string pattern: the first occurrence only.\<close>

fun replace_first :: "string \<Rightarrow> string \<Rightarrow> string \<Rightarrow> string" where
  "replace_first p r [] = (if p = [] then r else [])"
| "replace_first p r (c # cs) =
     (if startsWith (c # cs) p then r @ drop (length p) (c # cs) else c # replace_first p r cs)"

lemma replace_first_prefix: "p \<noteq> [] \<Longrightarrow> replace_first p r (p @ s) = r @ s"
  by (cases p) (auto simp: startsWith_def)

section \<open>Decimal rendering\<close>

text \<open>\<open>n.toString()\<close> of an integer below \<open>10\<^sup>2\<^sup>1\<close>, and of every \<open>bigint\<close>.\<close>

definition digit_char :: "nat \<Rightarrow> char" where
  "digit_char d = char_of (48 + d)"

fun nat_str :: "nat \<Rightarrow> string" where
  "nat_str n = (if n < 10 then [digit_char n] else nat_str (n div 10) @ [digit_char (n mod 10)])"

declare nat_str.simps [simp del]

definition int_str :: "int \<Rightarrow> string" where
  "int_str i = (if i < 0 then CHR ''-'' # nat_str (nat (- i)) else nat_str (nat i))"

definition is_digit :: "char \<Rightarrow> bool" where
  "is_digit c \<longleftrightarrow> 48 \<le> (of_char c :: nat) \<and> (of_char c :: nat) < 58"

definition digit_val :: "char \<Rightarrow> nat" where
  "digit_val c = of_char c - 48"

definition dec_val :: "string \<Rightarrow> nat" where
  "dec_val s = foldl (\<lambda>a c. 10 * a + digit_val c) 0 s"

lemma digit_char_of: "d < 10 \<Longrightarrow> is_digit (digit_char d) \<and> digit_val (digit_char d) = d"
  by (simp add: is_digit_def digit_char_def digit_val_def)

lemma nat_str_nonempty [simp]: "nat_str n \<noteq> []"
  by (subst nat_str.simps) simp

lemma nat_str_digits: "c \<in> set (nat_str n) \<Longrightarrow> is_digit c"
proof (induction n rule: nat_str.induct)
  case (1 n)
  then show ?case
    by (subst (asm) nat_str.simps) (auto split: if_splits simp: digit_char_of)
qed

lemma dec_val_nat_str: "dec_val (nat_str n) = n"
proof (induction n rule: nat_str.induct)
  case (1 n)
  show ?case
  proof (cases "n < 10")
    case True
    then show ?thesis by (subst nat_str.simps) (simp add: dec_val_def digit_char_of)
  next
    case False
    with 1 have "dec_val (nat_str (n div 10)) = n div 10" by simp
    with False show ?thesis
      by (subst nat_str.simps) (simp add: dec_val_def digit_char_of)
  qed
qed

lemma nat_str_inj [simp]: "nat_str m = nat_str n \<longleftrightarrow> m = n"
  by (metis dec_val_nat_str)

lemma is_digit_neq:
  "is_digit c \<Longrightarrow> c \<noteq> CHR ''-'' \<and> c \<noteq> CHR '':'' \<and> c \<noteq> CHR ''_'' \<and> c \<noteq> CHR '';''"
  by (auto simp: is_digit_def)

lemma nat_str_no_minus: "nat_str n \<noteq> CHR ''-'' # s"
  using nat_str_digits[of "CHR ''-''" n] is_digit_neq by fastforce

lemma int_str_inj [simp]: "int_str i = int_str j \<longleftrightarrow> i = j"
  by (auto simp: int_str_def nat_str_no_minus nat_str_no_minus[symmetric])

lemma int_str_chars: "c \<in> set (int_str i) \<Longrightarrow> is_digit c \<or> c = CHR ''-''"
  by (auto simp: int_str_def split: if_splits dest: nat_str_digits)

lemma int_str_free:
  "CHR '':'' \<notin> set (int_str i)" "CHR ''_'' \<notin> set (int_str i)" "CHR '';'' \<notin> set (int_str i)"
  using int_str_chars[of _ i] is_digit_neq by fastforce+

lemma int_str_nonempty [simp]: "int_str i \<noteq> []"
  by (simp add: int_str_def)

text \<open>Two renderings separated by a character that occurs in neither first part.\<close>

lemma sep_inj:
  "c \<notin> set a \<Longrightarrow> c \<notin> set b \<Longrightarrow> a @ c # s = b @ c # t \<longleftrightarrow> a = b \<and> s = t"
  by (induction a arbitrary: b) (case_tac b; auto)+

section \<open>Handlers: state and exceptions\<close>

text \<open>
  An asynchronous method of a service runs to completion against the services it calls. It is
  modelled as a function from the state of the outside world to a result, which is either a
  thrown value or a returned one, and the state it leaves behind.
\<close>

datatype js_error =
    TypeError
  | ReferenceError
  | SyntaxError string
  | ErrorMsg string
  | ServiceUnavailable
  | HttpError "string option"
  | StatusError int
  | NotWritableError string
  | TrieOperationsTimeoutError

text \<open>\<open>error.status\<close>: an HTTP exception of NestJS and an error of the HTTP client carry a status.\<close>

fun error_status :: "js_error \<Rightarrow> int option" where
  "error_status ServiceUnavailable = Some 503"
| "error_status (StatusError code) = Some code"
| "error_status _ = None"

type_synonym 'a res = "js_error + 'a"
type_synonym ('s, 'a) io = "'s \<Rightarrow> 'a res \<times> 's"

definition io_return :: "'a \<Rightarrow> ('s, 'a) io" where
  [io_simps]: "io_return x s = (Inr x, s)"

definition io_throw :: "js_error \<Rightarrow> ('s, 'a) io" where
  [io_simps]: "io_throw e s = (Inl e, s)"

definition io_bind :: "('s, 'a) io \<Rightarrow> ('a \<Rightarrow> ('s, 'b) io) \<Rightarrow> ('s, 'b) io" where
  [io_simps]: "io_bind m f s = (case m s of (Inl e, t) \<Rightarrow> (Inl e, t) | (Inr x, t) \<Rightarrow> f x t)"

definition io_then :: "('s, 'a) io \<Rightarrow> ('s, 'b) io \<Rightarrow> ('s, 'b) io" where
  [io_simps]: "io_then m n = io_bind m (\<lambda>_. n)"

text \<open>\<open>try { m } catch (e) { h(e) }\<close> and \<open>try { m } finally { f }\<close>.\<close>

definition io_catch :: "('s, 'a) io \<Rightarrow> (js_error \<Rightarrow> ('s, 'a) io) \<Rightarrow> ('s, 'a) io" where
  [io_simps]: "io_catch m h s = (case m s of (Inl e, t) \<Rightarrow> h e t | (Inr x, t) \<Rightarrow> (Inr x, t))"

definition io_finally :: "('s, 'a) io \<Rightarrow> ('s, 'b) io \<Rightarrow> ('s, 'a) io" where
  [io_simps]: "io_finally m f s =
     (case m s of (r, t) \<Rightarrow> (case f t of (Inl e, u) \<Rightarrow> (Inl e, u) | (Inr _, u) \<Rightarrow> (r, u)))"

definition io_lift :: "'a res \<Rightarrow> ('s, 'a) io" where
  [io_simps]: "io_lift r s = (r, s)"

text \<open>\<open>for (const x of xs) { b = await f(x, b) }\<close>, with \<open>b\<close> the variables the body updates.\<close>

fun io_fold :: "('x \<Rightarrow> 'b \<Rightarrow> ('s, 'b) io) \<Rightarrow> 'x list \<Rightarrow> 'b \<Rightarrow> ('s, 'b) io" where
  "io_fold f [] b = io_return b"
| "io_fold f (x # xs) b = io_bind (f x b) (\<lambda>b'. io_fold f xs b')"

fun io_mapM :: "('x \<Rightarrow> ('s, 'b) io) \<Rightarrow> 'x list \<Rightarrow> ('s, 'b list) io" where
  "io_mapM f [] = io_return []"
| "io_mapM f (x # xs) = io_bind (f x) (\<lambda>y. io_bind (io_mapM f xs) (\<lambda>ys. io_return (y # ys)))"

text \<open>The same without a world, for synchronous code that can throw.\<close>

fun res_bind :: "'a res \<Rightarrow> ('a \<Rightarrow> 'b res) \<Rightarrow> 'b res" where
  "res_bind (Inl e) f = Inl e"
| "res_bind (Inr x) f = f x"

fun res_map :: "('x \<Rightarrow> 'y res) \<Rightarrow> 'x list \<Rightarrow> 'y list res" where
  "res_map f [] = Inr []"
| "res_map f (x # xs) = res_bind (f x) (\<lambda>y. res_bind (res_map f xs) (\<lambda>ys. Inr (y # ys)))"

text \<open>\<open>Promise.all([m, n])\<close>: both run, and the first failure is thrown.\<close>

definition io_both :: "('s, 'a) io \<Rightarrow> ('s, 'b) io \<Rightarrow> ('s, 'a \<times> 'b) io" where
  [io_simps]: "io_both m n s =
     (case m s of (r, t) \<Rightarrow> (case n t of (q, u) \<Rightarrow> (res_bind r (\<lambda>x. res_bind q (\<lambda>y. Inr (x, y))), u)))"

text \<open>\<open>Promise.all(xs.map(f))\<close>: all run, and the first failure is thrown.\<close>

fun io_all :: "('x \<Rightarrow> ('s, 'b) io) \<Rightarrow> 'x list \<Rightarrow> ('s, 'b list) io" where
  "io_all f [] = io_return []"
| "io_all f (x # xs) = io_bind (io_both (f x) (io_all f xs)) (\<lambda>(y, ys). io_return (y # ys))"

lemma io_bind_return [simp]: "io_bind (io_return x) f = f x"
  by (rule ext) (simp add: io_simps)

lemma io_bind_assoc: "io_bind (io_bind m f) g = io_bind m (\<lambda>x. io_bind (f x) g)"
  by (rule ext) (auto simp: io_simps split: prod.splits sum.splits)

lemma io_bind_throw [simp]: "io_bind (io_throw e) f = io_throw e"
  by (rule ext) (simp add: io_simps)

lemma io_fold_append:
  "io_fold f (xs @ ys) b = io_bind (io_fold f xs b) (\<lambda>c. io_fold f ys c)"
proof (induction xs arbitrary: b)
  case Nil
  then show ?case by simp
next
  case (Cons x xs)
  have "io_fold f (xs @ ys) = (\<lambda>b. io_bind (io_fold f xs b) (io_fold f ys))"
    by (rule ext) (rule Cons.IH)
  then show ?case by (simp add: io_bind_assoc)
qed

text \<open>A step that returned.\<close>

lemma io_bind_InrE:
  assumes "io_bind m f s = (Inr y, t)"
  obtains x u where "m s = (Inr x, u)" "f x u = (Inr y, t)"
  using assms by (auto simp: io_bind_def split: prod.splits sum.splits)

lemma io_catch_InrE:
  assumes "io_catch m h s = (Inr y, t)"
  obtains (returned) "m s = (Inr y, t)" | (caught) e u where "m s = (Inl e, u)" "h e u = (Inr y, t)"
  using assms by (auto simp: io_catch_def split: prod.splits sum.splits)

lemma res_bind_Inr: "res_bind m f = Inr y \<longleftrightarrow> (\<exists>x. m = Inr x \<and> f x = Inr y)"
  by (cases m) auto

lemma res_bind_Inl: "res_bind m f = Inl e \<longleftrightarrow> m = Inl e \<or> (\<exists>x. m = Inr x \<and> f x = Inl e)"
  by (cases m) auto

lemma set_io_mapM:
  assumes "io_mapM f xs s = (Inr ys, t)" and "\<And>x s y t. x \<in> set xs \<Longrightarrow> f x s = (Inr y, t) \<Longrightarrow> Q y"
  shows "\<forall>y \<in> set ys. Q y"
  using assms
proof (induction xs arbitrary: s ys)
  case (Cons x xs)
  from Cons.prems(1) obtain y u zs where "f x s = (Inr y, u)" "io_mapM f xs u = (Inr zs, t)" "ys = y # zs"
    by (auto simp: io_simps split: prod.splits sum.splits)
  with Cons.IH Cons.prems(2) show ?case by (metis list.set_intros set_ConsD)
qed (simp add: io_simps)

lemma set_io_all:
  assumes "io_all f xs s = (Inr ys, t)" and "\<And>x s y t. x \<in> set xs \<Longrightarrow> f x s = (Inr y, t) \<Longrightarrow> Q y"
  shows "\<forall>y \<in> set ys. Q y"
  using assms
proof (induction xs arbitrary: s ys)
  case (Cons x xs)
  from Cons.prems(1) obtain y u zs where "f x s = (Inr y, u)" "io_all f xs u = (Inr zs, t)" "ys = y # zs"
    by (auto simp: io_simps res_bind_Inr split: prod.splits sum.splits)
  with Cons.IH Cons.prems(2) show ?case by (metis list.set_intros set_ConsD)
qed (simp add: io_simps)

lemma length_io_all: "io_all f xs s = (Inr ys, t) \<Longrightarrow> length ys = length xs"
  by (induction xs arbitrary: s ys) (auto simp: io_simps res_bind_Inr split: prod.splits sum.splits)

lemma res_map_length: "res_map f xs = Inr ys \<Longrightarrow> length ys = length xs"
  by (induction xs arbitrary: ys) (auto simp: res_bind_Inr)

lemma res_map_Inr: "res_map f xs = Inr ys \<longleftrightarrow> list_all2 (\<lambda>x y. f x = Inr y) xs ys"
  by (induction xs arbitrary: ys) (auto simp: res_bind_Inr list_all2_Cons1)

text \<open>
  A loop invariant: what every iteration keeps, whether it returns or throws, the whole loop
  keeps.
\<close>

lemma io_fold_invariant:
  assumes "P b s"
    and "\<And>x b s r t. x \<in> set xs \<Longrightarrow> P b s \<Longrightarrow> f x b s = (Inr r, t) \<Longrightarrow> P r t"
    and "io_fold f xs b s = (Inr c, t)"
  shows "P c t"
  using assms
proof (induction xs arbitrary: b s)
  case Nil
  then show ?case by (simp add: io_simps)
next
  case (Cons x xs)
  from Cons.prems(3) obtain b' s' where step: "f x b s = (Inr b', s')"
    and rest: "io_fold f xs b' s' = (Inr c, t)"
    by (auto simp: io_simps split: prod.splits sum.splits)
  have "P b' s'" by (rule Cons.prems(2) [OF _ Cons.prems(1) step]) simp
  then show ?case by (rule Cons.IH [OF _ _ rest]) (auto intro: Cons.prems(2))
qed


text \<open>A loop whose every iteration returns from a state with \<open>P\<close>, and keeps \<open>P\<close>, returns.\<close>

lemma io_fold_total:
  assumes "P b s"
    and "\<And>x b s. x \<in> set xs \<Longrightarrow> P b s \<Longrightarrow> \<exists>c t. f x b s = (Inr c, t) \<and> P c t"
  shows "\<exists>c t. io_fold f xs b s = (Inr c, t) \<and> P c t"
  using assms
proof (induction xs arbitrary: b s)
  case Nil
  then show ?case by (simp add: io_simps)
next
  case (Cons x xs)
  obtain c t where step: "f x b s = (Inr c, t)" and P: "P c t"
    using Cons.prems(2) [OF _ Cons.prems(1), of x] by auto
  obtain d u where "io_fold f xs c t = (Inr d, u)" "P d u"
    using Cons.IH [OF P] Cons.prems(2) by (metis list.set_intros(2))
  with step show ?case by (auto simp: io_simps)
qed

text \<open>A loop of which one iteration only does anything.\<close>

lemma io_fold_idle: "(\<And>p s. p \<in> set ps \<Longrightarrow> f p b s = (Inr b, s)) \<Longrightarrow> io_fold f ps b s = (Inr b, s)"
  by (induction ps arbitrary: s) (auto simp: io_simps)

lemma io_fold_at:
  assumes "distinct ps" and "q \<in> set ps" and "f q b s = (Inr c, t)"
    and before: "\<And>p s. p \<in> set ps \<Longrightarrow> p \<noteq> q \<Longrightarrow> f p b s = (Inr b, s)"
    and after: "\<And>p s. p \<in> set ps \<Longrightarrow> p \<noteq> q \<Longrightarrow> f p c s = (Inr c, s)"
  shows "io_fold f ps b s = (Inr c, t)"
proof -
  obtain xs ys where ps: "ps = xs @ q # ys" "q \<notin> set xs" "q \<notin> set ys"
    using assms(1,2) by (metis distinct.simps(2) distinct_append not_distinct_conv_prefix
        split_list_first split_list)
  have "io_fold f xs b s = (Inr b, s)"
    by (rule io_fold_idle) (use ps before in auto)
  moreover have "io_fold f ys c t = (Inr c, t)"
    by (rule io_fold_idle) (use ps after in auto)
  ultimately show ?thesis
    using assms(3) by (simp add: ps(1) io_fold_append io_simps)
qed

end
