(* ===== verification/JsonText.thy ===== *)
theory JsonText imports Prelude "HOL-Library.AList" begin

text \<open>
  JavaScript values as far as the services put them into JSON text, and \<open>JSON.stringify\<close>
  (ECMAScript, SerializeJSONProperty): members that are \<open>undefined\<close> are left out of an
  object and printed as \<open>null\<close> in an array, members keep the order in which they were
  assigned, and a string is quoted with the escapes of QuoteJSONString. Numbers are integers.
\<close>

datatype json =
    JUndefined
  | JNull
  | JBool bool
  | JNum int
  | JStr string
  | JArr "json list"
  | JObj "(string \<times> json) list"

definition hex_digit :: "nat \<Rightarrow> char" where
  "hex_digit d = (if d < 10 then char_of (48 + d) else char_of (87 + d))"

fun quote_char :: "char \<Rightarrow> string" where
  "quote_char c =
     (let n = (of_char c :: nat) in
      if n = 34 then [char_of (92::nat), c]
      else if n = 92 then [char_of (92::nat), c]
      else if n = 8 then [char_of (92::nat), CHR ''b'']
      else if n = 9 then [char_of (92::nat), CHR ''t'']
      else if n = 10 then [char_of (92::nat), CHR ''n'']
      else if n = 12 then [char_of (92::nat), CHR ''f'']
      else if n = 13 then [char_of (92::nat), CHR ''r'']
      else if n < 32 then char_of (92::nat) # ''u00'' @ [hex_digit (n div 16), hex_digit (n mod 16)]
      else [c])"

definition quote :: "string \<Rightarrow> string" where
  "quote s = CHR 0x22 # concat (map quote_char s) @ [CHR 0x22]"

fun json_text :: "json \<Rightarrow> string" where
  "json_text JUndefined = ''null''"
| "json_text JNull = ''null''"
| "json_text (JBool b) = (if b then ''true'' else ''false'')"
| "json_text (JNum i) = int_str i"
| "json_text (JStr s) = quote s"
| "json_text (JArr xs) = ''['' @ join '','' (map json_text xs) @ '']''"
| "json_text (JObj ms) =
     ''{'' @ join '','' (map (\<lambda>(k, v). quote k @ '':'' @ json_text v)
               (filter (\<lambda>(k, v). v \<noteq> JUndefined) ms)) @ ''}''"

definition JSON_stringify :: "json \<Rightarrow> string" where
  "JSON_stringify v = json_text v"

text \<open>An optional member of an options object.\<close>

fun opt_json :: "('a \<Rightarrow> json) \<Rightarrow> 'a option \<Rightarrow> json" where
  "opt_json f None = JUndefined"
| "opt_json f (Some x) = f x"

lemma json_text_empty_obj: "json_text (JObj []) = ''{}''"
  by simp

lemma json_text_obj_nonempty:
  assumes "(k, v) \<in> set ms" and "v \<noteq> JUndefined"
  shows "json_text (JObj ms) \<noteq> ''{}''"
proof -
  let ?xs = "map (\<lambda>(k, v). quote k @ '':'' @ json_text v) (filter (\<lambda>(k, v). v \<noteq> JUndefined) ms)"
  have ne: "filter (\<lambda>(k, v). v \<noteq> JUndefined) ms \<noteq> []"
    using assms by (auto simp: filter_empty_conv)
  then obtain x xs where "?xs = x # xs" and "x \<noteq> []"
    by (cases "filter (\<lambda>(k, v). v \<noteq> JUndefined) ms") (auto simp: quote_def)
  then have "join '','' ?xs \<noteq> []" by (cases xs) auto
  then show ?thesis by simp
qed

lemma JSON_stringify_empty_iff:
  "JSON_stringify (JObj ms) = JSON_stringify (JObj []) \<longleftrightarrow> (\<forall>(k, v) \<in> set ms. v = JUndefined)"
proof
  assume "JSON_stringify (JObj ms) = JSON_stringify (JObj [])"
  then have "json_text (JObj ms) = ''{}''"
    by (simp add: JSON_stringify_def)
  then show "\<forall>(k, v) \<in> set ms. v = JUndefined"
    using json_text_obj_nonempty by blast
next
  assume "\<forall>(k, v) \<in> set ms. v = JUndefined"
  then have "filter (\<lambda>(k, v). v \<noteq> JUndefined) ms = []"
    by (auto simp: filter_empty_conv)
  then show "JSON_stringify (JObj ms) = JSON_stringify (JObj [])"
    by (simp add: JSON_stringify_def)
qed

section \<open>Members of values\<close>

text \<open>A member of a value, by \<open>v?.k\<close> and by \<open>v.k\<close>, which throws on \<open>undefined\<close> and \<open>null\<close>.\<close>

fun json_opt :: "json \<Rightarrow> string \<Rightarrow> json" where
  "json_opt (JObj ms) k = (case map_of ms k of None \<Rightarrow> JUndefined | Some v \<Rightarrow> v)"
| "json_opt _ k = JUndefined"

definition json_nullish :: "json \<Rightarrow> bool" where
  "json_nullish v \<longleftrightarrow> v = JUndefined \<or> v = JNull"

definition json_member :: "json \<Rightarrow> string \<Rightarrow> json res" where
  "json_member v k = (if json_nullish v then Inl TypeError else Inr (json_opt v k))"

fun json_truthy :: "json \<Rightarrow> bool" where
  "json_truthy JUndefined = False"
| "json_truthy JNull = False"
| "json_truthy (JBool b) = b"
| "json_truthy (JNum n) = (n \<noteq> 0)"
| "json_truthy (JStr s) = (s \<noteq> [])"
| "json_truthy _ = True"

fun json_set :: "string \<Rightarrow> json \<Rightarrow> json \<Rightarrow> json" where
  "json_set k v (JObj ms) = JObj (AList.update k v ms)"
| "json_set k v other = other"

fun json_list :: "json \<Rightarrow> json list" where
  "json_list (JArr xs) = xs"
| "json_list _ = []"

lemma json_opt_update [simp]:
  "json_opt (JObj (AList.update k v ms)) j = (if j = k then v else json_opt (JObj ms) j)"
  by (simp add: update_conv)

end
