(* ===== verification/CacheInfo.thy ===== *)
theory CacheInfo imports JsonText begin

text \<open>
  The cache keys and lifetimes of \<open>src/utils/cache.info.ts\<close>: one definition per static
  member of the class \<open>CacheInfo\<close>, named after it. \<open>Constants.oneSecond()\<close> and its
  siblings belong to a library outside the repository and are the record \<open>time_consts\<close>;
  \<open>Date.prototype.toISODateString\<close>, an extension of the same library, is an argument, and the
  current instant is an argument too (one instant for the whole call). The lemmas show that the
  keys of two different members never coincide and that the keys of one member determine its
  arguments, so that no service reads what another one wrote.
\<close>

record time_consts =
  oneSecond :: int
  oneMinute :: int
  oneHour :: int
  oneDay :: int
  oneWeek :: int

text \<open>The documented values of the library's constants, in seconds.\<close>

definition documented_consts :: "time_consts \<Rightarrow> bool" where
  "documented_consts K \<longleftrightarrow>
     oneSecond K = 1 \<and> oneMinute K = 60 \<and> oneHour K = 3600 \<and> oneDay K = 86400 \<and> oneWeek K = 604800"

definition MAX_SAFE_INTEGER :: int where
  "MAX_SAFE_INTEGER = 9007199254740991"

record cache_info =
  ci_key :: string
  ci_ttl :: int

record query_pagination =
  qp_from :: int
  qp_size :: int
  qp_before :: "int option"
  qp_after :: "int option"

datatype tps_interval = TpsInterval_10m | TpsInterval_1h | TpsInterval_1d

fun interval_str :: "tps_interval \<Rightarrow> string" where
  "interval_str TpsInterval_10m = ''10m''"
| "interval_str TpsInterval_1h = ''1h''"
| "interval_str TpsInterval_1d = ''1d''"

section \<open>The members\<close>

definition CacheInfo_About :: "time_consts \<Rightarrow> cache_info" where
  [key_simps]: "CacheInfo_About K = \<lparr>ci_key = ''about'', ci_ttl = oneMinute K * 10\<rparr>"

definition CacheInfo_LastProcessedTimestamp :: "time_consts \<Rightarrow> cache_info" where
  [key_simps]: "CacheInfo_LastProcessedTimestamp K = \<lparr>ci_key = ''lastProcessedTimestamp'', ci_ttl = oneWeek K * 2\<rparr>"

definition CacheInfo_TokenMarketCap :: "time_consts \<Rightarrow> cache_info" where
  [key_simps]: "CacheInfo_TokenMarketCap K = \<lparr>ci_key = ''tokenMarketCap'', ci_ttl = oneMinute K * 10\<rparr>"

definition CacheInfo_Nodes :: "time_consts \<Rightarrow> cache_info" where
  [key_simps]: "CacheInfo_Nodes K = \<lparr>ci_key = ''nodes'', ci_ttl = oneHour K\<rparr>"

definition CacheInfo_ShardIds :: "time_consts \<Rightarrow> cache_info" where
  [key_simps]: "CacheInfo_ShardIds K = \<lparr>ci_key = ''shardIds'', ci_ttl = oneWeek K\<rparr>"

definition CacheInfo_ShardCount :: "time_consts \<Rightarrow> cache_info" where
  [key_simps]: "CacheInfo_ShardCount K = \<lparr>ci_key = ''shardCount'', ci_ttl = oneWeek K\<rparr>"

definition CacheInfo_GenesisTimestamp :: "time_consts \<Rightarrow> cache_info" where
  [key_simps]: "CacheInfo_GenesisTimestamp K = \<lparr>ci_key = ''genesisTimestamp'', ci_ttl = oneWeek K\<rparr>"

definition CacheInfo_ActiveShards :: "time_consts \<Rightarrow> cache_info" where
  [key_simps]: "CacheInfo_ActiveShards K = \<lparr>ci_key = ''shards'', ci_ttl = oneMinute K\<rparr>"

definition CacheInfo_AllEsdtTokens :: "time_consts \<Rightarrow> cache_info" where
  [key_simps]: "CacheInfo_AllEsdtTokens K = \<lparr>ci_key = ''allEsdtTokens'', ci_ttl = oneHour K\<rparr>"

definition CacheInfo_TransactionPool :: "time_consts \<Rightarrow> cache_info" where
  [key_simps]: "CacheInfo_TransactionPool K = \<lparr>ci_key = ''txpool'', ci_ttl = oneSecond K * 6\<rparr>"

definition CacheInfo_ApplicationMostUsed :: "time_consts \<Rightarrow> cache_info" where
  [key_simps]: "CacheInfo_ApplicationMostUsed K = \<lparr>ci_key = ''applicationMostUsed'', ci_ttl = oneHour K\<rparr>"

definition CacheInfo_Identities :: "time_consts \<Rightarrow> cache_info" where
  [key_simps]: "CacheInfo_Identities K = \<lparr>ci_key = ''identities'', ci_ttl = oneMinute K * 15\<rparr>"

definition CacheInfo_Providers :: "time_consts \<Rightarrow> cache_info" where
  [key_simps]: "CacheInfo_Providers K = \<lparr>ci_key = ''providers'', ci_ttl = oneHour K\<rparr>"

definition CacheInfo_ProvidersWithStakeInformation :: "time_consts \<Rightarrow> cache_info" where
  [key_simps]: "CacheInfo_ProvidersWithStakeInformation K = \<lparr>ci_key = ''providersWithStakeInformation'', ci_ttl = oneHour K\<rparr>"

definition CacheInfo_ConfirmedIdentity :: "time_consts \<Rightarrow> string \<Rightarrow> cache_info" where
  [key_simps]: "CacheInfo_ConfirmedIdentity K bls = \<lparr>ci_key = ''confirmedIdentity:'' @ bls, ci_ttl = oneHour K * 6\<rparr>"

definition CacheInfo_ConfirmedProvider :: "time_consts \<Rightarrow> string \<Rightarrow> cache_info" where
  [key_simps]: "CacheInfo_ConfirmedProvider K address = \<lparr>ci_key = ''confirmedProvider:'' @ address, ci_ttl = oneHour K * 6\<rparr>"

definition CacheInfo_ProviderOwner :: "time_consts \<Rightarrow> string \<Rightarrow> cache_info" where
  [key_simps]: "CacheInfo_ProviderOwner K address = \<lparr>ci_key = ''providerOwner:'' @ address, ci_ttl = oneHour K * 6\<rparr>"

definition CacheInfo_TxCount :: "time_consts \<Rightarrow> string \<Rightarrow> cache_info" where
  [key_simps]: "CacheInfo_TxCount K address = \<lparr>ci_key = ''txCount:'' @ address, ci_ttl = oneSecond K * 30\<rparr>"

definition CacheInfo_IdentityProfilesKeybases :: "time_consts \<Rightarrow> cache_info" where
  [key_simps]: "CacheInfo_IdentityProfilesKeybases K = \<lparr>ci_key = ''identityProfilesKeybases'', ci_ttl = oneHour K\<rparr>"

definition CacheInfo_CurrentPrice :: "time_consts \<Rightarrow> cache_info" where
  [key_simps]: "CacheInfo_CurrentPrice K = \<lparr>ci_key = ''currentPrice'', ci_ttl = oneHour K\<rparr>"

definition CacheInfo_Economics :: "time_consts \<Rightarrow> cache_info" where
  [key_simps]: "CacheInfo_Economics K = \<lparr>ci_key = ''economics'', ci_ttl = oneMinute K * 10\<rparr>"

definition CacheInfo_ShardAndEpochBlses :: "time_consts \<Rightarrow> int \<Rightarrow> int \<Rightarrow> cache_info" where
  [key_simps]: "CacheInfo_ShardAndEpochBlses K shard epoch = \<lparr>ci_key = int_str shard @ ''_'' @ int_str epoch, ci_ttl = oneWeek K\<rparr>"

definition CacheInfo_OwnerByEpochAndBls :: "time_consts \<Rightarrow> int \<Rightarrow> string \<Rightarrow> cache_info" where
  [key_simps]: "CacheInfo_OwnerByEpochAndBls K epoch bls = \<lparr>ci_key = ''nodeOwner:'' @ int_str epoch @ '':'' @ bls, ci_ttl = oneDay K\<rparr>"

definition CacheInfo_TransactionProcessorShardNonce :: "time_consts \<Rightarrow> int \<Rightarrow> cache_info" where
  [key_simps]: "CacheInfo_TransactionProcessorShardNonce K shard = \<lparr>ci_key = ''shardNonce:'' @ int_str shard, ci_ttl = MAX_SAFE_INTEGER\<rparr>"

definition CacheInfo_TransactionCompletedShardNonce :: "time_consts \<Rightarrow> int \<Rightarrow> cache_info" where
  [key_simps]: "CacheInfo_TransactionCompletedShardNonce K shard = \<lparr>ci_key = ''completedShardNonce:'' @ int_str shard, ci_ttl = MAX_SAFE_INTEGER\<rparr>"

definition CacheInfo_TransactionBatchShardNonce :: "time_consts \<Rightarrow> int \<Rightarrow> cache_info" where
  [key_simps]: "CacheInfo_TransactionBatchShardNonce K shard = \<lparr>ci_key = ''batchShardNonce:'' @ int_str shard, ci_ttl = MAX_SAFE_INTEGER\<rparr>"

definition CacheInfo_TokenHourChart :: "time_consts \<Rightarrow> string \<Rightarrow> cache_info" where
  [key_simps]: "CacheInfo_TokenHourChart K tokenIdentifier = \<lparr>ci_key = ''tokenHourChart:'' @ tokenIdentifier, ci_ttl = oneMinute K * 10\<rparr>"

definition CacheInfo_TokenDailyChart :: "time_consts \<Rightarrow> string \<Rightarrow> cache_info" where
  [key_simps]: "CacheInfo_TokenDailyChart K tokenIdentifier = \<lparr>ci_key = ''tokenDailyChart:'' @ tokenIdentifier, ci_ttl = oneDay K\<rparr>"

definition CacheInfo_TokenAssets :: "time_consts \<Rightarrow> cache_info" where
  [key_simps]: "CacheInfo_TokenAssets K = \<lparr>ci_key = ''tokenAssets'', ci_ttl = oneDay K\<rparr>"

definition CacheInfo_CollectionRanks :: "time_consts \<Rightarrow> cache_info" where
  [key_simps]: "CacheInfo_CollectionRanks K = \<lparr>ci_key = ''collectionRanks'', ci_ttl = oneDay K\<rparr>"

definition CacheInfo_AccountAssets :: "time_consts \<Rightarrow> cache_info" where
  [key_simps]: "CacheInfo_AccountAssets K = \<lparr>ci_key = ''accountLabels'', ci_ttl = oneDay K\<rparr>"

definition CacheInfo_MexSettings :: "time_consts \<Rightarrow> cache_info" where
  [key_simps]: "CacheInfo_MexSettings K = \<lparr>ci_key = ''mex:settings'', ci_ttl = oneHour K\<rparr>"

definition CacheInfo_MexContracts :: "time_consts \<Rightarrow> cache_info" where
  [key_simps]: "CacheInfo_MexContracts K = \<lparr>ci_key = ''mex:contracts'', ci_ttl = oneHour K\<rparr>"

definition CacheInfo_VerifiedAccounts :: "time_consts \<Rightarrow> cache_info" where
  [key_simps]: "CacheInfo_VerifiedAccounts K = \<lparr>ci_key = ''verifiedAccounts'', ci_ttl = oneMinute K * 10\<rparr>"

definition CacheInfo_TokenTransferProperties :: "time_consts \<Rightarrow> string \<Rightarrow> cache_info" where
  [key_simps]: "CacheInfo_TokenTransferProperties K identifier = \<lparr>ci_key = ''token:transfer:properties:v2:'' @ identifier, ci_ttl = oneHour K\<rparr>"

definition CacheInfo_EsdtProperties :: "time_consts \<Rightarrow> string \<Rightarrow> cache_info" where
  [key_simps]: "CacheInfo_EsdtProperties K identifier = \<lparr>ci_key = ''esdt:v2:'' @ identifier, ci_ttl = oneDay K\<rparr>"

definition CacheInfo_CollectionProperties :: "time_consts \<Rightarrow> string \<Rightarrow> cache_info" where
  [key_simps]: "CacheInfo_CollectionProperties K identifier = \<lparr>ci_key = ''collection:'' @ identifier, ci_ttl = oneDay K\<rparr>"

definition CacheInfo_EsdtAddressesRoles :: "time_consts \<Rightarrow> string \<Rightarrow> cache_info" where
  [key_simps]: "CacheInfo_EsdtAddressesRoles K identifier = \<lparr>ci_key = ''esdt:roles:'' @ identifier, ci_ttl = oneDay K\<rparr>"

definition CacheInfo_EsdtAssets :: "time_consts \<Rightarrow> string \<Rightarrow> cache_info" where
  [key_simps]: "CacheInfo_EsdtAssets K identifier = \<lparr>ci_key = ''esdt:assets:'' @ identifier, ci_ttl = oneHour K\<rparr>"

definition CacheInfo_HistoricalPrice ::
  "time_consts \<Rightarrow> (int \<Rightarrow> string) \<Rightarrow> int \<Rightarrow> string \<Rightarrow> int \<Rightarrow> cache_info" where
  [key_simps]: "CacheInfo_HistoricalPrice K toISODateString now identifier date =
     (let isCurrentDate = toISODateString date = toISODateString now;
          ttl = (if isCurrentDate then oneMinute K * 5 else oneWeek K)
      in \<lparr>ci_key = ''historical-price:'' @ identifier @ '':'' @ toISODateString date, ci_ttl = ttl\<rparr>)"

definition CacheInfo_NftMetadata :: "time_consts \<Rightarrow> string \<Rightarrow> cache_info" where
  [key_simps]: "CacheInfo_NftMetadata K identifier = \<lparr>ci_key = ''nftMetadata:'' @ identifier, ci_ttl = oneMinute K * 10\<rparr>"

definition CacheInfo_NftMedia :: "time_consts \<Rightarrow> string \<Rightarrow> cache_info" where
  [key_simps]: "CacheInfo_NftMedia K identifier = \<lparr>ci_key = ''nftMedia:'' @ identifier, ci_ttl = oneMinute K * 10\<rparr>"

definition CacheInfo_NftMediaProperties :: "time_consts \<Rightarrow> string \<Rightarrow> cache_info" where
  [key_simps]: "CacheInfo_NftMediaProperties K uri = \<lparr>ci_key = ''nftMediaProperties:'' @ uri, ci_ttl = oneHour K\<rparr>"

definition CacheInfo_TokenLockedAccounts :: "time_consts \<Rightarrow> string \<Rightarrow> cache_info" where
  [key_simps]: "CacheInfo_TokenLockedAccounts K identifier = \<lparr>ci_key = ''tokenLockedAccounts:'' @ identifier, ci_ttl = oneHour K\<rparr>"

definition CacheInfo_TokenSupply :: "time_consts \<Rightarrow> string \<Rightarrow> cache_info" where
  [key_simps]: "CacheInfo_TokenSupply K identifier = \<lparr>ci_key = ''tokenSupply:'' @ identifier, ci_ttl = oneHour K\<rparr>"

definition CacheInfo_TokenTransactions :: "time_consts \<Rightarrow> string \<Rightarrow> cache_info" where
  [key_simps]: "CacheInfo_TokenTransactions K identifier = \<lparr>ci_key = ''tokenTransactionsv2:'' @ identifier, ci_ttl = oneHour K\<rparr>"

definition CacheInfo_TokenTransfers :: "time_consts \<Rightarrow> string \<Rightarrow> cache_info" where
  [key_simps]: "CacheInfo_TokenTransfers K identifier = \<lparr>ci_key = ''tokenTransfersv2:'' @ identifier, ci_ttl = oneHour K\<rparr>"

definition CacheInfo_TokenAccounts :: "time_consts \<Rightarrow> string \<Rightarrow> cache_info" where
  [key_simps]: "CacheInfo_TokenAccounts K identifier = \<lparr>ci_key = ''tokenAccountsv2:'' @ identifier, ci_ttl = oneHour K\<rparr>"

definition CacheInfo_TokenAccountsExtra :: "time_consts \<Rightarrow> string \<Rightarrow> cache_info" where
  [key_simps]: "CacheInfo_TokenAccountsExtra K identifier = \<lparr>ci_key = ''tokenAccountsExtra:'' @ identifier, ci_ttl = oneHour K\<rparr>"

definition CacheInfo_TransactionPendingResults :: "time_consts \<Rightarrow> string \<Rightarrow> cache_info" where
  [key_simps]: "CacheInfo_TransactionPendingResults K hash = \<lparr>ci_key = ''transaction:pendingresults:'' @ hash, ci_ttl = oneMinute K * 20\<rparr>"

definition CacheInfo_StakeTopup :: "time_consts \<Rightarrow> string \<Rightarrow> cache_info" where
  [key_simps]: "CacheInfo_StakeTopup K address = \<lparr>ci_key = ''stakeTopup:'' @ address, ci_ttl = oneMinute K * 15\<rparr>"

definition CacheInfo_CollectionType :: "time_consts \<Rightarrow> string \<Rightarrow> cache_info" where
  [key_simps]: "CacheInfo_CollectionType K collectionIdentifier = \<lparr>ci_key = ''collectionType:'' @ collectionIdentifier, ci_ttl = oneMinute K * 10\<rparr>"

definition CacheInfo_MexEconomics :: "time_consts \<Rightarrow> cache_info" where
  [key_simps]: "CacheInfo_MexEconomics K = \<lparr>ci_key = ''mexEconomics'', ci_ttl = oneMinute K * 10\<rparr>"

definition CacheInfo_MexPairs :: "time_consts \<Rightarrow> cache_info" where
  [key_simps]: "CacheInfo_MexPairs K = \<lparr>ci_key = ''mexPairs'', ci_ttl = oneMinute K * 10\<rparr>"

definition CacheInfo_MexPairsWithFarms :: "time_consts \<Rightarrow> cache_info" where
  [key_simps]: "CacheInfo_MexPairsWithFarms K = \<lparr>ci_key = ''mexPairsWithFarms'', ci_ttl = oneMinute K * 10\<rparr>"

definition CacheInfo_MexTokens :: "time_consts \<Rightarrow> cache_info" where
  [key_simps]: "CacheInfo_MexTokens K = \<lparr>ci_key = ''mexTokens'', ci_ttl = oneMinute K * 10\<rparr>"

definition CacheInfo_MexTokenTypes :: "time_consts \<Rightarrow> cache_info" where
  [key_simps]: "CacheInfo_MexTokenTypes K = \<lparr>ci_key = ''mexTokenTypes'', ci_ttl = oneMinute K * 10\<rparr>"

definition CacheInfo_MexFarms :: "time_consts \<Rightarrow> cache_info" where
  [key_simps]: "CacheInfo_MexFarms K = \<lparr>ci_key = ''mexFarms'', ci_ttl = oneMinute K * 10\<rparr>"

definition CacheInfo_StakingProxies :: "time_consts \<Rightarrow> cache_info" where
  [key_simps]: "CacheInfo_StakingProxies K = \<lparr>ci_key = ''mexStakingProxies'', ci_ttl = oneMinute K * 10\<rparr>"

definition CacheInfo_MexTokensIndexed :: "time_consts \<Rightarrow> cache_info" where
  [key_simps]: "CacheInfo_MexTokensIndexed K = \<lparr>ci_key = ''mexTokensIndexed'', ci_ttl = oneMinute K * 10\<rparr>"

definition CacheInfo_MexPrices :: "time_consts \<Rightarrow> cache_info" where
  [key_simps]: "CacheInfo_MexPrices K = \<lparr>ci_key = ''mexPrices'', ci_ttl = oneMinute K * 10\<rparr>"

definition CacheInfo_GenerateThumbnails :: "time_consts \<Rightarrow> string \<Rightarrow> cache_info" where
  [key_simps]: "CacheInfo_GenerateThumbnails K identifier = \<lparr>ci_key = ''generateThumbnails:'' @ identifier, ci_ttl = oneHour K * 24\<rparr>"

definition CacheInfo_CollectionNonScOwner :: "time_consts \<Rightarrow> string \<Rightarrow> cache_info" where
  [key_simps]: "CacheInfo_CollectionNonScOwner K collection = \<lparr>ci_key = ''collectionNonScOwner:'' @ collection, ci_ttl = oneMinute K * 10\<rparr>"

definition CacheInfo_DelegationLegacy :: "time_consts \<Rightarrow> cache_info" where
  [key_simps]: "CacheInfo_DelegationLegacy K = \<lparr>ci_key = ''delegationLegacy'', ci_ttl = oneMinute K * 10\<rparr>"

definition CacheInfo_ExtendedAttributesActivationNonce :: "time_consts \<Rightarrow> cache_info" where
  [key_simps]: "CacheInfo_ExtendedAttributesActivationNonce K = \<lparr>ci_key = ''extendedAttributesActivationNonce2'', ci_ttl = oneHour K\<rparr>"

definition CacheInfo_InitEpoch :: "time_consts \<Rightarrow> cache_info" where
  [key_simps]: "CacheInfo_InitEpoch K = \<lparr>ci_key = ''initEpoch'', ci_ttl = oneDay K\<rparr>"

definition CacheInfo_LockedTokenIDs :: "time_consts \<Rightarrow> cache_info" where
  [key_simps]: "CacheInfo_LockedTokenIDs K = \<lparr>ci_key = ''lockedTokenIDs'', ci_ttl = oneHour K\<rparr>"

definition CacheInfo_CurrentEpoch :: "time_consts \<Rightarrow> cache_info" where
  [key_simps]: "CacheInfo_CurrentEpoch K = \<lparr>ci_key = ''currentEpoch'', ci_ttl = oneMinute K\<rparr>"

definition CacheInfo_TransactionBatch :: "time_consts \<Rightarrow> string \<Rightarrow> string \<Rightarrow> cache_info" where
  [key_simps]: "CacheInfo_TransactionBatch K sender batchId = \<lparr>ci_key = ''transactionbatch:'' @ sender @ '':'' @ batchId, ci_ttl = oneMinute K * 20\<rparr>"

definition CacheInfo_PendingTransaction :: "time_consts \<Rightarrow> string \<Rightarrow> cache_info" where
  [key_simps]: "CacheInfo_PendingTransaction K hash = \<lparr>ci_key = ''pendingtransaction:'' @ hash, ci_ttl = oneMinute K * 15\<rparr>"

definition CacheInfo_AccountsCount :: "time_consts \<Rightarrow> cache_info" where
  [key_simps]: "CacheInfo_AccountsCount K = \<lparr>ci_key = ''account:count'', ci_ttl = oneMinute K\<rparr>"

definition CacheInfo_AccountUsername :: "time_consts \<Rightarrow> string \<Rightarrow> cache_info" where
  [key_simps]: "CacheInfo_AccountUsername K address = \<lparr>ci_key = ''account:'' @ address @ '':username'', ci_ttl = oneWeek K\<rparr>"

definition CacheInfo_AccountDeployedAt :: "time_consts \<Rightarrow> string \<Rightarrow> cache_info" where
  [key_simps]: "CacheInfo_AccountDeployedAt K address = \<lparr>ci_key = ''accountDeployedAt:'' @ address, ci_ttl = oneDay K\<rparr>"

definition CacheInfo_AccountDeployTxHash :: "time_consts \<Rightarrow> string \<Rightarrow> cache_info" where
  [key_simps]: "CacheInfo_AccountDeployTxHash K address = \<lparr>ci_key = ''accountDeployTxHash:'' @ address, ci_ttl = oneDay K\<rparr>"

definition CacheInfo_AccountIsVerified :: "time_consts \<Rightarrow> string \<Rightarrow> cache_info" where
  [key_simps]: "CacheInfo_AccountIsVerified K address = \<lparr>ci_key = ''accountIsVerified:'' @ address, ci_ttl = oneMinute K * 10\<rparr>"

definition CacheInfo_Accounts :: "time_consts \<Rightarrow> query_pagination \<Rightarrow> cache_info" where
  [key_simps]: "CacheInfo_Accounts K queryPagination = \<lparr>ci_key = ''accounts:'' @ int_str (qp_from queryPagination) @ '':'' @ int_str (qp_size queryPagination), ci_ttl = oneMinute K\<rparr>"

definition CacheInfo_BlocksCount :: "time_consts \<Rightarrow> json \<Rightarrow> cache_info" where
  [key_simps]: "CacheInfo_BlocksCount K blockFilter =
     \<lparr>ci_key = ''blocks:count:'' @ JSON_stringify blockFilter, ci_ttl = oneSecond K * 6\<rparr>"

definition computeBlocksLatestTtl :: "time_consts \<Rightarrow> int option \<Rightarrow> int" where
  "computeBlocksLatestTtl K ttl =
     (case ttl of
        None \<Rightarrow> oneSecond K * 12
      | Some ttl \<Rightarrow>
          if ttl \<le> oneMinute K * 5 then oneSecond K * 12
          else if ttl \<le> oneHour K then oneMinute K * 5
          else if ttl \<le> oneHour K * 6 then oneMinute K * 15
          else if ttl \<le> oneDay K then oneMinute K * 30
          else oneHour K)"

definition CacheInfo_BlocksLatest :: "time_consts \<Rightarrow> int option \<Rightarrow> cache_info" where
  [key_simps]: "CacheInfo_BlocksLatest K ttl =
     (let cachingTtl = computeBlocksLatestTtl K ttl
      in \<lparr>ci_key = ''blocks:latest:'' @ int_str cachingTtl, ci_ttl = cachingTtl\<rparr>)"

definition CacheInfo_Delegation :: "time_consts \<Rightarrow> cache_info" where
  [key_simps]: "CacheInfo_Delegation K = \<lparr>ci_key = ''delegation'', ci_ttl = oneMinute K * 10\<rparr>"

definition CacheInfo_Constants :: "time_consts \<Rightarrow> cache_info" where
  [key_simps]: "CacheInfo_Constants K = \<lparr>ci_key = ''constants'', ci_ttl = oneDay K\<rparr>"

definition CacheInfo_NftOwnersCount :: "time_consts \<Rightarrow> string \<Rightarrow> cache_info" where
  [key_simps]: "CacheInfo_NftOwnersCount K identifier = \<lparr>ci_key = ''nftOwnerCount:'' @ identifier, ci_ttl = oneMinute K\<rparr>"

definition CacheInfo_NftTags :: "time_consts \<Rightarrow> query_pagination \<Rightarrow> cache_info" where
  [key_simps]: "CacheInfo_NftTags K pagination = \<lparr>ci_key = ''nftTags:'' @ int_str (qp_from pagination) @ '':'' @ int_str (qp_size pagination), ci_ttl = oneHour K\<rparr>"

definition CacheInfo_NftTagCount :: "time_consts \<Rightarrow> cache_info" where
  [key_simps]: "CacheInfo_NftTagCount K = \<lparr>ci_key = ''nftTagsCount'', ci_ttl = oneHour K\<rparr>"

definition CacheInfo_NodeVersions :: "time_consts \<Rightarrow> cache_info" where
  [key_simps]: "CacheInfo_NodeVersions K = \<lparr>ci_key = ''nodeVersions'', ci_ttl = oneMinute K\<rparr>"

definition CacheInfo_DelegationProviders :: "time_consts \<Rightarrow> cache_info" where
  [key_simps]: "CacheInfo_DelegationProviders K = \<lparr>ci_key = ''delegationProviders'', ci_ttl = oneMinute K\<rparr>"

definition CacheInfo_DelegationProvider :: "time_consts \<Rightarrow> string \<Rightarrow> cache_info" where
  [key_simps]: "CacheInfo_DelegationProvider K address = \<lparr>ci_key = ''delegationProvider:'' @ address, ci_ttl = oneMinute K\<rparr>"

definition CacheInfo_GlobalStake :: "time_consts \<Rightarrow> cache_info" where
  [key_simps]: "CacheInfo_GlobalStake K = \<lparr>ci_key = ''stake'', ci_ttl = oneMinute K * 10\<rparr>"

definition CacheInfo_FullWaitingList :: "time_consts \<Rightarrow> cache_info" where
  [key_simps]: "CacheInfo_FullWaitingList K = \<lparr>ci_key = ''waiting-list'', ci_ttl = oneMinute K * 5\<rparr>"

definition CacheInfo_PendingUploadAsset :: "time_consts \<Rightarrow> string \<Rightarrow> cache_info" where
  [key_simps]: "CacheInfo_PendingUploadAsset K identifier = \<lparr>ci_key = ''pendingUploadAsset:'' @ identifier, ci_ttl = oneHour K * 12\<rparr>"

definition CacheInfo_PendingMediaGet :: "time_consts \<Rightarrow> string \<Rightarrow> cache_info" where
  [key_simps]: "CacheInfo_PendingMediaGet K identifier = \<lparr>ci_key = ''pendingMediaGet:'' @ identifier, ci_ttl = oneHour K * 12\<rparr>"

definition CacheInfo_PendingMetadataGet :: "time_consts \<Rightarrow> string \<Rightarrow> cache_info" where
  [key_simps]: "CacheInfo_PendingMetadataGet K identifier = \<lparr>ci_key = ''pendingMetadataGet:'' @ identifier, ci_ttl = oneHour K * 12\<rparr>"

definition CacheInfo_PendingGenerateThumbnail :: "time_consts \<Rightarrow> string \<Rightarrow> cache_info" where
  [key_simps]: "CacheInfo_PendingGenerateThumbnail K identifier = \<lparr>ci_key = ''pendingGenerateThumbnail:'' @ identifier, ci_ttl = oneHour K * 12\<rparr>"

definition CacheInfo_Username :: "time_consts \<Rightarrow> string \<Rightarrow> cache_info" where
  [key_simps]: "CacheInfo_Username K address = \<lparr>ci_key = ''username:'' @ address, ci_ttl = oneHour K\<rparr>"

definition CacheInfo_ContractUpgrades :: "time_consts \<Rightarrow> string \<Rightarrow> cache_info" where
  [key_simps]: "CacheInfo_ContractUpgrades K address = \<lparr>ci_key = ''contractUpgrades:'' @ address, ci_ttl = oneHour K\<rparr>"

definition CacheInfo_Setting :: "time_consts \<Rightarrow> string \<Rightarrow> cache_info" where
  [key_simps]: "CacheInfo_Setting K name = \<lparr>ci_key = ''api:settings:'' @ name, ci_ttl = oneHour K\<rparr>"

definition CacheInfo_DataApiTokens :: "time_consts \<Rightarrow> cache_info" where
  [key_simps]: "CacheInfo_DataApiTokens K = \<lparr>ci_key = ''data-api:tokens'', ci_ttl = oneMinute K * 10\<rparr>"

definition CacheInfo_AddressEsdtTrieTimeout :: "time_consts \<Rightarrow> string \<Rightarrow> cache_info" where
  [key_simps]: "CacheInfo_AddressEsdtTrieTimeout K address = \<lparr>ci_key = ''addressEsdtTrieTimeout:'' @ address, ci_ttl = oneHour K\<rparr>"

definition CacheInfo_GithubKeysValidated :: "time_consts \<Rightarrow> string \<Rightarrow> cache_info" where
  [key_simps]: "CacheInfo_GithubKeysValidated K identity = \<lparr>ci_key = ''githubKeysValidated:'' @ identity, ci_ttl = oneDay K\<rparr>"

definition CacheInfo_GithubProfileValidated :: "time_consts \<Rightarrow> string \<Rightarrow> cache_info" where
  [key_simps]: "CacheInfo_GithubProfileValidated K identity = \<lparr>ci_key = ''githubProfileValidated:'' @ identity, ci_ttl = oneDay K\<rparr>"

definition CacheInfo_DataApiTokenPrice ::
  "time_consts \<Rightarrow> (int \<Rightarrow> string) \<Rightarrow> int \<Rightarrow> string \<Rightarrow> int option \<Rightarrow> cache_info" where
  [key_simps]: "CacheInfo_DataApiTokenPrice K toISODateString now identifier timestamp =
     (let priceDate = (case timestamp of None \<Rightarrow> now | Some t \<Rightarrow> if t = 0 then now else t * 1000);
          isCurrentDate = toISODateString priceDate = toISODateString now;
          ttl = (if isCurrentDate then oneMinute K * 5 else oneWeek K);
          key = toISODateString priceDate
      in \<lparr>ci_key = ''data-api:price:'' @ identifier @ '':'' @ key, ci_ttl = ttl\<rparr>)"

definition CacheInfo_TpsNonceByShard :: "time_consts \<Rightarrow> int \<Rightarrow> cache_info" where
  [key_simps]: "CacheInfo_TpsNonceByShard K shardId = \<lparr>ci_key = ''tpsCurrentNonce:'' @ int_str shardId, ci_ttl = oneDay K\<rparr>"

definition CacheInfo_TpsByTimestampAndFrequency :: "time_consts \<Rightarrow> int \<Rightarrow> int \<Rightarrow> cache_info" where
  [key_simps]: "CacheInfo_TpsByTimestampAndFrequency K timestamp frequency = \<lparr>ci_key = ''tpsTransactions:'' @ int_str timestamp @ '':'' @ int_str frequency, ci_ttl = frequency * 300\<rparr>"

definition CacheInfo_TpsHistoryByInterval :: "time_consts \<Rightarrow> tps_interval \<Rightarrow> cache_info" where
  [key_simps]: "CacheInfo_TpsHistoryByInterval K interval = \<lparr>ci_key = ''tpsHistory:'' @ interval_str interval, ci_ttl = oneMinute K\<rparr>"

definition CacheInfo_TpsMaxByInterval :: "time_consts \<Rightarrow> tps_interval \<Rightarrow> cache_info" where
  [key_simps]: "CacheInfo_TpsMaxByInterval K interval = \<lparr>ci_key = ''tpsMax:'' @ interval_str interval, ci_ttl = oneDay K\<rparr>"

definition CacheInfo_TransactionCountByShard :: "time_consts \<Rightarrow> int \<Rightarrow> cache_info" where
  [key_simps]: "CacheInfo_TransactionCountByShard K shardId = \<lparr>ci_key = ''transactionCount:'' @ int_str shardId, ci_ttl = oneHour K\<rparr>"

definition CacheInfo_NodesAuctions :: "time_consts \<Rightarrow> cache_info" where
  [key_simps]: "CacheInfo_NodesAuctions K = \<lparr>ci_key = ''nodesAuctions'', ci_ttl = oneMinute K\<rparr>"

definition CacheInfo_ValidatorAuctions :: "time_consts \<Rightarrow> cache_info" where
  [key_simps]: "CacheInfo_ValidatorAuctions K = \<lparr>ci_key = ''validatorAuctions'', ci_ttl = oneHour K\<rparr>"

definition CacheInfo_Applications :: "time_consts \<Rightarrow> query_pagination \<Rightarrow> cache_info" where
  [key_simps]: "CacheInfo_Applications K queryPagination = \<lparr>ci_key = ''applications:'' @ int_str (qp_from queryPagination) @ '':'' @ int_str (qp_size queryPagination), ci_ttl = oneMinute K\<rparr>"

definition CacheInfo_DeepHistoryBlock :: "time_consts \<Rightarrow> int \<Rightarrow> int \<Rightarrow> cache_info" where
  [key_simps]: "CacheInfo_DeepHistoryBlock K timestamp shardId = \<lparr>ci_key = ''deepHistoryBlock:'' @ int_str timestamp @ '':'' @ int_str shardId, ci_ttl = oneMinute K * 10\<rparr>"

definition CacheInfo_PpuMetadataByShard :: "time_consts \<Rightarrow> int \<Rightarrow> cache_info" where
  [key_simps]: "CacheInfo_PpuMetadataByShard K shardId = \<lparr>ci_key = ''ppuMetadata:shard:'' @ int_str shardId, ci_ttl = oneSecond K * 30\<rparr>"

section \<open>The members as one relation\<close>

text \<open>
  \<open>cache_member m c\<close>: the entry \<open>c\<close> is what the member \<open>m\<close> of the class gives, for
  some arguments.
\<close>

inductive cache_member :: "string \<Rightarrow> cache_info \<Rightarrow> bool" where
   "cache_member ''About'' (CacheInfo_About K)"
| "cache_member ''LastProcessedTimestamp'' (CacheInfo_LastProcessedTimestamp K)"
| "cache_member ''TokenMarketCap'' (CacheInfo_TokenMarketCap K)"
| "cache_member ''Nodes'' (CacheInfo_Nodes K)"
| "cache_member ''ShardIds'' (CacheInfo_ShardIds K)"
| "cache_member ''ShardCount'' (CacheInfo_ShardCount K)"
| "cache_member ''GenesisTimestamp'' (CacheInfo_GenesisTimestamp K)"
| "cache_member ''ActiveShards'' (CacheInfo_ActiveShards K)"
| "cache_member ''AllEsdtTokens'' (CacheInfo_AllEsdtTokens K)"
| "cache_member ''TransactionPool'' (CacheInfo_TransactionPool K)"
| "cache_member ''ApplicationMostUsed'' (CacheInfo_ApplicationMostUsed K)"
| "cache_member ''Identities'' (CacheInfo_Identities K)"
| "cache_member ''Providers'' (CacheInfo_Providers K)"
| "cache_member ''ProvidersWithStakeInformation'' (CacheInfo_ProvidersWithStakeInformation K)"
| "cache_member ''ConfirmedIdentity'' (CacheInfo_ConfirmedIdentity K bls)"
| "cache_member ''ConfirmedProvider'' (CacheInfo_ConfirmedProvider K address)"
| "cache_member ''ProviderOwner'' (CacheInfo_ProviderOwner K address)"
| "cache_member ''TxCount'' (CacheInfo_TxCount K address)"
| "cache_member ''IdentityProfilesKeybases'' (CacheInfo_IdentityProfilesKeybases K)"
| "cache_member ''CurrentPrice'' (CacheInfo_CurrentPrice K)"
| "cache_member ''Economics'' (CacheInfo_Economics K)"
| "cache_member ''ShardAndEpochBlses'' (CacheInfo_ShardAndEpochBlses K shard epoch)"
| "cache_member ''OwnerByEpochAndBls'' (CacheInfo_OwnerByEpochAndBls K epoch bls)"
| "cache_member ''TransactionProcessorShardNonce'' (CacheInfo_TransactionProcessorShardNonce K shard)"
| "cache_member ''TransactionCompletedShardNonce'' (CacheInfo_TransactionCompletedShardNonce K shard)"
| "cache_member ''TransactionBatchShardNonce'' (CacheInfo_TransactionBatchShardNonce K shard)"
| "cache_member ''TokenHourChart'' (CacheInfo_TokenHourChart K tokenIdentifier)"
| "cache_member ''TokenDailyChart'' (CacheInfo_TokenDailyChart K tokenIdentifier)"
| "cache_member ''TokenAssets'' (CacheInfo_TokenAssets K)"
| "cache_member ''CollectionRanks'' (CacheInfo_CollectionRanks K)"
| "cache_member ''AccountAssets'' (CacheInfo_AccountAssets K)"
| "cache_member ''MexSettings'' (CacheInfo_MexSettings K)"
| "cache_member ''MexContracts'' (CacheInfo_MexContracts K)"
| "cache_member ''VerifiedAccounts'' (CacheInfo_VerifiedAccounts K)"
| "cache_member ''TokenTransferProperties'' (CacheInfo_TokenTransferProperties K identifier)"
| "cache_member ''EsdtProperties'' (CacheInfo_EsdtProperties K identifier)"
| "cache_member ''CollectionProperties'' (CacheInfo_CollectionProperties K identifier)"
| "cache_member ''EsdtAddressesRoles'' (CacheInfo_EsdtAddressesRoles K identifier)"
| "cache_member ''EsdtAssets'' (CacheInfo_EsdtAssets K identifier)"
| "cache_member ''HistoricalPrice'' (CacheInfo_HistoricalPrice K toISODateString now identifier date)"
| "cache_member ''NftMetadata'' (CacheInfo_NftMetadata K identifier)"
| "cache_member ''NftMedia'' (CacheInfo_NftMedia K identifier)"
| "cache_member ''NftMediaProperties'' (CacheInfo_NftMediaProperties K uri)"
| "cache_member ''TokenLockedAccounts'' (CacheInfo_TokenLockedAccounts K identifier)"
| "cache_member ''TokenSupply'' (CacheInfo_TokenSupply K identifier)"
| "cache_member ''TokenTransactions'' (CacheInfo_TokenTransactions K identifier)"
| "cache_member ''TokenTransfers'' (CacheInfo_TokenTransfers K identifier)"
| "cache_member ''TokenAccounts'' (CacheInfo_TokenAccounts K identifier)"
| "cache_member ''TokenAccountsExtra'' (CacheInfo_TokenAccountsExtra K identifier)"
| "cache_member ''TransactionPendingResults'' (CacheInfo_TransactionPendingResults K hash)"
| "cache_member ''StakeTopup'' (CacheInfo_StakeTopup K address)"
| "cache_member ''CollectionType'' (CacheInfo_CollectionType K collectionIdentifier)"
| "cache_member ''MexEconomics'' (CacheInfo_MexEconomics K)"
| "cache_member ''MexPairs'' (CacheInfo_MexPairs K)"
| "cache_member ''MexPairsWithFarms'' (CacheInfo_MexPairsWithFarms K)"
| "cache_member ''MexTokens'' (CacheInfo_MexTokens K)"
| "cache_member ''MexTokenTypes'' (CacheInfo_MexTokenTypes K)"
| "cache_member ''MexFarms'' (CacheInfo_MexFarms K)"
| "cache_member ''StakingProxies'' (CacheInfo_StakingProxies K)"
| "cache_member ''MexTokensIndexed'' (CacheInfo_MexTokensIndexed K)"
| "cache_member ''MexPrices'' (CacheInfo_MexPrices K)"
| "cache_member ''GenerateThumbnails'' (CacheInfo_GenerateThumbnails K identifier)"
| "cache_member ''CollectionNonScOwner'' (CacheInfo_CollectionNonScOwner K collection)"
| "cache_member ''DelegationLegacy'' (CacheInfo_DelegationLegacy K)"
| "cache_member ''ExtendedAttributesActivationNonce'' (CacheInfo_ExtendedAttributesActivationNonce K)"
| "cache_member ''InitEpoch'' (CacheInfo_InitEpoch K)"
| "cache_member ''LockedTokenIDs'' (CacheInfo_LockedTokenIDs K)"
| "cache_member ''CurrentEpoch'' (CacheInfo_CurrentEpoch K)"
| "cache_member ''TransactionBatch'' (CacheInfo_TransactionBatch K sender batchId)"
| "cache_member ''PendingTransaction'' (CacheInfo_PendingTransaction K hash)"
| "cache_member ''AccountsCount'' (CacheInfo_AccountsCount K)"
| "cache_member ''AccountUsername'' (CacheInfo_AccountUsername K address)"
| "cache_member ''AccountDeployedAt'' (CacheInfo_AccountDeployedAt K address)"
| "cache_member ''AccountDeployTxHash'' (CacheInfo_AccountDeployTxHash K address)"
| "cache_member ''AccountIsVerified'' (CacheInfo_AccountIsVerified K address)"
| "cache_member ''Accounts'' (CacheInfo_Accounts K queryPagination)"
| "cache_member ''BlocksCount'' (CacheInfo_BlocksCount K blockFilter)"
| "cache_member ''BlocksLatest'' (CacheInfo_BlocksLatest K ttl)"
| "cache_member ''Delegation'' (CacheInfo_Delegation K)"
| "cache_member ''Constants'' (CacheInfo_Constants K)"
| "cache_member ''NftOwnersCount'' (CacheInfo_NftOwnersCount K identifier)"
| "cache_member ''NftTags'' (CacheInfo_NftTags K pagination)"
| "cache_member ''NftTagCount'' (CacheInfo_NftTagCount K)"
| "cache_member ''NodeVersions'' (CacheInfo_NodeVersions K)"
| "cache_member ''DelegationProviders'' (CacheInfo_DelegationProviders K)"
| "cache_member ''DelegationProvider'' (CacheInfo_DelegationProvider K address)"
| "cache_member ''GlobalStake'' (CacheInfo_GlobalStake K)"
| "cache_member ''FullWaitingList'' (CacheInfo_FullWaitingList K)"
| "cache_member ''PendingUploadAsset'' (CacheInfo_PendingUploadAsset K identifier)"
| "cache_member ''PendingMediaGet'' (CacheInfo_PendingMediaGet K identifier)"
| "cache_member ''PendingMetadataGet'' (CacheInfo_PendingMetadataGet K identifier)"
| "cache_member ''PendingGenerateThumbnail'' (CacheInfo_PendingGenerateThumbnail K identifier)"
| "cache_member ''Username'' (CacheInfo_Username K address)"
| "cache_member ''ContractUpgrades'' (CacheInfo_ContractUpgrades K address)"
| "cache_member ''Setting'' (CacheInfo_Setting K name)"
| "cache_member ''DataApiTokens'' (CacheInfo_DataApiTokens K)"
| "cache_member ''AddressEsdtTrieTimeout'' (CacheInfo_AddressEsdtTrieTimeout K address)"
| "cache_member ''GithubKeysValidated'' (CacheInfo_GithubKeysValidated K identity)"
| "cache_member ''GithubProfileValidated'' (CacheInfo_GithubProfileValidated K identity)"
| "cache_member ''DataApiTokenPrice'' (CacheInfo_DataApiTokenPrice K toISODateString now identifier timestamp)"
| "cache_member ''TpsNonceByShard'' (CacheInfo_TpsNonceByShard K shardId)"
| "cache_member ''TpsByTimestampAndFrequency'' (CacheInfo_TpsByTimestampAndFrequency K timestamp frequency)"
| "cache_member ''TpsHistoryByInterval'' (CacheInfo_TpsHistoryByInterval K interval)"
| "cache_member ''TpsMaxByInterval'' (CacheInfo_TpsMaxByInterval K interval)"
| "cache_member ''TransactionCountByShard'' (CacheInfo_TransactionCountByShard K shardId)"
| "cache_member ''NodesAuctions'' (CacheInfo_NodesAuctions K)"
| "cache_member ''ValidatorAuctions'' (CacheInfo_ValidatorAuctions K)"
| "cache_member ''Applications'' (CacheInfo_Applications K queryPagination)"
| "cache_member ''DeepHistoryBlock'' (CacheInfo_DeepHistoryBlock K timestamp shardId)"
| "cache_member ''PpuMetadataByShard'' (CacheInfo_PpuMetadataByShard K shardId)"

section \<open>Which member owns a key\<close>

definition static_keys :: "(string \<times> string) list" where
  "static_keys = [
     (''about'', ''About''),
     (''lastProcessedTimestamp'', ''LastProcessedTimestamp''),
     (''tokenMarketCap'', ''TokenMarketCap''),
     (''nodes'', ''Nodes''),
     (''shardIds'', ''ShardIds''),
     (''shardCount'', ''ShardCount''),
     (''genesisTimestamp'', ''GenesisTimestamp''),
     (''shards'', ''ActiveShards''),
     (''allEsdtTokens'', ''AllEsdtTokens''),
     (''txpool'', ''TransactionPool''),
     (''applicationMostUsed'', ''ApplicationMostUsed''),
     (''identities'', ''Identities''),
     (''providers'', ''Providers''),
     (''providersWithStakeInformation'', ''ProvidersWithStakeInformation''),
     (''identityProfilesKeybases'', ''IdentityProfilesKeybases''),
     (''currentPrice'', ''CurrentPrice''),
     (''economics'', ''Economics''),
     (''tokenAssets'', ''TokenAssets''),
     (''collectionRanks'', ''CollectionRanks''),
     (''accountLabels'', ''AccountAssets''),
     (''mex:settings'', ''MexSettings''),
     (''mex:contracts'', ''MexContracts''),
     (''verifiedAccounts'', ''VerifiedAccounts''),
     (''mexEconomics'', ''MexEconomics''),
     (''mexPairs'', ''MexPairs''),
     (''mexPairsWithFarms'', ''MexPairsWithFarms''),
     (''mexTokens'', ''MexTokens''),
     (''mexTokenTypes'', ''MexTokenTypes''),
     (''mexFarms'', ''MexFarms''),
     (''mexStakingProxies'', ''StakingProxies''),
     (''mexTokensIndexed'', ''MexTokensIndexed''),
     (''mexPrices'', ''MexPrices''),
     (''delegationLegacy'', ''DelegationLegacy''),
     (''extendedAttributesActivationNonce2'', ''ExtendedAttributesActivationNonce''),
     (''initEpoch'', ''InitEpoch''),
     (''lockedTokenIDs'', ''LockedTokenIDs''),
     (''currentEpoch'', ''CurrentEpoch''),
     (''account:count'', ''AccountsCount''),
     (''delegation'', ''Delegation''),
     (''constants'', ''Constants''),
     (''nftTagsCount'', ''NftTagCount''),
     (''nodeVersions'', ''NodeVersions''),
     (''delegationProviders'', ''DelegationProviders''),
     (''stake'', ''GlobalStake''),
     (''waiting-list'', ''FullWaitingList''),
     (''data-api:tokens'', ''DataApiTokens''),
     (''nodesAuctions'', ''NodesAuctions''),
     (''validatorAuctions'', ''ValidatorAuctions'')]"

definition key_prefixes :: "(string \<times> string) list" where
  "key_prefixes = [
     (''confirmedIdentity:'', ''ConfirmedIdentity''),
     (''confirmedProvider:'', ''ConfirmedProvider''),
     (''providerOwner:'', ''ProviderOwner''),
     (''txCount:'', ''TxCount''),
     (''nodeOwner:'', ''OwnerByEpochAndBls''),
     (''shardNonce:'', ''TransactionProcessorShardNonce''),
     (''completedShardNonce:'', ''TransactionCompletedShardNonce''),
     (''batchShardNonce:'', ''TransactionBatchShardNonce''),
     (''tokenHourChart:'', ''TokenHourChart''),
     (''tokenDailyChart:'', ''TokenDailyChart''),
     (''token:transfer:properties:v2:'', ''TokenTransferProperties''),
     (''esdt:v2:'', ''EsdtProperties''),
     (''collection:'', ''CollectionProperties''),
     (''esdt:roles:'', ''EsdtAddressesRoles''),
     (''esdt:assets:'', ''EsdtAssets''),
     (''historical-price:'', ''HistoricalPrice''),
     (''nftMetadata:'', ''NftMetadata''),
     (''nftMedia:'', ''NftMedia''),
     (''nftMediaProperties:'', ''NftMediaProperties''),
     (''tokenLockedAccounts:'', ''TokenLockedAccounts''),
     (''tokenSupply:'', ''TokenSupply''),
     (''tokenTransactionsv2:'', ''TokenTransactions''),
     (''tokenTransfersv2:'', ''TokenTransfers''),
     (''tokenAccountsv2:'', ''TokenAccounts''),
     (''tokenAccountsExtra:'', ''TokenAccountsExtra''),
     (''transaction:pendingresults:'', ''TransactionPendingResults''),
     (''stakeTopup:'', ''StakeTopup''),
     (''collectionType:'', ''CollectionType''),
     (''generateThumbnails:'', ''GenerateThumbnails''),
     (''collectionNonScOwner:'', ''CollectionNonScOwner''),
     (''transactionbatch:'', ''TransactionBatch''),
     (''pendingtransaction:'', ''PendingTransaction''),
     (''account:'', ''AccountUsername''),
     (''accountDeployedAt:'', ''AccountDeployedAt''),
     (''accountDeployTxHash:'', ''AccountDeployTxHash''),
     (''accountIsVerified:'', ''AccountIsVerified''),
     (''accounts:'', ''Accounts''),
     (''blocks:count:'', ''BlocksCount''),
     (''blocks:latest:'', ''BlocksLatest''),
     (''nftOwnerCount:'', ''NftOwnersCount''),
     (''nftTags:'', ''NftTags''),
     (''delegationProvider:'', ''DelegationProvider''),
     (''pendingUploadAsset:'', ''PendingUploadAsset''),
     (''pendingMediaGet:'', ''PendingMediaGet''),
     (''pendingMetadataGet:'', ''PendingMetadataGet''),
     (''pendingGenerateThumbnail:'', ''PendingGenerateThumbnail''),
     (''username:'', ''Username''),
     (''contractUpgrades:'', ''ContractUpgrades''),
     (''api:settings:'', ''Setting''),
     (''addressEsdtTrieTimeout:'', ''AddressEsdtTrieTimeout''),
     (''githubKeysValidated:'', ''GithubKeysValidated''),
     (''githubProfileValidated:'', ''GithubProfileValidated''),
     (''data-api:price:'', ''DataApiTokenPrice''),
     (''tpsCurrentNonce:'', ''TpsNonceByShard''),
     (''tpsTransactions:'', ''TpsByTimestampAndFrequency''),
     (''tpsHistory:'', ''TpsHistoryByInterval''),
     (''tpsMax:'', ''TpsMaxByInterval''),
     (''transactionCount:'', ''TransactionCountByShard''),
     (''applications:'', ''Applications''),
     (''deepHistoryBlock:'', ''DeepHistoryBlock''),
     (''ppuMetadata:shard:'', ''PpuMetadataByShard'')]"

definition key_owner :: "string \<Rightarrow> string option" where
  "key_owner k =
     (case map_of static_keys k of
        Some m \<Rightarrow> Some m
      | None \<Rightarrow>
          (case k of
             [] \<Rightarrow> None
           | c # _ \<Rightarrow>
               if is_digit c \<or> c = CHR ''-'' then Some ''ShardAndEpochBlses''
               else map_option snd (find (\<lambda>(p, m). startsWith k p) key_prefixes)))"


lemma int_str_hd: "is_digit (hd (int_str i)) \<or> hd (int_str i) = CHR ''-''"
  using int_str_chars[of "hd (int_str i)" i] by simp

lemma int_str_Cons: "\<exists>c cs. int_str i = c # cs \<and> (is_digit c \<or> c = CHR ''-'')"
  using int_str_hd[of i] by (cases "int_str i") auto

lemma static_keys_letter: "(k, m) \<in> set static_keys \<Longrightarrow> \<not> is_digit (hd k) \<and> hd k \<noteq> CHR ''-''"
  by (auto simp: static_keys_def is_digit_def)

lemma map_of_static_digit:
  assumes "is_digit c \<or> c = CHR ''-''"
  shows "map_of static_keys (c # cs) = None"
proof (rule ccontr)
  assume "map_of static_keys (c # cs) \<noteq> None"
  then obtain m where "(c # cs, m) \<in> set static_keys"
    by (auto dest: map_of_SomeD)
  from static_keys_letter [OF this] assms show False by simp
qed

lemma key_owner_shard: "key_owner (int_str i @ s) = Some ''ShardAndEpochBlses''"
proof -
  obtain c cs where eq: "int_str i = c # cs" and c: "is_digit c \<or> c = CHR ''-''"
    using int_str_Cons by blast
  show ?thesis
    using map_of_static_digit [OF c] c by (simp add: key_owner_def eq)
qed

lemma username_not_count: "a @ '':username'' \<noteq> ''count''"
proof
  assume "a @ '':username'' = ''count''"
  then have "length (a @ '':username'') = length ''count''" by (rule arg_cong)
  then show False by simp
qed

lemma account_username_key:
  "key_owner (''account:'' @ a @ '':username'') = Some ''AccountUsername''"
  using username_not_count[of a]
  by (simp add: key_owner_def static_keys_def key_prefixes_def startsWith_def is_digit_def)


text \<open>
  The two tables are prefix-free: no static key begins with a key prefix (the prefix of
  \<open>AccountUsername\<close> apart, whose keys end in \<open>:username\<close>), and no key prefix begins with
  another. Both facts are finite and evaluated.
\<close>

lemma static_keys_distinct: "distinct (map fst static_keys)"
  by code_simp

lemma static_keys_no_prefix:
  "\<forall>x \<in> set static_keys. \<forall>y \<in> set key_prefixes. fst y = ''account:'' \<or> \<not> startsWith (fst x) (fst y)"
  by code_simp

lemma key_prefixes_free:
  "\<forall>x \<in> set key_prefixes. \<forall>y \<in> set key_prefixes. x = y \<or> \<not> startsWith (fst x) (fst y)"
  by code_simp

lemma key_prefixes_letter:
  "\<forall>x \<in> set key_prefixes. fst x \<noteq> [] \<and> \<not> is_digit (hd (fst x)) \<and> hd (fst x) \<noteq> CHR ''-''"
  by code_simp

lemma key_owner_static:
  assumes "(k, m) \<in> set static_keys"
  shows "key_owner k = Some m"
  unfolding key_owner_def map_of_is_SomeI [OF static_keys_distinct assms] by simp

lemma key_owner_prefix:
  assumes mem: "(p, m) \<in> set key_prefixes" and neq: "p \<noteq> ''account:''"
  shows "key_owner (p @ s) = Some m"
proof -
  have no_static: "map_of static_keys (p @ s) = None"
  proof (rule ccontr)
    assume "map_of static_keys (p @ s) \<noteq> None"
    then obtain n where "(p @ s, n) \<in> set static_keys" by (auto dest: map_of_SomeD)
    from bspec [OF bspec [OF static_keys_no_prefix this] mem] neq show False by simp
  qed
  obtain q n where found: "find (\<lambda>(r, l). startsWith (p @ s) r) key_prefixes = Some (q, n)"
    using mem by (cases "find (\<lambda>(r, l). startsWith (p @ s) r) key_prefixes")
      (auto simp: find_None_iff)
  then have q: "(q, n) \<in> set key_prefixes" "startsWith (p @ s) q"
    by (auto simp: find_Some_iff) (metis nth_mem)
  have "prefix q p \<or> prefix p q"
    using q(2) by (auto simp: startsWith_def prefix_def append_eq_append_conv2)
  then have "(q, n) = (p, m)"
    using bspec [OF bspec [OF key_prefixes_free mem] q(1)] bspec [OF bspec [OF key_prefixes_free q(1)] mem]
    by (auto simp: startsWith_def)
  moreover obtain c cs where "p = c # cs" "\<not> is_digit c" "c \<noteq> CHR ''-''"
    using bspec [OF key_prefixes_letter mem] by (cases p) auto
  ultimately show ?thesis
    using no_static found by (simp add: key_owner_def)
qed

lemma cache_member_owner: "cache_member m ci \<Longrightarrow> key_owner (ci_key ci) = Some m"
  by (erule cache_member.cases;
      simp only: key_simps Let_def cache_info.simps;
      (rule key_owner_shard | rule account_username_key
       | (rule key_owner_prefix, unfold key_prefixes_def, (rule list.set_intros)+, (simp; fail))
       | (rule key_owner_static, unfold static_keys_def, (rule list.set_intros)+)))

section \<open>Keys of one member\<close>

text \<open>
  What the services rely on when they use the keys of one member as addresses of a key-value
  store: on the arguments they use, the key determines the arguments.
\<close>

locale key_family =
  fixes key_of :: "'a \<Rightarrow> string" and valid :: "'a \<Rightarrow> bool"
  assumes key_inj: "valid x \<Longrightarrow> valid y \<Longrightarrow> key_of x = key_of y \<Longrightarrow> x = y"
begin

lemma inj_on_valid: "inj_on key_of {x. valid x}"
  by (auto intro: inj_onI key_inj)

lemma store_other: "valid x \<Longrightarrow> valid y \<Longrightarrow> x \<noteq> y \<Longrightarrow> (m(key_of x := v)) (key_of y) = m (key_of y)"
  using key_inj by auto

lemma store_lookup:
  "valid x \<Longrightarrow> valid y \<Longrightarrow> (m(key_of x := v)) (key_of y) = (if x = y then v else m (key_of y))"
  using key_inj by auto

lemma distinct_keys: "\<forall>x \<in> set xs. valid x \<Longrightarrow> distinct xs \<Longrightarrow> distinct (map key_of xs)"
  using inj_on_valid by (auto simp: distinct_map intro: inj_on_subset)

end

interpretation pending_key: key_family "\<lambda>h. ci_key (CacheInfo_PendingTransaction K h)" "\<lambda>_. True"
  by unfold_locales (simp add: key_simps)

interpretation batch_key: key_family
  "\<lambda>(sender, batchId). ci_key (CacheInfo_TransactionBatch K sender batchId)"
  "\<lambda>(sender, batchId). CHR '':'' \<notin> set sender"
  by unfold_locales (auto simp: key_simps sep_inj)

interpretation owner_key: key_family
  "\<lambda>(epoch, bls). ci_key (CacheInfo_OwnerByEpochAndBls K epoch bls)" "\<lambda>_. True"
  by unfold_locales (auto simp: key_simps sep_inj int_str_free)

interpretation txcount_key: key_family "\<lambda>a. ci_key (CacheInfo_TxCount K a)" "\<lambda>_. True"
  by unfold_locales (simp add: key_simps)

interpretation esdt_key: key_family "\<lambda>i. ci_key (CacheInfo_EsdtProperties K i)" "\<lambda>_. True"
  by unfold_locales (simp add: key_simps)

interpretation transfer_key: key_family "\<lambda>i. ci_key (CacheInfo_TokenTransferProperties K i)" "\<lambda>_. True"
  by unfold_locales (simp add: key_simps)

interpretation pending_results_key: key_family
  "\<lambda>h. ci_key (CacheInfo_TransactionPendingResults K h)" "\<lambda>_. True"
  by unfold_locales (simp add: key_simps)

interpretation shard_blses_key: key_family
  "\<lambda>(shard, epoch). ci_key (CacheInfo_ShardAndEpochBlses K shard epoch)" "\<lambda>_. True"
  by unfold_locales (auto simp: key_simps sep_inj int_str_free)

section \<open>Properties\<close>

text \<open>
  C13. No two members of \<open>CacheInfo\<close> share a key: whatever their arguments, equal keys come
  from the same member, so one service never reads or deletes another one's entry by accident.
\<close>

theorem cache_keys_disjoint:
  assumes "cache_member m ci" and "cache_member m' ci'" and "ci_key ci = ci_key ci'"
  shows "m = m'"
  using cache_member_owner [OF assms(1)] cache_member_owner [OF assms(2)] assms(3) by simp

definition doc_consts :: time_consts where
  "doc_consts = \<lparr>oneSecond = 1, oneMinute = 60, oneHour = 3600, oneDay = 86400, oneWeek = 604800\<rparr>"

lemma documented_doc_consts: "documented_consts doc_consts"
  by (simp add: documented_consts_def doc_consts_def)

theorem cache_keys_disjoint_witness:
  "\<not> cache_member ''Nodes'' (CacheInfo_TxCount doc_consts ''erd1'')"
proof
  assume "cache_member ''Nodes'' (CacheInfo_TxCount doc_consts ''erd1'')"
  from cache_keys_disjoint [OF this cache_member.intros(18) refl] show False by simp
qed

text \<open>
  The key of a batch determines its sender and its identifier when the sender is an address
  (which holds no colon), and the key of a node's owner its epoch and public key.
\<close>

lemma batch_key_determines:
  assumes "CHR '':'' \<notin> set s" and "CHR '':'' \<notin> set s'"
  shows "ci_key (CacheInfo_TransactionBatch K s b) = ci_key (CacheInfo_TransactionBatch K s' b')
    \<longleftrightarrow> s = s' \<and> b = b'"
  using batch_key.key_inj [of "(s, b)" "(s', b')" K] assms by auto

text \<open>
  The cache lifetime of the latest blocks grows with the requested lifetime, is always one of
  the five steps, and never exceeds a request of more than five minutes.
\<close>

theorem blocks_latest_ttl_bounds:
  assumes "documented_consts K"
  shows "computeBlocksLatestTtl K ttl \<in> {12, 300, 900, 1800, 3600}
    \<and> (\<forall>t. ttl = Some t \<longrightarrow> 300 < t \<longrightarrow> computeBlocksLatestTtl K ttl < t)
    \<and> (\<forall>t u. ttl = Some t \<longrightarrow> t \<le> u \<longrightarrow> computeBlocksLatestTtl K ttl \<le> computeBlocksLatestTtl K (Some u))"
  using assms by (auto simp: computeBlocksLatestTtl_def documented_consts_def split: option.splits)

theorem blocks_latest_ttl_bounds_witness:
  "documented_consts doc_consts \<and> computeBlocksLatestTtl doc_consts (Some 4000) = 900
   \<and> computeBlocksLatestTtl doc_consts (Some 4000) < 4000"
  using blocks_latest_ttl_bounds [OF documented_doc_consts, of "Some 4000"] documented_doc_consts
  by (simp add: computeBlocksLatestTtl_def doc_consts_def)

end
