(* ===== verification/Reachability.thy ===== *)
theory Reachability imports Prelude begin

text \<open>
  Transition systems for the components that keep state between concurrent calls: the reachable
  states of a step relation, and the interface by which a component shows an invariant of it.
\<close>

inductive reach :: "('s \<Rightarrow> bool) \<Rightarrow> ('s \<Rightarrow> 's \<Rightarrow> bool) \<Rightarrow> 's \<Rightarrow> bool"
  for init :: "'s \<Rightarrow> bool" and step :: "'s \<Rightarrow> 's \<Rightarrow> bool" where
  reach_init: "init s \<Longrightarrow> reach init step s"
| reach_step: "reach init step s \<Longrightarrow> step s t \<Longrightarrow> reach init step t"

text \<open>An inductive invariant: what a component has to provide.\<close>

locale inductive_invariant =
  fixes init :: "'s \<Rightarrow> bool" and step :: "'s \<Rightarrow> 's \<Rightarrow> bool" and inv :: "'s \<Rightarrow> bool"
  assumes init_inv: "init s \<Longrightarrow> inv s"
    and step_inv: "inv s \<Longrightarrow> step s t \<Longrightarrow> inv t"
begin

lemma reach_inv: "reach init step s \<Longrightarrow> inv s"
  by (induction rule: reach.induct) (auto intro: init_inv step_inv)

lemma steps_inv: "rtranclp step s t \<Longrightarrow> inv s \<Longrightarrow> inv t"
  by (induction rule: rtranclp_induct) (auto intro: step_inv)

end

text \<open>An invariant that also bounds a quantity which no step decreases.\<close>

locale monotone_invariant = inductive_invariant +
  fixes measure_of :: "'a \<Rightarrow> int"
  assumes step_mono: "inv s \<Longrightarrow> step s t \<Longrightarrow> measure_of s \<le> measure_of t"
begin

lemma steps_mono: "rtranclp step s t \<Longrightarrow> inv s \<Longrightarrow> measure_of s \<le> measure_of t"
proof (induction rule: rtranclp_induct)
  case base
  then show ?case by simp
next
  case (step t u)
  then show ?case using step_mono steps_inv by fastforce
qed

end

end
