(* ===== verification/CircuitBreaker.thy ===== *)
theory CircuitBreaker imports Reachability begin

text \<open>
  The circuit breaker around the Elasticsearch client
  (\<open>src/common/indexer/elastic/circuit-breaker/circuit.breaker.proxy.service.ts\<close>).

  A call of \<open>withCircuitBreaker\<close> has two synchronous parts: the guard before
  \<open>await Promise.race(...)\<close> (\<open>breaker_enter\<close>) and the continuation after it
  (\<open>breaker_success\<close>, \<open>breaker_failure\<close>). Between them other calls run. The sequential
  function \<open>withCircuitBreaker\<close> composes the parts for one call; the step relation
  \<open>breaker_step\<close> interleaves them for any number of calls in flight. The Elasticsearch client
  is outside the repository and is an argument: an operation gives a result and the time it
  took, in milliseconds.
\<close>

record breaker_config =
  durationThresholdMs :: int
  failureCountThreshold :: int
  resetTimeoutMs :: int

record breaker =
  failureCount :: int
  lastFailureTime :: int
  isCircuitOpen :: bool

definition breaker_init :: breaker where
  "breaker_init = \<lparr>failureCount = 0, lastFailureTime = 0, isCircuitOpen = False\<rparr>"

section \<open>The two halves of a call\<close>

text \<open>The guard: whether the operation is started, and the state it starts in.\<close>

definition breaker_enter :: "breaker_config \<Rightarrow> int \<Rightarrow> breaker \<Rightarrow> bool \<times> breaker" where
  "breaker_enter config now b =
     (if isCircuitOpen b then
        if now - lastFailureTime b \<ge> resetTimeoutMs config
        then (True, b\<lparr>isCircuitOpen := False, failureCount := 0\<rparr>)
        else (False, b)
      else (True, b))"

definition breaker_success :: "breaker \<Rightarrow> breaker" where
  "breaker_success b = b\<lparr>failureCount := 0\<rparr>"

definition breaker_failure :: "breaker_config \<Rightarrow> int \<Rightarrow> breaker \<Rightarrow> breaker" where
  "breaker_failure config now b =
     (let b = b\<lparr>failureCount := failureCount b + 1, lastFailureTime := now\<rparr>
      in if failureCount b \<ge> failureCountThreshold config then b\<lparr>isCircuitOpen := True\<rparr> else b)"

section \<open>One call, from start to end\<close>

text \<open>\<open>Promise.race([operation(), timeoutPromise])\<close>: the operation wins if it settles first.\<close>

definition race :: "breaker_config \<Rightarrow> 'a res \<times> int \<Rightarrow> 'a res" where
  "race config outcome =
     (if snd outcome < durationThresholdMs config then fst outcome
      else Inl (ErrorMsg ''Operation timed out''))"

text \<open>
  The state of a call is the breaker together with the outside world, on which the operation
  runs and from which the clock (\<open>Date.now()\<close>) is read.
\<close>

type_synonym ('w, 'a) operation = "'w \<Rightarrow> ('a res \<times> int) \<times> 'w"

definition withCircuitBreaker ::
  "bool \<Rightarrow> breaker_config \<Rightarrow> ('w \<Rightarrow> int) \<Rightarrow> ('w, 'a) operation \<Rightarrow> (breaker \<times> 'w, 'a) io" where
  "withCircuitBreaker enabled config clock operation = (\<lambda>(b, w).
     if \<not> enabled then
       (case operation w of ((r, _), w') \<Rightarrow> (r, (b, w')))
     else
       (case breaker_enter config (clock w) b of
          (False, b) \<Rightarrow> (Inl ServiceUnavailable, (b, w))
        | (True, b) \<Rightarrow>
            (case operation w of (outcome, w') \<Rightarrow>
               (case race config outcome of
                  Inr result \<Rightarrow> (Inr result, (breaker_success b, w'))
                | Inl _ \<Rightarrow> (Inl ServiceUnavailable, (breaker_failure config (clock w') b, w'))))))"

text \<open>The client's operations, and the methods of the proxy that guard them.\<close>

record ('w, 'q, 'j) elastic_service =
  es_getCount :: "string \<Rightarrow> 'q \<Rightarrow> ('w, int) operation"
  es_getList :: "string \<Rightarrow> string \<Rightarrow> 'q \<Rightarrow> ('w, 'j list) operation"
  es_getItem :: "string \<Rightarrow> string \<Rightarrow> string \<Rightarrow> ('w, 'j) operation"
  es_getCustomValue :: "string \<Rightarrow> string \<Rightarrow> string \<Rightarrow> ('w, 'j) operation"
  es_setCustomValue :: "string \<Rightarrow> string \<Rightarrow> string \<Rightarrow> 'j \<Rightarrow> ('w, unit) operation"
  es_setCustomValues :: "string \<Rightarrow> string \<Rightarrow> (string \<times> 'j) list \<Rightarrow> ('w, unit) operation"
  es_getScrollableList :: "string \<Rightarrow> string \<Rightarrow> 'q \<Rightarrow> ('j list \<Rightarrow> ('w, unit) operation) \<Rightarrow> ('w, unit) operation"
  es_get :: "string \<Rightarrow> ('w, 'j) operation"
  es_post :: "string \<Rightarrow> 'j \<Rightarrow> ('w, 'j) operation"

record ('w, 'q, 'j) breaker_proxy =
  px_enabled :: bool
  px_config :: breaker_config
  px_clock :: "'w \<Rightarrow> int"
  px_service :: "('w, 'q, 'j) elastic_service"

abbreviation guarded :: "('w, 'q, 'j) breaker_proxy \<Rightarrow> ('w, 'a) operation \<Rightarrow> (breaker \<times> 'w, 'a) io" where
  "guarded p \<equiv> withCircuitBreaker (px_enabled p) (px_config p) (px_clock p)"

definition proxy_getCount where
  "proxy_getCount p index query = guarded p (es_getCount (px_service p) index query)"

definition proxy_getList where
  "proxy_getList p index ident query = guarded p (es_getList (px_service p) index ident query)"

definition proxy_getItem where
  "proxy_getItem p index ident value = guarded p (es_getItem (px_service p) index ident value)"

definition proxy_getCustomValue where
  "proxy_getCustomValue p index ident key = guarded p (es_getCustomValue (px_service p) index ident key)"

definition proxy_setCustomValue where
  "proxy_setCustomValue p index ident key value =
     guarded p (es_setCustomValue (px_service p) index ident key value)"

definition proxy_setCustomValues where
  "proxy_setCustomValues p index ident values =
     guarded p (es_setCustomValues (px_service p) index ident values)"

definition proxy_getScrollableList where
  "proxy_getScrollableList p index ident query action =
     guarded p (es_getScrollableList (px_service p) index ident query action)"

definition proxy_get where
  "proxy_get p url = guarded p (es_get (px_service p) url)"

definition proxy_post where
  "proxy_post p url data = guarded p (es_post (px_service p) url data)"

section \<open>Calls in flight\<close>

text \<open>
  The breaker, the clock, and the number of operations that were started and have not settled.
  An event is a call that is let in or refused, or the end of one operation in flight.
\<close>

record breaker_sys =
  sys_breaker :: breaker
  sys_now :: int
  sys_inflight :: nat

datatype breaker_event = Admit | Refuse | Succeed | Fail | Tick int

inductive breaker_step :: "breaker_config \<Rightarrow> breaker_event \<Rightarrow> breaker_sys \<Rightarrow> breaker_sys \<Rightarrow> bool"
  for config :: breaker_config where
  admit: "breaker_enter config (sys_now s) (sys_breaker s) = (True, b) \<Longrightarrow>
     breaker_step config Admit s (s\<lparr>sys_breaker := b, sys_inflight := Suc (sys_inflight s)\<rparr>)"
| refuse: "breaker_enter config (sys_now s) (sys_breaker s) = (False, b) \<Longrightarrow>
     breaker_step config Refuse s (s\<lparr>sys_breaker := b\<rparr>)"
| succeed: "sys_inflight s = Suc n \<Longrightarrow>
     breaker_step config Succeed s
       (s\<lparr>sys_breaker := breaker_success (sys_breaker s), sys_inflight := n\<rparr>)"
| fail: "sys_inflight s = Suc n \<Longrightarrow>
     breaker_step config Fail s
       (s\<lparr>sys_breaker := breaker_failure config (sys_now s) (sys_breaker s), sys_inflight := n\<rparr>)"
| tick: "0 \<le> d \<Longrightarrow> breaker_step config (Tick d) s (s\<lparr>sys_now := sys_now s + d\<rparr>)"

inductive_cases breaker_stepE: "breaker_step config e s t"
inductive_cases admitE: "breaker_step config Admit s t"
inductive_cases refuseE: "breaker_step config Refuse s t"
inductive_cases failE: "breaker_step config Fail s t"

definition breaker_sys_init :: "breaker_sys \<Rightarrow> bool" where
  "breaker_sys_init s \<longleftrightarrow> sys_breaker s = breaker_init \<and> sys_now s \<ge> 0 \<and> sys_inflight s = 0"

definition breaker_next :: "breaker_config \<Rightarrow> breaker_sys \<Rightarrow> breaker_sys \<Rightarrow> bool" where
  "breaker_next config s t \<longleftrightarrow> (\<exists>e. breaker_step config e s t)"

text \<open>An execution from one state to another, with its events.\<close>

inductive breaker_exec :: "breaker_config \<Rightarrow> breaker_event list \<Rightarrow> breaker_sys \<Rightarrow> breaker_sys \<Rightarrow> bool"
  for config :: breaker_config where
  exec_nil: "breaker_exec config [] s s"
| exec_snoc: "breaker_exec config es s t \<Longrightarrow> breaker_step config e t u \<Longrightarrow> breaker_exec config (es @ [e]) s u"

section \<open>Invariants\<close>

text \<open>
  The count never goes negative; a closed circuit has seen fewer failures than the threshold
  since its count was last reset; and the last failure is not in the future.
\<close>

definition breaker_inv :: "breaker_config \<Rightarrow> breaker_sys \<Rightarrow> bool" where
  "breaker_inv config s \<longleftrightarrow>
     (let b = sys_breaker s in
      0 \<le> failureCount b \<and>
      (\<not> isCircuitOpen b \<longrightarrow> failureCount b < failureCountThreshold config) \<and>
      0 \<le> lastFailureTime b \<and> lastFailureTime b \<le> sys_now s)"

lemmas breaker_defs = breaker_enter_def breaker_success_def breaker_failure_def Let_def

lemma breaker_step_inv:
  assumes "0 < failureCountThreshold config" and "breaker_inv config s" and "breaker_step config e s t"
  shows "breaker_inv config t"
  using assms(3,1,2)
  by (induction rule: breaker_step.induct) (auto simp: breaker_inv_def breaker_defs split: if_splits)

lemma breaker_init_inv:
  "0 < failureCountThreshold config \<Longrightarrow> breaker_sys_init s \<Longrightarrow> breaker_inv config s"
  by (auto simp: breaker_inv_def breaker_sys_init_def breaker_init_def Let_def)

lemma breaker_time_mono: "breaker_step config e s t \<Longrightarrow> sys_now s \<le> sys_now t"
  by (induction rule: breaker_step.induct) auto

definition breaker_next_pos :: "breaker_config \<Rightarrow> breaker_sys \<Rightarrow> breaker_sys \<Rightarrow> bool" where
  "breaker_next_pos config s t \<longleftrightarrow> 0 < failureCountThreshold config \<and> breaker_next config s t"

interpretation breaker: monotone_invariant
  "\<lambda>s. 0 < failureCountThreshold config \<and> breaker_sys_init s" "breaker_next_pos config"
  "breaker_inv config" sys_now
  by unfold_locales
     (auto simp: breaker_next_pos_def breaker_next_def
       intro: breaker_init_inv breaker_step_inv dest: breaker_time_mono)


lemma breaker_exec_inv:
  "breaker_exec config es s t \<Longrightarrow> 0 < failureCountThreshold config \<Longrightarrow> breaker_inv config s \<Longrightarrow> breaker_inv config t"
  by (induction rule: breaker_exec.induct) (auto intro: breaker_step_inv)

lemma breaker_exec_time: "breaker_exec config es s t \<Longrightarrow> sys_now s \<le> sys_now t"
  by (induction rule: breaker_exec.induct) (auto dest: breaker_time_mono)

text \<open>The failures since the last success of an execution.\<close>

definition trailing_fails :: "breaker_event list \<Rightarrow> nat" where
  "trailing_fails es = count_list (takeWhile (\<lambda>e. e \<noteq> Succeed) (rev es)) Fail"

lemma trailing_fails_snoc [simp]:
  "trailing_fails [] = 0"
  "trailing_fails (es @ [e]) = (if e = Succeed then 0 else if e = Fail then Suc (trailing_fails es) else trailing_fails es)"
  by (auto simp: trailing_fails_def)

lemma failureCount_le_trailing:
  assumes "breaker_exec config es s t" and "failureCount (sys_breaker s) = 0"
  shows "failureCount (sys_breaker t) \<le> int (trailing_fails es)"
  using assms
proof (induction rule: breaker_exec.induct)
  case (exec_nil s)
  then show ?case by simp
next
  case (exec_snoc es s t e u)
  from exec_snoc.hyps(2) exec_snoc.IH [OF exec_snoc.prems] show ?case
    by (cases rule: breaker_step.cases) (auto simp: breaker_defs split: if_splits)
qed

text \<open>An open circuit stays open, and lets no call in, until the reset timeout has passed.\<close>

lemma open_step:
  assumes "breaker_step config e s t" and "isCircuitOpen (sys_breaker s)"
    and "L \<le> lastFailureTime (sys_breaker s)" and "L \<le> sys_now s" and "sys_now s < L + resetTimeoutMs config"
  shows "isCircuitOpen (sys_breaker t) \<and> L \<le> lastFailureTime (sys_breaker t) \<and> L \<le> sys_now t \<and> e \<noteq> Admit"
  using assms by (induction rule: breaker_step.induct) (auto simp: breaker_defs split: if_splits)

section \<open>Properties\<close>

text \<open>
  C4. In every state that any interleaving of calls, completions and clock ticks can reach, a
  closed circuit has counted fewer failures than the threshold, the count is not negative, and
  the last failure is not in the future.
\<close>

theorem breaker_reachable_inv:
  assumes "0 < failureCountThreshold config"
    and "reach (\<lambda>s. 0 < failureCountThreshold config \<and> breaker_sys_init s) (breaker_next_pos config) s"
  shows "0 \<le> failureCount (sys_breaker s)
    \<and> (\<not> isCircuitOpen (sys_breaker s) \<longrightarrow> failureCount (sys_breaker s) < failureCountThreshold config)
    \<and> lastFailureTime (sys_breaker s) \<le> sys_now s"
  using breaker.reach_inv [OF assms(2)] by (simp add: breaker_inv_def Let_def)

definition sample_config :: breaker_config where
  "sample_config = \<lparr>durationThresholdMs = 100, failureCountThreshold = 1, resetTimeoutMs = 50\<rparr>"

definition sample_sys :: breaker_sys where
  "sample_sys = \<lparr>sys_breaker = breaker_init, sys_now = 0, sys_inflight = 0\<rparr>"

lemma sample_admitted:
  "breaker_step sample_config Admit sample_sys (sample_sys\<lparr>sys_inflight := 1\<rparr>)"
  using breaker_step.admit [of sample_config sample_sys breaker_init]
  by (simp add: breaker_enter_def sample_sys_def breaker_init_def)

lemma sample_opened:
  "breaker_step sample_config Fail (sample_sys\<lparr>sys_inflight := 1\<rparr>)
     (sample_sys\<lparr>sys_breaker := \<lparr>failureCount = 1, lastFailureTime = 0, isCircuitOpen = True\<rparr>\<rparr>)"
  using breaker_step.fail [of "sample_sys\<lparr>sys_inflight := 1\<rparr>" 0 sample_config]
  by (simp add: breaker_failure_def sample_sys_def breaker_init_def sample_config_def Let_def)

lemma sample_exec:
  "breaker_exec sample_config [Admit, Fail] sample_sys
     (sample_sys\<lparr>sys_breaker := \<lparr>failureCount = 1, lastFailureTime = 0, isCircuitOpen = True\<rparr>\<rparr>)"
  using exec_snoc [OF exec_snoc [OF exec_nil sample_admitted] sample_opened] by simp

theorem breaker_reachable_inv_witness:
  "0 < failureCountThreshold sample_config
   \<and> reach (\<lambda>s. 0 < failureCountThreshold sample_config \<and> breaker_sys_init s) (breaker_next_pos sample_config) (sample_sys\<lparr>sys_inflight := 1\<rparr>)
   \<and> failureCount (sys_breaker (sample_sys\<lparr>sys_inflight := 1\<rparr>)) < failureCountThreshold sample_config
   \<and> 0 \<le> failureCount (sys_breaker (sample_sys\<lparr>sys_inflight := 1\<rparr>))"
proof -
  have "reach (\<lambda>s. 0 < failureCountThreshold sample_config \<and> breaker_sys_init s)
      (breaker_next_pos sample_config) (sample_sys\<lparr>sys_inflight := 1\<rparr>)"
    using sample_admitted
    by (intro reach.reach_step [OF reach.reach_init, of _ sample_sys])
       (auto simp: breaker_sys_init_def breaker_next_pos_def breaker_next_def sample_sys_def sample_config_def)
  then show ?thesis
    using breaker_reachable_inv [of sample_config "sample_sys\<lparr>sys_inflight := 1\<rparr>"]
    by (simp add: sample_config_def sample_sys_def breaker_init_def)
qed

text \<open>
  C30. The circuit opens only when it should: at the moment an execution that began with a zero
  count opens the circuit, the event is a failure and at least \<open>failureCountThreshold\<close>
  operations have failed since the last one that succeeded.
\<close>

theorem circuit_opens_after_threshold:
  assumes run: "breaker_exec config es s t" and zero: "failureCount (sys_breaker s) = 0"
    and step: "breaker_step config e t u"
    and closed: "\<not> isCircuitOpen (sys_breaker t)" and opened: "isCircuitOpen (sys_breaker u)"
  shows "e = Fail \<and> int (trailing_fails (es @ [e])) \<ge> failureCountThreshold config"
proof -
  from step closed opened
  have "e = Fail \<and> failureCount (sys_breaker t) + 1 \<ge> failureCountThreshold config"
    by (cases rule: breaker_step.cases) (auto simp: breaker_defs split: if_splits)
  with failureCount_le_trailing [OF run zero] show ?thesis by auto
qed

theorem circuit_opens_after_threshold_witness:
  "\<exists>t u. breaker_exec sample_config [Admit] sample_sys t \<and> breaker_step sample_config Fail t u
     \<and> isCircuitOpen (sys_breaker u)
     \<and> int (trailing_fails ([Admit] @ [Fail])) \<ge> failureCountThreshold sample_config"
proof -
  have run: "breaker_exec sample_config [Admit] sample_sys (sample_sys\<lparr>sys_inflight := 1\<rparr>)"
    using exec_snoc [OF exec_nil sample_admitted] by simp
  from circuit_opens_after_threshold [OF run _ sample_opened] run sample_opened show ?thesis
    by (force simp: sample_sys_def breaker_init_def)
qed

text \<open>
  An open circuit protects the cluster: whatever happens to the operations still in flight,
  until \<open>resetTimeoutMs\<close> have passed since the failure it remembers, the circuit stays open and
  no execution lets a call in.
\<close>

theorem open_until_reset:
  assumes "breaker_exec config es s t"
    and "isCircuitOpen (sys_breaker s)" and "lastFailureTime (sys_breaker s) \<le> sys_now s"
    and "sys_now t < lastFailureTime (sys_breaker s) + resetTimeoutMs config"
  shows "isCircuitOpen (sys_breaker t) \<and> Admit \<notin> set es"
proof -
  let ?L = "lastFailureTime (sys_breaker s)"
  have "isCircuitOpen (sys_breaker t) \<and> ?L \<le> lastFailureTime (sys_breaker t) \<and> ?L \<le> sys_now t
    \<and> Admit \<notin> set es"
    using assms
  proof (induction rule: breaker_exec.induct)
    case (exec_nil s)
    then show ?case by simp
  next
    case (exec_snoc es s t e u)
    have "sys_now t \<le> sys_now u" using exec_snoc.hyps(2) by (rule breaker_time_mono)
    with exec_snoc.IH exec_snoc.prems
    have IH: "isCircuitOpen (sys_breaker t)"
      "lastFailureTime (sys_breaker s) \<le> lastFailureTime (sys_breaker t)"
      "lastFailureTime (sys_breaker s) \<le> sys_now t" "Admit \<notin> set es"
      "sys_now t < lastFailureTime (sys_breaker s) + resetTimeoutMs config"
      by auto
    from open_step [OF exec_snoc.hyps(2) IH(1-3) IH(5)] IH(4) show ?case by auto
  qed
  then show ?thesis by simp
qed

theorem open_until_reset_witness:
  "\<exists>s t. breaker_exec sample_config [Tick 10] s t \<and> isCircuitOpen (sys_breaker s)
     \<and> isCircuitOpen (sys_breaker t)"
proof -
  let ?s = "sample_sys\<lparr>sys_breaker := \<lparr>failureCount = 1, lastFailureTime = 0, isCircuitOpen = True\<rparr>\<rparr>"
  have run: "breaker_exec sample_config [Tick 10] ?s (?s\<lparr>sys_now := sys_now ?s + 10\<rparr>)"
    using exec_snoc [OF exec_nil breaker_step.tick [of 10 sample_config ?s]] by simp
  from open_until_reset [OF run] run show ?thesis
    by (force simp: sample_sys_def sample_config_def)
qed

text \<open>
  Recovery: once the reset timeout has passed since the last failure, the next call is let in
  and starts from a closed circuit with a zero count, so that no circuit stays open for ever.
\<close>

theorem circuit_recovers:
  assumes "lastFailureTime (sys_breaker s) + resetTimeoutMs config \<le> sys_now s"
  shows "\<exists>t. breaker_step config Admit s t \<and> \<not> isCircuitOpen (sys_breaker t)
    \<and> (isCircuitOpen (sys_breaker s) \<longrightarrow> failureCount (sys_breaker t) = 0)
    \<and> (\<forall>u. \<not> breaker_step config Refuse s u)"
proof -
  let ?b = "snd (breaker_enter config (sys_now s) (sys_breaker s))"
  have enter: "breaker_enter config (sys_now s) (sys_breaker s) = (True, ?b)"
    and closed: "\<not> isCircuitOpen ?b" "isCircuitOpen (sys_breaker s) \<longrightarrow> failureCount ?b = 0"
    using assms by (auto simp: breaker_enter_def)
  have "\<not> breaker_step config Refuse s u" for u
    using enter by (auto elim: refuseE)
  then show ?thesis
    using breaker_step.admit [OF enter] closed by (intro exI conjI) auto
qed

theorem circuit_recovers_witness:
  "\<exists>t. breaker_step sample_config Admit
     (sample_sys\<lparr>sys_now := 60, sys_breaker := \<lparr>failureCount = 1, lastFailureTime = 0, isCircuitOpen = True\<rparr>\<rparr>) t
     \<and> \<not> isCircuitOpen (sys_breaker t)"
  using circuit_recovers [of "sample_sys\<lparr>sys_now := 60, sys_breaker := \<lparr>failureCount = 1, lastFailureTime = 0, isCircuitOpen = True\<rparr>\<rparr>" sample_config]
  by (auto simp: sample_config_def)

text \<open>One call, run on its own, is an execution of the interleaved system.\<close>

lemma call_is_execution:
  assumes call: "withCircuitBreaker True config clock operation (b, w) = (r, (b', w'))"
    and clock: "clock w \<le> clock w'"
  shows "\<exists>es. breaker_exec config es
      \<lparr>sys_breaker = b, sys_now = clock w, sys_inflight = n\<rparr>
      \<lparr>sys_breaker = b', sys_now = clock w', sys_inflight = n\<rparr>
    \<and> (case r of Inr _ \<Rightarrow> Succeed \<in> set es | Inl e \<Rightarrow> e = ServiceUnavailable \<and> Succeed \<notin> set es)"
proof -
  let ?s = "\<lparr>sys_breaker = b, sys_now = clock w, sys_inflight = n\<rparr>"
  obtain ok b1 where enter: "breaker_enter config (clock w) b = (ok, b1)"
    by (cases "breaker_enter config (clock w) b")
  show ?thesis
  proof (cases ok)
    case False
    with enter call have "r = Inl ServiceUnavailable" "b' = b1" "w' = w"
      by (auto simp: withCircuitBreaker_def)
    moreover have "breaker_exec config ([] @ [Refuse]) ?s (?s\<lparr>sys_breaker := b1\<rparr>)"
      using enter False by (intro exec_snoc [OF exec_nil] breaker_step.refuse) simp
    ultimately show ?thesis by (intro exI [of _ "[Refuse]"]) simp
  next
    case True
    let ?t = "\<lparr>sys_breaker = b1, sys_now = clock w, sys_inflight = Suc n\<rparr>"
    let ?u = "?t\<lparr>sys_now := clock w'\<rparr>"
    have "breaker_exec config [Admit] ?s ?t"
      using exec_snoc [OF exec_nil breaker_step.admit [of config ?s b1]] enter True by simp
    moreover have "breaker_step config (Tick (clock w' - clock w)) ?t ?u"
      using breaker_step.tick [of "clock w' - clock w" config ?t] clock by simp
    ultimately have run: "breaker_exec config [Admit, Tick (clock w' - clock w)] ?s ?u"
      using exec_snoc by fastforce
    obtain oc where op: "operation w = (oc, w')" and settled:
      "(\<exists>x. race config oc = Inr x \<and> r = Inr x \<and> b' = breaker_success b1) \<or>
       (\<exists>e. race config oc = Inl e \<and> r = Inl ServiceUnavailable \<and> b' = breaker_failure config (clock w') b1)"
      using call enter True
      by (auto simp: withCircuitBreaker_def split: prod.splits sum.splits)
    from settled show ?thesis
    proof
      assume "\<exists>x. race config oc = Inr x \<and> r = Inr x \<and> b' = breaker_success b1"
      then show ?thesis
        using exec_snoc [OF run breaker_step.succeed [of ?u n]] by fastforce
    next
      assume "\<exists>e. race config oc = Inl e \<and> r = Inl ServiceUnavailable \<and> b' = breaker_failure config (clock w') b1"
      then show ?thesis
        using exec_snoc [OF run breaker_step.fail [of ?u n]]
        by (intro exI [of _ "[Admit, Tick (clock w' - clock w), Fail]"]) auto
    qed
  qed
qed

section \<open>What the breaker promises\<close>

text \<open>
  The contract of the breaker, in terms of what was observed and without the fields that the code keeps: the
  operations that were run so far, newest first, each with the time at which it settled and whether it returned
  in time. A failed operation continues the run of failures before it, unless that run has reached the threshold: then the
  operation was a probe, and a new run begins with it.
\<close>

type_synonym breaker_history = "(int \<times> bool) list"

fun failed_run :: "int \<Rightarrow> breaker_history \<Rightarrow> int" where
  "failed_run threshold [] = 0"
| "failed_run threshold ((_, ok) # history) =
     (if ok then 0 else if threshold \<le> failed_run threshold history then 1 else failed_run threshold history + 1)"

text \<open>
  A call is refused when the run of failures has reached the threshold and the reset timeout has not passed since the last one.
\<close>

fun must_refuse :: "breaker_config \<Rightarrow> breaker_history \<Rightarrow> int \<Rightarrow> bool" where
  "must_refuse config [] now = False"
| "must_refuse config ((ended, ok) # history) now =
     (failureCountThreshold config \<le> failed_run (failureCountThreshold config) ((ended, ok) # history)
      \<and> now < ended + resetTimeoutMs config)"

text \<open>
  A sequence of calls, each with what happens to the world before it: what the contract says of it, and what the code does.
\<close>

fun promised_calls :: "breaker_config \<Rightarrow> ('w \<Rightarrow> int) \<Rightarrow> (('w \<Rightarrow> 'w) \<times> ('w, 'a) operation) list \<Rightarrow> breaker_history \<Rightarrow> 'w \<Rightarrow> 'a res list \<times> 'w" where
  "promised_calls config clock [] history w = ([], w)"
| "promised_calls config clock ((wait, operation) # calls) history w =
     (if must_refuse config history (clock (wait w))
      then (let (rs, v) = promised_calls config clock calls history (wait w) in (Inl ServiceUnavailable # rs, v))
      else (case operation (wait w) of ((r, duration), w') \<Rightarrow>
        let ok = (isl r = False \<and> duration < durationThresholdMs config);
            (rs, v) = promised_calls config clock calls ((clock w', ok) # history) w'
        in ((if ok then r else Inl ServiceUnavailable) # rs, v)))"

fun guarded_calls :: "bool \<Rightarrow> breaker_config \<Rightarrow> ('w \<Rightarrow> int) \<Rightarrow> (('w \<Rightarrow> 'w) \<times> ('w, 'a) operation) list \<Rightarrow> breaker \<times> 'w
    \<Rightarrow> 'a res list \<times> breaker \<times> 'w" where
  "guarded_calls enabled config clock [] s = ([], s)"
| "guarded_calls enabled config clock ((wait, operation) # calls) (b, w) =
     (case withCircuitBreaker enabled config clock operation (b, wait w) of (r, t) \<Rightarrow>
        let (rs, u) = guarded_calls enabled config clock calls t in (r # rs, u))"

text \<open>How the fields of the breaker represent a history.\<close>

definition breaker_represents :: "breaker_config \<Rightarrow> breaker \<Rightarrow> breaker_history \<Rightarrow> bool" where
  "breaker_represents config b history \<longleftrightarrow>
     failureCount b = failed_run (failureCountThreshold config) history
     \<and> (isCircuitOpen b \<longleftrightarrow> failureCountThreshold config \<le> failed_run (failureCountThreshold config) history)
     \<and> (case history of (ended, False) # _ \<Rightarrow> lastFailureTime b = ended | _ \<Rightarrow> True)"

lemma represents_init: "0 < failureCountThreshold config \<Longrightarrow> breaker_represents config breaker_init []"
  by (simp add: breaker_represents_def breaker_init_def)

lemma represents_enter:
  assumes "0 < failureCountThreshold config" and "breaker_represents config b history"
  shows "fst (breaker_enter config now b) = (\<not> must_refuse config history now)"
proof (cases history)
  case (Cons x rest)
  obtain ended ok where x: "x = (ended, ok)" by (cases x)
  show ?thesis using assms by (cases ok) (auto simp: Cons x breaker_represents_def breaker_enter_def)
qed (use assms in \<open>auto simp: breaker_represents_def breaker_enter_def\<close>)

lemma represents_refused:
  "breaker_enter config now b = (False, b1) \<Longrightarrow> b1 = b"
  by (auto simp: breaker_enter_def split: if_splits)

lemma represents_success:
  assumes "0 < failureCountThreshold config" and "breaker_represents config b history" and "breaker_enter config now b = (True, b1)"
  shows "breaker_represents config (breaker_success b1) ((ended, True) # history)"
  using assms by (auto simp: breaker_represents_def breaker_enter_def breaker_success_def split: if_splits)

lemma represents_failure:
  assumes "0 < failureCountThreshold config" and "breaker_represents config b history" and "breaker_enter config now b = (True, b1)"
  shows "breaker_represents config (breaker_failure config ended b1) ((ended, False) # history)"
  using assms by (auto simp: breaker_represents_def breaker_enter_def breaker_failure_def Let_def split: if_splits)

lemma calls_refine:
  assumes "0 < failureCountThreshold config" and "breaker_represents config b history"
  shows "\<exists>b'. guarded_calls True config clock calls (b, w)
    = (fst (promised_calls config clock calls history w), b', snd (promised_calls config clock calls history w))"
  using assms(2)
proof (induction calls arbitrary: b w history)
  case (Cons call calls)
  obtain wait operation where call: "call = (wait, operation)" by (cases call)
  let ?w = "wait w"
  obtain ok b1 where enter: "breaker_enter config (clock ?w) b = (ok, b1)" by (cases "breaker_enter config (clock ?w) b")
  have ok: "ok = (\<not> must_refuse config history (clock ?w))"
    using represents_enter [OF assms(1) Cons.prems, of "clock ?w"] enter by simp
  show ?case
  proof (cases ok)
    case False
    then have "b1 = b" using enter represents_refused by simp
    then show ?thesis using False ok enter Cons.IH [OF Cons.prems, of ?w]
      by (auto simp: call withCircuitBreaker_def split_def Let_def)
  next
    case True
    obtain r duration w' where op: "operation ?w = ((r, duration), w')" by (cases "operation ?w") auto
    show ?thesis
    proof (cases "isl r = False \<and> duration < durationThresholdMs config")
      case fine: True
      then obtain x where "r = Inr x" by (cases r) auto
      moreover have "breaker_represents config (breaker_success b1) ((clock w', True) # history)"
        using represents_success [OF assms(1) Cons.prems] enter True by simp
      ultimately show ?thesis using True ok enter op fine Cons.IH [of "breaker_success b1" "(clock w', True) # history" w']
        by (auto simp: call withCircuitBreaker_def race_def split_def Let_def)
    next
      case failed: False
      then have "isl (race config (r, duration))" by (auto simp: race_def)
      then obtain e where "race config (r, duration) = Inl e" by (auto simp: isl_def)
      moreover have "breaker_represents config (breaker_failure config (clock w') b1) ((clock w', False) # history)"
        using represents_failure [OF assms(1) Cons.prems] enter True by simp
      ultimately show ?thesis using True ok enter op failed
          Cons.IH [of "breaker_failure config (clock w') b1" "(clock w', False) # history" w']
        by (auto simp: call withCircuitBreaker_def split_def Let_def)
    qed
  qed
qed simp

text \<open>Without the breaker every call runs its operation, and its result is the result of the call.\<close>

fun plain_calls :: "(('w \<Rightarrow> 'w) \<times> ('w, 'a) operation) list \<Rightarrow> 'w \<Rightarrow> 'a res list \<times> 'w" where
  "plain_calls [] w = ([], w)"
| "plain_calls ((wait, operation) # calls) w =
     (case operation (wait w) of ((r, _), w') \<Rightarrow> let (rs, v) = plain_calls calls w' in (r # rs, v))"

lemma calls_disabled: "guarded_calls False config clock calls (b, w) = (fst (plain_calls calls w), b, snd (plain_calls calls w))"
proof (induction calls arbitrary: w)
  case (Cons call calls)
  show ?case by (cases call) (simp add: withCircuitBreaker_def Cons.IH split_def Let_def)
qed simp

text \<open>
  C3. The breaker keeps its contract for every sequence of calls, one after the other, from its initial state: a call is refused, and its operation is not
  run, exactly when the operations before it have failed or were too slow at least as often in a row as the threshold says and the
  reset timeout has not passed since the last of them settled; a call after that is a probe, with which the counting starts over; a call whose operation
  fails or is too slow throws \<open>ServiceUnavailable\<close>; every other call has the result of its operation. When the breaker
  is disabled, every call has the result of its operation.
\<close>

theorem withCircuitBreaker_refines:
  assumes "0 < failureCountThreshold config"
  shows "(\<exists>b. guarded_calls True config clock calls (breaker_init, w)
      = (fst (promised_calls config clock calls [] w), b, snd (promised_calls config clock calls [] w)))
    \<and> guarded_calls False config clock calls (breaker_init, w) = (fst (plain_calls calls w), breaker_init, snd (plain_calls calls w))"
  using calls_refine [OF assms represents_init [OF assms], of clock calls w] calls_disabled [of config clock calls breaker_init w] by simp

text \<open>
  With a threshold of two: two failures open the circuit and a third call is refused; a probe after the timeout fails, but
  the next operation is run all the same; it is too slow, and the call after it is refused; the last call is a probe that returns.
\<close>

definition failing :: "int \<Rightarrow> (int, int) operation" where
  "failing d = (\<lambda>w. ((Inl TypeError, d), w + d))"

definition answering :: "int \<Rightarrow> (int, int) operation" where
  "answering d = (\<lambda>w. ((Inr 7, d), w + d))"

theorem withCircuitBreaker_refines_witness:
  "\<exists>b. guarded_calls True (sample_config\<lparr>failureCountThreshold := 2\<rparr>) id
      [(id, failing 5), (id, failing 5), (id, answering 5), (\<lambda>w. w + 50, failing 5), (id, answering 100), (id, answering 5),
       (\<lambda>w. w + 50, answering 5)] (breaker_init, 0)
    = ([Inl ServiceUnavailable, Inl ServiceUnavailable, Inl ServiceUnavailable, Inl ServiceUnavailable, Inl ServiceUnavailable,
        Inl ServiceUnavailable, Inr 7], b, 220)"
proof -
  let ?config = "sample_config\<lparr>failureCountThreshold := 2\<rparr>"
  let ?calls = "[(id, failing 5), (id, failing 5), (id, answering 5), (\<lambda>w. w + 50, failing 5), (id, answering 100), (id, answering 5),
       (\<lambda>w. w + 50, answering 5)]"
  have "promised_calls ?config id ?calls [] 0 = ([Inl ServiceUnavailable, Inl ServiceUnavailable, Inl ServiceUnavailable,
      Inl ServiceUnavailable, Inl ServiceUnavailable, Inl ServiceUnavailable, Inr 7], 220)"
    by (simp add: sample_config_def failing_def answering_def Let_def)
  then show ?thesis using withCircuitBreaker_refines [of ?config id ?calls 0] by (simp add: sample_config_def)
qed

text \<open>
  The methods of the proxy: with the breaker disabled they are the client's operations,
  unchanged; with it enabled they either return what the client returned or throw
  \<open>ServiceUnavailableException\<close>, and a refused call leaves the client untouched.
\<close>

theorem proxy_getList_outcomes:
  "(\<not> px_enabled p \<longrightarrow> proxy_getList p index ident query (b, w) =
      (case es_getList (px_service p) index ident query w of ((r, _), w') \<Rightarrow> (r, (b, w')))) \<and>
   (px_enabled p \<longrightarrow> isCircuitOpen b \<longrightarrow>
      px_clock p w - lastFailureTime b < resetTimeoutMs (px_config p) \<longrightarrow>
      proxy_getList p index ident query (b, w) = (Inl ServiceUnavailable, (b, w))) \<and>
   (px_enabled p \<longrightarrow> (case proxy_getList p index ident query (b, w) of
      (Inl e, _) \<Rightarrow> e = ServiceUnavailable
    | (Inr xs, (b', w')) \<Rightarrow> failureCount b' = 0 \<and>
        (\<exists>d. es_getList (px_service p) index ident query w = ((Inr xs, d), w')
           \<and> d < durationThresholdMs (px_config p))))"
  by (auto simp: proxy_getList_def withCircuitBreaker_def breaker_enter_def breaker_success_def
      race_def split: prod.splits sum.splits bool.splits if_splits)

theorem proxy_getList_outcomes_witness:
  "\<exists>p :: (int, unit, int) breaker_proxy. px_enabled p
     \<and> fst (proxy_getList p ''nodes'' ''bls'' () (\<lparr>failureCount = 1, lastFailureTime = 0, isCircuitOpen = True\<rparr>, 10))
         = Inl ServiceUnavailable"
proof -
  let ?es = "\<lparr>es_getCount = \<lambda>_ _ w. ((Inr 0, 0), w), es_getList = \<lambda>_ _ _ w. ((Inr [], 0), w),
      es_getItem = \<lambda>_ _ _ w. ((Inr 0, 0), w), es_getCustomValue = \<lambda>_ _ _ w. ((Inr 0, 0), w),
      es_setCustomValue = \<lambda>_ _ _ _ w. ((Inr (), 0), w), es_setCustomValues = \<lambda>_ _ _ w. ((Inr (), 0), w),
      es_getScrollableList = \<lambda>_ _ _ _ w. ((Inr (), 0), w), es_get = \<lambda>_ w. ((Inr 0, 0), w),
      es_post = \<lambda>_ _ w. ((Inr 0, 0), w)\<rparr> :: (int, unit, int) elastic_service"
  let ?p = "\<lparr>px_enabled = True, px_config = sample_config, px_clock = id, px_service = ?es\<rparr>"
  have "proxy_getList ?p ''nodes'' ''bls'' () (\<lparr>failureCount = 1, lastFailureTime = 0, isCircuitOpen = True\<rparr>, 10)
      = (Inl ServiceUnavailable, (\<lparr>failureCount = 1, lastFailureTime = 0, isCircuitOpen = True\<rparr>, 10))"
    using proxy_getList_outcomes [of ?p "''nodes''" "''bls''" "()"
      "\<lparr>failureCount = 1, lastFailureTime = 0, isCircuitOpen = True\<rparr>" 10]
    by (simp add: sample_config_def)
  then show ?thesis by (intro exI [of _ ?p]) simp
qed

end
