(* ===== verification/TransactionsBatch.thy ===== *)
theory TransactionsBatch imports CacheInfo begin

text \<open>
  Transaction batches: the data model of \<open>src/endpoints/transactions.batch/entities\<close>, the
  operations of \<open>transactions.batch.service.ts\<close> and the handlers of
  \<open>transactions.batch.controller.ts\<close>.

  A batch is a sequence of groups; the transactions of a group are sent together, and a group is
  started only when the one before it has succeeded. The services a batch needs (the remote
  cache, the gateway behind \<open>createTransaction\<close>, the hash of the SDK, the message bus, the
  clock) are outside this part of the program and are the record \<open>batch_env\<close>; each of its
  operations may throw. A value of the remote cache is a batch or a string.
\<close>

section \<open>Data\<close>

record tx_details =
  td_chainID :: string
  td_data :: "string option"
  td_gasLimit :: int
  td_gasPrice :: int
  td_nonce :: int
  td_receiver :: string
  td_sender :: string
  td_signature :: string
  td_value :: string
  td_version :: int
  td_options :: "int option"
  td_guardian :: "string option"
  td_guardianSignature :: "string option"

text \<open>
  \<open>BatchTransactionStatus\<close>. The processor stores the status of a blockchain transaction here
  without a check, so every other string can occur as well.
\<close>

datatype batch_tx_status = BTPending | BTInvalid | BTDropped | BTSuccess | BTOther string

fun batch_tx_status_of :: "string \<Rightarrow> batch_tx_status" where
  "batch_tx_status_of s =
     (if s = ''pending'' then BTPending else if s = ''invalid'' then BTInvalid
      else if s = ''dropped'' then BTDropped else if s = ''success'' then BTSuccess else BTOther s)"

datatype transaction_batch_status = TBPending | TBSuccess | TBInvalid | TBDropped

record batch_transaction =
  bt_tx :: tx_details
  bt_hash :: string
  bt_data :: string

record batch_item =
  bi_transaction :: batch_transaction
  bi_status :: batch_tx_status
  bi_error :: "string option"

record batch_group =
  bg_items :: "batch_item list"

record transaction_batch =
  tb_id :: string
  tb_groups :: "batch_group list"
  tb_status :: transaction_batch_status
  tb_sourceIp :: string

record tx_details_with_result = tx_details +
  tr_hash :: "string option"
  tr_status :: "batch_tx_status option"
  tr_error :: "string option"

record batch_simplified =
  bs_id :: string
  bs_transactions :: "tx_details list list"

record batch_simplified_result =
  br_id :: string
  br_status :: "transaction_batch_status option"
  br_transactions :: "tx_details_with_result list list"

abbreviation item_hash :: "batch_item \<Rightarrow> string" where
  "item_hash i \<equiv> bt_hash (bi_transaction i)"

abbreviation item_tx :: "batch_item \<Rightarrow> tx_details" where
  "item_tx i \<equiv> bt_tx (bi_transaction i)"

text \<open>\<open>batch.groups[0].items[0].transaction.tx.sender\<close>: throws on a batch without a first item.\<close>

definition getAddress :: "transaction_batch \<Rightarrow> string res" where
  "getAddress batch =
     (case tb_groups batch of
        [] \<Rightarrow> Inl TypeError
      | g # _ \<Rightarrow> (case bg_items g of [] \<Rightarrow> Inl TypeError | i # _ \<Rightarrow> Inr (td_sender (item_tx i))))"

section \<open>The services behind a batch\<close>

datatype cache_value = CBatch transaction_batch | CStr string

record 's batch_env =
  be_consts :: time_consts
  be_getRemote :: "string \<Rightarrow> ('s, cache_value option) io"
  be_setRemote :: "string \<Rightarrow> cache_value \<Rightarrow> int \<Rightarrow> ('s, unit) io"
  be_batchGetManyRemote :: "string list \<Rightarrow> ('s, cache_value option list) io"
  be_deleteInCache :: "string \<Rightarrow> ('s, string list) io"
  be_getKeys :: "string \<Rightarrow> ('s, string list) io"
  be_createTransaction :: "tx_details \<Rightarrow> ('s, string option) io"
  be_getTransaction :: "string \<Rightarrow> ('s, bool) io"
  be_computeHash :: "tx_details \<Rightarrow> string res"
  be_now :: "('s, int) io"
  be_toISOString :: "int \<Rightarrow> string"
  be_parseDate :: "string \<Rightarrow> int option"
  be_emitBatchUpdated :: "string \<Rightarrow> string \<Rightarrow> string list \<Rightarrow> ('s, unit) io"
  be_groupBy :: "(string \<times> string \<times> string) list \<Rightarrow> (string \<times> (string \<times> string \<times> string) list) list"

text \<open>
  A cached value used as a batch, or as a string. An absent or empty value is falsy; the methods
  the code calls next do not exist on a value of the other kind.
\<close>

fun expect_batch :: "cache_value option \<Rightarrow> transaction_batch option res" where
  "expect_batch None = Inr None"
| "expect_batch (Some (CBatch b)) = Inr (Some b)"
| "expect_batch (Some (CStr s)) = (if s = [] then Inr None else Inl TypeError)"

fun expect_str :: "cache_value option \<Rightarrow> string option res" where
  "expect_str None = Inr None"
| "expect_str (Some (CStr s)) = Inr (if s = [] then None else Some s)"
| "expect_str (Some (CBatch b)) = Inl TypeError"

abbreviation batch_cache_key :: "'s batch_env \<Rightarrow> string \<Rightarrow> string \<Rightarrow> string" where
  "batch_cache_key env address batchId \<equiv> ci_key (CacheInfo_TransactionBatch (be_consts env) address batchId)"

abbreviation pending_cache_key :: "'s batch_env \<Rightarrow> string \<Rightarrow> string" where
  "pending_cache_key env hash \<equiv> ci_key (CacheInfo_PendingTransaction (be_consts env) hash)"

definition getRemoteBatch :: "'s batch_env \<Rightarrow> string \<Rightarrow> string \<Rightarrow> ('s, transaction_batch option) io" where
  "getRemoteBatch env address batchId =
     io_bind (be_getRemote env (batch_cache_key env address batchId)) (\<lambda>v. io_lift (expect_batch v))"

definition setRemoteBatch :: "'s batch_env \<Rightarrow> string \<Rightarrow> string \<Rightarrow> transaction_batch \<Rightarrow> ('s, unit) io" where
  "setRemoteBatch env address batchId batch =
     be_setRemote env (batch_cache_key env address batchId) (CBatch batch)
       (ci_ttl (CacheInfo_TransactionBatch (be_consts env) address batchId))"

definition setPending :: "'s batch_env \<Rightarrow> string \<Rightarrow> string \<Rightarrow> ('s, unit) io" where
  "setPending env hash value =
     be_setRemote env (pending_cache_key env hash) (CStr value)
       (ci_ttl (CacheInfo_PendingTransaction (be_consts env) hash))"

section \<open>Sending transactions\<close>

text \<open>\<open>error.response.data.message\<close>, kept as it was when the error has no response.\<close>

fun error_message :: "js_error \<Rightarrow> string option \<Rightarrow> string option" where
  "error_message (HttpError m) old = m"
| "error_message _ old = old"

definition executeTransaction :: "'s batch_env \<Rightarrow> batch_item \<Rightarrow> ('s, batch_item) io" where
  "executeTransaction env item = (\<lambda>s.
     case be_createTransaction env (item_tx item) s of
       (Inl e, t) \<Rightarrow>
         (Inr (item\<lparr>bi_status := BTInvalid, bi_error := error_message e (bi_error item)\<rparr>), t)
     | (Inr txHash, t) \<Rightarrow>
         (Inr (if truthy txHash
               then item\<lparr>bi_transaction := (bi_transaction item)\<lparr>bt_hash := the txHash\<rparr>\<rparr>
               else item\<lparr>bi_status := BTInvalid\<rparr>), t))"

text \<open>
  The sending loop of \<open>startTransactionGroup\<close>: the items as they are afterwards (they are
  updated in place), and \<open>results\<close>, the items that were executed. It stops after the first
  item that is invalid.
\<close>

fun executeItems :: "'s batch_env \<Rightarrow> batch_item list \<Rightarrow> ('s, batch_item list \<times> batch_item list) io" where
  "executeItems env [] = io_return ([], [])"
| "executeItems env (item # rest) =
     io_bind (executeTransaction env item) (\<lambda>result.
       if bi_status result = BTInvalid then io_return (result # rest, [result])
       else io_bind (executeItems env rest) (\<lambda>(items, results).
         io_return (result # items, result # results)))"

definition set_group :: "nat \<Rightarrow> batch_item list \<Rightarrow> transaction_batch \<Rightarrow> transaction_batch" where
  "set_group k items batch =
     batch\<lparr>tb_groups := (tb_groups batch)[k := (tb_groups batch ! k)\<lparr>bg_items := items\<rparr>]\<rparr>"

definition pending_value :: "'s batch_env \<Rightarrow> transaction_batch \<Rightarrow> string \<Rightarrow> int \<Rightarrow> string" where
  "pending_value env batch address now = tb_id batch @ '';'' @ address @ '';'' @ be_toISOString env now"

text \<open>\<open>startTransactionGroup(batch, batch.groups[k])\<close>, with the batch it leaves.\<close>

definition startTransactionGroup ::
  "'s batch_env \<Rightarrow> transaction_batch \<Rightarrow> nat \<Rightarrow> ('s, transaction_batch) io" where
  "startTransactionGroup env batch k =
     io_bind (executeItems env (bg_items (tb_groups batch ! k))) (\<lambda>(items, results).
       let batch = set_group k items batch;
           txHashes = map item_hash (filter (\<lambda>r. bi_status r = BTPending) results)
       in io_bind (io_lift (getAddress batch)) (\<lambda>address.
          io_bind (be_now env) (\<lambda>now.
          let value = pending_value env batch address now
          in io_then (io_mapM (\<lambda>hash. setPending env hash value) txHashes)
               (io_return batch))))"

section \<open>Starting a batch\<close>

definition computeHash :: "'s batch_env \<Rightarrow> batch_item \<Rightarrow> batch_item res" where
  "computeHash env item =
     res_bind (be_computeHash env (item_tx item)) (\<lambda>h.
       Inr (item\<lparr>bi_transaction := (bi_transaction item)\<lparr>bt_hash := h\<rparr>\<rparr>))"

definition computeHashes :: "'s batch_env \<Rightarrow> batch_group list \<Rightarrow> batch_group list res" where
  "computeHashes env groups =
     res_map (\<lambda>g. res_bind (res_map (computeHash env) (bg_items g)) (\<lambda>items. Inr (g\<lparr>bg_items := items\<rparr>))) groups"

definition mark_pending :: "batch_group \<Rightarrow> batch_group" where
  "mark_pending g = g\<lparr>bg_items := map (\<lambda>i. i\<lparr>bi_status := BTPending\<rparr>) (bg_items g)\<rparr>"

definition has_invalid :: "batch_group \<Rightarrow> bool" where
  "has_invalid g \<longleftrightarrow> (\<exists>i \<in> set (bg_items g). bi_status i = BTInvalid)"

definition startTransactionBatch ::
  "'s batch_env \<Rightarrow> transaction_batch \<Rightarrow> string \<Rightarrow> ('s, transaction_batch) io" where
  "startTransactionBatch env batch sourceIp =
     (if tb_groups batch = [] then io_return batch
      else
        io_bind (io_lift (computeHashes env (tb_groups batch))) (\<lambda>groups.
        let batch = batch\<lparr>tb_groups := map mark_pending groups, tb_status := TBPending,
                          tb_sourceIp := sourceIp\<rparr>
        in io_bind (startTransactionGroup env batch 0) (\<lambda>batch.
           if has_invalid (tb_groups batch ! 0) then
             io_return (batch\<lparr>tb_status := TBInvalid\<rparr>)
           else
             io_bind (io_lift (getAddress batch)) (\<lambda>address.
             io_then (setRemoteBatch env address (tb_id batch) batch) (io_return batch)))))"

section \<open>Reading batches\<close>

definition getTransactionBatch ::
  "'s batch_env \<Rightarrow> string \<Rightarrow> string \<Rightarrow> ('s, transaction_batch option) io" where
  "getTransactionBatch env address batchId = getRemoteBatch env address batchId"

definition getTransactionBatches :: "'s batch_env \<Rightarrow> string \<Rightarrow> ('s, transaction_batch option list) io" where
  "getTransactionBatches env address =
     io_bind (be_getKeys env (batch_cache_key env address ''*'')) (\<lambda>keys.
       io_bind (be_batchGetManyRemote env keys) (\<lambda>values. io_lift (res_map expect_batch values)))"

section \<open>Conversions\<close>

definition convert_item :: "tx_details \<Rightarrow> batch_item" where
  "convert_item tx = \<lparr>bi_transaction = \<lparr>bt_tx = tx, bt_hash = [], bt_data = []\<rparr>,
     bi_status = BTPending, bi_error = None\<rparr>"

definition convertToTransactionBatch :: "batch_simplified \<Rightarrow> transaction_batch" where
  "convertToTransactionBatch batch =
     \<lparr>tb_id = bs_id batch,
      tb_groups = map (\<lambda>g. \<lparr>bg_items = map convert_item g\<rparr>) (bs_transactions batch),
      tb_status = TBPending, tb_sourceIp = []\<rparr>"

text \<open>A failed batch shows its unsent transactions as failed, too.\<close>

definition convert_result :: "transaction_batch_status \<Rightarrow> batch_item \<Rightarrow> tx_details_with_result" where
  "convert_result status item =
     tx_details.extend (item_tx item)
       \<lparr>tr_hash = Some (item_hash item),
        tr_status = Some (if status = TBInvalid \<and> bi_status item = BTPending then BTInvalid
                          else bi_status item),
        tr_error = bi_error item\<rparr>"

definition convertFromTransactionBatch :: "transaction_batch \<Rightarrow> batch_simplified_result" where
  "convertFromTransactionBatch batch =
     \<lparr>br_id = tb_id batch, br_status = Some (tb_status batch),
      br_transactions = map (\<lambda>g. map (convert_result (tb_status batch)) (bg_items g)) (tb_groups batch)\<rparr>"

section \<open>The controller\<close>

definition post_batch ::
  "'s batch_env \<Rightarrow> batch_simplified \<Rightarrow> string \<Rightarrow> ('s, batch_simplified_result) io" where
  "post_batch env batch sourceIp =
     (let transactionBatch = convertToTransactionBatch batch
      in io_bind (io_lift (getAddress transactionBatch)) (\<lambda>address.
         io_bind (getTransactionBatch env address (tb_id transactionBatch)) (\<lambda>existingBatch.
         if existingBatch \<noteq> None then
           io_throw (HttpError (Some (''Duplicate batch detected with id '' @ CHR 0x27 # tb_id transactionBatch @ [CHR 0x27]
             @ '' for address '' @ address)))
         else if \<exists>g \<in> set (tb_groups transactionBatch). \<exists>x \<in> set (bg_items g). td_sender (item_tx x) \<noteq> address then
           io_throw (HttpError (Some (''Sender for all transactions should be '' @ CHR 0x27 # address @ [CHR 0x27])))
         else
           io_bind (startTransactionBatch env transactionBatch sourceIp) (\<lambda>startedBatch.
             io_return (convertFromTransactionBatch startedBatch)))))"

definition get_batch :: "'s batch_env \<Rightarrow> string \<Rightarrow> string \<Rightarrow> ('s, batch_simplified_result) io" where
  "get_batch env address batchId =
     io_bind (getTransactionBatch env address batchId) (\<lambda>batch.
       case batch of
         None \<Rightarrow> io_throw (HttpError (Some ''Transaction batch not found''))
       | Some b \<Rightarrow> io_return (convertFromTransactionBatch b))"

definition get_batches :: "'s batch_env \<Rightarrow> string \<Rightarrow> ('s, batch_simplified_result list) io" where
  "get_batches env address =
     io_bind (getTransactionBatches env address) (\<lambda>batches.
       if None \<in> set batches then io_throw TypeError
       else io_return (map (\<lambda>b. convertFromTransactionBatch (the b)) batches))"


section \<open>Lemmas\<close>

lemma executeTransaction_total:
  obtains i t where "executeTransaction env item s = (Inr i, t)" and "item_tx i = item_tx item"
    and "bi_status i \<in> {bi_status item, BTInvalid}"
proof (cases "be_createTransaction env (item_tx item) s")
  case (Pair r t)
  show ?thesis
    using that Pair by (cases r) (auto simp: executeTransaction_def split: if_splits)
qed

text \<open>
  The sending loop runs on a prefix of the items and returns exactly its results; the rest of the
  items is untouched, and the world is the one that sending the prefix alone leaves.
\<close>

lemma executeItems_prefix:
  obtains n xs t where "n \<le> length items"
    and "executeItems env items s = (Inr (xs @ drop n items, xs), t)"
    and "executeItems env (take n items) s = (Inr (xs, xs), t)"
    and "map item_tx xs = map item_tx (take n items)"
    and "\<forall>x \<in> set (butlast xs). bi_status x \<noteq> BTInvalid"
    and "n < length items \<longrightarrow> xs \<noteq> [] \<and> bi_status (last xs) = BTInvalid"
proof (induction items arbitrary: s thesis)
  case Nil
  show ?case by (rule Nil [of 0 "[]" s]) (simp_all add: io_simps)
next
  case (Cons item rest)
  obtain i t where ex: "executeTransaction env item s = (Inr i, t)" and tx: "item_tx i = item_tx item"
    by (rule executeTransaction_total)
  show ?case
  proof (cases "bi_status i = BTInvalid")
    case True
    with ex tx show ?thesis
      by (intro Cons.prems [of 1 "[i]" t]) (simp_all add: io_simps)
  next
    case False
    obtain n xs u where IH: "n \<le> length rest"
      "executeItems env rest t = (Inr (xs @ drop n rest, xs), u)"
      "executeItems env (take n rest) t = (Inr (xs, xs), u)"
      "map item_tx xs = map item_tx (take n rest)"
      "\<forall>x \<in> set (butlast xs). bi_status x \<noteq> BTInvalid"
      "n < length rest \<longrightarrow> xs \<noteq> [] \<and> bi_status (last xs) = BTInvalid"
      by (rule Cons.IH)
    show ?thesis
    proof (rule Cons.prems [of "Suc n" "i # xs" u])
      show "executeItems env (item # rest) s = (Inr ((i # xs) @ drop (Suc n) (item # rest), i # xs), u)"
        using ex False IH(2) by (simp add: io_simps)
      show "executeItems env (take (Suc n) (item # rest)) s = (Inr (i # xs, i # xs), u)"
        using ex False IH(3) by (simp add: io_simps)
    qed (use tx False IH in auto)
  qed
qed

lemma executeItems_total:
  obtains items' results t where "executeItems env items s = (Inr (items', results), t)"
    and "map item_tx items' = map item_tx items"
proof -
  obtain n xs t where ex: "executeItems env items s = (Inr (xs @ drop n items, xs), t)"
    and tx: "map item_tx xs = map item_tx (take n items)"
    by (rule executeItems_prefix)
  have "map item_tx (xs @ drop n items) = map item_tx items"
    using tx by (metis append_take_drop_id map_append)
  with ex show ?thesis by (rule that)
qed

lemma getAddress_set_group:
  assumes "k < length (tb_groups b)"
    and "map item_tx items = map item_tx (bg_items (tb_groups b ! k))"
  shows "getAddress (set_group k items b) = getAddress b"
  using assms
  by (cases k; cases "tb_groups b"; cases items)
     (auto simp: getAddress_def set_group_def split: list.splits)

lemma set_group_simps [simp]:
  "tb_id (set_group k items b) = tb_id b"
  "tb_status (set_group k items b) = tb_status b"
  "tb_sourceIp (set_group k items b) = tb_sourceIp b"
  "length (tb_groups (set_group k items b)) = length (tb_groups b)"
  by (simp_all add: set_group_def)

lemma set_group_nth:
  "k < length (tb_groups b) \<Longrightarrow> j < length (tb_groups b) \<Longrightarrow>
   tb_groups (set_group k items b) ! j =
     (if j = k then (tb_groups b ! k)\<lparr>bg_items := items\<rparr> else tb_groups b ! j)"
  by (simp add: set_group_def nth_list_update)

text \<open>The keys of batches and of pending transactions never meet.\<close>

lemma batch_key_neq_pending [simp]:
  "batch_cache_key env a i \<noteq> pending_cache_key env' h"
  "pending_cache_key env' h \<noteq> batch_cache_key env a i"
  by (simp_all add: key_simps)

subsection \<open>A remote cache that works\<close>

text \<open>
  What the documentation of the cache and of the other services promises, for properties about
  their contents: \<open>view s\<close> is the content of the remote cache in the world \<open>s\<close>; reads and
  writes go to it, do not fail and do not expire while a handler runs; the other services leave
  it alone.
\<close>

definition cache_reliable :: "'s batch_env \<Rightarrow> ('s \<Rightarrow> string \<Rightarrow> cache_value option) \<Rightarrow> bool" where
  "cache_reliable env view \<longleftrightarrow>
     (\<forall>k s. be_getRemote env k s = (Inr (view s k), s)) \<and>
     (\<forall>ks s. be_batchGetManyRemote env ks s = (Inr (map (view s) ks), s)) \<and>
     (\<forall>k v ttl s. \<exists>t. be_setRemote env k v ttl s = (Inr (), t) \<and> view t = (view s)(k := Some v)) \<and>
     (\<forall>k s. \<exists>ks t. be_deleteInCache env k s = (Inr ks, t) \<and> view t = (view s)(k := None)) \<and>
     (\<forall>tx s. view (snd (be_createTransaction env tx s)) = view s) \<and>
     (\<forall>h s. view (snd (be_getTransaction env h s)) = view s) \<and>
     (\<forall>s. \<exists>n t. be_now env s = (Inr n, t) \<and> view t = view s) \<and>
     (\<forall>a i hs s. \<exists>t. be_emitBatchUpdated env a i hs s = (Inr (), t) \<and> view t = view s)"

lemma reliable_get: "cache_reliable env view \<Longrightarrow> be_getRemote env k s = (Inr (view s k), s)"
  by (simp add: cache_reliable_def)

lemma reliable_set:
  assumes "cache_reliable env view"
  obtains t where "be_setRemote env k v ttl s = (Inr (), t)" "view t = (view s)(k := Some v)"
  using assms unfolding cache_reliable_def by meson

lemma reliable_delete:
  assumes "cache_reliable env view"
  obtains ks t where "be_deleteInCache env k s = (Inr ks, t)" "view t = (view s)(k := None)"
  using assms unfolding cache_reliable_def by meson

lemma reliable_now:
  assumes "cache_reliable env view"
  obtains n t where "be_now env s = (Inr n, t)" "view t = view s"
  using assms unfolding cache_reliable_def by meson

lemma reliable_emit:
  assumes "cache_reliable env view"
  obtains t where "be_emitBatchUpdated env a i hs s = (Inr (), t)" "view t = view s"
  using assms unfolding cache_reliable_def by meson

lemma reliable_execute:
  assumes "cache_reliable env view" and "executeTransaction env i s = (r, t)"
  shows "view t = view s"
proof -
  have "view (snd (be_createTransaction env (item_tx i) s)) = view s"
    using assms(1) unfolding cache_reliable_def by blast
  with assms(2) show ?thesis
    by (auto simp: executeTransaction_def split: prod.splits sum.splits)
qed

lemma reliable_executeItems:
  assumes "cache_reliable env view" and "executeItems env items s = (r, t)"
  shows "view t = view s"
  using assms(2)
proof (induction items arbitrary: s r t)
  case Nil
  then show ?case by (simp add: io_simps)
next
  case (Cons x xs)
  obtain i u where ex: "executeTransaction env x s = (Inr i, u)"
    by (rule executeTransaction_total)
  have u: "view u = view s" by (rule reliable_execute [OF assms(1) ex])
  show ?case
  proof (cases "bi_status i = BTInvalid")
    case True
    then show ?thesis using Cons.prems ex u by (simp add: io_simps)
  next
    case False
    then obtain r' t' where "executeItems env xs u = (r', t')" "t' = t"
      using Cons.prems ex by (auto simp: io_simps split: prod.splits sum.splits)
    then show ?thesis using Cons.IH u by metis
  qed
qed

lemma reliable_setPendings:
  assumes "cache_reliable env view"
  shows "\<exists>t us. io_mapM (\<lambda>hash. setPending env hash value) hs s = (Inr us, t)
     \<and> view t = (\<lambda>k. if k \<in> pending_cache_key env ` set hs then Some (CStr value) else view s k)"
proof (induction hs arbitrary: s)
  case Nil
  then show ?case by (simp add: io_simps)
next
  case (Cons h hs)
  obtain u where u: "setPending env h value s = (Inr (), u)"
    "view u = (view s)(pending_cache_key env h := Some (CStr value))"
    using reliable_set [OF assms] unfolding setPending_def by metis
  obtain t us where "io_mapM (\<lambda>hash. setPending env hash value) hs u = (Inr us, t)"
    "view t = (\<lambda>k. if k \<in> pending_cache_key env ` set hs then Some (CStr value) else view u k)"
    using Cons.IH by blast
  with u show ?case by (auto simp: io_simps fun_eq_iff)
qed

text \<open>
  Starting a group on a working cache: the items are sent, every hash that is pending afterwards
  has its pending entry, and nothing else in the cache changes.
\<close>

lemma startTransactionGroup_reliable:
  assumes rel: "cache_reliable env view" and k: "k < length (tb_groups batch)"
    and addr: "getAddress batch = Inr a"
  obtains items results u now t where
    "executeItems env (bg_items (tb_groups batch ! k)) s = (Inr (items, results), u)"
    and "startTransactionGroup env batch k s = (Inr (set_group k items batch), t)"
    and "map item_tx items = map item_tx (bg_items (tb_groups batch ! k))"
    and "view t = (\<lambda>key. if key \<in> pending_cache_key env `
           set (map item_hash (filter (\<lambda>r. bi_status r = BTPending) results))
         then Some (CStr (pending_value env batch a now)) else view s key)"
proof -
  obtain items results u where ex:
    "executeItems env (bg_items (tb_groups batch ! k)) s = (Inr (items, results), u)"
    and tx: "map item_tx items = map item_tx (bg_items (tb_groups batch ! k))"
    by (rule executeItems_total)
  have u: "view u = view s" by (rule reliable_executeItems [OF rel ex])
  have addr': "getAddress (set_group k items batch) = Inr a"
    using getAddress_set_group [OF k tx] addr by simp
  obtain now v where now: "be_now env u = (Inr now, v)" and vu: "view v = view u"
    by (rule reliable_now [OF rel])
  let ?hs = "map item_hash (filter (\<lambda>r. bi_status r = BTPending) results)"
  let ?val = "pending_value env batch a now"
  obtain t us where set: "io_mapM (\<lambda>hash. setPending env hash ?val) ?hs v = (Inr us, t)"
    and vt: "view t = (\<lambda>key. if key \<in> pending_cache_key env ` set ?hs then Some (CStr ?val) else view v key)"
    using reliable_setPendings [OF rel] by blast
  have val: "pending_value env (set_group k items batch) a now = ?val"
    by (simp add: pending_value_def)
  have start: "startTransactionGroup env batch k s = (Inr (set_group k items batch), t)"
    using ex addr' now set val
    by (simp add: startTransactionGroup_def io_simps Let_def)
  have "view t = (\<lambda>key. if key \<in> pending_cache_key env ` set ?hs then Some (CStr ?val) else view s key)"
    by (simp only: vt vu u)
  then show ?thesis by (rule that [OF ex start tx])
qed

lemma startTransactionGroup_address:
  assumes "startTransactionGroup env batch k s = (Inr b, t)" and "k < length (tb_groups batch)"
  obtains a where "getAddress batch = Inr a"
proof -
  obtain items results v where ex: "executeItems env (bg_items (tb_groups batch ! k)) s = (Inr (items, results), v)"
    and tx: "map item_tx items = map item_tx (bg_items (tb_groups batch ! k))"
    by (rule executeItems_total)
  have "getAddress (set_group k items batch) = getAddress batch"
    by (rule getAddress_set_group [OF assms(2) tx])
  then show ?thesis
    using assms(1) ex that
    by (cases "getAddress batch") (auto simp: startTransactionGroup_def io_simps Let_def)
qed

lemma startTransactionGroup_result:
  assumes rel: "cache_reliable env view" and k: "k < length (tb_groups batch)"
    and run: "startTransactionGroup env batch k s = (Inr b, t)"
  obtains a items results now where "getAddress batch = Inr a" and "b = set_group k items batch"
    and "map item_tx items = map item_tx (bg_items (tb_groups batch ! k))"
    and "view t = (\<lambda>key. if key \<in> pending_cache_key env `
           set (map item_hash (filter (\<lambda>r. bi_status r = BTPending) results))
         then Some (CStr (pending_value env batch a now)) else view s key)"
proof -
  obtain a where addr: "getAddress batch = Inr a"
    by (rule startTransactionGroup_address [OF run k])
  obtain items results u now t' where
    run': "startTransactionGroup env batch k s = (Inr (set_group k items batch), t')"
    and tx: "map item_tx items = map item_tx (bg_items (tb_groups batch ! k))"
    and view: "view t' = (\<lambda>key. if key \<in> pending_cache_key env `
           set (map item_hash (filter (\<lambda>r. bi_status r = BTPending) results))
         then Some (CStr (pending_value env batch a now)) else view s key)"
    by (rule startTransactionGroup_reliable [OF rel k addr])
  from run run' have b: "b = set_group k items batch" and "t' = t" by simp_all
  with view have "view t = (\<lambda>key. if key \<in> pending_cache_key env `
           set (map item_hash (filter (\<lambda>r. bi_status r = BTPending) results))
         then Some (CStr (pending_value env batch a now)) else view s key)" by simp
  then show ?thesis by (rule that [OF addr b tx])
qed

subsection \<open>A concrete environment\<close>

text \<open>
  For the witnesses: a store that keeps what is written, with the transactions sent so far. The
  gateway refuses a transaction with the nonce 13 and answers the others with a fresh hash.
\<close>

type_synonym sample_world = "(string \<Rightarrow> cache_value option) \<times> tx_details list"

definition sample_env :: "sample_world batch_env" where
  "sample_env = \<lparr>be_consts = doc_consts,
     be_getRemote = (\<lambda>k w. (Inr (fst w k), w)),
     be_setRemote = (\<lambda>k v ttl w. (Inr (), ((fst w)(k := Some v), snd w))),
     be_batchGetManyRemote = (\<lambda>ks w. (Inr (map (fst w) ks), w)),
     be_deleteInCache = (\<lambda>k w. (Inr [k], ((fst w)(k := None), snd w))),
     be_getKeys = (\<lambda>p w. (Inr [], w)),
     be_createTransaction = (\<lambda>tx w. if td_nonce tx = 13 then (Inl (HttpError (Some ''bad nonce'')), w)
        else (Inr (Some (''tx'' @ int_str (td_nonce tx))), (fst w, snd w @ [tx]))),
     be_getTransaction = (\<lambda>h w. (Inr False, w)),
     be_computeHash = (\<lambda>tx. Inr (''tx'' @ int_str (td_nonce tx))),
     be_now = (\<lambda>w. (Inr 0, w)),
     be_toISOString = int_str,
     be_parseDate = (\<lambda>s. Some 0),
     be_emitBatchUpdated = (\<lambda>a i hs w. (Inr (), w)),
     be_groupBy = (\<lambda>xs. map (\<lambda>b. (b, filter (\<lambda>x. fst x = b) xs)) (remdups (map fst xs)))\<rparr>"

lemma sample_reliable: "cache_reliable sample_env fst"
  by (auto simp: cache_reliable_def sample_env_def)

definition sample_tx :: "int \<Rightarrow> tx_details" where
  "sample_tx n = \<lparr>td_chainID = ''1'', td_data = None, td_gasLimit = 50000, td_gasPrice = 1000000000,
     td_nonce = n, td_receiver = ''bob'', td_sender = ''alice'', td_signature = ''sig'', td_value = ''1'',
     td_version = 1, td_options = None, td_guardian = None, td_guardianSignature = None\<rparr>"

abbreviation empty_world :: sample_world where
  "empty_world \<equiv> (Map.empty, [])"

section \<open>Properties\<close>

text \<open>
  Sending stops at the first failure: the transactions of a group are sent in order, a prefix
  of them and nothing else reaches the gateway, every sent transaction but the last is accepted,
  and if any is left unsent the last one sent was refused.
\<close>

theorem group_sends_prefix:
  "\<exists>n xs t. n \<le> length items
     \<and> executeItems env items s = (Inr (xs @ drop n items, xs), t)
     \<and> executeItems env (take n items) s = (Inr (xs, xs), t)
     \<and> map item_tx xs = map item_tx (take n items)
     \<and> (\<forall>x \<in> set (butlast xs). bi_status x \<noteq> BTInvalid)
     \<and> (n < length items \<longrightarrow> xs \<noteq> [] \<and> bi_status (last xs) = BTInvalid)"
proof -
  obtain n xs t where "n \<le> length items"
    "executeItems env items s = (Inr (xs @ drop n items, xs), t)"
    "executeItems env (take n items) s = (Inr (xs, xs), t)"
    "map item_tx xs = map item_tx (take n items)"
    "\<forall>x \<in> set (butlast xs). bi_status x \<noteq> BTInvalid"
    "n < length items \<longrightarrow> xs \<noteq> [] \<and> bi_status (last xs) = BTInvalid"
    by (rule executeItems_prefix)
  then show ?thesis by (intro exI conjI)
qed

theorem group_sends_prefix_witness:
  "\<exists>xs t. executeItems sample_env (map (convert_item \<circ> sample_tx) [1, 13, 2]) empty_world
       = (Inr (xs @ [convert_item (sample_tx 2)], xs), t)
     \<and> length xs = 2 \<and> bi_status (last xs) = BTInvalid \<and> snd t = [sample_tx 1]"
proof -
  let ?items = "map (convert_item \<circ> sample_tx) [1, 13, 2]"
  obtain n xs t where n: "n \<le> length ?items"
    and ex: "executeItems sample_env ?items empty_world = (Inr (xs @ drop n ?items, xs), t)"
    and bad: "n < length ?items \<longrightarrow> xs \<noteq> [] \<and> bi_status (last xs) = BTInvalid"
    and len: "map item_tx xs = map item_tx (take n ?items)"
    using group_sends_prefix [of ?items sample_env empty_world] by blast
  have run: "snd t = [sample_tx 1] \<and> length xs = 2"
    using ex by (auto simp: executeTransaction_def sample_env_def sample_tx_def convert_item_def io_simps)
  have "n = 2"
    using n run arg_cong [OF len, of length] by auto
  then show ?thesis
    using ex bad run by auto
qed

lemma computeHashes_shape:
  assumes "computeHashes env groups = Inr groups'"
  shows "length groups' = length groups"
    and "map (map item_tx \<circ> bg_items) groups' = map (map item_tx \<circ> bg_items) groups"
proof -
  have item: "computeHash env i = Inr j \<Longrightarrow> item_tx j = item_tx i" for i j
    by (auto simp: computeHash_def res_bind_Inr)
  have items: "res_map (computeHash env) is = Inr js \<Longrightarrow> map item_tx js = map item_tx is" for "is" js
    by (induction "is" arbitrary: js) (auto simp: res_bind_Inr item)
  show "length groups' = length groups"
    using assms by (simp add: computeHashes_def res_map_length)
  show "map (map item_tx \<circ> bg_items) groups' = map (map item_tx \<circ> bg_items) groups"
    using assms unfolding computeHashes_def
    by (induction groups arbitrary: groups') (auto simp: res_bind_Inr items)
qed

lemma getAddress_tx_shape:
  assumes "map (map item_tx \<circ> bg_items) (tb_groups b) = map (map item_tx \<circ> bg_items) (tb_groups c)"
  shows "getAddress b = getAddress c"
  using assms
  by (cases "tb_groups b"; cases "tb_groups c")
     (auto simp: getAddress_def split: list.splits)

lemma mark_pending_tx: "map (map item_tx \<circ> bg_items) (map mark_pending gs) = map (map item_tx \<circ> bg_items) gs"
  by (simp add: mark_pending_def comp_def)

lemma start_batch_stored_lemma:
  assumes rel: "cache_reliable env view" and ne: "tb_groups batch \<noteq> []"
    and run: "startTransactionBatch env batch sourceIp s = (Inr b, t)"
  shows "\<exists>a. getAddress batch = Inr a \<and> tb_id b = tb_id batch
    \<and> (if has_invalid (tb_groups b ! 0)
       then tb_status b = TBInvalid
          \<and> view t (batch_cache_key env a (tb_id b)) = view s (batch_cache_key env a (tb_id b))
       else tb_status b = TBPending \<and> view t (batch_cache_key env a (tb_id b)) = Some (CBatch b))
    \<and> (\<forall>g \<in> set (tl (tb_groups b)). \<forall>i \<in> set (bg_items g). bi_status i = BTPending)
    \<and> (\<forall>key. key \<noteq> batch_cache_key env a (tb_id b) \<longrightarrow> (\<forall>h. key \<noteq> pending_cache_key env h) \<longrightarrow>
         view t key = view s key)"
proof -
  from run ne obtain groups where hashes: "computeHashes env (tb_groups batch) = Inr groups"
    by (auto simp: startTransactionBatch_def io_simps split: sum.splits)
  define b0 where "b0 = batch\<lparr>tb_groups := map mark_pending groups, tb_status := TBPending, tb_sourceIp := sourceIp\<rparr>"
  have len: "length (tb_groups b0) = length (tb_groups batch)" "tb_groups b0 \<noteq> []"
    using computeHashes_shape(1) [OF hashes] ne by (auto simp: b0_def)
  have "map (map item_tx \<circ> bg_items) (tb_groups b0) = map (map item_tx \<circ> bg_items) (tb_groups batch)"
    using computeHashes_shape(2) [OF hashes] mark_pending_tx [of groups] by (simp add: b0_def)
  then have addr0: "getAddress b0 = getAddress batch" by (rule getAddress_tx_shape)
  from run ne hashes obtain b1 u where start: "startTransactionGroup env b0 0 s = (Inr b1, u)"
    by (auto simp: startTransactionBatch_def io_simps b0_def Let_def split: sum.splits prod.splits)
  have k: "0 < length (tb_groups b0)" using len(2) by simp
  obtain a items results now where addr: "getAddress b0 = Inr a" and b1: "b1 = set_group 0 items b0"
    and tx: "map item_tx items = map item_tx (bg_items (tb_groups b0 ! 0))"
    and vu: "view u = (\<lambda>key. if key \<in> pending_cache_key env `
           set (map item_hash (filter (\<lambda>r. bi_status r = BTPending) results))
         then Some (CStr (pending_value env b0 a now)) else view s key)"
    by (rule startTransactionGroup_result [OF rel k start])
  have addr1: "getAddress b1 = Inr a"
    using getAddress_set_group [OF k tx] addr by (simp add: b1)
  have tl1: "\<forall>g \<in> set (tl (tb_groups b1)). \<forall>i \<in> set (bg_items g). bi_status i = BTPending"
    using len by (cases "groups") (auto simp: b1 b0_def set_group_def mark_pending_def)
  have id1: "tb_id b1 = tb_id batch" "tb_status b1 = TBPending"
    by (simp_all add: b1 b0_def)
  have other: "\<forall>h. key \<noteq> pending_cache_key env h \<Longrightarrow> view u key = view s key" for key
    by (auto simp: vu)
  show ?thesis
  proof (cases "has_invalid (tb_groups b1 ! 0)")
    case True
    with run ne hashes start have "b = b1\<lparr>tb_status := TBInvalid\<rparr>" "t = u"
      by (auto simp: startTransactionBatch_def io_simps b0_def Let_def)
    with True addr addr0 id1 tl1 other show ?thesis by (intro exI [of _ a]) auto
  next
    case False
    obtain t' where set: "be_setRemote env (batch_cache_key env a (tb_id b1)) (CBatch b1)
        (ci_ttl (CacheInfo_TransactionBatch (be_consts env) a (tb_id b1))) u = (Inr (), t')"
      and vt: "view t' = (view u)(batch_cache_key env a (tb_id b1) := Some (CBatch b1))"
      by (rule reliable_set [OF rel])
    from False run ne hashes start addr1 set have "b = b1" "t = t'"
      by (auto simp: startTransactionBatch_def io_simps b0_def Let_def setRemoteBatch_def)
    with False addr addr0 id1 tl1 other vt show ?thesis by (intro exI [of _ a]) auto
  qed
qed


text \<open>
  C2. Starting a batch on a working cache: the batch comes back pending and stored under its
  sender and identifier, or, when the gateway refused a transaction of the first group, invalid and
  not stored; the groups after the first are all unsent; and apart from the entries of pending
  transactions nothing else in the cache changes.
\<close>

theorem start_batch_stored:
  assumes rel: "cache_reliable env view" and ne: "tb_groups batch \<noteq> []"
    and run: "startTransactionBatch env batch sourceIp s = (Inr b, t)"
  shows "\<exists>a. getAddress batch = Inr a \<and> tb_id b = tb_id batch
    \<and> (if has_invalid (tb_groups b ! 0)
       then tb_status b = TBInvalid
          \<and> view t (batch_cache_key env a (tb_id b)) = view s (batch_cache_key env a (tb_id b))
       else tb_status b = TBPending \<and> view t (batch_cache_key env a (tb_id b)) = Some (CBatch b))
    \<and> (\<forall>g \<in> set (tl (tb_groups b)). \<forall>i \<in> set (bg_items g). bi_status i = BTPending)
    \<and> (\<forall>key. key \<noteq> batch_cache_key env a (tb_id b) \<longrightarrow> (\<forall>h. key \<noteq> pending_cache_key env h) \<longrightarrow>
         view t key = view s key)"
  by (rule start_batch_stored_lemma [OF assms])

theorem start_batch_stored_witness:
  "\<exists>b t. startTransactionBatch sample_env
       (convertToTransactionBatch \<lparr>bs_id = ''b1'', bs_transactions = [[sample_tx 1], [sample_tx 2]]\<rparr>) ''ip'' empty_world
       = (Inr b, t)
     \<and> tb_status b = TBPending
     \<and> fst t (batch_cache_key sample_env ''alice'' ''b1'') = Some (CBatch b)"
proof -
  let ?b = "convertToTransactionBatch \<lparr>bs_id = ''b1'', bs_transactions = [[sample_tx 1], [sample_tx 2]]\<rparr>"
  obtain b t where run: "startTransactionBatch sample_env ?b ''ip'' empty_world = (Inr b, t)"
    and ok: "\<not> has_invalid (tb_groups b ! 0)" "tb_id b = ''b1''"
    by (simp add: startTransactionBatch_def convertToTransactionBatch_def convert_item_def computeHashes_def
        computeHash_def mark_pending_def startTransactionGroup_def executeTransaction_def sample_env_def
        sample_tx_def io_simps Let_def set_group_def getAddress_def has_invalid_def setPending_def
        setRemoteBatch_def)
  have "getAddress ?b = Inr ''alice''"
    by (simp add: getAddress_def convertToTransactionBatch_def convert_item_def sample_tx_def)
  with start_batch_stored [OF sample_reliable _ run] ok run show ?thesis
    by (auto simp: convertToTransactionBatch_def)
qed

lemma post_batch_pendingD:
  assumes rel: "cache_reliable env view"
    and run: "post_batch env batch sourceIp s = (Inr r, t)" and pend: "br_status r = Some TBPending"
  obtains a b where "getAddress (convertToTransactionBatch batch) = Inr a"
    and "view t (batch_cache_key env a (bs_id batch)) = Some (CBatch b)"
proof -
  let ?tb = "convertToTransactionBatch batch"
  from run obtain a where addr: "getAddress ?tb = Inr a"
    by (cases "getAddress ?tb") (auto simp: post_batch_def io_simps Let_def)
  then have ne: "tb_groups ?tb \<noteq> []"
    by (auto simp: getAddress_def)
  have "getRemoteBatch env a (tb_id ?tb) s = (expect_batch (view s (batch_cache_key env a (tb_id ?tb))), s)"
    using reliable_get [OF rel] by (simp add: getRemoteBatch_def io_simps)
  with run addr obtain b where start: "startTransactionBatch env ?tb sourceIp s = (Inr b, t)"
    and r: "r = convertFromTransactionBatch b"
    by (auto simp: post_batch_def io_simps Let_def getTransactionBatch_def
        split: sum.splits if_splits prod.splits)
  have "tb_status b = TBPending"
    using pend r by (simp add: convertFromTransactionBatch_def)
  with start_batch_stored_lemma [OF rel ne start] addr
  have "view t (batch_cache_key env a (tb_id b)) = Some (CBatch b)" "tb_id b = bs_id batch"
    by (auto simp: convertToTransactionBatch_def split: if_splits)
  with addr show ?thesis by (intro that) simp_all
qed

text \<open>
  No batch is started twice: after a batch was posted and is pending, posting a batch with the
  same identifier and sender is refused as a duplicate and changes nothing.
\<close>

theorem post_batch_once:
  assumes rel: "cache_reliable env view"
    and run: "post_batch env batch sourceIp s = (Inr r, t)" and pend: "br_status r = Some TBPending"
    and same: "bs_id batch' = bs_id batch"
      "getAddress (convertToTransactionBatch batch') = getAddress (convertToTransactionBatch batch)"
  shows "\<exists>m. post_batch env batch' sourceIp' t = (Inl (HttpError (Some m)), t)"
proof -
  obtain a b where addr: "getAddress (convertToTransactionBatch batch) = Inr a"
    and stored: "view t (batch_cache_key env a (bs_id batch)) = Some (CBatch b)"
    by (rule post_batch_pendingD [OF rel run pend])
  have "tb_id (convertToTransactionBatch batch') = bs_id batch"
    by (simp add: convertToTransactionBatch_def same)
  with addr stored same show ?thesis
    using reliable_get [OF rel]
    by (simp add: post_batch_def io_simps Let_def getTransactionBatch_def getRemoteBatch_def)
qed

definition sample_batch :: batch_simplified where
  "sample_batch = \<lparr>bs_id = ''b1'', bs_transactions = [[sample_tx 1], [sample_tx 2]]\<rparr>"

lemma sample_post_pending:
  obtains r t where "post_batch sample_env sample_batch ''ip'' empty_world = (Inr r, t)"
    and "br_status r = Some TBPending"
  by (simp add: post_batch_def startTransactionBatch_def convertToTransactionBatch_def convert_item_def
      computeHashes_def computeHash_def mark_pending_def startTransactionGroup_def
      executeTransaction_def sample_env_def sample_tx_def io_simps Let_def set_group_def getAddress_def
      has_invalid_def setPending_def setRemoteBatch_def getTransactionBatch_def getRemoteBatch_def
      convertFromTransactionBatch_def sample_batch_def)

theorem post_batch_once_witness:
  "\<exists>r t m. post_batch sample_env sample_batch ''ip'' empty_world = (Inr r, t)
     \<and> post_batch sample_env sample_batch ''ip2'' t = (Inl (HttpError (Some m)), t)"
proof -
  obtain r t where run: "post_batch sample_env sample_batch ''ip'' empty_world = (Inr r, t)"
    and pend: "br_status r = Some TBPending"
    by (rule sample_post_pending)
  from post_batch_once [OF sample_reliable run pend refl refl] run show ?thesis by blast
qed

lemma convert_result_truncate: "tx_details.truncate (convert_result st i) = item_tx i"
  by (simp add: convert_result_def tx_details.defs)

text \<open>
  The conversions between the public form of a batch and the internal one lose nothing: the
  identifier, the shape of the groups and every transaction come back, and nothing is reported
  as sent yet.
\<close>

theorem convert_roundtrip:
  "br_id (convertFromTransactionBatch (convertToTransactionBatch batch)) = bs_id batch
   \<and> map (map tx_details.truncate) (br_transactions (convertFromTransactionBatch (convertToTransactionBatch batch)))
       = bs_transactions batch
   \<and> (\<forall>g \<in> set (br_transactions (convertFromTransactionBatch (convertToTransactionBatch batch))).
        \<forall>x \<in> set g. tr_status x = Some BTPending \<and> tr_hash x = Some [] \<and> tr_error x = None)"
  by (auto simp: convertFromTransactionBatch_def convertToTransactionBatch_def comp_def
      convert_result_truncate convert_item_def)
     (simp_all add: convert_result_def tx_details.defs)

theorem convert_roundtrip_witness:
  "map (map tx_details.truncate)
     (br_transactions (convertFromTransactionBatch (convertToTransactionBatch sample_batch)))
   = [[sample_tx 1], [sample_tx 2]]"
  using convert_roundtrip [of sample_batch] by (simp add: sample_batch_def)

text \<open>
  What a client reads of a failed batch: no transaction is shown as still pending, a
  transaction that was sent keeps its own outcome, and its error and hash are the stored ones.
\<close>

theorem failed_batch_shows_no_pending:
  assumes "tb_status batch = TBInvalid" and "g < length (tb_groups batch)"
    and "i < length (bg_items (tb_groups batch ! g))"
  shows "let item = bg_items (tb_groups batch ! g) ! i;
             shown = br_transactions (convertFromTransactionBatch batch) ! g ! i
         in tr_status shown \<noteq> Some BTPending
            \<and> (bi_status item \<noteq> BTPending \<longrightarrow> tr_status shown = Some (bi_status item))
            \<and> tr_error shown = bi_error item \<and> tr_hash shown = Some (item_hash item)"
  using assms by (auto simp: convertFromTransactionBatch_def convert_result_def tx_details.defs Let_def)

theorem failed_batch_shows_no_pending_witness:
  "tr_status (br_transactions (convertFromTransactionBatch
     ((convertToTransactionBatch \<lparr>bs_id = ''b'', bs_transactions = [[sample_tx 1]]\<rparr>)\<lparr>tb_status := TBInvalid\<rparr>)) ! 0 ! 0)
   \<noteq> Some BTPending"
proof -
  let ?b = "(convertToTransactionBatch \<lparr>bs_id = ''b'', bs_transactions = [[sample_tx 1]]\<rparr>)\<lparr>tb_status := TBInvalid\<rparr>"
  have "tb_status ?b = TBInvalid" "0 < length (tb_groups ?b)" "0 < length (bg_items (tb_groups ?b ! 0))"
    by (simp_all add: convertToTransactionBatch_def)
  from failed_batch_shows_no_pending [OF this] show ?thesis by (simp add: Let_def)
qed

end
