(* ===== verification/BatchProcessor.thy ===== *)
theory BatchProcessor imports TransactionsBatch Reachability "HOL-Library.AList" begin

text \<open>
  The cron that follows the transactions of batches
  (\<open>src/crons/transaction.processor/batch.transaction.processor.service.ts\<close>): what happens to a
  batch when one of its transactions is seen on the chain (\<open>handleTransactionBatches\<close> and
  \<open>processTransaction\<close>), when it has disappeared (\<open>handleDroppedTransactions\<close>), and the guard
  that keeps one run of the cron at a time (\<open>handleNewTransactions\<close>).
\<close>

section \<open>Pending entries\<close>

record pending_info =
  pi_batchId :: string
  pi_address :: string
  pi_date :: "int option"

text \<open>
  The value \<open>id;address;date\<close> of a pending entry. \<open>pi_date\<close> is \<open>None\<close> for an invalid date.
\<close>

definition parse_pending :: "'s batch_env \<Rightarrow> string \<Rightarrow> pending_info" where
  "parse_pending env value =
     (let components = split_on CHR '';'' value
      in \<lparr>pi_batchId = hd components,
          pi_address = coalesce (nth_opt components 1) [],
          pi_date = be_parseDate env (coalesce (nth_opt components 2) ''2021-01-01'')\<rparr>)"

text \<open>
  The loop over the keys and the cached values: entries without a value are skipped, and the
  entries keep the order of the keys.
\<close>

fun collect_pending ::
  "'s batch_env \<Rightarrow> (string \<times> cache_value option) list \<Rightarrow> (string \<times> pending_info) list
   \<Rightarrow> (string \<times> pending_info) list res" where
  "collect_pending env [] acc = Inr acc"
| "collect_pending env ((key, cached) # rest) acc =
     res_bind (expect_str cached) (\<lambda>v.
       case v of
         None \<Rightarrow> collect_pending env rest acc
       | Some value \<Rightarrow>
           collect_pending env rest
             (AList.update (replace_first ''pendingtransaction:'' [] key) (parse_pending env value) acc))"

section \<open>A transaction of a batch was seen on the chain\<close>

record shard_tx =
  st_hash :: string
  st_sender :: string
  st_status :: string

definition get_item :: "nat \<Rightarrow> nat \<Rightarrow> transaction_batch \<Rightarrow> batch_item" where
  "get_item g i batch = bg_items (tb_groups batch ! g) ! i"

definition set_item :: "nat \<Rightarrow> nat \<Rightarrow> batch_item \<Rightarrow> transaction_batch \<Rightarrow> transaction_batch" where
  "set_item g i item batch = set_group g ((bg_items (tb_groups batch ! g))[i := item]) batch"

text \<open>The order in which the two nested loops visit the items.\<close>

definition positions :: "transaction_batch \<Rightarrow> (nat \<times> nat) list" where
  "positions batch =
     concat (map (\<lambda>g. map (\<lambda>i. (g, i)) [0..<length (bg_items (tb_groups batch ! g))])
       [0..<length (tb_groups batch)])"

definition all_success :: "batch_group \<Rightarrow> bool" where
  "all_success g \<longleftrightarrow> (\<forall>i \<in> set (bg_items g). bi_status i = BTSuccess)"

text \<open>What the new status of an item of group \<open>g\<close> means for the batch.\<close>

definition advanceBatch ::
  "'s batch_env \<Rightarrow> string \<Rightarrow> batch_tx_status \<Rightarrow> nat \<Rightarrow> transaction_batch \<Rightarrow> ('s, transaction_batch) io" where
  "advanceBatch env batchId status g batch =
     (if tb_status batch \<noteq> TBPending then io_return batch
      else if status = BTInvalid then io_return (batch\<lparr>tb_status := TBInvalid\<rparr>)
      else if status = BTSuccess then
        (if all_success (tb_groups batch ! g) then
           (if g + 1 \<ge> length (tb_groups batch) then io_return (batch\<lparr>tb_status := TBSuccess\<rparr>)
            else
              io_bind (startTransactionGroup env batch (g + 1)) (\<lambda>batch.
                let invalidResults =
                      filter (\<lambda>x. bi_status x = BTInvalid) (bg_items (tb_groups batch ! (g + 1)))
                in if invalidResults \<noteq> [] then
                     io_bind (io_lift (getAddress batch)) (\<lambda>address.
                       io_then (be_emitBatchUpdated env address batchId (map item_hash invalidResults))
                         (io_return (batch\<lparr>tb_status := TBInvalid\<rparr>)))
                   else io_return batch))
         else io_return batch)
      else io_return batch)"

definition processItem ::
  "'s batch_env \<Rightarrow> string \<Rightarrow> string \<Rightarrow> string \<Rightarrow> batch_tx_status \<Rightarrow> nat \<times> nat \<Rightarrow> transaction_batch
   \<Rightarrow> ('s, transaction_batch) io" where
  "processItem env txHash batchId address status = (\<lambda>(g, i) batch.
     if item_hash (get_item g i batch) = txHash then
       io_bind (advanceBatch env batchId status g
                 (set_item g i ((get_item g i batch)\<lparr>bi_status := status\<rparr>) batch)) (\<lambda>batch.
         io_then (setRemoteBatch env address batchId batch) (io_return batch))
     else io_return batch)"

definition processTransaction ::
  "'s batch_env \<Rightarrow> string \<Rightarrow> string \<Rightarrow> string \<Rightarrow> batch_tx_status \<Rightarrow> ('s, unit) io" where
  "processTransaction env txHash batchId address status =
     io_finally
       (io_bind (getRemoteBatch env address batchId) (\<lambda>found.
          case found of
            None \<Rightarrow> io_return ()
          | Some batch \<Rightarrow>
              io_then (io_fold (processItem env txHash batchId address status) (positions batch) batch)
                (io_return ())))
       (be_deleteInCache env (pending_cache_key env txHash))"

text \<open>One event per batch that was touched.\<close>

definition emitBatches :: "'s batch_env \<Rightarrow> (string \<times> string \<times> string) list \<Rightarrow> ('s, unit) io" where
  "emitBatches env processed =
     io_fold (\<lambda>(batchId, infos) _.
        case infos of
          [] \<Rightarrow> io_throw TypeError
        | (_, _, address) # _ \<Rightarrow> be_emitBatchUpdated env address batchId (map (\<lambda>(_, hash, _). hash) infos))
       (be_groupBy env processed) ()"

definition index_transactions :: "shard_tx list \<Rightarrow> string \<rightharpoonup> shard_tx" where
  "index_transactions txs = foldl (\<lambda>m tx. m(st_hash tx \<mapsto> tx)) Map.empty txs"

definition handleTransactionBatches :: "'s batch_env \<Rightarrow> shard_tx list \<Rightarrow> ('s, unit) io" where
  "handleTransactionBatches env transactions =
     (let transactionsIndexed = index_transactions transactions;
          keys = map (\<lambda>tx. pending_cache_key env (st_hash tx)) transactions
      in io_bind (be_batchGetManyRemote env keys) (\<lambda>cached.
         io_bind (io_lift (collect_pending env (zip keys cached) [])) (\<lambda>pendingTransactions.
         io_bind (io_fold (\<lambda>(hash, info) processed.
             case transactionsIndexed hash of
               None \<Rightarrow> io_return processed
             | Some tx \<Rightarrow>
                 io_then (processTransaction env hash (pi_batchId info) (st_sender tx)
                            (batch_tx_status_of (st_status tx)))
                   (io_return (processed @ [(pi_batchId info, hash, st_sender tx)])))
           pendingTransactions [])
         (\<lambda>processed. emitBatches env processed))))"

section \<open>A transaction of a batch has disappeared\<close>

text \<open>
  \<open>processedTransactions\<close> is pushed to inside a \<open>try\<close>, and what was pushed before an
  exception stays: it is part of the state here.
\<close>

type_synonym processed = "(string \<times> string \<times> string) list"

definition lift_io :: "('s, 'a) io \<Rightarrow> ('s \<times> 'b, 'a) io" where
  [io_simps]: "lift_io m = (\<lambda>(s, b). case m s of (r, t) \<Rightarrow> (r, (t, b)))"

definition push_processed :: "'x \<Rightarrow> ('s \<times> 'x list, unit) io" where
  [io_simps]: "push_processed x = (\<lambda>(s, xs). (Inr (), (s, xs @ [x])))"

definition dropItem ::
  "'s batch_env \<Rightarrow> string \<Rightarrow> string \<Rightarrow> string \<Rightarrow> nat \<times> nat \<Rightarrow> transaction_batch
   \<Rightarrow> ('s \<times> processed, transaction_batch) io" where
  "dropItem env hash batchId address = (\<lambda>(g, i) batch.
     if item_hash (get_item g i batch) = hash \<and> bi_status (get_item g i batch) = BTPending then
       (let batch = (set_item g i ((get_item g i batch)\<lparr>bi_status := BTDropped\<rparr>) batch)\<lparr>tb_status := TBDropped\<rparr>
        in io_then (lift_io (setRemoteBatch env address batchId batch))
          (io_then (lift_io (be_deleteInCache env (pending_cache_key env hash)))
            (io_then (push_processed (batchId, hash, address)) (io_return batch))))
     else io_return batch)"

definition dropTransaction :: "'s batch_env \<Rightarrow> string \<times> pending_info \<Rightarrow> ('s \<times> processed, unit) io" where
  "dropTransaction env = (\<lambda>(hash, info).
     io_bind (lift_io (be_now env)) (\<lambda>now.
       case pi_date info of
         None \<Rightarrow> io_throw (ErrorMsg ''Invalid time value'')
       | Some date \<Rightarrow>
           if now - date \<le> 10 * 60 * 1000 then io_return ()
           else
             io_catch
               (io_bind (lift_io (be_getTransaction env hash)) (\<lambda>found.
                 if found then io_return ()
                 else
                   io_bind (lift_io (getRemoteBatch env (pi_address info) (pi_batchId info))) (\<lambda>batch.
                     case batch of
                       None \<Rightarrow> io_return ()
                     | Some b \<Rightarrow>
                         io_then (io_fold (dropItem env hash (pi_batchId info) (pi_address info)) (positions b) b)
                           (io_return ()))))
               (\<lambda>e. io_return ())))"

definition handleDroppedTransactions :: "'s batch_env \<Rightarrow> ('s, unit) io" where
  "handleDroppedTransactions env =
     io_bind (be_getKeys env (pending_cache_key env ''*'')) (\<lambda>keys.
     io_bind (be_batchGetManyRemote env keys) (\<lambda>cached.
     io_bind (io_lift (collect_pending env (zip keys cached) [])) (\<lambda>pendingTransactions.
       if pendingTransactions = [] then io_return ()
       else (\<lambda>s.
         case io_fold (\<lambda>p _. dropTransaction env p) pendingTransactions () (s, []) of
           (Inl e, (t, _)) \<Rightarrow> (Inl e, t)
         | (Inr _, (t, processed)) \<Rightarrow> emitBatches env processed t))))"

section \<open>One run at a time\<close>

text \<open>
  \<open>handleNewTransactions\<close> is started every second. The flag is tested and set before the first
  \<open>await\<close> and cleared in \<open>finally\<close>, so a run is its entry and its exit.
\<close>

definition batch_cron_enter :: "bool \<Rightarrow> bool \<times> bool" where
  "batch_cron_enter isRunnning = (if isRunnning then (False, isRunnning) else (True, True))"

definition batch_cron_exit :: "bool \<Rightarrow> bool" where
  "batch_cron_exit isRunnning = False"

text \<open>The whole handler, with \<open>transactionProcessor.start\<close> as its argument.\<close>

definition batch_handleNewTransactions :: "('s, unit) io \<Rightarrow> (bool \<times> 's, unit) io" where
  "batch_handleNewTransactions start = (\<lambda>(flag, s).
     case batch_cron_enter flag of
       (False, flag) \<Rightarrow> (Inr (), (flag, s))
     | (True, flag) \<Rightarrow>
         (case io_catch start (\<lambda>e. io_return ()) s of
            (r, t) \<Rightarrow> (r, (batch_cron_exit flag, t))))"

record cron_sys =
  cron_flag :: bool
  cron_runs :: nat

text \<open>Overlapping runs of a cron with a given guard.\<close>

inductive cron_step :: "(bool \<Rightarrow> bool \<times> bool) \<Rightarrow> (bool \<Rightarrow> bool) \<Rightarrow> cron_sys \<Rightarrow> cron_sys \<Rightarrow> bool"
  for enter :: "bool \<Rightarrow> bool \<times> bool" and exit :: "bool \<Rightarrow> bool" where
  cron_start: "enter (cron_flag s) = (True, f) \<Longrightarrow>
     cron_step enter exit s (s\<lparr>cron_flag := f, cron_runs := Suc (cron_runs s)\<rparr>)"
| cron_skip: "enter (cron_flag s) = (False, f) \<Longrightarrow> cron_step enter exit s (s\<lparr>cron_flag := f\<rparr>)"
| cron_end: "cron_runs s = Suc n \<Longrightarrow>
     cron_step enter exit s (s\<lparr>cron_flag := exit (cron_flag s), cron_runs := n\<rparr>)"

inductive_cases cron_stepE: "cron_step enter exit s t"

definition cron_init :: "cron_sys \<Rightarrow> bool" where
  "cron_init s \<longleftrightarrow> s = \<lparr>cron_flag = False, cron_runs = 0\<rparr>"

definition one_run :: "cron_sys \<Rightarrow> bool" where
  "one_run s \<longleftrightarrow> cron_runs s = (if cron_flag s then 1 else 0)"

interpretation batch_cron: inductive_invariant
  cron_init "cron_step batch_cron_enter batch_cron_exit" one_run
  by unfold_locales
     (auto simp: cron_init_def one_run_def batch_cron_enter_def batch_cron_exit_def
       elim!: cron_stepE split: if_splits)



section \<open>Lemmas\<close>

lemma positions_set: "set (positions b) = {(g, i). g < length (tb_groups b) \<and> i < length (bg_items (tb_groups b ! g))}"
  by (auto simp: positions_def)

lemma positions_distinct: "distinct (positions b)"
proof -
  have "distinct (concat (map (\<lambda>g. map (\<lambda>i. (g, i)) [0..<n g]) [0..<m]))" for n :: "nat \<Rightarrow> nat" and m
    by (induction m) (auto simp: distinct_map inj_on_def)
  then show ?thesis by (simp add: positions_def)
qed

lemma set_item_simps [simp]:
  "tb_id (set_item g i x b) = tb_id b"
  "tb_status (set_item g i x b) = tb_status b"
  "length (tb_groups (set_item g i x b)) = length (tb_groups b)"
  by (simp_all add: set_item_def)

lemma items_set_item:
  "g < length (tb_groups b) \<Longrightarrow> k < length (tb_groups b) \<Longrightarrow>
   bg_items (tb_groups (set_item g i x b) ! k) =
     (if k = g then (bg_items (tb_groups b ! g))[i := x] else bg_items (tb_groups b ! k))"
  by (simp add: set_item_def set_group_nth)

lemma items_set_group:
  "g < length (tb_groups b) \<Longrightarrow> k < length (tb_groups b) \<Longrightarrow>
   bg_items (tb_groups (set_group g items b) ! k) = (if k = g then items else bg_items (tb_groups b ! k))"
  by (simp add: set_group_nth)

lemma getAddress_set_item:
  assumes "g < length (tb_groups b)" and "i < length (bg_items (tb_groups b ! g))"
    and "item_tx x = item_tx (get_item g i b)"
  shows "getAddress (set_item g i x b) = getAddress b"
  unfolding set_item_def
  by (rule getAddress_set_group [OF assms(1)])
     (use assms in \<open>simp add: map_update get_item_def list_eq_iff_nth_eq nth_list_update\<close>)

text \<open>
  The hash \<open>h\<close> belongs to the item at \<open>q\<close>: no other item has it, and the gateway does not answer
  the transaction of another item with it.
\<close>

definition not_hash :: "'s batch_env \<Rightarrow> string \<Rightarrow> batch_item \<Rightarrow> bool" where
  "not_hash env h item \<longleftrightarrow>
     item_hash item \<noteq> h \<and> (\<forall>s t. be_createTransaction env (item_tx item) s \<noteq> (Inr (Some h), t))"

definition others_differ :: "'s batch_env \<Rightarrow> string \<Rightarrow> nat \<times> nat \<Rightarrow> transaction_batch \<Rightarrow> bool" where
  "others_differ env h q b \<longleftrightarrow>
     (\<forall>(g, i) \<in> set (positions b). (g, i) \<noteq> q \<longrightarrow> not_hash env h (get_item g i b))"

lemma executeTransaction_hash:
  assumes "not_hash env h item" and "executeTransaction env item s = (Inr i, t)"
  shows "not_hash env h i"
proof (cases "be_createTransaction env (item_tx item) s")
  case (Pair r u)
  show ?thesis
  proof (cases r)
    case (Inl e)
    then show ?thesis using assms Pair by (auto simp: executeTransaction_def not_hash_def)
  next
    case (Inr x)
    with Pair assms(1) have "x \<noteq> Some h" by (auto simp: not_hash_def)
    then show ?thesis
      using assms Pair Inr by (cases x) (auto simp: executeTransaction_def not_hash_def split: if_splits)
  qed
qed

lemma executeItems_hashes:
  assumes "\<forall>i \<in> set items. not_hash env h i"
    and "executeItems env items s = (Inr (items', results), t)"
  shows "\<forall>i \<in> set items'. not_hash env h i"
  using assms
proof (induction items arbitrary: items' results s)
  case Nil
  then show ?case by (simp add: io_simps)
next
  case (Cons x xs)
  obtain i u where ex: "executeTransaction env x s = (Inr i, u)"
    by (rule executeTransaction_total)
  have i: "not_hash env h i"
    using executeTransaction_hash [OF _ ex] Cons.prems(1) by simp
  show ?case
  proof (cases "bi_status i = BTInvalid")
    case True
    then show ?thesis using Cons.prems ex i by (auto simp: io_simps)
  next
    case False
    then obtain ys rs where "executeItems env xs u = (Inr (ys, rs), t)" "items' = i # ys"
      using Cons.prems(2) ex by (auto simp: io_simps split: prod.splits sum.splits)
    then show ?thesis using Cons.IH Cons.prems(1) i by auto
  qed
qed

subsection \<open>Where a batch stands\<close>

text \<open>
  The groups are worked off in order. While a batch is pending, one group is under way: the
  groups before it have succeeded and the ones after it are unsent.
\<close>

definition unsent :: "batch_group \<Rightarrow> bool" where
  "unsent g \<longleftrightarrow> (\<forall>i \<in> set (bg_items g). bi_status i = BTPending)"

definition batch_frontier :: "transaction_batch \<Rightarrow> nat \<Rightarrow> bool" where
  "batch_frontier b f \<longleftrightarrow>
     tb_status b = TBPending \<and> f < length (tb_groups b) \<and>
     (\<forall>k < f. all_success (tb_groups b ! k)) \<and>
     (\<forall>k. f < k \<longrightarrow> k < length (tb_groups b) \<longrightarrow> unsent (tb_groups b ! k))"

definition batch_wf :: "transaction_batch \<Rightarrow> bool" where
  "batch_wf b \<longleftrightarrow>
     (tb_status b = TBPending \<longrightarrow> (\<exists>f. batch_frontier b f)) \<and>
     (tb_status b = TBSuccess \<longrightarrow> (\<forall>g \<in> set (tb_groups b). all_success g))"

lemma startTransactionBatch_wf:
  assumes rel: "cache_reliable env view" and ne: "tb_groups batch \<noteq> []"
    and run: "startTransactionBatch env batch sourceIp s = (Inr b, t)"
    and groups: "tb_groups b \<noteq> []"
  shows "batch_wf b"
proof -
  from start_batch_stored_lemma [OF rel ne run]
  have st: "tb_status b \<in> {TBPending, TBInvalid}"
    and tl: "\<forall>g \<in> set (tl (tb_groups b)). unsent g"
    by (auto simp: unsent_def split: if_splits)
  have "batch_frontier b 0" if "tb_status b = TBPending"
    unfolding batch_frontier_def
  proof (intro conjI allI impI)
    fix k assume "0 < k" "k < length (tb_groups b)"
    then have "tb_groups b ! k \<in> set (tl (tb_groups b))"
      using groups by (cases "tb_groups b") (auto simp: nth_Cons split: nat.splits)
    with tl show "unsent (tb_groups b ! k)" by blast
  qed (use that groups in auto)
  with st show ?thesis by (auto simp: batch_wf_def)
qed

text \<open>
  A step of the batch: what a new status of an item of group \<open>f\<close>, already in place, leads to.
\<close>

inductive advanced :: "'s batch_env \<Rightarrow> batch_tx_status \<Rightarrow> nat \<Rightarrow> transaction_batch \<Rightarrow> transaction_batch \<Rightarrow> bool"
  for env :: "'s batch_env" and status :: batch_tx_status and f :: nat and b :: transaction_batch where
  adv_invalid: "status = BTInvalid \<Longrightarrow> advanced env status f b (b\<lparr>tb_status := TBInvalid\<rparr>)"
| adv_done: "status = BTSuccess \<Longrightarrow> all_success (tb_groups b ! f) \<Longrightarrow> f + 1 \<ge> length (tb_groups b) \<Longrightarrow>
    advanced env status f b (b\<lparr>tb_status := TBSuccess\<rparr>)"
| adv_next: "status = BTSuccess \<Longrightarrow> all_success (tb_groups b ! f) \<Longrightarrow> f + 1 < length (tb_groups b) \<Longrightarrow>
    executeItems env (bg_items (tb_groups b ! (f + 1))) s = (Inr (items, results), u) \<Longrightarrow>
    advanced env status f b (set_group (f + 1) items b)"
| adv_failed: "status = BTSuccess \<Longrightarrow> all_success (tb_groups b ! f) \<Longrightarrow> f + 1 < length (tb_groups b) \<Longrightarrow>
    executeItems env (bg_items (tb_groups b ! (f + 1))) s = (Inr (items, results), u) \<Longrightarrow>
    advanced env status f b ((set_group (f + 1) items b)\<lparr>tb_status := TBInvalid\<rparr>)"
| adv_wait: "status \<noteq> BTInvalid \<Longrightarrow> \<not> (status = BTSuccess \<and> all_success (tb_groups b ! f)) \<Longrightarrow>
    advanced env status f b b"

definition same_outside_pending ::
  "'s batch_env \<Rightarrow> ('s \<Rightarrow> string \<Rightarrow> cache_value option) \<Rightarrow> 's \<Rightarrow> 's \<Rightarrow> bool" where
  "same_outside_pending env view s t \<longleftrightarrow>
     (\<forall>key. (\<forall>h. key \<noteq> pending_cache_key env h) \<longrightarrow> view t key = view s key)"

lemma advanceBatch_reliable:
  assumes rel: "cache_reliable env view" and pend: "tb_status b = TBPending" and addr: "getAddress b = Inr a0"
  obtains b' t where "advanceBatch env batchId status f b s = (Inr b', t)"
    and "advanced env status f b b'" and "same_outside_pending env view s t"
proof (cases "status = BTSuccess \<and> all_success (tb_groups b ! f) \<and> f + 1 < length (tb_groups b)")
  case True
  then have k: "f + 1 < length (tb_groups b)" by simp
  obtain items results u now t where
    ex: "executeItems env (bg_items (tb_groups b ! (f + 1))) s = (Inr (items, results), u)"
    and st: "startTransactionGroup env b (f + 1) s = (Inr (set_group (f + 1) items b), t)"
    and tx: "map item_tx items = map item_tx (bg_items (tb_groups b ! (f + 1)))"
    and view: "view t = (\<lambda>key. if key \<in> pending_cache_key env `
           set (map item_hash (filter (\<lambda>r. bi_status r = BTPending) results))
         then Some (CStr (pending_value env b a0 now)) else view s key)"
    by (rule startTransactionGroup_reliable [OF rel k addr])
  let ?b = "set_group (f + 1) items b"
  have same: "same_outside_pending env view s t"
    by (auto simp: same_outside_pending_def view)
  have addr': "getAddress ?b = Inr a0"
    using getAddress_set_group [OF k tx] addr by simp
  let ?bad = "filter (\<lambda>x. bi_status x = BTInvalid) (bg_items (tb_groups ?b ! (f + 1)))"
  show ?thesis
  proof (cases "?bad = []")
    case none: True
    have "advanceBatch env batchId status f b s = (Inr ?b, t)"
      using True pend st none by (simp add: advanceBatch_def io_simps)
    moreover have "advanced env status f b ?b"
      by (rule advanced.adv_next [OF _ _ k ex]) (use True in auto)
    ultimately show ?thesis by (rule that) (rule same)
  next
    case some: False
    obtain t' where emit: "be_emitBatchUpdated env a0 batchId (map item_hash ?bad) t = (Inr (), t')"
      and t': "view t' = view t"
      by (rule reliable_emit [OF rel])
    have "advanceBatch env batchId status f b s = (Inr (?b\<lparr>tb_status := TBInvalid\<rparr>), t')"
      using True pend st some addr' emit by (simp add: advanceBatch_def io_simps Let_def)
    moreover have "same_outside_pending env view s t'"
      using same t' by (simp add: same_outside_pending_def)
    moreover have "advanced env status f b (?b\<lparr>tb_status := TBInvalid\<rparr>)"
      by (rule advanced.adv_failed [OF _ _ k ex]) (use True in auto)
    ultimately show ?thesis by (intro that)
  qed
next
  case False
  define b' where "b' = (if status = BTInvalid then b\<lparr>tb_status := TBInvalid\<rparr>
    else if status = BTSuccess \<and> all_success (tb_groups b ! f) then b\<lparr>tb_status := TBSuccess\<rparr> else b)"
  have "advanceBatch env batchId status f b s = (Inr b', s)"
    using False pend by (auto simp: advanceBatch_def io_simps b'_def)
  moreover have "advanced env status f b b'"
    using False by (auto simp: b'_def intro: advanced.intros)
  ultimately show ?thesis
    by (intro that) (auto simp: same_outside_pending_def)
qed

lemma advanced_wf:
  assumes "advanced env status f b b'" and fr: "batch_frontier b f"
  shows "batch_wf b' \<and> (tb_status b' = TBSuccess \<longrightarrow> status = BTSuccess \<and> f + 1 = length (tb_groups b))
    \<and> tb_status b' \<noteq> TBDropped"
  using assms(1)
proof (cases rule: advanced.cases)
  case adv_invalid
  then show ?thesis by (simp add: batch_wf_def)
next
  case adv_done
  have len: "f + 1 = length (tb_groups b)"
    using adv_done(4) fr by (simp add: batch_frontier_def)
  have "all_success g" if g: "g \<in> set (tb_groups b)" for g
  proof -
    obtain k where "k < length (tb_groups b)" "g = tb_groups b ! k"
      using g by (auto simp: in_set_conv_nth)
    then show ?thesis
      using len fr adv_done(3) by (cases "k = f") (auto simp: batch_frontier_def)
  qed
  with adv_done len show ?thesis by (simp add: batch_wf_def)
next
  case (adv_next s items results u)
  have "batch_frontier b' (f + 1)"
    unfolding batch_frontier_def
  proof (intro conjI allI impI)
    show "tb_status b' = TBPending" using fr adv_next(1) by (simp add: batch_frontier_def)
    show "f + 1 < length (tb_groups b')" using adv_next(1,4) by simp
    show "all_success (tb_groups b' ! k)" if "k < f + 1" for k
      using that fr adv_next(1,3,4) by (cases "k = f") (auto simp: batch_frontier_def set_group_nth)
    show "unsent (tb_groups b' ! k)" if "f + 1 < k" "k < length (tb_groups b')" for k
      using that fr adv_next(1,4) by (auto simp: batch_frontier_def set_group_nth)
  qed
  moreover have "tb_status b' = TBPending" using fr adv_next(1) by (simp add: batch_frontier_def)
  ultimately show ?thesis by (auto simp: batch_wf_def)
next
  case (adv_failed s items results u)
  then show ?thesis by (simp add: batch_wf_def)
next
  case adv_wait
  then show ?thesis using fr by (auto simp: batch_wf_def batch_frontier_def)
qed

text \<open>A step keeps the positions, and no other item takes the hash.\<close>

lemma set_group_items:
  assumes "executeItems env (bg_items (tb_groups b ! k)) s = (Inr (items, results), u)"
    and k: "k < length (tb_groups b)"
  shows "positions (set_group k items b) = positions b"
    and "others_differ env h q b \<Longrightarrow> fst q \<noteq> k \<Longrightarrow> others_differ env h q (set_group k items b)"
proof -
  obtain ys rs w where "executeItems env (bg_items (tb_groups b ! k)) s = (Inr (ys, rs), w)"
    "map item_tx ys = map item_tx (bg_items (tb_groups b ! k))"
    by (rule executeItems_total)
  with assms(1) have len: "length items = length (bg_items (tb_groups b ! k))"
    by (metis Inr_inject Pair_inject length_map)
  show pos: "positions (set_group k items b) = positions b"
    using k len
    by (auto simp: positions_def set_group_nth intro!: arg_cong [where f = concat])
  show "others_differ env h q (set_group k items b)" if od: "others_differ env h q b" "fst q \<noteq> k"
  proof -
    have "\<forall>x \<in> set (bg_items (tb_groups b ! k)). not_hash env h x"
      using od k by (fastforce simp: others_differ_def positions_set in_set_conv_nth get_item_def)
    then have "\<forall>x \<in> set items. not_hash env h x"
      by (rule executeItems_hashes [OF _ assms(1)])
    then show ?thesis
      using od k len by (auto simp: others_differ_def pos positions_set get_item_def set_group_nth)
  qed
qed

lemma status_update_same [simp]:
  "positions (b\<lparr>tb_status := st\<rparr>) = positions b"
  "others_differ env h q (b\<lparr>tb_status := st\<rparr>) = others_differ env h q b"
  by (simp_all add: positions_def others_differ_def get_item_def)

lemma advanced_others:
  assumes "advanced env status f b b'" and od: "others_differ env h (f, i) b"
  shows "positions b' = positions b" and "others_differ env h (f, i) b'"
proof -
  have "positions b' = positions b \<and> others_differ env h (f, i) b'"
    using assms(1)
  proof (cases rule: advanced.cases)
    case (adv_next s items results u)
    with set_group_items [OF adv_next(5,4)] od show ?thesis by simp
  next
    case (adv_failed s items results u)
    with set_group_items [OF adv_failed(5,4)] od show ?thesis by simp
  qed (use od in auto)
  then show "positions b' = positions b" and "others_differ env h (f, i) b'" by auto
qed

lemma set_item_others:
  assumes "(g, i) \<in> set (positions b)"
  shows "positions (set_item g i x b) = positions b"
    and "others_differ env h (g, i) b \<Longrightarrow> others_differ env h (g, i) (set_item g i x b)"
proof -
  show pos: "positions (set_item g i x b) = positions b"
    using assms by (auto simp: positions_def positions_set items_set_item intro!: arg_cong [where f = concat])
  show "others_differ env h (g, i) b \<Longrightarrow> others_differ env h (g, i) (set_item g i x b)"
    using assms
    by (auto simp: others_differ_def pos positions_set get_item_def items_set_item nth_list_update)
qed

subsection \<open>Processing one transaction\<close>

abbreviation with_status :: "nat \<Rightarrow> nat \<Rightarrow> batch_tx_status \<Rightarrow> transaction_batch \<Rightarrow> transaction_batch" where
  "with_status g i status b \<equiv> set_item g i ((get_item g i b)\<lparr>bi_status := status\<rparr>) b"

lemma frontier_with_status:
  "batch_frontier b f \<Longrightarrow> batch_frontier (with_status f i status b) f"
  by (auto simp: batch_frontier_def set_item_def set_group_nth)

lemma getAddress_with_status:
  "(g, i) \<in> set (positions b) \<Longrightarrow> getAddress (with_status g i status b) = getAddress b"
  by (rule getAddress_set_item) (auto simp: positions_set)

lemma processItem_other:
  "item_hash (get_item g i b) \<noteq> h \<Longrightarrow> processItem env h batchId a status (g, i) b s = (Inr b, s)"
  by (simp add: processItem_def io_simps)

lemma others_processItem:
  "others_differ env h q b \<Longrightarrow> p \<in> set (positions b) \<Longrightarrow> p \<noteq> q \<Longrightarrow>
   processItem env h batchId a status p b s = (Inr b, s)"
  by (cases p) (auto simp: others_differ_def not_hash_def intro!: processItem_other)

lemma process_at:
  assumes rel: "cache_reliable env view"
    and stored: "view s (batch_cache_key env a batchId) = Some (CBatch b)"
    and pos: "(g, i) \<in> set (positions b)" and hash: "item_hash (get_item g i b) = h"
    and od: "others_differ env h (g, i) b" and addr: "getAddress b = Inr a0"
    and adv: "\<And>s. \<exists>b' t. advanceBatch env batchId status g (with_status g i status b) s = (Inr b', t)
        \<and> P b' \<and> same_outside_pending env view s t"
    and others: "\<And>b'. P b' \<Longrightarrow> positions b' = positions b \<and> others_differ env h (g, i) b'"
  obtains b' t where "processTransaction env h batchId a status s = (Inr (), t)"
    and "P b'" and "view t (batch_cache_key env a batchId) = Some (CBatch b')"
    and "view t (pending_cache_key env h) = None"
proof -
  obtain b' t1 where step: "advanceBatch env batchId status g (with_status g i status b) s = (Inr b', t1)"
    and P: "P b'" and same: "same_outside_pending env view s t1"
    using adv [of s] by blast
  obtain t2 where set: "setRemoteBatch env a batchId b' t1 = (Inr (), t2)"
    and t2: "view t2 = (view t1)(batch_cache_key env a batchId := Some (CBatch b'))"
    unfolding setRemoteBatch_def by (rule reliable_set [OF rel])
  obtain ks t3 where del: "be_deleteInCache env (pending_cache_key env h) t2 = (Inr ks, t3)"
    and t3: "view t3 = (view t2)(pending_cache_key env h := None)"
    by (rule reliable_delete [OF rel])
  have at: "processItem env h batchId a status (g, i) b s = (Inr b', t2)"
    using hash step set by (simp add: processItem_def io_simps)
  have "io_fold (processItem env h batchId a status) (positions b) b s = (Inr b', t2)"
  proof (rule io_fold_at [where q = "(g, i)"])
    show "processItem env h batchId a status (g, i) b s = (Inr b', t2)" by (rule at)
    show "processItem env h batchId a status p b s = (Inr b, s)"
      if "p \<in> set (positions b)" "p \<noteq> (g, i)" for p s
      by (rule others_processItem [OF od that])
    show "processItem env h batchId a status p b' s = (Inr b', s)"
      if "p \<in> set (positions b)" "p \<noteq> (g, i)" for p s
      by (rule others_processItem) (use others [OF P] that in auto)
  qed (use pos positions_distinct in auto)
  moreover have "getRemoteBatch env a batchId s = (Inr (Some b), s)"
    using stored reliable_get [OF rel] by (simp add: getRemoteBatch_def io_simps)
  ultimately have "processTransaction env h batchId a status s = (Inr (), t3)"
    using del by (simp add: processTransaction_def io_simps)
  moreover have "view t3 (batch_cache_key env a batchId) = Some (CBatch b')"
    by (simp add: t3 t2)
  ultimately show ?thesis
    using P t3 that [of t3 b'] by simp
qed

lemma process_advances_lemma:
  assumes rel: "cache_reliable env view"
    and stored: "view s (batch_cache_key env a batchId) = Some (CBatch b)"
    and fr: "batch_frontier b f" and addr: "getAddress b = Inr a0"
    and pos: "(f, i) \<in> set (positions b)" and hash: "item_hash (get_item f i b) = h"
    and od: "others_differ env h (f, i) b"
  obtains b' t where "processTransaction env h batchId a status s = (Inr (), t)"
    and "advanced env status f (with_status f i status b) b'"
    and "view t (batch_cache_key env a batchId) = Some (CBatch b')"
    and "view t (pending_cache_key env h) = None"
proof (rule process_at [OF rel stored pos hash od addr, of status "advanced env status f (with_status f i status b)"])
  let ?b = "with_status f i status b"
  have pend: "tb_status ?b = TBPending" using fr by (simp add: batch_frontier_def)
  have addr': "getAddress ?b = Inr a0" using getAddress_with_status [OF pos] addr by simp
  show "\<exists>b' t. advanceBatch env batchId status f ?b s = (Inr b', t)
      \<and> advanced env status f ?b b' \<and> same_outside_pending env view s t" for s
    by (rule advanceBatch_reliable [OF rel pend addr']) blast
  show "positions b' = positions b \<and> others_differ env h (f, i) b'"
    if "advanced env status f ?b b'" for b'
  proof -
    have "others_differ env h (f, i) ?b" by (rule set_item_others(2) [OF pos od])
    from advanced_others [OF that this] show ?thesis by (simp add: set_item_others(1) [OF pos])
  qed
qed (use that in blast)

section \<open>Properties\<close>

text \<open>
  C1. A transaction of the group under way that is seen on the chain moves its batch on by one
  step, whatever the gateway answers: the batch stored afterwards is the old one with the new
  status of the item in place, advanced by that status (\<open>invalid\<close> ends the batch, the last
  success of a group sends the next group or ends the batch, anything else waits); it is well
  formed again; it is successful only when the last group was under way; and the pending entry
  of the transaction is gone.
\<close>

theorem process_advances_batch:
  assumes "cache_reliable env view"
    and "view s (batch_cache_key env a batchId) = Some (CBatch b)"
    and "batch_frontier b f" and "getAddress b = Inr a0"
    and "(f, i) \<in> set (positions b)" and "item_hash (get_item f i b) = h"
    and "others_differ env h (f, i) b"
  shows "\<exists>b' t. processTransaction env h batchId a status s = (Inr (), t)
    \<and> advanced env status f (with_status f i status b) b'
    \<and> view t (batch_cache_key env a batchId) = Some (CBatch b')
    \<and> view t (pending_cache_key env h) = None
    \<and> batch_wf b'
    \<and> (tb_status b' = TBSuccess \<longrightarrow> status = BTSuccess \<and> f + 1 = length (tb_groups b))"
proof -
  obtain b' t where run: "processTransaction env h batchId a status s = (Inr (), t)"
    "view t (batch_cache_key env a batchId) = Some (CBatch b')" "view t (pending_cache_key env h) = None"
    and adv: "advanced env status f (with_status f i status b) b'"
    by (rule process_advances_lemma [OF assms])
  show ?thesis
    using advanced_wf [OF adv frontier_with_status [OF assms(3)]] run adv by auto
qed

text \<open>A batch of two groups of one transaction each, whose first group has been sent.\<close>

definition two_groups :: transaction_batch where
  "two_groups = \<lparr>tb_id = ''b1'', tb_groups = map (\<lambda>n. \<lparr>bg_items =
       [\<lparr>bi_transaction = \<lparr>bt_tx = sample_tx n, bt_hash = ''tx'' @ int_str n, bt_data = []\<rparr>,
         bi_status = BTPending, bi_error = None\<rparr>]\<rparr>) [1, 2],
     tb_status = TBPending, tb_sourceIp = ''ip''\<rparr>"

abbreviation two_groups_world :: sample_world where
  "two_groups_world \<equiv> ([batch_cache_key sample_env ''alice'' ''b1'' \<mapsto> CBatch two_groups], [])"

lemma two_groups_facts:
  "batch_frontier two_groups 0" "getAddress two_groups = Inr ''alice''"
  "(0, 0) \<in> set (positions two_groups)" "item_hash (get_item 0 0 two_groups) = ''tx1''"
  "others_differ sample_env ''tx1'' (0, 0) two_groups"
proof -
  have "nat_str 1 = ''1''" "nat_str 2 = ''2''"
    by code_simp+
  then have str: "int_str 1 = ''1''" "int_str 2 = ''2''" by (simp_all add: int_str_def)
  have pos: "positions two_groups = [(0, 0), (1, 0)]"
    by (simp add: positions_def two_groups_def)
  show "batch_frontier two_groups 0"
    by (auto simp: batch_frontier_def two_groups_def unsent_def nth_Cons split: nat.splits)
  show "getAddress two_groups = Inr ''alice''"
    by (simp add: getAddress_def two_groups_def sample_tx_def)
  show "(0, 0) \<in> set (positions two_groups)" by (simp add: pos)
  show "item_hash (get_item 0 0 two_groups) = ''tx1''"
    by (simp add: two_groups_def get_item_def str)
  show "others_differ sample_env ''tx1'' (0, 0) two_groups"
    unfolding others_differ_def pos
    by (simp add: two_groups_def get_item_def not_hash_def str sample_env_def sample_tx_def)
qed

theorem process_advances_batch_witness:
  "\<exists>b' t. processTransaction sample_env ''tx1'' ''b1'' ''alice'' BTSuccess two_groups_world = (Inr (), t)
     \<and> batch_wf b' \<and> tb_status b' \<noteq> TBSuccess"
proof -
  have "fst two_groups_world (batch_cache_key sample_env ''alice'' ''b1'') = Some (CBatch two_groups)"
    by simp
  from process_advances_batch [OF sample_reliable this two_groups_facts, of BTSuccess]
  show ?thesis by (force simp: two_groups_def)
qed

lemma processItem_settled:
  assumes rel: "cache_reliable env view" and st: "tb_status b \<noteq> TBPending"
    and stored: "view s (batch_cache_key env a batchId) = Some (CBatch b)"
  shows "\<exists>c t. processItem env h batchId a status p b s = (Inr c, t)
    \<and> tb_status c = tb_status b \<and> view t (batch_cache_key env a batchId) = Some (CBatch c)"
proof (cases p)
  case (Pair g i)
  let ?c = "with_status g i status b"
  obtain t where "setRemoteBatch env a batchId ?c s = (Inr (), t)"
    "view t = (view s)(batch_cache_key env a batchId := Some (CBatch ?c))"
    unfolding setRemoteBatch_def by (rule reliable_set [OF rel])
  then show ?thesis
    using Pair st stored by (auto simp: processItem_def advanceBatch_def io_simps)
qed

text \<open>
  A batch that has ended stays as it ended: whatever is reported for any of its
  transactions, once it is no longer pending its status never changes again.
\<close>

theorem ended_batch_stays:
  assumes rel: "cache_reliable env view"
    and stored: "view s (batch_cache_key env a batchId) = Some (CBatch b)"
    and ended: "tb_status b \<noteq> TBPending"
  shows "\<exists>c t. processTransaction env h batchId a status s = (Inr (), t)
    \<and> view t (batch_cache_key env a batchId) = Some (CBatch c) \<and> tb_status c = tb_status b"
proof -
  let ?P = "\<lambda>c t. tb_status c = tb_status b \<and> view t (batch_cache_key env a batchId) = Some (CBatch c)"
  have "\<exists>c t. io_fold (processItem env h batchId a status) (positions b) b s = (Inr c, t) \<and> ?P c t"
    by (rule io_fold_total [where P = ?P])
       (use processItem_settled [OF rel] ended stored in \<open>auto, metis\<close>)
  then obtain c t where loop: "io_fold (processItem env h batchId a status) (positions b) b s = (Inr c, t)"
    and P: "?P c t" by blast
  obtain ks u where "be_deleteInCache env (pending_cache_key env h) t = (Inr ks, u)"
    and "view u = (view t)(pending_cache_key env h := None)"
    by (rule reliable_delete [OF rel])
  moreover have "getRemoteBatch env a batchId s = (Inr (Some b), s)"
    using stored reliable_get [OF rel] by (simp add: getRemoteBatch_def io_simps)
  ultimately show ?thesis
    using loop P by (simp add: processTransaction_def io_simps)
qed

theorem ended_batch_stays_witness:
  "\<exists>c t. processTransaction sample_env ''tx1'' ''b1'' ''alice'' BTSuccess
       ([batch_cache_key sample_env ''alice'' ''b1'' \<mapsto> CBatch (two_groups\<lparr>tb_status := TBInvalid\<rparr>)], [])
     = (Inr (), t) \<and> fst t (batch_cache_key sample_env ''alice'' ''b1'') = Some (CBatch c)
     \<and> tb_status c = TBInvalid"
  using ended_batch_stays [OF sample_reliable, of
      "([batch_cache_key sample_env ''alice'' ''b1'' \<mapsto> CBatch (two_groups\<lparr>tb_status := TBInvalid\<rparr>)], [])"
      "''alice''" "''b1''" "two_groups\<lparr>tb_status := TBInvalid\<rparr>" "''tx1''" BTSuccess]
  by simp

text \<open>
  The pending entry of a transaction is removed when the transaction is processed, whatever
  happens to the batch: also when the cache or the gateway throws halfway.
\<close>

theorem pending_always_removed:
  assumes "\<And>s. \<exists>ks t. be_deleteInCache env (pending_cache_key env h) s = (Inr ks, t)
    \<and> view t (pending_cache_key env h) = None"
  shows "view (snd (processTransaction env h batchId a status s)) (pending_cache_key env h) = None"
proof -
  have "view (snd (io_finally m (be_deleteInCache env (pending_cache_key env h)) s)) (pending_cache_key env h)
      = None" for m :: "('a, unit) io"
  proof (cases "m s")
    case (Pair r t)
    with assms [of t] show ?thesis by (auto simp: io_simps)
  qed
  then show ?thesis by (simp add: processTransaction_def)
qed

theorem pending_always_removed_witness:
  "fst (snd (processTransaction sample_env ''h'' ''b1'' ''alice'' BTSuccess
      ([pending_cache_key sample_env ''h'' \<mapsto> CStr ''x''], []))) (pending_cache_key sample_env ''h'') = None"
  by (rule pending_always_removed [where view = fst]) (simp add: sample_env_def)

text \<open>
  A transaction that fails on the chain stalls its batch: the blockchain status \<open>fail\<close> is
  neither \<open>success\<close> nor \<open>invalid\<close>, so the batch stays pending with the item marked, its group can
  never be complete, and the next group is not started.
\<close>

theorem failed_transaction_stalls:
  assumes rel: "cache_reliable env view"
    and stored: "view s (batch_cache_key env a batchId) = Some (CBatch b)"
    and fr: "batch_frontier b f" and addr: "getAddress b = Inr a0"
    and pos: "(f, i) \<in> set (positions b)" and hash: "item_hash (get_item f i b) = h"
    and od: "others_differ env h (f, i) b"
  shows "\<exists>b' t. processTransaction env h batchId a (batch_tx_status_of ''fail'') s = (Inr (), t)
    \<and> b' = with_status f i (BTOther ''fail'') b
    \<and> view t (batch_cache_key env a batchId) = Some (CBatch b')
    \<and> tb_status b' = TBPending \<and> \<not> all_success (tb_groups b' ! f)"
proof -
  obtain b' t where run: "processTransaction env h batchId a (BTOther ''fail'') s = (Inr (), t)"
    "view t (batch_cache_key env a batchId) = Some (CBatch b')"
    and adv: "advanced env (BTOther ''fail'') f (with_status f i (BTOther ''fail'') b) b'"
    by (rule process_advances_lemma [OF rel stored fr addr pos hash od])
  from adv have b': "b' = with_status f i (BTOther ''fail'') b"
    by (cases rule: advanced.cases) simp_all
  have "\<not> all_success (tb_groups b' ! f)"
    using pos by (auto simp: b' all_success_def items_set_item positions_set
        intro!: bexI [OF _ set_update_memI])
  with run b' fr show ?thesis by (simp add: batch_frontier_def)
qed

theorem failed_transaction_stalls_witness:
  "\<exists>b' t. processTransaction sample_env ''tx1'' ''b1'' ''alice'' (batch_tx_status_of ''fail'') two_groups_world
       = (Inr (), t) \<and> fst t (batch_cache_key sample_env ''alice'' ''b1'') = Some (CBatch b')
     \<and> tb_status b' = TBPending \<and> \<not> all_success (tb_groups b' ! 0)"
proof -
  have "fst two_groups_world (batch_cache_key sample_env ''alice'' ''b1'') = Some (CBatch two_groups)"
    by simp
  from failed_transaction_stalls [OF sample_reliable this two_groups_facts] show ?thesis by blast
qed

lemma drop_transaction_cases:
  assumes rel: "cache_reliable env view"
    and now: "be_now env s = (Inr now, s1)" and date: "pi_date info = Some d"
  shows "now - d \<le> 600000 \<Longrightarrow> dropTransaction env (h, info) (s, ps) = (Inr (), (s1, ps))"
    and "now - d > 600000 \<Longrightarrow> be_getTransaction env h s1 = (Inr True, s2) \<Longrightarrow>
      dropTransaction env (h, info) (s, ps) = (Inr (), (s2, ps))"
    and "now - d > 600000 \<Longrightarrow> be_getTransaction env h s1 = (Inr False, s2) \<Longrightarrow>
      view s (batch_cache_key env (pi_address info) (pi_batchId info)) = Some (CBatch b) \<Longrightarrow>
      (g, i) \<in> set (positions b) \<Longrightarrow> item_hash (get_item g i b) = h \<Longrightarrow>
      bi_status (get_item g i b) = BTPending \<Longrightarrow> others_differ env h (g, i) b \<Longrightarrow>
      \<exists>t. dropTransaction env (h, info) (s, ps)
          = (Inr (), (t, ps @ [(pi_batchId info, h, pi_address info)]))
        \<and> view t (batch_cache_key env (pi_address info) (pi_batchId info))
          = Some (CBatch ((with_status g i BTDropped b)\<lparr>tb_status := TBDropped\<rparr>))
        \<and> view t (pending_cache_key env h) = None"
proof -
  show "now - d \<le> 600000 \<Longrightarrow> dropTransaction env (h, info) (s, ps) = (Inr (), (s1, ps))"
    using now date by (simp add: dropTransaction_def io_simps)
  show "now - d > 600000 \<Longrightarrow> be_getTransaction env h s1 = (Inr True, s2) \<Longrightarrow>
      dropTransaction env (h, info) (s, ps) = (Inr (), (s2, ps))"
    using now date by (simp add: dropTransaction_def io_simps)
next
  assume old: "now - d > 600000" and gone: "be_getTransaction env h s1 = (Inr False, s2)"
    and stored: "view s (batch_cache_key env (pi_address info) (pi_batchId info)) = Some (CBatch b)"
    and pos: "(g, i) \<in> set (positions b)" and hash: "item_hash (get_item g i b) = h"
    and pend: "bi_status (get_item g i b) = BTPending" and od: "others_differ env h (g, i) b"
  let ?a = "pi_address info" and ?id = "pi_batchId info"
  let ?b = "(with_status g i BTDropped b)\<lparr>tb_status := TBDropped\<rparr>"
  have "view s2 = view s"
    using rel now gone unfolding cache_reliable_def by (metis prod.inject snd_conv)
  then have get: "getRemoteBatch env ?a ?id s2 = (Inr (Some b), s2)"
    using stored reliable_get [OF rel] by (simp add: getRemoteBatch_def io_simps)
  obtain t1 where set: "setRemoteBatch env ?a ?id ?b s2 = (Inr (), t1)"
    and t1: "view t1 = (view s2)(batch_cache_key env ?a ?id := Some (CBatch ?b))"
    unfolding setRemoteBatch_def by (rule reliable_set [OF rel])
  obtain ks t where del: "be_deleteInCache env (pending_cache_key env h) t1 = (Inr ks, t)"
    and t: "view t = (view t1)(pending_cache_key env h := None)"
    by (rule reliable_delete [OF rel])
  have other: "dropItem env h ?id ?a p c st = (Inr c, st)"
    if "others_differ env h (g, i) c" "p \<in> set (positions c)" "p \<noteq> (g, i)" for p c st
    using that by (cases p) (auto simp: others_differ_def not_hash_def dropItem_def io_simps)
  have "io_fold (dropItem env h ?id ?a) (positions b) b (s2, ps) = (Inr ?b, (t, ps @ [(?id, h, ?a)]))"
  proof (rule io_fold_at [where q = "(g, i)"])
    show "dropItem env h ?id ?a (g, i) b (s2, ps) = (Inr ?b, (t, ps @ [(?id, h, ?a)]))"
      using hash pend set del by (simp add: dropItem_def io_simps Let_def)
    show "dropItem env h ?id ?a p ?b st = (Inr ?b, st)"
      if "p \<in> set (positions b)" "p \<noteq> (g, i)" for p st
      by (rule other) (use that set_item_others [OF pos] od in simp_all)
  qed (use pos positions_distinct other [OF od] in auto)
  then have "dropTransaction env (h, info) (s, ps) = (Inr (), (t, ps @ [(?id, h, ?a)]))"
    using now date old gone get by (simp add: dropTransaction_def io_simps)
  then show "\<exists>t. dropTransaction env (h, info) (s, ps) = (Inr (), (t, ps @ [(?id, h, ?a)]))
      \<and> view t (batch_cache_key env ?a ?id) = Some (CBatch ?b)
      \<and> view t (pending_cache_key env h) = None"
    using t t1 by simp
qed

text \<open>
  What happens to a pending entry that is looked at by the job for dropped transactions: an
  entry of at most ten minutes is left alone without asking the gateway; an older one whose
  transaction the gateway knows is left alone; and an older one whose transaction has
  disappeared ends its batch as dropped, with the item marked, the pending entry removed and the
  batch reported. The job goes on to the next entry in each case.
\<close>

theorem drop_transaction_outcomes:
  assumes "cache_reliable env view" and "be_now env s = (Inr now, s1)" and "pi_date info = Some d"
  shows "(now - d \<le> 600000 \<longrightarrow> dropTransaction env (h, info) (s, ps) = (Inr (), (s1, ps)))
    \<and> (now - d > 600000 \<longrightarrow> be_getTransaction env h s1 = (Inr True, s2) \<longrightarrow>
        dropTransaction env (h, info) (s, ps) = (Inr (), (s2, ps)))
    \<and> (now - d > 600000 \<longrightarrow> be_getTransaction env h s1 = (Inr False, s2) \<longrightarrow>
        view s (batch_cache_key env (pi_address info) (pi_batchId info)) = Some (CBatch b) \<longrightarrow>
        (g, i) \<in> set (positions b) \<longrightarrow> item_hash (get_item g i b) = h \<longrightarrow>
        bi_status (get_item g i b) = BTPending \<longrightarrow> others_differ env h (g, i) b \<longrightarrow>
        (\<exists>t. dropTransaction env (h, info) (s, ps)
            = (Inr (), (t, ps @ [(pi_batchId info, h, pi_address info)]))
          \<and> view t (batch_cache_key env (pi_address info) (pi_batchId info))
            = Some (CBatch ((with_status g i BTDropped b)\<lparr>tb_status := TBDropped\<rparr>))
          \<and> view t (pending_cache_key env h) = None))"
  using drop_transaction_cases [OF assms] by blast

text \<open>The same store at a later time: eleven minutes after the transaction was sent.\<close>

definition late_env :: "sample_world batch_env" where
  "late_env = sample_env\<lparr>be_now := (\<lambda>w. (Inr 660000, w))\<rparr>"

lemma late_reliable: "cache_reliable late_env fst"
  by (auto simp: cache_reliable_def sample_env_def late_env_def)

theorem drop_transaction_outcomes_witness:
  "\<exists>t. dropTransaction late_env (''tx1'', \<lparr>pi_batchId = ''b1'', pi_address = ''alice'', pi_date = Some 0\<rparr>)
        (two_groups_world, []) = (Inr (), (t, [(''b1'', ''tx1'', ''alice'')]))
     \<and> fst t (pending_cache_key late_env ''tx1'') = None"
proof -
  have od: "others_differ late_env ''tx1'' (0, 0) two_groups"
    using two_groups_facts(5) by (simp add: others_differ_def not_hash_def late_env_def)
  have pend: "bi_status (get_item 0 0 two_groups) = BTPending"
    by (simp add: get_item_def two_groups_def)
  have now: "be_now late_env two_groups_world = (Inr 660000, two_groups_world)"
    by (simp add: late_env_def)
  from drop_transaction_outcomes [OF late_reliable now,
      of "\<lparr>pi_batchId = ''b1'', pi_address = ''alice'', pi_date = Some 0\<rparr>" 0 "''tx1''" "[]"
        two_groups_world two_groups 0 0] od pend two_groups_facts(3,4)
  show ?thesis by (auto simp: late_env_def sample_env_def)
qed

text \<open>
  C31. The cron that processes new transactions never runs twice at the same time: with any
  number of its overlapping starts, skips and ends, at most one run is under way, and a start is
  refused exactly while one is.
\<close>

theorem batch_cron_single_run:
  assumes "reach cron_init (cron_step batch_cron_enter batch_cron_exit) s"
  shows "cron_runs s \<le> 1 \<and> (fst (batch_cron_enter (cron_flag s)) \<longleftrightarrow> cron_runs s = 0)"
  using batch_cron.reach_inv [OF assms] by (auto simp: one_run_def batch_cron_enter_def)

lemma batch_cron_started:
  "reach cron_init (cron_step batch_cron_enter batch_cron_exit) \<lparr>cron_flag = True, cron_runs = 1\<rparr>"
proof -
  have "reach cron_init (cron_step batch_cron_enter batch_cron_exit) \<lparr>cron_flag = False, cron_runs = 0\<rparr>"
    by (rule reach_init) (simp add: cron_init_def)
  then show ?thesis
    by (rule reach_step)
       (use cron_start [of batch_cron_enter "\<lparr>cron_flag = False, cron_runs = 0\<rparr>" True]
         in \<open>simp add: batch_cron_enter_def\<close>)
qed

theorem batch_cron_single_run_witness:
  "reach cron_init (cron_step batch_cron_enter batch_cron_exit) \<lparr>cron_flag = True, cron_runs = 1\<rparr> \<and> \<not> fst (batch_cron_enter True)"
  using batch_cron_single_run [OF batch_cron_started] batch_cron_started by simp

text \<open>
  A run of that cron never throws and always gives the guard back: with the guard free the
  processing is started, whatever it throws is swallowed, and the guard is free again; with the
  guard taken nothing happens.
\<close>

theorem batch_cron_releases:
  "batch_handleNewTransactions start (flag, s) =
     (if flag then (Inr (), (True, s)) else (Inr (), (False, snd (start s))))"
  by (cases "start s"; cases "fst (start s)")
     (auto simp: batch_handleNewTransactions_def batch_cron_enter_def batch_cron_exit_def io_simps)

text \<open>
  The pending entry that starting a group writes is the one the processor reads: the batch
  id, the sender and the time come back, provided that none of them contains the separator.
\<close>

theorem pending_entry_roundtrip:
  assumes "CHR '';'' \<notin> set (tb_id batch)" and "CHR '';'' \<notin> set address"
    and "CHR '';'' \<notin> set (be_toISOString env now)"
  shows "parse_pending env (pending_value env batch address now) =
    \<lparr>pi_batchId = tb_id batch, pi_address = address, pi_date = be_parseDate env (be_toISOString env now)\<rparr>"
  using assms
  by (simp add: parse_pending_def pending_value_def split_on_append split_on_free Let_def)

theorem pending_entry_roundtrip_witness:
  "parse_pending sample_env (pending_value sample_env two_groups ''alice'' 0) =
    \<lparr>pi_batchId = ''b1'', pi_address = ''alice'', pi_date = Some 0\<rparr>"
  using pending_entry_roundtrip [of two_groups "''alice''" sample_env 0]
  by (simp add: two_groups_def sample_env_def int_str_free)

end
