(* ===== verification/TokenTransfer.thy ===== *)
theory TokenTransfer imports CacheInfo begin

text \<open>
  Token transfers (\<open>src/endpoints/tokens/token.transfer.service.ts\<close> and the entities of
  \<open>src/endpoints/transactions/entities\<close> it fills): the properties of a token as a transfer shows
  them, and the operations read off the logs and the smart contract results of a transaction.
\<close>

section \<open>Data\<close>

datatype esdt_type = FungibleESDT | NonFungibleESDT | SemiFungibleESDT | MetaESDT

record transfer_properties =
  tp_type :: esdt_type
  tp_token :: "string option"
  tp_collection :: "string option"
  tp_identifier :: "string option"
  tp_ticker :: string
  tp_decimals :: "int option"
  tp_name :: string
  tp_svgUrl :: string
  tp_valueUsd :: "js_float option"
  tp_valueEgld :: "js_float option"

datatype operation_action =
    OA_none | OA_transfer | OA_transferValueOnly | OA_burn | OA_addQuantity | OA_create
  | OA_localMint | OA_localBurn | OA_wipe | OA_freeze | OA_writeLog | OA_signalError

datatype operation_type = OT_none | OT_nft | OT_esdt | OT_log | OT_error | OT_egld

text \<open>The assets of sender and receiver are filled in by another service, and are always undefined here.\<close>

record transaction_operation =
  op_id :: string
  op_action :: operation_action
  op_type :: operation_type
  op_esdtType :: "esdt_type option"
  op_identifier :: string
  op_ticker :: "string option"
  op_collection :: "string option"
  op_name :: "string option"
  op_value :: "string option"
  op_sender :: string
  op_receiver :: string
  op_decimals :: "int option"
  op_data :: "string option"
  op_additionalData :: "string list option"
  op_message :: "string option"
  op_svgUrl :: "string option"

definition new_operation :: transaction_operation where
  "new_operation = \<lparr>op_id = [], op_action = OA_none, op_type = OT_none, op_esdtType = None,
     op_identifier = [], op_ticker = Some [], op_collection = None, op_name = None, op_value = None,
     op_sender = [], op_receiver = [], op_decimals = None, op_data = None, op_additionalData = Some [],
     op_message = None, op_svgUrl = None\<rparr>"

record log_event =
  le_address :: string
  le_identifier :: string
  le_topics :: "string list"
  le_data :: string
  le_additionalData :: "string list option"

record transaction_log =
  tl_id :: "string option"
  tl_address :: string
  tl_events :: "log_event list"

record sc_result =
  sc_hash :: string
  sc_nonce :: int
  sc_value :: "string option"
  sc_sender :: string
  sc_receiver :: string

record elastic_transaction =
  et_data :: "string option"
  et_tokens :: "string list option"
  et_esdtValues :: "string list option"

record esdt_properties =
  ep_type :: esdt_type
  ep_name :: string
  ep_decimals :: int

record token_assets =
  ta_name :: "string option"
  ta_svgUrl :: "string option"

section \<open>The services behind the operations\<close>

text \<open>
  The decoders of the SDK take what \<open>topics[i]\<close> gives, which is \<open>undefined\<close> (here \<open>None\<close>) beyond
  the end, and may throw. \<open>te_usdValue\<close> is the product of big decimals that gives a value in
  dollars, and \<open>te_fdiv\<close> the division of floating point numbers.
\<close>

record 's token_env =
  te_consts :: time_consts
  te_base64Decode :: "string option \<Rightarrow> string res"
  te_tryBase64ToHex :: "string option \<Rightarrow> string option res"
  te_tryBase64ToBigInt :: "string option \<Rightarrow> int option res"
  te_tryBase64ToAddress :: "string option \<Rightarrow> string option res"
  te_base64ToAddress :: "string option \<Rightarrow> string res"
  te_base64ToBigInt :: "string option \<Rightarrow> int res"
  te_last :: "string list \<Rightarrow> string option"
  te_batchApplyAll :: "string list \<Rightarrow> (string \<Rightarrow> string) \<Rightarrow> (string \<Rightarrow> ('s, transfer_properties option) io)
     \<Rightarrow> int \<Rightarrow> ('s, string \<rightharpoonup> transfer_properties option) io"
  te_getOrSet :: "string \<Rightarrow> ('s, transfer_properties option) io \<Rightarrow> int \<Rightarrow> ('s, transfer_properties option) io"
  te_getEsdtTokenProperties :: "string \<Rightarrow> ('s, esdt_properties option) io"
  te_getTokenAssets :: "string \<Rightarrow> ('s, token_assets option) io"
  te_getEsdtTokenPrice :: "string \<Rightarrow> int \<Rightarrow> ('s, js_float option) io"
  te_getEgldPrice :: "int \<Rightarrow> ('s, js_float option) io"
  te_usdValue :: "js_float \<Rightarrow> string \<Rightarrow> int \<Rightarrow> js_float"
  te_fdiv :: "js_float \<Rightarrow> js_float \<Rightarrow> js_float"

section \<open>The properties of a token\<close>

definition getTokenTransfer :: "'s token_env \<Rightarrow> elastic_transaction \<Rightarrow> (string \<times> string) option res" where
  "getTokenTransfer env elasticTransaction =
     (if \<not> truthy (et_data elasticTransaction) then Inr None
      else case et_tokens elasticTransaction of
        None \<Rightarrow> Inr None
      | Some [] \<Rightarrow> Inr None
      | Some (token # _) \<Rightarrow>
          (case et_esdtValues elasticTransaction of
             None \<Rightarrow> Inr None
           | Some [] \<Rightarrow> Inr None
           | Some (esdtValue # _) \<Rightarrow>
               res_bind (te_base64Decode env (et_data elasticTransaction)) (\<lambda>decodedData.
                 if \<not> startsWith decodedData ''ESDTTransfer@'' then Inr None
                 else Inr (Some (token, esdtValue)))))"

definition getTokenTransferPropertiesRaw ::
  "'s token_env \<Rightarrow> string \<Rightarrow> ('s, transfer_properties option) io" where
  "getTokenTransferPropertiesRaw env identifier =
     io_bind (te_getEsdtTokenProperties env identifier) (\<lambda>properties.
       case properties of
         None \<Rightarrow> io_return None
       | Some p \<Rightarrow>
           io_bind (te_getTokenAssets env identifier) (\<lambda>assets.
             io_return (Some
               \<lparr>tp_type = ep_type p,
                tp_token = (if ep_type p = FungibleESDT then Some identifier else None),
                tp_collection = (if ep_type p = FungibleESDT then None else Some identifier),
                tp_identifier = None,
                tp_ticker = (if assets \<noteq> None then hd (split_on CHR ''-'' identifier) else identifier),
                tp_decimals = (if ep_type p \<in> {FungibleESDT, MetaESDT} then Some (ep_decimals p) else None),
                tp_name = coalesce (Option.bind assets ta_name) (ep_name p),
                tp_svgUrl = coalesce (Option.bind assets ta_svgUrl) [],
                tp_valueUsd = None, tp_valueEgld = None\<rparr>)))"

record transfer_options =
  to_identifier :: string
  to_nonce :: "string option"
  to_timestamp :: "int option"
  to_value :: "string option"
  to_applyValue :: bool

abbreviation transfer_cache_info :: "'s token_env \<Rightarrow> string \<Rightarrow> cache_info" where
  "transfer_cache_info env identifier \<equiv> CacheInfo_TokenTransferProperties (te_consts env) identifier"

text \<open>A number that is absent or zero is falsy.\<close>

fun truthy_num :: "int option \<Rightarrow> bool" where
  "truthy_num None = False"
| "truthy_num (Some n) = (n \<noteq> 0)"

definition apply_value ::
  "'s token_env \<Rightarrow> transfer_options \<Rightarrow> transfer_properties \<Rightarrow> ('s, transfer_properties) io" where
  "apply_value env options p =
     (if to_applyValue options \<and> truthy_num (to_timestamp options) \<and> truthy (to_value options) then
        io_bind (te_getEsdtTokenPrice env (to_identifier options) (the (to_timestamp options))) (\<lambda>esdtPrice.
          if float_truthy esdtPrice then
            (let usd = te_usdValue env (the esdtPrice) (the (to_value options)) (coalesce (tp_decimals p) 0);
                 p = p\<lparr>tp_valueUsd := Some usd\<rparr>
             in io_bind (te_getEgldPrice env (the (to_timestamp options))) (\<lambda>egldPrice.
                  io_return (if float_truthy egldPrice
                             then p\<lparr>tp_valueEgld := Some (te_fdiv env usd (the egldPrice))\<rparr> else p)))
          else io_return p)
      else io_return p)"

text \<open>The cached value is cloned before it is changed: values are immutable here.\<close>

definition getTokenTransferProperties ::
  "'s token_env \<Rightarrow> transfer_options \<Rightarrow> ('s, transfer_properties option) io" where
  "getTokenTransferProperties env options =
     io_bind (te_getOrSet env (ci_key (transfer_cache_info env (to_identifier options)))
                (getTokenTransferPropertiesRaw env (to_identifier options))
                (ci_ttl (transfer_cache_info env (to_identifier options)))) (\<lambda>properties.
       case properties of
         None \<Rightarrow> io_return None
       | Some p \<Rightarrow>
           (let p = (if tp_type p \<noteq> FungibleESDT \<and> truthy (to_nonce options)
                     then p\<lparr>tp_identifier := Some (to_identifier options @ ''-'' @ the (to_nonce options))\<rparr>
                     else p)
            in io_bind (apply_value env options p) (\<lambda>p. io_return (Some p))))"

section \<open>Operations\<close>

definition sc_operation :: "sc_result \<Rightarrow> transaction_operation" where
  "sc_operation r = new_operation\<lparr>op_action := OA_transfer, op_type := OT_egld, op_id := sc_hash r,
     op_sender := sc_sender r, op_receiver := sc_receiver r, op_value := sc_value r\<rparr>"

fun getOperationsForTransactionScResults :: "sc_result list \<Rightarrow> transaction_operation list" where
  "getOperationsForTransactionScResults [] = []"
| "getOperationsForTransactionScResults (r # rs) =
     (if sc_nonce r \<noteq> 0 \<or> sc_value r = None \<or> sc_value r = Some ''0''
      then getOperationsForTransactionScResults rs
      else sc_operation r # getOperationsForTransactionScResults rs)"

definition getOperationEsdtActionByEventIdentifier :: "string \<Rightarrow> operation_action option" where
  "getOperationEsdtActionByEventIdentifier i =
     (if i = ''ESDTNFTTransfer'' then Some OA_transfer
      else if i = ''ESDTNFTBurn'' then Some OA_burn
      else if i = ''ESDTNFTAddQuantity'' then Some OA_addQuantity
      else if i = ''ESDTNFTCreate'' then Some OA_create
      else if i = ''MultiESDTNFTTransfer'' then Some OA_transfer
      else if i = ''ESDTTransfer'' then Some OA_transfer
      else if i = ''ESDTBurn'' then Some OA_burn
      else if i = ''ESDTLocalMint'' then Some OA_localMint
      else if i = ''ESDTLocalBurn'' then Some OA_localBurn
      else if i = ''ESDTWipe'' then Some OA_wipe
      else if i = ''ESDTFreeze'' then Some OA_freeze
      else None)"

text \<open>
  The number of triples of a multi transfer event: the \<open>i\<close> with \<open>i < (topics.length - 1) / 3\<close>,
  a division of real numbers.
\<close>

definition triple_count :: "string list \<Rightarrow> nat" where
  "triple_count topics = (length topics + 1) div 3"

definition event_identifiers :: "'s token_env \<Rightarrow> log_event \<Rightarrow> string list res" where
  "event_identifiers env event =
     res_bind (if getOperationEsdtActionByEventIdentifier (le_identifier event) \<noteq> None
               then res_map (te_base64Decode env) [nth_opt (le_topics event) 0] else Inr []) (\<lambda>first.
     res_bind (if le_identifier event = ''MultiESDTNFTTransfer''
               then res_map (\<lambda>i. te_base64Decode env (nth_opt (le_topics event) (i * 3)))
                      [1..<triple_count (le_topics event)]
               else Inr []) (\<lambda>others. Inr (first @ others)))"

definition logs_events :: "transaction_log list \<Rightarrow> (transaction_log \<times> log_event) list" where
  "logs_events logs = concat (map (\<lambda>log. map (Pair log) (tl_events log)) logs)"

definition logs_identifiers :: "'s token_env \<Rightarrow> transaction_log list \<Rightarrow> string list res" where
  "logs_identifiers env logs =
     res_bind (res_map (\<lambda>(log, event). event_identifiers env event) (logs_events logs))
       (\<lambda>ids. Inr (concat ids))"

definition getTokenTransferPropertiesFromLogs ::
  "'s token_env \<Rightarrow> transaction_log list \<Rightarrow> ('s, string \<rightharpoonup> transfer_properties option) io" where
  "getTokenTransferPropertiesFromLogs env logs =
     io_bind (io_lift (logs_identifiers env logs)) (\<lambda>identifiers.
       te_batchApplyAll env identifiers
         (\<lambda>identifier. ci_key (transfer_cache_info env identifier))
         (getTokenTransferPropertiesRaw env)
         (ci_ttl (transfer_cache_info env [])))"

definition getTransactionLogOperation ::
  "'s token_env \<Rightarrow> transaction_log \<Rightarrow> log_event \<Rightarrow> operation_action \<Rightarrow> string \<Rightarrow> transaction_operation res" where
  "getTransactionLogOperation env log event action receiver =
     res_bind (if le_data event \<noteq> [] then res_bind (te_base64Decode env (Some (le_data event))) (Inr \<circ> Some)
               else Inr None) (\<lambda>data.
     res_bind (if truthy (nth_opt (le_topics event) 1)
               then res_bind (te_base64Decode env (nth_opt (le_topics event) 1)) (Inr \<circ> Some)
               else Inr None) (\<lambda>message.
     Inr (new_operation\<lparr>op_id := coalesce (tl_id log) [], op_action := action,
            op_type := (if action = OA_writeLog then OT_log
                        else if action = OA_signalError then OT_error else OT_none),
            op_sender := le_address event, op_receiver := receiver,
            op_data := data, op_message := message\<rparr>)))"

text \<open>\<open>try { ... } catch { return undefined; }\<close> for code that only computes.\<close>

fun res_try :: "'a res \<Rightarrow> 'a option" where
  "res_try (Inl e) = None"
| "res_try (Inr x) = Some x"

definition getTransactionNftOperation ::
  "'s token_env \<Rightarrow> transaction_log \<Rightarrow> string \<Rightarrow> string option list \<Rightarrow> operation_action
   \<Rightarrow> (string \<rightharpoonup> transfer_properties option) \<Rightarrow> transaction_operation option" where
  "getTransactionNftOperation env log address topics action tokensProperties = res_try (
     res_bind (te_base64Decode env (Option.bind (nth_opt topics 0) id)) (\<lambda>identifier.
     res_bind (te_tryBase64ToHex env (Option.bind (nth_opt topics 1) id)) (\<lambda>nonce.
     res_bind (te_tryBase64ToBigInt env (Option.bind (nth_opt topics 2) id)) (\<lambda>value.
     res_bind (te_tryBase64ToAddress env (Option.bind (nth_opt topics 3) id)) (\<lambda>receiver.
     let properties = Option.bind (tokensProperties identifier) id
     in Inr \<lparr>op_id = coalesce (tl_id log) [], op_action = action,
             op_type = (if truthy nonce then OT_nft else OT_esdt),
             op_esdtType = map_option tp_type properties,
             op_identifier = (if truthy nonce then identifier @ ''-'' @ the nonce else identifier),
             op_ticker = map_option tp_ticker properties,
             op_collection = (if truthy nonce then Some identifier else None),
             op_name = map_option tp_name properties,
             op_value = map_option int_str value,
             op_sender = address, op_receiver = coalesce receiver (tl_address log),
             op_decimals = Option.bind properties tp_decimals,
             op_data = None, op_additionalData = None, op_message = None,
             op_svgUrl = map_option tp_svgUrl properties\<rparr>)))))"

text \<open>The topics of the \<open>i\<close>-th transfer of a multi transfer event.\<close>

definition triple_topics :: "'s token_env \<Rightarrow> string list \<Rightarrow> nat \<Rightarrow> string option list" where
  "triple_topics env topics i =
     [nth_opt topics (i * 3), nth_opt topics (i * 3 + 1), nth_opt topics (i * 3 + 2), te_last env topics]"

definition getTransactionMultiESDTNFTOperations ::
  "'s token_env \<Rightarrow> transaction_log \<Rightarrow> string \<Rightarrow> string list \<Rightarrow> operation_action
   \<Rightarrow> (string \<rightharpoonup> transfer_properties option) \<Rightarrow> transaction_operation list" where
  "getTransactionMultiESDTNFTOperations env log address topics action tokensProperties =
     List.map_filter (\<lambda>i. getTransactionNftOperation env log address (triple_topics env topics i)
                            action tokensProperties) [0..<triple_count topics]"

definition getTransactionTransferValueOperation ::
  "'s token_env \<Rightarrow> transaction_log \<Rightarrow> log_event \<Rightarrow> transaction_operation option" where
  "getTransactionTransferValueOperation env log event = res_try (
     let topics = le_topics event
     in res_bind
       (if length topics = 2 then
          res_bind (te_base64ToAddress env (nth_opt topics 1)) (\<lambda>receiver.
          res_bind (te_base64ToBigInt env (nth_opt topics 0)) (\<lambda>value.
            Inr (le_address event, receiver, int_str value)))
        else if length topics = 3 then
          res_bind (te_base64ToAddress env (nth_opt topics 0)) (\<lambda>sender.
          res_bind (te_base64ToAddress env (nth_opt topics 1)) (\<lambda>receiver.
          res_bind (te_base64ToBigInt env (nth_opt topics 2)) (\<lambda>value.
            Inr (sender, receiver, int_str value))))
        else Inl (ErrorMsg ''Unrecognized topic count when interpreting transferValue event''))
       (\<lambda>(sender, receiver, value).
         Inr (new_operation\<lparr>op_id := coalesce (tl_id log) [], op_action := OA_transfer, op_type := OT_egld,
                op_sender := sender, op_receiver := receiver, op_value := Some value\<rparr>)))"

text \<open>The body of the two loops: the operations that one event adds.\<close>

definition event_operations ::
  "'s token_env \<Rightarrow> string \<Rightarrow> (string \<rightharpoonup> transfer_properties option) \<Rightarrow> transaction_log \<Rightarrow> log_event
   \<Rightarrow> transaction_operation list res" where
  "event_operations env sender tokensProperties log event =
     res_bind
       (if le_identifier event = ''writeLog'' then
          res_bind (getTransactionLogOperation env log event OA_writeLog sender) (Inr \<circ> Some)
        else if le_identifier event = ''signalError'' then
          res_bind (getTransactionLogOperation env log event OA_signalError sender) (Inr \<circ> Some)
        else if le_identifier event = ''transferValueOnly'' then
          Inr (getTransactionTransferValueOperation env log event)
        else Inr None) (\<lambda>operation.
     let (multi, operation) =
       (case operation of
          Some op \<Rightarrow> ([], Some op)
        | None \<Rightarrow>
            (case getOperationEsdtActionByEventIdentifier (le_identifier event) of
               None \<Rightarrow> ([], None)
             | Some action \<Rightarrow>
                 if le_identifier event = ''MultiESDTNFTTransfer''
                 then (getTransactionMultiESDTNFTOperations env log (le_address event) (le_topics event)
                         action tokensProperties, None)
                 else ([], getTransactionNftOperation env log (le_address event)
                         (map Some (le_topics event)) action tokensProperties)))
     in Inr (multi @ (case operation of
                        None \<Rightarrow> []
                      | Some op \<Rightarrow> [op\<lparr>op_additionalData := le_additionalData event\<rparr>])))"

definition logs_operations ::
  "'s token_env \<Rightarrow> transaction_log list \<Rightarrow> string \<Rightarrow> (string \<rightharpoonup> transfer_properties option)
   \<Rightarrow> transaction_operation list res" where
  "logs_operations env logs sender tokensProperties =
     res_bind (res_map (\<lambda>(log, event). event_operations env sender tokensProperties log event)
       (logs_events logs)) (\<lambda>ops. Inr (concat ops))"

definition getOperationsForTransactionLogs ::
  "'s token_env \<Rightarrow> transaction_log list \<Rightarrow> string \<Rightarrow> ('s, transaction_operation list) io" where
  "getOperationsForTransactionLogs env logs sender =
     (if logs = [] then io_return []
      else io_bind (getTokenTransferPropertiesFromLogs env logs) (\<lambda>tokensProperties.
             io_lift (logs_operations env logs sender tokensProperties)))"

definition getOperationsForTransaction ::
  "'s token_env \<Rightarrow> sc_result list option \<Rightarrow> transaction_log list \<Rightarrow> string \<Rightarrow> ('s, transaction_operation list) io" where
  "getOperationsForTransaction env results logs sender =
     (let scResultsOperations = getOperationsForTransactionScResults (coalesce results [])
      in io_bind (getOperationsForTransactionLogs env logs sender) (\<lambda>logsOperations.
           io_return (scResultsOperations @ logsOperations)))"

section \<open>Lemmas\<close>

lemma res_map_cong:
  "(\<And>x. x \<in> set xs \<Longrightarrow> f x = g x) \<Longrightarrow> res_map f xs = res_map g xs"
  by (induction xs) auto

lemma map_filter_cong:
  "(\<And>x. x \<in> set xs \<Longrightarrow> f x = g x) \<Longrightarrow> List.map_filter f xs = List.map_filter g xs"
  by (induction xs) (auto simp: map_filter_simps split: option.splits)

lemma set_map_filter: "y \<in> set (List.map_filter f xs) \<longleftrightarrow> (\<exists>x \<in> set xs. f x = Some y)"
  by (induction xs) (auto simp: map_filter_simps split: option.splits)

lemma length_map_filter: "length (List.map_filter f xs) \<le> length xs"
  by (induction xs) (auto simp: map_filter_simps split: option.splits)

lemma nft_operation_cong:
  assumes "\<And>i. te_base64Decode env (Option.bind (nth_opt topics 0) id) = Inr i \<Longrightarrow> p1 i = p2 i"
  shows "getTransactionNftOperation env log address topics action p1
       = getTransactionNftOperation env log address topics action p2"
  using assms
  by (cases "te_base64Decode env (Option.bind (nth_opt topics 0) id)")
     (simp_all add: getTransactionNftOperation_def)

text \<open>What the first loop of \<open>getTokenTransferPropertiesFromLogs\<close> collects for one event.\<close>

lemma event_identifiers_first:
  assumes "event_identifiers env event = Inr ids"
    and "getOperationEsdtActionByEventIdentifier (le_identifier event) \<noteq> None"
    and "te_base64Decode env (nth_opt (le_topics event) 0) = Inr i"
  shows "i \<in> set ids"
  using assms by (auto simp: event_identifiers_def res_bind_Inr split: if_splits)

lemma event_identifiers_multi:
  assumes ids: "event_identifiers env event = Inr ids"
    and multi: "le_identifier event = ''MultiESDTNFTTransfer''"
    and k: "k < triple_count (le_topics event)"
    and dec: "te_base64Decode env (nth_opt (le_topics event) (k * 3)) = Inr i"
  shows "i \<in> set ids"
proof (cases "k = 0")
  case True
  then show ?thesis
    using event_identifiers_first [OF ids] multi dec
    by (simp add: getOperationEsdtActionByEventIdentifier_def)
next
  case False
  let ?f = "\<lambda>i. te_base64Decode env (nth_opt (le_topics event) (i * 3))"
  have "\<exists>others. res_map ?f [1..<triple_count (le_topics event)] = Inr others \<and> set others \<subseteq> set ids"
    using ids multi by (auto simp: event_identifiers_def res_bind_Inr split: if_splits)
  then obtain others where others: "res_map ?f [1..<triple_count (le_topics event)] = Inr others"
    and sub: "set others \<subseteq> set ids"
    by blast
  have len: "length others = triple_count (le_topics event) - 1"
    using res_map_length [OF others] by simp
  have "list_all2 (\<lambda>x y. ?f x = Inr y) [1..<triple_count (le_topics event)] others"
    using others by (simp add: res_map_Inr)
  then have "?f ([1..<triple_count (le_topics event)] ! (k - 1)) = Inr (others ! (k - 1))"
    by (rule list_all2_nthD) (use k False in simp)
  then have "others ! (k - 1) = i" using k False dec by simp
  moreover have "k - 1 < length others" using len k False by simp
  ultimately show ?thesis using sub by (metis nth_mem subsetD)
qed

lemma event_operations_cong:
  assumes ids: "event_identifiers env event = Inr ids" and eq: "\<forall>i \<in> set ids. p1 i = p2 i"
  shows "event_operations env sender p1 log event = event_operations env sender p2 log event"
proof -
  have single: "getTransactionNftOperation env log (le_address event) (map Some (le_topics event)) action p1
      = getTransactionNftOperation env log (le_address event) (map Some (le_topics event)) action p2"
    if "getOperationEsdtActionByEventIdentifier (le_identifier event) = Some action" for action
  proof (rule nft_operation_cong)
    fix i assume "te_base64Decode env (Option.bind (nth_opt (map Some (le_topics event)) 0) id) = Inr i"
    then have "te_base64Decode env (nth_opt (le_topics event) 0) = Inr i"
      by (cases "le_topics event") simp_all
    then show "p1 i = p2 i"
      using event_identifiers_first [OF ids] that eq by simp
  qed
  have multi: "getTransactionMultiESDTNFTOperations env log (le_address event) (le_topics event) action p1
      = getTransactionMultiESDTNFTOperations env log (le_address event) (le_topics event) action p2"
    if m: "le_identifier event = ''MultiESDTNFTTransfer''" for action
    unfolding getTransactionMultiESDTNFTOperations_def
  proof (rule map_filter_cong)
    fix k assume "k \<in> set [0..<triple_count (le_topics event)]"
    then show "getTransactionNftOperation env log (le_address event) (triple_topics env (le_topics event) k) action p1
        = getTransactionNftOperation env log (le_address event) (triple_topics env (le_topics event) k) action p2"
      by (intro nft_operation_cong)
         (use event_identifiers_multi [OF ids m, of k] eq in \<open>simp add: triple_topics_def\<close>)
  qed
  show ?thesis
    unfolding event_operations_def
    by (cases "getOperationEsdtActionByEventIdentifier (le_identifier event)")
       (auto simp: single multi split: option.splits intro!: arg_cong2 [where f = res_bind])
qed

lemma res_map_cases:
  assumes "res_map f xs = Inr ys" and "x \<in> set xs"
  obtains y where "f x = Inr y" and "y \<in> set ys"
  using assms by (induction xs arbitrary: ys) (auto simp: res_bind_Inr)

lemma res_map_total:
  "(\<And>x. x \<in> set xs \<Longrightarrow> \<exists>y. f x = Inr y \<and> P x y) \<Longrightarrow>
   \<exists>ys. res_map f xs = Inr ys \<and> list_all2 P xs ys"
  by (induction xs) (fastforce)+

lemma nft_operation_shape:
  assumes "getTransactionNftOperation env log address topics action p = Some op"
  shows "op_action op = action \<and> op_id op = coalesce (tl_id log) []
    \<and> (op_type op = OT_nft \<or> op_type op = OT_esdt)
    \<and> (op_type op = OT_nft \<longrightarrow> (\<exists>c nonce. nonce \<noteq> [] \<and> op_collection op = Some c
          \<and> op_identifier op = c @ ''-'' @ nonce))
    \<and> (op_type op = OT_esdt \<longrightarrow> op_collection op = None)"
proof -
  from assms obtain i nonce val receiver where
    "te_base64Decode env (Option.bind (nth_opt topics 0) id) = Inr i"
    "te_tryBase64ToHex env (Option.bind (nth_opt topics 1) id) = Inr nonce"
    "te_tryBase64ToBigInt env (Option.bind (nth_opt topics 2) id) = Inr val"
    "te_tryBase64ToAddress env (Option.bind (nth_opt topics 3) id) = Inr receiver"
    unfolding getTransactionNftOperation_def
    by (auto elim!: res_try.elims simp: res_bind_Inr)
  with assms show ?thesis
    by (cases nonce) (auto simp: getTransactionNftOperation_def Let_def split: if_splits)
qed

lemma esdt_action_range:
  "getOperationEsdtActionByEventIdentifier i = Some a \<Longrightarrow> a \<notin> {OA_none, OA_transferValueOnly, OA_writeLog, OA_signalError}"
  by (auto simp: getOperationEsdtActionByEventIdentifier_def split: if_splits)

text \<open>What every operation read off a log looks like.\<close>

definition wf_operation :: "transaction_log \<Rightarrow> transaction_operation \<Rightarrow> bool" where
  "wf_operation log op \<longleftrightarrow>
     op_id op = coalesce (tl_id log) []
     \<and> op_action op \<notin> {OA_none, OA_transferValueOnly} \<and> op_type op \<noteq> OT_none
     \<and> (op_type op = OT_nft \<longrightarrow> (\<exists>c nonce. nonce \<noteq> [] \<and> op_collection op = Some c
          \<and> op_identifier op = c @ ''-'' @ nonce))
     \<and> (op_type op \<noteq> OT_nft \<longrightarrow> op_collection op = None)
     \<and> (op_type op = OT_log \<longleftrightarrow> op_action op = OA_writeLog)
     \<and> (op_type op = OT_error \<longleftrightarrow> op_action op = OA_signalError)"

lemma wf_nft_operation:
  "getTransactionNftOperation env log address topics action p = Some op \<Longrightarrow>
   action \<notin> {OA_none, OA_transferValueOnly, OA_writeLog, OA_signalError} \<Longrightarrow> wf_operation log op"
  by (drule nft_operation_shape) (auto simp: wf_operation_def)

lemma wf_log_operation:
  "getTransactionLogOperation env log event action receiver = Inr op \<Longrightarrow>
   action \<in> {OA_writeLog, OA_signalError} \<Longrightarrow> wf_operation log op"
  by (auto simp: getTransactionLogOperation_def wf_operation_def new_operation_def res_bind_Inr)

lemma wf_value_operation:
  "getTransactionTransferValueOperation env log event = Some op \<Longrightarrow> wf_operation log op"
  by (auto simp: getTransactionTransferValueOperation_def wf_operation_def new_operation_def
      elim!: res_try.elims simp: res_bind_Inr Let_def split: if_splits)

lemma wf_operation_additional [simp]:
  "wf_operation log (op\<lparr>op_additionalData := x\<rparr>) = wf_operation log op"
  by (simp add: wf_operation_def)

lemma event_operations_wf:
  assumes "event_operations env sender p log event = Inr ops"
  shows "\<forall>op \<in> set ops. wf_operation log op"
proof -
  have multi: "wf_operation log op"
    if "op \<in> set (getTransactionMultiESDTNFTOperations env log address topics action p)"
      and "getOperationEsdtActionByEventIdentifier (le_identifier event) = Some action" for op address topics action
    using that wf_nft_operation esdt_action_range
    by (fastforce simp: getTransactionMultiESDTNFTOperations_def set_map_filter)
  have nft: "wf_operation log op"
    if "getTransactionNftOperation env log address topics action p = Some op"
      and "getOperationEsdtActionByEventIdentifier (le_identifier event) = Some action" for op address topics action
    using that wf_nft_operation esdt_action_range by blast
  have log: "wf_operation log op"
    if "getTransactionLogOperation env log event action sender = Inr op"
      and "action \<in> {OA_writeLog, OA_signalError}" for op action
    using wf_log_operation [OF that] .
  show ?thesis
    using assms
    by (auto simp: event_operations_def res_bind_Inr multi nft log
        dest: wf_value_operation
        split: if_splits option.splits)
qed

text \<open>How many operations an event adds at most.\<close>

definition event_bound :: "log_event \<Rightarrow> nat" where
  "event_bound event =
     (if le_identifier event = ''MultiESDTNFTTransfer'' then triple_count (le_topics event) else 1)"

text \<open>Decoding Base64 never fails on a string.\<close>

definition decodes_strings :: "'s token_env \<Rightarrow> bool" where
  "decodes_strings env \<longleftrightarrow> (\<forall>s. \<exists>r. te_base64Decode env (Some s) = Inr r)"

lemma log_operation_total:
  assumes "decodes_strings env"
  obtains op where "getTransactionLogOperation env log event action receiver = Inr op"
proof -
  obtain d where d: "te_base64Decode env (Some (le_data event)) = Inr d"
    using assms unfolding decodes_strings_def by blast
  show ?thesis
  proof (cases "nth_opt (le_topics event) 1")
    case None
    then show ?thesis using that d by (cases "le_data event = []") (auto simp: getTransactionLogOperation_def)
  next
    case (Some t)
    obtain m where "te_base64Decode env (Some t) = Inr m"
      using assms unfolding decodes_strings_def by blast
    then show ?thesis using that d Some
      by (cases "le_data event = []"; cases "t = []") (auto simp: getTransactionLogOperation_def)
  qed
qed

lemma event_operations_total:
  assumes "decodes_strings env"
  obtains ops where "event_operations env sender p log event = Inr ops" and "length ops \<le> event_bound event"
proof -
  obtain w where w: "getTransactionLogOperation env log event OA_writeLog sender = Inr w"
    by (rule log_operation_total [OF assms])
  obtain e where e: "getTransactionLogOperation env log event OA_signalError sender = Inr e"
    by (rule log_operation_total [OF assms])
  have multi: "length (getTransactionMultiESDTNFTOperations env log a topics action p) \<le> triple_count topics"
    for a topics action
    unfolding getTransactionMultiESDTNFTOperations_def
    by (rule order_trans [OF length_map_filter]) simp
  have "\<exists>ops. event_operations env sender p log event = Inr ops \<and> length ops \<le> event_bound event"
    using w e multi
    by (auto simp: event_operations_def event_bound_def split: option.splits)
  with that show ?thesis by blast
qed

lemma sum_list_all2: "list_all2 (\<lambda>x y. length y \<le> f x) xs ys \<Longrightarrow> length (concat ys) \<le> sum_list (map f xs)"
  by (induction rule: list_all2_induct) auto

section \<open>Properties\<close>

text \<open>
  C11. The properties fetched for the logs of a transaction are all that its operations need: the
  operations depend on the token properties only at the identifiers collected beforehand, so no
  operation misses its token.
\<close>

theorem fetched_identifiers_suffice:
  assumes ids: "logs_identifiers env logs = Inr ids" and eq: "\<forall>i \<in> set ids. p1 i = p2 i"
  shows "logs_operations env logs sender p1 = logs_operations env logs sender p2"
proof -
  obtain idss where idss: "res_map (\<lambda>(log, event). event_identifiers env event) (logs_events logs) = Inr idss"
    and ids': "ids = concat idss"
    using ids by (auto simp: logs_identifiers_def res_bind_Inr)
  have "res_map (\<lambda>(log, event). event_operations env sender p1 log event) (logs_events logs)
      = res_map (\<lambda>(log, event). event_operations env sender p2 log event) (logs_events logs)"
  proof (rule res_map_cong, clarify)
    fix log event assume "(log, event) \<in> set (logs_events logs)"
    then obtain eids where "event_identifiers env event = Inr eids" "eids \<in> set idss"
      using res_map_cases [OF idss] by force
    with eq ids' show "event_operations env sender p1 log event = event_operations env sender p2 log event"
      by (intro event_operations_cong) auto
  qed
  then show ?thesis by (simp add: logs_operations_def)
qed

text \<open>
  A concrete environment: the text of a topic is its own decoding, a topic that starts with a
  digit is a nonce and a value, and the cache is empty.
\<close>

definition sample_tokens :: "unit token_env" where
  "sample_tokens = \<lparr>te_consts = doc_consts,
     te_base64Decode = (\<lambda>s. case s of None \<Rightarrow> Inl TypeError | Some s \<Rightarrow> Inr s),
     te_tryBase64ToHex = (\<lambda>s. Inr s),
     te_tryBase64ToBigInt = (\<lambda>s. Inr (map_option (int \<circ> dec_val) s)),
     te_tryBase64ToAddress = (\<lambda>s. Inr s),
     te_base64ToAddress = (\<lambda>s. case s of None \<Rightarrow> Inl TypeError | Some s \<Rightarrow> Inr s),
     te_base64ToBigInt = (\<lambda>s. case s of None \<Rightarrow> Inl TypeError | Some s \<Rightarrow> Inr (int (dec_val s))),
     te_last = (\<lambda>xs. if xs = [] then None else Some (last xs)),
     te_batchApplyAll = (\<lambda>ids key getter ttl w. (Inr (\<lambda>i. if i \<in> set ids
        then Some (case getter i w of (Inr v, _) \<Rightarrow> v | (Inl e, _) \<Rightarrow> None) else None), w)),
     te_getOrSet = (\<lambda>key getter ttl. getter),
     te_getEsdtTokenProperties = (\<lambda>i w. (Inr (if i = ''NFT-1'' then Some \<lparr>ep_type = NonFungibleESDT, ep_name = i, ep_decimals = 0\<rparr>
        else if i = ''TKN-1'' then Some \<lparr>ep_type = FungibleESDT, ep_name = i, ep_decimals = 18\<rparr> else None), w)),
     te_getTokenAssets = (\<lambda>i w. (Inr None, w)),
     te_getEsdtTokenPrice = (\<lambda>i t w. (Inr (Some (JsFloat ''1'')), w)),
     te_getEgldPrice = (\<lambda>t w. (Inr (Some (JsFloat ''2'')), w)),
     te_usdValue = (\<lambda>price v d. JsFloat v),
     te_fdiv = (\<lambda>x y. JsFloat ''0.5'')\<rparr>"

definition sample_log :: transaction_log where
  "sample_log = \<lparr>tl_id = Some ''h'', tl_address = ''sc'', tl_events =
     [\<lparr>le_address = ''alice'', le_identifier = ''MultiESDTNFTTransfer'',
       le_topics = [''NFT-1'', ''01'', ''1'', ''TKN-1'', [], ''5'', ''bob''], le_data = [], le_additionalData = None\<rparr>]\<rparr>"

theorem fetched_identifiers_suffice_witness:
  "logs_operations sample_tokens [sample_log] ''alice'' [''NFT-1'' \<mapsto> None, ''TKN-1'' \<mapsto> None, ''X'' \<mapsto> None]
     = logs_operations sample_tokens [sample_log] ''alice'' [''NFT-1'' \<mapsto> None, ''TKN-1'' \<mapsto> None]"
proof (rule fetched_identifiers_suffice)
  show "logs_identifiers sample_tokens [sample_log] = Inr [''NFT-1'', ''TKN-1'']"
    by (simp add: logs_identifiers_def logs_events_def sample_log_def event_identifiers_def
        sample_tokens_def triple_count_def getOperationEsdtActionByEventIdentifier_def upt_conv_Cons)
qed simp

text \<open>
  Reading the operations of a transaction never fails on malformed events: with a Base64
  decoder that accepts every string, whatever the other decoders do, the operations are
  returned, at most one for each event and one for each triple of topics of a multi transfer.
\<close>

theorem logs_operations_total:
  assumes "decodes_strings env"
  shows "\<exists>ops. logs_operations env logs sender p = Inr ops
    \<and> length ops \<le> sum_list (map (event_bound \<circ> snd) (logs_events logs))"
proof -
  let ?f = "\<lambda>(log, event). event_operations env sender p log event"
  have "\<exists>ops. ?f x = Inr ops \<and> length ops \<le> (event_bound \<circ> snd) x" for x
    by (cases x) (auto intro: event_operations_total [OF assms])
  then obtain opss where "res_map ?f (logs_events logs) = Inr opss"
    and "list_all2 (\<lambda>x ops. length ops \<le> (event_bound \<circ> snd) x) (logs_events logs) opss"
    using res_map_total [of "logs_events logs" ?f "\<lambda>x ops. length ops \<le> (event_bound \<circ> snd) x"] by auto
  then show ?thesis
    using sum_list_all2 [of "event_bound \<circ> snd"] by (simp add: logs_operations_def)
qed

theorem logs_operations_total_witness:
  "\<exists>ops. logs_operations sample_tokens [sample_log] ''alice'' Map.empty = Inr ops \<and> length ops \<le> 2"
  using logs_operations_total [of sample_tokens "[sample_log]" "''alice''" Map.empty]
  by (simp add: decodes_strings_def sample_tokens_def logs_events_def sample_log_def event_bound_def
      triple_count_def)

text \<open>
  C40. Every operation read off the logs is well formed: it carries the id of its log, has a kind
  and an action, is an NFT operation exactly when it has a collection, in which case its
  identifier is the collection and a nonce, and is a log or an error entry exactly for the events
  \<open>writeLog\<close> and \<open>signalError\<close>.
\<close>

theorem logs_operations_wf:
  assumes "logs_operations env logs sender p = Inr ops" and "op \<in> set ops"
  shows "\<exists>log \<in> set logs. wf_operation log op"
proof -
  obtain opss where opss: "res_map (\<lambda>(log, event). event_operations env sender p log event) (logs_events logs) = Inr opss"
    and ops: "ops = concat opss"
    using assms(1) by (auto simp: logs_operations_def res_bind_Inr)
  obtain eops where eops: "eops \<in> set opss" "op \<in> set eops"
    using assms(2) ops by auto
  then obtain k where k: "k < length opss" "opss ! k = eops"
    by (auto simp: in_set_conv_nth)
  have len: "length opss = length (logs_events logs)" by (rule res_map_length [OF opss])
  obtain log event where le: "logs_events logs ! k = (log, event)" by fastforce
  have "(\<lambda>(log, event). event_operations env sender p log event) (logs_events logs ! k) = Inr (opss ! k)"
    by (rule list_all2_nthD [OF opss [unfolded res_map_Inr]]) (use k len in simp)
  then have "event_operations env sender p log event = Inr eops" using le k by simp
  then have "wf_operation log op" using event_operations_wf eops(2) by blast
  moreover have "log \<in> set logs"
    using le k len nth_mem [of k "logs_events logs"] by (auto simp: logs_events_def)
  ultimately show ?thesis by blast
qed

theorem logs_operations_wf_witness:
  "\<exists>op. logs_operations sample_tokens [sample_log] ''alice'' Map.empty
      = Inr [op, the (getTransactionNftOperation sample_tokens sample_log ''alice''
                (triple_topics sample_tokens (le_topics (hd (tl_events sample_log))) 1) OA_transfer Map.empty)]
    \<and> op_identifier op = ''NFT-1-01'' \<and> wf_operation sample_log op"
proof -
  define op where "op = the (getTransactionNftOperation sample_tokens sample_log ''alice''
    (triple_topics sample_tokens (le_topics (hd (tl_events sample_log))) 0) OA_transfer Map.empty)"
  have ops: "logs_operations sample_tokens [sample_log] ''alice'' Map.empty
      = Inr [op, the (getTransactionNftOperation sample_tokens sample_log ''alice''
                (triple_topics sample_tokens (le_topics (hd (tl_events sample_log))) 1) OA_transfer Map.empty)]"
    by (simp add: op_def logs_operations_def logs_events_def sample_log_def event_operations_def
        getOperationEsdtActionByEventIdentifier_def getTransactionMultiESDTNFTOperations_def
        triple_count_def getTransactionNftOperation_def triple_topics_def sample_tokens_def
        upt_conv_Cons map_filter_simps Let_def)
  have "op_identifier op = ''NFT-1-01''"
    by (simp add: op_def sample_log_def getTransactionNftOperation_def triple_topics_def sample_tokens_def Let_def)
  moreover have "\<exists>log \<in> set [sample_log]. wf_operation log op"
    by (rule logs_operations_wf [OF ops]) simp
  ultimately show ?thesis using ops by auto
qed

text \<open>What the properties of a token look like, and what the cache promises about them.\<close>

definition wf_properties :: "string \<Rightarrow> transfer_properties \<Rightarrow> bool" where
  "wf_properties identifier p \<longleftrightarrow>
     (tp_token p = (if tp_type p = FungibleESDT then Some identifier else None))
     \<and> (tp_collection p = (if tp_type p = FungibleESDT then None else Some identifier))
     \<and> (tp_decimals p \<noteq> None \<longleftrightarrow> tp_type p \<in> {FungibleESDT, MetaESDT})"

lemma raw_properties_wf:
  "getTokenTransferPropertiesRaw env identifier s = (Inr (Some p), t) \<Longrightarrow>
   wf_properties identifier p \<and> tp_identifier p = None"
  by (auto simp: getTokenTransferPropertiesRaw_def wf_properties_def io_simps
      split: prod.splits sum.splits option.splits if_splits)

text \<open>
  \<open>getOrSet\<close> answers with what the getter returns, now or in an earlier call with this key.
\<close>

definition getOrSet_answers :: "'s token_env \<Rightarrow> bool" where
  "getOrSet_answers env \<longleftrightarrow>
     (\<forall>identifier ttl s v t.
        te_getOrSet env (ci_key (transfer_cache_info env identifier))
          (getTokenTransferPropertiesRaw env identifier) ttl s = (Inr v, t) \<longrightarrow>
        (\<exists>s' t'. getTokenTransferPropertiesRaw env identifier s' = (Inr v, t')))"

lemma apply_value_keeps:
  "apply_value env options p s = (Inr q, t) \<Longrightarrow>
   tp_type q = tp_type p \<and> tp_token q = tp_token p \<and> tp_collection q = tp_collection p
   \<and> tp_decimals q = tp_decimals p \<and> tp_identifier q = tp_identifier p"
  by (auto simp: apply_value_def io_simps Let_def split: if_splits prod.splits sum.splits)

text \<open>
  The properties of a token name it correctly: a fungible token by \<open>token\<close>, any other by
  \<open>collection\<close>, and decimals are there exactly for fungible and meta tokens. Asked with a nonce,
  the identifier of anything but a fungible token is the collection with the nonce; the cached
  value is never changed by such a request.
\<close>

theorem token_properties_wf:
  assumes cache: "getOrSet_answers env"
    and run: "getTokenTransferProperties env options s = (Inr (Some p), t)"
  shows "wf_properties (to_identifier options) p
    \<and> tp_identifier p = (if tp_type p \<noteq> FungibleESDT \<and> truthy (to_nonce options)
         then Some (to_identifier options @ ''-'' @ the (to_nonce options)) else None)"
proof -
  let ?id = "to_identifier options"
  obtain p0 u where get: "te_getOrSet env (ci_key (transfer_cache_info env ?id))
      (getTokenTransferPropertiesRaw env ?id) (ci_ttl (transfer_cache_info env ?id)) s = (Inr (Some p0), u)"
    and app: "apply_value env options
      (if tp_type p0 \<noteq> FungibleESDT \<and> truthy (to_nonce options)
       then p0\<lparr>tp_identifier := Some (?id @ ''-'' @ the (to_nonce options))\<rparr> else p0) u = (Inr p, t)"
    using run
    by (auto simp: getTokenTransferProperties_def io_simps Let_def
        split: prod.splits sum.splits option.splits)
  obtain s' t' where "getTokenTransferPropertiesRaw env ?id s' = (Inr (Some p0), t')"
    using cache get unfolding getOrSet_answers_def by blast
  then have "wf_properties ?id p0 \<and> tp_identifier p0 = None" by (rule raw_properties_wf)
  with apply_value_keeps [OF app] show ?thesis
    by (auto simp: wf_properties_def split: if_splits)
qed

theorem token_properties_wf_witness:
  "\<exists>p. getTokenTransferProperties sample_tokens
        \<lparr>to_identifier = ''NFT-1'', to_nonce = Some ''01'', to_timestamp = None, to_value = None, to_applyValue = False\<rparr> ()
      = (Inr (Some p), ()) \<and> tp_identifier p = Some ''NFT-1-01''"
proof -
  let ?o = "\<lparr>to_identifier = ''NFT-1'', to_nonce = Some ''01'', to_timestamp = None, to_value = None, to_applyValue = False\<rparr>"
  have "getOrSet_answers sample_tokens"
    by (auto simp: getOrSet_answers_def sample_tokens_def)
  moreover obtain p where run: "getTokenTransferProperties sample_tokens ?o () = (Inr (Some p), ())"
    and type: "tp_type p = NonFungibleESDT"
    by (auto simp: getTokenTransferProperties_def sample_tokens_def getTokenTransferPropertiesRaw_def
        apply_value_def io_simps Let_def)
  ultimately show ?thesis
    using token_properties_wf [of sample_tokens ?o "()" p "()"] by simp
qed

end
