(* ===== verification/TransactionAction.thy ===== *)
theory TransactionAction imports TokenTransfer begin

text \<open>
  The interpretation of a transaction, first half
  (\<open>src/endpoints/transactions/transaction-action\<close>, \<open>transaction.action.service.ts\<close> and
  \<open>entities\<close>): the metadata read off the data field of a transaction. A relayed transaction is
  replaced by the transaction it carries, and the three kinds of token transfer are decoded into
  the transfers and the call they carry.
\<close>

section \<open>Data\<close>

record metadata_transfer =
  mt_properties :: "transfer_properties option"
  mt_value :: int

record transaction_metadata =
  md_sender :: string
  md_receiver :: string
  md_value :: int
  md_functionName :: "string option"
  md_functionArgs :: "string list"
  md_timestamp :: "int option"
  md_transfers :: "metadata_transfer list option"

definition new_metadata :: transaction_metadata where
  "new_metadata = \<lparr>md_sender = [], md_receiver = [], md_value = 0, md_functionName = None,
     md_functionArgs = [], md_timestamp = Some 0, md_transfers = None\<rparr>"

text \<open>
  The fields of a transaction that matter here. A transaction that was carried by a relayed one
  is whatever its JSON text gives: its \<open>timestamp\<close> may be undefined.
\<close>

record transaction =
  tx_sender :: string
  tx_receiver :: string
  tx_timestamp :: "int option"
  tx_value :: string
  tx_data :: "string option"
  tx_type :: "string option"

text \<open>The fields of a parsed JSON text that are used: \<open>rf_value\<close> is what \<open>value.toString()\<close> gives.\<close>

record relayed_fields =
  rf_value :: "string option"
  rf_sender :: "string option"
  rf_receiver :: "string option"
  rf_timestamp :: "int option"
  rf_data :: "string option"
  rf_type :: "string option"

section \<open>The functions of the SDK\<close>

text \<open>
  An argument that is absent is \<open>None\<close>. \<open>hexToNumber\<close> may give \<open>NaN\<close>, again \<open>None\<close>. Address
  checks and encodings, Base64 and hexadecimal conversions come from the SDK and are parameters,
  as is the JSON parser.
\<close>

record 's action_env =
  ae_tokens :: "'s token_env"
  ae_hexToString :: "string option \<Rightarrow> string res"
  ae_hexToNumber :: "string option \<Rightarrow> int option res"
  ae_hexToBigInt :: "string option \<Rightarrow> int res"
  ae_base64ToHex :: "string option \<Rightarrow> string res"
  ae_base64Encode :: "string \<Rightarrow> string"
  ae_bech32Encode :: "string option \<Rightarrow> string res"
  ae_bech32Decode :: "string \<Rightarrow> string res"
  ae_isValidHexAddress :: "string option \<Rightarrow> bool"
  ae_isSmartContractAddress :: "string \<Rightarrow> bool"
  ae_isHex :: "string \<Rightarrow> bool"
  ae_isFunctionName :: "string \<Rightarrow> bool"
  ae_parseJson :: "string \<Rightarrow> relayed_fields res"
  ae_denominated :: "int \<Rightarrow> int option \<Rightarrow> string"
  ae_chunks :: "string list \<Rightarrow> nat \<Rightarrow> string list list"

section \<open>BigInt of a string\<close>

text \<open>
  \<open>BigInt(s)\<close>: white space around it is ignored, the empty string is zero, a decimal number may
  have a sign, and \<open>0x\<close>, \<open>0o\<close> and \<open>0b\<close> introduce other bases. Anything else is a \<open>SyntaxError\<close>.
\<close>

definition is_space :: "char \<Rightarrow> bool" where
  "is_space c \<longleftrightarrow> (let n = of_char c :: nat in (9 \<le> n \<and> n \<le> 13) \<or> n = 32 \<or> n = 160)"

definition js_trim :: "string \<Rightarrow> string" where
  "js_trim s = rev (dropWhile is_space (rev (dropWhile is_space s)))"

definition digit_value :: "char \<Rightarrow> nat" where
  "digit_value c =
     (let n = of_char c :: nat in
      if 48 \<le> n \<and> n < 58 then n - 48
      else if 97 \<le> n \<and> n < 123 then n - 87
      else if 65 \<le> n \<and> n < 91 then n - 55 else 36)"

definition parse_base :: "nat \<Rightarrow> string \<Rightarrow> int option" where
  "parse_base b s =
     (if s \<noteq> [] \<and> (\<forall>c \<in> set s. digit_value c < b)
      then Some (int (foldl (\<lambda>a c. b * a + digit_value c) 0 s)) else None)"

definition js_BigInt :: "string \<Rightarrow> int res" where
  "js_BigInt s =
     (let t = js_trim s;
          r = (if t = [] then Some 0
               else if take 2 t \<in> {''0x'', ''0X''} then parse_base 16 (drop 2 t)
               else if take 2 t \<in> {''0o'', ''0O''} then parse_base 8 (drop 2 t)
               else if take 2 t \<in> {''0b'', ''0B''} then parse_base 2 (drop 2 t)
               else if hd t = CHR ''-'' then map_option uminus (parse_base 10 (tl t))
               else if hd t = CHR ''+'' then parse_base 10 (tl t)
               else parse_base 10 t)
      in case r of None \<Rightarrow> Inl (SyntaxError ''Cannot convert to a BigInt'') | Some v \<Rightarrow> Inr v)"

section \<open>Normal and relayed transactions\<close>

definition isSmartContractArgument :: "'s action_env \<Rightarrow> string \<Rightarrow> bool" where
  "isSmartContractArgument env arg \<longleftrightarrow> ae_isHex env arg \<and> length arg mod 2 = 0"

text \<open>The function name and the arguments of a decoded data field.\<close>

definition parse_data :: "'s action_env \<Rightarrow> string \<Rightarrow> transaction_metadata \<Rightarrow> transaction_metadata" where
  "parse_data env decodedData metadata =
     (let dataComponents = split_on CHR ''@'' decodedData; args = tl dataComponents
      in if \<forall>x \<in> set args. isSmartContractArgument env x
         then metadata\<lparr>md_functionName := Some (hd dataComponents), md_functionArgs := args\<rparr>
         else metadata)"

text \<open>
  The transaction carried by a relayed one, if it is one: \<open>None\<close> when the metadata is not of a
  relayed transaction, an error when the inner transaction cannot be read.
\<close>

definition relayed_transaction ::
  "'s action_env \<Rightarrow> transaction \<Rightarrow> transaction_metadata \<Rightarrow> transaction res option" where
  "relayed_transaction env tx metadata =
     (if md_functionName metadata = Some ''relayedTx'' \<and> length (md_functionArgs metadata) = 1 then Some (
        res_bind (ae_hexToString env (nth_opt (md_functionArgs metadata) 0)) (\<lambda>text.
        res_bind (ae_parseJson env text) (\<lambda>relayed.
        res_bind (case rf_value relayed of None \<Rightarrow> Inl TypeError | Some v \<Rightarrow> Inr v) (\<lambda>value.
        res_bind (res_bind (ae_base64ToHex env (rf_sender relayed)) (ae_bech32Encode env \<circ> Some)) (\<lambda>sender.
        res_bind (res_bind (ae_base64ToHex env (rf_receiver relayed)) (ae_bech32Encode env \<circ> Some)) (\<lambda>receiver.
        Inr \<lparr>tx_sender = sender, tx_receiver = receiver, tx_timestamp = rf_timestamp relayed,
             tx_value = value, tx_data = rf_data relayed, tx_type = rf_type relayed\<rparr>))))))
      else if md_functionName metadata = Some ''relayedTxV2'' \<and> length (md_functionArgs metadata) = 4 then Some (
        res_bind (ae_bech32Encode env (nth_opt (md_functionArgs metadata) 0)) (\<lambda>receiver.
        res_bind (ae_hexToString env (nth_opt (md_functionArgs metadata) 2)) (\<lambda>text.
        Inr \<lparr>tx_sender = tx_receiver tx, tx_receiver = receiver, tx_timestamp = Some 0,
             tx_value = ''0'', tx_data = Some (ae_base64Encode env text), tx_type = None\<rparr>)))
      else None)"

text \<open>
  A smart contract result that moves tokens does not carry the address of the receiver where a
  transaction does: it is put in place, and the metadata is made to look like the transaction.
\<close>

definition sc_result_metadata ::
  "'s action_env \<Rightarrow> transaction \<Rightarrow> transaction_metadata \<Rightarrow> transaction_metadata" where
  "sc_result_metadata env tx metadata =
     (if tx_type tx \<noteq> Some ''SmartContractResult'' then metadata
      else if md_functionName metadata = Some ''MultiESDTNFTTransfer'' \<and> md_functionArgs metadata \<noteq> [] then
        (if length (hd (md_functionArgs metadata)) \<le> 4 then
           (case ae_bech32Decode env (md_receiver metadata) of
              Inl e \<Rightarrow> metadata
            | Inr address \<Rightarrow> metadata\<lparr>md_functionArgs := address # md_functionArgs metadata,
                                      md_receiver := md_sender metadata\<rparr>)
         else metadata\<lparr>md_receiver := md_sender metadata\<rparr>)
      else if md_functionName metadata = Some ''ESDTNFTTransfer'' \<and> length (md_functionArgs metadata) > 3 then
        (case ae_bech32Decode env (md_receiver metadata) of
           Inl e \<Rightarrow> metadata
         | Inr address \<Rightarrow> metadata\<lparr>md_functionArgs := (md_functionArgs metadata)[3 := address],
                                   md_receiver := md_sender metadata\<rparr>)
      else metadata)"

text \<open>
  \<open>getNormalTransactionMetadata\<close>. A relayed transaction may carry a relayed one, so the recursion
  has a budget, and \<open>None\<close> says that it did not suffice. An error in the transaction carried is
  logged, and the outer transaction is described instead.
\<close>

fun getNormalTransactionMetadata ::
  "'s action_env \<Rightarrow> nat \<Rightarrow> transaction \<Rightarrow> transaction_metadata res option" where
  "getNormalTransactionMetadata env 0 tx = None"
| "getNormalTransactionMetadata env (Suc n) tx =
     (case js_BigInt (tx_value tx) of
        Inl e \<Rightarrow> Some (Inl e)
      | Inr value \<Rightarrow>
          (let metadata = new_metadata\<lparr>md_sender := tx_sender tx, md_receiver := tx_receiver tx,
                            md_timestamp := tx_timestamp tx, md_value := value\<rparr>
           in if \<not> truthy (tx_data tx) then Some (Inr (sc_result_metadata env tx metadata))
              else case te_base64Decode (ae_tokens env) (tx_data tx) of
                Inl e \<Rightarrow> Some (Inl e)
              | Inr decodedData \<Rightarrow>
                  (let metadata = parse_data env decodedData metadata;
                       own = Some (Inr (sc_result_metadata env tx metadata))
                   in case relayed_transaction env tx metadata of
                        Some (Inr inner) \<Rightarrow>
                          (case getNormalTransactionMetadata env n inner of
                             None \<Rightarrow> None
                           | Some (Inr m) \<Rightarrow> Some (Inr m)
                           | Some (Inl e) \<Rightarrow> own)
                      | _ \<Rightarrow> own)))"

section \<open>Token transfers\<close>

text \<open>\<open>s.slice(a, b)\<close> with \<open>0 \<le> a\<close>, and with \<open>NaN\<close> as zero.\<close>

definition slice :: "nat \<Rightarrow> nat \<Rightarrow> 'a list \<Rightarrow> 'a list" where
  "slice a b xs = take (b - a) (drop a xs)"

definition nat_of_number :: "int option \<Rightarrow> nat" where
  "nat_of_number n = (case n of None \<Rightarrow> 0 | Some i \<Rightarrow> nat i)"

definition parseValueFromMultiTransferValueArg :: "'s action_env \<Rightarrow> string option \<Rightarrow> int res" where
  "parseValueFromMultiTransferValueArg env rawData =
     (case rawData of
        None \<Rightarrow> Inl TypeError
      | Some raw \<Rightarrow>
          if length raw > 64 then
            res_bind (ae_hexToNumber env (Some (slice 6 8 raw))) (\<lambda>valueLength.
              ae_hexToBigInt env (Some (slice 8 (8 + nat_of_number valueLength * 2) raw)))
          else ae_hexToBigInt env (Some raw))"

definition lookup_transfer ::
  "'s action_env \<Rightarrow> transaction_metadata \<Rightarrow> bool \<Rightarrow> string \<Rightarrow> string option \<Rightarrow> int
   \<Rightarrow> ('s, transfer_properties option) io" where
  "lookup_transfer env metadata applyValue identifier nonce value =
     getTokenTransferProperties (ae_tokens env)
       (if truthy nonce \<and> nonce \<noteq> Some ''00''
        then \<lparr>to_identifier = identifier, to_nonce = nonce, to_timestamp = None, to_value = None,
              to_applyValue = False\<rparr>
        else \<lparr>to_identifier = identifier, to_nonce = None, to_timestamp = md_timestamp metadata,
              to_value = Some (int_str value), to_applyValue = applyValue\<rparr>)"

text \<open>One round of the loop over the transfers, with \<open>index\<close> at its start.\<close>

definition multi_transfer ::
  "'s action_env \<Rightarrow> transaction_metadata \<Rightarrow> bool \<Rightarrow> nat \<Rightarrow> metadata_transfer list
   \<Rightarrow> ('s, metadata_transfer list) io" where
  "multi_transfer env metadata applyValue index transfers =
     (let args = md_functionArgs metadata in
      io_bind (io_lift (ae_hexToString env (nth_opt args index))) (\<lambda>identifier.
      io_bind (io_lift (parseValueFromMultiTransferValueArg env (nth_opt args (index + 2)))) (\<lambda>value.
      io_bind (lookup_transfer env metadata applyValue identifier (nth_opt args (index + 1)) value) (\<lambda>properties.
        io_return (if properties \<noteq> None then transfers @ [\<lparr>mt_properties = properties, mt_value = value\<rparr>]
                   else transfers)))))"

definition getMultiTransferMetadata ::
  "'s action_env \<Rightarrow> transaction_metadata \<Rightarrow> bool \<Rightarrow> ('s, transaction_metadata option) io" where
  "getMultiTransferMetadata env metadata applyValue =
     (let args = md_functionArgs metadata in
      if md_sender metadata \<noteq> md_receiver metadata then io_return None
      else if md_functionName metadata \<noteq> Some ''MultiESDTNFTTransfer'' then io_return None
      else if length args < 3 then io_return None
      else if \<not> ae_isValidHexAddress env (nth_opt args 0) then io_return None
      else
        io_bind (io_lift (ae_bech32Encode env (nth_opt args 0))) (\<lambda>receiver.
        io_bind (io_lift (ae_hexToNumber env (nth_opt args 1))) (\<lambda>transferCount.
        io_bind (io_fold (\<lambda>i. multi_transfer env metadata applyValue (2 + 3 * i))
                   [0..<nat_of_number transferCount] []) (\<lambda>transfers.
        let index = 2 + 3 * nat_of_number transferCount;
            result = new_metadata\<lparr>md_sender := md_sender metadata, md_receiver := receiver,
                       md_transfers := Some transfers\<rparr>
        in if length args > index then
             io_bind (io_lift (ae_hexToString env (nth_opt args index))) (\<lambda>functionName.
               io_return (Some (result\<lparr>md_functionName := Some functionName,
                                       md_functionArgs := drop (index + 1) args\<rparr>)))
           else io_return (Some result)))))"

definition getNftTransferMetadata ::
  "'s action_env \<Rightarrow> transaction_metadata \<Rightarrow> ('s, transaction_metadata option) io" where
  "getNftTransferMetadata env metadata =
     (let args = md_functionArgs metadata in
      if md_sender metadata \<noteq> md_receiver metadata then io_return None
      else if md_functionName metadata \<noteq> Some ''ESDTNFTTransfer'' then io_return None
      else if length args < 4 then io_return None
      else if \<not> ae_isValidHexAddress env (nth_opt args 3) then io_return None
      else
        io_bind (io_lift (ae_hexToString env (nth_opt args 0))) (\<lambda>collectionIdentifier.
        io_bind (io_lift (ae_hexToBigInt env (nth_opt args 2))) (\<lambda>value.
        io_bind (io_lift (ae_bech32Encode env (nth_opt args 3))) (\<lambda>receiver.
        io_bind (getTokenTransferProperties (ae_tokens env)
                   \<lparr>to_identifier = collectionIdentifier, to_nonce = nth_opt args 1, to_timestamp = None,
                    to_value = None, to_applyValue = False\<rparr>) (\<lambda>properties.
        if properties = None then io_return None
        else
          (let result = new_metadata\<lparr>md_sender := md_sender metadata, md_receiver := receiver, md_value := value,
                          md_transfers := Some [\<lparr>mt_properties = properties, mt_value = value\<rparr>]\<rparr>
           in if length args > 4 then
                io_bind (io_lift (ae_hexToString env (nth_opt args 4))) (\<lambda>functionName.
                  io_return (Some (result\<lparr>md_functionName := Some functionName, md_functionArgs := drop 5 args\<rparr>)))
              else io_return (Some result)))))))"

definition getEsdtTransactionMetadata ::
  "'s action_env \<Rightarrow> transaction_metadata \<Rightarrow> bool \<Rightarrow> ('s, transaction_metadata option) io" where
  "getEsdtTransactionMetadata env metadata applyValue =
     (let args = md_functionArgs metadata in
      if md_functionName metadata \<noteq> Some ''ESDTTransfer'' then io_return None
      else if length args < 2 then io_return None
      else
        io_bind (io_lift (ae_hexToString env (nth_opt args 0))) (\<lambda>tokenIdentifier.
        io_bind (io_lift (ae_hexToBigInt env (nth_opt args 1))) (\<lambda>value.
        io_bind (getTokenTransferProperties (ae_tokens env)
                   \<lparr>to_identifier = tokenIdentifier, to_nonce = None, to_timestamp = md_timestamp metadata,
                    to_value = Some (int_str value), to_applyValue = applyValue\<rparr>) (\<lambda>properties.
        if properties = None then io_return None
        else
          (let result = new_metadata\<lparr>md_sender := md_sender metadata, md_receiver := md_receiver metadata,
                          md_value := md_value metadata,
                          md_transfers := Some [\<lparr>mt_properties = properties, mt_value = value\<rparr>]\<rparr>
           in if length args > 2 then
                io_bind (io_lift (ae_hexToString env (nth_opt args 2))) (\<lambda>functionName.
                  io_return (Some (result\<lparr>md_functionName := Some functionName, md_functionArgs := drop 3 args\<rparr>)))
              else io_return (Some result))))))"

definition getTransactionMetadata ::
  "'s action_env \<Rightarrow> nat \<Rightarrow> transaction \<Rightarrow> bool \<Rightarrow> ('s, transaction_metadata) io option" where
  "getTransactionMetadata env fuel tx applyValue =
     map_option (\<lambda>normal.
       io_bind (io_lift normal) (\<lambda>metadata.
       io_bind (getEsdtTransactionMetadata env metadata applyValue) (\<lambda>esdtMetadata.
         case esdtMetadata of Some m \<Rightarrow> io_return m | None \<Rightarrow>
       io_bind (getNftTransferMetadata env metadata) (\<lambda>nftMetadata.
         case nftMetadata of Some m \<Rightarrow> io_return m | None \<Rightarrow>
       io_bind (getMultiTransferMetadata env metadata applyValue) (\<lambda>multiMetadata.
         case multiMetadata of Some m \<Rightarrow> io_return m | None \<Rightarrow> io_return metadata)))))
     (getNormalTransactionMetadata env fuel tx)"

section \<open>Lemmas\<close>

lemma length_hd_split_on: "length (hd (split_on c s)) \<le> length s"
  by (induction s) (auto split: list.splits)

lemma length_tl_split_on: "x \<in> set (tl (split_on c s)) \<Longrightarrow> length x < length s"
proof (induction s arbitrary: x)
  case Nil
  then show ?case by simp
next
  case (Cons a s)
  obtain y ys where eq: "split_on c s = y # ys" by (cases "split_on c s") auto
  have "length y \<le> length s" using length_hd_split_on [of c s] eq by simp
  moreover have "length x < length s" if "x \<in> set ys" for x using Cons.IH that eq by simp
  ultimately show ?case using Cons.prems eq by (fastforce split: if_splits)
qed

text \<open>The lengths that the conversions of the SDK and the JSON parser produce.\<close>

definition sdk_lengths :: "'s action_env \<Rightarrow> bool" where
  "sdk_lengths env \<longleftrightarrow>
     (\<forall>s d. te_base64Decode (ae_tokens env) (Some s) = Inr d \<longrightarrow> length d \<le> length s) \<and>
     (\<forall>t. te_base64Decode (ae_tokens env) (Some (ae_base64Encode env t)) = Inr t) \<and>
     (\<forall>x t. ae_hexToString env (Some x) = Inr t \<longrightarrow> 2 * length t \<le> length x) \<and>
     (\<forall>t r d. ae_parseJson env t = Inr r \<longrightarrow> rf_data r = Some d \<longrightarrow> length d < length t)"

definition decoded_length :: "'s action_env \<Rightarrow> transaction \<Rightarrow> nat" where
  "decoded_length env tx =
     (if truthy (tx_data tx) then
        (case te_base64Decode (ae_tokens env) (tx_data tx) of Inl _ \<Rightarrow> 0 | Inr d \<Rightarrow> length d)
      else 0)"

lemma parse_data_args:
  assumes "x \<in> set (md_functionArgs (parse_data env decoded (new_metadata\<lparr>md_sender := a, md_receiver := b,
    md_timestamp := c, md_value := v\<rparr>)))"
  shows "length x < length decoded"
  using assms length_tl_split_on [of x "CHR ''@''" decoded]
  by (auto simp: parse_data_def Let_def new_metadata_def split: if_splits)

lemma relayed_shrinks:
  assumes len: "sdk_lengths env"
    and args: "\<And>x. x \<in> set (md_functionArgs metadata) \<Longrightarrow> length x < n"
    and rel: "relayed_transaction env tx metadata = Some (Inr inner)"
  shows "decoded_length env inner < n"
proof (cases "md_functionName metadata = Some ''relayedTx'' \<and> length (md_functionArgs metadata) = 1")
  case True
  then obtain x where x: "nth_opt (md_functionArgs metadata) 0 = Some x" "x \<in> set (md_functionArgs metadata)"
    by (auto simp: nth_opt_def)
  from rel True x obtain str relayed where
    str: "ae_hexToString env (Some x) = Inr str" and json: "ae_parseJson env str = Inr relayed"
    and data: "tx_data inner = rf_data relayed"
    by (auto simp: relayed_transaction_def res_bind_Inr)
  have "2 * length str \<le> length x" using len str unfolding sdk_lengths_def by blast
  moreover have "decoded_length env inner \<le> length str"
  proof (cases "rf_data relayed")
    case None
    then show ?thesis by (simp add: decoded_length_def data)
  next
    case (Some d)
    then have "length d < length str" using len json unfolding sdk_lengths_def by blast
    moreover have "decoded_length env inner \<le> length d"
      using len Some unfolding sdk_lengths_def decoded_length_def data
      by (auto split: sum.splits)
    ultimately show ?thesis by simp
  qed
  ultimately show ?thesis using args [OF x(2)] by simp
next
  case False
  with rel have v2: "length (md_functionArgs metadata) = 4"
    by (auto simp: relayed_transaction_def split: if_splits)
  then obtain x where x: "nth_opt (md_functionArgs metadata) 2 = Some x" "x \<in> set (md_functionArgs metadata)"
    by (auto simp: nth_opt_def)
  from rel False x obtain str where str: "ae_hexToString env (Some x) = Inr str"
    and data: "tx_data inner = Some (ae_base64Encode env str)"
    by (auto simp: relayed_transaction_def res_bind_Inr split: if_splits)
  have "2 * length str \<le> length x" using len str unfolding sdk_lengths_def by blast
  moreover have "decoded_length env inner \<le> length str"
    using len unfolding sdk_lengths_def decoded_length_def data by simp
  ultimately show ?thesis using args [OF x(2)] by simp
qed

text \<open>
  One call: either the transaction is not relayed, or its inner transaction cannot be read, and
  the result does not depend on the budget; or the budget goes to the inner transaction.
\<close>

lemma normal_metadata_step:
  assumes len: "sdk_lengths env"
  obtains (own) r where "\<And>n. getNormalTransactionMetadata env (Suc n) tx = Some r"
  | (inner) inner r where "decoded_length env inner < decoded_length env tx"
      and "\<And>n. getNormalTransactionMetadata env (Suc n) tx =
        (case getNormalTransactionMetadata env n inner of
           None \<Rightarrow> None | Some (Inr m) \<Rightarrow> Some (Inr m) | Some (Inl e) \<Rightarrow> Some r)"
proof (cases "js_BigInt (tx_value tx)")
  case (Inl e)
  then show ?thesis by (intro own [of "Inl e"]) simp
next
  case v: (Inr v)
  let ?md = "new_metadata\<lparr>md_sender := tx_sender tx, md_receiver := tx_receiver tx,
    md_timestamp := tx_timestamp tx, md_value := v\<rparr>"
  show ?thesis
  proof (cases "truthy (tx_data tx)")
    case False
    with v show ?thesis by (intro own [of "Inr (sc_result_metadata env tx ?md)"]) simp
  next
    case data: True
    show ?thesis
    proof (cases "te_base64Decode (ae_tokens env) (tx_data tx)")
      case (Inl e)
      with v data show ?thesis by (intro own [of "Inl e"]) simp
    next
      case decoded: (Inr d)
      let ?m = "parse_data env d ?md"
      show ?thesis
      proof (cases "\<exists>inner. relayed_transaction env tx ?m = Some (Inr inner)")
        case False
        with v data decoded show ?thesis
          by (intro own [of "Inr (sc_result_metadata env tx ?m)"])
             (auto simp: Let_def split: option.splits sum.splits)
      next
        case True
        then obtain inner where rel: "relayed_transaction env tx ?m = Some (Inr inner)" by blast
        have "decoded_length env tx = length d" using data decoded by (simp add: decoded_length_def)
        then have "decoded_length env inner < decoded_length env tx"
          using relayed_shrinks [OF len _ rel] parse_data_args by metis
        with v data decoded rel show ?thesis
          by (intro inner [of inner "Inr (sc_result_metadata env tx ?m)"])
             (auto simp: Let_def split: option.splits sum.splits)
      qed
    qed
  qed
qed

lemma normal_metadata_budget:
  assumes len: "sdk_lengths env"
  shows "\<exists>r. \<forall>n > decoded_length env tx. getNormalTransactionMetadata env n tx = Some r"
proof (induction "decoded_length env tx" arbitrary: tx rule: less_induct)
  case less
  show ?case
  proof (rule normal_metadata_step [OF len, of tx])
    fix r assume "\<And>n. getNormalTransactionMetadata env (Suc n) tx = Some r"
    then show ?thesis by (metis Suc_pred' gr_implies_not0 neq0_conv)
  next
    fix inner r
    assume smaller: "decoded_length env inner < decoded_length env tx"
      and step: "\<And>n. getNormalTransactionMetadata env (Suc n) tx =
        (case getNormalTransactionMetadata env n inner of
           None \<Rightarrow> None | Some (Inr m) \<Rightarrow> Some (Inr m) | Some (Inl e) \<Rightarrow> Some r)"
    obtain q where q: "\<forall>n > decoded_length env inner. getNormalTransactionMetadata env n inner = Some q"
      using less [OF smaller] by blast
    have "getNormalTransactionMetadata env n tx = Some (case q of Inr m \<Rightarrow> Inr m | Inl e \<Rightarrow> r)"
      if n: "decoded_length env tx < n" for n
    proof (cases n)
      case 0
      with n show ?thesis by simp
    next
      case (Suc m)
      then have "decoded_length env inner < m" using n smaller by simp
      with q step [of m] Suc show ?thesis by (simp split: sum.splits)
    qed
    then show ?thesis by blast
  qed
qed

lemma nth_opt_drop: "nth_opt (drop n xs) k = nth_opt xs (n + k)"
  by (auto simp: nth_opt_def)

text \<open>The transfers of a multi transfer as a list of triples of arguments.\<close>

definition multi_item ::
  "'s action_env \<Rightarrow> transaction_metadata \<Rightarrow> bool \<Rightarrow> string \<times> string \<times> string \<Rightarrow> metadata_transfer list
   \<Rightarrow> ('s, metadata_transfer list) io" where
  "multi_item env metadata applyValue = (\<lambda>(token, nonce, amount) transfers.
     io_bind (io_lift (ae_hexToString env (Some token))) (\<lambda>identifier.
     io_bind (io_lift (parseValueFromMultiTransferValueArg env (Some amount))) (\<lambda>value.
     io_bind (lookup_transfer env metadata applyValue identifier (Some nonce) value) (\<lambda>properties.
       io_return (if properties \<noteq> None then transfers @ [\<lparr>mt_properties = properties, mt_value = value\<rparr>]
                  else transfers)))))"

definition triple_args :: "(string \<times> string \<times> string) list \<Rightarrow> string list" where
  "triple_args items = concat (map (\<lambda>(token, nonce, amount). [token, nonce, amount]) items)"

lemma triple_args_simps [simp]:
  "triple_args [] = []"
  "triple_args ((a, b, c) # items) = a # b # c # triple_args items"
  by (simp_all add: triple_args_def)

lemma length_triple_args [simp]: "length (triple_args items) = 3 * length items"
  by (induction items) (auto simp: triple_args_def)

lemma triple_args_nth:
  assumes "i < length items" and "items ! i = (token, nonce, amount)"
  shows "nth_opt (a # b # triple_args items @ rest) (2 + 3 * i) = Some token"
    and "nth_opt (a # b # triple_args items @ rest) (2 + 3 * i + 1) = Some nonce"
    and "nth_opt (a # b # triple_args items @ rest) (2 + 3 * i + 2) = Some amount"
proof -
  have "drop (3 * i) (triple_args items @ rest) = token # nonce # amount # triple_args (drop (Suc i) items) @ rest"
    using assms
  proof (induction i arbitrary: items)
    case 0
    then show ?case by (cases items) auto
  next
    case (Suc i)
    then obtain x xs where items: "items = x # xs" by (cases items) auto
    obtain a b c where x: "x = (a, b, c)" by (cases x)
    have "drop (3 * Suc i) (triple_args items @ rest) = drop (3 * i) (triple_args xs @ rest)"
      by (simp add: items x numeral_3_eq_3)
    with Suc items show ?case by simp
  qed
  then have "nth_opt (triple_args items @ rest) (3 * i + k) = nth_opt (token # nonce # amount # triple_args (drop (Suc i) items) @ rest) k"
    for k
    by (metis nth_opt_drop)
  from this [of 0] this [of 1] this [of 2]
  show "nth_opt (a # b # triple_args items @ rest) (2 + 3 * i) = Some token"
    and "nth_opt (a # b # triple_args items @ rest) (2 + 3 * i + 1) = Some nonce"
    and "nth_opt (a # b # triple_args items @ rest) (2 + 3 * i + 2) = Some amount"
    by simp_all
qed

lemma multi_transfer_item:
  assumes "md_functionArgs metadata = a # b # triple_args items @ rest" and "i < length items"
  shows "multi_transfer env metadata applyValue (2 + 3 * i) = multi_item env metadata applyValue (items ! i)"
proof -
  obtain token nonce amount where item: "items ! i = (token, nonce, amount)" by (cases "items ! i")
  note args = triple_args_nth [OF assms(2) item, of a b rest]
  show ?thesis
    unfolding multi_item_def item multi_transfer_def assms(1) Let_def
    using args by (simp add: fun_eq_iff)
qed

lemma io_fold_cong:
  assumes "\<And>x. x \<in> set xs \<Longrightarrow> f x = g x"
  shows "io_fold f xs = io_fold g xs"
  using assms
proof (induction xs)
  case (Cons x xs)
  then have "io_fold f xs = io_fold g xs" by simp
  with Cons.prems show ?case by (intro ext) simp
qed (simp add: fun_eq_iff)

lemma io_fold_map: "io_fold f (map g xs) = io_fold (\<lambda>x. f (g x)) xs"
  by (induction xs) (auto intro!: ext)

lemma multi_transfers_fold:
  assumes "md_functionArgs metadata = a # b # triple_args items @ rest"
  shows "io_fold (\<lambda>i. multi_transfer env metadata applyValue (2 + 3 * i)) [0..<length items]
    = io_fold (multi_item env metadata applyValue) items"
proof -
  have "io_fold (multi_item env metadata applyValue) (map ((!) items) [0..<length items])
      = io_fold (\<lambda>i. multi_item env metadata applyValue (items ! i)) [0..<length items]"
    by (rule io_fold_map)
  also have "\<dots> = io_fold (\<lambda>i. multi_transfer env metadata applyValue (2 + 3 * i)) [0..<length items]"
    by (rule io_fold_cong, rule multi_transfer_item [OF assms, symmetric]) simp
  finally show ?thesis by (simp add: map_nth)
qed

lemma dropWhile_hd: "xs \<noteq> [] \<Longrightarrow> \<not> P (hd xs) \<Longrightarrow> dropWhile P xs = xs"
  by (cases xs) auto

lemma js_trim_free: "s \<noteq> [] \<Longrightarrow> \<not> is_space (hd s) \<Longrightarrow> \<not> is_space (last s) \<Longrightarrow> js_trim s = s"
  by (simp add: js_trim_def dropWhile_hd hd_rev)

lemma is_digit_facts:
  "is_digit c \<Longrightarrow> \<not> is_space c \<and> digit_value c = digit_val c \<and> digit_val c < 10
     \<and> c \<notin> {CHR ''x'', CHR ''X'', CHR ''o'', CHR ''O'', CHR ''b'', CHR ''B'', CHR ''+'', CHR ''-''}"
  by (auto simp: is_digit_def is_space_def digit_value_def digit_val_def Let_def)

lemma parse_base_nat_str: "parse_base 10 (nat_str n) = Some (int n)"
proof -
  have "foldl (\<lambda>a c. 10 * a + digit_value c) 0 (nat_str n) = dec_val (nat_str n)"
    unfolding dec_val_def
    by (rule foldl_cong) (auto dest!: nat_str_digits is_digit_facts)
  moreover have "\<forall>c \<in> set (nat_str n). digit_value c < 10"
    by (auto dest!: nat_str_digits is_digit_facts)
  ultimately show ?thesis by (simp add: parse_base_def dec_val_nat_str)
qed

lemma take_digits: "\<forall>c \<in> set s. is_digit c \<Longrightarrow> take 2 s \<notin> {''0x'', ''0X'', ''0o'', ''0O'', ''0b'', ''0B''}"
  by (cases s; cases "tl s") (auto dest!: is_digit_facts)

lemma BigInt_int_str: "js_BigInt (int_str i) = Inr i"
proof -
  have digits: "\<forall>c \<in> set (nat_str n). is_digit c" for n using nat_str_digits by blast
  have hdl: "is_digit (hd (nat_str n)) \<and> is_digit (last (nat_str n))" for n
    using digits by (metis hd_in_set last_in_set nat_str_nonempty)
  show ?thesis
  proof (cases "i < 0")
    case True
    let ?n = "nat_str (nat (- i))"
    have trim: "js_trim (CHR ''-'' # ?n) = CHR ''-'' # ?n"
      using hdl [of "nat (- i)"] is_digit_facts by (intro js_trim_free) (auto simp: is_space_def)
    have "take 2 (CHR ''-'' # ?n) \<notin> {''0x'', ''0X'', ''0o'', ''0O'', ''0b'', ''0B''}" by auto
    then show ?thesis
      using True by (simp add: js_BigInt_def int_str_def trim parse_base_nat_str Let_def)
  next
    case False
    let ?n = "nat_str (nat i)"
    have trim: "js_trim ?n = ?n"
      using hdl [of "nat i"] is_digit_facts by (intro js_trim_free) auto
    have "hd ?n \<noteq> CHR ''-''" "hd ?n \<noteq> CHR ''+''"
      using hdl [of "nat i"] is_digit_facts by blast+
    then show ?thesis
      using False take_digits [OF digits, of "nat i"]
      by (simp add: js_BigInt_def int_str_def trim parse_base_nat_str Let_def)
  qed
qed

section \<open>Properties\<close>

text \<open>
  Reading a number back: the text of every integer, which is how values and amounts travel
  between the services, is read as that integer.
\<close>

theorem BigInt_roundtrip: "js_BigInt (int_str i) = Inr i"
  by (rule BigInt_int_str)

text \<open>
  Reading a transaction ends, however deeply relayed transactions are nested: with
  conversions that produce the documented lengths, a budget above the length of the data field
  always suffices, and a larger one gives the same metadata.
\<close>

theorem relayed_terminates:
  assumes "sdk_lengths env"
  shows "\<exists>r. \<forall>n > length (coalesce (tx_data tx) []). getNormalTransactionMetadata env n tx = Some r"
proof -
  have "decoded_length env tx \<le> length (coalesce (tx_data tx) [])"
    using assms unfolding sdk_lengths_def decoded_length_def
    by (cases "tx_data tx") (auto split: sum.splits)
  with normal_metadata_budget [OF assms, of tx] show ?thesis
    by (meson le_less_trans)
qed

text \<open>
  A concrete SDK: the text of a hexadecimal string is every second of its characters, Base64 is
  the identity, and the JSON text of a transaction is its data with one character in front.
\<close>

fun unhex :: "string \<Rightarrow> string" where
  "unhex (a # b # xs) = b # unhex xs"
| "unhex _ = []"

lemma length_unhex: "2 * length (unhex s) \<le> length s"
  by (induction s rule: unhex.induct) auto

fun chunk :: "nat \<Rightarrow> 'a list \<Rightarrow> nat \<Rightarrow> 'a list list" where
  "chunk 0 xs n = []"
| "chunk (Suc k) xs n = (if xs = [] then [] else take n xs # chunk k (drop n xs) n)"

definition sample_action :: "unit action_env" where
  "sample_action = \<lparr>ae_tokens = sample_tokens,
     ae_hexToString = (\<lambda>s. case s of None \<Rightarrow> Inl TypeError | Some s \<Rightarrow> Inr (unhex s)),
     ae_hexToNumber = (\<lambda>s. Inr (map_option (int \<circ> dec_val) s)),
     ae_hexToBigInt = (\<lambda>s. case s of None \<Rightarrow> Inl TypeError | Some s \<Rightarrow> Inr (int (dec_val s))),
     ae_base64ToHex = (\<lambda>s. case s of None \<Rightarrow> Inl TypeError | Some s \<Rightarrow> Inr s),
     ae_base64Encode = (\<lambda>s. s),
     ae_bech32Encode = (\<lambda>s. case s of None \<Rightarrow> Inl TypeError | Some s \<Rightarrow> Inr s),
     ae_bech32Decode = (\<lambda>s. Inr s),
     ae_isValidHexAddress = (\<lambda>s. s \<noteq> None),
     ae_isSmartContractAddress = (\<lambda>s. startsWith s ''sc''),
     ae_isHex = (\<lambda>s. True), ae_isFunctionName = (\<lambda>s. True),
     ae_parseJson = (\<lambda>t. case t of [] \<Rightarrow> Inl (SyntaxError ''Unexpected end of JSON input'')
        | c # d \<Rightarrow> Inr \<lparr>rf_value = Some ''0'', rf_sender = Some ''alice'', rf_receiver = Some ''bob'',
                       rf_timestamp = None, rf_data = Some d, rf_type = None\<rparr>),
     ae_denominated = (\<lambda>v d. int_str v),
     ae_chunks = (\<lambda>xs n. chunk (length xs) xs n)\<rparr>"

lemma sample_lengths: "sdk_lengths sample_action"
  unfolding sdk_lengths_def
  by (auto simp: sample_action_def sample_tokens_def length_unhex split: list.splits)

theorem relayed_terminates_witness:
  "\<exists>r. getNormalTransactionMetadata sample_action 50
     \<lparr>tx_sender = ''alice'', tx_receiver = ''bob'', tx_timestamp = None, tx_value = ''0'',
      tx_data = Some ''relayedTx@..fru@'', tx_type = None\<rparr> = Some r"
  using relayed_terminates [OF sample_lengths, of "\<lparr>tx_sender = ''alice'', tx_receiver = ''bob'',
    tx_timestamp = None, tx_value = ''0'', tx_data = Some ''relayedTx@..fru@'', tx_type = None\<rparr>"]
  by auto

text \<open>
  C6. Decoding a multi transfer: the arguments are the receiver, the number of transfers, a
  triple for each transfer and the call with its arguments. The walk over the arguments by index
  reads exactly the triples, in order, and then the call; the result goes to the receiver named
  in the first argument.
\<close>

theorem multi_transfer_decodes:
  assumes self: "md_sender metadata = md_receiver metadata"
    and fn: "md_functionName metadata = Some ''MultiESDTNFTTransfer''"
    and args: "md_functionArgs metadata = address # cnt # triple_args items @ call"
    and items: "items \<noteq> []"
    and valid: "ae_isValidHexAddress env (Some address)"
    and addr: "ae_bech32Encode env (Some address) = Inr receiver"
    and cnt: "ae_hexToNumber env (Some cnt) = Inr (Some (int (length items)))"
  shows "getMultiTransferMetadata env metadata applyValue =
    io_bind (io_fold (multi_item env metadata applyValue) items []) (\<lambda>transfers.
      let result = new_metadata\<lparr>md_sender := md_sender metadata, md_receiver := receiver,
                     md_transfers := Some transfers\<rparr>
      in case call of
           [] \<Rightarrow> io_return (Some result)
         | f # fargs \<Rightarrow> io_bind (io_lift (ae_hexToString env (Some f))) (\<lambda>functionName.
             io_return (Some (result\<lparr>md_functionName := Some functionName, md_functionArgs := fargs\<rparr>))))"
proof -
  have three: "\<not> length (address # cnt # triple_args items @ call) < 3"
    using items by (cases items) auto
  have rest: "nth_opt (address # cnt # triple_args items @ call) (2 + 3 * length items) = nth_opt call 0"
    by (simp add: nth_opt_def nth_append)
  have drop: "drop (2 + 3 * length items + 1) (address # cnt # triple_args items @ call) = drop 1 call"
    by simp
  show ?thesis
    unfolding getMultiTransferMetadata_def args Let_def
    using self fn valid addr cnt three
    by (intro ext)
       (cases call; simp add: io_simps nat_of_number_def rest drop multi_transfers_fold [OF args, simplified]
          nth_opt_def nth_append split: prod.splits sum.splits)
qed

abbreviation sample_multi :: transaction_metadata where
  "sample_multi \<equiv> new_metadata\<lparr>md_sender := ''alice'', md_receiver := ''alice'',
     md_functionName := Some ''MultiESDTNFTTransfer'',
     md_functionArgs := [''bob'', ''02'', ''.T.K.N.-.1'', [], ''7'', ''.N.F.T.-.1'', ''05'', ''1'', ''.f'', ''00'']\<rparr>"

theorem multi_transfer_decodes_witness:
  "\<exists>m. getMultiTransferMetadata sample_action sample_multi False () = (Inr (Some m), ())
     \<and> md_receiver m = ''bob'' \<and> md_functionName m = Some ''f'' \<and> md_functionArgs m = [''00'']
     \<and> map mt_value (the (md_transfers m)) = [7, 1]"
proof -
  have "getMultiTransferMetadata sample_action sample_multi False =
    io_bind (io_fold (multi_item sample_action sample_multi False)
      [(''.T.K.N.-.1'', [], ''7''), (''.N.F.T.-.1'', ''05'', ''1'')] []) (\<lambda>transfers.
      let result = new_metadata\<lparr>md_sender := md_sender sample_multi, md_receiver := ''bob'',
                     md_transfers := Some transfers\<rparr>
      in case [''.f'', ''00''] of
           [] \<Rightarrow> io_return (Some result)
         | f # fargs \<Rightarrow> io_bind (io_lift (ae_hexToString sample_action (Some f))) (\<lambda>functionName.
             io_return (Some (result\<lparr>md_functionName := Some functionName, md_functionArgs := fargs\<rparr>))))"
    by (rule multi_transfer_decodes [where cnt = "''02''" and address = "''bob''"])
       (simp_all add: sample_action_def dec_val_def digit_val_def)
  then show ?thesis
    by (simp add: io_simps multi_item_def sample_action_def sample_tokens_def parseValueFromMultiTransferValueArg_def
        lookup_transfer_def getTokenTransferProperties_def getTokenTransferPropertiesRaw_def apply_value_def
        Let_def dec_val_def digit_val_def)
qed

lemma multi_transfer_parties:
  "getMultiTransferMetadata env metadata applyValue s = (Inr (Some m), t) \<Longrightarrow>
   ae_bech32Encode env (nth_opt (md_functionArgs metadata) 0) = Inr (md_receiver m)
   \<and> md_sender m = md_sender metadata"
  by (auto simp: getMultiTransferMetadata_def io_simps Let_def new_metadata_def
      split: if_splits prod.splits sum.splits)

lemma nft_transfer_parties:
  "getNftTransferMetadata env metadata s = (Inr (Some m), t) \<Longrightarrow>
   ae_bech32Encode env (nth_opt (md_functionArgs metadata) 3) = Inr (md_receiver m)
   \<and> md_sender m = md_sender metadata"
  by (auto simp: getNftTransferMetadata_def io_simps Let_def new_metadata_def
      split: if_splits prod.splits sum.splits)

text \<open>
  A smart contract result that moves tokens is shown between its own sender and receiver:
  rewriting it into the form of a transaction, which is from the sender to itself with the
  address of the receiver among the arguments, and decoding that form gives the two back.
\<close>

theorem sc_result_parties:
  assumes scr: "tx_type tx = Some ''SmartContractResult''"
    and dec: "ae_bech32Decode env (md_receiver metadata) = Inr address"
    and enc: "ae_bech32Encode env (Some address) = Inr (md_receiver metadata)"
    and run: "(md_functionName metadata = Some ''MultiESDTNFTTransfer'' \<and> md_functionArgs metadata \<noteq> []
        \<and> length (hd (md_functionArgs metadata)) \<le> 4
        \<and> getMultiTransferMetadata env (sc_result_metadata env tx metadata) applyValue s = (Inr (Some m), t))
      \<or> (md_functionName metadata = Some ''ESDTNFTTransfer'' \<and> length (md_functionArgs metadata) > 3
        \<and> getNftTransferMetadata env (sc_result_metadata env tx metadata) s = (Inr (Some m), t))"
  shows "md_sender m = md_sender metadata \<and> md_receiver m = md_receiver metadata"
  using run
proof
  assume multi: "md_functionName metadata = Some ''MultiESDTNFTTransfer'' \<and> md_functionArgs metadata \<noteq> []
        \<and> length (hd (md_functionArgs metadata)) \<le> 4
        \<and> getMultiTransferMetadata env (sc_result_metadata env tx metadata) applyValue s = (Inr (Some m), t)"
  then have eq: "sc_result_metadata env tx metadata =
      metadata\<lparr>md_functionArgs := address # md_functionArgs metadata, md_receiver := md_sender metadata\<rparr>"
    using scr dec by (simp add: sc_result_metadata_def)
  show ?thesis
    using multi_transfer_parties [of env "sc_result_metadata env tx metadata" applyValue s m t] multi enc
    by (simp add: eq)
next
  assume nft: "md_functionName metadata = Some ''ESDTNFTTransfer'' \<and> length (md_functionArgs metadata) > 3
        \<and> getNftTransferMetadata env (sc_result_metadata env tx metadata) s = (Inr (Some m), t)"
  then have eq: "sc_result_metadata env tx metadata =
      metadata\<lparr>md_functionArgs := (md_functionArgs metadata)[3 := address], md_receiver := md_sender metadata\<rparr>"
    using scr dec by (simp add: sc_result_metadata_def)
  show ?thesis
    using nft_transfer_parties [of env "sc_result_metadata env tx metadata" s m t] nft enc
    by (simp add: eq nth_opt_def)
qed

theorem sc_result_parties_witness:
  "\<exists>m. getNftTransferMetadata sample_action (sc_result_metadata sample_action
       \<lparr>tx_sender = ''sc'', tx_receiver = ''bob'', tx_timestamp = None, tx_value = ''0'', tx_data = None,
        tx_type = Some ''SmartContractResult''\<rparr>
       (new_metadata\<lparr>md_sender := ''sc'', md_receiver := ''bob'', md_functionName := Some ''ESDTNFTTransfer'',
          md_functionArgs := [''.N.F.T.-.1'', ''05'', ''1'', ''00'']\<rparr>)) () = (Inr (Some m), ())
     \<and> md_sender m = ''sc'' \<and> md_receiver m = ''bob''"
proof -
  let ?tx = "\<lparr>tx_sender = ''sc'', tx_receiver = ''bob'', tx_timestamp = None, tx_value = ''0'', tx_data = None,
        tx_type = Some ''SmartContractResult''\<rparr>"
  let ?md = "new_metadata\<lparr>md_sender := ''sc'', md_receiver := ''bob'', md_functionName := Some ''ESDTNFTTransfer'',
          md_functionArgs := [''.N.F.T.-.1'', ''05'', ''1'', ''00'']\<rparr>"
  obtain m where run: "getNftTransferMetadata sample_action (sc_result_metadata sample_action ?tx ?md) () = (Inr (Some m), ())"
    by (simp add: getNftTransferMetadata_def sc_result_metadata_def sample_action_def sample_tokens_def new_metadata_def
        getTokenTransferProperties_def getTokenTransferPropertiesRaw_def apply_value_def io_simps Let_def nth_opt_def)
  have "md_sender m = md_sender ?md \<and> md_receiver m = md_receiver ?md"
    by (rule sc_result_parties [of ?tx sample_action ?md "''bob''" False "()" m "()"])
       (use run in \<open>simp_all add: sample_action_def\<close>)
  with run show ?thesis by auto
qed

end
