(* ===== verification/MexSettings.thy ===== *)
theory MexSettings imports TransactionAction begin

text \<open>
  The settings of the exchange (\<open>src/endpoints/mex/mex.settings.service.ts\<close> and
  \<open>src/endpoints/mex/entities/mex.settings.ts\<close>): how they are read from the answer of the exchange
  service, cached and used to tell whether a transaction concerns the exchange.
\<close>

section \<open>Data\<close>

record mex_settings =
  mx_pairContracts :: "string list"
  mx_farmContracts :: "string list"
  mx_wrapContracts :: "string list"
  mx_routerFactoryContract :: string
  mx_distributionContract :: string
  mx_lockedAssetContract :: string
  mx_lockedAssetIdentifier :: "string option"
  mx_lockedAssetIdentifierV2 :: "string option"
  mx_mexId :: string
  mx_wegldId :: string

text \<open>The answer of the exchange service: states and addresses, and the tokens of the proxies and wrappers.\<close>

record mex_response =
  mr_farms :: "(string \<times> string) list"
  mr_stakingFarms :: "(string \<times> string) list"
  mr_stakingProxies :: "string list"
  mr_proxy :: "(string \<times> string list) list"
  mr_pairs :: "string list"
  mr_wrappingInfo :: "(string \<times> string) list"
  mr_distribution :: string
  mr_lockedAssetFactory :: string
  mr_factory :: string
  mr_baseAssetToken :: string

text \<open>
  The services behind the settings. The identifier of the wrapped token that the service keeps in
  a field, \<open>this.wegldId\<close>, is read and written through \<open>me_getWegldId\<close> and \<open>me_setWegldId\<close>.
\<close>

record 's mex_env =
  me_consts :: time_consts
  me_distinct :: "string list \<Rightarrow> string list"
  me_isExchangeEnabled :: bool
  me_exchangeServiceUrl :: "string option"
  me_pairCountQuery :: "('s, int option) io"
  me_settingsQuery :: "int \<Rightarrow> ('s, mex_response option) io"
  me_getOrSet :: "string \<Rightarrow> ('s, mex_settings option) io \<Rightarrow> int \<Rightarrow> int \<Rightarrow> ('s, mex_settings option) io"
  me_setRemoteSettings :: "string \<Rightarrow> mex_settings option \<Rightarrow> int \<Rightarrow> ('s, unit) io"
  me_setLocalSettings :: "string \<Rightarrow> mex_settings option \<Rightarrow> int \<Rightarrow> ('s, unit) io"
  me_setRemoteContracts :: "string \<Rightarrow> string list \<Rightarrow> int \<Rightarrow> ('s, unit) io"
  me_getLocalContracts :: "string \<Rightarrow> ('s, string list option) io"
  me_setLocalContracts :: "string \<Rightarrow> string list \<Rightarrow> int \<Rightarrow> ('s, unit) io"
  me_getWegldId :: "('s, string option) io"
  me_setWegldId :: "string option \<Rightarrow> ('s, unit) io"

section \<open>Operations\<close>

definition fromQueryResponse :: "'s mex_env \<Rightarrow> mex_response \<Rightarrow> mex_settings res" where
  "fromQueryResponse env response =
     (let lockedAssetIdentifiers = me_distinct env (concat (map snd (mr_proxy response)))
      in case mr_wrappingInfo response of
           [] \<Rightarrow> Inl TypeError
         | (_, wrappedToken) # _ \<Rightarrow> Inr
             \<lparr>mx_pairContracts = mr_pairs response @ map fst (mr_proxy response),
              mx_farmContracts =
                map snd (filter (\<lambda>x. fst x \<in> {''Active'', ''Migrate''}) (mr_farms response))
                @ map snd (filter (\<lambda>x. fst x = ''Active'') (mr_stakingFarms response))
                @ mr_stakingProxies response
                @ map fst (mr_proxy response),
              mx_wrapContracts = map fst (mr_wrappingInfo response),
              mx_routerFactoryContract = mr_factory response,
              mx_distributionContract = mr_distribution response,
              mx_lockedAssetContract = mr_lockedAssetFactory response,
              mx_lockedAssetIdentifier = find (\<lambda>i. startsWith i ''LKMEX'') lockedAssetIdentifiers,
              mx_lockedAssetIdentifierV2 = find (\<lambda>i. startsWith i ''XMEX'') lockedAssetIdentifiers,
              mx_mexId = mr_baseAssetToken response,
              mx_wegldId = wrappedToken\<rparr>)"

definition getTransfers :: "transaction_metadata \<Rightarrow> metadata_transfer list option" where
  "getTransfers metadata =
     (case md_transfers metadata of None \<Rightarrow> None | Some transfers \<Rightarrow> if transfers = [] then None else Some transfers)"

definition getPairLimitCount :: "'s mex_env \<Rightarrow> ('s, int) io" where
  "getPairLimitCount env = io_bind (me_pairCountQuery env) (\<lambda>response. io_return (coalesce response 500))"

definition getSettingsRaw :: "'s mex_env \<Rightarrow> ('s, mex_settings option) io" where
  "getSettingsRaw env =
     io_bind (getPairLimitCount env) (\<lambda>pairLimitCount.
     io_bind (me_settingsQuery env pairLimitCount) (\<lambda>response.
       case response of
         None \<Rightarrow> io_return None
       | Some r \<Rightarrow> io_bind (io_lift (fromQueryResponse env r)) (\<lambda>settings. io_return (Some settings))))"

definition getSettings :: "'s mex_env \<Rightarrow> ('s, mex_settings option) io" where
  "getSettings env =
     (if \<not> me_isExchangeEnabled env then io_return None
      else
        io_bind (me_getOrSet env (ci_key (CacheInfo_MexSettings (me_consts env))) (getSettingsRaw env)
                   (ci_ttl (CacheInfo_MexSettings (me_consts env))) (oneMinute (me_consts env) * 10)) (\<lambda>settings.
        io_then (me_setWegldId env (map_option mx_wegldId settings)) (io_return settings)))"

definition settings_contracts :: "mex_settings option \<Rightarrow> string list" where
  "settings_contracts settings =
     (case settings of
        None \<Rightarrow> []
      | Some s \<Rightarrow> [mx_distributionContract s, mx_lockedAssetContract s, mx_routerFactoryContract s]
                   @ mx_farmContracts s @ mx_pairContracts s @ mx_wrapContracts s)"

definition getMexContractsRaw :: "'s mex_env \<Rightarrow> ('s, string list) io" where
  "getMexContractsRaw env = io_bind (getSettings env) (\<lambda>settings. io_return (settings_contracts settings))"

abbreviation mex_contracts_key :: "'s mex_env \<Rightarrow> string" where
  "mex_contracts_key env \<equiv> ci_key (CacheInfo_MexContracts (me_consts env))"

definition getMexContracts :: "'s mex_env \<Rightarrow> ('s, string list) io" where
  "getMexContracts env =
     io_bind (me_getLocalContracts env (mex_contracts_key env)) (\<lambda>contracts.
       case contracts of
         Some c \<Rightarrow> io_return c
       | None \<Rightarrow>
           io_bind (getMexContractsRaw env) (\<lambda>c.
           io_then (me_setLocalContracts env (mex_contracts_key env) c (oneMinute (me_consts env) * 10))
             (io_return c)))"

definition isMexInteraction :: "'s mex_env \<Rightarrow> transaction_metadata \<Rightarrow> ('s, bool) io" where
  "isMexInteraction env metadata =
     io_bind (getMexContracts env) (\<lambda>contracts. io_return (md_receiver metadata \<in> set contracts))"

definition refreshSettings :: "'s mex_env \<Rightarrow> ('s, unit) io" where
  "refreshSettings env =
     (let info = CacheInfo_MexSettings (me_consts env); cinfo = CacheInfo_MexContracts (me_consts env);
          local = oneMinute (me_consts env) * 10
      in io_bind (getSettingsRaw env) (\<lambda>settings.
         io_then (me_setRemoteSettings env (ci_key info) settings (ci_ttl info))
         (io_then (me_setLocalSettings env (ci_key info) settings local)
         (io_bind (getMexContractsRaw env) (\<lambda>contracts.
         io_then (me_setRemoteContracts env (ci_key cinfo) contracts (ci_ttl cinfo))
           (me_setLocalContracts env (ci_key cinfo) contracts local))))))"

text \<open>\<open>TransactionActionMexRecognizerService.isActive\<close>: \<open>null\<close> settings are not \<open>undefined\<close>.\<close>

definition mex_isActive :: "'s mex_env \<Rightarrow> ('s, bool) io" where
  "mex_isActive env =
     (if \<not> truthy (me_exchangeServiceUrl env) then io_return False
      else io_bind (getSettings env) (\<lambda>settings. io_return True))"

end
