(* ===== verification/Recognizers.thy ===== *)
theory Recognizers imports MexSettings begin

text \<open>
  The interpretation of a transaction, second half
  (\<open>src/endpoints/transactions/transaction-action/recognizers\<close> and \<open>getTransactionAction\<close> of
  \<open>transaction.action.service.ts\<close>): the recognizers, which turn metadata into an action, and their
  order. A recognizer gets the metadata object itself and some of them add transfers to it, so
  a recognizer here returns the metadata it leaves behind, too.
\<close>

section \<open>Data\<close>

datatype action_category = AC_esdtNft | AC_mex | AC_stake | AC_scCall | AC_scDeploy

record transfer_details = transfer_properties +
  xd_value :: string

record provider_details =
  pd_providerName :: string
  pd_providerAvatar :: string

record metabonding_week =
  mw_week :: "int option"
  mw_egldStaked :: string
  mw_lkmexStaked :: string

datatype action_arguments =
    TransferArguments "transfer_details list" string "string option" "string list option"
  | FreezeArguments string transfer_properties
  | BurnArguments transfer_properties "int option"
  | StakeArguments "string option" provider_details
  | WrapArguments string string int string string
  | WeeksArguments "metabonding_week list" "string option" "string list"

record transaction_action =
  ac_category :: action_category
  ac_name :: string
  ac_description :: string
  ac_arguments :: "action_arguments option"

type_synonym 's recognizer =
  "transaction_metadata \<Rightarrow> ('s, transaction_action option \<times> transaction_metadata) io"

record provider =
  pr_provider :: string
  pr_identity :: "string option"

record identity =
  id_identity :: "string option"
  id_name :: "string option"
  id_avatar :: "string option"

record 's recognizer_env =
  re_action :: "'s action_env"
  re_mex :: "'s mex_env"
  re_esdtContract :: "string"
  re_metabondingContract :: "string option"
  re_sumBigInt :: "int list \<Rightarrow> int"
  re_getLocalProviders :: "string \<Rightarrow> ('s, (string \<rightharpoonup> provider_details) option) io"
  re_setLocalProviders :: "string \<Rightarrow> (string \<rightharpoonup> provider_details) \<Rightarrow> int \<Rightarrow> ('s, unit) io"
  re_getAllProviders :: "('s, provider list) io"
  re_getAllIdentities :: "('s, identity list) io"

text \<open>A value in a template string, which shows \<open>undefined\<close> and \<open>NaN\<close> by these words.\<close>

definition show_string :: "string option \<Rightarrow> string" where
  "show_string s = coalesce s ''undefined''"

definition show_number :: "int option \<Rightarrow> string" where
  "show_number n = (case n of None \<Rightarrow> ''NaN'' | Some i \<Rightarrow> int_str i)"

text \<open>The operator \<open>??\<close> between two recognizers.\<close>

definition or_else :: "'s recognizer \<Rightarrow> 's recognizer \<Rightarrow> 's recognizer" where
  "or_else r q = (\<lambda>metadata. io_bind (r metadata) (\<lambda>(action, metadata).
     case action of Some a \<Rightarrow> io_return (Some a, metadata) | None \<Rightarrow> q metadata))"

definition pure_recognizer :: "(transaction_metadata \<Rightarrow> transaction_action option) \<Rightarrow> 's recognizer" where
  "pure_recognizer f = (\<lambda>metadata. io_return (f metadata, metadata))"

section \<open>Token transfers, freezing and burning\<close>

definition getNftTransferDetails :: "metadata_transfer \<Rightarrow> transfer_details option" where
  "getNftTransferDetails transfer =
     map_option (\<lambda>p. transfer_properties.extend p \<lparr>xd_value = int_str (mt_value transfer)\<rparr>)
       (mt_properties transfer)"

definition getMultiTransferAction ::
  "'s action_env \<Rightarrow> transaction_metadata \<Rightarrow> action_category \<Rightarrow> string \<Rightarrow> string \<Rightarrow> transaction_action option" where
  "getMultiTransferAction env metadata category name description =
     map_option (\<lambda>multiTransfers.
       \<lparr>ac_category = category, ac_name = name, ac_description = description,
        ac_arguments = Some (TransferArguments
          (List.map_filter getNftTransferDetails multiTransfers)
          (md_receiver metadata)
          (if truthy (md_functionName metadata) \<and> ae_isFunctionName env (the (md_functionName metadata))
           then md_functionName metadata else None)
          (if \<forall>x \<in> set (md_functionArgs metadata). ae_isHex env x
           then Some (md_functionArgs metadata) else None))\<rparr>)
     (md_transfers metadata)"

definition getMultiTransferActionWithTicker ::
  "'s action_env \<Rightarrow> transaction_metadata \<Rightarrow> action_category \<Rightarrow> string \<Rightarrow> string \<Rightarrow> transaction_action option" where
  "getMultiTransferActionWithTicker env metadata category name action =
     Option.bind (md_transfers metadata) (\<lambda>multiTransfers.
       let description = action @ '' '' @ join '', '' (map (\<lambda>x.
             ae_denominated env (mt_value x) (Option.bind (mt_properties x) tp_decimals) @ '' ''
             @ show_string (map_option tp_ticker (mt_properties x))) multiTransfers)
       in getMultiTransferAction env metadata category name description)"

definition getTokenTransferDescription :: "'s action_env \<Rightarrow> transfer_properties \<Rightarrow> int \<Rightarrow> string" where
  "getTokenTransferDescription env p value =
     ae_denominated env value (tp_decimals p) @ '' '' @ tp_name p @ '' ('' @ tp_ticker p @ '')''"

definition getNftTransferDescription :: "'s action_env \<Rightarrow> transfer_properties \<Rightarrow> int \<Rightarrow> string" where
  "getNftTransferDescription env p value =
     (case tp_type p of
        MetaESDT \<Rightarrow> ae_denominated env value (tp_decimals p) @ '' '' @ tp_name p @ '' (''
          @ show_string (tp_identifier p) @ '')''
      | NonFungibleESDT \<Rightarrow> ''NFT of collection '' @ tp_name p @ '' ('' @ show_string (tp_identifier p) @ '')''
      | SemiFungibleESDT \<Rightarrow> ''quantity '' @ int_str value @ '' for NFT of collection '' @ tp_name p @ '' (''
          @ show_string (tp_identifier p) @ '')''
      | FungibleESDT \<Rightarrow> ''Unknown'')"

definition getMultiTransferDescription :: "'s action_env \<Rightarrow> metadata_transfer \<Rightarrow> string option" where
  "getMultiTransferDescription env transfer =
     map_option (\<lambda>p. if tp_type p = FungibleESDT then getTokenTransferDescription env p (mt_value transfer)
                     else getNftTransferDescription env p (mt_value transfer)) (mt_properties transfer)"

definition getMultiTransferActionWithFullDescription ::
  "'s action_env \<Rightarrow> transaction_metadata \<Rightarrow> action_category \<Rightarrow> string \<Rightarrow> string \<Rightarrow> transaction_action option" where
  "getMultiTransferActionWithFullDescription env metadata category name action =
     Option.bind (md_transfers metadata) (\<lambda>multiTransfers.
       let description = action @ '' ''
             @ join '', '' (List.map_filter (getMultiTransferDescription env) multiTransfers)
             @ '' to '' @ md_receiver metadata
       in getMultiTransferAction env metadata category name description)"

definition recognizeTransfer :: "'s recognizer_env \<Rightarrow> transaction_metadata \<Rightarrow> transaction_action option" where
  "recognizeTransfer env metadata =
     getMultiTransferAction (re_action env) metadata AC_esdtNft ''transfer'' ''Transfer''"

definition recognizeFreeze :: "'s recognizer_env \<Rightarrow> 's recognizer" where
  "recognizeFreeze env = (\<lambda>metadata.
     let ae = re_action env; args = md_functionArgs metadata in
     if md_functionName metadata \<noteq> Some ''freeze'' \<or> md_receiver metadata \<noteq> re_esdtContract env
     then io_return (None, metadata)
     else
       io_bind (io_lift (ae_hexToString ae (nth_opt args 0))) (\<lambda>tokenIdentifier.
       io_bind (getTokenTransferProperties (ae_tokens ae) \<lparr>to_identifier = tokenIdentifier, to_nonce = None,
                  to_timestamp = None, to_value = None, to_applyValue = False\<rparr>) (\<lambda>tokenProperties.
       case tokenProperties of
         None \<Rightarrow> io_return (None, metadata)
       | Some p \<Rightarrow>
           if \<not> ae_isValidHexAddress ae (nth_opt args 1) then io_return (None, metadata)
           else
             io_bind (io_lift (ae_bech32Encode ae (nth_opt args 1))) (\<lambda>address.
               io_return (Some \<lparr>ac_category = AC_esdtNft, ac_name = ''freeze'',
                 ac_description = ''Freezed token '' @ tokenIdentifier @ '' balance for address '' @ address,
                 ac_arguments = Some (FreezeArguments address p)\<rparr>, metadata)))))"

definition recognizeBurn :: "'s recognizer_env \<Rightarrow> 's recognizer" where
  "recognizeBurn env = (\<lambda>metadata.
     let ae = re_action env; args = md_functionArgs metadata in
     if md_functionName metadata \<noteq> Some ''ESDTNFTBurn'' then io_return (None, metadata)
     else
       io_bind (io_lift (ae_hexToString ae (nth_opt args 0))) (\<lambda>identifier.
       io_bind (io_lift (ae_hexToNumber ae (nth_opt args 2))) (\<lambda>value.
       io_bind (getTokenTransferProperties (ae_tokens ae) \<lparr>to_identifier = identifier, to_nonce = None,
                  to_timestamp = None, to_value = None, to_applyValue = False\<rparr>) (\<lambda>tokenProperties.
       case tokenProperties of
         None \<Rightarrow> io_return (None, metadata)
       | Some p \<Rightarrow>
           io_return (Some \<lparr>ac_category = AC_esdtNft, ac_name = ''burn'',
             ac_description = ''Burned token '' @ identifier,
             ac_arguments = Some (BurnArguments
               (p\<lparr>tp_identifier := Some (identifier @ ''-'' @ show_string (nth_opt args 1))\<rparr>) value)\<rparr>,
             metadata)))))"

definition esdt_recognize :: "'s recognizer_env \<Rightarrow> 's recognizer" where
  "esdt_recognize env =
     or_else (pure_recognizer (recognizeTransfer env)) (or_else (recognizeFreeze env) (recognizeBurn env))"

section \<open>Smart contract calls\<close>

definition builtInSelfFunctions :: "string list" where
  "builtInSelfFunctions = [''ESDTLocalMint'', ''ESDTLocalBurn'', ''ESDTNFTCreate'', ''ESDTNFTAddQuantity'',
     ''ESDTNFTAddURI'', ''ESDTNFTUpdateAttributes'', ''SaveKeyValue'']"

definition getSCDeployAction :: "transaction_metadata \<Rightarrow> transaction_action option" where
  "getSCDeployAction metadata =
     (if md_receiver metadata \<noteq> ''erd1qqqqqqqqqqqqqqqqqqqqqqqqqqqqqqqqqqqqqqqqqqqqqqqqqqqq6gq4hu'' then None
      else Some \<lparr>ac_category = AC_scCall, ac_name = ''deploy'', ac_description = ''Smart contract deployment'',
             ac_arguments = None\<rparr>)"

definition isSelfBuiltInFunctionCall :: "transaction_metadata \<Rightarrow> bool" where
  "isSelfBuiltInFunctionCall metadata \<longleftrightarrow>
     md_sender metadata = md_receiver metadata \<and> coalesce (md_functionName metadata) [] \<in> set builtInSelfFunctions"

definition isSmartContractCall :: "'s action_env \<Rightarrow> transaction_metadata \<Rightarrow> bool" where
  "isSmartContractCall env metadata \<longleftrightarrow>
     ae_isSmartContractAddress env (md_receiver metadata) \<or> isSelfBuiltInFunctionCall metadata"

definition getSCCallAction :: "'s action_env \<Rightarrow> transaction_metadata \<Rightarrow> transaction_action option" where
  "getSCCallAction env metadata =
     (if \<not> isSmartContractCall env metadata then None
      else if \<not> truthy (md_functionName metadata) then None
      else Some \<lparr>ac_category = AC_scCall, ac_name = the (md_functionName metadata), ac_description = [],
             ac_arguments = None\<rparr>)"

definition sc_recognize :: "'s recognizer_env \<Rightarrow> 's recognizer" where
  "sc_recognize env = pure_recognizer (\<lambda>metadata.
     orelse (getSCDeployAction metadata) (getSCCallAction (re_action env) metadata))"

section \<open>Staking\<close>

definition provider_details_of :: "identity list \<Rightarrow> provider \<Rightarrow> provider_details" where
  "provider_details_of identities provider =
     (let providerName = coalesce (pr_identity provider) (pr_provider provider)
      in case filter (\<lambda>x. id_identity x = pr_identity provider) identities of
           [] \<Rightarrow> \<lparr>pd_providerName = providerName, pd_providerAvatar = []\<rparr>
         | first # _ \<Rightarrow>
             \<lparr>pd_providerName = (if truthy (id_name first) \<and> length (the (id_name first)) \<noteq> 192
                                then the (id_name first) else providerName),
              pd_providerAvatar = (if truthy (id_avatar first) then the (id_avatar first) else [])\<rparr>)"

definition getProviders :: "'s recognizer_env \<Rightarrow> ('s, string \<rightharpoonup> provider_details) io" where
  "getProviders env =
     io_bind (re_getLocalProviders env ''plugins:staking:providerAddresses'') (\<lambda>cached.
       case cached of
         Some details \<Rightarrow> io_return details
       | None \<Rightarrow>
           io_bind (re_getAllProviders env) (\<lambda>providers.
           io_bind (re_getAllIdentities env) (\<lambda>identities.
           let details = foldl (\<lambda>m p. m(pr_provider p \<mapsto> provider_details_of identities p)) Map.empty providers
           in io_then (re_setLocalProviders env ''plugins:staking:providerAddresses'' details
                         (oneHour (me_consts (re_mex env))))
                (io_return details))))"

definition getDelegateAction :: "'s action_env \<Rightarrow> transaction_metadata \<Rightarrow> provider_details \<Rightarrow> transaction_action" where
  "getDelegateAction env metadata details =
     \<lparr>ac_category = AC_stake, ac_name = ''delegate'',
      ac_description = ''Delegate '' @ ae_denominated env (md_value metadata) (Some 18)
        @ '' EGLD to staking provider '' @ pd_providerName details,
      ac_arguments = Some (StakeArguments (Some (int_str (md_value metadata))) details)\<rparr>"

definition getUnDelegateAction ::
  "'s action_env \<Rightarrow> transaction_metadata \<Rightarrow> provider_details \<Rightarrow> transaction_action res" where
  "getUnDelegateAction env metadata details =
     res_bind (ae_hexToBigInt env (nth_opt (md_functionArgs metadata) 0)) (\<lambda>value. Inr
       \<lparr>ac_category = AC_stake, ac_name = ''unDelegate'',
        ac_description = ''Undelegate '' @ ae_denominated env value (Some 18)
          @ '' EGLD from staking provider '' @ pd_providerName details,
        ac_arguments = Some (StakeArguments (Some (int_str value)) details)\<rparr>)"

definition getStakeAction :: "transaction_metadata \<Rightarrow> provider_details \<Rightarrow> string \<Rightarrow> transaction_action" where
  "getStakeAction metadata details action =
     \<lparr>ac_category = AC_stake, ac_name = coalesce (md_functionName metadata) [],
      ac_description = action @ '' from staking provider '' @ pd_providerName details,
      ac_arguments = Some (StakeArguments None details)\<rparr>"

definition stake_recognize :: "'s recognizer_env \<Rightarrow> 's recognizer" where
  "stake_recognize env = (\<lambda>metadata.
     io_bind (getProviders env) (\<lambda>providers.
       case providers (md_receiver metadata) of
         None \<Rightarrow> io_return (None, metadata)
       | Some details \<Rightarrow>
           (let fn = md_functionName metadata in
            if fn = Some ''delegate'' \<or> fn = Some ''stake'' then
              io_return (Some (getDelegateAction (re_action env) metadata details), metadata)
            else if fn = Some ''unDelegate'' then
              io_bind (io_lift (getUnDelegateAction (re_action env) metadata details)) (\<lambda>a.
                io_return (Some a, metadata))
            else if fn = Some ''claimRewards'' then
              io_return (Some (getStakeAction metadata details ''Claim rewards''), metadata)
            else if fn = Some ''reDelegateRewards'' then
              io_return (Some (getStakeAction metadata details ''Redelegate rewards''), metadata)
            else if fn = Some ''withdraw'' then
              io_return (Some (getStakeAction metadata details ''Withdraw''), metadata)
            else io_return (None, metadata))))"

section \<open>The exchange\<close>

definition distribution_recognize :: "mex_settings \<Rightarrow> transaction_metadata \<Rightarrow> transaction_action option" where
  "distribution_recognize settings metadata =
     (if md_receiver metadata = mx_distributionContract settings
         \<and> md_functionName metadata = Some ''claimLockedAssets''
      then Some \<lparr>ac_category = AC_mex, ac_name = ''claimLockedAssets'', ac_description = ''Claim locked assets'',
                 ac_arguments = None\<rparr>
      else None)"

text \<open>The name and the words of a farm function, each of which has a variant for the proxy but the last.\<close>

definition farm_functions :: "(string list \<times> string \<times> string) list" where
  "farm_functions =
     [([''enterFarm'', ''enterFarmProxy''], ''enterFarm'', ''Enter farm with''),
      ([''enterFarmAndLockRewards'', ''enterFarmAndLockRewardsProxy''], ''enterFarm'', ''Enter farm and lock rewards with''),
      ([''exitFarm'', ''exitFarmProxy''], ''exitFarm'', ''Exit farm with''),
      ([''claimRewards'', ''claimRewardsProxy''], ''claimRewards'', ''Claim rewards for''),
      ([''compoundRewards'', ''compoundRewardsProxy''], ''compoundRewards'', ''Reinvest rewards for''),
      ([''stakeFarm'', ''stakeFarmProxy''], ''enterFarm'', ''Stake farm with''),
      ([''stakeFarmTokens'', ''stakeFarmTokensProxy''], ''enterFarm'', ''Stake farm tokens with''),
      ([''unstakeFarm'', ''unstakeFarmProxy''], ''exitFarm'', ''Unstake farm with''),
      ([''unstakeFarmTokens'', ''unstakeFarmTokensProxy''], ''exitFarm'', ''Unstake farm tokens with''),
      ([''claimDualYield'', ''claimDualYieldProxy''], ''claimRewards'', ''Claim dual yield for''),
      ([''unbondFarm''], ''unbondFarm'', ''Unbond farm with'')]"

definition farm_recognize :: "'s action_env \<Rightarrow> mex_settings \<Rightarrow> transaction_metadata \<Rightarrow> transaction_action option" where
  "farm_recognize env settings metadata =
     (if md_receiver metadata \<notin> set (mx_farmContracts settings) then None
      else Option.bind (find (\<lambda>(fns, _). md_functionName metadata \<in> Some ` set fns) farm_functions)
        (\<lambda>(_, name, action). getMultiTransferActionWithTicker env metadata AC_mex name action))"

definition wrap_recognize :: "'s recognizer_env \<Rightarrow> mex_settings \<Rightarrow> 's recognizer" where
  "wrap_recognize env settings = (\<lambda>metadata.
     if md_receiver metadata \<notin> set (mx_wrapContracts settings) then io_return (None, metadata)
     else if md_functionName metadata = Some ''wrapEgld'' then
       io_bind (me_getWegldId (re_mex env)) (\<lambda>wegldId.
         if \<not> truthy wegldId then io_return (None, metadata)
         else io_return (Some \<lparr>ac_category = AC_mex, ac_name = ''wrapEgld'',
                ac_description = ''Wrap '' @ ae_denominated (re_action env) (md_value metadata) None @ '' EGLD'',
                ac_arguments = Some (WrapArguments (the wegldId) (hd (split_on CHR ''-'' (the wegldId))) 18
                  (int_str (md_value metadata)) (md_receiver metadata))\<rparr>, metadata))
     else if md_functionName metadata = Some ''unwrapEgld'' then
       io_return (getMultiTransferActionWithTicker (re_action env) metadata AC_mex ''unwrapEgld'' ''Unwrap'', metadata)
     else io_return (None, metadata))"

definition locked_recognize :: "'s recognizer_env \<Rightarrow> mex_settings \<Rightarrow> transaction_metadata \<Rightarrow> transaction_action option" where
  "locked_recognize env settings metadata =
     (let ae = re_action env; fn = md_functionName metadata in
      if md_receiver metadata \<noteq> mx_lockedAssetContract settings then None
      else if fn = Some ''lockAssets'' then
        getMultiTransferActionWithTicker ae metadata AC_mex ''lockAssets'' ''Lock''
      else if fn = Some ''unlockAssets'' then
        map_option (\<lambda>a. a\<lparr>ac_description := ''Unlock assets''\<rparr>)
          (getMultiTransferActionWithTicker ae metadata AC_mex ''unlockAssets'' ''Unlock'')
      else if fn = Some ''mergeLockedAssetTokens'' then
        Option.bind (getTransfers metadata) (\<lambda>transfers.
          getMultiTransferAction ae metadata AC_mex ''mergeLockedAssetTokens''
            (''Merge '' @ nat_str (length transfers) @ '' LKMEX positions into a single LKMEX position of value ''
             @ ae_denominated ae (re_sumBigInt env (map mt_value transfers)) None))
      else None)"

text \<open>\<open>metadata.transfers?.push(transfer)\<close>.\<close>

definition push_transfer :: "metadata_transfer \<Rightarrow> transaction_metadata \<Rightarrow> transaction_metadata" where
  "push_transfer transfer metadata = metadata\<lparr>md_transfers := map_option (\<lambda>ts. ts @ [transfer]) (md_transfers metadata)\<rparr>"

definition token_by_identifier :: "'s recognizer_env \<Rightarrow> string \<Rightarrow> ('s, transfer_properties option) io" where
  "token_by_identifier env identifier =
     getTokenTransferProperties (ae_tokens (re_action env)) \<lparr>to_identifier = identifier, to_nonce = None,
       to_timestamp = None, to_value = None, to_applyValue = False\<rparr>"

definition getSwapAction :: "'s recognizer_env \<Rightarrow> 's recognizer" where
  "getSwapAction env = (\<lambda>metadata.
     let ae = re_action env; args = md_functionArgs metadata in
     case getTransfers metadata of
       None \<Rightarrow> io_return (None, metadata)
     | Some transfers \<Rightarrow>
         (case mt_properties (hd transfers) of
            None \<Rightarrow> io_return (None, metadata)
          | Some pair1 \<Rightarrow>
              (let valueDenominated = ae_denominated ae (mt_value (hd transfers)) (tp_decimals pair1) in
               io_bind (io_lift (ae_hexToString ae (nth_opt args 0))) (\<lambda>destinationTokenIdentifier.
               io_bind (io_lift (ae_hexToBigInt ae (nth_opt args 1))) (\<lambda>destinationValue.
               io_bind (token_by_identifier env destinationTokenIdentifier) (\<lambda>pair2Properties.
               case pair2Properties of
                 None \<Rightarrow> io_return (None, metadata)
               | Some pair2 \<Rightarrow>
                   (let destinationValueDenominated = ae_denominated ae destinationValue (tp_decimals pair2);
                        metadata = push_transfer \<lparr>mt_properties = Some pair2, mt_value = destinationValue\<rparr> metadata;
                        description =
                          (if md_functionName metadata = Some ''swapTokensFixedOutput'' then
                             ''Swap a maximum of '' @ valueDenominated @ '' '' @ tp_ticker pair1 @ '' for ''
                             @ destinationValueDenominated @ '' '' @ tp_ticker pair2
                           else
                             ''Swap '' @ valueDenominated @ '' '' @ tp_ticker pair1 @ '' for a minimum of ''
                             @ destinationValueDenominated @ '' '' @ tp_ticker pair2)
                    in io_return (getMultiTransferAction ae metadata AC_mex ''swap'' description, metadata))))))))"

text \<open>
  The loop over the swaps of a multi pair swap: the denominated values and tickers collected, or
  \<open>None\<close> when a token is unknown, and the metadata with the transfers pushed so far.
\<close>

fun multi_swap_loop ::
  "'s recognizer_env \<Rightarrow> nat list \<Rightarrow> (string \<times> string) list \<Rightarrow> transaction_metadata
   \<Rightarrow> ('s, (string \<times> string) list option \<times> transaction_metadata) io" where
  "multi_swap_loop env [] swaps metadata = io_return (Some swaps, metadata)"
| "multi_swap_loop env (i # rest) swaps metadata =
     io_bind (io_lift (ae_hexToString (re_action env) (nth_opt (md_functionArgs metadata) (i * 4 + 2)))) (\<lambda>tokenIdentifier.
     io_bind (io_lift (ae_hexToBigInt (re_action env) (nth_opt (md_functionArgs metadata) (i * 4 + 3)))) (\<lambda>value.
     io_bind (token_by_identifier env tokenIdentifier) (\<lambda>pairProperties.
       case pairProperties of
         None \<Rightarrow> io_return (None, metadata)
       | Some p \<Rightarrow>
           multi_swap_loop env rest
             (swaps @ [(ae_denominated (re_action env) value (tp_decimals p), tp_ticker p)])
             (push_transfer \<lparr>mt_properties = Some p, mt_value = value\<rparr> metadata))))"

definition getMultiSwapAction :: "'s recognizer_env \<Rightarrow> 's recognizer" where
  "getMultiSwapAction env = (\<lambda>metadata.
     let ae = re_action env in
     case getTransfers metadata of
       None \<Rightarrow> io_return (None, metadata)
     | Some transfers \<Rightarrow>
         (case mt_properties (hd transfers) of
            None \<Rightarrow> io_return (None, metadata)
          | Some pair1 \<Rightarrow>
              io_bind (multi_swap_loop env [0..<(length (md_functionArgs metadata) + 3) div 4]
                  [(ae_denominated ae (mt_value (hd transfers)) (tp_decimals pair1), tp_ticker pair1)] metadata)
                (\<lambda>(swaps, metadata).
                  case swaps of
                    None \<Rightarrow> io_return (None, metadata)
                  | Some swaps \<Rightarrow>
                      (let firstSwap = hd swaps; lastSwap = last swaps;
                           intermediateSwaps = slice 1 (length swaps - 1) swaps;
                           description = ''Swap '' @ fst firstSwap @ '' '' @ snd firstSwap @ '' for a minimum of ''
                             @ fst lastSwap @ '' '' @ snd lastSwap @ '' with intermediate pair(s) ''
                             @ join '', '' (map snd intermediateSwaps)
                       in io_return (getMultiTransferAction ae metadata AC_mex ''multiSwap'' description, metadata)))))"

definition pair_recognize :: "'s recognizer_env \<Rightarrow> mex_settings \<Rightarrow> 's recognizer" where
  "pair_recognize env settings = (\<lambda>metadata.
     let ae = re_action env; fn = md_functionName metadata in
     if md_receiver metadata \<notin> set (mx_pairContracts settings)
        \<and> mx_routerFactoryContract settings \<noteq> md_receiver metadata then io_return (None, metadata)
     else if fn = Some ''swapTokensFixedInput'' \<or> fn = Some ''swapTokensFixedOutput'' then getSwapAction env metadata
     else if fn = Some ''addLiquidity'' \<or> fn = Some ''addLiquidityProxy'' then
       io_return (getMultiTransferActionWithTicker ae metadata AC_mex ''addLiquidity'' ''Added liquidity for'', metadata)
     else if fn = Some ''removeLiquidity'' \<or> fn = Some ''removeLiquidityProxy'' then
       io_return (getMultiTransferActionWithTicker ae metadata AC_mex ''removeLiquidity'' ''Removed liquidity with'', metadata)
     else if fn = Some ''multiPairSwap'' then getMultiSwapAction env metadata
     else io_return (None, metadata))"

text \<open>The recognizers of the exchange in their order, without the early test.\<close>

definition mex_recognizers :: "'s recognizer_env \<Rightarrow> mex_settings \<Rightarrow> 's recognizer" where
  "mex_recognizers env settings =
     or_else (pure_recognizer (distribution_recognize settings))
       (or_else (pair_recognize env settings)
         (or_else (pure_recognizer (farm_recognize (re_action env) settings))
           (or_else (wrap_recognize env settings)
             (pure_recognizer (locked_recognize env settings)))))"

definition mex_recognize :: "'s recognizer_env \<Rightarrow> 's recognizer" where
  "mex_recognize env = (\<lambda>metadata.
     io_bind (getSettings (re_mex env)) (\<lambda>settings.
       case settings of
         None \<Rightarrow> io_return (None, metadata)
       | Some s \<Rightarrow>
           io_bind (isMexInteraction (re_mex env) metadata) (\<lambda>interaction.
             if \<not> interaction then io_return (None, metadata) else mex_recognizers env s metadata)))"

definition metabonding_week_of :: "'s action_env \<Rightarrow> string list \<Rightarrow> metabonding_week res" where
  "metabonding_week_of env part =
     res_bind (ae_hexToNumber env (nth_opt part 0)) (\<lambda>week.
     res_bind (ae_hexToBigInt env (nth_opt part 1)) (\<lambda>egldStaked.
     res_bind (ae_hexToBigInt env (nth_opt part 2)) (\<lambda>lkmexStaked.
       Inr \<lparr>mw_week = week, mw_egldStaked = int_str egldStaked, mw_lkmexStaked = int_str lkmexStaked\<rparr>)))"

definition metabonding_week_text :: "'s action_env \<Rightarrow> metabonding_week \<Rightarrow> string res" where
  "metabonding_week_text env week =
     res_bind (js_BigInt (mw_egldStaked week)) (\<lambda>egld.
     res_bind (js_BigInt (mw_lkmexStaked week)) (\<lambda>lkmex.
       Inr (''week '' @ show_number (mw_week week) @ '': EGLD '' @ ae_denominated env egld None
            @ '', LKMEX '' @ ae_denominated env lkmex None)))"

definition getClaimRewardsAction :: "'s action_env \<Rightarrow> transaction_metadata \<Rightarrow> transaction_action res" where
  "getClaimRewardsAction env metadata =
     res_bind (res_map (metabonding_week_of env) (ae_chunks env (md_functionArgs metadata) 4)) (\<lambda>metabondingWeeks.
     res_bind (res_map (metabonding_week_text env) metabondingWeeks) (\<lambda>texts.
       Inr \<lparr>ac_category = AC_mex, ac_name = ''claimRewards'',
            ac_description = ''Eligible stake for '' @ join ''; '' texts,
            ac_arguments = Some (WeeksArguments metabondingWeeks (md_functionName metadata)
              (md_functionArgs metadata))\<rparr>))"

definition metabonding_recognize :: "'s recognizer_env \<Rightarrow> 's recognizer" where
  "metabonding_recognize env = (\<lambda>metadata.
     if Some (md_receiver metadata) \<noteq> re_metabondingContract env then io_return (None, metadata)
     else if md_functionName metadata = Some ''claimRewards'' then
       io_bind (io_lift (getClaimRewardsAction (re_action env) metadata)) (\<lambda>a. io_return (Some a, metadata))
     else io_return (None, metadata))"

section \<open>The service\<close>

fun first_recognized :: "'s recognizer list \<Rightarrow> 's recognizer" where
  "first_recognized [] metadata = io_return (None, metadata)"
| "first_recognized (r # rs) metadata = or_else r (first_recognized rs) metadata"

definition code_recognizers :: "'s recognizer_env \<Rightarrow> bool \<Rightarrow> 's recognizer list" where
  "code_recognizers env isMexActive =
     (if isMexActive then [mex_recognize env] else [])
     @ [metabonding_recognize env, esdt_recognize env, stake_recognize env, sc_recognize env]"

text \<open>The recognizers are chosen once and kept in \<open>this.recognizers\<close>.\<close>

definition getRecognizers ::
  "'s recognizer_env \<Rightarrow> 's recognizer list \<Rightarrow> ('s, 's recognizer list) io" where
  "getRecognizers env recognizers =
     (if recognizers = [] then
        io_bind (mex_isActive (re_mex env)) (\<lambda>isMexActive.
          io_return (code_recognizers env isMexActive))
      else io_return recognizers)"

definition getTransactionAction ::
  "'s recognizer_env \<Rightarrow> 's recognizer list \<Rightarrow> nat \<Rightarrow> transaction \<Rightarrow> bool
   \<Rightarrow> ('s, transaction_action option \<times> 's recognizer list) io option" where
  "getTransactionAction env recognizers fuel tx applyValue =
     map_option (\<lambda>m.
       io_bind m (\<lambda>metadata.
       io_bind (getRecognizers env recognizers) (\<lambda>recognizers.
       io_bind (first_recognized recognizers metadata) (\<lambda>(action, _).
         io_return (action, recognizers)))))
     (getTransactionMetadata (re_action env) fuel tx applyValue)"

section \<open>What every recognizer promises\<close>

text \<open>The metadata is left as it is, but for transfers added at the end of those there are.\<close>

definition extends_transfers :: "transaction_metadata \<Rightarrow> transaction_metadata \<Rightarrow> bool" where
  "extends_transfers md md' \<longleftrightarrow>
     (\<exists>new. md' = md\<lparr>md_transfers := map_option (\<lambda>ts. ts @ new) (md_transfers md)\<rparr>)"

lemma extends_transfers_refl [simp]: "extends_transfers md md"
  unfolding extends_transfers_def
  by (rule exI [of _ "[]"]) (cases "md_transfers md"; simp)

lemma extends_transfers_trans:
  assumes "extends_transfers a b" and "extends_transfers b c"
  shows "extends_transfers a c"
proof -
  obtain u v where "b = a\<lparr>md_transfers := map_option (\<lambda>ts. ts @ u) (md_transfers a)\<rparr>"
    and "c = b\<lparr>md_transfers := map_option (\<lambda>ts. ts @ v) (md_transfers b)\<rparr>"
    using assms unfolding extends_transfers_def by blast
  then have "c = a\<lparr>md_transfers := map_option (\<lambda>ts. ts @ (u @ v)) (md_transfers a)\<rparr>"
    by (cases "md_transfers a") simp_all
  then show ?thesis unfolding extends_transfers_def by blast
qed

lemma extends_push [simp]: "extends_transfers md (push_transfer x md)"
  unfolding extends_transfers_def push_transfer_def by blast

lemma extends_transfers_some:
  "extends_transfers md md' \<Longrightarrow> md_transfers md \<noteq> None \<Longrightarrow> md_transfers md' \<noteq> None"
  by (auto simp: extends_transfers_def)

text \<open>The interface \<open>TransactionActionRecognizerInterface\<close>, with the categories a recognizer assigns.\<close>

locale recognizer =
  fixes recognize :: "'s recognizer" and categories :: "action_category set"
  assumes category: "recognize md s = (Inr (Some a, md'), t) \<Longrightarrow> ac_category a \<in> categories"
    and keeps: "recognize md s = (Inr (r, md'), t) \<Longrightarrow> extends_transfers md md'"
begin

lemma or_else_recognizer:
  assumes "recognizer q cats"
  shows "recognizer (or_else recognize q) (categories \<union> cats)"
proof (rule recognizer.intro)
  fix md s a md' t
  assume "or_else recognize q md s = (Inr (Some a, md'), t)"
  then show "ac_category a \<in> categories \<union> cats"
    using category recognizer.category [OF assms]
    by (fastforce simp: or_else_def io_simps split: prod.splits sum.splits option.splits)
next
  fix md s r md' t
  assume run: "or_else recognize q md s = (Inr (r, md'), t)"
  then obtain r' m u where first: "recognize md s = (Inr (r', m), u)"
    and rest: "(r' = r \<and> m = md') \<or> q m u = (Inr (r, md'), t)"
    by (auto simp: or_else_def io_simps split: prod.splits sum.splits option.splits)
  from rest show "extends_transfers md md'"
    using keeps [OF first] recognizer.keeps [OF assms] extends_transfers_trans by blast
qed

lemma first_recognized_Cons:
  assumes "recognizer (first_recognized rs) cats"
  shows "recognizer (first_recognized (recognize # rs)) (categories \<union> cats)"
proof -
  have "first_recognized (recognize # rs) = or_else recognize (first_recognized rs)"
    by (rule ext) simp
  then show ?thesis using or_else_recognizer [OF assms] by simp
qed

end

text \<open>A recognizer that takes every transaction with transfers: those behind it never see one.\<close>

locale transfer_recognizer = recognizer +
  assumes takes: "md_transfers md \<noteq> None \<Longrightarrow> \<exists>a. recognize md s = (Inr (Some a, md), s)"
begin

lemma takes_all:
  assumes "md_transfers md \<noteq> None"
  obtains a where "first_recognized (recognize # rs) md s = (Inr (Some a, md), s)"
    and "ac_category a \<in> categories"
proof -
  obtain a where a: "recognize md s = (Inr (Some a, md), s)" using takes [OF assms] by blast
  show ?thesis
    by (rule that [of a]) (use a category [OF a] in \<open>simp_all add: or_else_def io_simps\<close>)
qed

end

lemma recognizer_Nil: "recognizer (first_recognized []) {}"
  by unfold_locales (auto simp: io_simps)

lemma pure_recognizer_law:
  "(\<And>md a. f md = Some a \<Longrightarrow> ac_category a \<in> cats) \<Longrightarrow> recognizer (pure_recognizer f) cats"
  by unfold_locales (auto simp: pure_recognizer_def io_simps)

lemma multi_transfer_action_category:
  "getMultiTransferAction env md c name d = Some a \<Longrightarrow> ac_category a = c"
  "getMultiTransferActionWithTicker env md c name d = Some a \<Longrightarrow> ac_category a = c"
  by (auto simp: getMultiTransferAction_def getMultiTransferActionWithTicker_def bind_eq_Some_conv Let_def)

subsection \<open>The recognizers of the code\<close>

lemma freeze_law: "recognizer (recognizeFreeze env) {AC_esdtNft}"
  by unfold_locales
     (auto simp: recognizeFreeze_def io_simps Let_def split: if_splits prod.splits sum.splits option.splits)

lemma burn_law: "recognizer (recognizeBurn env) {AC_esdtNft}"
  by unfold_locales
     (auto simp: recognizeBurn_def io_simps Let_def split: if_splits prod.splits sum.splits option.splits)

lemma transfer_law: "recognizer (pure_recognizer (recognizeTransfer env)) {AC_esdtNft}"
  by (rule pure_recognizer_law) (simp add: recognizeTransfer_def multi_transfer_action_category)

lemma esdt_law: "recognizer (esdt_recognize env) {AC_esdtNft}"
  using recognizer.or_else_recognizer [OF transfer_law recognizer.or_else_recognizer [OF freeze_law burn_law]]
  by (simp add: esdt_recognize_def)

interpretation esdt: transfer_recognizer "esdt_recognize env" "{AC_esdtNft}" for env :: "'s recognizer_env"
proof -
  show "transfer_recognizer (esdt_recognize env) {AC_esdtNft}"
    by (intro transfer_recognizer.intro esdt_law transfer_recognizer_axioms.intro)
       (auto simp: esdt_recognize_def or_else_def pure_recognizer_def recognizeTransfer_def
          getMultiTransferAction_def io_simps)
qed

interpretation sc: recognizer "sc_recognize env" "{AC_scCall}" for env :: "'s recognizer_env"
  unfolding sc_recognize_def
  by (rule pure_recognizer_law)
     (auto simp: getSCDeployAction_def getSCCallAction_def split: if_splits)

interpretation stake: recognizer "stake_recognize env" "{AC_stake}" for env :: "'s recognizer_env"
  by unfold_locales
     (auto simp: stake_recognize_def getDelegateAction_def getUnDelegateAction_def getStakeAction_def
        io_simps Let_def res_bind_Inr split: if_splits prod.splits sum.splits option.splits)

interpretation metabonding: recognizer "metabonding_recognize env" "{AC_mex}" for env :: "'s recognizer_env"
  by unfold_locales
     (auto simp: metabonding_recognize_def getClaimRewardsAction_def io_simps res_bind_Inr
        split: if_splits prod.splits sum.splits)

lemma multi_swap_loop_keeps:
  "multi_swap_loop env is swaps md s = (Inr (r, md'), t) \<Longrightarrow> extends_transfers md md'"
proof (induction "is" arbitrary: swaps md s)
  case Nil
  then show ?case by (simp add: io_simps)
next
  case (Cons i "is")
  then consider "md' = md"
    | x swaps' u where "multi_swap_loop env is swaps' (push_transfer x md) u = (Inr (r, md'), t)"
    by (auto simp: io_simps split: prod.splits sum.splits option.splits)
  then show ?case
  proof cases
    case 1
    then show ?thesis by simp
  next
    case 2
    from Cons.IH [OF this] show ?thesis by (rule extends_transfers_trans [OF extends_push])
  qed
qed

lemma swap_law: "recognizer (getSwapAction env) {AC_mex}"
  by unfold_locales
     (auto simp: getSwapAction_def io_simps Let_def dest!: multi_transfer_action_category
        split: prod.splits sum.splits option.splits)

lemma multi_swap_law: "recognizer (getMultiSwapAction env) {AC_mex}"
  by unfold_locales
     (auto simp: getMultiSwapAction_def io_simps Let_def
        dest!: multi_transfer_action_category multi_swap_loop_keeps
        split: prod.splits sum.splits option.splits)

lemma pair_law: "recognizer (pair_recognize env settings) {AC_mex}"
  using recognizer.category [OF swap_law, of env] recognizer.keeps [OF swap_law, of env]
    recognizer.category [OF multi_swap_law, of env] recognizer.keeps [OF multi_swap_law, of env]
  by unfold_locales
     (auto simp: pair_recognize_def io_simps Let_def dest!: multi_transfer_action_category split: if_splits)

lemma wrap_law: "recognizer (wrap_recognize env settings) {AC_mex}"
  by unfold_locales
     (auto simp: wrap_recognize_def io_simps dest!: multi_transfer_action_category
        split: if_splits prod.splits sum.splits)

lemma distribution_law: "recognizer (pure_recognizer (distribution_recognize settings)) {AC_mex}"
  by (rule pure_recognizer_law) (auto simp: distribution_recognize_def split: if_splits)

lemma farm_law: "recognizer (pure_recognizer (farm_recognize ae settings)) {AC_mex}"
  by (rule pure_recognizer_law)
     (auto simp: farm_recognize_def bind_eq_Some_conv dest!: multi_transfer_action_category split: if_splits)

lemma locked_law: "recognizer (pure_recognizer (locked_recognize env settings)) {AC_mex}"
  by (rule pure_recognizer_law)
     (auto simp: locked_recognize_def bind_eq_Some_conv Let_def dest!: multi_transfer_action_category split: if_splits)

lemma mex_recognizers_law: "recognizer (mex_recognizers env settings) {AC_mex}"
  using recognizer.or_else_recognizer [OF distribution_law recognizer.or_else_recognizer [OF pair_law
      recognizer.or_else_recognizer [OF farm_law recognizer.or_else_recognizer [OF wrap_law locked_law]]]]
  by (simp add: mex_recognizers_def)

interpretation mex: recognizer "mex_recognize env" "{AC_mex}" for env :: "'s recognizer_env"
  using recognizer.category [OF mex_recognizers_law, of env] recognizer.keeps [OF mex_recognizers_law, of env]
  by unfold_locales
     (auto simp: mex_recognize_def io_simps split: if_splits prod.splits sum.splits option.splits)

lemma code_recognizers_law: "recognizer (first_recognized (code_recognizers env active)) {AC_mex, AC_esdtNft, AC_stake, AC_scCall}"
proof -
  have rest: "recognizer (first_recognized [metabonding_recognize env, esdt_recognize env, stake_recognize env, sc_recognize env])
      {AC_mex, AC_esdtNft, AC_stake, AC_scCall}"
    using metabonding.first_recognized_Cons [OF esdt.first_recognized_Cons [OF
        stake.first_recognized_Cons [OF sc.first_recognized_Cons [OF recognizer_Nil]]], of env]
    by (simp add: insert_commute)
  show ?thesis
    using mex.first_recognized_Cons [OF rest, of env] rest
    by (cases active) (simp_all add: code_recognizers_def insert_commute)
qed

section \<open>Properties\<close>

lemma or_else_run:
  assumes "or_else r q md s = (Inr (x, md'), t)"
  obtains (first) a where "r md s = (Inr (Some a, md'), t)" "x = Some a"
  | (second) m u where "r md s = (Inr (None, m), u)" "q m u = (Inr (x, md'), t)"
  using assms by (auto simp: or_else_def io_simps split: prod.splits sum.splits option.splits)

lemma recognized_from_esdt:
  assumes "md_transfers md \<noteq> None"
    and "first_recognized (esdt_recognize env # rs) md s = (Inr (r, md'), t)"
  shows "\<exists>a. r = Some a \<and> ac_category a = AC_esdtNft"
  using esdt.takes_all [OF assms(1), of env rs s] assms(2) by auto

lemma recognized_behind:
  assumes law: "recognizer q {AC_mex}" and md: "md_transfers md \<noteq> None"
    and run: "first_recognized (q # rs) md s = (Inr (r, md'), t)"
    and rest: "\<And>m u. md_transfers m \<noteq> None \<Longrightarrow> first_recognized rs m u = (Inr (r, md'), t) \<Longrightarrow>
        \<exists>a. r = Some a \<and> ac_category a \<in> {AC_mex, AC_esdtNft}"
  shows "\<exists>a. r = Some a \<and> ac_category a \<in> {AC_mex, AC_esdtNft}"
  using run unfolding first_recognized.simps
proof (cases rule: or_else_run)
  case (first a)
  then show ?thesis using recognizer.category [OF law] by blast
next
  case (second m u)
  then show ?thesis
    using rest recognizer.keeps [OF law second(1)] md extends_transfers_some by blast
qed

lemma transfers_recognized_lemma:
  assumes md: "md_transfers md \<noteq> None"
    and run: "first_recognized (code_recognizers env active) md s = (Inr (r, md'), t)"
  shows "\<exists>a. r = Some a \<and> ac_category a \<in> {AC_mex, AC_esdtNft}"
proof -
  let ?rest = "[metabonding_recognize env, esdt_recognize env, stake_recognize env, sc_recognize env]"
  have meta: "\<exists>a. r = Some a \<and> ac_category a \<in> {AC_mex, AC_esdtNft}"
    if "md_transfers m \<noteq> None" and "first_recognized ?rest m u = (Inr (r, md'), t)" for m u
  proof (rule recognized_behind [OF metabonding.recognizer_axioms that])
    fix m u
    assume "md_transfers m \<noteq> None"
      and "first_recognized [esdt_recognize env, stake_recognize env, sc_recognize env] m u = (Inr (r, md'), t)"
    from recognized_from_esdt [OF this] show "\<exists>a. r = Some a \<and> ac_category a \<in> {AC_mex, AC_esdtNft}" by auto
  qed
  show ?thesis
  proof (cases active)
    case True
    have "first_recognized (mex_recognize env # ?rest) md s = (Inr (r, md'), t)"
      using run True by (simp add: code_recognizers_def)
    from recognized_behind [OF mex.recognizer_axioms md this meta] show ?thesis .
  next
    case False
    then show ?thesis using meta [OF md, of s] run by (simp add: code_recognizers_def)
  qed
qed

text \<open>
  C15. A transaction that moves tokens is always recognized, as an operation of the exchange or as
  a transfer, and never as staking or as a call: whatever services answer, when the recognizers
  return, the action is there and has one of these categories.
\<close>

theorem transfers_always_recognized:
  assumes "md_transfers md \<noteq> None"
    and "first_recognized (code_recognizers env active) md s = (Inr (r, md'), t)"
  shows "\<exists>a. r = Some a \<and> ac_category a \<in> {AC_mex, AC_esdtNft}"
  using assms by (rule transfers_recognized_lemma)

text \<open>A concrete exchange: one pair, one farm, and a router; nothing is cached and nothing is staked.\<close>

definition sample_settings :: mex_settings where
  "sample_settings = \<lparr>mx_pairContracts = [''pair''], mx_farmContracts = [''farm''], mx_wrapContracts = [''wrap''],
     mx_routerFactoryContract = ''router'', mx_distributionContract = ''dist'', mx_lockedAssetContract = ''lock'',
     mx_lockedAssetIdentifier = None, mx_lockedAssetIdentifierV2 = None, mx_mexId = ''MEX-1'', mx_wegldId = ''WEGLD-1''\<rparr>"

definition sample_mex :: "mex_settings option \<Rightarrow> unit mex_env" where
  "sample_mex settings = \<lparr>me_consts = doc_consts, me_distinct = remdups, me_isExchangeEnabled = True,
     me_exchangeServiceUrl = Some ''url'',
     me_pairCountQuery = (\<lambda>w. (Inr None, w)), me_settingsQuery = (\<lambda>n w. (Inr None, w)),
     me_getOrSet = (\<lambda>key getter ttl loc w. (Inr settings, w)),
     me_setRemoteSettings = (\<lambda>k v ttl w. (Inr (), w)), me_setLocalSettings = (\<lambda>k v ttl w. (Inr (), w)),
     me_setRemoteContracts = (\<lambda>k v ttl w. (Inr (), w)), me_getLocalContracts = (\<lambda>k w. (Inr None, w)),
     me_setLocalContracts = (\<lambda>k v ttl w. (Inr (), w)),
     me_getWegldId = (\<lambda>w. (Inr (Some ''WEGLD-1''), w)), me_setWegldId = (\<lambda>i w. (Inr (), w))\<rparr>"

definition sample_recognizers :: "mex_settings option \<Rightarrow> unit recognizer_env" where
  "sample_recognizers settings = \<lparr>re_action = sample_action, re_mex = sample_mex settings, re_esdtContract = ''esdt'',
     re_metabondingContract = None, re_sumBigInt = sum_list,
     re_getLocalProviders = (\<lambda>k w. (Inr None, w)), re_setLocalProviders = (\<lambda>k v ttl w. (Inr (), w)),
     re_getAllProviders = (\<lambda>w. (Inr [], w)), re_getAllIdentities = (\<lambda>w. (Inr [], w))\<rparr>"

abbreviation sample_transfer :: transaction_metadata where
  "sample_transfer \<equiv> new_metadata\<lparr>md_receiver := ''bob'', md_transfers := Some []\<rparr>"

theorem transfers_always_recognized_witness:
  "\<exists>a. first_recognized (code_recognizers (sample_recognizers None) True) sample_transfer ()
      = (Inr (Some a, sample_transfer), ()) \<and> ac_category a \<in> {AC_mex, AC_esdtNft}"
proof -
  have "\<exists>a. first_recognized (code_recognizers (sample_recognizers None) True) sample_transfer ()
      = (Inr (Some a, sample_transfer), ())"
    by (simp add: code_recognizers_def mex_recognize_def getSettings_def sample_recognizers_def sample_mex_def
        metabonding_recognize_def esdt_recognize_def pure_recognizer_def recognizeTransfer_def
        getMultiTransferAction_def or_else_def io_simps)
  then obtain a where a: "first_recognized (code_recognizers (sample_recognizers None) True) sample_transfer ()
      = (Inr (Some a, sample_transfer), ())" by blast
  then show ?thesis
    using transfers_always_recognized [OF _ a] by simp
qed

lemma not_mex_receiver:
  assumes "md_receiver md \<notin> set (settings_contracts (Some settings))"
  shows "mex_recognizers env settings md s = (Inr (None, md), s)"
  using assms
  by (auto simp: settings_contracts_def mex_recognizers_def or_else_def pure_recognizer_def
      distribution_recognize_def pair_recognize_def farm_recognize_def wrap_recognize_def locked_recognize_def
      io_simps Let_def)

text \<open>
  The test that a transaction concerns the exchange, which is made against a cached set of
  contracts before the recognizers are asked, loses nothing: when the cached set is that of the
  settings, the result is the one the recognizers give without the test.
\<close>

theorem mex_test_loses_nothing:
  assumes "getSettings (re_mex env) s = (Inr (Some settings), u)"
    and "me_getLocalContracts (re_mex env) (mex_contracts_key (re_mex env)) u = (Inr (Some contracts), u)"
    and "set contracts = set (settings_contracts (Some settings))"
  shows "mex_recognize env md s = mex_recognizers env settings md u"
  using assms not_mex_receiver [of md settings env u]
  by (simp add: mex_recognize_def isMexInteraction_def getMexContracts_def io_simps)

definition cached_recognizers :: "unit recognizer_env" where
  "cached_recognizers = (sample_recognizers (Some sample_settings))\<lparr>re_mex :=
     (sample_mex (Some sample_settings))\<lparr>me_getLocalContracts :=
        (\<lambda>k w. (Inr (Some (settings_contracts (Some sample_settings))), w))\<rparr>\<rparr>"

theorem mex_test_loses_nothing_witness:
  "mex_recognize cached_recognizers sample_transfer () = (Inr (None, sample_transfer), ())"
proof -
  have "mex_recognize cached_recognizers sample_transfer () =
      mex_recognizers cached_recognizers sample_settings sample_transfer ()"
    by (rule mex_test_loses_nothing)
       (simp_all add: cached_recognizers_def sample_mex_def getSettings_def io_simps)
  also have "\<dots> = (Inr (None, sample_transfer), ())"
    by (rule not_mex_receiver) (simp add: settings_contracts_def sample_settings_def)
  finally show ?thesis .
qed

lemma transfer_details_reads:
  "mt_properties x \<noteq> None \<Longrightarrow> \<exists>d. getNftTransferDetails x = Some d
     \<and> Some (transfer_properties.truncate d) = mt_properties x \<and> js_BigInt (xd_value d) = Inr (mt_value x)"
  by (auto simp: getNftTransferDetails_def transfer_properties.extend_def transfer_properties.truncate_def
      simp: BigInt_int_str)

text \<open>
  The transfers of an action are those of the metadata: a transfer action lists, in order, each
  transfer whose token is known, with the properties of the token and with its value as text that
  reads back as the value.
\<close>

theorem transfer_action_lists:
  assumes "recognizeTransfer env md = Some a" and "md_transfers md = Some ts"
  shows "\<exists>ds f args. ac_arguments a = Some (TransferArguments ds (md_receiver md) f args)
    \<and> list_all2 (\<lambda>x d. Some (transfer_properties.truncate d) = mt_properties x
         \<and> js_BigInt (xd_value d) = Inr (mt_value x))
       (filter (\<lambda>x. mt_properties x \<noteq> None) ts) ds"
proof -
  have "list_all2 (\<lambda>x d. Some (transfer_properties.truncate d) = mt_properties x
         \<and> js_BigInt (xd_value d) = Inr (mt_value x))
       (filter (\<lambda>x. mt_properties x \<noteq> None) ts) (List.map_filter getNftTransferDetails ts)"
  proof (induction ts)
    case Nil
    then show ?case by (simp add: map_filter_simps)
  next
    case (Cons x ts)
    then show ?case
      using transfer_details_reads [of x]
      by (cases "mt_properties x") (auto simp: map_filter_simps getNftTransferDetails_def)
  qed
  then show ?thesis
    using assms by (auto simp: recognizeTransfer_def getMultiTransferAction_def)
qed

definition sample_token :: transfer_properties where
  "sample_token = \<lparr>tp_type = FungibleESDT, tp_token = Some ''TKN-1'', tp_collection = None, tp_identifier = None,
     tp_ticker = ''TKN'', tp_decimals = Some 18, tp_name = ''TKN'', tp_svgUrl = [], tp_valueUsd = None,
     tp_valueEgld = None\<rparr>"

theorem transfer_action_lists_witness:
  "\<exists>a ds f args. recognizeTransfer (sample_recognizers None)
      (sample_transfer\<lparr>md_transfers := Some [\<lparr>mt_properties = None, mt_value = 1\<rparr>,
         \<lparr>mt_properties = Some sample_token, mt_value = 7\<rparr>]\<rparr>) = Some a
    \<and> ac_arguments a = Some (TransferArguments ds ''bob'' f args)
    \<and> map (js_BigInt \<circ> xd_value) ds = [Inr 7]"
proof -
  let ?md = "sample_transfer\<lparr>md_transfers := Some [\<lparr>mt_properties = None, mt_value = 1\<rparr>,
         \<lparr>mt_properties = Some sample_token, mt_value = 7\<rparr>]\<rparr>"
  obtain a where a: "recognizeTransfer (sample_recognizers None) ?md = Some a"
    by (auto simp: recognizeTransfer_def getMultiTransferAction_def)
  have "md_transfers ?md = Some [\<lparr>mt_properties = None, mt_value = 1\<rparr>,
         \<lparr>mt_properties = Some sample_token, mt_value = 7\<rparr>]" by simp
  from transfer_action_lists [OF a this] obtain ds f args where
    "ac_arguments a = Some (TransferArguments ds ''bob'' f args)" "map (js_BigInt \<circ> xd_value) ds = [Inr 7]"
    by (auto simp: list_all2_Cons1)
  with a show ?thesis by (intro exI conjI)
qed

text \<open>
  A multi pair swap that cannot be described leaves traces: when the token of a later swap is
  unknown, no swap is recognized, but the tokens of the earlier swaps have been added to the
  transfers of the transaction, and the transfer action that is shown instead lists them as if
  they had been sent.
\<close>

theorem abandoned_swap_leaks:
  assumes tr: "md_transfers md = Some [x]" and x: "mt_properties x = Some p1"
    and args: "md_functionArgs md = [a0, a1, a2, a3, b0, b1, b2, b3]"
    and id2: "ae_hexToString (re_action env) (Some a2) = Inr id2" "ae_hexToBigInt (re_action env) (Some a3) = Inr v2"
    and known: "token_by_identifier env id2 s = (Inr (Some p2), u)"
    and id3: "ae_hexToString (re_action env) (Some b2) = Inr id3" "ae_hexToBigInt (re_action env) (Some b3) = Inr v3"
    and unknown: "token_by_identifier env id3 u = (Inr None, t)"
  shows "\<exists>md' a d. getMultiSwapAction env md s = (Inr (None, md'), t)
    \<and> recognizeTransfer env md' = Some a
    \<and> (\<exists>f r. ac_arguments a = Some (TransferArguments
         [the (getNftTransferDetails x), d] (md_receiver md) f r))
    \<and> transfer_properties.truncate d = p2 \<and> xd_value d = int_str v2"
proof -
  let ?md = "push_transfer \<lparr>mt_properties = Some p2, mt_value = v2\<rparr> md"
  let ?d = "transfer_properties.extend p2 \<lparr>xd_value = int_str v2\<rparr>"
  have swap: "getMultiSwapAction env md s = (Inr (None, ?md), t)"
    using tr x args id2 known id3 unknown
    by (simp add: getMultiSwapAction_def getTransfers_def io_simps push_transfer_def upt_conv_Cons Let_def)
  have "recognizeTransfer env ?md = Some \<lparr>ac_category = AC_esdtNft, ac_name = ''transfer'',
      ac_description = ''Transfer'', ac_arguments = Some (TransferArguments [the (getNftTransferDetails x), ?d]
        (md_receiver md)
        (if truthy (md_functionName md) \<and> ae_isFunctionName (re_action env) (the (md_functionName md))
           then md_functionName md else None)
        (if \<forall>x \<in> set (md_functionArgs md). ae_isHex (re_action env) x then Some (md_functionArgs md) else None))\<rparr>"
    using tr x by (simp add: recognizeTransfer_def getMultiTransferAction_def push_transfer_def map_filter_simps
        getNftTransferDetails_def)
  moreover have "transfer_properties.truncate ?d = p2" "xd_value ?d = int_str v2"
    by (simp_all add: transfer_properties.extend_def transfer_properties.truncate_def)
  ultimately show ?thesis using swap by auto
qed

theorem abandoned_swap_leaks_witness:
  "\<exists>md' a. getMultiSwapAction (sample_recognizers None)
      (sample_transfer\<lparr>md_transfers := Some [\<lparr>mt_properties = Some sample_token, mt_value = 1\<rparr>],
         md_functionArgs := [[], [], ''.T.K.N.-.1'', ''5'', [], [], [], ''6'']\<rparr>) () = (Inr (None, md'), ())
    \<and> recognizeTransfer (sample_recognizers None) md' = Some a"
proof -
  let ?env = "sample_recognizers None"
  let ?md = "sample_transfer\<lparr>md_transfers := Some [\<lparr>mt_properties = Some sample_token, mt_value = 1\<rparr>],
         md_functionArgs := [[], [], ''.T.K.N.-.1'', ''5'', [], [], [], ''6'']\<rparr>"
  note token = sample_recognizers_def sample_action_def sample_tokens_def token_by_identifier_def
    getTokenTransferProperties_def getTokenTransferPropertiesRaw_def apply_value_def io_simps Let_def
  obtain p2 where known: "token_by_identifier ?env ''TKN-1'' () = (Inr (Some p2), ())"
    by (simp add: token)
  have unknown: "token_by_identifier ?env [] () = (Inr None, ())" by (simp add: token)
  have "\<exists>md' a d. getMultiSwapAction ?env ?md () = (Inr (None, md'), ())
    \<and> recognizeTransfer ?env md' = Some a
    \<and> (\<exists>f r. ac_arguments a = Some (TransferArguments
         [the (getNftTransferDetails \<lparr>mt_properties = Some sample_token, mt_value = 1\<rparr>), d] (md_receiver ?md) f r))
    \<and> transfer_properties.truncate d = p2 \<and> xd_value d = int_str 5"
    by (rule abandoned_swap_leaks [OF _ _ _ _ _ known _ _ unknown])
       (simp add: sample_recognizers_def sample_action_def dec_val_def digit_val_def)+
  then show ?thesis by blast
qed

text \<open>
  Whether the exchange takes part is decided by the configuration alone: with a service address
  the recognizer of the exchange counts as active even when the settings could not be read,
  because their absence is \<open>null\<close> and the test is against \<open>undefined\<close>.
\<close>

theorem mex_active_without_settings:
  assumes "truthy (me_exchangeServiceUrl env)" and "getSettings env s = (Inr settings, t)"
  shows "mex_isActive env s = (Inr True, t)"
  using assms by (simp add: mex_isActive_def io_simps)

theorem mex_active_without_settings_witness:
  "getSettings (sample_mex None) () = (Inr None, ()) \<and> mex_isActive (sample_mex None) () = (Inr True, ())"
proof -
  have none: "getSettings (sample_mex None) () = (Inr None, ())"
    by (simp add: getSettings_def sample_mex_def io_simps)
  show ?thesis
    using mex_active_without_settings [OF _ none] none by (simp add: sample_mex_def)
qed

end
