(* ===== verification/CronProcessors.thy ===== *)
theory CronProcessors imports BatchProcessor TokenTransfer begin

text \<open>
  The crons that follow the chain (\<open>src/crons/transaction.processor\<close>): the processor that deletes
  cached data which new transactions have made stale (\<open>transaction.processor.service.ts\<close>), the
  extractors it uses (\<open>extractor\<close>), and the processor that tracks which transactions still wait
  for results (\<open>transaction.completed.service.ts\<close>).
\<close>

section \<open>Transactions of a shard\<close>

text \<open>
  A transaction as the SDK hands it over: \<open>sx_function\<close> and \<open>sx_args\<close> are what its methods
  \<open>getDataFunctionName\<close> and \<open>getDataArgs\<close> return.
\<close>

record shard_transaction =
  sx_hash :: string
  sx_sender :: string
  sx_receiver :: string
  sx_data :: "string option"
  sx_originalTransactionHash :: "string option"
  sx_function :: "string option"
  sx_args :: "string list option"

record detailed_event =
  de_identifier :: string
  de_topics :: "string list"

text \<open>A value of the cache: the nonce of a shard, or the hash of a pending transaction.\<close>

datatype cron_value = CNonce int | CHash string

datatype log_topic = LT_CrossShardSmartContractResult | LT_Debug | LT_Error | LT_Other string

record 's cron_env =
  ce_consts :: time_consts
  ce_esdtContract :: string
  ce_hexToString :: "string \<Rightarrow> string res"
  ce_base64Decode :: "string \<Rightarrow> string"
  ce_isSmartContractAddress :: "string \<Rightarrow> bool"
  ce_distinct :: "string list \<Rightarrow> string list"
  ce_selectMany :: "(shard_transaction \<Rightarrow> string list) \<Rightarrow> shard_transaction list \<Rightarrow> string list"
  ce_in :: "string \<Rightarrow> string list \<Rightarrow> bool"
  ce_deleteOwnersForAddressInCache :: "string \<Rightarrow> ('s, string list) io"
  ce_deleteInCache :: "string \<Rightarrow> ('s, string list) io"
  ce_batchDelCache :: "string list \<Rightarrow> ('s, unit) io"
  ce_batchSet :: "string list \<Rightarrow> cron_value list \<Rightarrow> int list \<Rightarrow> ('s, unit) io"
  ce_batchGetManyRemote :: "string list \<Rightarrow> ('s, cron_value option list) io"
  ce_get :: "string \<Rightarrow> ('s, cron_value option) io"
  ce_set :: "string \<Rightarrow> cron_value \<Rightarrow> int \<Rightarrow> ('s, unit) io"
  ce_emitDeleteCacheKeys :: "string list \<Rightarrow> ('s, unit) io"
  ce_emitCompleted :: "shard_transaction list \<Rightarrow> ('s, unit) io"
  ce_emitPending :: "shard_transaction list \<Rightarrow> ('s, unit) io"
  ce_emitNonce :: "int \<Rightarrow> int \<Rightarrow> ('s, unit) io"
  ce_logLevel :: log_topic

section \<open>Extractors\<close>

definition canDetectNftCreateTransactionFromLogs :: "'s cron_env \<Rightarrow> shard_transaction \<Rightarrow> bool" where
  "canDetectNftCreateTransactionFromLogs env tx \<longleftrightarrow>
     sx_sender tx \<noteq> [] \<and> sx_receiver tx \<noteq> [] \<and> ce_isSmartContractAddress env (sx_receiver tx)
     \<and> sx_function tx = Some ''buy''"

fun nft_create_from_events :: "'s cron_env \<Rightarrow> detailed_event list \<Rightarrow> string option" where
  "nft_create_from_events env [] = None"
| "nft_create_from_events env (event # events) =
     (if de_identifier event \<noteq> ''ESDTNFTCreate'' then nft_create_from_events env events
      else if \<not> truthy (nth_opt (de_topics event) 0) then nft_create_from_events env events
      else Some (ce_base64Decode env (the (nth_opt (de_topics event) 0))))"

text \<open>
  \<open>NftCreateTransactionExtractor.extract\<close>. The details, if there are any, hold the events of the
  logs, if there are any.
\<close>

definition extract_nft_create ::
  "'s cron_env \<Rightarrow> shard_transaction \<Rightarrow> detailed_event list option option \<Rightarrow> string option" where
  "extract_nft_create env tx details =
     (case details of
        Some None \<Rightarrow> None
      | _ \<Rightarrow>
          (case (case details of Some (Some events) \<Rightarrow> nft_create_from_events env events | _ \<Rightarrow> None) of
             Some collection \<Rightarrow> Some collection
           | None \<Rightarrow>
               if sx_sender tx \<noteq> sx_receiver tx then None
               else if sx_function tx \<noteq> Some ''ESDTNFTCreate'' then None
               else case sx_args tx of
                 None \<Rightarrow> None
               | Some args \<Rightarrow> if length args < 6 then None else res_try (ce_hexToString env (args ! 0))))"

definition extract_nft_update_attributes :: "'s cron_env \<Rightarrow> shard_transaction \<Rightarrow> string option" where
  "extract_nft_update_attributes env tx =
     (if sx_function tx \<noteq> Some ''ESDTNFTUpdateAttributes'' then None
      else case sx_args tx of
        None \<Rightarrow> None
      | Some args \<Rightarrow>
          if length args < 3 then None
          else map_option (\<lambda>collection. collection @ ''-'' @ args ! 1) (res_try (ce_hexToString env (args ! 0))))"

definition extract_sft_change :: "'s cron_env \<Rightarrow> shard_transaction \<Rightarrow> string option" where
  "extract_sft_change env tx =
     (if sx_function tx \<noteq> Some ''changeSFTToMetaESDT'' then None
      else case sx_args tx of
        None \<Rightarrow> None
      | Some args \<Rightarrow> if args = [] then None else res_try (ce_hexToString env (args ! 0)))"

definition extract_transfer_ownership :: "'s cron_env \<Rightarrow> shard_transaction \<Rightarrow> string option" where
  "extract_transfer_ownership env tx =
     (if sx_function tx \<noteq> Some ''transferOwnership'' then None
      else case sx_args tx of
        None \<Rightarrow> None
      | Some args \<Rightarrow>
          if length args < 2 then None
          else Option.bind (res_try (ce_hexToString env (args ! 0))) (\<lambda>collection.
            Option.bind (res_try (ce_hexToString env (args ! 1))) (\<lambda>address. Some collection)))"

section \<open>Deleting what has become stale\<close>

definition tryInvalidateTokenProperties :: "'s cron_env \<Rightarrow> shard_transaction \<Rightarrow> ('s, string list) io" where
  "tryInvalidateTokenProperties env tx =
     (if sx_receiver tx \<noteq> ce_esdtContract env then io_return []
      else if sx_function tx = Some ''controlChanges'' then
        (case sx_args tx of
           Some (arg # _) \<Rightarrow>
             io_bind (io_lift (ce_hexToString env arg)) (\<lambda>tokenIdentifier.
               ce_deleteInCache env (''tokenProperties:'' @ tokenIdentifier))
         | _ \<Rightarrow> io_return [])
      else io_return [])"

definition tryInvalidateOwner :: "'s cron_env \<Rightarrow> shard_transaction \<Rightarrow> ('s, string list) io" where
  "tryInvalidateOwner env tx =
     (if sx_function tx \<noteq> Some ''mergeValidatorToDelegationWithWhitelist''
         \<and> sx_function tx \<noteq> Some ''makeNewContractFromValidatorData''
      then io_return []
      else ce_deleteOwnersForAddressInCache env (sx_sender tx))"

definition tryInvalidateCollectionProperties :: "'s cron_env \<Rightarrow> shard_transaction \<Rightarrow> ('s, string list) io" where
  "tryInvalidateCollectionProperties env tx =
     (if \<not> truthy (sx_data tx) then io_return []
      else
        (let collectionIdentifier = extract_sft_change env tx in
         if \<not> truthy collectionIdentifier then io_return []
         else
           (case extract_transfer_ownership env tx of
              None \<Rightarrow> io_return []
            | Some metadata \<Rightarrow>
                (let key = ci_key (CacheInfo_EsdtProperties (ce_consts env) (the collectionIdentifier))
                 in io_then (ce_deleteInCache env key) (io_return [key])))))"

definition tryInvalidateStakeTopup :: "'s cron_env \<Rightarrow> shard_transaction \<Rightarrow> ('s, string list) io" where
  "tryInvalidateStakeTopup env tx =
     (if \<not> truthy (sx_data tx) then io_return []
      else if \<not> truthy (sx_function tx) then io_return []
      else if \<not> ce_in env (the (sx_function tx)) [''delegate'', ''unDelegate'', ''reDelegateRewards'']
      then io_return []
      else
        (let key = ci_key (CacheInfo_StakeTopup (ce_consts env) (sx_receiver tx))
         in io_then (ce_deleteInCache env key) (io_return [key])))"

definition invalidate_transaction :: "'s cron_env \<Rightarrow> shard_transaction \<Rightarrow> string list \<Rightarrow> ('s, string list) io" where
  "invalidate_transaction env tx allInvalidatedKeys =
     io_bind (tryInvalidateTokenProperties env tx) (\<lambda>tokenProperties.
     io_bind (tryInvalidateOwner env tx) (\<lambda>ownerKeys.
     io_bind (tryInvalidateCollectionProperties env tx) (\<lambda>collectionKeys.
     io_bind (tryInvalidateStakeTopup env tx) (\<lambda>stakeKeys.
       io_return (allInvalidatedKeys @ tokenProperties @ ownerKeys @ collectionKeys @ stakeKeys)))))"

abbreviation tx_count_key :: "'s cron_env \<Rightarrow> string \<Rightarrow> string" where
  "tx_count_key env address \<equiv> ci_key (CacheInfo_TxCount (ce_consts env) address)"

definition processor_onTransactionsReceived :: "'s cron_env \<Rightarrow> shard_transaction list \<Rightarrow> ('s, unit) io" where
  "processor_onTransactionsReceived env transactions =
     io_bind (io_fold (invalidate_transaction env) transactions []) (\<lambda>allInvalidatedKeys.
     let uniqueInvalidatedKeys = ce_distinct env allInvalidatedKeys in
     io_then (if uniqueInvalidatedKeys \<noteq> [] then ce_emitDeleteCacheKeys env uniqueInvalidatedKeys else io_return ())
       (let distinctSendersAndReceivers =
              ce_distinct env (ce_selectMany env (\<lambda>tx. [sx_sender tx, sx_receiver tx]) transactions)
        in ce_batchDelCache env (map (tx_count_key env) distinctSendersAndReceivers)))"

abbreviation processor_nonce_key :: "'s cron_env \<Rightarrow> int \<Rightarrow> string" where
  "processor_nonce_key env shardId \<equiv> ci_key (CacheInfo_TransactionProcessorShardNonce (ce_consts env) shardId)"

definition processor_getLastProcessedNonce :: "'s cron_env \<Rightarrow> int \<Rightarrow> ('s, cron_value option) io" where
  "processor_getLastProcessedNonce env shardId = ce_get env (processor_nonce_key env shardId)"

definition processor_setLastProcessedNonce :: "'s cron_env \<Rightarrow> int \<Rightarrow> int \<Rightarrow> ('s, unit) io" where
  "processor_setLastProcessedNonce env shardId nonce =
     io_then (ce_emitNonce env shardId nonce)
       (ce_set env (processor_nonce_key env shardId) (CNonce nonce)
          (ci_ttl (CacheInfo_TransactionProcessorShardNonce (ce_consts env) shardId)))"

section \<open>Transactions that wait for results\<close>

abbreviation pending_results_info :: "'s cron_env \<Rightarrow> string \<Rightarrow> cache_info" where
  "pending_results_info env hash \<equiv> CacheInfo_TransactionPendingResults (ce_consts env) hash"

fun hash_of_value :: "cron_value \<Rightarrow> string" where
  "hash_of_value (CHash h) = h"
| "hash_of_value (CNonce n) = int_str n"

definition completed_onTransactionsReceived :: "'s cron_env \<Rightarrow> shard_transaction list \<Rightarrow> ('s, unit) io" where
  "completed_onTransactionsReceived env transactions =
     (let completed = filter (\<lambda>tx. \<not> truthy (sx_originalTransactionHash tx)) transactions;
          cacheKeys = map (\<lambda>tx. ci_key (pending_results_info env (sx_hash tx))) completed
      in io_bind (ce_batchGetManyRemote env cacheKeys) (\<lambda>hashes.
         let validHashes = List.map_filter id hashes in
         io_then (if validHashes \<noteq> []
                  then ce_batchDelCache env (map (\<lambda>h. ci_key (pending_results_info env (hash_of_value h))) validHashes)
                  else io_return ())
           (ce_emitCompleted env completed)))"

definition completed_onTransactionsPending :: "'s cron_env \<Rightarrow> shard_transaction list \<Rightarrow> ('s, unit) io" where
  "completed_onTransactionsPending env transactions =
     io_then (ce_batchSet env
                (map (\<lambda>tx. ci_key (pending_results_info env (sx_hash tx))) transactions)
                (map (\<lambda>tx. CHash (sx_hash tx)) transactions)
                (map (\<lambda>tx. ci_ttl (pending_results_info env (sx_hash tx))) transactions))
       (ce_emitPending env transactions)"

abbreviation completed_nonce_key :: "'s cron_env \<Rightarrow> int \<Rightarrow> string" where
  "completed_nonce_key env shardId \<equiv> ci_key (CacheInfo_TransactionCompletedShardNonce (ce_consts env) shardId)"

definition completed_getLastProcessedNonce :: "'s cron_env \<Rightarrow> int \<Rightarrow> ('s, cron_value option) io" where
  "completed_getLastProcessedNonce env shardId = ce_get env (completed_nonce_key env shardId)"

definition completed_setLastProcessedNonce :: "'s cron_env \<Rightarrow> int \<Rightarrow> int \<Rightarrow> ('s, unit) io" where
  "completed_setLastProcessedNonce env shardId nonce =
     io_then (ce_emitNonce env shardId nonce)
       (ce_set env (completed_nonce_key env shardId) (CNonce nonce)
          (ci_ttl (CacheInfo_TransactionCompletedShardNonce (ce_consts env) shardId)))"

text \<open>\<open>onMessageLogged\<close>: whether a message is written to the log.\<close>

definition completed_logs :: "'s cron_env \<Rightarrow> log_topic \<Rightarrow> bool" where
  "completed_logs env topic \<longleftrightarrow>
     \<not> (topic = LT_CrossShardSmartContractResult \<and> ce_logLevel env = LT_Error)
     \<and> \<not> (topic = LT_Debug \<and> ce_logLevel env \<in> {LT_Error, LT_CrossShardSmartContractResult})"

text \<open>
  \<open>handleNewTransactions\<close> of the completed service: the flag is tested on entry and cleared on
  exit, and nothing sets it. Unlike the batch cron it lets the exceptions of a run through.
\<close>

definition completed_cron_enter :: "bool \<Rightarrow> bool \<times> bool" where
  "completed_cron_enter isProcessing = (if isProcessing then (False, isProcessing) else (True, isProcessing))"

definition completed_cron_exit :: "bool \<Rightarrow> bool" where
  "completed_cron_exit isProcessing = False"

definition completed_handleNewTransactions :: "('s, unit) io \<Rightarrow> (bool \<times> 's, unit) io" where
  "completed_handleNewTransactions start = (\<lambda>(flag, s).
     case completed_cron_enter flag of
       (False, flag) \<Rightarrow> (Inr (), (flag, s))
     | (True, flag) \<Rightarrow> (case start s of (r, t) \<Rightarrow> (r, (completed_cron_exit flag, t))))"

section \<open>The interface of the extractors\<close>

text \<open>
  \<open>TransactionExtractorInterface\<close>: an extractor recognizes the transactions of one function. Two
  extractors of different functions never both recognize a transaction.
\<close>

locale function_extractor =
  fixes extractor :: "shard_transaction \<Rightarrow> string option" and fn :: string
  assumes detects: "extractor tx = Some x \<Longrightarrow> sx_function tx = Some fn"
begin

lemma excludes:
  assumes "function_extractor other gn" and "fn \<noteq> gn"
  shows "extractor tx = None \<or> other tx = None"
proof (rule ccontr)
  assume "\<not> ?thesis"
  then obtain x y where "extractor tx = Some x" "other tx = Some y" by auto
  with detects function_extractor.detects [OF assms(1)] assms(2) show False by fastforce
qed

end

interpretation sft_change: function_extractor "extract_sft_change env" "''changeSFTToMetaESDT''" for env :: "'s cron_env"
  by unfold_locales (auto simp: extract_sft_change_def split: if_splits)

interpretation transfer_ownership: function_extractor "extract_transfer_ownership env" "''transferOwnership''"
  for env :: "'s cron_env"
  by unfold_locales (auto simp: extract_transfer_ownership_def split: if_splits)

interpretation update_attributes: function_extractor "extract_nft_update_attributes env" "''ESDTNFTUpdateAttributes''"
  for env :: "'s cron_env"
  by unfold_locales (auto simp: extract_nft_update_attributes_def split: if_splits)

interpretation nft_create: function_extractor "\<lambda>tx. extract_nft_create env tx None" "''ESDTNFTCreate''"
  for env :: "'s cron_env"
  by unfold_locales (auto simp: extract_nft_create_def split: if_splits option.splits)

section \<open>A cache that works\<close>

definition cron_cache :: "'s cron_env \<Rightarrow> ('s \<Rightarrow> string \<Rightarrow> cron_value option) \<Rightarrow> bool" where
  "cron_cache env view \<longleftrightarrow>
     (\<forall>k s. ce_get env k s = (Inr (view s k), s)) \<and>
     (\<forall>ks s. ce_batchGetManyRemote env ks s = (Inr (map (view s) ks), s)) \<and>
     (\<forall>k v ttl s. \<exists>t. ce_set env k v ttl s = (Inr (), t) \<and> view t = (view s)(k := Some v)) \<and>
     (\<forall>k s. \<exists>ks t. ce_deleteInCache env k s = (Inr ks, t) \<and> view t = (view s)(k := None)) \<and>
     (\<forall>ks s. \<exists>t. ce_batchDelCache env ks s = (Inr (), t)
         \<and> view t = (\<lambda>k. if k \<in> set ks then None else view s k)) \<and>
     (\<forall>a s. \<exists>ks t. ce_deleteOwnersForAddressInCache env a s = (Inr ks, t)) \<and>
     (\<forall>ks s. \<exists>t. ce_emitDeleteCacheKeys env ks s = (Inr (), t) \<and> view t = view s) \<and>
     (\<forall>txs s. \<exists>t. ce_emitCompleted env txs s = (Inr (), t) \<and> view t = view s) \<and>
     (\<forall>a n s. \<exists>t. ce_emitNonce env a n s = (Inr (), t) \<and> view t = view s)"

text \<open>The array methods of the SDK as documented, and hexadecimal decoding that does not fail.\<close>

definition arrays_ok :: "'s cron_env \<Rightarrow> bool" where
  "arrays_ok env \<longleftrightarrow>
     (\<forall>xs. set (ce_distinct env xs) = set xs) \<and>
     (\<forall>f xs. set (ce_selectMany env f xs) = (\<Union>x \<in> set xs. set (f x))) \<and>
     (\<forall>x. \<exists>y. ce_hexToString env x = Inr y)"

lemma cron_delete:
  assumes "cron_cache env view"
  obtains ks t where "ce_deleteInCache env k s = (Inr ks, t)" "view t = (view s)(k := None)"
  using assms unfolding cron_cache_def by meson

lemma cron_batchDel:
  assumes "cron_cache env view"
  obtains t where "ce_batchDelCache env ks s = (Inr (), t)" "view t = (\<lambda>k. if k \<in> set ks then None else view s k)"
  using assms unfolding cron_cache_def by meson

lemma cron_emits:
  assumes "cron_cache env view"
  obtains t where "ce_emitDeleteCacheKeys env ks s = (Inr (), t)" "view t = view s"
  using assms unfolding cron_cache_def by meson

lemma no_collection_invalidation: "tryInvalidateCollectionProperties env tx = io_return []"
proof -
  have "extract_sft_change env tx = None \<or> extract_transfer_ownership env tx = None"
    by (rule sft_change.excludes [OF transfer_ownership.function_extractor_axioms]) simp
  then show ?thesis by (auto simp: tryInvalidateCollectionProperties_def Let_def)
qed

lemma invalidate_total:
  assumes cache: "cron_cache env view" and arr: "arrays_ok env"
  shows "\<exists>ks t. invalidate_transaction env tx acc s = (Inr ks, t)"
proof -
  have del: "\<exists>ks t. ce_deleteInCache env k s = (Inr ks, t)" for k s
    using cache unfolding cron_cache_def by meson
  have tok: "\<exists>ks t. tryInvalidateTokenProperties env tx s = (Inr ks, t)" for s
  proof (cases "sx_args tx")
    case None
    then show ?thesis by (auto simp: tryInvalidateTokenProperties_def io_simps)
  next
    case (Some args)
    show ?thesis
    proof (cases args)
      case Nil
      then show ?thesis using Some by (auto simp: tryInvalidateTokenProperties_def io_simps)
    next
      case (Cons a as)
      obtain y where "ce_hexToString env a = Inr y" using arr unfolding arrays_ok_def by blast
      then show ?thesis
        using Some Cons del by (auto simp: tryInvalidateTokenProperties_def io_simps)
    qed
  qed
  have own: "\<exists>ks t. tryInvalidateOwner env tx s = (Inr ks, t)" for s
    using cache unfolding cron_cache_def by (auto simp: tryInvalidateOwner_def io_simps)
  have stake: "\<exists>ks t. tryInvalidateStakeTopup env tx s = (Inr ks, t)" for s
    using del [of "ci_key (CacheInfo_StakeTopup (ce_consts env) (sx_receiver tx))" s]
    by (auto simp: tryInvalidateStakeTopup_def io_simps Let_def)
  obtain k1 s1 where 1: "tryInvalidateTokenProperties env tx s = (Inr k1, s1)" using tok by blast
  obtain k2 s2 where 2: "tryInvalidateOwner env tx s1 = (Inr k2, s2)" using own by blast
  obtain k3 s3 where 3: "tryInvalidateStakeTopup env tx s2 = (Inr k3, s3)" using stake by blast
  show ?thesis
    using 1 2 3 by (simp add: invalidate_transaction_def no_collection_invalidation io_simps)
qed

section \<open>Properties\<close>

text \<open>
  The properties of a collection are never invalidated. The processor looks for a transaction
  that changes a collection and hands its ownership over at the same time, by asking for two
  different function names at once; so for every transaction nothing is deleted and no key is
  reported.
\<close>

theorem collection_never_invalidated: "tryInvalidateCollectionProperties env tx s = (Inr [], s)"
  by (simp add: no_collection_invalidation io_simps)

lemma token_properties_unowned: "key_owner (''tokenProperties:'' @ x) = None"
  by (simp add: key_owner_def static_keys_def key_prefixes_def startsWith_def is_digit_def)

text \<open>
  Changing the properties of a token does not refresh what is cached about it: the key the
  processor deletes belongs to no member of \<open>CacheInfo\<close>, and every cached value is still there
  afterwards.
\<close>

theorem token_properties_stay:
  assumes cache: "cron_cache env view" and member: "cache_member m ci"
    and run: "tryInvalidateTokenProperties env tx s = (r, t)"
  shows "view t (ci_key ci) = view s (ci_key ci)"
proof -
  have ne: "ci_key ci \<noteq> ''tokenProperties:'' @ x" for x
    using cache_member_owner [OF member] token_properties_unowned [of x] by auto
  have del: "view u (ci_key ci) = view s (ci_key ci)"
    if "ce_deleteInCache env (''tokenProperties:'' @ x) s = (q, u)" for x q u
  proof -
    obtain ks w where "ce_deleteInCache env (''tokenProperties:'' @ x) s = (Inr ks, w)"
      "view w = (view s)(''tokenProperties:'' @ x := None)"
      by (rule cron_delete [OF cache])
    with that ne show ?thesis by simp
  qed
  show ?thesis
    using run del
    by (auto simp: tryInvalidateTokenProperties_def io_simps split: if_splits option.splits list.splits sum.splits prod.splits)
qed

text \<open>A concrete cache: a map, in which deleting reports the deleted key.\<close>

definition sample_cron :: "(string \<Rightarrow> cron_value option) cron_env" where
  "sample_cron = \<lparr>ce_consts = doc_consts, ce_esdtContract = ''esdt'', ce_hexToString = Inr,
     ce_base64Decode = (\<lambda>s. s), ce_isSmartContractAddress = (\<lambda>s. startsWith s ''sc''),
     ce_distinct = remdups, ce_selectMany = (\<lambda>f xs. concat (map f xs)), ce_in = (\<lambda>x xs. x \<in> set xs),
     ce_deleteOwnersForAddressInCache = (\<lambda>a w. (Inr [], w)),
     ce_deleteInCache = (\<lambda>k w. (Inr [k], w(k := None))),
     ce_batchDelCache = (\<lambda>ks w. (Inr (), (\<lambda>k. if k \<in> set ks then None else w k))),
     ce_batchSet = (\<lambda>ks vs ttls w. (Inr (), (\<lambda>k. case map_of (zip ks vs) k of Some v \<Rightarrow> Some v | None \<Rightarrow> w k))),
     ce_batchGetManyRemote = (\<lambda>ks w. (Inr (map w ks), w)), ce_get = (\<lambda>k w. (Inr (w k), w)),
     ce_set = (\<lambda>k v ttl w. (Inr (), w(k := Some v))),
     ce_emitDeleteCacheKeys = (\<lambda>ks w. (Inr (), w)), ce_emitCompleted = (\<lambda>ts w. (Inr (), w)),
     ce_emitPending = (\<lambda>ts w. (Inr (), w)), ce_emitNonce = (\<lambda>a n w. (Inr (), w)), ce_logLevel = LT_Error\<rparr>"

lemma sample_cron_cache: "cron_cache sample_cron (\<lambda>w. w)"
  by (auto simp: cron_cache_def sample_cron_def)

lemma sample_arrays: "arrays_ok sample_cron"
  by (auto simp: arrays_ok_def sample_cron_def)

definition control_changes :: shard_transaction where
  "control_changes = \<lparr>sx_hash = ''h'', sx_sender = ''alice'', sx_receiver = ''esdt'', sx_data = Some ''d'',
     sx_originalTransactionHash = None, sx_function = Some ''controlChanges'', sx_args = Some [''TKN-1'']\<rparr>"

theorem token_properties_stay_witness:
  "\<exists>t. tryInvalidateTokenProperties sample_cron control_changes [''esdt:v2:TKN-1'' \<mapsto> CHash ''old'']
      = (Inr [''tokenProperties:TKN-1''], t)
    \<and> t ''esdt:v2:TKN-1'' = Some (CHash ''old'')"
proof -
  let ?s = "[''esdt:v2:TKN-1'' \<mapsto> CHash ''old'']"
  obtain t where run: "tryInvalidateTokenProperties sample_cron control_changes ?s = (Inr [''tokenProperties:TKN-1''], t)"
    by (simp add: tryInvalidateTokenProperties_def sample_cron_def control_changes_def io_simps)
  have "cache_member ''EsdtProperties'' (CacheInfo_EsdtProperties doc_consts ''TKN-1'')"
    by (rule cache_member.intros)
  from token_properties_stay [OF sample_cron_cache this run] run show ?thesis
    by (simp add: key_simps)
qed

text \<open>
  After a batch of new transactions has been processed, the cached transaction counts of all
  their senders and receivers are gone, whatever else was invalidated on the way.
\<close>

theorem tx_counts_invalidated:
  assumes cache: "cron_cache env view" and arr: "arrays_ok env"
  shows "\<exists>t. processor_onTransactionsReceived env txs s = (Inr (), t)
    \<and> (\<forall>tx \<in> set txs. view t (tx_count_key env (sx_sender tx)) = None
         \<and> view t (tx_count_key env (sx_receiver tx)) = None)"
proof -
  have "\<exists>keys u. io_fold (invalidate_transaction env) txs [] s = (Inr keys, u) \<and> True"
    by (rule io_fold_total [where P = "\<lambda>_ _. True"]) (use invalidate_total [OF cache arr] in auto)
  then obtain keys u where loop: "io_fold (invalidate_transaction env) txs [] s = (Inr keys, u)" by blast
  obtain v where emit: "ce_emitDeleteCacheKeys env (ce_distinct env keys) u = (Inr (), v)"
    by (rule cron_emits [OF cache])
  define v' where "v' = (if ce_distinct env keys \<noteq> [] then v else u)"
  let ?addr = "ce_distinct env (ce_selectMany env (\<lambda>tx. [sx_sender tx, sx_receiver tx]) txs)"
  obtain t where del: "ce_batchDelCache env (map (tx_count_key env) ?addr) v' = (Inr (), t)"
    and t: "view t = (\<lambda>k. if k \<in> set (map (tx_count_key env) ?addr) then None else view v' k)"
    by (rule cron_batchDel [OF cache])
  have run: "processor_onTransactionsReceived env txs s = (Inr (), t)"
    using loop emit del by (auto simp: processor_onTransactionsReceived_def io_simps Let_def v'_def)
  have "set ?addr = (\<Union>tx \<in> set txs. {sx_sender tx, sx_receiver tx})"
    using arr unfolding arrays_ok_def by auto
  then show ?thesis using run by (auto simp: t)
qed

theorem tx_counts_invalidated_witness:
  "\<exists>t. processor_onTransactionsReceived sample_cron [control_changes] [''txCount:alice'' \<mapsto> CNonce 5] = (Inr (), t)
    \<and> t ''txCount:alice'' = None"
  using tx_counts_invalidated [OF sample_cron_cache sample_arrays, of "[control_changes]" "[''txCount:alice'' \<mapsto> CNonce 5]"]
  by (auto simp: control_changes_def key_simps)

text \<open>
  Each processor keeps its own place on each shard: the nonce a processor stores is the nonce
  it reads, and storing it changes neither the nonce of another shard nor any nonce of the other
  processor.
\<close>

theorem last_nonce_kept:
  assumes "cron_cache env view"
  shows "\<exists>t. processor_setLastProcessedNonce env shard nonce s = (Inr (), t)
    \<and> processor_getLastProcessedNonce env shard t = (Inr (Some (CNonce nonce)), t)
    \<and> (\<forall>other. other \<noteq> shard \<longrightarrow> fst (processor_getLastProcessedNonce env other t)
          = fst (processor_getLastProcessedNonce env other s))
    \<and> (\<forall>other. fst (completed_getLastProcessedNonce env other t)
          = fst (completed_getLastProcessedNonce env other s))"
proof -
  have get: "ce_get env k w = (Inr (view w k), w)" for k w
    using assms by (simp add: cron_cache_def)
  obtain u where u: "ce_emitNonce env shard nonce s = (Inr (), u)" "view u = view s"
    using assms unfolding cron_cache_def by meson
  obtain t where t: "ce_set env (processor_nonce_key env shard) (CNonce nonce)
      (ci_ttl (CacheInfo_TransactionProcessorShardNonce (ce_consts env) shard)) u = (Inr (), t)"
    "view t = (view u)(processor_nonce_key env shard := Some (CNonce nonce))"
    using assms unfolding cron_cache_def by meson
  have "processor_setLastProcessedNonce env shard nonce s = (Inr (), t)"
    using u t by (simp add: processor_setLastProcessedNonce_def io_simps)
  moreover have "processor_nonce_key env other = processor_nonce_key env shard \<longleftrightarrow> other = shard" for other
    by (simp add: key_simps)
  moreover have "completed_nonce_key env other \<noteq> processor_nonce_key env shard" for other
    by (simp add: key_simps)
  ultimately show ?thesis
    using t u by (simp add: processor_getLastProcessedNonce_def completed_getLastProcessedNonce_def get)
qed

theorem last_nonce_kept_witness:
  "\<exists>t. processor_setLastProcessedNonce sample_cron 1 42 (\<lambda>_. None) = (Inr (), t)
    \<and> processor_getLastProcessedNonce sample_cron 1 t = (Inr (Some (CNonce 42)), t)
    \<and> fst (processor_getLastProcessedNonce sample_cron 2 t) = Inr None"
  using last_nonce_kept [OF sample_cron_cache, of 1 42 "\<lambda>_. None"]
  by (auto simp: processor_getLastProcessedNonce_def sample_cron_def)

abbreviation pending_results_key :: "'s cron_env \<Rightarrow> string \<Rightarrow> string" where
  "pending_results_key env h \<equiv> ci_key (pending_results_info env h)"

text \<open>
  Completed transactions stop being pending: when every stored pending entry holds its own
  hash, the entries of exactly the transactions received that are not smart contract results are
  removed, and every other value of the cache stays.
\<close>

theorem completed_clears_pending:
  assumes cache: "cron_cache env view"
    and own: "\<And>h v. view s (pending_results_key env h) = Some v \<Longrightarrow> v = CHash h"
  shows "\<exists>t. completed_onTransactionsReceived env txs s = (Inr (), t)
    \<and> view t = (\<lambda>k. if \<exists>tx \<in> set txs. \<not> truthy (sx_originalTransactionHash tx) \<and> k = pending_results_key env (sx_hash tx)
                then None else view s k)"
proof -
  let ?txs = "filter (\<lambda>tx. \<not> truthy (sx_originalTransactionHash tx)) txs"
  let ?hashes = "map (view s) (map (\<lambda>tx. pending_results_key env (sx_hash tx)) ?txs)"
  let ?keys = "map (\<lambda>h. pending_results_key env (hash_of_value h)) (List.map_filter id ?hashes)"
  have get: "ce_batchGetManyRemote env ks w = (Inr (map (view w) ks), w)" for ks w
    using cache by (simp add: cron_cache_def)
  have keys: "set ?keys = {k. \<exists>tx \<in> set ?txs. k = pending_results_key env (sx_hash tx) \<and> view s k \<noteq> None}"
  proof (rule set_eqI)
    fix k
    have "k \<in> set ?keys \<longleftrightarrow> (\<exists>v. Some v \<in> set ?hashes \<and> k = pending_results_key env (hash_of_value v))"
      by (auto simp: set_map_filter)
    also have "\<dots> \<longleftrightarrow> (\<exists>tx \<in> set ?txs. \<exists>v. view s (pending_results_key env (sx_hash tx)) = Some v
        \<and> k = pending_results_key env (hash_of_value v))"
      by (auto simp del: not_None_eq) (metis (mono_tags, lifting) image_iff mem_Collect_eq)+
    also have "\<dots> \<longleftrightarrow> (\<exists>tx \<in> set ?txs. \<exists>v. view s (pending_results_key env (sx_hash tx)) = Some v
        \<and> k = pending_results_key env (sx_hash tx))"
      using own by (metis hash_of_value.simps(1))
    also have "\<dots> \<longleftrightarrow> k \<in> {k. \<exists>tx \<in> set ?txs. k = pending_results_key env (sx_hash tx) \<and> view s k \<noteq> None}"
      by auto
    finally show "k \<in> set ?keys \<longleftrightarrow>
      k \<in> {k. \<exists>tx \<in> set ?txs. k = pending_results_key env (sx_hash tx) \<and> view s k \<noteq> None}" .
  qed
  obtain u where u: "ce_batchDelCache env ?keys s = (Inr (), u)"
    and view_u: "view u = (\<lambda>k. if k \<in> set ?keys then None else view s k)"
    by (rule cron_batchDel [OF cache])
  define u' where "u' = (if List.map_filter id ?hashes \<noteq> [] then u else s)"
  have view_u': "view u' = (\<lambda>k. if k \<in> set ?keys then None else view s k)"
    by (cases "List.map_filter id ?hashes = []") (simp_all add: u'_def view_u)
  obtain t where t: "ce_emitCompleted env ?txs u' = (Inr (), t)" "view t = view u'"
    using cache unfolding cron_cache_def by meson
  have "completed_onTransactionsReceived env txs s = (Inr (), t)"
    using u t(1) by (auto simp: completed_onTransactionsReceived_def get io_simps Let_def u'_def)
  moreover have "view t = (\<lambda>k. if \<exists>tx \<in> set txs. \<not> truthy (sx_originalTransactionHash tx)
      \<and> k = pending_results_key env (sx_hash tx) then None else view s k)"
    unfolding t(2) view_u' keys by (auto simp: fun_eq_iff)
  ultimately show ?thesis by blast
qed

theorem completed_clears_pending_witness:
  "\<exists>t. completed_onTransactionsReceived sample_cron [control_changes]
      [pending_results_key sample_cron ''h'' \<mapsto> CHash ''h''] = (Inr (), t)
    \<and> t (pending_results_key sample_cron ''h'') = None"
proof -
  let ?s = "[pending_results_key sample_cron ''h'' \<mapsto> CHash ''h'']"
  have own: "v = CHash h" if "?s (pending_results_key sample_cron h) = Some v" for h v
    using that by (simp add: key_simps split: if_splits)
  obtain t where "completed_onTransactionsReceived sample_cron [control_changes] ?s = (Inr (), t)"
    and "t = (\<lambda>k. if \<exists>tx \<in> set [control_changes]. \<not> truthy (sx_originalTransactionHash tx)
        \<and> k = pending_results_key sample_cron (sx_hash tx) then None else ?s k)"
    using completed_clears_pending [where s = ?s and txs = "[control_changes]", OF sample_cron_cache own] by blast
  then show ?thesis by (simp add: control_changes_def)
qed

text \<open>
  The completed processor does not keep its runs apart: its flag is tested but never set, so
  any number of runs, started one a second, can be under way at the same time.
\<close>

theorem completed_runs_overlap:
  "reach cron_init (cron_step completed_cron_enter completed_cron_exit) \<lparr>cron_flag = False, cron_runs = n\<rparr>"
proof (induction n)
  case 0
  show ?case by (rule reach_init) (simp add: cron_init_def)
next
  case (Suc n)
  have "completed_cron_enter (cron_flag \<lparr>cron_flag = False, cron_runs = n\<rparr>) = (True, False)"
    by (simp add: completed_cron_enter_def)
  then have "cron_step completed_cron_enter completed_cron_exit \<lparr>cron_flag = False, cron_runs = n\<rparr>
      \<lparr>cron_flag = False, cron_runs = Suc n\<rparr>"
    using cron_start [where enter = completed_cron_enter and s = "\<lparr>cron_flag = False, cron_runs = n\<rparr>" and f = False]
    by simp
  with Suc show ?case by (rule reach_step)
qed

end
