(* ===== verification/Nodes.thy ===== *)
theory Nodes imports TransactionAction "HOL-Library.List_Lexorder" "HOL-Library.Char_ord" "HOL-Library.Multiset" "HOL-Library.Signed_Division" begin

text \<open>
  The nodes of the network (\<open>src/endpoints/nodes/node.service.ts\<close> and its entities, with the minimum
  stakes of \<open>src/endpoints/stake/stake.service.ts\<close> that it uses): the list of all nodes, put together
  from heartbeats, validator statistics, the queue, owners, providers, stakes and auctions; and the
  filters, the order and the pages in which it is shown.

  The methods that change the nodes of an array in place return the changed array here. Text is
  compared as JavaScript does, by the codes of the characters; numbers with two decimals are
  counted in hundredths.
\<close>

section \<open>Data\<close>

datatype node_type = NT_observer | NT_validator

record identity_info =
  ii_identity :: "string option"
  ii_name :: "string option"
  ii_description :: "string option"
  ii_avatar :: "string option"
  ii_distribution :: "(string \<times> js_float) list option"

record node =
  nd_bls :: string
  nd_name :: "string option"
  nd_version :: string
  nd_rating :: "int option"
  nd_tempRating :: "int option"
  nd_ratingModifier :: js_float
  nd_shard :: "int option"
  nd_type :: "node_type option"
  nd_status :: "string option"
  nd_online :: bool
  nd_nonce :: "int option"
  nd_instances :: "int option"
  nd_owner :: "string option"
  nd_identity :: "string option"
  nd_provider :: "string option"
  nd_issues :: "string list option"
  nd_stake :: string
  nd_topUp :: string
  nd_locked :: string
  nd_leaderFailure :: "int option"
  nd_leaderSuccess :: "int option"
  nd_validatorFailure :: "int option"
  nd_validatorIgnoredSignatures :: "int option"
  nd_validatorSuccess :: "int option"
  nd_position :: int
  nd_auctioned :: "bool option"
  nd_auctionPosition :: "int option"
  nd_auctionTopUp :: "string option"
  nd_auctionQualified :: "bool option"
  nd_fullHistory :: "bool option"
  nd_remainingUnBondPeriod :: "int option"
  nd_isInDangerZone :: "bool option"
  nd_epochsLeft :: "int option"
  nd_identityInfo :: "identity_info option"
  nd_qualifiedStake :: string

definition new_node :: node where
  "new_node = \<lparr>nd_bls = [], nd_name = Some [], nd_version = [], nd_rating = Some 0, nd_tempRating = Some 0,
     nd_ratingModifier = JsFloat ''0'', nd_shard = None, nd_type = None, nd_status = None, nd_online = False,
     nd_nonce = Some 0, nd_instances = Some 0, nd_owner = Some [], nd_identity = None, nd_provider = Some [], nd_issues = Some [],
     nd_stake = [], nd_topUp = [], nd_locked = [], nd_leaderFailure = Some 0, nd_leaderSuccess = Some 0,
     nd_validatorFailure = Some 0, nd_validatorIgnoredSignatures = Some 0, nd_validatorSuccess = Some 0, nd_position = 0,
     nd_auctioned = None, nd_auctionPosition = None, nd_auctionTopUp = None, nd_auctionQualified = None,
     nd_fullHistory = None, nd_remainingUnBondPeriod = None, nd_isInDangerZone = None, nd_epochsLeft = None,
     nd_identityInfo = None, nd_qualifiedStake = []\<rparr>"

datatype node_sort =
    NSort_name | NSort_version | NSort_tempRating | NSort_leaderSuccess | NSort_leaderFailure
  | NSort_validatorSuccess | NSort_validatorFailure | NSort_validatorIgnoredSignatures | NSort_position
  | NSort_auctionPosition | NSort_locked | NSort_qualifiedStake

datatype node_sort_auction =
    NSA_auctionValidators | NSA_droppedValidators | NSA_qualifiedAuctionValidators | NSA_qualifiedStake
  | NSA_dangerZoneValidators

record node_filter =
  nf_search :: "string option"
  nf_online :: "bool option"
  nf_type :: "node_type option"
  nf_status :: "string option"
  nf_shard :: "int option"
  nf_issues :: "bool option"
  nf_identity :: "string option"
  nf_provider :: "string option"
  nf_owner :: "string option"
  nf_auctioned :: "bool option"
  nf_fullHistory :: "bool option"
  nf_sort :: "node_sort option"
  nf_order :: "sort_order option"
  nf_keys :: "string list option"
  nf_isQualified :: "bool option"
  nf_isAuctionDangerZone :: "bool option"
  nf_isAuctioned :: "bool option"
  nf_withIdentityInfo :: "bool option"

definition no_filter :: node_filter where
  "no_filter = \<lparr>nf_search = None, nf_online = None, nf_type = None, nf_status = None, nf_shard = None,
     nf_issues = None, nf_identity = None, nf_provider = None, nf_owner = None, nf_auctioned = None,
     nf_fullHistory = None, nf_sort = None, nf_order = None, nf_keys = None, nf_isQualified = None,
     nf_isAuctionDangerZone = None, nf_isAuctioned = None, nf_withIdentityInfo = None\<rparr>"

record queue_item =
  qi_bls :: string
  qi_nonce :: int
  qi_rewardsAddress :: string
  qi_position :: nat

record auction_node =
  an_blsKey :: string
  an_qualified :: bool

record auction =
  au_qualifiedTopUp :: string
  au_nodes :: "auction_node list option"

record stake =
  sk_bls :: string
  sk_stake :: string
  sk_topUp :: string
  sk_locked :: string
  sk_address :: string

definition new_stake :: stake where
  "new_stake = \<lparr>sk_bls = [], sk_stake = ''0'', sk_topUp = ''0'', sk_locked = ''0'', sk_address = []\<rparr>"

record node_auction =
  na_info :: "identity_info option"
  na_stake :: string
  na_owner :: string
  na_provider :: string
  na_auctionTopUp :: string
  na_qualifiedStake :: string
  na_auctionValidators :: nat
  na_qualifiedAuctionValidators :: nat
  na_droppedValidators :: nat
  na_dangerZoneValidators :: nat
  na_bls :: string

section \<open>The services behind the nodes\<close>

text \<open>
  \<open>ne_Number\<close> is \<open>Number(s)\<close> of a string of digits, \<open>None\<close> for \<open>NaN\<close>; \<open>ne_base64ToHex\<close> decodes a
  value of a contract, and \<open>ne_vmQuery\<close> asks the contract.
\<close>

record 's node_env =
  ne_consts :: time_consts
  ne_Number :: "string \<Rightarrow> int option"
  ne_distinct :: "string list \<Rightarrow> string list"
  ne_groupBy :: "(node \<Rightarrow> string) \<Rightarrow> node list \<Rightarrow> node list list"
  ne_sorted :: "(node_auction \<Rightarrow> int option) list \<Rightarrow> node_auction list \<Rightarrow> node_auction list"
  ne_base64ToHex :: "string \<Rightarrow> string"
  ne_bech32Encode :: "string \<Rightarrow> string res"
  ne_bech32Decode :: "string \<Rightarrow> string res"
  ne_isNodeEpochsLeftEnabled :: bool
  ne_isNodesFetchFeatureEnabled :: bool
  ne_isStakingV4Enabled :: bool
  ne_stakingV4ActivationEpoch :: int
  ne_auctionContract :: "string option"
  ne_stakingContract :: "string option"
  ne_getOrSetNodes :: "string \<Rightarrow> ('s, node list) io \<Rightarrow> int \<Rightarrow> ('s, node list) io"
  ne_getOrSetAuctions :: "string \<Rightarrow> ('s, node_auction list) io \<Rightarrow> int \<Rightarrow> ('s, node_auction list) io"
  ne_getRemote :: "string \<Rightarrow> ('s, string option) io"
  ne_setRemote :: "string \<Rightarrow> string \<Rightarrow> int \<Rightarrow> ('s, unit) io"
  ne_batchGetManyRemote :: "string list \<Rightarrow> ('s, string option list) io"
  ne_deleteInCache :: "string \<Rightarrow> ('s, string list) io"
  ne_getNodesFromService :: "('s, node list) io"
  ne_getHeartbeatAndValidators :: "('s, node list) io"
  ne_getCurrentEpoch :: "('s, int) io"
  ne_getStakes :: "string list \<Rightarrow> ('s, stake list) io"
  ne_getValidatorAuctions :: "('s, auction list) io"
  ne_getKeyUnbondPeriod :: "string \<Rightarrow> ('s, int option) io"
  ne_getNodeWaitingEpochsLeft :: "string \<Rightarrow> ('s, int) io"
  ne_getAllIdentities :: "('s, identity_info list) io"
  ne_getIdentity :: "string \<Rightarrow> ('s, identity_info option) io"
  ne_vmQuery :: "string \<Rightarrow> string \<Rightarrow> string \<Rightarrow> string list \<Rightarrow> ('s, string list option) io"

section \<open>Filters\<close>

definition lower_char :: "char \<Rightarrow> char" where
  "lower_char c = (let n = of_char c :: nat in if 65 \<le> n \<and> n < 91 then char_of (n + 32) else c)"

definition to_lower :: "string \<Rightarrow> string" where
  "to_lower s = map lower_char s"

definition search_matches :: "string \<Rightarrow> string \<Rightarrow> bool" where
  "search_matches search s \<longleftrightarrow> s \<noteq> [] \<and> str_includes (to_lower s) (to_lower search)"

text \<open>\<open>query.x !== undefined && node.x !== query.x\<close> does not hold.\<close>

fun agrees :: "'a option \<Rightarrow> 'a option \<Rightarrow> bool" where
  "agrees None x = True"
| "agrees (Some q) x = (x = Some q)"

definition node_matches :: "node_filter \<Rightarrow> node \<Rightarrow> bool" where
  "node_matches query node \<longleftrightarrow>
     (case nf_search query of
        None \<Rightarrow> True
      | Some search \<Rightarrow> search_matches search (nd_bls node) \<or> search_matches search (coalesce (nd_name node) [])
                       \<or> search_matches search (nd_version node))
     \<and> agrees (nf_online query) (Some (nd_online node))
     \<and> agrees (nf_type query) (nd_type node)
     \<and> agrees (nf_status query) (nd_status node)
     \<and> agrees (nf_shard query) (nd_shard node)
     \<and> (case nf_issues query of
          None \<Rightarrow> True
        | Some True \<Rightarrow> \<not> (nd_issues node = None \<or> nd_issues node = Some [])
        | Some False \<Rightarrow> \<not> (nd_issues node \<noteq> None \<and> nd_issues node \<noteq> Some []))
     \<and> (truthy (nf_identity query) \<longrightarrow> nd_identity node = nf_identity query)
     \<and> (truthy (nf_provider query) \<longrightarrow> nd_provider node = nf_provider query)
     \<and> (truthy (nf_owner query) \<longrightarrow> nd_owner node = nf_owner query)
     \<and> agrees (nf_auctioned query) (nd_auctioned node)
     \<and> (case nf_fullHistory query of
          None \<Rightarrow> True
        | Some True \<Rightarrow> nd_fullHistory node = Some True
        | Some False \<Rightarrow> nd_fullHistory node \<noteq> Some True)
     \<and> (nf_isAuctionDangerZone query = Some True \<longrightarrow> nd_isInDangerZone node = Some True)
     \<and> (case nf_keys query of None \<Rightarrow> True | Some keys \<Rightarrow> nd_bls node \<in> set keys)
     \<and> agrees (nf_isQualified query) (nd_auctionQualified node)
     \<and> agrees (nf_isAuctioned query) (nd_auctioned node)"

section \<open>Order\<close>

text \<open>The values that are compared: \<open>SV_none\<close> is \<open>undefined\<close> or \<open>NaN\<close>, which compares with nothing.\<close>

datatype sort_value = SV_none | SV_num int | SV_str string

fun number_value :: "int option \<Rightarrow> sort_value" where
  "number_value None = SV_none"
| "number_value (Some n) = SV_num n"

definition node_value :: "'s node_env \<Rightarrow> node_sort \<Rightarrow> node \<Rightarrow> sort_value" where
  "node_value env field node =
     (case field of
        NSort_name \<Rightarrow> (case nd_name node of None \<Rightarrow> SV_none | Some name \<Rightarrow> SV_str (to_lower name))
      | NSort_version \<Rightarrow> SV_str (to_lower (nd_version node))
      | NSort_tempRating \<Rightarrow> number_value (nd_tempRating node)
      | NSort_leaderSuccess \<Rightarrow> number_value (nd_leaderSuccess node)
      | NSort_leaderFailure \<Rightarrow> number_value (nd_leaderFailure node)
      | NSort_validatorSuccess \<Rightarrow> number_value (nd_validatorSuccess node)
      | NSort_validatorFailure \<Rightarrow> number_value (nd_validatorFailure node)
      | NSort_validatorIgnoredSignatures \<Rightarrow> number_value (nd_validatorIgnoredSignatures node)
      | NSort_position \<Rightarrow> SV_num (nd_position node)
      | NSort_auctionPosition \<Rightarrow> number_value (nd_auctionPosition node)
      | NSort_locked \<Rightarrow> number_value (ne_Number env (nd_locked node))
      | NSort_qualifiedStake \<Rightarrow> SV_str (to_lower (nd_qualifiedStake node)))"

fun value_gt :: "sort_value \<Rightarrow> sort_value \<Rightarrow> bool" where
  "value_gt (SV_num a) (SV_num b) = (a > b)"
| "value_gt (SV_str a) (SV_str b) = (a > b)"
| "value_gt _ _ = False"

definition compare_values :: "sort_value \<Rightarrow> sort_value \<Rightarrow> int" where
  "compare_values a b = (if value_gt a b then 1 else if value_gt b a then - 1 else 0)"

text \<open>\<open>xs.sort(compare)\<close> is stable.\<close>

fun js_insert :: "('a \<Rightarrow> 'a \<Rightarrow> int) \<Rightarrow> 'a \<Rightarrow> 'a list \<Rightarrow> 'a list" where
  "js_insert compare x [] = [x]"
| "js_insert compare x (y # ys) = (if compare x y \<le> 0 then x # y # ys else y # js_insert compare x ys)"

definition js_sort :: "('a \<Rightarrow> 'a \<Rightarrow> int) \<Rightarrow> 'a list \<Rightarrow> 'a list" where
  "js_sort compare xs = foldr (js_insert compare) xs []"

definition filter_nodes :: "'s node_env \<Rightarrow> node_filter \<Rightarrow> node list \<Rightarrow> node list" where
  "filter_nodes env query allNodes =
     (let filteredNodes = filter (node_matches query) allNodes
      in case nf_sort query of
           None \<Rightarrow> filteredNodes
         | Some field \<Rightarrow>
             (let ordered = js_sort (\<lambda>a b. compare_values (node_value env field a) (node_value env field b)) filteredNodes
              in if nf_order query = Some Sort_desc then rev ordered else ordered))"

section \<open>Building the list of nodes\<close>

definition update_first :: "('a \<Rightarrow> bool) \<Rightarrow> ('a \<Rightarrow> 'a) \<Rightarrow> 'a list \<Rightarrow> 'a list" where
  "update_first p f xs =
     (case filter (\<lambda>i. p (xs ! i)) [0..<length xs] of [] \<Rightarrow> xs | i # _ \<Rightarrow> xs[i := f (xs ! i)])"

definition processQueueItem :: "node list \<Rightarrow> queue_item \<Rightarrow> node list" where
  "processQueueItem nodes item =
     (if \<exists>node \<in> set nodes. nd_bls node = qi_bls item then
        update_first (\<lambda>node. nd_bls node = qi_bls item)
          (\<lambda>node. node\<lparr>nd_type := Some NT_validator, nd_status := Some ''queued'', nd_position := int (qi_position item)\<rparr>)
          nodes
      else nodes @ [new_node\<lparr>nd_bls := qi_bls item, nd_position := int (qi_position item),
                      nd_type := Some NT_validator, nd_status := Some ''queued''\<rparr>])"

definition processQueuedNodes :: "node list \<Rightarrow> queue_item list \<Rightarrow> node list" where
  "processQueuedNodes nodes queue = foldl processQueueItem nodes queue"

definition applyNodeIdentities :: "'s node_env \<Rightarrow> node list \<Rightarrow> ('s, node list) io" where
  "applyNodeIdentities env nodes = io_mapM (\<lambda>node.
     if nd_status node \<noteq> Some ''inactive'' then
       io_bind (ne_getRemote env (ci_key (CacheInfo_ConfirmedIdentity (ne_consts env) (nd_bls node)))) (\<lambda>identity.
         io_return (node\<lparr>nd_identity := identity\<rparr>))
     else io_return node) nodes"

definition applyNodeProviders :: "'s node_env \<Rightarrow> node list \<Rightarrow> ('s, node list) io" where
  "applyNodeProviders env nodes = io_mapM (\<lambda>node.
     if nd_type node = Some NT_validator then
       io_bind (ne_getRemote env (ci_key (CacheInfo_ProviderOwner (ne_consts env)
                  (coalesce (nd_owner node) ''undefined'')))) (\<lambda>providerOwner.
         io_return (if truthy providerOwner
                    then node\<lparr>nd_provider := nd_owner node, nd_owner := providerOwner\<rparr> else node))
     else io_return node) nodes"

definition applyNodeUnbondingPeriods :: "'s node_env \<Rightarrow> node list \<Rightarrow> ('s, node list) io" where
  "applyNodeUnbondingPeriods env nodes = io_mapM (\<lambda>node.
     if nd_status node = Some ''leaving'' \<or> nd_status node = Some ''inactive'' then
       io_bind (ne_getKeyUnbondPeriod env (nd_bls node)) (\<lambda>period.
         io_return (node\<lparr>nd_remainingUnBondPeriod := period\<rparr>))
     else io_return node) nodes"

definition provider_or_owner :: "node \<Rightarrow> string option" where
  "provider_or_owner node = (if truthy (nd_provider node) then nd_provider node else nd_owner node)"

definition node_stake :: "stake list \<Rightarrow> node \<Rightarrow> stake" where
  "node_stake stakes node =
     (if nd_status node = Some ''jailed'' then
        coalesce (find (\<lambda>s. Some (sk_address s) = provider_or_owner node) stakes)
          new_stake
      else coalesce (find (\<lambda>s. sk_bls s = nd_bls node) stakes) new_stake)"

definition applyNodeStakeInfo :: "'s node_env \<Rightarrow> node list \<Rightarrow> ('s, node list) io" where
  "applyNodeStakeInfo env nodes =
     (let addresses = map the (filter truthy
            (map provider_or_owner (filter (\<lambda>node. nd_type node = Some NT_validator) nodes)))
      in io_bind (ne_getStakes env (ne_distinct env addresses)) (\<lambda>stakes.
         io_return (map (\<lambda>node.
           if nd_type node = Some NT_validator then
             (let stake = node_stake stakes node
              in node\<lparr>nd_stake := sk_stake stake, nd_topUp := sk_topUp stake, nd_locked := sk_locked stake\<rparr>)
           else node) nodes)))"

section \<open>Owners\<close>

definition getBlsOwner :: "'s node_env \<Rightarrow> string \<Rightarrow> ('s, string option) io" where
  "getBlsOwner env bls =
     (if \<not> truthy (ne_auctionContract env) then io_return None
      else if \<not> truthy (ne_stakingContract env) then io_return None
      else
        io_bind (ne_vmQuery env (the (ne_stakingContract env)) ''getOwner'' (the (ne_auctionContract env)) [bls]) (\<lambda>result.
          case result of
            None \<Rightarrow> io_return None
          | Some [] \<Rightarrow> io_throw TypeError
          | Some (encodedOwnerBase64 # _) \<Rightarrow>
              io_bind (io_lift (ne_bech32Encode env (ne_base64ToHex env encodedOwnerBase64))) (\<lambda>owner.
                io_return (Some owner))))"

text \<open>The keys of a list of keys and states, which come in turn.\<close>

fun every_second :: "'a list \<Rightarrow> 'a list" where
  "every_second [] = []"
| "every_second [x] = [x]"
| "every_second (x # y # xs) = x # every_second xs"

definition getOwnerBlses :: "'s node_env \<Rightarrow> string \<Rightarrow> ('s, string list) io" where
  "getOwnerBlses env owner =
     (if \<not> truthy (ne_auctionContract env) then io_return []
      else
        io_bind (io_catch
          (io_bind (io_lift (ne_bech32Decode env owner)) (\<lambda>hex.
             ne_vmQuery env (the (ne_auctionContract env)) ''getBlsKeysStatus'' (the (ne_auctionContract env)) [hex]))
          (\<lambda>e. io_return None)) (\<lambda>encoded.
        case encoded of
          None \<Rightarrow> io_return []
        | Some list \<Rightarrow> io_return (map (ne_base64ToHex env) (every_second list))))"

abbreviation owner_cache_info :: "'s node_env \<Rightarrow> int \<Rightarrow> string \<Rightarrow> cache_info" where
  "owner_cache_info env epoch bls \<equiv> CacheInfo_OwnerByEpochAndBls (ne_consts env) epoch bls"

definition remember_owner ::
  "'s node_env \<Rightarrow> int \<Rightarrow> string \<Rightarrow> string \<Rightarrow> (string \<rightharpoonup> string) \<Rightarrow> ('s, string \<rightharpoonup> string) io" where
  "remember_owner env epoch owner bls owners =
     io_then (ne_setRemote env (ci_key (owner_cache_info env epoch bls)) owner (ci_ttl (owner_cache_info env epoch bls)))
       (io_return (owners(bls \<mapsto> owner)))"

definition find_missing_owner ::
  "'s node_env \<Rightarrow> int \<Rightarrow> string \<Rightarrow> (string \<rightharpoonup> string) \<Rightarrow> ('s, string \<rightharpoonup> string) io" where
  "find_missing_owner env epoch bls owners =
     (if truthy (owners bls) then io_return owners
      else
        io_bind (getBlsOwner env bls) (\<lambda>owner.
          if \<not> truthy owner then io_return owners
          else
            io_bind (getOwnerBlses env (the owner)) (\<lambda>blses.
              io_fold (remember_owner env epoch (the owner)) blses owners)))"

definition getOwners :: "'s node_env \<Rightarrow> string list \<Rightarrow> int \<Rightarrow> ('s, string option list) io" where
  "getOwners env blses epoch =
     io_bind (ne_batchGetManyRemote env (map (\<lambda>bls. ci_key (owner_cache_info env epoch bls)) blses)) (\<lambda>cached.
     let missing = map fst (filter (\<lambda>(bls, c). c = None) (zip blses cached))
     in io_bind (io_fold (find_missing_owner env epoch) missing Map.empty) (\<lambda>owners.
          io_return (map (\<lambda>(bls, c). case c of None \<Rightarrow> owners bls | Some owner \<Rightarrow> Some owner) (zip blses cached))))"

definition applyNodeOwners :: "'s node_env \<Rightarrow> node list \<Rightarrow> ('s, node list) io" where
  "applyNodeOwners env nodes =
     (let blses = map nd_bls (filter (\<lambda>x. nd_type x = Some NT_validator) nodes)
      in io_bind (ne_getCurrentEpoch env) (\<lambda>epoch.
         io_bind (getOwners env blses epoch) (\<lambda>owners.
           io_return (foldl (\<lambda>nodes (bls, owner).
             update_first (\<lambda>node. nd_bls node = bls) (\<lambda>node. node\<lparr>nd_owner := owner\<rparr>) nodes)
             nodes (zip blses owners)))))"

definition deleteOwnersForAddressInCache :: "'s node_env \<Rightarrow> node list \<Rightarrow> string \<Rightarrow> ('s, string list) io" where
  "deleteOwnersForAddressInCache env allNodes address =
     io_bind (ne_getCurrentEpoch env) (\<lambda>epoch.
     let keys = map (\<lambda>x. ci_key (owner_cache_info env epoch (nd_bls x))) (filter (\<lambda>x. nd_owner x = Some address) allNodes)
     in io_bind (io_mapM (ne_deleteInCache env) keys) (\<lambda>_. io_return keys))"

section \<open>The queue\<close>

text \<open>A number of a contract: \<open>BigInt(hex ? '0x' + hex : hex)\<close> of the decoded value.\<close>

definition hex_BigInt :: "'s node_env \<Rightarrow> string \<Rightarrow> int res" where
  "hex_BigInt env encoded =
     (let hex = ne_base64ToHex env encoded in js_BigInt (if hex \<noteq> [] then ''0x'' @ hex else hex))"

text \<open>The queue of the staking contract: triples of a key, a reward address and a nonce.\<close>

fun queue_items :: "'s node_env \<Rightarrow> nat \<Rightarrow> string list \<Rightarrow> queue_item list res" where
  "queue_items env k (bls # rewards # nonce # rest) =
     res_bind (ne_bech32Encode env (ne_base64ToHex env rewards)) (\<lambda>rewardsAddress.
     res_bind (hex_BigInt env nonce) (\<lambda>n.
     res_bind (queue_items env (Suc k) rest) (\<lambda>items.
       Inr (\<lparr>qi_bls = ne_base64ToHex env bls, qi_nonce = n, qi_rewardsAddress = rewardsAddress,
             qi_position = Suc k\<rparr> # items))))"
| "queue_items env k [] = Inr []"
| "queue_items env k _ = Inl TypeError"

definition getQueue :: "'s node_env \<Rightarrow> ('s, queue_item list) io" where
  "getQueue env =
     (if \<not> truthy (ne_auctionContract env) then io_return []
      else if \<not> truthy (ne_stakingContract env) then io_return []
      else
        io_bind (ne_vmQuery env (the (ne_stakingContract env)) ''getQueueRegisterNonceAndRewardAddress''
                   (the (ne_auctionContract env)) []) (\<lambda>queueEncoded.
          case queueEncoded of None \<Rightarrow> io_return [] | Some list \<Rightarrow> io_lift (queue_items env 0 list)))"

section \<open>Auctions\<close>

text \<open>\<open>s || "0"\<close>.\<close>

definition or_zero :: "string option \<Rightarrow> string" where
  "or_zero s = (if truthy s then the s else ''0'')"

text \<open>\<open>getMinimumAuctionTopUp\<close> and \<open>getMinimumAuctionStake\<close> of the stake service.\<close>

definition all_auction_nodes :: "auction list \<Rightarrow> (auction \<times> auction_node) list" where
  "all_auction_nodes auctions = concat (map (\<lambda>auction. map (Pair auction) (coalesce (au_nodes auction) [])) auctions)"

fun minimum_top_up :: "(auction \<times> auction_node) list \<Rightarrow> string option \<Rightarrow> string option res" where
  "minimum_top_up [] m = Inr m"
| "minimum_top_up ((auction, auctionNode) # rest) m =
     (if \<not> an_qualified auctionNode then minimum_top_up rest m
      else if \<not> truthy m then minimum_top_up rest (Some (au_qualifiedTopUp auction))
      else
        res_bind (js_BigInt (the m)) (\<lambda>a.
        res_bind (js_BigInt (au_qualifiedTopUp auction)) (\<lambda>b.
          minimum_top_up rest (if a > b then Some (au_qualifiedTopUp auction) else m))))"

definition getMinimumAuctionTopUp :: "auction list \<Rightarrow> string option res" where
  "getMinimumAuctionTopUp auctions =
     (if auctions = [] then Inr None else minimum_top_up (all_auction_nodes auctions) None)"

definition getMinimumAuctionStake :: "auction list \<Rightarrow> string res" where
  "getMinimumAuctionStake auctions =
     res_bind (getMinimumAuctionTopUp auctions) (\<lambda>minimumAuctionTopUp.
     res_bind (if truthy minimumAuctionTopUp then js_BigInt (the minimumAuctionTopUp) else Inr 0) (\<lambda>topUp.
       Inr (int_str (2500000000000000000000 + topUp))))"

text \<open>One round of the inner loops of \<open>processAuctions\<close>: the node the auction names, then the danger zone.\<close>

definition mark_auctioned :: "int \<times> auction \<times> auction_node \<Rightarrow> node \<Rightarrow> node res" where
  "mark_auctioned = (\<lambda>(position, auction, auctionNode) node.
     if nd_bls node = an_blsKey auctionNode then
       res_bind (js_BigInt (nd_stake node)) (\<lambda>stake.
       res_bind (js_BigInt (au_qualifiedTopUp auction)) (\<lambda>topUp.
         Inr (node\<lparr>nd_auctioned := Some True, nd_auctionPosition := Some position,
                   nd_auctionTopUp := Some (au_qualifiedTopUp auction),
                   nd_auctionQualified := Some (an_qualified auctionNode),
                   nd_qualifiedStake := int_str (stake + topUp)\<rparr>)))
     else Inr node)"

definition mark_danger_zone :: "int \<Rightarrow> node \<Rightarrow> node res" where
  "mark_danger_zone dangerZoneThreshold node =
     res_bind (js_BigInt (or_zero (Some (nd_stake node)))) (\<lambda>nodeStake.
     res_bind (js_BigInt (or_zero (nd_auctionTopUp node))) (\<lambda>topUp.
       Inr (if nd_status node = Some ''auction'' \<and> nd_auctionQualified node = Some True
               \<and> nodeStake + topUp < dangerZoneThreshold
            then node\<lparr>nd_isInDangerZone := Some True\<rparr> else node)))"

definition auction_step :: "int \<Rightarrow> int \<times> auction \<times> auction_node \<Rightarrow> node \<Rightarrow> node res" where
  "auction_step dangerZoneThreshold x node = res_bind (mark_auctioned x node) (mark_danger_zone dangerZoneThreshold)"

fun auction_steps :: "int \<Rightarrow> (int \<times> auction \<times> auction_node) list \<Rightarrow> node \<Rightarrow> node res" where
  "auction_steps threshold [] node = Inr node"
| "auction_steps threshold (x # xs) node = res_bind (auction_step threshold x node) (auction_steps threshold xs)"

definition numbered :: "'a list \<Rightarrow> (int \<times> 'a) list" where
  "numbered xs = zip (map (\<lambda>i. int i + 1) [0..<length xs]) xs"

definition danger_zone_threshold :: "auction list \<Rightarrow> int res" where
  "danger_zone_threshold auctions =
     res_bind (getMinimumAuctionStake auctions) (\<lambda>minimumAuctionStake.
     res_bind (js_BigInt minimumAuctionStake) (\<lambda>m. Inr ((m * 105) sdiv 100)))"

definition processAuctions :: "node list \<Rightarrow> auction list \<Rightarrow> node list res" where
  "processAuctions nodes auctions =
     res_bind (danger_zone_threshold auctions) (\<lambda>threshold.
       res_map (auction_steps threshold (numbered (all_auction_nodes auctions))) nodes)"

section \<open>The nodes and their pages\<close>

definition getHeartbeatValidatorsAndQueue :: "'s node_env \<Rightarrow> ('s, node list) io" where
  "getHeartbeatValidatorsAndQueue env =
     io_bind (ne_getHeartbeatAndValidators env) (\<lambda>nodes.
     io_bind (getQueue env) (\<lambda>queue. io_return (processQueuedNodes nodes queue)))"

definition getAllNodesRaw :: "'s node_env \<Rightarrow> ('s, node list) io" where
  "getAllNodesRaw env =
     (if ne_isNodesFetchFeatureEnabled env then ne_getNodesFromService env
      else
        io_bind (getHeartbeatValidatorsAndQueue env) (\<lambda>nodes.
        io_bind (applyNodeIdentities env nodes) (\<lambda>nodes.
        io_bind (applyNodeOwners env nodes) (\<lambda>nodes.
        io_bind (applyNodeProviders env nodes) (\<lambda>nodes.
        io_bind (applyNodeStakeInfo env nodes) (\<lambda>nodes.
        io_bind (ne_getCurrentEpoch env) (\<lambda>currentEpoch.
        io_bind (if ne_isStakingV4Enabled env \<and> currentEpoch \<ge> ne_stakingV4ActivationEpoch env then
                   io_bind (ne_getValidatorAuctions env) (\<lambda>auctions. io_lift (processAuctions nodes auctions))
                 else io_return nodes) (\<lambda>nodes.
          applyNodeUnbondingPeriods env nodes))))))))"

definition getAllNodes :: "'s node_env \<Rightarrow> ('s, node list) io" where
  "getAllNodes env =
     ne_getOrSetNodes env (ci_key (CacheInfo_Nodes (ne_consts env))) (getAllNodesRaw env)
       (ci_ttl (CacheInfo_Nodes (ne_consts env)))"

definition getNode :: "'s node_env \<Rightarrow> string \<Rightarrow> ('s, node option) io" where
  "getNode env bls =
     io_bind (getAllNodes env) (\<lambda>allNodes.
       case find (\<lambda>x. nd_bls x = bls) allNodes of
         None \<Rightarrow> io_return None
       | Some node \<Rightarrow>
           if ne_isNodeEpochsLeftEnabled env \<and> nd_status node = Some ''waiting'' then
             io_bind (ne_getNodeWaitingEpochsLeft env bls) (\<lambda>n. io_return (Some (node\<lparr>nd_epochsLeft := Some n\<rparr>)))
           else io_return (Some node))"

definition getFilteredNodes :: "'s node_env \<Rightarrow> node_filter \<Rightarrow> ('s, node list) io" where
  "getFilteredNodes env query = io_bind (getAllNodes env) (\<lambda>allNodes. io_return (filter_nodes env query allNodes))"

definition getNodeCount :: "'s node_env \<Rightarrow> node_filter \<Rightarrow> ('s, nat) io" where
  "getNodeCount env query = io_bind (getFilteredNodes env query) (\<lambda>nodes. io_return (length nodes))"

definition identity_of :: "identity_info list \<Rightarrow> string \<Rightarrow> identity_info option" where
  "identity_of identities i =
     map_of (rev (map (\<lambda>x. (coalesce (ii_identity x) [], x)) identities)) i"

definition getNodes :: "'s node_env \<Rightarrow> nat \<Rightarrow> nat \<Rightarrow> node_filter \<Rightarrow> ('s, node list) io" where
  "getNodes env start amount query =
     io_bind (getFilteredNodes env query) (\<lambda>filteredNodes.
     let resultNodes = slice start (start + amount) filteredNodes in
     if nf_withIdentityInfo query = Some True then
       io_bind (ne_getAllIdentities env) (\<lambda>allIdentities.
         io_return (map (\<lambda>node.
           if truthy (nd_identity node) then
             (case identity_of allIdentities (the (nd_identity node)) of
                None \<Rightarrow> node | Some identity \<Rightarrow> node\<lparr>nd_identityInfo := Some identity\<rparr>)
           else node) resultNodes))
     else io_return resultNodes)"

definition auction_group_key :: "node \<Rightarrow> string res" where
  "auction_group_key node =
     res_bind (js_BigInt (nd_stake node)) (\<lambda>stake.
     res_bind (js_BigInt (nd_topUp node)) (\<lambda>topUp.
       Inr (coalesce (provider_or_owner node) ''undefined'' @ '':'' @ int_str stake @ int_str topUp)))"

definition node_auction_of :: "'s node_env \<Rightarrow> node list \<Rightarrow> ('s, node_auction) io" where
  "node_auction_of env members =
     (let node = hd members
      in io_bind (if truthy (nd_identity node) then ne_getIdentity env (the (nd_identity node)) else io_return None) (\<lambda>identity.
         io_return
           \<lparr>na_info = identity, na_stake = or_zero (Some (nd_stake node)),
            na_owner = coalesce (nd_owner node) [], na_provider = coalesce (nd_provider node) [],
            na_auctionTopUp = or_zero (nd_auctionTopUp node), na_qualifiedStake = or_zero (Some (nd_qualifiedStake node)),
            na_auctionValidators = length (filter (\<lambda>n. nd_auctioned n = Some True) members),
            na_qualifiedAuctionValidators = length (filter (\<lambda>n. nd_auctionQualified n = Some True) members),
            na_droppedValidators = length (filter (\<lambda>n. nd_auctionQualified n = Some False) members),
            na_dangerZoneValidators = length (filter (\<lambda>n. nd_isInDangerZone n = Some True) members),
            na_bls = (if length members = 1 \<and> \<not> truthy (nd_provider node) \<and> \<not> truthy (nd_identity node)
                      then nd_bls node else [])\<rparr>))"

definition getAllNodesAuctionsRaw :: "'s node_env \<Rightarrow> ('s, node_auction list) io" where
  "getAllNodesAuctionsRaw env =
     io_bind (getNodes env 0 10000 (no_filter\<lparr>nf_status := Some ''auction''\<rparr>)) (\<lambda>allNodes.
     io_bind (io_lift (res_map auction_group_key allNodes)) (\<lambda>_.
       io_mapM (node_auction_of env)
         (ne_groupBy env (\<lambda>node. case auction_group_key node of Inr k \<Rightarrow> k | Inl _ \<Rightarrow> []) allNodes)))"

definition getAllNodesAuctions :: "'s node_env \<Rightarrow> ('s, node_auction list) io" where
  "getAllNodesAuctions env =
     ne_getOrSetAuctions env (ci_key (CacheInfo_NodesAuctions (ne_consts env))) (getAllNodesAuctionsRaw env)
       (ci_ttl (CacheInfo_NodesAuctions (ne_consts env)))"

definition auction_number :: "'s node_env \<Rightarrow> node_sort_auction \<Rightarrow> node_auction \<Rightarrow> int option" where
  "auction_number env field node =
     (case field of
        NSA_auctionValidators \<Rightarrow> Some (int (na_auctionValidators node))
      | NSA_droppedValidators \<Rightarrow> Some (int (na_droppedValidators node))
      | NSA_qualifiedAuctionValidators \<Rightarrow> Some (int (na_qualifiedAuctionValidators node))
      | NSA_qualifiedStake \<Rightarrow> ne_Number env (na_qualifiedStake node)
      | NSA_dangerZoneValidators \<Rightarrow> Some (int (na_dangerZoneValidators node)))"

text \<open>The last line of the method is \<open>slice(pagination.from, pagination.size)\<close>.\<close>

definition getNodesAuctions ::
  "'s node_env \<Rightarrow> nat \<Rightarrow> nat \<Rightarrow> node_sort_auction option \<Rightarrow> sort_order option \<Rightarrow> ('s, node_auction list) io" where
  "getNodesAuctions env start amount sortField sortOrder =
     io_bind (getAllNodesAuctions env) (\<lambda>nodesWithAuctionData.
     let field = coalesce sortField NSA_qualifiedStake;
         order = (if sortField = None \<and> sortOrder = None then Some Sort_desc else sortOrder);
         ordered = ne_sorted env
           [auction_number env field,
            \<lambda>node. Some (if na_qualifiedAuctionValidators node = 0 then 0 else 1),
            \<lambda>node. Some (0 - int (na_droppedValidators node))] nodesWithAuctionData
     in io_return (slice start amount (if order = Some Sort_desc then rev ordered else ordered)))"

section \<open>Lemmas on the order\<close>

lemma mset_js_sort [simp]: "mset (js_sort cmp xs) = mset xs"
proof -
  have ins: "mset (js_insert cmp x ys) = add_mset x (mset ys)" for x ys
    by (induction ys) auto
  show ?thesis by (induction xs) (simp_all add: js_sort_def ins)
qed

lemma set_js_insert [simp]: "set (js_insert cmp x ys) = insert x (set ys)"
  by (induction ys) auto

lemma set_js_sort [simp]: "set (js_sort cmp xs) = set xs"
  by (metis mset_js_sort set_mset_mset)

lemma sorted_js_sort:
  assumes total: "\<And>x y. x \<in> set xs \<Longrightarrow> y \<in> set xs \<Longrightarrow> cmp x y \<le> 0 \<or> cmp y x \<le> 0"
    and trans: "\<And>x y z. x \<in> set xs \<Longrightarrow> y \<in> set xs \<Longrightarrow> z \<in> set xs \<Longrightarrow> cmp x y \<le> 0 \<Longrightarrow> cmp y z \<le> 0 \<Longrightarrow> cmp x z \<le> 0"
  shows "sorted_wrt (\<lambda>x y. cmp x y \<le> 0) (js_sort cmp xs)"
proof -
  have ins: "sorted_wrt (\<lambda>x y. cmp x y \<le> 0) (js_insert cmp x ys)"
    if "sorted_wrt (\<lambda>x y. cmp x y \<le> 0) ys" "x \<in> set xs" "set ys \<subseteq> set xs" for x ys
    using that
  proof (induction ys)
    case Nil
    then show ?case by simp
  next
    case (Cons y ys)
    have y: "y \<in> set xs" and ys: "set ys \<subseteq> set xs" using Cons.prems by auto
    show ?case
    proof (cases "cmp x y \<le> 0")
      case True
      have "cmp x z \<le> 0" if "z \<in> set ys" for z
        using trans [of x y z] that True Cons.prems ys y by auto
      with True Cons.prems show ?thesis by simp
    next
      case False
      then have "cmp y x \<le> 0" using total [of x y] Cons.prems y by auto
      moreover have "sorted_wrt (\<lambda>x y. cmp x y \<le> 0) (js_insert cmp x ys)"
        using Cons.IH Cons.prems ys by simp
      ultimately show ?thesis using False Cons.prems by simp
    qed
  qed
  have "sorted_wrt (\<lambda>x y. cmp x y \<le> 0) (js_sort cmp ys)" if "set ys \<subseteq> set xs" for ys
    using that
  proof (induction ys)
    case Nil
    then show ?case by (simp add: js_sort_def)
  next
    case (Cons y ys)
    then have "sorted_wrt (\<lambda>x y. cmp x y \<le> 0) (js_insert cmp y (js_sort cmp ys))"
      by (intro ins) auto
    then show ?case by (simp add: js_sort_def)
  qed
  then show ?thesis by simp
qed

lemma stable_js_sort:
  assumes "\<And>x y. P x \<Longrightarrow> P y \<Longrightarrow> cmp x y \<le> 0"
  shows "filter P (js_sort cmp xs) = filter P xs"
proof -
  have ins: "filter P (js_insert cmp x ys) = (if P x then x # filter P ys else filter P ys)" for x ys
    using assms by (induction ys) auto
  show ?thesis by (induction xs) (auto simp: js_sort_def ins)
qed

text \<open>Values of one kind, which are all comparable.\<close>

definition comparable :: "sort_value list \<Rightarrow> bool" where
  "comparable vs \<longleftrightarrow> (\<forall>v \<in> set vs. \<exists>n. v = SV_num n) \<or> (\<forall>v \<in> set vs. \<exists>s. v = SV_str s)"

lemma compare_values_le: "compare_values a b \<le> 0 \<longleftrightarrow> \<not> value_gt a b"
  by (simp add: compare_values_def)

lemma compare_values_order:
  assumes "comparable vs" and "a \<in> set vs" and "b \<in> set vs" and "c \<in> set vs"
  shows "\<not> value_gt a b \<or> \<not> value_gt b a" and "\<not> value_gt a b \<Longrightarrow> \<not> value_gt b c \<Longrightarrow> \<not> value_gt a c"
proof -
  from assms consider (num) l m n where "a = SV_num l" "b = SV_num m" "c = SV_num n"
    | (str) l m n where "a = SV_str l" "b = SV_str m" "c = SV_str n"
    unfolding comparable_def by metis
  then show "\<not> value_gt a b \<or> \<not> value_gt b a" and "\<not> value_gt a b \<Longrightarrow> \<not> value_gt b c \<Longrightarrow> \<not> value_gt a c"
    by (cases; auto)+
qed

text \<open>The sort of nodes with comparable values.\<close>

lemma node_order:
  assumes "comparable (map (node_value env field) nodes)"
  shows "sorted_wrt (\<lambda>a b. \<not> value_gt (node_value env field a) (node_value env field b))
      (js_sort (\<lambda>a b. compare_values (node_value env field a) (node_value env field b)) nodes)
    \<and> filter (\<lambda>n. node_value env field n = v) (js_sort (\<lambda>a b. compare_values (node_value env field a) (node_value env field b)) nodes)
      = filter (\<lambda>n. node_value env field n = v) nodes"
proof -
  let ?c = "\<lambda>a b. compare_values (node_value env field a) (node_value env field b)"
  have order: "\<not> value_gt (node_value env field a) (node_value env field b) \<or> \<not> value_gt (node_value env field b) (node_value env field a)"
    "\<not> value_gt (node_value env field a) (node_value env field b) \<Longrightarrow> \<not> value_gt (node_value env field b) (node_value env field c)
     \<Longrightarrow> \<not> value_gt (node_value env field a) (node_value env field c)"
    if "a \<in> set nodes" "b \<in> set nodes" "c \<in> set nodes" for a b c
    using compare_values_order [OF assms, of "node_value env field a" "node_value env field b" "node_value env field c"]
      that by auto
  have "sorted_wrt (\<lambda>a b. ?c a b \<le> 0) (js_sort ?c nodes)"
  proof (rule sorted_js_sort)
    show "?c a b \<le> 0 \<or> ?c b a \<le> 0" if "a \<in> set nodes" "b \<in> set nodes" for a b
      unfolding compare_values_le by (rule order(1) [OF that that(1)])
    show "?c a c \<le> 0" if "a \<in> set nodes" "b \<in> set nodes" "c \<in> set nodes" "?c a b \<le> 0" "?c b c \<le> 0" for a b c
      using order(2) [OF that(1-3)] that(4,5) unfolding compare_values_le by blast
  qed
  moreover have "filter (\<lambda>n. node_value env field n = v) (js_sort ?c nodes) = filter (\<lambda>n. node_value env field n = v) nodes"
    by (rule stable_js_sort) (cases v; simp add: compare_values_le)
  ultimately show ?thesis by (simp add: compare_values_le)
qed

section \<open>Lemmas on auctions\<close>

text \<open>What an auction makes of the node it names.\<close>

definition auctioned_node :: "int \<Rightarrow> int \<times> auction \<times> auction_node \<Rightarrow> int \<Rightarrow> int \<Rightarrow> node \<Rightarrow> node" where
  "auctioned_node threshold = (\<lambda>(position, auction, auctionNode) stake topUp node.
     (let named = node\<lparr>nd_auctioned := Some True, nd_auctionPosition := Some position,
                nd_auctionTopUp := Some (au_qualifiedTopUp auction),
                nd_auctionQualified := Some (an_qualified auctionNode),
                nd_qualifiedStake := int_str (stake + topUp)\<rparr>
      in if nd_status node = Some ''auction'' \<and> an_qualified auctionNode \<and> stake + topUp < threshold
         then named\<lparr>nd_isInDangerZone := Some True\<rparr> else named))"

lemma auctioned_node_eq:
  "auctioned_node threshold (p, a, an) stake topUp node =
     node\<lparr>nd_auctioned := Some True, nd_auctionPosition := Some p, nd_auctionTopUp := Some (au_qualifiedTopUp a),
       nd_auctionQualified := Some (an_qualified an), nd_qualifiedStake := int_str (stake + topUp),
       nd_isInDangerZone := (if nd_status node = Some ''auction'' \<and> an_qualified an \<and> stake + topUp < threshold
         then Some True else nd_isInDangerZone node)\<rparr>"
  by (simp add: auctioned_node_def Let_def)

lemma BigInt_empty [simp]: "js_BigInt [] = Inr 0" "js_BigInt ''0'' = Inr 0"
  by code_simp+

lemma BigInt_or_zero: "js_BigInt (coalesce s []) = Inr v \<Longrightarrow> js_BigInt (or_zero s) = Inr v"
  by (cases s) (auto simp: or_zero_def)

lemma mark_danger_zone_eq:
  assumes "js_BigInt (nd_stake node) = Inr v" and "js_BigInt (coalesce (nd_auctionTopUp node) []) = Inr w"
  shows "mark_danger_zone threshold node = Inr
    (if nd_status node = Some ''auction'' \<and> nd_auctionQualified node = Some True \<and> v + w < threshold
     then node\<lparr>nd_isInDangerZone := Some True\<rparr> else node)"
proof -
  have "js_BigInt (or_zero (Some (nd_stake node))) = Inr v" by (rule BigInt_or_zero) (simp add: assms)
  moreover have "js_BigInt (or_zero (nd_auctionTopUp node)) = Inr w" by (rule BigInt_or_zero) (simp add: assms)
  ultimately show ?thesis by (simp add: mark_danger_zone_def)
qed

text \<open>A node whose danger zone is settled, and that no later auction names, stays as it is.\<close>

definition settled :: "int \<Rightarrow> node \<Rightarrow> bool" where
  "settled threshold node \<longleftrightarrow>
     (\<exists>v w. js_BigInt (nd_stake node) = Inr v \<and> js_BigInt (coalesce (nd_auctionTopUp node) []) = Inr w \<and>
       (nd_status node = Some ''auction'' \<and> nd_auctionQualified node = Some True \<and> v + w < threshold \<longrightarrow>
        nd_isInDangerZone node = Some True))"

lemma mark_danger_zone_settled:
  assumes "settled threshold node" shows "mark_danger_zone threshold node = Inr node"
proof -
  obtain v w where "js_BigInt (nd_stake node) = Inr v" and "js_BigInt (coalesce (nd_auctionTopUp node) []) = Inr w"
    and zone: "nd_status node = Some ''auction'' \<and> nd_auctionQualified node = Some True \<and> v + w < threshold \<longrightarrow>
        nd_isInDangerZone node = Some True"
    using assms unfolding settled_def by blast
  then have "mark_danger_zone threshold node = Inr
    (if nd_status node = Some ''auction'' \<and> nd_auctionQualified node = Some True \<and> v + w < threshold
     then node\<lparr>nd_isInDangerZone := Some True\<rparr> else node)"
    by (intro mark_danger_zone_eq)
  then show ?thesis using zone by auto
qed

lemma auction_step_other:
  assumes "settled threshold node" and "an_blsKey an \<noteq> nd_bls node"
  shows "auction_step threshold (p, a, an) node = Inr node"
  using assms mark_danger_zone_settled [OF assms(1)] by (auto simp: auction_step_def mark_auctioned_def)

lemma auction_steps_settled:
  assumes "settled threshold node" and "\<forall>(p, a, an) \<in> set xs. an_blsKey an \<noteq> nd_bls node"
  shows "auction_steps threshold xs node = Inr node"
  using assms(2)
proof (induction xs)
  case Nil
  then show ?case by simp
next
  case (Cons x xs)
  obtain p a an where x: "x = (p, a, an)" by (cases x)
  have "auction_step threshold x node = Inr node"
    using auction_step_other [OF assms(1), of an p a] Cons.prems x by simp
  with Cons show ?case by simp
qed

lemma auction_step_match:
  assumes bls: "nd_bls node = an_blsKey an" and v: "js_BigInt (nd_stake node) = Inr v"
    and w: "js_BigInt (au_qualifiedTopUp a) = Inr w"
  shows "auction_step threshold (p, a, an) node = Inr (auctioned_node threshold (p, a, an) v w node)"
proof -
  let ?named = "node\<lparr>nd_auctioned := Some True, nd_auctionPosition := Some p,
                nd_auctionTopUp := Some (au_qualifiedTopUp a), nd_auctionQualified := Some (an_qualified an),
                nd_qualifiedStake := int_str (v + w)\<rparr>"
  have "mark_auctioned (p, a, an) node = Inr ?named"
    by (simp add: mark_auctioned_def bls v w)
  moreover have "mark_danger_zone threshold ?named = Inr (auctioned_node threshold (p, a, an) v w node)"
    by (subst mark_danger_zone_eq [where v = v and w = w]) (auto simp: v w auctioned_node_def Let_def)
  ultimately show ?thesis by (simp add: auction_step_def)
qed

lemma auctioned_settled:
  assumes "js_BigInt (nd_stake node) = Inr v" and "js_BigInt (au_qualifiedTopUp a) = Inr w"
  shows "settled threshold (auctioned_node threshold (p, a, an) v w node)"
  using assms by (auto simp: settled_def auctioned_node_def Let_def)

lemma auction_steps_spec:
  assumes fresh: "settled threshold node" and v: "js_BigInt (nd_stake node) = Inr v"
    and keys: "distinct (map (\<lambda>(p, a, an). an_blsKey an) xs)"
    and tops: "\<forall>(p, a, an) \<in> set xs. js_BigInt (au_qualifiedTopUp a) = Inr (amount_of a)"
  shows "auction_steps threshold xs node = Inr
    (case find (\<lambda>(p, a, an). an_blsKey an = nd_bls node) xs of
       None \<Rightarrow> node
     | Some (p, a, an) \<Rightarrow> auctioned_node threshold (p, a, an) v (amount_of a) node)"
  using keys tops
proof (induction xs)
  case Nil
  then show ?case by simp
next
  case (Cons x xs)
  obtain p a an where x: "x = (p, a, an)" by (cases x)
  show ?case
  proof (cases "an_blsKey an = nd_bls node")
    case True
    have w: "js_BigInt (au_qualifiedTopUp a) = Inr (amount_of a)" using Cons.prems(2) x by simp
    have bls: "nd_bls (auctioned_node threshold (p, a, an) v (amount_of a) node) = nd_bls node"
      by (simp add: auctioned_node_def Let_def)
    have rest: "\<forall>(p', a', an') \<in> set xs. an_blsKey an' \<noteq> nd_bls (auctioned_node threshold (p, a, an) v (amount_of a) node)"
      using Cons.prems(1) True x bls by force
    show ?thesis
      using True auction_step_match [OF True [symmetric] v w]
        auction_steps_settled [OF auctioned_settled [OF v w] rest]
      by (simp add: x)
  next
    case False
    have "auction_steps threshold [x] node = Inr node"
      by (rule auction_steps_settled [OF fresh]) (use False x in simp)
    then have "auction_step threshold x node = Inr node"
      by (cases "auction_step threshold x node") auto
    with Cons False x show ?thesis by auto
  qed
qed

section \<open>Lemmas on owners and the queue\<close>

text \<open>
  What the staking contract is relied on for: every key has at most one owner, the owner lists
  its keys, and the calls and the cache writes return.
\<close>

definition owners_known :: "'s node_env \<Rightarrow> int \<Rightarrow> (string \<rightharpoonup> string) \<Rightarrow> bool" where
  "owners_known env epoch owner_of \<longleftrightarrow>
     (\<forall>bls s. fst (getBlsOwner env bls s) = Inr (owner_of bls))
     \<and> (\<forall>bls owner. owner_of bls = Some owner \<longrightarrow> owner \<noteq> [] \<and>
          (\<forall>s. \<exists>blses. fst (getOwnerBlses env owner s) = Inr blses \<and> bls \<in> set blses
                 \<and> (\<forall>b \<in> set blses. owner_of b = Some owner)))
     \<and> (\<forall>k v ttl s. fst (ne_setRemote env k v ttl s) = Inr ())"

lemma remember_owners:
  assumes "\<forall>k v ttl s. fst (ne_setRemote env k v ttl s) = Inr ()"
  shows "\<exists>t. io_fold (remember_owner env epoch owner) blses owners s
    = (Inr (\<lambda>b. if b \<in> set blses then Some owner else owners b), t)"
proof (induction blses arbitrary: owners s)
  case Nil
  then show ?case by (simp add: io_simps)
next
  case (Cons b blses)
  have "fst (remember_owner env epoch owner b owners s) = Inr (owners(b \<mapsto> owner))"
    using assms by (auto simp: remember_owner_def io_simps split: prod.splits sum.splits dest: spec)
      (metis fst_conv sum.distinct(1))
  then obtain t where step: "remember_owner env epoch owner b owners s = (Inr (owners(b \<mapsto> owner)), t)"
    by (cases "remember_owner env epoch owner b owners s") auto
  obtain u where "io_fold (remember_owner env epoch owner) blses (owners(b \<mapsto> owner)) t
    = (Inr (\<lambda>x. if x \<in> set blses then Some owner else (owners(b \<mapsto> owner)) x), u)"
    using Cons.IH by blast
  with step show ?case by (auto simp: io_simps fun_eq_iff)
qed

lemma find_missing_owner_step:
  assumes known: "owners_known env epoch owner_of" and sub: "owners \<subseteq>\<^sub>m owner_of"
  shows "\<exists>owners' t. find_missing_owner env epoch bls owners s = (Inr owners', t) \<and> owners' \<subseteq>\<^sub>m owner_of
    \<and> owners \<subseteq>\<^sub>m owners' \<and> owners' bls = owner_of bls"
proof (cases "truthy (owners bls)")
  case True
  then obtain owner where "owners bls = Some owner" by (cases "owners bls") auto
  with sub have "owner_of bls = Some owner" by (metis domI map_le_def)
  with True sub \<open>owners bls = Some owner\<close> show ?thesis by (simp add: find_missing_owner_def io_simps)
next
  case False
  have none: "owners bls = None"
  proof (cases "owners bls")
    case (Some owner)
    then have "owner_of bls = Some owner" using sub by (metis domI map_le_def)
    then have "owner \<noteq> []" using known unfolding owners_known_def by blast
    then show ?thesis using False Some by simp
  qed simp
  obtain t where owner: "getBlsOwner env bls s = (Inr (owner_of bls), t)"
    using known unfolding owners_known_def by (metis prod.collapse)
  show ?thesis
  proof (cases "owner_of bls")
    case None
    with owner False sub none show ?thesis by (simp add: find_missing_owner_def io_simps)
  next
    case (Some own)
    have "own \<noteq> [] \<and> (\<forall>s. \<exists>blses. fst (getOwnerBlses env own s) = Inr blses \<and> bls \<in> set blses
                 \<and> (\<forall>b \<in> set blses. owner_of b = Some own))"
      using known Some unfolding owners_known_def by blast
    then obtain blses where "fst (getOwnerBlses env own t) = Inr blses" and member: "bls \<in> set blses"
      and owned: "\<forall>b \<in> set blses. owner_of b = Some own" and own: "own \<noteq> []"
      by blast
    then obtain u where blses: "getOwnerBlses env own t = (Inr blses, u)" by (metis prod.collapse)
    obtain w where fold: "io_fold (remember_owner env epoch own) blses owners u
      = (Inr (\<lambda>b. if b \<in> set blses then Some own else owners b), w)"
      using remember_owners [of env epoch own blses owners u] known unfolding owners_known_def by blast
    have "find_missing_owner env epoch bls owners s = (Inr (\<lambda>b. if b \<in> set blses then Some own else owners b), w)"
      using False owner Some own blses fold by (simp add: find_missing_owner_def io_simps)
    moreover have "owners b = Some own" if "b \<in> set blses" "b \<in> dom owners" for b
      using sub that owned by (simp add: map_le_def)
    then have "owners \<subseteq>\<^sub>m (\<lambda>b. if b \<in> set blses then Some own else owners b)"
      by (simp add: map_le_def)
    moreover have "(\<lambda>b. if b \<in> set blses then Some own else owners b) \<subseteq>\<^sub>m owner_of"
      using sub owned by (auto simp: map_le_def split: if_splits)
    ultimately show ?thesis using member Some by (intro exI conjI) (assumption | simp)+
  qed
qed

lemma find_missing_owners:
  assumes known: "owners_known env epoch owner_of" and sub: "owners \<subseteq>\<^sub>m owner_of"
  shows "\<exists>owners' t. io_fold (find_missing_owner env epoch) missing owners s = (Inr owners', t) \<and> owners' \<subseteq>\<^sub>m owner_of
    \<and> owners \<subseteq>\<^sub>m owners' \<and> (\<forall>bls \<in> set missing. owners' bls = owner_of bls)"
  using sub
proof (induction missing arbitrary: owners s)
  case Nil
  then show ?case by (simp add: io_simps)
next
  case (Cons bls missing)
  obtain o1 t where step: "find_missing_owner env epoch bls owners s = (Inr o1, t)" "o1 \<subseteq>\<^sub>m owner_of"
    "owners \<subseteq>\<^sub>m o1" "o1 bls = owner_of bls"
    using find_missing_owner_step [OF known Cons.prems] by metis
  obtain o2 u where rest: "io_fold (find_missing_owner env epoch) missing o1 t = (Inr o2, u)" "o2 \<subseteq>\<^sub>m owner_of"
    "o1 \<subseteq>\<^sub>m o2" "\<forall>bls \<in> set missing. o2 bls = owner_of bls"
    using Cons.IH [OF step(2)] by metis
  have "o2 bls = owner_of bls"
    using step(4) rest(2,3) by (metis domIff map_le_def)
  with step rest show ?case by (auto simp: io_simps intro: map_le_trans)
qed

lemma update_first_key:
  assumes "distinct (map k xs)"
  shows "update_first (\<lambda>x. k x = a) f xs = map (\<lambda>x. if k x = a then f x else x) xs"
proof (cases "filter (\<lambda>i. k (xs ! i) = a) [0..<length xs]")
  case Nil
  then have "k x \<noteq> a" if "x \<in> set xs" for x
    using that by (auto simp: filter_empty_conv in_set_conv_nth)
  then show ?thesis using Nil by (auto simp: update_first_def intro: map_idI [symmetric])
next
  case (Cons i js)
  then have "i \<in> set (filter (\<lambda>i. k (xs ! i) = a) [0..<length xs])" by simp
  then have i: "i < length xs" "k (xs ! i) = a" by auto
  have only: "j = i" if "j < length xs" "k (xs ! j) = a" for j
    using nth_eq_iff_index_eq [OF assms, of j i] that i by simp
  have "update_first (\<lambda>x. k x = a) f xs = xs[i := f (xs ! i)]"
    unfolding update_first_def Cons by simp
  also have "\<dots> = map (\<lambda>x. if k x = a then f x else x) xs"
  proof (rule nth_equalityI)
    fix j assume j: "j < length (xs[i := f (xs ! i)])"
    show "xs[i := f (xs ! i)] ! j = map (\<lambda>x. if k x = a then f x else x) xs ! j"
    proof (cases "j = i")
      case True
      then show ?thesis using i(1) by (simp add: i(2))
    next
      case False
      then have "k (xs ! j) \<noteq> a" using j only [of j] by auto
      then show ?thesis using False j by simp
    qed
  qed simp
  finally show ?thesis .
qed

text \<open>What the queue makes of a node it names.\<close>

definition queued_node :: "queue_item \<Rightarrow> node \<Rightarrow> node" where
  "queued_node item node =
     node\<lparr>nd_type := Some NT_validator, nd_status := Some ''queued'', nd_position := int (qi_position item)\<rparr>"

lemma queued_node_bls [simp]: "nd_bls (queued_node item node) = nd_bls node"
  by (simp add: queued_node_def)

lemma processQueueItem_eq:
  assumes "distinct (map nd_bls nodes)"
  shows "processQueueItem nodes item =
    (if qi_bls item \<in> nd_bls ` set nodes
     then map (\<lambda>node. if nd_bls node = qi_bls item then queued_node item node else node) nodes
     else nodes @ [queued_node item (new_node\<lparr>nd_bls := qi_bls item\<rparr>)])"
proof -
  have fresh: "new_node\<lparr>nd_bls := qi_bls item, nd_position := int (qi_position item),
                      nd_type := Some NT_validator, nd_status := Some ''queued''\<rparr>
    = queued_node item (new_node\<lparr>nd_bls := qi_bls item\<rparr>)"
    by (simp add: queued_node_def new_node_def)
  show ?thesis
    using update_first_key [OF assms, of "qi_bls item" "queued_node item"]
    unfolding processQueueItem_def fresh
    by (cases "\<exists>node \<in> set nodes. nd_bls node = qi_bls item") (simp_all add: queued_node_def [abs_def] image_iff eq_commute)
qed

text \<open>The top-ups of the qualified nodes of the auctions.\<close>

definition qualified_tops :: "(auction \<times> auction_node) list \<Rightarrow> string set" where
  "qualified_tops xs = (au_qualifiedTopUp \<circ> fst) ` {x \<in> set xs. an_qualified (snd x)}"

lemma qualified_tops_simps [simp]:
  "qualified_tops [] = {}"
  "qualified_tops ((a, an) # xs) = (if an_qualified an then insert (au_qualifiedTopUp a) (qualified_tops xs) else qualified_tops xs)"
  by (auto simp: qualified_tops_def image_iff) (metis fst_conv snd_conv)+

definition tops_parse :: "(string \<Rightarrow> int) \<Rightarrow> (auction \<times> auction_node) list \<Rightarrow> bool" where
  "tops_parse amount_of xs \<longleftrightarrow> (\<forall>x \<in> set xs. au_qualifiedTopUp (fst x) \<noteq> []
     \<and> js_BigInt (au_qualifiedTopUp (fst x)) = Inr (amount_of (au_qualifiedTopUp (fst x))))"

lemma minimum_top_up_some:
  assumes "tops_parse amount_of xs"
    and "m0 \<noteq> []" and "js_BigInt m0 = Inr (amount_of m0)"
  shows "\<exists>topUp. minimum_top_up xs (Some m0) = Inr (Some topUp)
    \<and> is_arg_min (amount_of :: string \<Rightarrow> int) (\<lambda>t. t \<in> insert m0 (qualified_tops xs)) topUp"
  using assms
proof (induction xs arbitrary: m0)
  case Nil
  then show ?case by (simp add: is_arg_min_def)
next
  case (Cons x xs)
  obtain a an where x: "x = (a, an)" by (cases x)
  have top: "au_qualifiedTopUp a \<noteq> []" "js_BigInt (au_qualifiedTopUp a) = Inr (amount_of (au_qualifiedTopUp a))"
    using Cons.prems(1) x by (auto simp: tops_parse_def)
  have rest: "tops_parse amount_of xs" using Cons.prems(1) by (simp add: tops_parse_def)
  note IH = Cons.IH [OF rest]
  consider "\<not> an_qualified an" | "an_qualified an" "amount_of m0 > amount_of (au_qualifiedTopUp a)"
    | "an_qualified an" "amount_of m0 \<le> amount_of (au_qualifiedTopUp a)" by linarith
  then show ?case
  proof cases
    case 1
    then show ?thesis using IH [of m0] Cons.prems by (simp add: x)
  next
    case 2
    obtain t where t: "minimum_top_up xs (Some (au_qualifiedTopUp a)) = Inr (Some t)"
      "is_arg_min amount_of (\<lambda>t. t \<in> insert (au_qualifiedTopUp a) (qualified_tops xs)) t"
      using IH [of "au_qualifiedTopUp a"] top by blast
    have "is_arg_min amount_of (\<lambda>t. t \<in> insert m0 (qualified_tops (x # xs))) t"
      using t(2) 2 by (auto simp: is_arg_min_def x)
    with t(1) 2 show ?thesis using Cons.prems top by (auto simp: x)
  next
    case 3
    obtain t where t: "minimum_top_up xs (Some m0) = Inr (Some t)"
      "is_arg_min amount_of (\<lambda>t. t \<in> insert m0 (qualified_tops xs)) t"
      using IH [of m0] Cons.prems by blast
    have "is_arg_min amount_of (\<lambda>t. t \<in> insert m0 (qualified_tops (x # xs))) t"
      using t(2) 3 by (auto simp: is_arg_min_def x)
    with t(1) 3 show ?thesis using Cons.prems top by (auto simp: x)
  qed
qed

lemma minimum_top_up_none:
  assumes "tops_parse amount_of xs"
  shows "\<exists>m. minimum_top_up xs None = Inr m \<and>
    (if qualified_tops xs = {} then m = None
     else \<exists>topUp. m = Some topUp \<and> is_arg_min (amount_of :: string \<Rightarrow> int) (\<lambda>t. t \<in> qualified_tops xs) topUp)"
  using assms
proof (induction xs)
  case Nil
  then show ?case by simp
next
  case (Cons x xs)
  obtain a an where x: "x = (a, an)" by (cases x)
  have rest: "tops_parse amount_of xs" and top: "au_qualifiedTopUp a \<noteq> []"
    "js_BigInt (au_qualifiedTopUp a) = Inr (amount_of (au_qualifiedTopUp a))"
    using Cons.prems x by (auto simp: tops_parse_def)
  show ?case
  proof (cases "an_qualified an")
    case True
    then show ?thesis
      using minimum_top_up_some [OF rest top] by (fastforce simp: x)
  next
    case False
    then have "qualified_tops (x # xs) = qualified_tops xs" and "minimum_top_up (x # xs) None = minimum_top_up xs None"
      by (simp_all add: x)
    then show ?thesis using Cons.IH [OF rest] by (simp only:)
  qed
qed

section \<open>Properties\<close>

text \<open>A world without state, for the examples.\<close>

definition plain_nodes_env :: "'s node_env" where
  "plain_nodes_env =
     \<lparr>ne_consts = \<lparr>oneSecond = 1, oneMinute = 60, oneHour = 3600, oneDay = 86400, oneWeek = 604800\<rparr>,
      ne_Number = (\<lambda>s. Some (int (dec_val s))), ne_distinct = remdups,
      ne_groupBy = (\<lambda>key nodes. map (\<lambda>k. filter (\<lambda>n. key n = k) nodes) (remdups (map key nodes))),
      ne_sorted = (\<lambda>keys xs. xs), ne_base64ToHex = (\<lambda>s. s), ne_bech32Encode = Inr, ne_bech32Decode = Inr,
      ne_isNodeEpochsLeftEnabled = False, ne_isNodesFetchFeatureEnabled = False, ne_isStakingV4Enabled = True,
      ne_stakingV4ActivationEpoch = 0, ne_auctionContract = Some ''auction'', ne_stakingContract = Some ''staking'',
      ne_getOrSetNodes = (\<lambda>k m ttl. m), ne_getOrSetAuctions = (\<lambda>k m ttl. m),
      ne_getRemote = (\<lambda>k. io_return None), ne_setRemote = (\<lambda>k v ttl. io_return ()),
      ne_batchGetManyRemote = (\<lambda>ks. io_return (map (\<lambda>k. None) ks)), ne_deleteInCache = (\<lambda>k. io_return [k]),
      ne_getNodesFromService = io_return [], ne_getHeartbeatAndValidators = io_return [],
      ne_getCurrentEpoch = io_return 0, ne_getStakes = (\<lambda>as. io_return []), ne_getValidatorAuctions = io_return [],
      ne_getKeyUnbondPeriod = (\<lambda>b. io_return None), ne_getNodeWaitingEpochsLeft = (\<lambda>b. io_return 0),
      ne_getAllIdentities = io_return [], ne_getIdentity = (\<lambda>i. io_return None),
      ne_vmQuery = (\<lambda>contract function caller args. io_return
        (if function = ''getOwner'' then if args = [''k1''] \<or> args = [''k2''] then Some [''alice''] else None
         else Some [''k1'', ''staked'', ''k2'', ''queued'']))\<rparr>"

abbreviation nodes_sample_env :: "unit node_env" where
  "nodes_sample_env \<equiv> plain_nodes_env"

definition sample_auction :: node_auction where
  "sample_auction = \<lparr>na_info = None, na_stake = ''2500'', na_owner = ''alice'', na_provider = [],
     na_auctionTopUp = ''0'', na_qualifiedStake = ''2500'', na_auctionValidators = 1,
     na_qualifiedAuctionValidators = 1, na_droppedValidators = 0, na_dangerZoneValidators = 0, na_bls = ''k1''\<rparr>"

text \<open>
  C32. The page of nodes, before it is cut: without a field to sort by, the matching nodes in their order; with one, a
  permutation of them, in the order of the field, in which nodes with equal values keep their order, or, when the descending order is
  asked for, the reverse of that, so that nodes with equal values are in reversed order. The values of the
  field must be comparable: every matching node has one, and they are all numbers or all texts.
\<close>

theorem filter_nodes_order:
  assumes "\<And>field. nf_sort query = Some field \<Longrightarrow> comparable (map (node_value env field) (filter (node_matches query) allNodes))"
  shows "mset (filter_nodes env query allNodes) = filter_mset (node_matches query) (mset allNodes)
    \<and> (case nf_sort query of
        None \<Rightarrow> filter_nodes env query allNodes = filter (node_matches query) allNodes
      | Some field \<Rightarrow>
          if nf_order query = Some Sort_desc
          then sorted_wrt (\<lambda>a b. \<not> value_gt (node_value env field b) (node_value env field a)) (filter_nodes env query allNodes)
            \<and> filter (\<lambda>n. node_value env field n = v) (filter_nodes env query allNodes)
                = rev (filter (\<lambda>n. node_value env field n = v) (filter (node_matches query) allNodes))
          else sorted_wrt (\<lambda>a b. \<not> value_gt (node_value env field a) (node_value env field b)) (filter_nodes env query allNodes)
            \<and> filter (\<lambda>n. node_value env field n = v) (filter_nodes env query allNodes)
                = filter (\<lambda>n. node_value env field n = v) (filter (node_matches query) allNodes))"
proof (cases "nf_sort query")
  case None
  then show ?thesis by (simp add: filter_nodes_def)
next
  case (Some field)
  let ?m = "filter (node_matches query) allNodes"
  let ?sorted = "js_sort (\<lambda>a b. compare_values (node_value env field a) (node_value env field b)) ?m"
  have "sorted_wrt (\<lambda>a b. \<not> value_gt (node_value env field a) (node_value env field b)) ?sorted"
    and "filter (\<lambda>n. node_value env field n = v) ?sorted = filter (\<lambda>n. node_value env field n = v) ?m"
    using node_order [OF assms [OF Some]] by blast+
  then show ?thesis by (simp add: filter_nodes_def Some sorted_wrt_rev rev_filter [symmetric])
qed

theorem filter_nodes_order_witness:
  "sorted_wrt (\<lambda>a b. \<not> value_gt (node_value nodes_sample_env NSort_position a) (node_value nodes_sample_env NSort_position b))
     (filter_nodes nodes_sample_env (no_filter\<lparr>nf_sort := Some NSort_position\<rparr>)
        [new_node\<lparr>nd_position := 3\<rparr>, new_node\<lparr>nd_position := 1\<rparr>])"
  using filter_nodes_order [of "no_filter\<lparr>nf_sort := Some NSort_position\<rparr>" nodes_sample_env
      "[new_node\<lparr>nd_position := 3\<rparr>, new_node\<lparr>nd_position := 1\<rparr>]" "SV_num 1"]
  by (simp add: comparable_def node_value_def no_filter_def)

text \<open>
  The qualified stakes are ordered as text: a node with a stake of 10000 eGLD and a node with
  2500 eGLD come in the wrong order, whatever they are otherwise.
\<close>

theorem qualified_stake_is_text:
  "filter_nodes env (no_filter\<lparr>nf_sort := Some NSort_qualifiedStake\<rparr>)
     [small\<lparr>nd_qualifiedStake := ''2500000000000000000000''\<rparr>, large\<lparr>nd_qualifiedStake := ''10000000000000000000000''\<rparr>]
   = [large\<lparr>nd_qualifiedStake := ''10000000000000000000000''\<rparr>, small\<lparr>nd_qualifiedStake := ''2500000000000000000000''\<rparr>]"
  by (simp add: filter_nodes_def node_matches_def no_filter_def js_sort_def node_value_def compare_values_def
      to_lower_def lower_char_def less_char_def)

text \<open>
  A page of the node auctions ends at its size and not at its start plus its size: a page that
  starts at or behind its size is empty, however many auctions there are.
\<close>

theorem later_auction_pages_empty:
  assumes "getAllNodesAuctions env s = (Inr auctions, t)" and "amount \<le> start"
  shows "getNodesAuctions env start amount field order s = (Inr [], t)"
  using assms by (simp add: getNodesAuctions_def io_simps slice_def Let_def)

theorem later_auction_pages_empty_witness:
  "getNodesAuctions (nodes_sample_env\<lparr>ne_getOrSetAuctions := (\<lambda>k m ttl. io_return (replicate 60 sample_auction))\<rparr>)
     25 25 None None () = (Inr [], ())"
  by (rule later_auction_pages_empty [where auctions = "replicate 60 sample_auction"])
    (simp_all add: getAllNodesAuctions_def io_return_def)

text \<open>
  C19. The owners of a list of keys are those of the cache and, for the keys the cache lacks, those
  the contract names, although the contract is not asked again for a key that came with another.
\<close>

theorem getOwners_from_contract:
  assumes "owners_known env epoch owner_of"
    and "ne_batchGetManyRemote env (map (\<lambda>bls. ci_key (owner_cache_info env epoch bls)) blses) s = (Inr cached, t)"
  shows "fst (getOwners env blses epoch s)
    = Inr (map (\<lambda>(bls, c). case c of None \<Rightarrow> owner_of bls | Some owner \<Rightarrow> Some owner) (zip blses cached))"
proof -
  let ?missing = "map fst (filter (\<lambda>(bls, c). c = None) (zip blses cached))"
  obtain owners u where fold: "io_fold (find_missing_owner env epoch) ?missing Map.empty t = (Inr owners, u)"
    and owners: "\<forall>bls \<in> set ?missing. owners bls = owner_of bls"
    using find_missing_owners [OF assms(1), of Map.empty ?missing t] by auto
  have "bls \<in> set ?missing" if "(bls, None) \<in> set (zip blses cached)" for bls
    using that by force
  then have "map (\<lambda>(bls, c). case c of None \<Rightarrow> owners bls | Some owner \<Rightarrow> Some owner) (zip blses cached)
      = map (\<lambda>(bls, c). case c of None \<Rightarrow> owner_of bls | Some owner \<Rightarrow> Some owner) (zip blses cached)"
    using owners by (auto split: option.splits)
  with fold show ?thesis using assms(2) by (simp add: getOwners_def io_simps Let_def)
qed

definition sample_owner_of :: "string \<rightharpoonup> string" where
  "sample_owner_of = [''k1'' \<mapsto> ''alice'', ''k2'' \<mapsto> ''alice'']"

lemma sample_owners_known: "owners_known nodes_sample_env 0 sample_owner_of"
  unfolding owners_known_def sample_owner_of_def plain_nodes_env_def
  by (auto simp: getBlsOwner_def getOwnerBlses_def io_simps)

theorem getOwners_from_contract_witness:
  "fst (getOwners nodes_sample_env [''k1'', ''k2'', ''k3''] 0 ()) = Inr [Some ''alice'', Some ''alice'', None]"
proof -
  have "fst (getOwners nodes_sample_env [''k1'', ''k2'', ''k3''] 0 ())
    = Inr (map (\<lambda>(bls, c). case c of None \<Rightarrow> sample_owner_of bls | Some owner \<Rightarrow> Some owner)
             (zip [''k1'', ''k2'', ''k3''] [None, None, None]))"
    by (rule getOwners_from_contract [OF sample_owners_known, where t = "()"])
      (simp add: plain_nodes_env_def io_return_def)
  then show ?thesis by (simp add: sample_owner_of_def)
qed

text \<open>The least amount with which a node qualifies, or zero when none does, and the threshold of the danger zone.\<close>

definition least_amount :: "(string \<Rightarrow> int) \<Rightarrow> auction list \<Rightarrow> int" where
  "least_amount amount_of auctions =
     (let tops = map (\<lambda>(a, an). amount_of (au_qualifiedTopUp a)) (filter (\<lambda>(a, an). an_qualified an) (all_auction_nodes auctions))
      in if tops = [] then 0 else Min (set tops))"

lemma least_amount_qualified:
  "least_amount amount_of auctions
     = (if qualified_tops (all_auction_nodes auctions) = {} then 0 else Min (amount_of ` qualified_tops (all_auction_nodes auctions)))"
proof -
  have "amount_of ` qualified_tops xs = set (map (\<lambda>(a, an). amount_of (au_qualifiedTopUp a)) (filter (\<lambda>(a, an). an_qualified an) xs))" for xs
    by (simp add: qualified_tops_def image_comp comp_def split_def)
  then show ?thesis by (simp only: least_amount_def Let_def set_empty [symmetric]) (metis image_is_empty)
qed

lemma danger_zone_threshold_value:
  assumes "tops_parse amount_of (all_auction_nodes auctions)" and "\<forall>x \<in> set (all_auction_nodes auctions). 0 \<le> amount_of (au_qualifiedTopUp (fst x))"
  shows "danger_zone_threshold auctions = Inr ((2500000000000000000000 + least_amount amount_of auctions) * 105 div 100)"
proof -
  let ?tops = "qualified_tops (all_auction_nodes auctions)"
  have finite: "finite ?tops" by (simp add: qualified_tops_def)
  obtain m where m: "minimum_top_up (all_auction_nodes auctions) None = Inr m"
    "if ?tops = {} then m = None else \<exists>topUp. m = Some topUp \<and> is_arg_min amount_of (\<lambda>t. t \<in> ?tops) topUp"
    using minimum_top_up_none [OF assms(1)] by blast
  have minimum: "getMinimumAuctionTopUp auctions = Inr m"
    using m(1) by (auto simp: getMinimumAuctionTopUp_def all_auction_nodes_def)
  have "0 \<le> least_amount amount_of auctions \<and>
    res_bind (if truthy m then js_BigInt (the m) else Inr 0) (\<lambda>topUp. Inr (int_str (2500000000000000000000 + topUp)))
      = Inr (int_str (2500000000000000000000 + least_amount amount_of auctions))"
  proof (cases "?tops = {}")
    case True
    then show ?thesis using m(2) by (simp add: least_amount_qualified)
  next
    case False
    then obtain t where t: "m = Some t" "t \<in> ?tops" "\<And>u. u \<in> ?tops \<Longrightarrow> amount_of t \<le> amount_of u"
      using m(2) by (auto simp: is_arg_min_linorder)
    then have "Min (amount_of ` ?tops) = amount_of t" using finite by (auto intro!: Min_eqI)
    moreover have "t \<noteq> []" "js_BigInt t = Inr (amount_of t)" "0 \<le> amount_of t"
      using t(2) assms by (auto simp: tops_parse_def qualified_tops_def)
    ultimately show ?thesis using t(1) False by (simp add: least_amount_qualified)
  qed
  then show ?thesis
    by (simp add: danger_zone_threshold_def getMinimumAuctionStake_def minimum BigInt_int_str signed_divide_int_def)
qed

text \<open>
  C16. \<open>processAuctions\<close> gives every node the auction that names its key, with the position of the key among the keys of all auctions, counted
  from one, and puts it into the danger zone exactly when its status is \<open>auction\<close>, it is qualified in the auction and its stake
  and top-up are less than 105 percent of the minimum stake, which is 2500 eGLD plus the least top-up of a qualified key (or plus nothing, when no key is
  qualified); the other nodes stay as they are. No key is named twice, the stakes and top-ups are
  amounts, and the nodes have no auction data yet.
\<close>

theorem processAuctions_spec:
  assumes "distinct (map (an_blsKey \<circ> snd) (all_auction_nodes auctions))"
    and "\<And>a an. (a, an) \<in> set (all_auction_nodes auctions) \<Longrightarrow> au_qualifiedTopUp a \<noteq> []
           \<and> js_BigInt (au_qualifiedTopUp a) = Inr (amount_of (au_qualifiedTopUp a)) \<and> 0 \<le> amount_of (au_qualifiedTopUp a)"
    and "\<And>node. node \<in> set nodes \<Longrightarrow> js_BigInt (nd_stake node) = Inr (stake_of node)
           \<and> nd_auctionTopUp node = None \<and> nd_auctionQualified node = None"
  shows "processAuctions nodes auctions = Inr (map (\<lambda>node.
    case find (\<lambda>(p, a, an). an_blsKey an = nd_bls node) (numbered (all_auction_nodes auctions)) of
      None \<Rightarrow> node
    | Some (p, a, an) \<Rightarrow>
        (let total = stake_of node + amount_of (au_qualifiedTopUp a)
         in node\<lparr>nd_auctioned := Some True, nd_auctionPosition := Some p, nd_auctionTopUp := Some (au_qualifiedTopUp a),
              nd_auctionQualified := Some (an_qualified an), nd_qualifiedStake := int_str total,
              nd_isInDangerZone := (if nd_status node = Some ''auction'' \<and> an_qualified an
                   \<and> total < (2500000000000000000000 + least_amount amount_of auctions) * 105 div 100
                 then Some True else nd_isInDangerZone node)\<rparr>)) nodes)"
proof -
  let ?xs = "numbered (all_auction_nodes auctions)"
  let ?threshold = "(2500000000000000000000 + least_amount amount_of auctions) * 105 div 100"
  let ?result = "\<lambda>node. case find (\<lambda>(p, a, an). an_blsKey an = nd_bls node) ?xs of
         None \<Rightarrow> node | Some (p, a, an) \<Rightarrow> auctioned_node ?threshold (p, a, an) (stake_of node) (amount_of (au_qualifiedTopUp a)) node"
  have snds: "map snd ?xs = all_auction_nodes auctions" by (simp add: numbered_def)
  have keys: "distinct (map (\<lambda>(p, a, an). an_blsKey an) ?xs)"
  proof -
    have "map (\<lambda>(p, a, an). an_blsKey an) ?xs = map (an_blsKey \<circ> snd) (map snd ?xs)" by auto
    then show ?thesis using assms(1) snds by simp
  qed
  have tops: "\<forall>(p, a, an) \<in> set ?xs. js_BigInt (au_qualifiedTopUp a) = Inr (amount_of (au_qualifiedTopUp a))"
  proof clarify
    fix p a an assume "(p, a, an) \<in> set ?xs"
    then have "(a, an) \<in> set (map snd ?xs)" by force
    then show "js_BigInt (au_qualifiedTopUp a) = Inr (amount_of (au_qualifiedTopUp a))" using assms(2) snds by simp
  qed
  have node: "auction_steps ?threshold ?xs node = Inr (?result node)" if "node \<in> set nodes" for node
    by (rule auction_steps_spec [OF _ _ keys tops]) (use assms(3) [OF that] in \<open>simp_all add: settled_def\<close>)
  have "danger_zone_threshold auctions = Inr ?threshold"
    using assms(2) by (intro danger_zone_threshold_value) (auto simp: tops_parse_def)
  then have "processAuctions nodes auctions = Inr (map ?result nodes)"
    using node by (simp add: processAuctions_def res_map_Inr list_all2_map2 list_all2_same)
  then show ?thesis by (simp only: auctioned_node_eq Let_def)
qed

theorem processAuctions_spec_witness:
  "processAuctions [new_node\<lparr>nd_bls := ''k1'', nd_stake := int_str 2500, nd_status := Some ''auction''\<rparr>, new_node]
     [\<lparr>au_qualifiedTopUp = int_str 7, au_nodes = Some [\<lparr>an_blsKey = ''k1'', an_qualified = True\<rparr>]\<rparr>]
   = Inr [new_node\<lparr>nd_bls := ''k1'', nd_stake := int_str 2500, nd_status := Some ''auction'', nd_auctioned := Some True, nd_auctionPosition := Some 1,
            nd_auctionTopUp := Some (int_str 7), nd_auctionQualified := Some True, nd_qualifiedStake := int_str 2507, nd_isInDangerZone := Some True\<rparr>,
          new_node]"
proof -
  let ?a = "\<lparr>au_qualifiedTopUp = int_str 7, au_nodes = Some [\<lparr>an_blsKey = ''k1'', an_qualified = True\<rparr>]\<rparr>"
  have steps: "all_auction_nodes [?a] = [(?a, \<lparr>an_blsKey = ''k1'', an_qualified = True\<rparr>)]"
    by (simp add: all_auction_nodes_def)
  show ?thesis
    by (subst processAuctions_spec [where amount_of = "\<lambda>_. 7" and stake_of = "\<lambda>n. if nd_stake n = [] then 0 else 2500"])
      (auto simp: steps BigInt_int_str numbered_def Let_def new_node_def least_amount_def)
qed

text \<open>
  \<open>processQueuedNodes\<close> marks every node that the queue names with its position there, appends a
  new node for every other key of the queue, in the order of the queue, and leaves the rest as it is.
\<close>

theorem processQueuedNodes_spec:
  assumes "distinct (map nd_bls nodes)" and "distinct (map qi_bls queue)"
  shows "processQueuedNodes nodes queue =
    map (\<lambda>node. case find (\<lambda>item. qi_bls item = nd_bls node) queue of
                None \<Rightarrow> node | Some item \<Rightarrow> queued_node item node) nodes
    @ map (\<lambda>item. queued_node item (new_node\<lparr>nd_bls := qi_bls item\<rparr>))
        (filter (\<lambda>item. qi_bls item \<notin> nd_bls ` set nodes) queue)"
  using assms
proof (induction queue arbitrary: nodes)
  case Nil
  then show ?case by (simp add: processQueuedNodes_def)
next
  case (Cons item queue)
  have missing: "find (\<lambda>i. qi_bls i = qi_bls item) queue = None"
    using Cons.prems(2) by (simp add: find_None_iff) (metis image_eqI)
  have IH: "processQueuedNodes nodes' queue = map (\<lambda>node. case find (\<lambda>item. qi_bls item = nd_bls node) queue of
                None \<Rightarrow> node | Some item \<Rightarrow> queued_node item node) nodes'
    @ map (\<lambda>item. queued_node item (new_node\<lparr>nd_bls := qi_bls item\<rparr>))
        (filter (\<lambda>item. qi_bls item \<notin> nd_bls ` set nodes') queue)" if "distinct (map nd_bls nodes')" for nodes'
    using Cons.IH [OF that] Cons.prems(2) by simp
  have step: "processQueuedNodes nodes (item # queue) = processQueuedNodes (processQueueItem nodes item) queue"
    by (simp add: processQueuedNodes_def)
  show ?case
  proof (cases "qi_bls item \<in> nd_bls ` set nodes")
    case True
    let ?nodes = "map (\<lambda>node. if nd_bls node = qi_bls item then queued_node item node else node) nodes"
    have bls: "map nd_bls ?nodes = map nd_bls nodes" by (simp cong: if_cong)
    then have "nd_bls ` set ?nodes = nd_bls ` set nodes" by (metis set_map)
    have each: "(case find (\<lambda>i. qi_bls i = nd_bls n) (item # queue) of None \<Rightarrow> n | Some i \<Rightarrow> queued_node i n)
      = (case find (\<lambda>i. qi_bls i = nd_bls (if nd_bls n = qi_bls item then queued_node item n else n)) queue of
           None \<Rightarrow> (if nd_bls n = qi_bls item then queued_node item n else n)
         | Some i \<Rightarrow> queued_node i (if nd_bls n = qi_bls item then queued_node item n else n))" for n
      using missing by auto
    have "processQueueItem nodes item = ?nodes"
      using True processQueueItem_eq [OF Cons.prems(1), of item] by simp
    moreover have "distinct (map nd_bls ?nodes)" unfolding bls by (rule Cons.prems(1))
    ultimately show ?thesis
      using IH [of ?nodes] True unfolding step each \<open>nd_bls ` set ?nodes = nd_bls ` set nodes\<close>
      by (simp add: comp_def)
  next
    case False
    let ?new = "queued_node item (new_node\<lparr>nd_bls := qi_bls item\<rparr>)"
    have "distinct (map nd_bls (nodes @ [?new]))" using False Cons.prems(1) by simp
    moreover have "filter (\<lambda>i. qi_bls i \<notin> nd_bls ` set (nodes @ [?new])) queue
      = filter (\<lambda>i. qi_bls i \<notin> nd_bls ` set nodes) queue"
      using Cons.prems(2) by (intro filter_cong) (auto simp: image_iff)
    moreover have "find (\<lambda>i. qi_bls i = nd_bls node) (item # queue) = find (\<lambda>i. qi_bls i = nd_bls node) queue"
      if "node \<in> set nodes" for node
      using False that by auto
    ultimately show ?thesis
      using IH [of "nodes @ [?new]"] False Cons.prems(1)
      by (simp add: step processQueueItem_eq missing cong: map_cong)
  qed
qed

theorem processQueuedNodes_spec_witness:
  "processQueuedNodes [new_node\<lparr>nd_bls := ''k1''\<rparr>, new_node\<lparr>nd_bls := ''k2''\<rparr>]
     [\<lparr>qi_bls = ''k3'', qi_nonce = 5, qi_rewardsAddress = ''alice'', qi_position = 1\<rparr>,
      \<lparr>qi_bls = ''k2'', qi_nonce = 6, qi_rewardsAddress = ''bob'', qi_position = 2\<rparr>]
   = [new_node\<lparr>nd_bls := ''k1''\<rparr>,
      new_node\<lparr>nd_bls := ''k2'', nd_type := Some NT_validator, nd_status := Some ''queued'', nd_position := 2\<rparr>,
      new_node\<lparr>nd_bls := ''k3'', nd_type := Some NT_validator, nd_status := Some ''queued'', nd_position := 1\<rparr>]"
  by (subst processQueuedNodes_spec) (simp_all add: queued_node_def new_node_def)

text \<open>
  The minimum top-up of an auction is the least top-up of a qualified node of it, and there is
  none exactly when no node is qualified.
\<close>

theorem minimum_top_up_is_minimum:
  assumes "tops_parse amount_of (all_auction_nodes auctions)"
  shows "\<exists>m. getMinimumAuctionTopUp auctions = Inr m \<and>
    (if qualified_tops (all_auction_nodes auctions) = {} then m = None
     else \<exists>topUp. m = Some topUp \<and> is_arg_min amount_of (\<lambda>t. t \<in> qualified_tops (all_auction_nodes auctions)) topUp)"
  using minimum_top_up_none [OF assms]
  by (cases "auctions = []") (simp_all add: getMinimumAuctionTopUp_def all_auction_nodes_def)

theorem minimum_top_up_is_minimum_witness:
  "\<exists>m. getMinimumAuctionTopUp [\<lparr>au_qualifiedTopUp = int_str 7, au_nodes = Some [\<lparr>an_blsKey = ''k1'', an_qualified = True\<rparr>]\<rparr>,
          \<lparr>au_qualifiedTopUp = int_str 5, au_nodes = Some [\<lparr>an_blsKey = ''k2'', an_qualified = True\<rparr>]\<rparr>] = Inr (Some m)"
proof -
  let ?as = "[\<lparr>au_qualifiedTopUp = int_str 7, au_nodes = Some [\<lparr>an_blsKey = ''k1'', an_qualified = True\<rparr>]\<rparr>,
          \<lparr>au_qualifiedTopUp = int_str 5, au_nodes = Some [\<lparr>an_blsKey = ''k2'', an_qualified = True\<rparr>]\<rparr>]"
  show ?thesis
    using minimum_top_up_is_minimum [of "\<lambda>s. if s = int_str 7 then 7 else 5" ?as]
    by (auto simp: all_auction_nodes_def BigInt_int_str tops_parse_def)
qed

end
