(* ===== verification/Stake.thy ===== *)
theory Stake imports Nodes Complex_Main begin

text \<open>
  Stakes and validators (\<open>src/endpoints/stake/stake.service.ts\<close>): the stake, top-up and locked value
  of the nodes of an address, the counts of validators in the three phases of staking v4, the
  global stake and the Nakamoto coefficient. The minimum top-up and stake of an auction are in
  Nodes, which uses them.
\<close>

section \<open>Data\<close>

record stake_topup =
  st_topUp :: string
  st_stake :: string
  st_locked :: string
  st_numNodes :: int
  st_address :: string
  st_blses :: "string list option"

definition new_stake_topup :: stake_topup where
  "new_stake_topup = \<lparr>st_topUp = [], st_stake = [], st_locked = [], st_numNodes = 0, st_address = [], st_blses = Some []\<rparr>"

record validator_info =
  vi_totalValidators :: nat
  vi_activeValidators :: nat
  vi_inactiveValidators :: nat
  vi_queueSize :: "nat option"

record global_stake =
  gs_totalValidators :: nat
  gs_activeValidators :: nat
  gs_totalObservers :: nat
  gs_queueSize :: "nat option"
  gs_totalStaked :: string
  gs_minimumAuctionQualifiedTopUp :: "string option"
  gs_minimumAuctionQualifiedStake :: "string option"
  gs_auctionValidators :: "nat option"
  gs_nakamotoCoefficient :: "nat option"
  gs_dangerZoneValidators :: "nat option"
  gs_eligibleValidators :: "nat option"
  gs_waitingValidators :: "nat option"
  gs_qualifiedAuctionValidators :: "nat option"
  gs_allStakedNodes :: "nat option"
  gs_inactiveValidators :: "nat option"

definition new_global_stake :: global_stake where
  "new_global_stake = \<lparr>gs_totalValidators = 0, gs_activeValidators = 0, gs_totalObservers = 0, gs_queueSize = Some 0,
     gs_totalStaked = [], gs_minimumAuctionQualifiedTopUp = None, gs_minimumAuctionQualifiedStake = None,
     gs_auctionValidators = None, gs_nakamotoCoefficient = None, gs_dangerZoneValidators = None,
     gs_eligibleValidators = None, gs_waitingValidators = None, gs_qualifiedAuctionValidators = None,
     gs_allStakedNodes = None, gs_inactiveValidators = None\<rparr>"

record unstaked_tokens =
  ut_amount :: string
  ut_expires :: "int option"

record provider_stake =
  ps_totalStaked :: string
  ps_unstakedTokens :: "unstaked_tokens list option"

record network_config =
  nc_roundsPassed :: int
  nc_roundsPerEpoch :: int
  nc_roundDuration :: int

text \<open>
  The services: \<open>se_validators\<close> is the number of validators of an identity, with \<open>undefined\<close> as
  \<open>None\<close>, and \<open>se_sortedDescending\<close> the order of the array extension.
\<close>

record 's stake_env =
  se_nodes :: "'s node_env"
  se_validators :: "identity_info \<Rightarrow> nat option"
  se_sortedDescending :: "(identity_info \<Rightarrow> nat) \<Rightarrow> identity_info list \<Rightarrow> identity_info list"
  se_mergeObjects :: "stake \<Rightarrow> stake_topup \<Rightarrow> stake"
  se_getNetworkEconomics :: "('s, string \<times> string) io"
  se_getNetworkConfig :: "('s, network_config) io"
  se_getExpires :: "int \<Rightarrow> int \<Rightarrow> int \<Rightarrow> int \<Rightarrow> int"
  se_base64ToAscii :: "string \<Rightarrow> string"
  se_getOrSetStake :: "string \<Rightarrow> ('s, stake_topup) io \<Rightarrow> int \<Rightarrow> ('s, stake_topup) io"
  se_getOrSetGlobal :: "string \<Rightarrow> ('s, global_stake) io \<Rightarrow> int \<Rightarrow> ('s, global_stake) io"
  se_batchProcess :: "string list \<Rightarrow> (string \<Rightarrow> string) \<Rightarrow> (string \<Rightarrow> ('s, stake_topup) io) \<Rightarrow> int \<Rightarrow> ('s, stake_topup list) io"

abbreviation stake_consts :: "'s stake_env \<Rightarrow> time_consts" where
  "stake_consts env \<equiv> ne_consts (se_nodes env)"

section \<open>The stake of an address\<close>

definition no_stake :: "string \<Rightarrow> string list \<Rightarrow> int \<Rightarrow> stake_topup" where
  "no_stake address blses numNodes =
     \<lparr>st_topUp = ''0'', st_stake = ''0'', st_locked = ''0'', st_numNodes = numNodes, st_address = address, st_blses = Some blses\<rparr>"

text \<open>\<open>a / b\<close> on \<open>bigint\<close> truncates, and throws on zero.\<close>

definition bigint_div :: "int \<Rightarrow> int \<Rightarrow> int res" where
  "bigint_div a b = (if b = 0 then Inl (ErrorMsg ''Division by zero'') else Inr (a sdiv b))"

definition stake_of_response :: "'s stake_env \<Rightarrow> string \<Rightarrow> string list \<Rightarrow> stake_topup res" where
  "stake_of_response env address response =
     (case response of
        topUpBase64 # stakedBase64 # numNodesBase64 # blsesBase64 \<Rightarrow>
          res_bind (hex_BigInt (se_nodes env) topUpBase64) (\<lambda>totalTopUp.
          res_bind (hex_BigInt (se_nodes env) stakedBase64) (\<lambda>staked.
          let totalStaked = staked - totalTopUp;
              totalLocked = totalStaked + totalTopUp in
          res_bind (hex_BigInt (se_nodes env) numNodesBase64) (\<lambda>numNodes.
          let blses = map (ne_base64ToHex (se_nodes env)) blsesBase64 in
          if totalStaked = 0 \<and> numNodes = 0 then Inr (no_stake address blses numNodes)
          else
            res_bind (bigint_div totalTopUp numNodes) (\<lambda>topUp.
            res_bind (bigint_div totalStaked numNodes) (\<lambda>stake.
            res_bind (bigint_div totalLocked numNodes) (\<lambda>locked.
              Inr \<lparr>st_topUp = int_str topUp, st_stake = int_str stake, st_locked = int_str locked,
                   st_numNodes = numNodes, st_address = address, st_blses = Some blses\<rparr>))))))
      | _ \<Rightarrow> Inl TypeError)"

definition getAllStakesForAddressNodesRaw :: "'s stake_env \<Rightarrow> string \<Rightarrow> ('s, stake_topup) io" where
  "getAllStakesForAddressNodesRaw env address =
     (if address = [] then io_return new_stake_topup
      else if \<not> truthy (ne_auctionContract (se_nodes env)) then io_return new_stake_topup
      else
        (let auctionContractAddress = the (ne_auctionContract (se_nodes env))
         in io_bind (io_catch
              (io_bind (io_lift (ne_bech32Decode (se_nodes env) address)) (\<lambda>hex.
                 ne_vmQuery (se_nodes env) auctionContractAddress ''getTotalStakedTopUpStakedBlsKeys''
                   auctionContractAddress [hex]))
              (\<lambda>e. io_return None)) (\<lambda>response.
            case response of
              None \<Rightarrow> io_return (no_stake address [] 0)
            | Some list \<Rightarrow> io_lift (stake_of_response env address list))))"

definition getAllStakesForNode :: "'s stake_env \<Rightarrow> string \<Rightarrow> ('s, stake_topup) io" where
  "getAllStakesForNode env address =
     se_getOrSetStake env (ci_key (CacheInfo_StakeTopup (stake_consts env) address))
       (getAllStakesForAddressNodesRaw env address) (ci_ttl (CacheInfo_StakeTopup (stake_consts env) address))"

definition getAllStakesForNodes :: "'s stake_env \<Rightarrow> string list \<Rightarrow> ('s, stake_topup list) io" where
  "getAllStakesForNodes env addresses =
     se_batchProcess env addresses (\<lambda>address. ci_key (CacheInfo_StakeTopup (stake_consts env) address))
       (getAllStakesForAddressNodesRaw env) (ci_ttl (CacheInfo_StakeTopup (stake_consts env) []))"

definition stakes_of_topup :: "'s stake_env \<Rightarrow> stake_topup \<Rightarrow> stake list res" where
  "stakes_of_topup env stake =
     (case st_blses stake of
        None \<Rightarrow> Inl TypeError
      | Some blses \<Rightarrow> Inr (map (\<lambda>bls. (se_mergeObjects env new_stake stake)\<lparr>sk_bls := bls\<rparr>) blses))"

definition getStakes :: "'s stake_env \<Rightarrow> string list \<Rightarrow> ('s, stake list) io" where
  "getStakes env addresses =
     io_bind (getAllStakesForNodes env addresses) (\<lambda>stakes.
     io_bind (io_lift (res_map (stakes_of_topup env) stakes)) (\<lambda>lists. io_return (concat lists)))"

fun unstaked_pairs :: "'s stake_env \<Rightarrow> string list \<Rightarrow> (string \<times> int) list res" where
  "unstaked_pairs env [] = Inr []"
| "unstaked_pairs env [encodedAmount] = Inl TypeError"
| "unstaked_pairs env (encodedAmount # encodedEpochs # rest) =
     res_bind (hex_BigInt (se_nodes env) encodedAmount) (\<lambda>amount.
     res_bind (hex_BigInt (se_nodes env) encodedEpochs) (\<lambda>epochs.
     res_bind (unstaked_pairs env rest) (\<lambda>pairs. Inr ((int_str amount, epochs) # pairs))))"

definition getStakeForAddress :: "'s stake_env \<Rightarrow> string \<Rightarrow> ('s, provider_stake) io" where
  "getStakeForAddress env address =
     (if \<not> truthy (ne_auctionContract (se_nodes env))
      then io_return \<lparr>ps_totalStaked = ''0'', ps_unstakedTokens = None\<rparr>
      else
        (let contract = the (ne_auctionContract (se_nodes env))
         in io_bind (io_lift (ne_bech32Decode (se_nodes env) address)) (\<lambda>hexAddress.
            io_bind (io_both
              (ne_vmQuery (se_nodes env) contract ''getTotalStaked'' address [])
              (ne_vmQuery (se_nodes env) contract ''getUnStakedTokensList'' address [hexAddress]))
              (\<lambda>(totalStakedEncoded, unStakedTokensListEncoded).
            io_bind (case totalStakedEncoded of
                       None \<Rightarrow> io_return ''0''
                     | Some [] \<Rightarrow> io_throw TypeError
                     | Some (encoded # _) \<Rightarrow> io_return (se_base64ToAscii env encoded)) (\<lambda>totalStaked.
            case unStakedTokensListEncoded of
              None \<Rightarrow> io_return \<lparr>ps_totalStaked = totalStaked, ps_unstakedTokens = None\<rparr>
            | Some list \<Rightarrow>
                io_bind (io_lift (unstaked_pairs env list)) (\<lambda>pairs.
                io_bind (se_getNetworkConfig env) (\<lambda>networkConfig.
                  io_return \<lparr>ps_totalStaked = totalStaked, ps_unstakedTokens = Some (map (\<lambda>(amount, epochs).
                    \<lparr>ut_amount = amount,
                     ut_expires = (if epochs = 0 then None
                       else Some (se_getExpires env epochs (nc_roundsPassed networkConfig)
                                   (nc_roundsPerEpoch networkConfig) (nc_roundDuration networkConfig)))\<rparr>) pairs)\<rparr>)))))))"

section \<open>Validators\<close>

definition eligible_or_waiting :: "node \<Rightarrow> bool" where
  "eligible_or_waiting node \<longleftrightarrow> nd_status node = Some ''eligible'' \<or> nd_status node = Some ''waiting''"

definition getTotalAndInactiveValidatorsBeforeStakingV4 :: "node list \<Rightarrow> nat \<times> nat" where
  "getTotalAndInactiveValidatorsBeforeStakingV4 validators =
     (length (filter eligible_or_waiting validators),
      length (filter (\<lambda>node. nd_status node = Some ''queued'') validators))"

definition getTotalAndInactiveValidatorsDuringStakingV4 :: "'s stake_env \<Rightarrow> node list \<Rightarrow> ('s, nat \<times> nat) io" where
  "getTotalAndInactiveValidatorsDuringStakingV4 env validators =
     io_bind (getNodeCount (se_nodes env) (no_filter\<lparr>nf_isAuctioned := Some True\<rparr>)) (\<lambda>inactiveValidatorsCount.
       io_return (length (filter eligible_or_waiting validators), inactiveValidatorsCount))"

definition getTotalAndInactiveValidatorsAfterStakingV4 :: "'s stake_env \<Rightarrow> node list \<Rightarrow> ('s, nat \<times> nat) io" where
  "getTotalAndInactiveValidatorsAfterStakingV4 env nodes =
     io_bind (getNodeCount (se_nodes env) (no_filter\<lparr>nf_isAuctioned := Some True, nf_isQualified := Some True\<rparr>)) (\<lambda>qualifiedNodesCount.
     io_bind (getNodeCount (se_nodes env) (no_filter\<lparr>nf_isAuctioned := Some True, nf_isQualified := Some False\<rparr>)) (\<lambda>inactiveValidatorsCount.
       io_return (length (filter eligible_or_waiting nodes) + qualifiedNodesCount, inactiveValidatorsCount)))"

definition getTotalAndInactiveValidators :: "'s stake_env \<Rightarrow> node list \<Rightarrow> ('s, nat \<times> nat) io" where
  "getTotalAndInactiveValidators env validators =
     (if \<not> ne_isStakingV4Enabled (se_nodes env) then io_return (getTotalAndInactiveValidatorsBeforeStakingV4 validators)
      else
        io_bind (ne_getCurrentEpoch (se_nodes env)) (\<lambda>currentEpoch.
        let activationStep1Epoch = ne_stakingV4ActivationEpoch (se_nodes env);
            activationStep2Epoch = activationStep1Epoch + 1 in
        if currentEpoch < activationStep1Epoch then io_return (getTotalAndInactiveValidatorsBeforeStakingV4 validators)
        else if currentEpoch < activationStep2Epoch then getTotalAndInactiveValidatorsDuringStakingV4 env validators
        else getTotalAndInactiveValidatorsAfterStakingV4 env validators))"

definition getValidators :: "'s stake_env \<Rightarrow> ('s, validator_info) io" where
  "getValidators env =
     (if \<not> truthy (ne_stakingContract (se_nodes env))
      then io_return \<lparr>vi_totalValidators = 0, vi_activeValidators = 0, vi_inactiveValidators = 0, vi_queueSize = None\<rparr>
      else
        io_bind (getAllNodes (se_nodes env)) (\<lambda>nodes.
        let validators = filter (\<lambda>x. nd_type x = Some NT_validator) nodes in
        io_bind (getTotalAndInactiveValidators env validators) (\<lambda>(totalValidators, inactiveValidators).
        let activeValidators = filter (\<lambda>node. eligible_or_waiting node \<and> nd_online node) validators in
          io_return \<lparr>vi_totalValidators = totalValidators, vi_activeValidators = length activeValidators,
                     vi_inactiveValidators = inactiveValidators, vi_queueSize = None\<rparr>)))"

text \<open>
  \<open>Math.ceil(total * 0.33)\<close>. The product of a count and the double nearest to 0.33 rounds to the
  exact product whenever that is an integer, so the ceiling is that of the rational number.
\<close>

definition nakamoto_threshold :: "nat \<Rightarrow> nat" where
  "nakamoto_threshold totalValidators = (33 * totalValidators + 99) div 100"

text \<open>The loop over the sorted identities, with the sum so far and the number of identities taken.\<close>

fun nakamoto_loop :: "nat \<Rightarrow> nat list \<Rightarrow> nat \<Rightarrow> nat \<Rightarrow> nat" where
  "nakamoto_loop threshold [] cumulativeValidators nakamotoCoefficient = nakamotoCoefficient"
| "nakamoto_loop threshold (v # vs) cumulativeValidators nakamotoCoefficient =
     (if cumulativeValidators + v > threshold then Suc nakamotoCoefficient
      else nakamoto_loop threshold vs (cumulativeValidators + v) (Suc nakamotoCoefficient))"

definition getNakamotoCoefficient :: "'s stake_env \<Rightarrow> ('s, nat) io" where
  "getNakamotoCoefficient env =
     io_bind (ne_getAllIdentities (se_nodes env)) (\<lambda>identities.
     let validators = (\<lambda>x. coalesce (se_validators env x) 0);
         sortedIdentities = se_sortedDescending env validators identities in
     io_bind (getValidators env) (\<lambda>totalValidators.
       io_return (nakamoto_loop (nakamoto_threshold (vi_totalValidators totalValidators))
                    (map validators sortedIdentities) 0 0)))"

definition getGlobalStakeRaw :: "'s stake_env \<Rightarrow> ('s, global_stake) io" where
  "getGlobalStakeRaw env =
     io_bind (getValidators env) (\<lambda>validators.
     io_bind (se_getNetworkEconomics env) (\<lambda>(totalBaseStaked, totalTopUp).
     io_bind (io_lift (res_bind (js_BigInt totalBaseStaked) (\<lambda>a.
                       res_bind (js_BigInt totalTopUp) (\<lambda>b. Inr (int_str (a + b)))))) (\<lambda>totalStaked.
     io_bind (getNodeCount (se_nodes env) (no_filter\<lparr>nf_type := Some NT_observer\<rparr>)) (\<lambda>totalObservers.
     io_bind (ne_getCurrentEpoch (se_nodes env)) (\<lambda>currentEpoch.
     if \<not> ne_isStakingV4Enabled (se_nodes env) \<or> currentEpoch < ne_stakingV4ActivationEpoch (se_nodes env) then
       io_bind (getNodeCount (se_nodes env) (no_filter\<lparr>nf_status := Some ''queued''\<rparr>)) (\<lambda>queueSize.
         io_return (new_global_stake\<lparr>gs_totalValidators := vi_totalValidators validators,
           gs_activeValidators := vi_activeValidators validators, gs_totalObservers := totalObservers,
           gs_queueSize := Some queueSize, gs_totalStaked := totalStaked\<rparr>))
     else
       io_bind (ne_getValidatorAuctions (se_nodes env)) (\<lambda>auctions.
       io_bind (io_lift (getMinimumAuctionTopUp auctions)) (\<lambda>minimumAuctionQualifiedTopUp.
       io_bind (io_lift (getMinimumAuctionStake auctions)) (\<lambda>minimumAuctionQualifiedStake.
       io_bind (getNodeCount (se_nodes env) (no_filter\<lparr>nf_auctioned := Some True\<rparr>)) (\<lambda>auctionValidators.
       io_bind (getNodeCount (se_nodes env) (no_filter\<lparr>nf_isQualified := Some True\<rparr>)) (\<lambda>qualifiedAuctionValidators.
       io_bind (getNakamotoCoefficient env) (\<lambda>nakamotoCoefficient.
       io_bind (getNodeCount (se_nodes env) (no_filter\<lparr>nf_isAuctionDangerZone := Some True, nf_isQualified := Some True\<rparr>)) (\<lambda>dangerZoneValidators.
       io_bind (getNodeCount (se_nodes env) (no_filter\<lparr>nf_status := Some ''eligible''\<rparr>)) (\<lambda>eligibleValidators.
       io_bind (getNodeCount (se_nodes env) (no_filter\<lparr>nf_status := Some ''waiting''\<rparr>)) (\<lambda>waitingValidators.
         io_return \<lparr>gs_totalValidators = vi_totalValidators validators, gs_activeValidators = vi_activeValidators validators,
           gs_totalObservers = totalObservers, gs_queueSize = vi_queueSize validators, gs_totalStaked = totalStaked,
           gs_minimumAuctionQualifiedTopUp = minimumAuctionQualifiedTopUp,
           gs_minimumAuctionQualifiedStake = Some minimumAuctionQualifiedStake,
           gs_auctionValidators = Some auctionValidators, gs_nakamotoCoefficient = Some nakamotoCoefficient,
           gs_dangerZoneValidators = Some dangerZoneValidators, gs_eligibleValidators = Some eligibleValidators,
           gs_waitingValidators = Some waitingValidators, gs_qualifiedAuctionValidators = Some qualifiedAuctionValidators,
           gs_allStakedNodes = Some (vi_totalValidators validators + vi_inactiveValidators validators),
           gs_inactiveValidators = Some (vi_inactiveValidators validators)\<rparr>))))))))))))))"

definition getGlobalStake :: "'s stake_env \<Rightarrow> ('s, global_stake) io" where
  "getGlobalStake env =
     se_getOrSetGlobal env (ci_key (CacheInfo_GlobalStake (stake_consts env))) (getGlobalStakeRaw env)
       (ci_ttl (CacheInfo_GlobalStake (stake_consts env)))"

section \<open>Lemmas on the greedy choice\<close>

text \<open>No choice of numbers has a larger sum than the first ones of a descending list.\<close>

lemma sum_mset_le_take:
  assumes "sorted_wrt (\<ge>) vs" and "X \<subseteq># mset vs"
  shows "sum_mset X \<le> sum_list (take (size X) vs :: nat list)"
  using assms
proof (induction vs arbitrary: X)
  case Nil
  then show ?case by simp
next
  case (Cons v vs)
  show ?case
  proof (cases "X = {#}")
    case False
    obtain y where y: "y \<in># X" "y \<le> v" "X - {#y#} \<subseteq># mset vs"
    proof (cases "v \<in># X")
      case True
      then have "X - {#v#} \<subseteq># mset vs" using Cons.prems(2) by (simp add: subset_eq_diff_conv)
      with True show ?thesis by (intro that [of v]) simp_all
    next
      case no_v: False
      then have sub: "X \<subseteq># mset vs"
        using Cons.prems(2) by (metis diff_single_trivial mset.simps(2) subset_eq_diff_conv add_mset_add_single)
      from False obtain y where "y \<in># X" by blast
      moreover from this sub have "y \<in> set vs" by (metis mset_subset_eqD set_mset_mset)
      moreover have "X - {#y#} \<subseteq># mset vs" using sub by (metis diff_subset_eq_self subset_mset.order_trans)
      ultimately show ?thesis using Cons.prems(1) by (intro that [of y]) auto
    qed
    have "sum_mset X = y + sum_mset (X - {#y#})" using y(1) by (metis sum_mset.remove)
    also have "\<dots> \<le> v + sum_list (take (size (X - {#y#})) vs)"
      using y Cons.IH [of "X - {#y#}"] Cons.prems(1) by simp
    also have "\<dots> = sum_list (take (size X) (v # vs))"
      using y(1) by (cases "size X") (auto simp: size_Diff_singleton)
    finally show ?thesis .
  qed simp
qed

lemma nakamoto_loop_least:
  assumes "c \<le> threshold"
  shows "\<exists>j \<le> length vs. nakamoto_loop threshold vs c k = k + j
    \<and> (\<forall>i < j. c + sum_list (take i vs) \<le> threshold)
    \<and> (j = length vs \<or> c + sum_list (take j vs) > threshold)"
  using assms
proof (induction vs arbitrary: c k)
  case Nil
  then show ?case by simp
next
  case (Cons v vs)
  show ?case
  proof (cases "c + v > threshold")
    case True
    with Cons.prems show ?thesis by (intro exI [of _ 1]) simp
  next
    case False
    then obtain j where j: "nakamoto_loop threshold vs (c + v) (Suc k) = Suc k + j" "j \<le> length vs"
      "\<forall>i < j. c + v + sum_list (take i vs) \<le> threshold"
      "j = length vs \<or> c + v + sum_list (take j vs) > threshold"
      using Cons.IH [of "c + v" "Suc k"] by auto
    have "c + sum_list (take i (v # vs)) \<le> threshold" if "i < Suc j" for i
      using that j(3) Cons.prems by (cases i) (auto simp: add.assoc)
    with False j show ?thesis by (intro exI [of _ "Suc j"]) (auto simp: add.assoc)
  qed
qed

lemma div_sum_bounds:
  assumes "0 < (n :: int)"
  shows "a div n + (b - a) div n \<le> b div n \<and> b div n \<le> a div n + (b - a) div n + 1"
proof -
  let ?d = "b - a"
  have eqs: "a = n * (a div n) + a mod n" "?d = n * (?d div n) + ?d mod n" "b = n * (b div n) + b mod n"
    by simp_all
  have bounds: "0 \<le> a mod n" "a mod n < n" "0 \<le> ?d mod n" "?d mod n < n" "0 \<le> b mod n" "b mod n < n"
    using assms by simp_all
  have sum: "n * (b div n) + b mod n = n * (a div n + ?d div n) + (a mod n + ?d mod n)"
    using eqs by (simp add: algebra_simps)
  have "n * (a div n + ?d div n) < n * (b div n + 1)" using sum bounds unfolding distrib_left by linarith
  moreover have "n * (b div n) < n * (a div n + ?d div n + 2)" using sum bounds unfolding distrib_left by linarith
  ultimately show ?thesis using assms by (simp only: mult_less_cancel_left_pos) auto
qed

section \<open>Properties\<close>

text \<open>The order of the array extension: a permutation, largest first.\<close>

definition sorts_descending :: "((identity_info \<Rightarrow> nat) \<Rightarrow> identity_info list \<Rightarrow> identity_info list) \<Rightarrow> bool" where
  "sorts_descending order \<longleftrightarrow>
     (\<forall>f xs. mset (order f xs) = mset xs \<and> sorted_wrt (\<ge>) (map f (order f xs)))"

lemma nakamoto_threshold_ceiling: "int (nakamoto_threshold n) = \<lceil>(33 / 100 :: rat) * of_nat n\<rceil>"
proof -
  define q r where "q = (33 * n + 99) div 100" and "r = (33 * n + 99) mod 100"
  have sum: "33 * n + 99 = 100 * q + r" and r: "r < 100" by (simp_all add: q_def r_def)
  have "of_nat (33 * n + 99) = (of_nat (100 * q + r) :: rat)" by (simp only: sum)
  then have eq: "33 * of_nat n + 99 = (100 * of_nat q + of_nat r :: rat)" by simp
  have "of_nat r < (100 :: rat)" "(0 :: rat) \<le> of_nat r" using r by simp_all
  moreover have "of_nat r \<le> (of_nat 99 :: rat)" using r by (simp only: of_nat_le_iff)
  ultimately have "of_int (int q) - 1 < (33 / 100 :: rat) * of_nat n" "(33 / 100 :: rat) * of_nat n \<le> of_int (int q)"
    using eq by simp_all
  then have "\<lceil>(33 / 100 :: rat) * of_nat n\<rceil> = int q" by (intro ceiling_unique)
  then show ?thesis by (simp add: nakamoto_threshold_def q_def)
qed

text \<open>
  C18. The Nakamoto coefficient: when all identities together have more validators than 0.33 of the total, rounded
  up, it is the least number of identities that do: some choice of that many does, and no smaller choice. Otherwise
  it is the number of all identities. (Of ten validators four are not enough, since they are not more than 3.3 rounded up.)
\<close>

theorem nakamoto_is_least:
  assumes "sorts_descending (se_sortedDescending env)"
    and "ne_getAllIdentities (se_nodes env) s = (Inr identities, t)" and "getValidators env t = (Inr info, u)"
    and "share = \<lceil>(33 / 100 :: rat) * of_nat (vi_totalValidators info)\<rceil>"
  shows "\<exists>k. getNakamotoCoefficient env s = (Inr k, u)
    \<and> (if share < int (\<Sum>x \<in># mset identities. coalesce (se_validators env x) 0)
        then (\<exists>X. X \<subseteq># mset identities \<and> size X = k \<and> share < int (\<Sum>x \<in># X. coalesce (se_validators env x) 0))
          \<and> (\<forall>X. X \<subseteq># mset identities \<longrightarrow> share < int (\<Sum>x \<in># X. coalesce (se_validators env x) 0) \<longrightarrow> k \<le> size X)
        else k = length identities)"
proof -
  let ?f = "\<lambda>x. coalesce (se_validators env x) 0"
  let ?thr = "nakamoto_threshold (vi_totalValidators info)"
  let ?ids = "se_sortedDescending env ?f identities"
  have share: "share = int ?thr" by (simp only: assms(4) nakamoto_threshold_ceiling)
  have ids: "mset ?ids = mset identities" and desc: "sorted_wrt (\<ge>) (map ?f ?ids)"
    using assms(1) by (simp_all add: sorts_descending_def)
  have total: "sum_list (map ?f ?ids) = (\<Sum>x \<in># mset identities. ?f x)"
    by (simp add: ids flip: mset_map sum_mset_sum_list) (simp add: ids)
  obtain j where j: "j \<le> length (map ?f ?ids)" "nakamoto_loop ?thr (map ?f ?ids) 0 0 = 0 + j"
    and before: "\<forall>i < j. 0 + sum_list (take i (map ?f ?ids)) \<le> ?thr"
    and last: "j = length (map ?f ?ids) \<or> 0 + sum_list (take j (map ?f ?ids)) > ?thr"
    using nakamoto_loop_least [of 0 ?thr "map ?f ?ids" 0] by blast
  have run: "getNakamotoCoefficient env s = (Inr j, u)"
    using assms(2,3) j(2) by (simp add: getNakamotoCoefficient_def io_simps Let_def)
  show ?thesis
  proof (cases "?thr < (\<Sum>x \<in># mset identities. ?f x)")
    case True
    have last': "sum_list (take j (map ?f ?ids)) > ?thr" using last True total by (elim disjE) simp_all
    let ?X = "mset (take j ?ids)"
    have "?X \<subseteq># mset identities" using ids by (metis append_take_drop_id mset_append mset_subset_eq_add_left)
    moreover have "size ?X = j" using j(1) by simp
    moreover have "?thr < (\<Sum>x \<in># ?X. ?f x)"
      using last' by (simp add: take_map flip: mset_map sum_mset_sum_list)
    ultimately have some: "\<exists>X. X \<subseteq># mset identities \<and> size X = j \<and> ?thr < (\<Sum>x \<in># X. ?f x)" by blast
    have least: "j \<le> size X" if "X \<subseteq># mset identities" "?thr < (\<Sum>x \<in># X. ?f x)" for X
    proof (rule ccontr)
      assume "\<not> j \<le> size X"
      then have "sum_list (take (size X) (map ?f ?ids)) \<le> ?thr" using before by simp
      moreover have "sum_mset (image_mset ?f X) \<le> sum_list (take (size (image_mset ?f X)) (map ?f ?ids))"
        using that(1) ids by (intro sum_mset_le_take [OF desc]) (simp add: image_mset_subseteq_mono)
      ultimately show False using that(2) by simp
    qed
    show ?thesis unfolding share of_nat_less_iff if_P [OF True] by (rule exI [of _ j]) (intro conjI allI impI run some least)
  next
    case False
    have "sum_list (take j vs) \<le> sum_list vs" for vs :: "nat list"
      by (metis append_take_drop_id le_add1 sum_list_append)
    then have "sum_list (take j (map ?f ?ids)) \<le> ?thr" using False unfolding total [symmetric] by (metis le_trans linorder_not_less)
    then have "j = length (map ?f ?ids)" using last by simp
    moreover have "length ?ids = length identities" using ids by (metis size_mset)
    ultimately have "j = length identities" by simp
    with run show ?thesis unfolding share of_nat_less_iff if_not_P [OF False] by simp
  qed
qed

definition stake_sample_identity :: "string \<Rightarrow> identity_info" where
  "stake_sample_identity i = \<lparr>ii_identity = Some i, ii_name = None, ii_description = None, ii_avatar = None,
     ii_distribution = None\<rparr>"

definition stake_sample_validator :: "string \<Rightarrow> node" where
  "stake_sample_validator bls = new_node\<lparr>nd_bls := bls, nd_type := Some NT_validator, nd_status := Some ''eligible'', nd_online := True\<rparr>"

definition plain_stake_env :: "'s stake_env" where
  "plain_stake_env =
     \<lparr>se_nodes = plain_nodes_env\<lparr>ne_isStakingV4Enabled := False,
        ne_getOrSetNodes := (\<lambda>k m ttl. io_return [stake_sample_validator ''k1'', stake_sample_validator ''k2'']),
        ne_getAllIdentities := io_return [stake_sample_identity ''a'', stake_sample_identity ''b''],
        ne_vmQuery := (\<lambda>contract function caller args. io_return (Some [''0b'', ''15'', ''02'', ''k1'', ''k2'']))\<rparr>,
      se_validators = (\<lambda>x. Some (if ii_identity x = Some ''a'' then 1 else 2)),
      se_sortedDescending = (\<lambda>f xs. rev (sort_key f xs)),
      se_mergeObjects = (\<lambda>s t. s), se_getNetworkEconomics = io_return (''0'', ''0''),
      se_getNetworkConfig = io_return \<lparr>nc_roundsPassed = 0, nc_roundsPerEpoch = 1, nc_roundDuration = 6\<rparr>,
      se_getExpires = (\<lambda>e p r d. e), se_base64ToAscii = (\<lambda>s. s),
      se_getOrSetStake = (\<lambda>k m ttl. m), se_getOrSetGlobal = (\<lambda>k m ttl. m),
      se_batchProcess = (\<lambda>xs k f ttl. io_mapM f xs)\<rparr>"

abbreviation stake_sample_env :: "unit stake_env" where
  "stake_sample_env \<equiv> plain_stake_env"

lemma stake_sample_sorts: "sorts_descending (se_sortedDescending stake_sample_env)"
proof -
  have "sorted_wrt (\<ge>) (rev (map f (sort_key f xs)))" for f :: "identity_info \<Rightarrow> nat" and xs
    by (simp add: sorted_wrt_rev)
  then show ?thesis by (simp add: sorts_descending_def plain_stake_env_def rev_map)
qed

lemma stake_sample_validators:
  "getValidators stake_sample_env () = (Inr \<lparr>vi_totalValidators = 2, vi_activeValidators = 2, vi_inactiveValidators = 0, vi_queueSize = None\<rparr>, ())"
  by (simp add: getValidators_def getAllNodes_def getTotalAndInactiveValidators_def plain_stake_env_def
      stake_sample_validator_def new_node_def plain_nodes_env_def eligible_or_waiting_def
      getTotalAndInactiveValidatorsBeforeStakingV4_def io_return_def Let_def)

theorem nakamoto_is_least_witness: "getNakamotoCoefficient stake_sample_env () = (Inr 1, ())"
proof -
  let ?ids = "[stake_sample_identity ''a'', stake_sample_identity ''b'']"
  let ?sum = "\<lambda>X. int (\<Sum>x \<in># X. coalesce (se_validators stake_sample_env x) 0)"
  have "ne_getAllIdentities (se_nodes stake_sample_env) () = (Inr ?ids, ())"
    by (simp add: plain_stake_env_def io_return_def)
  moreover have share: "1 = \<lceil>(33 / 100 :: rat) * of_nat (vi_totalValidators \<lparr>vi_totalValidators = 2, vi_activeValidators = 2,
      vi_inactiveValidators = 0, vi_queueSize = None\<rparr>)\<rceil>"
    by (simp add: ceiling_unique [of 1])
  moreover have "1 < ?sum (mset ?ids)" by (simp add: plain_stake_env_def stake_sample_identity_def)
  ultimately obtain k X where k: "getNakamotoCoefficient stake_sample_env () = (Inr k, ())" "size X = k" "1 < ?sum X"
    and least: "\<And>X. X \<subseteq># mset ?ids \<Longrightarrow> 1 < ?sum X \<Longrightarrow> k \<le> size X"
    using nakamoto_is_least [OF stake_sample_sorts _ stake_sample_validators, of "()" ?ids 1] by (auto simp del: mset.simps)
  have "k \<le> size {#stake_sample_identity ''b''#}"
    by (rule least) (simp_all add: plain_stake_env_def stake_sample_identity_def)
  moreover have "k \<noteq> 0" using k(2,3) by (cases "X = {#}") (auto simp: nonempty_has_size)
  ultimately show ?thesis using k(1) by (cases "k = 1") auto
qed

text \<open>
  No validator is active without being counted: in every phase of staking v4 the number of
  active validators is at most the total.
\<close>

theorem active_at_most_total:
  assumes "getValidators env s = (Inr info, t)"
  shows "vi_activeValidators info \<le> vi_totalValidators info"
proof -
  have le: "length (filter (\<lambda>node. eligible_or_waiting node \<and> nd_online node) xs) \<le> length (filter eligible_or_waiting xs)"
    for xs by (induction xs) auto
  have counted: "length (filter eligible_or_waiting xs) \<le> fst counts"
    if "getTotalAndInactiveValidators env xs u = (Inr counts, v)" for xs u v counts
    using that
    by (auto simp: getTotalAndInactiveValidators_def getTotalAndInactiveValidatorsBeforeStakingV4_def
        getTotalAndInactiveValidatorsDuringStakingV4_def getTotalAndInactiveValidatorsAfterStakingV4_def
        io_return_def Let_def elim!: io_bind_InrE split: if_splits)
  show ?thesis
  proof (cases "truthy (ne_stakingContract (se_nodes env))")
    case True
    obtain nodes counts u v where
      counts: "getTotalAndInactiveValidators env (filter (\<lambda>x. nd_type x = Some NT_validator) nodes) u = (Inr counts, v)"
      and info: "vi_totalValidators info = fst counts"
        "vi_activeValidators info = length (filter (\<lambda>node. eligible_or_waiting node \<and> nd_online node)
           (filter (\<lambda>x. nd_type x = Some NT_validator) nodes))"
      using assms True
      by (auto simp: getValidators_def io_return_def Let_def elim!: io_bind_InrE split: prod.splits)
    show ?thesis using le counted [OF counts] unfolding info by (rule order_trans)
  next
    case False
    with assms show ?thesis by (auto simp: getValidators_def io_return_def)
  qed
qed

theorem active_at_most_total_witness:
  "vi_activeValidators \<lparr>vi_totalValidators = 2, vi_activeValidators = 2, vi_inactiveValidators = 0, vi_queueSize = None\<rparr>
   \<le> vi_totalValidators \<lparr>vi_totalValidators = 2, vi_activeValidators = 2, vi_inactiveValidators = 0, vi_queueSize = None\<rparr>"
  by (rule active_at_most_total [OF stake_sample_validators])

text \<open>
  For an address with nodes, the contract's numbers are shared evenly: the locked value of a
  node, times the nodes, misses the total by less than one unit a node, and it is the sum of the
  stake and the top-up of the node or one more.
\<close>

theorem node_shares:
  assumes "address \<noteq> []" and "truthy (ne_auctionContract (se_nodes env))"
    and "ne_bech32Decode (se_nodes env) address = Inr hex"
    and "ne_vmQuery (se_nodes env) (the (ne_auctionContract (se_nodes env))) ''getTotalStakedTopUpStakedBlsKeys''
           (the (ne_auctionContract (se_nodes env))) [hex] s = (Inr (Some (encTopUp # encStaked # encNodes # encBlses)), t)"
    and "hex_BigInt (se_nodes env) encTopUp = Inr topUp" and "hex_BigInt (se_nodes env) encStaked = Inr staked"
    and "hex_BigInt (se_nodes env) encNodes = Inr n" and "0 < n" and "0 \<le> topUp" and "topUp \<le> staked"
  shows "\<exists>t1 s1 l1. getAllStakesForAddressNodesRaw env address s = (Inr
      \<lparr>st_topUp = int_str t1, st_stake = int_str s1, st_locked = int_str l1, st_numNodes = n, st_address = address,
       st_blses = Some (map (ne_base64ToHex (se_nodes env)) encBlses)\<rparr>, t)
    \<and> t1 + s1 \<le> l1 \<and> l1 \<le> t1 + s1 + 1 \<and> n * l1 \<le> staked \<and> staked < n * (l1 + 1)"
proof -
  have div: "bigint_div a n = Inr (a div n)" if "0 \<le> a" for a
    using that assms(8) by (cases "a = 0") (simp_all add: bigint_div_def signed_divide_int_def)
  have resp: "stake_of_response env address (encTopUp # encStaked # encNodes # encBlses) = Inr
      \<lparr>st_topUp = int_str (topUp div n), st_stake = int_str ((staked - topUp) div n), st_locked = int_str (staked div n),
       st_numNodes = n, st_address = address, st_blses = Some (map (ne_base64ToHex (se_nodes env)) encBlses)\<rparr>"
    using assms(5-10) by (simp add: stake_of_response_def Let_def div)
  have "getAllStakesForAddressNodesRaw env address s = (Inr
      \<lparr>st_topUp = int_str (topUp div n), st_stake = int_str ((staked - topUp) div n), st_locked = int_str (staked div n),
       st_numNodes = n, st_address = address, st_blses = Some (map (ne_base64ToHex (se_nodes env)) encBlses)\<rparr>, t)"
    using assms(1-4) by (simp add: getAllStakesForAddressNodesRaw_def io_simps Let_def resp)
  moreover have "topUp div n + (staked - topUp) div n \<le> staked div n \<and> staked div n \<le> topUp div n + (staked - topUp) div n + 1"
    by (rule div_sum_bounds) (rule assms(8))
  moreover have "n * (staked div n) \<le> staked" "staked < n * (staked div n + 1)"
    using pos_mod_bound [OF assms(8), of staked] pos_mod_sign [OF assms(8), of staked] mult_div_mod_eq [of n staked]
    unfolding distrib_left by linarith+
  ultimately show ?thesis by blast
qed

theorem node_shares_witness:
  "\<exists>t1 s1 l1. getAllStakesForAddressNodesRaw stake_sample_env ''alice'' () = (Inr
      \<lparr>st_topUp = int_str t1, st_stake = int_str s1, st_locked = int_str l1, st_numNodes = 2, st_address = ''alice'',
       st_blses = Some [''k1'', ''k2'']\<rparr>, ())
    \<and> t1 + s1 \<le> l1 \<and> l1 \<le> t1 + s1 + 1 \<and> 2 * l1 \<le> 21 \<and> 21 < 2 * (l1 + 1)"
proof -
  have "js_BigInt ''0x0b'' = Inr 11" "js_BigInt ''0x15'' = Inr 21" "js_BigInt ''0x02'' = Inr 2"
    by code_simp+
  then have numbers: "hex_BigInt (se_nodes stake_sample_env) ''0b'' = Inr 11"
    "hex_BigInt (se_nodes stake_sample_env) ''15'' = Inr 21" "hex_BigInt (se_nodes stake_sample_env) ''02'' = Inr 2"
    by (simp_all add: hex_BigInt_def plain_stake_env_def plain_nodes_env_def)
  show ?thesis
    using node_shares [OF _ _ _ _ numbers, of "''alice''" "''alice''" "()" "[''k1'', ''k2'']" "()"]
    by (simp add: plain_stake_env_def plain_nodes_env_def io_return_def)
qed

end
