(* ===== verification/ElasticQueries.thy ===== *)
theory ElasticQueries imports CacheInfo begin

text \<open>
  The queries of the index (\<open>src/common/indexer/elastic/elastic.indexer.helper.ts\<close>), built from the
  filters of the endpoints. A query is the list of the calls made to the query builder of the SDK, in
  their order; what the builder and the index make of the calls is not defined here: it is a
  parameter \<open>query_semantics\<close> with the documented laws \<open>documented_queries\<close>.
\<close>

section \<open>Calls of the query builder\<close>

datatype query_number = QN_int int | QN_float js_float

datatype query_range =
    LowerThan query_number | LowerThanOrEqual query_number
  | GreaterThan query_number | GreaterThanOrEqual query_number

text \<open>
  \<open>Q_Match field value both\<close> is \<open>QueryType.Match\<close> or \<open>new MatchQuery\<close>, with \<open>QueryOperator.AND\<close>
  when the flag is set.
\<close>

datatype query =
    Q_Match string json bool
  | Q_Exists string
  | Q_Wildcard string string
  | Q_Should "query list"
  | Q_Must "query list" "query list"
  | Q_Nested string "query list"
  | Q_NestedShould string "query list"
  | Q_Range string query_range
  | Q_Script string

datatype condition_option = QC_must | QC_should | QC_mustNot

datatype elastic_order = Ascending | Descending

datatype builder_call =
    WithCondition condition_option "query list"
  | WithMustMatch string json bool
  | WithMustExist string
  | WithMustNotExist string
  | WithMustMultiShould "query list option"
  | WithMustWildcard string string
  | WithSearchWildcard "string option" "string list"
  | WithDateRange string "int option" "int option"
  | WithRange string query_range
  | WithPagination int int
  | WithSort "(string \<times> elastic_order) list"
  | WithFields "string list"
  | WithExtra json

type_synonym elastic_query = "builder_call list"

abbreviation match_str :: "string \<Rightarrow> string \<Rightarrow> query" where
  "match_str field value \<equiv> Q_Match field (JStr value) False"

abbreviation match_all :: "string \<Rightarrow> string \<Rightarrow> query" where
  "match_all field value \<equiv> Q_Match field (JStr value) True"

abbreviation match_int :: "string \<Rightarrow> int \<Rightarrow> query" where
  "match_int field value \<equiv> Q_Match field (JNum value) False"

abbreviation with_must :: "query \<Rightarrow> builder_call" where
  "with_must q \<equiv> WithCondition QC_must [q]"

abbreviation with_must_not :: "query \<Rightarrow> builder_call" where
  "with_must_not q \<equiv> WithCondition QC_mustNot [q]"

abbreviation with_multi :: "string \<Rightarrow> bool \<Rightarrow> string list option \<Rightarrow> builder_call" where
  "with_multi field both values \<equiv> WithMustMultiShould (map_option (map (\<lambda>v. Q_Match field (JStr v) both)) values)"

text \<open>A truthy number, and an array that is there and not empty.\<close>

fun truthy_int :: "int option \<Rightarrow> bool" where
  "truthy_int None = False"
| "truthy_int (Some n) = (n \<noteq> 0)"

fun non_empty :: "'a list option \<Rightarrow> bool" where
  "non_empty None = False"
| "non_empty (Some xs) = (xs \<noteq> [])"

section \<open>Filters\<close>

record block_filter =
  bf_shard :: "int option"
  bf_proposer :: "string option"
  bf_validator :: "string option"
  bf_epoch :: "int option"
  bf_nonce :: "int option"
  bf_beforeNonce :: "int option"
  bf_afterNonce :: "int option"
  bf_hashes :: "string list option"
  bf_order :: "sort_order option"

datatype role_filter = Role_bool bool | Role_address string

datatype collection_sort = Collections_timestamp | Collections_verifiedAndHolderCount

record collection_filter =
  cf_collection :: "string option"
  cf_identifiers :: "string list option"
  cf_search :: "string option"
  cf_type :: "string list option"
  cf_subType :: "string list option"
  cf_owner :: "string option"
  cf_before :: "int option"
  cf_after :: "int option"
  cf_canCreate :: "role_filter option"
  cf_canBurn :: "role_filter option"
  cf_canAddQuantity :: "role_filter option"
  cf_canUpdateAttributes :: "role_filter option"
  cf_canAddUri :: "role_filter option"
  cf_canTransferRole :: "role_filter option"
  cf_excludeMetaESDT :: "bool option"
  cf_sort :: "collection_sort option"
  cf_order :: "sort_order option"

record nft_filter =
  ff_search :: "string option"
  ff_identifiers :: "string list option"
  ff_type :: "string list option"
  ff_subType :: "string list option"
  ff_collection :: "string option"
  ff_collections :: "string list option"
  ff_tags :: "string list option"
  ff_name :: "string option"
  ff_creator :: "string option"
  ff_hasUris :: "bool option"
  ff_includeFlagged :: "bool option"
  ff_before :: "int option"
  ff_after :: "int option"
  ff_nonceBefore :: "int option"
  ff_nonceAfter :: "int option"
  ff_isWhitelistedStorage :: "bool option"
  ff_isNsfw :: "bool option"
  ff_isScam :: "bool option"
  ff_scamType :: "string option"
  ff_traits :: "(string \<times> string) list option"
  ff_excludeMetaESDT :: "bool option"
  ff_sort :: "string option"
  ff_order :: "sort_order option"

datatype transaction_type = TxType_Transaction | TxType_SmartContractResult | TxType_Reward

record transaction_filter =
  tf_address :: "string option"
  tf_sender :: "string option"
  tf_senders :: "string list option"
  tf_receivers :: "string list option"
  tf_token :: "string option"
  tf_functions :: "string list option"
  tf_senderShard :: "int option"
  tf_receiverShard :: "int option"
  tf_miniBlockHash :: "string option"
  tf_hashes :: "string list option"
  tf_status :: "string option"
  tf_before :: "int option"
  tf_after :: "int option"
  tf_condition :: "condition_option option"
  tf_order :: "sort_order option"
  tf_type :: "transaction_type option"
  tf_tokens :: "string list option"
  tf_senderOrReceiver :: "string option"
  tf_isScCall :: "bool option"
  tf_isRelayed :: "bool option"
  tf_relayer :: "string option"
  tf_round :: "int option"
  tf_withRefunds :: "bool option"
  tf_withRelayedScresults :: "bool option"
  tf_withTxsRelayedByAddress :: "bool option"

definition new_transaction_filter :: transaction_filter where
  "new_transaction_filter =
     \<lparr>tf_address = None, tf_sender = None, tf_senders = Some [], tf_receivers = Some [], tf_token = None,
      tf_functions = Some [], tf_senderShard = None, tf_receiverShard = None, tf_miniBlockHash = None,
      tf_hashes = None, tf_status = None, tf_before = None, tf_after = None, tf_condition = None,
      tf_order = None, tf_type = None, tf_tokens = None, tf_senderOrReceiver = None, tf_isScCall = None,
      tf_isRelayed = None, tf_relayer = None, tf_round = None, tf_withRefunds = None,
      tf_withRelayedScresults = None, tf_withTxsRelayedByAddress = None\<rparr>"

text \<open>\<open>TransactionFilter.validate\<close>.\<close>

definition validate_transaction_filter :: "transaction_filter \<Rightarrow> int \<Rightarrow> unit res" where
  "validate_transaction_filter f amount =
     (if tf_withRelayedScresults f = Some True \<and> amount > 50
      then Inl (ErrorMsg ''Size must be less than or equal to 50 when withRelayedScresults is set'') else Inr ())"

record token_roles_filter =
  rf_identifier :: "string option"
  rf_search :: "string option"
  rf_owner :: "string option"
  rf_canMint :: "bool option"
  rf_canBurn :: "bool option"
  rf_includeMetaESDT :: "bool option"

record round_filter =
  of_from :: int
  of_size :: int
  of_condition :: "condition_option option"
  of_validator :: "string option"
  of_shard :: "int option"
  of_epoch :: "int option"

datatype account_sort = Accounts_balance | Accounts_timestamp | Accounts_transfersLast24h

record account_query_options =
  aq_addresses :: "string list option"
  aq_ownerAddress :: "string option"
  aq_sort :: "account_sort option"
  aq_order :: "sort_order option"
  aq_isSmartContract :: "bool option"
  aq_withOwnerAssets :: "bool option"
  aq_withDeployInfo :: "bool option"
  aq_withTxCount :: "bool option"
  aq_withScrCount :: "bool option"
  aq_name :: "string option"
  aq_tags :: "string list option"
  aq_excludeTags :: "string list option"
  aq_hasAssets :: "bool option"
  aq_search :: "string option"
  aq_withBalance :: "bool option"

definition validate_account_query :: "account_query_options \<Rightarrow> int \<Rightarrow> unit res" where
  "validate_account_query q amount =
     (if aq_withDeployInfo q = Some True \<and> amount > 25
      then Inl (ErrorMsg ''Size must be less than or equal to 25 when withDeployInfo is set'')
      else if aq_withTxCount q = Some True \<and> amount > 25
      then Inl (ErrorMsg ''Size must be less than or equal to 25 when withTxCount is set'')
      else if aq_withScrCount q = Some True \<and> amount > 25
      then Inl (ErrorMsg ''Size must be less than or equal to 25 when withScrCount is set'')
      else if (case aq_addresses q of None \<Rightarrow> False | Some as \<Rightarrow> length as > 25)
      then Inl (ErrorMsg ''Addresses array must contain 25 or fewer elements'')
      else Inr ())"

definition account_query_isSet :: "account_query_options \<Rightarrow> bool" where
  "account_query_isSet q \<longleftrightarrow>
     aq_ownerAddress q \<noteq> None \<or> aq_sort q \<noteq> None \<or> aq_order q \<noteq> None \<or> aq_isSmartContract q \<noteq> None
     \<or> aq_withOwnerAssets q \<noteq> None \<or> aq_withDeployInfo q \<noteq> None \<or> aq_name q \<noteq> None \<or> aq_tags q \<noteq> None
     \<or> aq_excludeTags q \<noteq> None \<or> aq_hasAssets q \<noteq> None \<or> aq_search q \<noteq> None \<or> aq_addresses q \<noteq> None
     \<or> aq_withBalance q \<noteq> None"

record account_history_filter =
  hf_before :: "int option"
  hf_after :: "int option"
  hf_identifiers :: "string list option"
  hf_token :: "string option"

record sc_result_filter =
  sf_miniBlockHash :: "string option"
  sf_originalTxHashes :: "string list option"
  sf_sender :: "string option"
  sf_receiver :: "string option"
  sf_functions :: "string list option"

record application_filter =
  pf_after :: "int option"
  pf_before :: "int option"
  pf_withTxCount :: "bool option"

definition validate_application_filter :: "application_filter \<Rightarrow> int \<Rightarrow> unit res" where
  "validate_application_filter f amount =
     (if pf_withTxCount f = Some True \<and> amount > 25
      then Inl (ErrorMsg ''Size must be less than or equal to 25 when withTxCount is set'') else Inr ())"

definition application_filter_isSet :: "application_filter \<Rightarrow> bool" where
  "application_filter_isSet f \<longleftrightarrow> pf_after f \<noteq> None \<or> pf_before f \<noteq> None \<or> pf_withTxCount f \<noteq> None"

record events_filter =
  ef_identifier :: "string option"
  ef_address :: "string option"
  ef_txHash :: "string option"
  ef_shard :: "int option"
  ef_before :: "int option"
  ef_after :: "int option"
  ef_order :: "int option"
  ef_logAddress :: "string option"
  ef_topics :: "string list option"

record mini_block_filter =
  lf_hashes :: "string list option"
  lf_type :: "string option"

section \<open>The services behind the queries\<close>

text \<open>\<open>he_getBlsIndex\<close> is \<open>indexOf\<close> among the public keys of a shard in an epoch.\<close>

record 's helper_env =
  he_getPublicKeys :: "int \<Rightarrow> int \<Rightarrow> ('s, string list) io"
  he_isSmartContractAddress :: "string \<Rightarrow> bool"
  he_base64Encode :: "string \<Rightarrow> string"
  he_isNftScamInfoEnabled :: bool
  he_nsfwThreshold :: query_number

definition js_indexOf :: "'a list \<Rightarrow> 'a \<Rightarrow> int" where
  "js_indexOf xs x = (case filter (\<lambda>i. xs ! i = x) [0..<length xs] of [] \<Rightarrow> - 1 | i # _ \<Rightarrow> int i)"

definition getBlsIndex :: "'s helper_env \<Rightarrow> string \<Rightarrow> int \<Rightarrow> int \<Rightarrow> ('s, int) io" where
  "getBlsIndex env bls shardId epoch =
     io_bind (he_getPublicKeys env shardId epoch) (\<lambda>publicKeys. io_return (js_indexOf publicKeys bls))"

section \<open>Blocks and rounds\<close>

definition opt_query :: "('a \<Rightarrow> query) \<Rightarrow> 'a option \<Rightarrow> query list" where
  "opt_query f x = (case x of None \<Rightarrow> [] | Some v \<Rightarrow> [f v])"

definition bls_query ::
  "'s helper_env \<Rightarrow> string \<Rightarrow> bool \<Rightarrow> string option \<Rightarrow> int option \<Rightarrow> int option \<Rightarrow> ('s, query list) io" where
  "bls_query env field present bls shard epoch =
     (case (bls, shard, epoch) of
        (Some b, Some s, Some e) \<Rightarrow>
          if present then io_bind (getBlsIndex env b s e) (\<lambda>i. io_return [match_int field i]) else io_return []
      | _ \<Rightarrow> io_return [])"

definition buildElasticBlocksFilter :: "'s helper_env \<Rightarrow> block_filter \<Rightarrow> ('s, query list) io" where
  "buildElasticBlocksFilter env f =
     (let queries =
        opt_query (match_int ''nonce'') (bf_nonce f)
        @ opt_query (\<lambda>n. Q_Range ''nonce'' (LowerThanOrEqual (QN_int n))) (bf_beforeNonce f)
        @ opt_query (\<lambda>n. Q_Range ''nonce'' (GreaterThanOrEqual (QN_int n))) (bf_afterNonce f)
        @ opt_query (match_int ''shardId'') (bf_shard f)
        @ opt_query (match_int ''epoch'') (bf_epoch f)
      in io_bind (bls_query env ''proposer'' (truthy (bf_proposer f)) (bf_proposer f) (bf_shard f) (bf_epoch f)) (\<lambda>proposer.
         io_bind (bls_query env ''validators'' (truthy (bf_validator f)) (bf_validator f) (bf_shard f) (bf_epoch f)) (\<lambda>validators.
           io_return (queries @ proposer @ validators
             @ (if non_empty (bf_hashes f) then [Q_Should (map (match_str ''_id'') (the (bf_hashes f)))] else [])))))"

definition buildElasticRoundsFilter :: "'s helper_env \<Rightarrow> round_filter \<Rightarrow> ('s, query list) io" where
  "buildElasticRoundsFilter env f =
     (let queries = opt_query (match_int ''shardId'') (of_shard f) @ opt_query (match_int ''epoch'') (of_epoch f)
      in io_bind (bls_query env ''signersIndexes'' (of_validator f \<noteq> None) (of_validator f) (of_shard f) (of_epoch f)) (\<lambda>signers.
           io_return (queries @ signers)))"

section \<open>Collections and NFTs\<close>

definition nonFungibleEsdtTypes :: "string list" where
  "nonFungibleEsdtTypes = [''NonFungibleESDT'', ''NonFungibleESDTv2'', ''DynamicNonFungibleESDT'']"

definition semiFungibleEsdtTypes :: "string list" where
  "semiFungibleEsdtTypes = [''SemiFungibleESDT'', ''DynamicSemiFungibleESDT'']"

definition metaEsdtTypes :: "string list" where
  "metaEsdtTypes = [''MetaESDT'', ''DynamicMetaESDT'']"

text \<open>\<open>Object.values(NftType)\<close> of the index.\<close>

definition all_nft_types :: "string list" where
  "all_nft_types = [''NonFungibleESDT'', ''SemiFungibleESDT'', ''MetaESDT'', ''NonFungibleESDTv2'',
     ''DynamicNonFungibleESDT'', ''DynamicSemiFungibleESDT'', ''DynamicMetaESDT'']"

definition role_query :: "string \<Rightarrow> json \<Rightarrow> query" where
  "role_query name address = Q_Nested ''roles'' [Q_Match (''roles.'' @ name) address False]"

text \<open>The types that a type of the filter stands for; \<open>other\<close> is the default branch of the \<open>switch\<close>.\<close>

definition types_of :: "json list \<Rightarrow> string \<Rightarrow> json list" where
  "types_of other type =
     (if type = ''NonFungibleESDT'' then map JStr nonFungibleEsdtTypes
      else if type = ''SemiFungibleESDT'' then map JStr semiFungibleEsdtTypes
      else if type = ''MetaESDT'' then map JStr metaEsdtTypes
      else other)"

definition getRoleCondition :: "string \<Rightarrow> string option \<Rightarrow> role_filter option \<Rightarrow> elastic_query" where
  "getRoleCondition name address value =
     (case value of
        None \<Rightarrow> []
      | Some v \<Rightarrow>
          [WithCondition (if v = Role_bool False then QC_mustNot else QC_must)
             [role_query name (case v of Role_address a \<Rightarrow> JStr a | Role_bool _ \<Rightarrow> opt_json JStr address)]])"

definition date_range :: "int option \<Rightarrow> int option \<Rightarrow> elastic_query" where
  "date_range before after =
     (if truthy_int before \<or> truthy_int after then [WithDateRange ''timestamp'' before after] else [])"

definition buildCollectionRolesFilter :: "collection_filter \<Rightarrow> string option \<Rightarrow> elastic_query" where
  "buildCollectionRolesFilter f address =
     [WithMustNotExist ''identifier'', with_multi ''type'' False (Some all_nft_types)]
     @ (if truthy address then
          [with_must (Q_Should (match_str ''currentOwner'' (the address)
             # map (\<lambda>role. role_query role (JStr (the address)))
                 [''ESDTRoleNFTCreate'', ''ESDTRoleNFTBurn'', ''ESDTRoleNFTAddQuantity'',
                  ''ESDTRoleNFTUpdateAttributes'', ''ESDTRoleNFTAddURI'', ''ESDTTransferRole'']))]
        else [])
     @ date_range (cf_before f) (cf_after f)
     @ getRoleCondition ''ESDTRoleNFTCreate'' address (cf_canCreate f)
     @ getRoleCondition ''ESDTRoleNFTBurn'' address (cf_canBurn f)
     @ getRoleCondition ''ESDTRoleNFTAddQuantity'' address (cf_canAddQuantity f)
     @ getRoleCondition ''ESDTRoleNFTUpdateAttributes'' address (cf_canUpdateAttributes f)
     @ getRoleCondition ''ESDTRoleNFTAddURI'' address (cf_canAddUri f)
     @ getRoleCondition ''ESDTTransferRole'' address (cf_canTransferRole f)
     @ (if cf_excludeMetaESDT f = Some True \<and> cf_type f = None
        then [with_multi ''type'' False (Some (nonFungibleEsdtTypes @ semiFungibleEsdtTypes))] else [])
     @ (case cf_type f of
          None \<Rightarrow> []
        | Some types \<Rightarrow>
            [WithMustMultiShould (Some (map (\<lambda>type. Q_Match ''type'' type False) (concat (map (types_of []) types))))])
     @ (case cf_subType f of None \<Rightarrow> [] | Some subTypes \<Rightarrow> [with_multi ''type'' False (Some subTypes)])
     @ [WithMustMatch ''token'' (opt_json JStr (cf_collection f)) True,
        with_multi ''token'' True (cf_identifiers f),
        WithSearchWildcard (cf_search f) [''token'', ''name'']]"

definition nested_data :: "string \<Rightarrow> json \<Rightarrow> bool \<Rightarrow> query" where
  "nested_data field value both = Q_Nested ''data'' [Q_Match field value both]"

definition buildElasticNftFilter ::
  "'s helper_env \<Rightarrow> (string \<Rightarrow> string) \<Rightarrow> nft_filter \<Rightarrow> string option \<Rightarrow> string option \<Rightarrow> elastic_query" where
  "buildElasticNftFilter env lower f identifier address =
     [WithCondition QC_must [Q_Exists ''identifier'']]
     @ (if truthy address then [with_must (match_str ''address'' (the address))] else [])
     @ (case ff_search f of
          None \<Rightarrow> []
        | Some searchable \<Rightarrow>
            [with_must (Q_NestedShould ''data''
               [Q_Wildcard ''data.name'' (''*'' @ lower searchable @ ''*''),
                Q_Wildcard ''data.token'' (''*'' @ lower searchable @ ''*'')])])
     @ (case ff_type f of
          None \<Rightarrow> []
        | Some types \<Rightarrow>
            [WithMustMultiShould (Some (map (\<lambda>type. Q_Match ''type'' type False)
               (concat (map (types_of [JArr (map JStr types)]) types))))])
     @ (case ff_subType f of None \<Rightarrow> [] | Some subTypes \<Rightarrow> [with_multi ''type'' True (Some subTypes)])
     @ (case identifier of None \<Rightarrow> [] | Some i \<Rightarrow> [with_must (match_all ''identifier'' i)])
     @ (if truthy (ff_collection f) then [with_must (match_all ''token'' (the (ff_collection f)))] else [])
     @ (if non_empty (ff_collections f)
        then [with_must (Q_Should (map (match_all ''token'') (the (ff_collections f))))] else [])
     @ (if truthy (ff_name f) then [with_must (nested_data ''data.name'' (JStr (the (ff_name f))) False)] else [])
     @ (case ff_hasUris f of None \<Rightarrow> [] | Some b \<Rightarrow> [with_must (nested_data ''data.nonEmptyURIs'' (JBool b) False)])
     @ (case ff_tags f of
          None \<Rightarrow> []
        | Some tags \<Rightarrow> [with_must (Q_Should (map (\<lambda>tag. nested_data ''data.tags'' (JStr tag) True) tags))])
     @ (case ff_creator f of None \<Rightarrow> [] | Some c \<Rightarrow> [with_must (nested_data ''data.creator'' (JStr c) False)])
     @ (case ff_identifiers f of
          None \<Rightarrow> [] | Some ids \<Rightarrow> [with_must (Q_Should (map (match_all ''identifier'') ids))])
     @ (case ff_isWhitelistedStorage f of
          None \<Rightarrow> [] | Some b \<Rightarrow> [with_must (nested_data ''data.whiteListedStorage'' (JBool b) False)])
     @ (if he_isNftScamInfoEnabled env \<and> ff_isScam f = Some True
        then [WithCondition QC_must [Q_Should [match_str ''nft_scamInfoType'' ''scam'',
                                              match_str ''nft_scamInfoType'' ''potentialScam'']]] else [])
     @ (if truthy (ff_scamType f) then [with_must (match_str ''nft_scamInfoType'' (the (ff_scamType f)))] else [])
     @ (case ff_traits f of
          None \<Rightarrow> []
        | Some traits \<Rightarrow>
            map (\<lambda>(key, value). WithMustMatch ''nft_traitValues''
                   (JStr (he_base64Encode env (key @ ''_'' @ value))) False) traits)
     @ (case ff_isNsfw f of
          None \<Rightarrow> []
        | Some True \<Rightarrow> [WithRange ''nft_nsfw_mark'' (GreaterThanOrEqual (he_nsfwThreshold env))]
        | Some False \<Rightarrow> [WithRange ''nft_nsfw_mark'' (LowerThan (he_nsfwThreshold env))])
     @ date_range (ff_before f) (ff_after f)
     @ (if truthy_int (ff_nonceBefore f)
        then [WithRange ''nonce'' (LowerThanOrEqual (QN_int (the (ff_nonceBefore f))))] else [])
     @ (if truthy_int (ff_nonceAfter f)
        then [WithRange ''nonce'' (GreaterThanOrEqual (QN_int (the (ff_nonceAfter f))))] else [])
     @ (if ff_excludeMetaESDT f = Some True
        then [with_multi ''type'' False (Some (nonFungibleEsdtTypes @ semiFungibleEsdtTypes))] else [])"

section \<open>Transactions\<close>

definition applyFunctionFilter :: "string list \<Rightarrow> elastic_query" where
  "applyFunctionFilter functions =
     [with_must (Q_Should (concat (map (\<lambda>field.
        [match_all ''function'' field,
         Q_Must [match_all ''operation'' field] [Q_Exists ''function'']]) functions)))]"

definition function_filter :: "string list option \<Rightarrow> elastic_query" where
  "function_filter functions =
     (case functions of
        None \<Rightarrow> []
      | Some [] \<Rightarrow> []
      | Some fs \<Rightarrow> if fs = [[]] then [WithMustNotExist ''function''] else applyFunctionFilter fs)"

definition relayed_query :: query where
  "relayed_query = Q_Should [Q_Match ''isRelayed'' (JBool True) False, Q_Exists ''relayer'']"

text \<open>A condition that is required, forbidden or left open by a flag of the filter.\<close>

definition flag_filter :: "query \<Rightarrow> bool option \<Rightarrow> elastic_query" where
  "flag_filter q flag =
     (case flag of None \<Rightarrow> [] | Some True \<Rightarrow> [with_must q] | Some False \<Rightarrow> [with_must_not q])"

definition token_filter :: "string option \<Rightarrow> elastic_query" where
  "token_filter token =
     (if token = Some ''EGLD'' then [with_must_not (match_str ''value'' ''0'')]
      else [WithMustMatch ''tokens'' (opt_json JStr token) True])"

definition either_party :: "string option \<Rightarrow> elastic_query" where
  "either_party address =
     (if truthy address
      then [with_must (Q_Should [match_str ''sender'' (the address), match_str ''receiver'' (the address)])] else [])"

definition sc_call_query :: query where
  "sc_call_query = Q_Match ''isScCall'' (JBool True) False"

definition receiver_queries :: "string list \<Rightarrow> query list" where
  "receiver_queries receivers =
     concat (map (\<lambda>receiver. [match_str ''receiver'' receiver, match_str ''receivers'' receiver]) receivers)"

definition buildTransferFilterQuery :: "'s helper_env \<Rightarrow> transaction_filter \<Rightarrow> elastic_query" where
  "buildTransferFilterQuery env f =
     (if truthy (tf_address f) then
        (let address = the (tf_address f) in
         [WithCondition QC_should [Q_Must
            [match_str ''type'' ''unsigned'',
             Q_Should ([match_str ''receiver'' address, match_str ''receivers'' address]
               @ (if he_isSmartContractAddress env address then [match_str ''sender'' address] else []))]
            (if tf_withRefunds f = Some True then [] else [Q_Exists ''canBeIgnored''])],
          WithCondition QC_should [Q_Must
            [Q_Should [match_str ''type'' ''normal''],
             Q_Should ([match_str ''sender'' address, match_str ''receiver'' address, match_str ''receivers'' address]
               @ (if tf_withTxsRelayedByAddress f = Some True then [match_str ''relayer'' address] else []))] []]])
      else [])
     @ (if truthy (tf_relayer f) then [WithMustMatch ''relayerAddr'' (JStr (the (tf_relayer f))) False] else [])
     @ flag_filter relayed_query (tf_isRelayed f)
     @ (case tf_type f of
          None \<Rightarrow> []
        | Some t \<Rightarrow> [WithCondition QC_must [match_str ''type'' (if t = TxType_Transaction then ''normal'' else ''unsigned'')]])
     @ (case tf_senders f of None \<Rightarrow> [] | Some senders \<Rightarrow> [with_multi ''sender'' False (Some senders)])
     @ (case tf_receivers f of None \<Rightarrow> [] | Some rs \<Rightarrow> [with_must (Q_Should (receiver_queries rs))])
     @ token_filter (tf_token f)
     @ (if non_empty (tf_tokens f) then [with_multi ''tokens'' True (tf_tokens f)] else [])
     @ function_filter (tf_functions f)
     @ (case tf_senderShard f of None \<Rightarrow> [] | Some s \<Rightarrow> [WithCondition QC_must [match_int ''senderShard'' s]])
     @ (case tf_receiverShard f of None \<Rightarrow> [] | Some s \<Rightarrow> [WithCondition QC_must [match_int ''receiverShard'' s]])
     @ (if truthy (tf_miniBlockHash f)
        then [WithCondition QC_must [match_str ''miniBlockHash'' (the (tf_miniBlockHash f))]] else [])
     @ (case tf_hashes f of
          None \<Rightarrow> [] | Some hs \<Rightarrow> [WithCondition QC_must [Q_Should (map (match_str ''_id'') hs)]])
     @ (if truthy (tf_status f) then [WithCondition QC_must [match_str ''status'' (the (tf_status f))]] else [])
     @ date_range (tf_before f) (tf_after f)
     @ either_party (tf_senderOrReceiver f)
     @ (if truthy_int (tf_round f) then [WithMustMatch ''round'' (opt_json JNum (tf_round f)) False] else [])
     @ flag_filter sc_call_query (tf_isScCall f)"

definition same_origin_script :: string where
  "same_origin_script = ''doc['' @ [CHR 0x27] @ ''originalTxHash'' @ [CHR 0x27] @ ''].size() > 0 && doc['' @ [CHR 0x27]
     @ ''prevTxHash'' @ [CHR 0x27] @ ''].size() > 0 && doc['' @ [CHR 0x27] @ ''originalTxHash'' @ [CHR 0x27]
     @ ''].value == doc['' @ [CHR 0x27] @ ''prevTxHash'' @ [CHR 0x27] @ ''].value''"

definition buildTransactionFilterQuery :: "transaction_filter \<Rightarrow> string option \<Rightarrow> elastic_query" where
  "buildTransactionFilterQuery f address =
     (if tf_withRelayedScresults f \<noteq> Some True then [WithMustMatch ''type'' (JStr ''normal'') False]
      else [WithCondition QC_should
              [match_str ''type'' ''normal'',
               Q_Must [Q_Exists ''relayerAddr'', match_str ''type'' ''unsigned'', Q_Script same_origin_script] []]])
     @ [WithMustMatch ''senderShard'' (opt_json JNum (tf_senderShard f)) False,
        WithMustMatch ''receiverShard'' (opt_json JNum (tf_receiverShard f)) False,
        WithMustMatch ''miniBlockHash'' (opt_json JStr (tf_miniBlockHash f)) False,
        with_multi ''_id'' False (tf_hashes f),
        WithMustMatch ''status'' (opt_json JStr (tf_status f)) False,
        with_multi ''tokens'' True (tf_tokens f),
        WithDateRange ''timestamp'' (tf_before f) (tf_after f)]
     @ function_filter (tf_functions f)
     @ token_filter (tf_token f)
     @ flag_filter relayed_query (tf_isRelayed f)
     @ (if truthy (tf_relayer f) then [WithCondition QC_should [match_str ''relayer'' (the (tf_relayer f))]] else [])
     @ (if truthy_int (tf_round f) then [WithMustMatch ''round'' (opt_json JNum (tf_round f)) False] else [])
     @ (if tf_condition f = Some QC_should then
          (if truthy (tf_sender f) then [WithCondition QC_should [match_str ''sender'' (the (tf_sender f))]] else [])
          @ (case tf_receivers f of
               None \<Rightarrow> [] | Some rs \<Rightarrow> map (\<lambda>q. WithCondition QC_should [q]) (receiver_queries rs))
        else
          [WithMustMatch ''sender'' (opt_json JStr (tf_sender f)) False]
          @ (case tf_receivers f of None \<Rightarrow> [] | Some rs \<Rightarrow> [with_must (Q_Should (receiver_queries rs))]))
     @ (if truthy address
        then [WithMustMultiShould (Some (map (\<lambda>key. match_str key (the address)) [''sender'', ''receiver'', ''receivers'']))]
        else [])
     @ either_party (tf_senderOrReceiver f)
     @ flag_filter sc_call_query (tf_isScCall f)"

definition buildSmartContractResultFilterQuery :: "string option \<Rightarrow> elastic_query" where
  "buildSmartContractResultFilterQuery address =
     [WithMustMatch ''type'' (JStr ''unsigned'') False,
      WithCondition QC_should (if truthy address
        then [match_str ''sender'' (the address), match_str ''receiver'' (the address), match_str ''receivers'' (the address)]
        else []),
      WithCondition QC_must []]"

definition buildResultsFilterQuery :: "sc_result_filter \<Rightarrow> elastic_query" where
  "buildResultsFilterQuery f =
     [WithMustMatch ''type'' (JStr ''unsigned'') False]
     @ (if truthy (sf_miniBlockHash f)
        then [WithCondition QC_must [match_str ''miniBlockHash'' (the (sf_miniBlockHash f))]] else [])
     @ (case sf_originalTxHashes f of
          None \<Rightarrow> [] | Some hs \<Rightarrow> [WithCondition QC_should (map (match_str ''originalTxHash'') hs)])
     @ (if truthy (sf_sender f) then [WithCondition QC_should [match_str ''sender'' (the (sf_sender f))]] else [])
     @ (if truthy (sf_receiver f) then [WithCondition QC_should [match_str ''receiver'' (the (sf_receiver f))]] else [])
     @ function_filter (sf_functions f)"

section \<open>Tokens, accounts, applications and events\<close>

definition buildTokensWithRolesForAddressQuery ::
  "string \<Rightarrow> token_roles_filter \<Rightarrow> (int \<times> int) option \<Rightarrow> elastic_query" where
  "buildTokensWithRolesForAddressQuery address f pagination =
     (let rolesConditions = map (\<lambda>role. role_query role (JStr address))
            ([''ESDTRoleLocalMint'', ''ESDTRoleLocalBurn'', ''ESDTTransferRole'']
             @ (if rf_includeMetaESDT f = Some True
                then [''ESDTRoleNFTAddQuantity'', ''ESDTRoleNFTAddURI'', ''ESDTRoleNFTCreate'',
                      ''ESDTRoleNFTBurn'', ''ESDTRoleNFTUpdateAttributes''] else []))
      in [WithMustNotExist ''identifier'',
          with_must (Q_Should (match_str ''currentOwner'' address # rolesConditions)),
          WithMustMatch ''token'' (opt_json JStr (rf_identifier f)) False,
          WithMustMatch ''currentOwner'' (opt_json JStr (rf_owner f)) False]
         @ (if rf_includeMetaESDT f = Some True
            then [with_multi ''type'' False (Some [''FungibleESDT'', ''MetaESDT''])]
            else [WithMustMatch ''type'' (JStr ''FungibleESDT'') False])
         @ (if truthy (rf_search f)
            then [WithCondition QC_should [Q_Wildcard ''token'' (the (rf_search f)), Q_Wildcard ''name'' (the (rf_search f))]]
            else [])
         @ flag_filter (role_query ''ESDTRoleLocalMint'' (JStr address)) (rf_canMint f)
         @ flag_filter (role_query ''ESDTRoleLocalBurn'' (JStr address)) (rf_canBurn f)
         @ (case pagination of None \<Rightarrow> [] | Some (start, amount) \<Rightarrow> [WithPagination start amount]))"

definition buildAccountHistoryFilterQuery ::
  "string option \<Rightarrow> string option \<Rightarrow> account_history_filter option \<Rightarrow> elastic_query" where
  "buildAccountHistoryFilterQuery address token f =
     [WithCondition QC_must
        ((if truthy address then [match_str ''address'' (the address)] else [])
         @ (if truthy token
            then [match_all (if length (split_on CHR ''-'' (the token)) = 2 then ''token'' else ''identifier'') (the token)]
            else []))]
     @ (case f of
          None \<Rightarrow> []
        | Some h \<Rightarrow>
            date_range (hf_before h) (hf_after h)
            @ (case hf_identifiers h of
                 None \<Rightarrow> [] | Some ids \<Rightarrow> [with_must (Q_Should (map (match_all ''identifier'') ids))])
            @ (if truthy (hf_token h) then [WithMustMatch ''token'' (JStr (the (hf_token h))) False] else []))"

definition exist_filter :: "string \<Rightarrow> bool option \<Rightarrow> elastic_query" where
  "exist_filter field flag =
     (case flag of None \<Rightarrow> [] | Some True \<Rightarrow> [WithMustExist field] | Some False \<Rightarrow> [WithMustNotExist field])"

definition buildAccountFilterQuery :: "account_query_options \<Rightarrow> elastic_query" where
  "buildAccountFilterQuery f =
     (let common =
        (if truthy (aq_ownerAddress f) then [with_must (match_all ''currentOwner'' (the (aq_ownerAddress f)))] else [])
        @ exist_filter ''currentOwner'' (aq_isSmartContract f)
        @ (if truthy (aq_name f) then [WithMustWildcard ''api_assets.name'' (the (aq_name f))] else [])
      in if non_empty (aq_tags f) then
           common @ [with_must (Q_Should (map (match_str ''api_assets.tags'') (the (aq_tags f))))]
         else if non_empty (aq_excludeTags f) then
           common @ [with_must_not (Q_Should (map (match_str ''api_assets.tags'') (the (aq_excludeTags f))))]
         else
           common
           @ exist_filter ''api_assets'' (aq_hasAssets f)
           @ (if non_empty (aq_addresses f) then [with_multi ''address'' False (aq_addresses f)] else [])
           @ (if truthy (aq_search f) then [WithSearchWildcard (aq_search f) [''address'', ''api_assets.name'']] else [])
           @ (case aq_withBalance f of
                None \<Rightarrow> []
              | Some True \<Rightarrow> [WithRange ''balanceNum'' (GreaterThan (QN_int 0))]
              | Some False \<Rightarrow> [with_must (match_int ''balanceNum'' 0)]))"

definition buildApplicationFilter :: "application_filter \<Rightarrow> elastic_query" where
  "buildApplicationFilter f =
     (if truthy_int (pf_after f)
      then [WithRange ''timestamp'' (GreaterThanOrEqual (QN_int (the (pf_after f))))] else [])
     @ (if truthy_int (pf_before f)
        then [WithRange ''timestamp'' (LowerThanOrEqual (QN_int (the (pf_before f))))] else [])"

definition buildEventsFilter :: "events_filter \<Rightarrow> elastic_query" where
  "buildEventsFilter f =
     (if truthy_int (ef_before f)
      then [WithRange ''timestamp'' (LowerThanOrEqual (QN_int (the (ef_before f))))] else [])
     @ (if truthy_int (ef_after f)
        then [WithRange ''timestamp'' (GreaterThanOrEqual (QN_int (the (ef_after f))))] else [])
     @ (if truthy (ef_identifier f) then [WithMustMatch ''identifier'' (JStr (the (ef_identifier f))) False] else [])
     @ (if truthy (ef_txHash f) then [WithMustMatch ''txHash'' (JStr (the (ef_txHash f))) False] else [])
     @ (if truthy_int (ef_shard f) then [WithCondition QC_must [match_int ''shardID'' (the (ef_shard f))]] else [])
     @ (if truthy (ef_address f) then [WithMustMatch ''address'' (JStr (the (ef_address f))) False] else [])
     @ (if truthy_int (ef_order f) then [WithCondition QC_must [match_int ''order'' (the (ef_order f))]] else [])
     @ (if truthy (ef_logAddress f) then [WithMustMatch ''logAddress'' (JStr (the (ef_logAddress f))) False] else [])
     @ (case ef_topics f of
          None \<Rightarrow> [] | Some topics \<Rightarrow> map (\<lambda>topic. WithMustMatch ''topics'' (JStr topic) False) topics)"

section \<open>What the calls mean\<close>

text \<open>
  The meaning of queries and of lists of calls for a document, as the index decides it;
  \<open>qs_wildcard\<close> and \<open>qs_search\<close> are the two wildcard conditions.
\<close>

record 'd query_semantics =
  qs_holds :: "query \<Rightarrow> 'd \<Rightarrow> bool"
  qs_accepts :: "elastic_query \<Rightarrow> 'd \<Rightarrow> bool"
  qs_wildcard :: "string \<Rightarrow> string \<Rightarrow> 'd \<Rightarrow> bool"
  qs_search :: "string \<Rightarrow> string list \<Rightarrow> 'd \<Rightarrow> bool"

text \<open>What a call requires of every accepted document; a \<open>should\<close> condition alone requires nothing.\<close>

fun required :: "'d query_semantics \<Rightarrow> builder_call \<Rightarrow> 'd \<Rightarrow> bool" where
  "required sem (WithCondition opt qs) d =
     (case opt of
        QC_must \<Rightarrow> (\<forall>q \<in> set qs. qs_holds sem q d)
      | QC_mustNot \<Rightarrow> (\<forall>q \<in> set qs. \<not> qs_holds sem q d)
      | QC_should \<Rightarrow> True)"
| "required sem (WithMustMatch field value both) d = (value = JUndefined \<or> qs_holds sem (Q_Match field value both) d)"
| "required sem (WithMustExist field) d = qs_holds sem (Q_Exists field) d"
| "required sem (WithMustNotExist field) d = (\<not> qs_holds sem (Q_Exists field) d)"
| "required sem (WithMustMultiShould values) d =
     (case values of None \<Rightarrow> True | Some qs \<Rightarrow> qs = [] \<or> (\<exists>q \<in> set qs. qs_holds sem q d))"
| "required sem (WithMustWildcard field value) d = qs_wildcard sem field value d"
| "required sem (WithSearchWildcard search names) d = (truthy search \<longrightarrow> qs_search sem (the search) names d)"
| "required sem (WithDateRange field before after) d =
     ((\<forall>n. before = Some n \<longrightarrow> qs_holds sem (Q_Range field (LowerThanOrEqual (QN_int n))) d)
      \<and> (\<forall>n. after = Some n \<longrightarrow> qs_holds sem (Q_Range field (GreaterThanOrEqual (QN_int n))) d))"
| "required sem (WithRange field r) d = qs_holds sem (Q_Range field r) d"
| "required sem _ d = True"

fun no_should :: "builder_call \<Rightarrow> bool" where
  "no_should (WithCondition opt qs) = (opt \<noteq> QC_should \<or> qs = [])"
| "no_should _ = True"

text \<open>
  The documented behaviour that the queries rely on: a disjunction (one without a query is a query
  without clauses, which every document meets), a conjunction with exclusions, and the conditions of a query, which all hold for an accepted
  document and decide alone when there is no \<open>should\<close> among them. (How many \<open>should\<close> conditions an
  accepted document meets is left open.)
\<close>

definition documented_queries :: "'d query_semantics \<Rightarrow> bool" where
  "documented_queries sem \<longleftrightarrow>
     (\<forall>qs d. qs_holds sem (Q_Should qs) d = (qs = [] \<or> (\<exists>q \<in> set qs. qs_holds sem q d)))
     \<and> (\<forall>qs nots d. qs_holds sem (Q_Must qs nots) d =
          ((\<forall>q \<in> set qs. qs_holds sem q d) \<and> (\<forall>q \<in> set nots. \<not> qs_holds sem q d)))
     \<and> (\<forall>calls d. qs_accepts sem calls d \<longrightarrow> (\<forall>c \<in> set calls. required sem c d))
     \<and> (\<forall>calls d. (\<forall>c \<in> set calls. no_should c) \<longrightarrow> qs_accepts sem calls d = (\<forall>c \<in> set calls. required sem c d))"

lemma documented_should:
  "documented_queries sem \<Longrightarrow> qs_holds sem (Q_Should qs) d = (qs = [] \<or> (\<exists>q \<in> set qs. qs_holds sem q d))"
  by (simp add: documented_queries_def)

lemma documented_must:
  "documented_queries sem \<Longrightarrow> qs_holds sem (Q_Must qs nots) d =
     ((\<forall>q \<in> set qs. qs_holds sem q d) \<and> (\<forall>q \<in> set nots. \<not> qs_holds sem q d))"
  by (simp add: documented_queries_def)

lemma documented_required:
  "documented_queries sem \<Longrightarrow> qs_accepts sem calls d \<Longrightarrow> c \<in> set calls \<Longrightarrow> required sem c d"
  by (simp add: documented_queries_def)

lemma documented_exact:
  "documented_queries sem \<Longrightarrow> \<forall>c \<in> set calls. no_should c \<Longrightarrow>
     qs_accepts sem calls d = (\<forall>c \<in> set calls. required sem c d)"
  by (simp add: documented_queries_def)

section \<open>Properties\<close>

text \<open>The conditions of a transaction filter, in terms of the fields of a document.\<close>

definition function_matches :: "'d query_semantics \<Rightarrow> string list option \<Rightarrow> 'd \<Rightarrow> bool" where
  "function_matches sem fns d \<longleftrightarrow>
     \<not> non_empty fns
     \<or> (fns = Some [[]] \<and> \<not> qs_holds sem (Q_Exists ''function'') d)
     \<or> (fns \<noteq> Some [[]] \<and> (\<exists>f \<in> set (the fns).
          qs_holds sem (match_all ''function'' f) d
          \<or> qs_holds sem (match_all ''operation'' f) d \<and> \<not> qs_holds sem (Q_Exists ''function'') d))"

lemma required_function_filter:
  assumes "documented_queries sem"
  shows "(\<forall>c \<in> set (function_filter fns). required sem c d) = function_matches sem fns d"
proof (cases fns)
  case None
  then show ?thesis by (simp add: function_filter_def function_matches_def)
next
  case (Some fs)
  show ?thesis
  proof (cases fs)
    case Nil
    with Some show ?thesis by (simp add: function_filter_def function_matches_def)
  next
    case (Cons f gs)
    have "qs_holds sem (Q_Should (concat (map (\<lambda>field. [match_all ''function'' field,
         Q_Must [match_all ''operation'' field] [Q_Exists ''function'']]) fs))) d
       = (\<exists>f \<in> set fs. qs_holds sem (match_all ''function'' f) d
          \<or> qs_holds sem (match_all ''operation'' f) d \<and> \<not> qs_holds sem (Q_Exists ''function'') d)"
      by (subst documented_should [OF assms]) (simp_all add: Cons documented_must [OF assms] ex_disj_distrib)
    then show ?thesis
      using Some Cons by (auto simp: function_filter_def function_matches_def applyFunctionFilter_def)
  qed
qed

definition flag_matches :: "'d query_semantics \<Rightarrow> query \<Rightarrow> bool option \<Rightarrow> 'd \<Rightarrow> bool" where
  "flag_matches sem q flag d \<longleftrightarrow> flag = None \<or> flag = Some (qs_holds sem q d)"

lemma required_flag_filter:
  "(\<forall>c \<in> set (flag_filter q flag). required sem c d) = flag_matches sem q flag d"
  by (cases flag) (auto simp: flag_filter_def flag_matches_def split: bool.splits)

lemma no_should_filters [simp]:
  "c \<in> set (function_filter fns) \<Longrightarrow> no_should c"
  "c \<in> set (flag_filter q flag) \<Longrightarrow> no_should c"
  "c \<in> set (token_filter token) \<Longrightarrow> no_should c"
  "c \<in> set (either_party a) \<Longrightarrow> no_should c"
  by (auto simp: function_filter_def applyFunctionFilter_def flag_filter_def token_filter_def either_party_def
      split: option.splits list.splits if_splits bool.splits)

text \<open>A filter whose conditions are all required: no alternative is asked for.\<close>

definition plain_filter :: "transaction_filter \<Rightarrow> bool" where
  "plain_filter f \<longleftrightarrow> tf_withRelayedScresults f \<noteq> Some True \<and> \<not> truthy (tf_relayer f) \<and> tf_condition f \<noteq> Some QC_should"

lemma plain_filter_no_should:
  assumes "plain_filter f" and "c \<in> set (buildTransactionFilterQuery f address)"
  shows "no_should c"
  using assms by (auto simp: plain_filter_def buildTransactionFilterQuery_def split: if_splits option.splits)

definition opt_match :: "'d query_semantics \<Rightarrow> string \<Rightarrow> json \<Rightarrow> bool \<Rightarrow> 'd \<Rightarrow> bool" where
  "opt_match sem field value both d \<longleftrightarrow> value = JUndefined \<or> qs_holds sem (Q_Match field value both) d"

definition any_match :: "'d query_semantics \<Rightarrow> string list \<Rightarrow> string list \<Rightarrow> bool \<Rightarrow> 'd \<Rightarrow> bool" where
  "any_match sem names values both d \<longleftrightarrow> (\<exists>v \<in> set values. \<exists>k \<in> set names. qs_holds sem (Q_Match k (JStr v) both) d)"

definition transaction_selected :: "'d query_semantics \<Rightarrow> transaction_filter \<Rightarrow> string option \<Rightarrow> 'd \<Rightarrow> bool" where
  "transaction_selected sem f address d \<longleftrightarrow>
     qs_holds sem (match_str ''type'' ''normal'') d
     \<and> (truthy address \<longrightarrow> any_match sem [''sender'', ''receiver'', ''receivers''] [the address] False d)
     \<and> opt_match sem ''sender'' (opt_json JStr (tf_sender f)) False d
     \<and> (non_empty (tf_receivers f) \<longrightarrow> any_match sem [''receiver'', ''receivers''] (the (tf_receivers f)) False d)
     \<and> (truthy (tf_senderOrReceiver f) \<longrightarrow> any_match sem [''sender'', ''receiver''] [the (tf_senderOrReceiver f)] False d)
     \<and> opt_match sem ''senderShard'' (opt_json JNum (tf_senderShard f)) False d
     \<and> opt_match sem ''receiverShard'' (opt_json JNum (tf_receiverShard f)) False d
     \<and> opt_match sem ''miniBlockHash'' (opt_json JStr (tf_miniBlockHash f)) False d
     \<and> opt_match sem ''status'' (opt_json JStr (tf_status f)) False d
     \<and> (non_empty (tf_hashes f) \<longrightarrow> any_match sem [''_id''] (the (tf_hashes f)) False d)
     \<and> (non_empty (tf_tokens f) \<longrightarrow> any_match sem [''tokens''] (the (tf_tokens f)) True d)
     \<and> (if tf_token f = Some ''EGLD'' then \<not> qs_holds sem (match_str ''value'' ''0'') d
        else opt_match sem ''tokens'' (opt_json JStr (tf_token f)) True d)
     \<and> required sem (WithDateRange ''timestamp'' (tf_before f) (tf_after f)) d
     \<and> function_matches sem (tf_functions f) d
     \<and> (truthy_int (tf_round f) \<longrightarrow> qs_holds sem (match_int ''round'' (the (tf_round f))) d)
     \<and> flag_matches sem relayed_query (tf_isRelayed f) d
     \<and> flag_matches sem sc_call_query (tf_isScCall f) d"

lemma required_either_party:
  assumes "documented_queries sem"
  shows "(\<forall>c \<in> set (either_party a). required sem c d) = (truthy a \<longrightarrow> any_match sem [''sender'', ''receiver''] [the a] False d)"
  by (cases a) (auto simp: either_party_def documented_should [OF assms] any_match_def)

lemma required_token_filter:
  "(\<forall>c \<in> set (token_filter token). required sem c d) = (if token = Some ''EGLD'' then \<not> qs_holds sem (match_str ''value'' ''0'') d
        else opt_match sem ''tokens'' (opt_json JStr token) True d)"
  by (auto simp: token_filter_def opt_match_def)

lemma required_multi:
  "required sem (with_multi field both vs) d = (non_empty vs \<longrightarrow> any_match sem [field] (the vs) both d)"
  by (cases vs) (auto simp: any_match_def)

lemma holds_receivers:
  assumes "documented_queries sem"
  shows "qs_holds sem (Q_Should (receiver_queries rs)) d = (rs = [] \<or> any_match sem [''receiver'', ''receivers''] rs False d)"
  by (subst documented_should [OF assms]) (auto simp: receiver_queries_def any_match_def)

text \<open>The same without the conditions on relaying: what the flag leaves to the other conditions.\<close>

lemma transaction_query_required:
  assumes "documented_queries sem" and "plain_filter f"
  shows "qs_accepts sem (buildTransactionFilterQuery f address) d
     = (\<forall>c \<in> set (buildTransactionFilterQuery f address). required sem c d)"
  using plain_filter_no_should [OF assms(2)] by (intro documented_exact [OF assms(1)]) blast

lemma transaction_query_selected:
  assumes "documented_queries sem" and "plain_filter f"
  shows "(\<forall>c \<in> set (buildTransactionFilterQuery f address). required sem c d) = transaction_selected sem f address d"
proof -
  have plain: "tf_withRelayedScresults f \<noteq> Some True" "\<not> truthy (tf_relayer f)" "tf_condition f \<noteq> Some QC_should"
    using assms(2) by (simp_all add: plain_filter_def)
  have receivers: "(\<forall>c \<in> set (case tf_receivers f of None \<Rightarrow> [] | Some rs \<Rightarrow> [with_must (Q_Should (receiver_queries rs))]).
      required sem c d) = (non_empty (tf_receivers f) \<longrightarrow> any_match sem [''receiver'', ''receivers''] (the (tf_receivers f)) False d)"
    by (cases "tf_receivers f") (auto simp: holds_receivers [OF assms(1)])
  have account: "(\<forall>c \<in> set (if truthy address
        then [WithMustMultiShould (Some (map (\<lambda>key. match_str key (the address)) [''sender'', ''receiver'', ''receivers'']))]
        else []). required sem c d)
      = (truthy address \<longrightarrow> any_match sem [''sender'', ''receiver'', ''receivers''] [the address] False d)"
    by (simp add: any_match_def)
  have round: "(\<forall>c \<in> set (if truthy_int (tf_round f) then [WithMustMatch ''round'' (opt_json JNum (tf_round f)) False] else []).
      required sem c d) = (truthy_int (tf_round f) \<longrightarrow> qs_holds sem (match_int ''round'' (the (tf_round f))) d)"
    by (cases "tf_round f") simp_all
  show ?thesis
    unfolding buildTransactionFilterQuery_def transaction_selected_def set_append ball_Un
      required_function_filter [OF assms(1)] required_token_filter required_flag_filter
      required_either_party [OF assms(1)] receivers account round if_not_P [OF plain(2)] if_not_P [OF plain(3)]
      if_P [OF plain(1)]
    by (simp only: list.set ball_simps required.simps(2) required_multi opt_match_def receivers HOL.simp_thms) blast
qed

lemma selected_flag:
  "transaction_selected sem (f\<lparr>tf_isRelayed := flag\<rparr>) address d
     = (transaction_selected sem (f\<lparr>tf_isRelayed := None\<rparr>) address d \<and> flag_matches sem relayed_query flag d)"
  by (simp add: transaction_selected_def conj_ac flag_matches_def [of _ _ None] cong: if_cong)

text \<open>A concrete meaning of the calls, over documents that are lists of fields with their values.\<close>

fun sample_holds :: "query \<Rightarrow> (string \<times> json) list \<Rightarrow> bool" where
  "sample_holds (Q_Match field v both) d = ((field, v) \<in> set d)"
| "sample_holds (Q_Exists field) d = (field \<in> fst ` set d)"
| "sample_holds (Q_Should qs) d = (qs = [] \<or> list_ex (\<lambda>q. sample_holds q d) qs)"
| "sample_holds (Q_Must qs nots) d = (list_all (\<lambda>q. sample_holds q d) qs \<and> list_all (\<lambda>q. \<not> sample_holds q d) nots)"
| "sample_holds (Q_Nested path qs) d = list_all (\<lambda>q. sample_holds q d) qs"
| "sample_holds (Q_NestedShould path qs) d = list_ex (\<lambda>q. sample_holds q d) qs"
| "sample_holds (Q_Wildcard field v) d = False"
| "sample_holds (Q_Range field r) d = False"
| "sample_holds (Q_Script s) d = False"

definition sample_meaning :: "(string \<times> json) list query_semantics" where
  "sample_meaning = \<lparr>qs_holds = sample_holds, qs_accepts = \<lambda>_ _. False,
     qs_wildcard = \<lambda>_ _ _. False, qs_search = \<lambda>_ _ _. False\<rparr>"

definition sample_semantics :: "(string \<times> json) list query_semantics" where
  "sample_semantics = sample_meaning\<lparr>qs_accepts := \<lambda>calls d. \<forall>c \<in> set calls. required sample_meaning c d\<rparr>"

lemma required_accepts_update [simp]: "required (sem\<lparr>qs_accepts := a\<rparr>) c d = required sem c d"
  by (cases c) (simp_all split: condition_option.splits option.splits)

lemma sample_semantics_holds [simp]: "qs_holds sample_semantics = sample_holds"
  by (simp add: sample_semantics_def sample_meaning_def)

lemma documented_sample: "documented_queries sample_semantics"
proof -
  have "required sample_semantics c d = required sample_meaning c d" for c d
    by (simp add: sample_semantics_def)
  then show ?thesis
    by (simp add: documented_queries_def list_ex_iff list_all_iff)
       (simp add: sample_semantics_def)
qed

definition sample_transaction :: "(string \<times> json) list" where
  "sample_transaction = [(''type'', JStr ''normal''), (''sender'', JStr ''alice''), (''receiver'', JStr ''bob''),
     (''isRelayed'', JBool True)]"

lemma plain_sample: "plain_filter (new_transaction_filter\<lparr>tf_isRelayed := flag\<rparr>)"
  by (simp add: plain_filter_def new_transaction_filter_def)

lemmas sample_defs = transaction_selected_def sample_transaction_def new_transaction_filter_def opt_match_def
  any_match_def function_matches_def flag_matches_def relayed_query_def

text \<open>
  C8. What a transaction filter selects that has no \<open>relayer\<close>, no \<open>withRelayedScresults\<close> and no \<open>should\<close> condition: exactly the transactions of type \<open>normal\<close> that
  have the given account as sender, receiver or one of the receivers, and meet what the filter asks of
  the sender, the receivers, the sender or receiver, the two shards, the mini block, the status, the
  hashes, the tokens, the token, the time, the functions, the round (other than zero), \<open>isRelayed\<close> and \<open>isScCall\<close>. Its
  \<open>senders\<close>, \<open>type\<close> and \<open>address\<close>, and a \<open>round\<close> of zero, ask for nothing.
\<close>

theorem transaction_query_exact:
  assumes "documented_queries sem" and "plain_filter f"
  shows "qs_accepts sem (buildTransactionFilterQuery f address) d = transaction_selected sem f address d
    \<and> buildTransactionFilterQuery (f\<lparr>tf_senders := senders, tf_type := type, tf_address := other\<rparr>) address = buildTransactionFilterQuery f address
    \<and> buildTransactionFilterQuery (f\<lparr>tf_round := Some 0\<rparr>) address = buildTransactionFilterQuery (f\<lparr>tf_round := None\<rparr>) address"
  using transaction_query_required [OF assms] transaction_query_selected [OF assms]
  by (simp add: buildTransactionFilterQuery_def)

theorem transaction_query_exact_witness:
  "qs_accepts sample_semantics (buildTransactionFilterQuery new_transaction_filter (Some ''alice'')) sample_transaction
   \<and> \<not> qs_accepts sample_semantics (buildTransactionFilterQuery new_transaction_filter (Some ''carol'')) sample_transaction"
proof -
  have "plain_filter new_transaction_filter" by (simp add: plain_filter_def new_transaction_filter_def)
  from transaction_query_exact [OF documented_sample this] show ?thesis by (simp add: sample_defs)
qed

text \<open>
  The flag \<open>isRelayed\<close> splits the transactions that a plain filter selects: each is selected by
  exactly one of the two values of the flag, and neither value selects another.
\<close>

theorem relayed_partition:
  assumes "documented_queries sem" and "plain_filter f"
  shows "qs_accepts sem (buildTransactionFilterQuery (f\<lparr>tf_isRelayed := None\<rparr>) address) d
     = (qs_accepts sem (buildTransactionFilterQuery (f\<lparr>tf_isRelayed := Some True\<rparr>) address) d
        \<noteq> qs_accepts sem (buildTransactionFilterQuery (f\<lparr>tf_isRelayed := Some False\<rparr>) address) d)"
proof -
  have "plain_filter (f\<lparr>tf_isRelayed := flag\<rparr>)" for flag using assms(2) by (simp add: plain_filter_def)
  then have "qs_accepts sem (buildTransactionFilterQuery (f\<lparr>tf_isRelayed := flag\<rparr>) address) d
      = (transaction_selected sem (f\<lparr>tf_isRelayed := None\<rparr>) address d \<and> flag_matches sem relayed_query flag d)" for flag
    by (simp only: transaction_query_required [OF assms(1)] transaction_query_selected [OF assms(1)]
        selected_flag [where flag = flag])
  then show ?thesis by (simp add: flag_matches_def) blast
qed

theorem relayed_partition_witness:
  "qs_accepts sample_semantics (buildTransactionFilterQuery (new_transaction_filter\<lparr>tf_isRelayed := None\<rparr>) (Some ''alice''))
     sample_transaction
   = (qs_accepts sample_semantics (buildTransactionFilterQuery (new_transaction_filter\<lparr>tf_isRelayed := Some True\<rparr>) (Some ''alice''))
        sample_transaction
      \<noteq> qs_accepts sample_semantics (buildTransactionFilterQuery (new_transaction_filter\<lparr>tf_isRelayed := Some False\<rparr>) (Some ''alice''))
        sample_transaction)"
proof -
  have "plain_filter new_transaction_filter" by (simp add: plain_filter_def new_transaction_filter_def)
  from relayed_partition [OF documented_sample this] show ?thesis .
qed

text \<open>
  A filter with tags ignores its other conditions: with \<open>tags\<close> (or, without them, \<open>excludeTags\<close>)
  the query returns early, and the accounts are the same whatever \<open>hasAssets\<close>, \<open>addresses\<close>, \<open>search\<close>
  and \<open>withBalance\<close> ask for.
\<close>

theorem account_tags_ignore_rest:
  assumes "non_empty (aq_tags f) \<or> non_empty (aq_excludeTags f)"
  shows "buildAccountFilterQuery (f\<lparr>aq_hasAssets := a, aq_addresses := as, aq_search := s, aq_withBalance := w\<rparr>)
     = buildAccountFilterQuery f"
  using assms by (auto simp: buildAccountFilterQuery_def Let_def)

definition sample_account_query :: account_query_options where
  "sample_account_query = \<lparr>aq_addresses = None, aq_ownerAddress = None, aq_sort = None, aq_order = None,
     aq_isSmartContract = Some True, aq_withOwnerAssets = None, aq_withDeployInfo = None, aq_withTxCount = None,
     aq_withScrCount = None, aq_name = None, aq_tags = Some [''exchange''], aq_excludeTags = None,
     aq_hasAssets = None, aq_search = None, aq_withBalance = None\<rparr>"

theorem account_tags_ignore_rest_witness:
  "buildAccountFilterQuery (sample_account_query\<lparr>aq_hasAssets := None, aq_addresses := Some [''erd1''],
       aq_search := Some ''bob'', aq_withBalance := Some True\<rparr>)
     = [WithMustExist ''currentOwner'', with_must (Q_Should [match_str ''api_assets.tags'' ''exchange''])]"
proof -
  have "non_empty (aq_tags sample_account_query) \<or> non_empty (aq_excludeTags sample_account_query)"
    by (simp add: sample_account_query_def)
  from account_tags_ignore_rest [OF this, where a = None and as = "Some [''erd1'']" and s = "Some ''bob''" and w = "Some True"] show ?thesis
    by (simp add: buildAccountFilterQuery_def sample_account_query_def exist_filter_def)
qed

text \<open>
  The events of shard 0 (and the first event of a transaction, of order 0) cannot be asked for: a
  condition on the number 0 is not a condition, since the code tests the number and not its presence.
\<close>

theorem events_zero_ignored:
  "buildEventsFilter (f\<lparr>ef_shard := Some 0\<rparr>) = buildEventsFilter (f\<lparr>ef_shard := None\<rparr>)
   \<and> buildEventsFilter (f\<lparr>ef_order := Some 0\<rparr>) = buildEventsFilter (f\<lparr>ef_order := None\<rparr>)
   \<and> (n \<noteq> 0 \<longrightarrow> with_must (match_int ''shardID'' n) \<in> set (buildEventsFilter (f\<lparr>ef_shard := Some n\<rparr>))
        \<and> with_must (match_int ''order'' n) \<in> set (buildEventsFilter (f\<lparr>ef_order := Some n\<rparr>)))"
  by (simp add: buildEventsFilter_def cong: if_cong)

definition sample_events_filter :: events_filter where
  "sample_events_filter = \<lparr>ef_identifier = None, ef_address = None, ef_txHash = None, ef_shard = None,
     ef_before = None, ef_after = None, ef_order = None, ef_logAddress = None, ef_topics = None\<rparr>"

theorem events_zero_ignored_witness:
  "buildEventsFilter (sample_events_filter\<lparr>ef_shard := Some 0\<rparr>) = []
   \<and> with_must (match_int ''shardID'' 1) \<in> set (buildEventsFilter (sample_events_filter\<lparr>ef_shard := Some 1\<rparr>))"
  using events_zero_ignored [of sample_events_filter 1] by (simp add: buildEventsFilter_def sample_events_filter_def)

end
