(* ===== verification/ElasticIndexer.thy ===== *)
theory ElasticIndexer imports ElasticQueries CircuitBreaker begin

text \<open>
  The index service (\<open>src/common/indexer/elastic/elastic.indexer.service.ts\<close>): every method builds a
  query (\<open>ElasticQueries\<close>) and sends it through the proxy of the circuit breaker (\<open>CircuitBreaker\<close>). A
  document of the index is a \<open>json\<close> value; the client and the text of a query (\<open>toJson\<close>) are arguments.
\<close>

section \<open>Pages and the service\<close>

record pagination =
  pg_from :: int
  pg_size :: int

record token_filter_options =
  kf_type :: "string option"
  kf_search :: "string option"
  kf_name :: "string option"
  kf_identifier :: "string option"
  kf_identifiers :: "string list option"
  kf_includeMetaESDT :: "bool option"

record 'w indexer =
  ix_proxy :: "('w, elastic_query, json) breaker_proxy"
  ix_helper :: "(breaker \<times> 'w) helper_env"
  ix_elasticUrl :: string
  ix_transfersLast24hUrl :: "string option"
  ix_toLowerCase :: "string \<Rightarrow> string"
  ix_toJson :: "elastic_query \<Rightarrow> json"

type_synonym ('w, 'a) index_io = "(breaker \<times> 'w, 'a) io"

abbreviation count_index :: "'w indexer \<Rightarrow> string \<Rightarrow> elastic_query \<Rightarrow> ('w, int) index_io" where
  "count_index ix index query \<equiv> proxy_getCount (ix_proxy ix) index query"

abbreviation list_index :: "'w indexer \<Rightarrow> string \<Rightarrow> string \<Rightarrow> elastic_query \<Rightarrow> ('w, json list) index_io" where
  "list_index ix index ident query \<equiv> proxy_getList (ix_proxy ix) index ident query"

abbreviation item_index :: "'w indexer \<Rightarrow> string \<Rightarrow> string \<Rightarrow> string \<Rightarrow> ('w, json) index_io" where
  "item_index ix index ident key \<equiv> proxy_getItem (ix_proxy ix) index ident key"

abbreviation with_pagination :: "pagination \<Rightarrow> builder_call" where
  "with_pagination p \<equiv> WithPagination (pg_from p) (pg_size p)"

abbreviation newest_first :: builder_call where
  "newest_first \<equiv> WithSort [(''timestamp'', Descending)]"

abbreviation oldest_first :: builder_call where
  "oldest_first \<equiv> WithSort [(''timestamp'', Ascending)]"

abbreviation must_match :: "string \<Rightarrow> string \<Rightarrow> builder_call" where
  "must_match field v \<equiv> WithMustMatch field (JStr v) False"

abbreviation not_pending :: builder_call where
  "not_pending \<equiv> WithCondition QC_mustNot [match_str ''address'' ''pending'']"

text \<open>The order when descending is the default, and when ascending is.\<close>

definition default_descending :: "sort_order option \<Rightarrow> elastic_order" where
  "default_descending order = (if order = Some Sort_asc then Ascending else Descending)"

definition default_ascending :: "sort_order option \<Rightarrow> elastic_order" where
  "default_ascending order = (if order = Some Sort_desc then Descending else Ascending)"

section \<open>Counts\<close>

definition getAccountsCount where
  "getAccountsCount ix f = count_index ix ''accounts'' (buildAccountFilterQuery f)"

definition getScResultsCount where
  "getScResultsCount ix f = count_index ix ''operations'' (buildResultsFilterQuery f)"

definition getAccountDeploysCount where
  "getAccountDeploysCount ix address =
     count_index ix ''scdeploys'' [WithCondition QC_must [match_str ''deployer'' address]]"

definition getBlocksCount where
  "getBlocksCount ix f = io_bind (buildElasticBlocksFilter (ix_helper ix) f) (\<lambda>queries.
     count_index ix ''blocks'' [WithCondition QC_must queries])"

definition getNftCollectionCount where
  "getNftCollectionCount ix f = count_index ix ''tokens'' (buildCollectionRolesFilter f None)"

definition getNftCountForAddress where
  "getNftCountForAddress ix address f =
     count_index ix ''accountsesdt'' (buildElasticNftFilter (ix_helper ix) (ix_toLowerCase ix) f None (Some address))"

definition getCollectionCountForAddress where
  "getCollectionCountForAddress ix address f =
     count_index ix ''tokens'' (buildCollectionRolesFilter f (Some address))"

definition getNftCount where
  "getNftCount ix f = count_index ix ''tokens'' (buildElasticNftFilter (ix_helper ix) (ix_toLowerCase ix) f None None)"

definition getNftOwnersCount where
  "getNftOwnersCount ix identifier = count_index ix ''accountsesdt''
     [not_pending, WithCondition QC_must [match_all ''identifier'' identifier]]"

definition getTransfersCount where
  "getTransfersCount ix f = count_index ix ''operations'' (buildTransferFilterQuery (ix_helper ix) f)"

text \<open>\<open>TokenType.FungibleESDT\<close> and \<open>TokenType.MetaESDT\<close>.\<close>

definition buildTokenFilter :: "elastic_query \<Rightarrow> token_filter_options \<Rightarrow> elastic_query" where
  "buildTokenFilter query f =
     query
     @ (if kf_includeMetaESDT f = Some True then [with_multi ''type'' False (Some [''FungibleESDT'', ''MetaESDT''])]
        else [with_must_not (Q_Exists ''identifier'')])
     @ (if truthy (kf_type f) then [WithMustMatch ''type'' (opt_json JStr (kf_type f)) False] else [])
     @ (if truthy (kf_identifier f) then [with_must (match_str ''token'' (the (kf_identifier f)))] else [])
     @ (case kf_identifiers f of
          None \<Rightarrow> [] | Some ids \<Rightarrow> [WithCondition QC_should (map (match_str ''token'') ids)])
     @ (if truthy (kf_name f)
        then [with_must (Q_Nested ''data.name'' [Q_Match ''data.name'' (opt_json JStr (kf_name f)) False])] else [])
     @ (if truthy (kf_search f)
        then [with_must (Q_Nested ''data.name'' [Q_Match ''data.name'' (opt_json JStr (kf_name f)) False])] else [])"

definition getTokenCountForAddress where
  "getTokenCountForAddress ix address f =
     count_index ix ''accountsesdt'' (buildTokenFilter [with_must (match_str ''address'' address)] f)"

definition getTokenAccountsCount where
  "getTokenAccountsCount ix identifier =
     count_index ix ''accountsesdt'' [WithCondition QC_must [match_all ''token'' identifier]]"

definition getTokensWithRolesForAddressCount where
  "getTokensWithRolesForAddressCount ix address f =
     count_index ix ''tokens'' (buildTokensWithRolesForAddressQuery address f None)"

definition getNftTagCount where
  "getNftTagCount ix search = count_index ix ''tags'' [WithSearchWildcard search [''tag'']]"

definition getRoundCount where
  "getRoundCount ix f = io_bind (buildElasticRoundsFilter (ix_helper ix) f) (\<lambda>queries.
     count_index ix ''rounds'' [WithCondition QC_must queries])"

definition getAccountScResultsCount where
  "getAccountScResultsCount ix address =
     count_index ix ''operations'' (buildSmartContractResultFilterQuery (Some address))"

definition getTransactionCountForAddress where
  "getTransactionCountForAddress ix address = count_index ix ''operations''
     [must_match ''type'' ''normal'',
      WithCondition QC_should [match_str ''sender'' address, match_str ''receiver'' address]]"

definition getTransactionCount where
  "getTransactionCount ix f address = count_index ix ''operations'' (buildTransactionFilterQuery f address)"

definition getAccountContractsCount where
  "getAccountContractsCount ix address =
     count_index ix ''scdeploys'' [WithCondition QC_must [match_str ''currentOwner'' address]]"

definition getProviderDelegatorsCount where
  "getProviderDelegatorsCount ix address =
     count_index ix ''delegators'' [WithCondition QC_must [match_str ''contract'' address]]"

definition getAccountHistoryCount where
  "getAccountHistoryCount ix address f =
     count_index ix ''accountshistory'' (buildAccountHistoryFilterQuery (Some address) None f)"

definition getAccountTokenHistoryCount where
  "getAccountTokenHistoryCount ix address token f =
     count_index ix ''accountsesdthistory'' (buildAccountHistoryFilterQuery (Some address) (Some token) f)"

definition getAccountEsdtHistoryCount where
  "getAccountEsdtHistoryCount ix address f =
     count_index ix ''accountsesdthistory'' (buildAccountHistoryFilterQuery (Some address) None f)"

definition getEsdtAccountsCount where
  "getEsdtAccountsCount ix identifier =
     count_index ix ''accountsesdt'' [WithCondition QC_must [match_all ''token'' identifier]]"

definition getApplicationCount where
  "getApplicationCount ix f = count_index ix ''scdeploys'' (buildApplicationFilter f)"

definition getEventsCount where
  "getEventsCount ix f = count_index ix ''events'' (buildEventsFilter f)"

section \<open>Items\<close>

definition getRound where
  "getRound ix shard round = item_index ix ''rounds'' ''round'' (int_str shard @ ''_'' @ int_str round)"

definition getToken where
  "getToken ix identifier = item_index ix ''tokens'' ''identifier'' identifier"

definition getCollection where
  "getCollection ix identifier = item_index ix ''tokens'' ''_id'' identifier"

text \<open>The name of the function of a transaction, when it has none, is that of its operation.\<close>

definition index_processTransaction :: "json \<Rightarrow> json" where
  "index_processTransaction tx =
     (if json_truthy tx \<and> \<not> json_truthy (json_opt tx ''function'')
      then json_set ''function'' (json_opt tx ''operation'') tx else tx)"

definition bulkProcessTransactions :: "json list \<Rightarrow> json list" where
  "bulkProcessTransactions txs = map index_processTransaction txs"

definition getTransaction where
  "getTransaction ix txHash = io_bind (item_index ix ''operations'' ''txHash'' txHash) (\<lambda>tx.
     io_return (index_processTransaction tx))"

definition getScDeploy where
  "getScDeploy ix address = item_index ix ''scdeploys'' ''_id'' address"

definition getScResult where
  "getScResult ix scHash = io_bind (item_index ix ''operations'' ''hash'' scHash) (\<lambda>result.
     io_return (if json_opt result ''type'' \<noteq> JStr ''unsigned'' then JUndefined else index_processTransaction result))"

definition getBlock where
  "getBlock ix h = item_index ix ''blocks'' ''hash'' h"

definition getMiniBlock where
  "getMiniBlock ix h = item_index ix ''miniblocks'' ''miniBlockHash'' h"

definition getTag where
  "getTag ix tag = item_index ix ''tags'' ''tag'' (he_base64Encode (ix_helper ix) tag)"

definition getAccount where
  "getAccount ix address = item_index ix ''accounts'' ''address'' address"

definition getEsdtProperties where
  "getEsdtProperties ix identifier = item_index ix ''tokens'' ''identifier'' identifier"

definition getApplication where
  "getApplication ix address = item_index ix ''scdeploys'' ''address'' address"

definition getEvent where
  "getEvent ix txHash = item_index ix ''events'' ''_id'' txHash"

section \<open>Lists\<close>

definition getBlocks where
  "getBlocks ix f p = io_bind (buildElasticBlocksFilter (ix_helper ix) f) (\<lambda>queries.
     list_index ix ''blocks'' ''hash''
       [with_pagination p, WithCondition QC_must queries,
        WithSort [(''timestamp'', default_descending (bf_order f)), (''shardId'', Ascending)]])"

definition getTokensForAddress where
  "getTokensForAddress ix address p f = list_index ix ''accountsesdt'' ''token''
     (buildTokenFilter [with_must (match_str ''address'' address), with_pagination p] f)"

definition getTokenAccounts where
  "getTokenAccounts ix p identifier = list_index ix ''accountsesdt'' identifier
     [with_pagination p, WithSort [(''balanceNum'', Descending)],
      WithCondition QC_must [match_all ''token'' identifier], not_pending]"

definition getVersion where
  "getVersion ix = io_bind (list_index ix ''values'' ''_search'' [must_match ''key'' ''indexer-version'']) (\<lambda>result.
     case result of [] \<Rightarrow> io_return JUndefined | r # _ \<Rightarrow> io_lift (json_member r ''value''))"

definition getBlockByMiniBlockHash where
  "getBlockByMiniBlockHash ix h = io_bind (list_index ix ''blocks'' ''_search''
       [WithCondition QC_must [match_str ''miniBlocksHashes'' h], newest_first]) (\<lambda>result.
     io_return (case result of [] \<Rightarrow> None | b # _ \<Rightarrow> Some b))"

definition by_time_and_nonce :: "sort_order option \<Rightarrow> builder_call" where
  "by_time_and_nonce order = WithSort [(''timestamp'', default_descending order), (''nonce'', default_descending order)]"

definition index_getTransfers where
  "index_getTransfers ix f p = io_bind (list_index ix ''operations'' ''txHash''
       (buildTransferFilterQuery (ix_helper ix) f @ [with_pagination p, by_time_and_nonce (tf_order f)])) (\<lambda>operations.
     io_return (bulkProcessTransactions operations))"

definition getTokensWithRolesForAddress where
  "getTokensWithRolesForAddress ix address f p = list_index ix ''tokens'' ''identifier''
     (buildTokensWithRolesForAddressQuery address f (Some (pg_from p, pg_size p)))"

definition getRounds where
  "getRounds ix f = io_bind (buildElasticRoundsFilter (ix_helper ix) f) (\<lambda>queries.
     list_index ix ''rounds'' ''round''
       [WithPagination (of_from f) (of_size f), newest_first, WithCondition (coalesce (of_condition f) QC_must) queries])"

definition getNftCollections where
  "getNftCollections ix p f address =
     (let order = default_descending (cf_order f) in
      list_index ix ''tokens'' ''identifier''
        (buildCollectionRolesFilter f address @ [with_pagination p,
           WithSort (if coalesce (cf_sort f) Collections_timestamp = Collections_verifiedAndHolderCount
             then [(''api_isVerified'', order), (''api_holderCount'', order)] else [(''timestamp'', order)])]))"

definition getNftCollectionsByIds where
  "getNftCollectionsByIds ix identifiers = list_index ix ''tokens'' ''identifier''
     [WithPagination 0 (int (length identifiers) + 1), WithMustNotExist ''identifier'',
      with_multi ''token'' True (Some identifiers)]"

definition getSmartContractResults where
  "getSmartContractResults ix transactionHashes = list_index ix ''operations'' ''scHash''
     [must_match ''type'' ''unsigned'', WithPagination 0 (int (length transactionHashes) + 1), oldest_first,
      with_multi ''originalTxHash'' False (Some transactionHashes)]"

definition getAccountsForAddresses where
  "getAccountsForAddresses ix addresses = list_index ix ''accounts'' ''address''
     [WithPagination 0 (int (length addresses) + 1), with_multi ''address'' False (Some addresses)]"

definition getAccountEsdtByAddressesAndIdentifier where
  "getAccountEsdtByAddressesAndIdentifier ix identifier addresses = list_index ix ''accountsesdt'' ''identifier''
     [WithPagination 0 (int (length addresses)), not_pending, WithCondition QC_must [match_all ''token'' identifier],
      WithRange ''balanceNum'' (GreaterThanOrEqual (QN_int 0)),
      WithCondition QC_should (map (match_str ''address'') addresses)]"

definition getNftTags where
  "getNftTags ix p search = list_index ix ''tags'' ''tag''
     [with_pagination p, WithSearchWildcard search [''tag''], WithSort [(''count'', Descending)]]"

definition getScResults where
  "getScResults ix p f = io_bind (list_index ix ''operations'' ''hash''
       (buildResultsFilterQuery f @ [with_pagination p])) (\<lambda>results. io_return (bulkProcessTransactions results))"

definition getMiniBlocks where
  "getMiniBlocks ix p f = list_index ix ''miniblocks'' ''miniBlockHash''
     ([with_pagination p, newest_first]
      @ (case lf_hashes f of None \<Rightarrow> [] | Some hs \<Rightarrow> [WithCondition QC_should (map (match_str ''_id'') hs)])
      @ (if truthy (lf_type f) then [WithCondition QC_must [match_str ''type'' (the (lf_type f))]] else []))"

definition getAccountScResults where
  "getAccountScResults ix address p = list_index ix ''operations'' ''hash''
     (buildSmartContractResultFilterQuery (Some address) @ [with_pagination p, newest_first])"

definition account_sorting :: "'w indexer \<Rightarrow> account_query_options \<Rightarrow> elastic_query" where
  "account_sorting ix f =
     (let order = default_descending (aq_order f) in
      case coalesce (aq_sort f) Accounts_balance of
        Accounts_balance \<Rightarrow> [WithSort [(''balanceNum'', order)]]
      | Accounts_transfersLast24h \<Rightarrow>
          if truthy (ix_transfersLast24hUrl ix) then [WithSort [(''api_transfersLast24h'', order)]]
          else [WithSort [(''timestamp'', order)], WithMustExist ''currentOwner'']
      | Accounts_timestamp \<Rightarrow> [WithSort [(''timestamp'', order)]])"

definition getAccounts where
  "getAccounts ix p f columns = list_index ix ''accounts'' ''address''
     (buildAccountFilterQuery f @ account_sorting ix f @ [with_pagination p]
      @ (if non_empty columns then [WithFields (the columns)] else []))"

definition getAccountDeploys where
  "getAccountDeploys ix p address = list_index ix ''scdeploys'' ''contract''
     [with_pagination p, WithCondition QC_must [match_str ''deployer'' address], newest_first]"

definition getAccountContracts where
  "getAccountContracts ix p address = list_index ix ''scdeploys'' ''contract''
     [with_pagination p, WithCondition QC_must [match_str ''currentOwner'' address], newest_first]"

definition getProviderDelegators where
  "getProviderDelegators ix address p = list_index ix ''delegators'' ''contract''
     [with_pagination p, WithCondition QC_must [match_str ''contract'' address], WithSort [(''activeStake'', Descending)]]"

definition getAccountHistory where
  "getAccountHistory ix address p f = list_index ix ''accountshistory'' ''address''
     (buildAccountHistoryFilterQuery (Some address) None f @ [with_pagination p, newest_first])"

definition getAccountTokenHistory where
  "getAccountTokenHistory ix address token p f = list_index ix ''accountsesdthistory'' ''address''
     (buildAccountHistoryFilterQuery (Some address) (Some token) (Some f) @ [with_pagination p, newest_first])"

definition getAccountEsdtHistory where
  "getAccountEsdtHistory ix address p f = list_index ix ''accountsesdthistory'' ''address''
     (buildAccountHistoryFilterQuery (Some address) None (Some f) @ [with_pagination p, newest_first])"

definition getTransactions where
  "getTransactions ix f p address = io_bind (list_index ix ''operations'' ''txHash''
       (buildTransactionFilterQuery f address @ [with_pagination p, by_time_and_nonce (tf_order f)])) (\<lambda>txs.
     io_return (bulkProcessTransactions txs))"

definition getTransactionLogs where
  "getTransactionLogs ix hashes eventsIndex txHashField = list_index ix eventsIndex ''id''
     [WithPagination 0 10000, WithCondition QC_should (map (match_str txHashField) hashes)]"

definition getTransactionScResults where
  "getTransactionScResults ix txHash = io_bind (list_index ix ''operations'' ''hash''
       [must_match ''type'' ''unsigned'', WithPagination 0 100, oldest_first,
        WithCondition QC_must [match_str ''originalTxHash'' txHash]]) (\<lambda>results.
     io_return (bulkProcessTransactions results))"

definition getScResultsForTransactions where
  "getScResultsForTransactions ix transactions =
     io_bind (io_lift (res_map (\<lambda>x. if json_nullish x then Inl TypeError else Inr x) transactions)) (\<lambda>txs.
       let hashes = map (\<lambda>x. json_opt x ''txHash'')
             (filter (\<lambda>x. json_opt x ''hasOperations'' = JBool True \<or> json_opt x ''hasScResults'' = JBool True) txs)
       in if hashes = [] then io_return []
          else list_index ix ''operations'' ''scHash''
            [must_match ''type'' ''unsigned'', WithPagination 0 (min (int (length hashes) * 10) 1000), oldest_first,
             WithMustMultiShould (Some (map (\<lambda>h. Q_Match ''originalTxHash'' h False) hashes))])"

definition accounts_esdt_query :: "string \<Rightarrow> string list \<Rightarrow> pagination option \<Rightarrow> elastic_query" where
  "accounts_esdt_query field identifiers p =
     (case p of None \<Rightarrow> [] | Some page \<Rightarrow> [with_pagination page])
     @ [WithSort [(''balanceNum'', Descending), (''timestamp'', Descending)], not_pending,
        with_multi field True (Some identifiers)]"

definition getAccountEsdtByIdentifiers where
  "getAccountEsdtByIdentifiers ix identifiers p =
     (if identifiers = [] then io_return []
      else list_index ix ''accountsesdt'' ''identifier'' (accounts_esdt_query ''identifier'' identifiers p))"

definition getAccountsEsdtByCollection where
  "getAccountsEsdtByCollection ix identifiers p =
     (if identifiers = [] then io_return []
      else list_index ix ''accountsesdt'' ''identifier'' (accounts_esdt_query ''collection'' identifiers p))"

definition getNftsForAddress where
  "getNftsForAddress ix address f p = list_index ix ''accountsesdt'' ''identifier''
     (buildElasticNftFilter (ix_helper ix) (ix_toLowerCase ix) f None (Some address)
      @ [with_pagination p, WithSort [(''timestamp'', Descending), (''tokenNonce'', Descending)]])"

text \<open>
  The two lists of \<open>getNfts\<close> for an identifier are fetched side by side and each is empty when its call
  fails; here the second call starts when the first has ended.
\<close>

definition getNfts where
  "getNfts ix p f identifier =
     (let query = buildElasticNftFilter (ix_helper ix) (ix_toLowerCase ix) f identifier None
            @ [with_pagination p,
               WithSort (if truthy (ff_sort f) then [(the (ff_sort f), default_ascending (ff_order f))]
                         else [(''timestamp'', Descending), (''nonce'', Descending)])]
      in case identifier of
           None \<Rightarrow> list_index ix ''tokens'' ''identifier'' query
         | Some i \<Rightarrow>
             io_bind (io_catch (list_index ix ''tokens'' ''identifier'' query) (\<lambda>_. io_return [])) (\<lambda>tokens.
             io_bind (io_catch (list_index ix ''accountsesdt'' ''identifier''
                  [WithMustMatch ''identifier'' (JStr i) True, with_pagination p]) (\<lambda>_. io_return [])) (\<lambda>accounts.
               io_return (if tokens \<noteq> [] then tokens else accounts))))"

definition getTransactionBySenderAndNonce where
  "getTransactionBySenderAndNonce ix sender nonce = list_index ix ''operations'' ''txHash''
     [must_match ''type'' ''normal'', WithPagination 0 1,
      WithCondition QC_must [match_str ''sender'' sender, match_int ''nonce'' nonce]]"

definition getTransactionReceipts where
  "getTransactionReceipts ix txHash = list_index ix ''receipts'' ''receiptHash''
     [WithPagination 0 1, WithCondition QC_must [match_str ''txHash'' txHash]]"

definition getBlockByTimestampAndShardId where
  "getBlockByTimestampAndShardId ix timestamp shardId = io_bind (list_index ix ''blocks'' ''_search''
       [WithRange ''timestamp'' (GreaterThanOrEqual (QN_int timestamp)),
        WithCondition QC_must [Q_Match ''shardId'' (JNum shardId) True], oldest_first]) (\<lambda>blocks.
     io_return (nth_opt blocks 0))"

definition getApplications where
  "getApplications ix f p = list_index ix ''scdeploys'' ''address''
     (buildApplicationFilter f @ [with_pagination p,
        WithFields [''address'', ''deployer'', ''currentOwner'', ''initialCodeHash'', ''timestamp''], newest_first])"

definition getAddressesWithTransfersLast24h where
  "getAddressesWithTransfersLast24h ix = io_bind (list_index ix ''accounts'' ''address''
       [WithFields [''address''], WithPagination 0 10000, WithMustExist ''api_transfersLast24h'']) (\<lambda>result.
     io_lift (res_map (\<lambda>x. json_member x ''address'') result))"

definition getEvents where
  "getEvents ix p f = list_index ix ''events'' ''_id'' (buildEventsFilter f @ [with_pagination p, newest_first])"

section \<open>Scrolling and custom values\<close>

definition getAllTokensMetadata where
  "getAllTokensMetadata ix action = proxy_getScrollableList (ix_proxy ix) ''tokens'' ''identifier''
     [WithFields [''api_isWhitelistedStorage'', ''api_media'', ''api_metadata'', ''data.uris''],
      WithMustExist ''identifier'',
      with_multi ''type'' False (Some [''NonFungibleESDT'', ''SemiFungibleESDT'', ''MetaESDT'']),
      WithPagination 0 10000] action"

definition getAllAccountsWithToken where
  "getAllAccountsWithToken ix identifier action = proxy_getScrollableList (ix_proxy ix) ''accountsesdt'' ''id''
     [WithPagination 0 10000, WithMustMatch ''token'' (JStr identifier) True] action"

definition getPublicKeys :: "'w indexer \<Rightarrow> int \<Rightarrow> int \<Rightarrow> ('w, json) index_io" where
  "getPublicKeys ix shard epoch =
     io_bind (proxy_get (ix_proxy ix)
        (ix_elasticUrl ix @ ''/validators/_search?q=_id:'' @ int_str shard @ ''_'' @ int_str epoch)) (\<lambda>result.
     io_bind (io_lift (json_member result ''data'')) (\<lambda>data.
       case json_list (json_opt (json_opt data ''hits'') ''hits'') of
         [] \<Rightarrow> io_return JUndefined
       | hit # _ \<Rightarrow> io_lift (res_bind (json_member hit ''_source'') (\<lambda>source. json_member source ''publicKeys''))))"

definition getAssetsForToken where
  "getAssetsForToken ix identifier = proxy_getCustomValue (ix_proxy ix) ''tokens'' identifier ''assets''"

definition setAssetsForToken where
  "setAssetsForToken ix identifier v = proxy_setCustomValue (ix_proxy ix) ''tokens'' identifier ''assets'' v"

definition setIsWhitelistedStorageForToken where
  "setIsWhitelistedStorageForToken ix identifier v =
     proxy_setCustomValue (ix_proxy ix) ''tokens'' identifier ''isWhitelistedStorage'' (JBool v)"

definition setMediaForToken where
  "setMediaForToken ix identifier v = proxy_setCustomValue (ix_proxy ix) ''tokens'' identifier ''media'' (JArr v)"

definition setMetadataForToken where
  "setMetadataForToken ix identifier v = proxy_setCustomValue (ix_proxy ix) ''tokens'' identifier ''metadata'' v"

definition setExtraCollectionFields where
  "setExtraCollectionFields ix identifier isVerified holderCount nftCount =
     proxy_setCustomValues (ix_proxy ix) ''tokens'' identifier
       [(''isVerified'', JBool isVerified), (''holderCount'', JNum holderCount), (''nftCount'', JNum nftCount)]"

definition setAccountAssetsFields where
  "setAccountAssetsFields ix address assets =
     proxy_setCustomValues (ix_proxy ix) ''accounts'' address [(''assets'', assets)]"

definition setAccountTransfersLast24h where
  "setAccountTransfersLast24h ix address transfersLast24h =
     proxy_setCustomValues (ix_proxy ix) ''accounts'' address [(''transfersLast24h'', JNum transfersLast24h)]"

definition ensureCollectionWritable :: "'w indexer \<Rightarrow> string \<Rightarrow> ('w, unit) index_io" where
  "ensureCollectionWritable ix collection =
     io_bind (list_index ix collection ''id'' [WithPagination 0 1]) (\<lambda>items.
       case items of
         [] \<Rightarrow> io_throw (ErrorMsg (''No entries available in the '' @ [CHR 0x27] @ collection @ [CHR 0x27] @ '' collection''))
       | item # _ \<Rightarrow>
           io_catch
             (io_bind (io_lift (json_member item ''id'')) (\<lambda>i.
                proxy_setCustomValue (ix_proxy ix) collection (case i of JStr s \<Rightarrow> s | _ \<Rightarrow> ''undefined'') ''ensureWritable'' JUndefined))
             (\<lambda>e. if error_status e = Some 403 then io_throw (NotWritableError collection) else io_return ()))"

definition ensureAccountsWritable where
  "ensureAccountsWritable ix = ensureCollectionWritable ix ''accounts''"

definition ensureTokensWritable where
  "ensureTokensWritable ix = ensureCollectionWritable ix ''tokens''"

section \<open>The collections of an account\<close>

definition collection_types :: "collection_filter \<Rightarrow> json list" where
  "collection_types f =
     (if non_empty (cf_type f) then concat (map (\<lambda>type. types_of [JStr type] type) (the (cf_type f)))
      else map JStr (nonFungibleEsdtTypes @ semiFungibleEsdtTypes
        @ (if cf_excludeMetaESDT f = Some True then [] else metaEsdtTypes)))"

definition composite_agg :: "int \<Rightarrow> json \<Rightarrow> json" where
  "composite_agg batchSize afterKey = JObj
     ([(''size'', JNum batchSize),
       (''sources'', JArr [JObj [(''collection'', JObj [(''terms'',
          JObj [(''field'', JStr ''token''), (''order'', JStr ''asc'')])])]])]
      @ (if json_truthy afterKey then [(''after'', afterKey)] else []))"

definition collections_query :: "string \<Rightarrow> collection_filter \<Rightarrow> int \<Rightarrow> json \<Rightarrow> elastic_query" where
  "collections_query address f batchSize afterKey =
     [WithMustExist ''identifier'', must_match ''address'' address, WithPagination 0 0,
      WithMustMatch ''token'' (opt_json JStr (cf_collection f)) True,
      with_multi ''token'' True (cf_identifiers f),
      WithSearchWildcard (cf_search f) [''token'', ''name''],
      WithMustMultiShould (Some (map (\<lambda>type. Q_Match ''type'' type False) (collection_types f))),
      with_multi ''type'' False (cf_subType f),
      WithExtra (JObj [(''aggs'', JObj [(''collections'', JObj
        [(''composite'', composite_agg batchSize afterKey),
         (''aggs'', JObj [(''balance'', JObj [(''sum'', JObj [(''field'', JStr ''balanceNum'')])])])])])])]"

record collections_state =
  cl_data :: "json list"
  cl_after :: json
  cl_skip :: int
  cl_collect :: int

definition bucket_row :: "json \<Rightarrow> json res" where
  "bucket_row bucket =
     res_bind (json_member bucket ''key'') (\<lambda>key.
     res_bind (json_member key ''collection'') (\<lambda>collection.
     res_bind (json_member (json_opt bucket ''balance'') ''value'') (\<lambda>balance.
       Inr (JObj [(''collection'', collection), (''count'', json_opt bucket ''doc_count''), (''balance'', balance)]))))"

text \<open>What of a batch is skipped, and what is collected.\<close>

definition take_batch :: "collections_state \<Rightarrow> json list \<Rightarrow> collections_state" where
  "take_batch st batch =
     (if cl_skip st > 0 then
        (let skipFromBatch = min (cl_skip st) (int (length batch));
             st = st\<lparr>cl_skip := cl_skip st - skipFromBatch\<rparr>
         in if cl_skip st = 0 then
              (let collectFromBatch = min (cl_collect st) (int (length batch) - skipFromBatch)
               in st\<lparr>cl_data := cl_data st @ take (nat collectFromBatch) (drop (nat skipFromBatch) batch),
                     cl_collect := cl_collect st - collectFromBatch\<rparr>)
            else st)
      else
        (let collectFromBatch = min (cl_collect st) (int (length batch))
         in st\<lparr>cl_data := cl_data st @ take (nat collectFromBatch) batch,
               cl_collect := cl_collect st - collectFromBatch\<rparr>))"

text \<open>The body of the loop after the answer of the index: whether it goes on, and the new state.\<close>

definition collections_step :: "collections_state \<Rightarrow> int \<Rightarrow> json \<Rightarrow> (bool \<times> collections_state) res" where
  "collections_step st batchSize result =
     (let aggregations = json_opt (json_opt (json_opt result ''data'') ''aggregations'') ''collections'';
          buckets = json_list (json_opt aggregations ''buckets'')
      in if buckets = [] then Inr (False, st)
         else res_bind (res_map bucket_row buckets) (\<lambda>batch.
           let st = take_batch st batch; after_key = json_opt aggregations ''after_key'' in
           if cl_collect st = 0 \<or> \<not> json_truthy after_key then Inr (False, st)
           else Inr (\<not> int (length buckets) < batchSize, st\<lparr>cl_after := after_key\<rparr>)))"

text \<open>The loop, with fuel; \<open>None\<close> is a loop that has not ended.\<close>

fun collections_loop ::
  "nat \<Rightarrow> 'w indexer \<Rightarrow> string \<Rightarrow> collection_filter \<Rightarrow> int \<Rightarrow> collections_state \<Rightarrow> ('w, json list option) index_io" where
  "collections_loop 0 ix address f amount st = io_return None"
| "collections_loop (Suc fuel) ix address f amount st =
     (if int (length (cl_data st)) < amount then
        (let batchSize = min 1000 (cl_skip st + cl_collect st) in
         io_bind (proxy_post (ix_proxy ix) (ix_elasticUrl ix @ ''/accountsesdt/_search'')
             (ix_toJson ix (collections_query address f batchSize (cl_after st)))) (\<lambda>result.
         io_bind (io_lift (collections_step st batchSize result)) (\<lambda>(more, st).
           if more then collections_loop fuel ix address f amount st else io_return (Some (cl_data st)))))
      else io_return (Some (cl_data st)))"

text \<open>Every round that is followed by another skips or collects at least one bucket.\<close>

definition getCollectionsForAddress ::
  "'w indexer \<Rightarrow> string \<Rightarrow> collection_filter \<Rightarrow> pagination \<Rightarrow> ('w, json list option) index_io" where
  "getCollectionsForAddress ix address f p =
     collections_loop (nat (pg_from p) + nat (pg_size p) + 1) ix address f (pg_size p)
       \<lparr>cl_data = [], cl_after = JNull, cl_skip = pg_from p, cl_collect = pg_size p\<rparr>"

section \<open>When the NFTs of an account were received\<close>

fun json_less :: "json \<Rightarrow> json \<Rightarrow> bool" where
  "json_less (JNum a) (JNum b) = (a < b)"
| "json_less _ _ = False"

definition property_key :: "json \<Rightarrow> string" where
  "property_key v = (case v of JStr s \<Rightarrow> s | _ \<Rightarrow> json_text v)"

definition received_entry :: "json \<Rightarrow> (string \<times> json) list \<Rightarrow> (string \<times> json) list res" where
  "received_entry entry stamps =
     res_bind (json_member entry ''identifier'') (\<lambda>identifier.
       if json_truthy identifier then
         (let key = property_key identifier; old = json_opt (JObj stamps) key; new = json_opt entry ''timestamp'' in
          Inr (if \<not> json_truthy old \<or> json_less new old then AList.update key new stamps else stamps))
       else Inr stamps)"

fun received_entries :: "json list \<Rightarrow> (string \<times> json) list \<Rightarrow> (string \<times> json) list res" where
  "received_entries [] stamps = Inr stamps"
| "received_entries (entry # history) stamps =
     res_bind (received_entry entry stamps) (received_entries history)"

definition getAccountNftReceivedTimestamps ::
  "'w indexer \<Rightarrow> string \<Rightarrow> string list \<Rightarrow> ('w, (string \<times> json) list) index_io" where
  "getAccountNftReceivedTimestamps ix address identifiers =
     (if identifiers = [] then io_return []
      else io_bind (list_index ix ''accountsesdthistory'' ''address''
             [must_match ''address'' address, with_multi ''identifier'' True (Some identifiers), oldest_first,
              WithPagination 0 10000]) (\<lambda>history.
           io_lift (received_entries history [])))"

section \<open>Properties\<close>

subsection \<open>The loop ends\<close>

lemma take_batch_progress:
  assumes "batch \<noteq> []" and "cl_collect st > 0"
  shows "nat (cl_skip (take_batch st batch)) + nat (cl_collect (take_batch st batch)) < nat (cl_skip st) + nat (cl_collect st)
    \<and> cl_collect (take_batch st batch) \<ge> 0"
proof -
  have "int (length batch) \<ge> 1" using assms(1) by (cases batch) simp_all
  then show ?thesis using assms(2) by (auto simp: take_batch_def Let_def min_def)
qed

lemma res_map_eq_Nil: "res_map f xs = Inr ys \<Longrightarrow> ys = [] \<longleftrightarrow> xs = []"
  by (auto dest: res_map_length)

lemma collections_step_progress:
  assumes "collections_step st n result = Inr (True, st')" and "cl_collect st > 0"
  shows "nat (cl_skip st') + nat (cl_collect st') < nat (cl_skip st) + nat (cl_collect st) \<and> cl_collect st' > 0"
proof -
  obtain batch where "batch \<noteq> []" and "cl_collect (take_batch st batch) \<noteq> 0"
    and "cl_skip st' = cl_skip (take_batch st batch)" and "cl_collect st' = cl_collect (take_batch st batch)"
    using assms(1) by (auto simp: collections_step_def Let_def res_bind_Inr dest: res_map_eq_Nil split: if_splits)
  then show ?thesis using take_batch_progress [OF _ assms(2)] by fastforce
qed

lemma collections_loop_ends:
  assumes "nat (cl_skip st) + nat (cl_collect st) < fuel" and "cl_collect st > 0"
  shows "fst (collections_loop fuel ix address f amount st s) \<noteq> Inr None"
  using assms
proof (induction fuel arbitrary: st s)
  case 0
  then show ?case by simp
next
  case (Suc fuel)
  have "fst (collections_loop fuel ix address f amount st' t) \<noteq> Inr None"
    if "collections_step st n result = Inr (True, st')" for st' n result t
    using collections_step_progress [OF that Suc.prems(2)] Suc.prems(1) by (intro Suc.IH) linarith+
  then show ?case by (auto simp: io_simps Let_def split: prod.splits sum.splits)
qed

text \<open>
  C26. The collections of an account are always listed: whatever the index answers, the loop over the
  batches ends within \<open>from + size + 1\<close> rounds, by a list or by an error.
\<close>

theorem collections_listing_ends:
  "fst (getCollectionsForAddress ix address f p s) \<noteq> Inr None"
proof (cases "pg_size p > 0")
  case True
  then show ?thesis unfolding getCollectionsForAddress_def by (intro collections_loop_ends) simp_all
next
  case False
  then show ?thesis by (simp add: getCollectionsForAddress_def io_simps)
qed

subsection \<open>The pages of the loop\<close>

type_synonym bucket = "string \<times> int \<times> int"

definition bucket_json :: "bucket \<Rightarrow> json" where
  "bucket_json b = JObj [(''key'', JObj [(''collection'', JStr (fst b))]), (''doc_count'', JNum (fst (snd b))),
     (''balance'', JObj [(''value'', JNum (snd (snd b)))])]"

definition row_json :: "bucket \<Rightarrow> json" where
  "row_json b = JObj [(''collection'', JStr (fst b)), (''count'', JNum (fst (snd b))), (''balance'', JNum (snd (snd b)))]"

definition key_json :: "bucket \<Rightarrow> json" where
  "key_json b = JObj [(''collection'', JStr (fst b))]"

definition aggregation_response :: "bucket list \<Rightarrow> json" where
  "aggregation_response bs = JObj [(''data'', JObj [(''aggregations'', JObj [(''collections'', JObj
     ([(''buckets'', JArr (map bucket_json bs))] @ (if bs = [] then [] else [(''after_key'', key_json (last bs))])))])])]"

definition key_at :: "bucket list \<Rightarrow> nat \<Rightarrow> json" where
  "key_at bs i = (if i = 0 then JNull else key_json (bs ! (i - 1)))"

text \<open>
  A composite aggregation over the buckets \<open>bs\<close>, as documented: a request for \<open>n\<close> buckets after the
  \<open>i\<close>th is answered (in time) by the next \<open>n\<close>, with the key of the last one.
\<close>

definition serves_buckets :: "'w indexer \<Rightarrow> string \<Rightarrow> collection_filter \<Rightarrow> bucket list \<Rightarrow> bool" where
  "serves_buckets ix address f bs \<longleftrightarrow>
     (\<forall>i n w. i \<le> length bs \<longrightarrow> 1 \<le> n \<longrightarrow>
        (\<exists>d w'. es_post (px_service (ix_proxy ix)) (ix_elasticUrl ix @ ''/accountsesdt/_search'')
             (ix_toJson ix (collections_query address f (int n) (key_at bs i))) w
           = ((Inr (aggregation_response (take n (drop i bs))), d), w')
         \<and> d < durationThresholdMs (px_config (ix_proxy ix))))"

definition closed :: "('w, 'q, 'j) breaker_proxy \<Rightarrow> breaker \<Rightarrow> bool" where
  "closed p b \<longleftrightarrow> (px_enabled p \<longrightarrow> \<not> isCircuitOpen b)"

lemma guarded_success:
  assumes "operation w = ((Inr r, d), w')" and "d < durationThresholdMs (px_config p)" and "closed p b"
  shows "\<exists>b'. guarded p operation (b, w) = (Inr r, (b', w')) \<and> closed p b'"
  using assms by (auto simp: withCircuitBreaker_def closed_def breaker_enter_def race_def breaker_success_def)

definition page_state :: "nat \<Rightarrow> nat \<Rightarrow> bucket list \<Rightarrow> nat \<Rightarrow> json \<Rightarrow> collections_state" where
  "page_state skip amount bs i after =
     \<lparr>cl_data = map row_json (drop skip (take i bs)), cl_after = after,
      cl_skip = int (skip - i), cl_collect = int (amount - (i - skip))\<rparr>"

lemma drop_take_step:
  assumes "skip \<le> i" and "i \<le> j"
  shows "drop skip (take i bs) @ drop i (take j bs) = drop skip (take j bs)"
proof -
  have "take j bs = take i bs @ drop i (take j bs)"
    by (metis append_take_drop_id assms(2) min.absorb2 min.commute take_take)
  then have "drop skip (take j bs) = drop skip (take i bs) @ drop (skip - length (take i bs)) (drop i (take j bs))"
    by (metis drop_append)
  then show ?thesis using assms by (cases "i \<le> length bs") simp_all
qed

lemma take_batch_page:
  assumes "i < j" and "j \<le> length bs" and "j \<le> skip + amount"
  shows "take_batch (page_state skip amount bs i after) (map row_json (drop i (take j bs)))
     = page_state skip amount bs j after"
proof (cases "i < skip")
  case True
  show ?thesis
  proof (cases "j < skip")
    case True
    with \<open>i < skip\<close> assms show ?thesis by (simp add: take_batch_def page_state_def Let_def)
  next
    case False
    then have "skip - i + i = skip" and "nat (min (int amount) (int (j - i) - int (skip - i))) = j - skip"
      using True assms by auto
    with True False assms show ?thesis
      by (auto simp: take_batch_def page_state_def Let_def drop_map take_map min_def nat_diff_distrib)
  qed
next
  case False
  then show ?thesis using assms drop_take_step [of skip i j bs]
    by (auto simp: take_batch_def page_state_def Let_def take_map min_def map_append [symmetric] simp del: map_append)
qed

lemma response_rows: "res_map bucket_row (map bucket_json bs) = Inr (map row_json bs)"
  by (induction bs) (simp_all add: bucket_row_def bucket_json_def row_json_def json_member_def json_nullish_def)

lemma step_response:
  "collections_step st n (aggregation_response bs) =
     (if bs = [] then Inr (False, st)
      else (let st = take_batch st (map row_json bs) in
        if cl_collect st = 0 then Inr (False, st)
        else Inr (\<not> int (length bs) < n, st\<lparr>cl_after := key_json (last bs)\<rparr>)))"
  by (simp add: collections_step_def aggregation_response_def response_rows Let_def key_json_def)


lemma loop_round:
  assumes "int (length (cl_data st)) < amount" and "min 1000 (cl_skip st + cl_collect st) = n"
    and "proxy_post (ix_proxy ix) (ix_elasticUrl ix @ ''/accountsesdt/_search'')
       (ix_toJson ix (collections_query address f n (cl_after st))) s = (Inr result, t)"
    and "collections_step st n result = Inr (again, st')"
  shows "collections_loop (Suc fuel) ix address f amount st s =
    (if again then collections_loop fuel ix address f amount st' t else (Inr (Some (cl_data st')), t))"
  using assms by (simp add: io_bind_def io_lift_def io_return_def Let_def)

lemma page_after [simp]: "cl_after (page_state skip amount bs i after) = after"
  by (simp add: page_state_def)

lemma loop_pages:
  assumes "serves_buckets ix address f bs" and "closed (ix_proxy ix) b" and "i \<le> length bs"
    and "i < skip + amount" and "skip + amount - i < fuel" and "0 < amount"
  shows "\<exists>s. collections_loop fuel ix address f (int amount) (page_state skip amount bs i (key_at bs i)) (b, w)
     = (Inr (Some (map row_json (take amount (drop skip bs)))), s)"
  using assms(2-)
proof (induction fuel arbitrary: i b w)
  case 0
  then show ?case by simp
next
  case (Suc fuel)
  note loop = collections_loop.simps(2) io_bind_def io_lift_def io_return_def step_response Let_def
  let ?st = "page_state skip amount bs i (key_at bs i)"
  define n where "n = min 1000 (skip + amount - i)"
  define j where "j = min (length bs) (i + n)"
  have n: "1 \<le> n" "min 1000 (cl_skip ?st + cl_collect ?st) = int n" "i + n \<le> skip + amount"
    using Suc.prems by (auto simp: n_def page_state_def)
  have open_loop: "int (length (cl_data ?st)) < int amount" using Suc.prems by (simp add: page_state_def)
  obtain b' w' where post: "proxy_post (ix_proxy ix) (ix_elasticUrl ix @ ''/accountsesdt/_search'')
        (ix_toJson ix (collections_query address f (int n) (key_at bs i))) (b, w)
      = (Inr (aggregation_response (take n (drop i bs))), (b', w'))" and closed: "closed (ix_proxy ix) b'"
    using assms(1) Suc.prems n guarded_success [of "es_post _ _ _"] unfolding serves_buckets_def proxy_post_def
    by metis
  have page: "take n (drop i bs) = drop i (take j bs)" by (auto simp: j_def take_drop min_def ac_simps)
  show ?case
  proof (cases "i = length bs")
    case True
    with n open_loop post Suc.prems show ?thesis
      by (simp add: io_simps step_response Let_def page_state_def)
  next
    case False
    have j: "i < j" "j \<le> length bs" "j \<le> skip + amount" using False n Suc.prems by (auto simp: j_def)
    have step: "take_batch ?st (map row_json (drop i (take j bs))) = page_state skip amount bs j (key_at bs i)"
      using j by (rule take_batch_page)
    have rows: "drop i (take j bs) \<noteq> []" "length (drop i (take j bs)) = j - i" "key_json (last (drop i (take j bs))) = key_at bs j"
      using j by (auto simp: key_at_def last_conv_nth)
    have collect: "cl_collect (page_state skip amount bs j after) = int (amount - (j - skip))"
      "cl_data (page_state skip amount bs j after) = map row_json (drop skip (take j bs))"
      "page_state skip amount bs j after\<lparr>cl_after := after'\<rparr> = page_state skip amount bs j after'" for after after'
      by (simp_all add: page_state_def)
    have result: "collections_step ?st (int n) (aggregation_response (take n (drop i bs)))
        = (if amount - (j - skip) = 0 then Inr (False, page_state skip amount bs j (key_at bs i))
           else Inr (\<not> j - i < n, page_state skip amount bs j (key_at bs j)))"
      unfolding page step_response step Let_def using rows by (simp add: collect del: length_drop length_take)
    have round: "collections_loop (Suc fuel) ix address f (int amount) ?st (b, w)
        = (if amount - (j - skip) = 0 \<or> j - i < n then (Inr (Some (map row_json (drop skip (take j bs)))), (b', w'))
           else collections_loop fuel ix address f (int amount) (page_state skip amount bs j (key_at bs j)) (b', w'))"
    proof (cases "amount - (j - skip) = 0")
      case True
      then have "collections_step ?st (int n) (aggregation_response (take n (drop i bs)))
          = Inr (False, page_state skip amount bs j (key_at bs i))" using result by simp
      from loop_round [OF open_loop n(2), unfolded page_after, OF post this] True show ?thesis
        by (simp add: collect del: collections_loop.simps)
    next
      case False
      then have "collections_step ?st (int n) (aggregation_response (take n (drop i bs)))
          = Inr (\<not> j - i < n, page_state skip amount bs j (key_at bs j))" using result by simp
      from loop_round [OF open_loop n(2), unfolded page_after, OF post this] False show ?thesis
        by (simp add: collect del: collections_loop.simps)
    qed
    have taken: "drop skip (take j bs) = take amount (drop skip bs)" if "j = skip + amount \<or> j = length bs"
      using that j by (auto simp: take_drop ac_simps)
    show ?thesis
    proof (cases "j = skip + amount \<or> j - i < n")
      case True
      then have "drop skip (take j bs) = take amount (drop skip bs)" by (intro taken) (auto simp: j_def)
      with True show ?thesis
        unfolding round by auto
    next
      case False
      with j Suc.prems have rest: "j < skip + amount" "skip + amount - j < fuel" by auto
      have "amount - (j - skip) \<noteq> 0" using False Suc.prems(5) j by auto
      with False show ?thesis
        using Suc.IH [OF closed j(2) rest Suc.prems(5)] unfolding round by auto
    qed
  qed
qed

text \<open>
  C9. A page of the collections of an account: over an index that serves the buckets \<open>bs\<close>, in batches of
  at most 1000 and behind a closed breaker, the loop returns exactly the buckets from \<open>skip\<close> on, \<open>amount\<close>
  of them or as many as there are, in order.
\<close>

theorem collections_page:
  assumes "serves_buckets ix address f bs" and "closed (ix_proxy ix) b"
  shows "\<exists>s. getCollectionsForAddress ix address f \<lparr>pg_from = int skip, pg_size = int amount\<rparr> (b, w)
     = (Inr (Some (map row_json (take amount (drop skip bs)))), s)"
proof (cases "amount = 0")
  case True
  then show ?thesis by (simp add: getCollectionsForAddress_def io_return_def)
next
  case False
  then have "\<exists>s. collections_loop (skip + amount + 1) ix address f (int amount) (page_state skip amount bs 0 (key_at bs 0)) (b, w)
     = (Inr (Some (map row_json (take amount (drop skip bs)))), s)"
    by (intro loop_pages [OF assms]) simp_all
  then show ?thesis by (simp add: getCollectionsForAddress_def page_state_def key_at_def)
qed

text \<open>A concrete index: three collections, a query that keeps its extra part, and no failures.\<close>

definition sample_buckets :: "bucket list" where
  "sample_buckets = [(''A-1'', 2, 5), (''B-2'', 1, 7), (''C-3'', 4, 9)]"

definition sample_aggregate :: "json \<Rightarrow> json" where
  "sample_aggregate data =
     (let agg = json_opt (json_opt (json_opt data ''aggs'') ''collections'') ''composite'';
          n = (case json_opt agg ''size'' of JNum n \<Rightarrow> nat n | _ \<Rightarrow> 0);
          rest = (if json_opt agg ''after'' = JUndefined then sample_buckets
                  else tl (dropWhile (\<lambda>b. key_json b \<noteq> json_opt agg ''after'') sample_buckets))
      in aggregation_response (take n rest))"

definition sample_service :: "json list \<Rightarrow> js_error option \<Rightarrow> (int, elastic_query, json) elastic_service" where
  "sample_service docs refusal = \<lparr>es_getCount = \<lambda>_ _ w. ((Inr (int (length docs)), 1), w),
     es_getList = \<lambda>_ _ _ w. ((Inr docs, 1), w), es_getItem = \<lambda>_ _ _ w. ((Inr JUndefined, 1), w),
     es_getCustomValue = \<lambda>_ _ _ w. ((Inr JUndefined, 1), w),
     es_setCustomValue = \<lambda>_ _ _ _ w. ((case refusal of None \<Rightarrow> Inr () | Some e \<Rightarrow> Inl e, 1), w),
     es_setCustomValues = \<lambda>_ _ _ w. ((Inr (), 1), w),
     es_getScrollableList = \<lambda>_ _ _ _ w. ((Inr (), 1), w), es_get = \<lambda>_ w. ((Inr JUndefined, 1), w),
     es_post = \<lambda>_ data w. ((Inr (sample_aggregate data), 1), w)\<rparr>"

definition sample_indexer :: "bool \<Rightarrow> json list \<Rightarrow> js_error option \<Rightarrow> int indexer" where
  "sample_indexer enabled docs refusal =
     \<lparr>ix_proxy = \<lparr>px_enabled = enabled, px_config = \<lparr>durationThresholdMs = 5000, failureCountThreshold = 3, resetTimeoutMs = 60\<rparr>,
        px_clock = id, px_service = sample_service docs refusal\<rparr>,
      ix_helper = \<lparr>he_getPublicKeys = \<lambda>_ _. io_return [], he_isSmartContractAddress = \<lambda>_. False,
        he_base64Encode = id, he_isNftScamInfoEnabled = False, he_nsfwThreshold = QN_int 1\<rparr>,
      ix_elasticUrl = ''http'', ix_transfersLast24hUrl = None, ix_toLowerCase = id,
      ix_toJson = \<lambda>q. case last q of WithExtra extra \<Rightarrow> extra | _ \<Rightarrow> JUndefined\<rparr>"

definition sample_collection_filter :: collection_filter where
  "sample_collection_filter = \<lparr>cf_collection = None, cf_identifiers = None, cf_search = None, cf_type = None,
     cf_subType = None, cf_owner = None, cf_before = None, cf_after = None, cf_canCreate = None, cf_canBurn = None,
     cf_canAddQuantity = None, cf_canUpdateAttributes = None, cf_canAddUri = None, cf_canTransferRole = None,
     cf_excludeMetaESDT = None, cf_sort = None, cf_order = None\<rparr>"

lemma sample_serves: "serves_buckets (sample_indexer True docs r) ''erd1'' sample_collection_filter sample_buckets"
proof -
  have "sample_aggregate (ix_toJson (sample_indexer True docs r)
      (collections_query ''erd1'' sample_collection_filter (int n) (key_at sample_buckets i)))
      = aggregation_response (take n (drop i sample_buckets))" if "i \<le> 3" for i n
  proof -
    from that have "i = 0 \<or> i = 1 \<or> i = 2 \<or> i = 3" by auto
    then show ?thesis
      by (auto simp: sample_aggregate_def sample_indexer_def collections_query_def composite_agg_def key_at_def
          key_json_def sample_buckets_def Let_def)
  qed
  then show ?thesis
    by (simp add: serves_buckets_def sample_buckets_def) (simp add: sample_indexer_def sample_service_def)
qed

theorem collections_page_witness:
  "\<exists>s. getCollectionsForAddress (sample_indexer True [] None) ''erd1'' sample_collection_filter
      \<lparr>pg_from = 1, pg_size = 1\<rparr> (breaker_init, 0)
     = (Inr (Some [JObj [(''collection'', JStr ''B-2''), (''count'', JNum 1), (''balance'', JNum 7)]]), s)"
proof -
  have "closed (ix_proxy (sample_indexer True [] None)) breaker_init" by (simp add: closed_def breaker_init_def)
  from collections_page [OF sample_serves this, of 1 1 0] show ?thesis
    by (simp add: sample_buckets_def row_json_def)
qed

subsection \<open>Writing\<close>

text \<open>The index lists an entry of the collection, in time, and refuses to change it.\<close>

definition refuses_writes :: "'w indexer \<Rightarrow> string \<Rightarrow> 'w \<Rightarrow> bool" where
  "refuses_writes ix collection w \<longleftrightarrow>
     (\<exists>i item rest d w1 d2 w2.
        es_getList (px_service (ix_proxy ix)) collection ''id'' [WithPagination 0 1] w = ((Inr (item # rest), d), w1)
        \<and> d < durationThresholdMs (px_config (ix_proxy ix)) \<and> json_member item ''id'' = Inr (JStr i)
        \<and> es_setCustomValue (px_service (ix_proxy ix)) collection i ''ensureWritable'' JUndefined w1
            = ((Inl (StatusError 403), d2), w2))"

text \<open>
  C33. The test that an index is writable, behind the breaker: an index that refuses to be written (403)
  is reported only when the breaker is disabled. With the breaker enabled the refusal reaches the test
  as \<open>ServiceUnavailableException\<close>, whose status is another one, and the test passes.
\<close>

theorem ensure_writable_never_refused:
  assumes "refuses_writes ix collection w" and "\<not> isCircuitOpen b"
  shows "fst (ensureCollectionWritable ix collection (b, w))
     = (if px_enabled (ix_proxy ix) then Inr () else Inl (NotWritableError collection))"
  using assms by (auto simp: refuses_writes_def ensureCollectionWritable_def io_simps proxy_getList_def
      proxy_setCustomValue_def withCircuitBreaker_def breaker_enter_def race_def split: sum.splits)

theorem ensure_writable_never_refused_witness:
  "fst (ensureTokensWritable (sample_indexer False [JObj [(''id'', JStr ''x'')]] (Some (StatusError 403))) (breaker_init, 0))
     = Inl (NotWritableError ''tokens'')
   \<and> fst (ensureTokensWritable (sample_indexer True [JObj [(''id'', JStr ''x'')]] (Some (StatusError 403))) (breaker_init, 0))
     = Inr ()"
proof -
  have "refuses_writes (sample_indexer e [JObj [(''id'', JStr ''x'')]] (Some (StatusError 403))) ''tokens'' 0" for e
    by (simp add: refuses_writes_def sample_indexer_def sample_service_def json_member_def json_nullish_def)
  moreover have "\<not> isCircuitOpen breaker_init" by (simp add: breaker_init_def)
  moreover have "px_enabled (ix_proxy (sample_indexer e docs r)) = e" for e docs r by (simp add: sample_indexer_def)
  ultimately show ?thesis
    unfolding ensureTokensWritable_def by (simp add: ensure_writable_never_refused)
qed

subsection \<open>What is selected and counted\<close>

text \<open>
  The search of the tokens of an account ignores the text that is searched for: the condition is
  made of the name of the filter, and without a name it matches no name at all.
\<close>

theorem token_search_ignored:
  assumes "truthy (Some s)" and "truthy (Some s')"
  shows "buildTokenFilter query (f\<lparr>kf_search := Some s\<rparr>) = buildTokenFilter query (f\<lparr>kf_search := Some s'\<rparr>)
   \<and> (kf_name f = None \<longrightarrow>
        with_must (Q_Nested ''data.name'' [Q_Match ''data.name'' JUndefined False]) \<in> set (buildTokenFilter query (f\<lparr>kf_search := Some s\<rparr>)))"
  using assms by (simp add: buildTokenFilter_def cong: if_cong option.case_cong)

theorem token_search_ignored_witness:
  "buildTokenFilter [] (\<lparr>kf_type = None, kf_search = Some ''usdc'', kf_name = None, kf_identifier = None,
      kf_identifiers = None, kf_includeMetaESDT = None\<rparr>)
   = buildTokenFilter [] (\<lparr>kf_type = None, kf_search = Some ''wegld'', kf_name = None, kf_identifier = None,
      kf_identifiers = None, kf_includeMetaESDT = None\<rparr>)"
  using token_search_ignored [of "''usdc''" "''wegld''" "[]" "\<lparr>kf_type = None, kf_search = None, kf_name = None,
    kf_identifier = None, kf_identifiers = None, kf_includeMetaESDT = None\<rparr>"]
  by simp

text \<open>
  An index that keeps the documents \<open>docs\<close>, as documented: a count is the number of documents that meet
  the query, a list holds documents that meet it, and both come in time.
\<close>

definition index_of :: "'w indexer \<Rightarrow> json query_semantics \<Rightarrow> string \<Rightarrow> json list \<Rightarrow> bool" where
  "index_of ix sem index docs \<longleftrightarrow> documented_queries sem
     \<and> (\<forall>query w. \<exists>d w'. es_getCount (px_service (ix_proxy ix)) index query w
           = ((Inr (int (length (filter (qs_accepts sem query) docs))), d), w')
         \<and> d < durationThresholdMs (px_config (ix_proxy ix)))
     \<and> (\<forall>ident query w. \<exists>xs d w'. es_getList (px_service (ix_proxy ix)) index ident query w = ((Inr xs, d), w')
         \<and> set xs \<subseteq> set (filter (qs_accepts sem query) docs)
         \<and> d < durationThresholdMs (px_config (ix_proxy ix)))"

lemma index_count:
  assumes "index_of ix sem index docs" and "closed (ix_proxy ix) b"
  shows "\<exists>s. count_index ix index query (b, w) = (Inr (int (length (filter (qs_accepts sem query) docs))), s)"
proof -
  obtain d w' where "es_getCount (px_service (ix_proxy ix)) index query w
      = ((Inr (int (length (filter (qs_accepts sem query) docs))), d), w')"
    and "d < durationThresholdMs (px_config (ix_proxy ix))"
    using assms(1) unfolding index_of_def by blast
  from guarded_success [where operation = "es_getCount (px_service (ix_proxy ix)) index query", OF this assms(2)]
  show ?thesis unfolding proxy_getCount_def by blast
qed

lemma index_list:
  assumes "index_of ix sem index docs" and "closed (ix_proxy ix) b"
  shows "\<exists>xs s. list_index ix index ident query (b, w) = (Inr xs, s) \<and> set xs \<subseteq> set (filter (qs_accepts sem query) docs)"
proof -
  obtain xs d w' where "es_getList (px_service (ix_proxy ix)) index ident query w = ((Inr xs, d), w')"
    and "set xs \<subseteq> set (filter (qs_accepts sem query) docs)"
    and "d < durationThresholdMs (px_config (ix_proxy ix))"
    using assms(1) unfolding index_of_def by blast
  with guarded_success [where operation = "es_getList (px_service (ix_proxy ix)) index ident query", OF this(1,3) assms(2)]
  show ?thesis unfolding proxy_getList_def by blast
qed

lemma accepts_two:
  assumes "documented_queries sem"
  shows "qs_accepts sem [WithCondition QC_must [q]] d = qs_holds sem q d"
    and "qs_accepts sem (p # s # [WithCondition QC_must [q], WithCondition QC_mustNot [r]]) d \<Longrightarrow>
      qs_holds sem q d \<and> \<not> qs_holds sem r d"
proof -
  show "qs_accepts sem [WithCondition QC_must [q]] d = qs_holds sem q d"
    by (subst documented_exact [OF assms]) simp_all
  assume "qs_accepts sem (p # s # [WithCondition QC_must [q], WithCondition QC_mustNot [r]]) d"
  from documented_required [OF assms this, of "WithCondition QC_must [q]"]
    documented_required [OF assms this, of "WithCondition QC_mustNot [r]"]
  show "qs_holds sem q d \<and> \<not> qs_holds sem r d" by simp
qed

text \<open>
  The accounts of a token and their number are not of the same documents: the list leaves out the
  entry of the transfers that are pending, the count counts it.
\<close>

theorem token_accounts_count_pending:
  assumes "index_of ix sem ''accountsesdt'' docs" and "closed (ix_proxy ix) b"
  shows "\<exists>n xs s s'. getTokenAccountsCount ix token (b, w) = (Inr n, s)
     \<and> getTokenAccounts ix p token (b, w) = (Inr xs, s')
     \<and> n = int (length (filter (qs_holds sem (match_all ''token'' token)) docs))
     \<and> set xs \<subseteq> {d \<in> set docs. qs_holds sem (match_all ''token'' token) d
           \<and> \<not> qs_holds sem (match_str ''address'' ''pending'') d}"
proof -
  let ?q = "[with_pagination p, WithSort [(''balanceNum'', Descending)],
      WithCondition QC_must [match_all ''token'' token], not_pending]"
  have sem: "documented_queries sem" using assms(1) by (simp add: index_of_def)
  have count: "qs_accepts sem [WithCondition QC_must [match_all ''token'' token]] = qs_holds sem (match_all ''token'' token)"
    by (rule ext) (rule accepts_two(1) [OF sem])
  have list: "set (filter (qs_accepts sem ?q) docs) \<subseteq> {d \<in> set docs. qs_holds sem (match_all ''token'' token) d
      \<and> \<not> qs_holds sem (match_str ''address'' ''pending'') d}"
    using accepts_two(2) [OF sem] by auto
  obtain s where "getTokenAccountsCount ix token (b, w)
      = (Inr (int (length (filter (qs_holds sem (match_all ''token'' token)) docs))), s)"
    using index_count [OF assms] unfolding getTokenAccountsCount_def count [symmetric] by blast
  moreover obtain xs s' where "getTokenAccounts ix p token (b, w) = (Inr xs, s')" and "set xs \<subseteq> set (filter (qs_accepts sem ?q) docs)"
    using index_list [OF assms] unfolding getTokenAccounts_def by blast
  ultimately show ?thesis using list by (intro exI conjI) (assumption | rule refl | blast)+
qed

text \<open>An index over documents that are objects, and queries that read their members.\<close>

definition member_list :: "json \<Rightarrow> (string \<times> json) list" where
  "member_list d = (case d of JObj ms \<Rightarrow> ms | _ \<Rightarrow> [])"

definition sample_object_semantics :: "json query_semantics" where
  "sample_object_semantics =
     \<lparr>qs_holds = \<lambda>q d. sample_holds q (member_list d),
      qs_accepts = \<lambda>calls d. \<forall>c \<in> set calls. required sample_meaning c (member_list d),
      qs_wildcard = \<lambda>_ _ _. False, qs_search = \<lambda>_ _ _. False\<rparr>"

lemma documented_sample_object: "documented_queries sample_object_semantics"
proof -
  have "required sample_object_semantics c d = required sample_meaning c (member_list d)" for c d
    by (cases c) (simp_all add: sample_object_semantics_def sample_meaning_def split: condition_option.splits option.splits)
  then show ?thesis
    by (simp add: documented_queries_def) (simp add: sample_object_semantics_def list_ex_iff list_all_iff)
qed


definition sample_index :: "json list \<Rightarrow> int indexer" where
  "sample_index docs = (sample_indexer True docs None)
     \<lparr>ix_proxy := (ix_proxy (sample_indexer True docs None))
       \<lparr>px_service := (sample_service docs None)
         \<lparr>es_getCount := \<lambda>_ q w. ((Inr (int (length (filter (qs_accepts sample_object_semantics q) docs))), 1), w),
           es_getList := \<lambda>_ _ q w. ((Inr (filter (qs_accepts sample_object_semantics q) docs), 1), w)\<rparr>\<rparr>\<rparr>"

lemma sample_index_of: "index_of (sample_index docs) sample_object_semantics index docs"
  using documented_sample_object by (auto simp: index_of_def sample_index_def sample_indexer_def)

lemma closed_init: "closed p breaker_init"
  by (simp add: closed_def breaker_init_def)

theorem token_accounts_count_pending_witness:
  "\<exists>xs s s'. getTokenAccountsCount (sample_index
        [JObj [(''token'', JStr ''T''), (''address'', JStr ''erd1'')], JObj [(''token'', JStr ''T''), (''address'', JStr ''pending'')]])
        ''T'' (breaker_init, 0) = (Inr 2, s)
     \<and> getTokenAccounts (sample_index
        [JObj [(''token'', JStr ''T''), (''address'', JStr ''erd1'')], JObj [(''token'', JStr ''T''), (''address'', JStr ''pending'')]])
        \<lparr>pg_from = 0, pg_size = 25\<rparr> ''T'' (breaker_init, 0) = (Inr xs, s')
     \<and> set xs \<subseteq> {JObj [(''token'', JStr ''T''), (''address'', JStr ''erd1'')]}"
  (is "\<exists>xs s s'. getTokenAccountsCount ?ix _ _ = _ \<and> _ \<and> _")
proof -
  let ?pending = "JObj [(''token'', JStr ''T''), (''address'', JStr ''pending'')]"
  obtain n xs s s' where *: "getTokenAccountsCount ?ix ''T'' (breaker_init, 0) = (Inr n, s)"
    "getTokenAccounts ?ix \<lparr>pg_from = 0, pg_size = 25\<rparr> ''T'' (breaker_init, 0) = (Inr xs, s')"
    "n = int (length (filter (qs_holds sample_object_semantics (match_all ''token'' ''T''))
        [JObj [(''token'', JStr ''T''), (''address'', JStr ''erd1'')], ?pending]))"
    "set xs \<subseteq> {d \<in> set [JObj [(''token'', JStr ''T''), (''address'', JStr ''erd1'')], ?pending].
        qs_holds sample_object_semantics (match_all ''token'' ''T'') d
        \<and> \<not> qs_holds sample_object_semantics (match_str ''address'' ''pending'') d}"
    using token_accounts_count_pending [OF sample_index_of closed_init] by blast
  moreover have "n = 2" using *(3) by (simp add: sample_object_semantics_def member_list_def)
  moreover have "set xs \<subseteq> {JObj [(''token'', JStr ''T''), (''address'', JStr ''erd1'')]}"
    using *(4) by (auto simp: sample_object_semantics_def member_list_def)
  ultimately show ?thesis using *(1,2) by (intro exI [of _ xs] exI [of _ s] exI [of _ s']) simp
qed

subsection \<open>First received\<close>

definition received :: "json \<Rightarrow> string \<Rightarrow> int \<Rightarrow> bool" where
  "received e i t \<longleftrightarrow> json_opt e ''identifier'' = JStr i \<and> i \<noteq> [] \<and> json_opt e ''timestamp'' = JNum t \<and> t > 0"

definition first_received :: "json list \<Rightarrow> string \<Rightarrow> json" where
  "first_received history i =
     (let ts = {t. \<exists>e \<in> set history. received e i t} in if ts = {} then JUndefined else JNum (Min ts))"

lemma finite_received [simp]: "finite {t. \<exists>e \<in> set history. received e i t}"
proof (rule finite_subset)
  show "{t. \<exists>e \<in> set history. received e i t} \<subseteq> (\<lambda>e. case json_opt e ''timestamp'' of JNum t \<Rightarrow> t | _ \<Rightarrow> 0) ` set history"
    by (force simp: received_def)
qed simp

lemma first_received_snoc:
  assumes "received e i t"
  shows "first_received (history @ [e]) j =
    (if j = i then (case first_received history i of JNum m \<Rightarrow> JNum (min t m) | _ \<Rightarrow> JNum t) else first_received history j)"
proof -
  have same: "received e j u \<longleftrightarrow> j = i \<and> u = t" for j u using assms by (auto simp: received_def)
  show ?thesis
  proof (cases "j = i")
    case True
    have "{u. \<exists>d \<in> set (history @ [e]). received d i u} = insert t {u. \<exists>d \<in> set history. received d i u}"
      by (auto simp: same)
    then show ?thesis using True by (auto simp: first_received_def Let_def Min_insert)
  next
    case False
    then have "{u. \<exists>d \<in> set (history @ [e]). received d j u} = {u. \<exists>d \<in> set history. received d j u}"
      by (auto simp: same)
    then show ?thesis using False by (simp add: first_received_def)
  qed
qed

lemma first_received_cases:
  "first_received history i = JUndefined \<or> (\<exists>m > 0. first_received history i = JNum m)"
proof (cases "{t. \<exists>e \<in> set history. received e i t} = {}")
  case False
  then have "Min {t. \<exists>e \<in> set history. received e i t} \<in> {t. \<exists>e \<in> set history. received e i t}"
    by (intro Min_in) simp_all
  then have "Min {t. \<exists>e \<in> set history. received e i t} > 0" unfolding received_def by blast
  with False show ?thesis by (simp add: first_received_def)
qed (simp add: first_received_def)

lemma received_entry_step:
  assumes "received e i t" and "\<forall>j. json_opt (JObj stamps) j = first_received history j"
  shows "\<exists>m. received_entry e stamps = Inr m \<and> (\<forall>j. json_opt (JObj m) j = first_received (history @ [e]) j)"
proof -
  have e: "json_member e ''identifier'' = Inr (JStr i)" "json_opt e ''timestamp'' = JNum t" "i \<noteq> []"
    using assms(1) by (auto simp: received_def json_member_def json_nullish_def)
  show ?thesis
    using first_received_cases [of history i] assms(2)
    by (auto simp: received_entry_def e property_key_def Let_def first_received_snoc [OF assms(1)] min_def simp del: json_opt.simps)
qed

lemma received_entries_first:
  assumes "\<forall>e \<in> set entries. \<exists>i t. received e i t" and "\<forall>j. json_opt (JObj stamps) j = first_received history j"
  shows "\<exists>m. received_entries entries stamps = Inr m \<and> (\<forall>j. json_opt (JObj m) j = first_received (history @ entries) j)"
  using assms
proof (induction entries arbitrary: stamps history)
  case (Cons e entries)
  then obtain i t where "received e i t" by auto
  from received_entry_step [OF this Cons.prems(2)]
  obtain m where "received_entry e stamps = Inr m" and "\<forall>j. json_opt (JObj m) j = first_received (history @ [e]) j" by blast
  with Cons.IH [of m "history @ [e]"] Cons.prems(1) show ?case by simp
qed simp

text \<open>
  When an account first received its NFTs: over a history whose entries have an identifier and a
  positive timestamp, the result has, for each identifier, the least timestamp of its entries, and no
  other identifier.
\<close>

theorem received_first:
  assumes "identifiers \<noteq> []"
    and "list_index ix ''accountsesdthistory'' ''address''
       [must_match ''address'' address, with_multi ''identifier'' True (Some identifiers), oldest_first, WithPagination 0 10000]
       s = (Inr history, s')"
    and "\<forall>e \<in> set history. \<exists>i t. received e i t"
  shows "\<exists>m. getAccountNftReceivedTimestamps ix address identifiers s = (Inr m, s')
     \<and> (\<forall>i. json_opt (JObj m) i = first_received history i)"
proof -
  have "\<forall>j. json_opt (JObj []) j = first_received [] j" by (simp add: first_received_def)
  from received_entries_first [OF assms(3) this] obtain m
    where "received_entries history [] = Inr m" and "\<forall>j. json_opt (JObj m) j = first_received history j" by auto
  with assms(1,2) show ?thesis by (simp add: getAccountNftReceivedTimestamps_def io_simps)
qed

definition sample_history :: "json list" where
  "sample_history = [JObj [(''identifier'', JStr ''N-1''), (''timestamp'', JNum 50)],
     JObj [(''identifier'', JStr ''N-1''), (''timestamp'', JNum 20)], JObj [(''identifier'', JStr ''N-2''), (''timestamp'', JNum 30)]]"

theorem received_first_witness:
  "\<exists>m. fst (getAccountNftReceivedTimestamps (sample_indexer True sample_history None) ''erd1'' [''N-1'', ''N-2''] (breaker_init, 0))
       = Inr m
     \<and> json_opt (JObj m) ''N-1'' = JNum 20 \<and> json_opt (JObj m) ''N-2'' = JNum 30 \<and> json_opt (JObj m) ''N-3'' = JUndefined"
proof -
  have entries: "\<forall>e \<in> set sample_history. \<exists>i t. received e i t" by (simp add: sample_history_def received_def)
  have index: "list_index (sample_indexer True sample_history None) a b q (breaker_init, 0) = (Inr sample_history, (breaker_init, 0))" for a b q
    by (simp add: sample_indexer_def sample_service_def proxy_getList_def withCircuitBreaker_def breaker_enter_def
        breaker_init_def race_def breaker_success_def)
  have "[''N-1'', ''N-2''] \<noteq> []" by simp
  from received_first [OF this index entries, of "''erd1''"] obtain m where
    m: "fst (getAccountNftReceivedTimestamps (sample_indexer True sample_history None) ''erd1'' [''N-1'', ''N-2''] (breaker_init, 0)) = Inr m"
      "\<forall>i. json_opt (JObj m) i = first_received sample_history i"
    by (elim exE conjE) simp
  have "{t. \<exists>e \<in> set sample_history. received e ''N-1'' t} = {50, 20}"
    "{t. \<exists>e \<in> set sample_history. received e ''N-2'' t} = {30}"
    "{t. \<exists>e \<in> set sample_history. received e ''N-3'' t} = {}"
    by (auto simp: sample_history_def received_def)
  then have "first_received sample_history ''N-1'' = JNum 20" "first_received sample_history ''N-2'' = JNum 30"
    "first_received sample_history ''N-3'' = JUndefined"
    by (simp_all add: first_received_def)
  with m show ?thesis by auto
qed

end
