(* ===== verification/Pool.thy ===== *)
theory Pool imports TransactionAction ElasticQueries "HOL-Library.Multiset" begin

text \<open>
  The transactions that wait in the pool (\<open>src/endpoints/pool/pool.service.ts\<close>), and the price per unit
  of gas that is computed from them (\<open>getPpuByShardId\<close> of
  \<open>src/endpoints/transactions/transaction.service.ts\<close>): the transactions of a shard are ordered by
  priority and put into buckets of gas.
\<close>

section \<open>Data\<close>

record pool_tx =
  pt_txHash :: string
  pt_sender :: string
  pt_receiver :: string
  pt_receiverUsername :: string
  pt_guardian :: string
  pt_guardianSignature :: string
  pt_nonce :: int
  pt_value :: string
  pt_data :: string
  pt_gasPrice :: int
  pt_gasLimit :: int
  pt_senderShard :: int
  pt_receiverShard :: int
  pt_signature :: string
  pt_function :: string
  pt_type :: transaction_type

text \<open>The fields of a transaction as the gateway sends them; an absent field is \<open>None\<close>.\<close>

record pool_fields =
  gf_hash :: "string option"
  gf_from :: "string option"
  gf_to :: "string option"
  gf_receiverusername :: "string option"
  gf_txnonce :: "int option"
  gf_txvalue :: "string option"
  gf_gasprice :: "int option"
  gf_gaslimit :: "int option"
  gf_txdata :: "string option"
  gf_guardian :: "string option"
  gf_guardiansignature :: "string option"
  gf_txsignature :: "string option"

record gateway_pool =
  gp_regularTransactions :: "pool_fields list option"
  gp_smartContractResults :: "pool_fields list option"
  gp_rewards :: "pool_fields list option"

record pool_filter =
  plf_sender :: "string option"
  plf_receiver :: "string option"
  plf_senderShard :: "int option"
  plf_receiverShard :: "int option"
  plf_type :: "transaction_type option"
  plf_functions :: "string list option"

text \<open>
  \<open>pe_getTransactionPool\<close> gives what \<open>rawPool?.txPool\<close> is; \<open>pe_toTransaction\<close> is the copy of the fields
  into a transaction, and \<open>pe_shard\<close> the shard of an address, which may throw.
\<close>

record 's pool_env =
  pe_consts :: time_consts
  pe_isTransactionPoolEnabled :: bool
  pe_getOrSet :: "string \<Rightarrow> ('s, pool_tx list) io \<Rightarrow> int \<Rightarrow> ('s, pool_tx list) io"
  pe_getTransactionPool :: "('s, gateway_pool option) io"
  pe_getShardCount :: "('s, int) io"
  pe_shard :: "string \<Rightarrow> int \<Rightarrow> int res"
  pe_toTransaction :: "pool_tx \<Rightarrow> transaction"
  pe_getTransactionMetadata :: "transaction \<Rightarrow> bool \<Rightarrow> ('s, transaction_metadata option) io"

section \<open>Reading the pool\<close>

definition new_pool_tx :: "pool_fields \<Rightarrow> transaction_type \<Rightarrow> pool_tx" where
  "new_pool_tx tx type =
     \<lparr>pt_txHash = coalesce (gf_hash tx) [], pt_sender = coalesce (gf_from tx) [], pt_receiver = coalesce (gf_to tx) [],
      pt_receiverUsername = coalesce (gf_receiverusername tx) [], pt_guardian = coalesce (gf_guardian tx) [],
      pt_guardianSignature = coalesce (gf_guardiansignature tx) [], pt_nonce = coalesce (gf_txnonce tx) 0,
      pt_value = coalesce (gf_txvalue tx) [], pt_data = coalesce (gf_txdata tx) [],
      pt_gasPrice = coalesce (gf_gasprice tx) 0, pt_gasLimit = coalesce (gf_gaslimit tx) 0,
      pt_senderShard = 0, pt_receiverShard = 0, pt_signature = coalesce (gf_txsignature tx) [],
      pt_function = [], pt_type = type\<rparr>"

definition parseTransaction :: "'s pool_env \<Rightarrow> transaction_type \<Rightarrow> pool_fields \<Rightarrow> ('s, pool_tx) io" where
  "parseTransaction env type raw =
     (let tx = new_pool_tx raw type in
      io_bind (pe_getShardCount env) (\<lambda>shardCount.
      io_bind (io_lift (if pt_sender tx \<noteq> [] then pe_shard env (pt_sender tx) shardCount else Inr 0)) (\<lambda>senderShard.
      io_bind (io_lift (if pt_receiver tx \<noteq> [] then pe_shard env (pt_receiver tx) shardCount else Inr 0)) (\<lambda>receiverShard.
        let tx = tx\<lparr>pt_senderShard := senderShard, pt_receiverShard := receiverShard\<rparr> in
        io_bind (pe_getTransactionMetadata env (pe_toTransaction env tx) False) (\<lambda>metadata.
          io_return (case Option.bind metadata md_functionName of
              None \<Rightarrow> tx
            | Some f \<Rightarrow> if f \<noteq> [] then tx\<lparr>pt_function := f\<rparr> else tx))))))"

definition processTransactionsWithType ::
  "'s pool_env \<Rightarrow> transaction_type \<Rightarrow> pool_fields list \<Rightarrow> ('s, pool_tx list) io" where
  "processTransactionsWithType env type txs = io_mapM (parseTransaction env type) txs"

definition parseTransactions :: "'s pool_env \<Rightarrow> gateway_pool option \<Rightarrow> ('s, pool_tx list) io" where
  "parseTransactions env rawPool =
     (case rawPool of
        None \<Rightarrow> io_return []
      | Some p \<Rightarrow>
          io_bind (processTransactionsWithType env TxType_Transaction (coalesce (gp_regularTransactions p) [])) (\<lambda>regular.
          io_bind (processTransactionsWithType env TxType_SmartContractResult (coalesce (gp_smartContractResults p) [])) (\<lambda>results.
          io_bind (processTransactionsWithType env TxType_Reward (coalesce (gp_rewards p) [])) (\<lambda>rewards.
            io_return (regular @ results @ rewards)))))"

definition getTxPoolRaw :: "'s pool_env \<Rightarrow> ('s, pool_tx list) io" where
  "getTxPoolRaw env = io_bind (pe_getTransactionPool env) (parseTransactions env)"

definition pool_matches :: "pool_filter \<Rightarrow> pool_tx \<Rightarrow> bool" where
  "pool_matches f tx \<longleftrightarrow>
     (\<not> truthy (plf_sender f) \<or> plf_sender f = Some (pt_sender tx))
     \<and> (\<not> truthy (plf_receiver f) \<or> plf_receiver f = Some (pt_receiver tx))
     \<and> (plf_type f = None \<or> plf_type f = Some (pt_type tx))
     \<and> (plf_senderShard f = None \<or> plf_senderShard f = Some (pt_senderShard tx))
     \<and> (plf_receiverShard f = None \<or> plf_receiverShard f = Some (pt_receiverShard tx))
     \<and> (case plf_functions f of None \<Rightarrow> True | Some fs \<Rightarrow> js_indexOf fs (pt_function tx) > - 1)"

definition applyFilters :: "pool_tx list \<Rightarrow> pool_filter option \<Rightarrow> pool_tx list" where
  "applyFilters pool filters = (case filters of None \<Rightarrow> pool | Some f \<Rightarrow> filter (pool_matches f) pool)"

definition getPoolWithFilters :: "'s pool_env \<Rightarrow> pool_filter option \<Rightarrow> ('s, pool_tx list) io" where
  "getPoolWithFilters env filters =
     io_bind (pe_getOrSet env (ci_key (CacheInfo_TransactionPool (pe_consts env))) (getTxPoolRaw env)
        (ci_ttl (CacheInfo_TransactionPool (pe_consts env)))) (\<lambda>pool. io_return (applyFilters pool filters))"

definition getPool :: "'s pool_env \<Rightarrow> int \<Rightarrow> int \<Rightarrow> pool_filter option \<Rightarrow> ('s, pool_tx list) io" where
  "getPool env start amount filters =
     (if \<not> pe_isTransactionPoolEnabled env then io_return []
      else io_bind (getPoolWithFilters env filters) (\<lambda>pool.
        io_return (take (nat amount) (drop (nat start) pool))))"

definition getPoolCount :: "'s pool_env \<Rightarrow> pool_filter option \<Rightarrow> ('s, int) io" where
  "getPoolCount env filters = io_bind (getPoolWithFilters env filters) (\<lambda>pool. io_return (int (length pool)))"

definition getTransactionFromPool :: "'s pool_env \<Rightarrow> string \<Rightarrow> ('s, pool_tx option) io" where
  "getTransactionFromPool env txHash =
     io_bind (getPoolWithFilters env None) (\<lambda>pool. io_return (List.find (\<lambda>tx. pt_txHash tx = txHash) pool))"

section \<open>Price per unit of gas\<close>

record ppu_tx = pool_tx +
  pu_ppu :: int

record gas_bucket =
  gb_index :: int
  gb_gasAccumulated :: int
  gb_ppuBegin :: int
  gb_ppuEnd :: "int option"
  gb_numTransactions :: int

record ppu_metadata =
  pm_lastBlock :: int
  pm_fast :: int
  pm_faster :: int

record network_constants =
  nc_minGasLimit :: int
  nc_gasPerDataByte :: int
  nc_gasPriceModifier :: string

text \<open>
  \<open>ge_unitPrice\<close> is \<open>Math.floor((dataCost * gasPrice + executionCost * gasPrice * modifier) / gasLimit)\<close>,
  computed with floating point numbers; \<open>ge_sort\<close> is the sort of the language, whose result for a
  comparison that is not an order is not specified; \<open>ge_blocks\<close> gives the nonces of the blocks of a page.
\<close>

record 's gas_env = "'s pool_env" +
  ge_getOrSet :: "string \<Rightarrow> ('s, ppu_metadata option) io \<Rightarrow> int \<Rightarrow> int \<Rightarrow> ('s, ppu_metadata option) io"
  ge_oneSecond :: int
  ge_blocks :: "block_filter \<Rightarrow> int \<Rightarrow> int \<Rightarrow> ('s, int list) io"
  ge_getConstants :: "('s, network_constants) io"
  ge_base64Decode :: "string \<Rightarrow> string res"
  ge_unitPrice :: "int \<Rightarrow> int \<Rightarrow> int \<Rightarrow> string \<Rightarrow> int \<Rightarrow> int"
  ge_localeCompare :: "string \<Rightarrow> string \<Rightarrow> int"
  ge_sort :: "(ppu_tx \<Rightarrow> ppu_tx \<Rightarrow> int) \<Rightarrow> ppu_tx list \<Rightarrow> ppu_tx list"

definition GAS_BUCKET_SIZE :: int where "GAS_BUCKET_SIZE = 6000000000"
definition FAST_BUCKET_INDEX :: nat where "FAST_BUCKET_INDEX = 2"
definition FASTER_BUCKET_INDEX :: nat where "FASTER_BUCKET_INDEX = 0"

definition ppu_of :: "('s, 'z) gas_env_scheme \<Rightarrow> int \<Rightarrow> int \<Rightarrow> string \<Rightarrow> pool_tx \<Rightarrow> ppu_tx res" where
  "ppu_of env minGasLimit gasPerDataByte gasPriceModifier tx =
     res_bind (if pt_data tx \<noteq> [] then ge_base64Decode env (pt_data tx) else Inr []) (\<lambda>data.
       let dataCost = minGasLimit + int (length data) * gasPerDataByte;
           executionCost = pt_gasLimit tx - dataCost
       in Inr (pool_tx.extend tx
            \<lparr>pu_ppu = ge_unitPrice env dataCost executionCost (pt_gasPrice tx) gasPriceModifier (pt_gasLimit tx)\<rparr>))"

definition calculatePpuForTransactions ::
  "('s, 'z) gas_env_scheme \<Rightarrow> pool_tx list \<Rightarrow> int \<Rightarrow> int \<Rightarrow> string \<Rightarrow> ppu_tx list res" where
  "calculatePpuForTransactions env txs minGasLimit gasPerDataByte gasPriceModifier =
     res_map (ppu_of env minGasLimit gasPerDataByte gasPriceModifier) txs"

definition priority_compare :: "(string \<Rightarrow> string \<Rightarrow> int) \<Rightarrow> ppu_tx \<Rightarrow> ppu_tx \<Rightarrow> int" where
  "priority_compare localeCompare a b =
     (if pt_sender a = pt_sender b then pt_nonce a - pt_nonce b
      else if pu_ppu a \<noteq> pu_ppu b then pu_ppu b - pu_ppu a
      else if pt_gasLimit a \<noteq> pt_gasLimit b then pt_gasLimit b - pt_gasLimit a
      else localeCompare (pt_txHash a) (pt_txHash b))"

definition sortTransactionsByPriority :: "('s, 'z) gas_env_scheme \<Rightarrow> ppu_tx list \<Rightarrow> ppu_tx list" where
  "sortTransactionsByPriority env txs = ge_sort env (priority_compare (ge_localeCompare env)) txs"

definition empty_bucket :: "int \<Rightarrow> gas_bucket" where
  "empty_bucket index = \<lparr>gb_index = index, gb_gasAccumulated = 0, gb_ppuBegin = 0, gb_ppuEnd = None, gb_numTransactions = 0\<rparr>"

definition add_to_bucket :: "int \<Rightarrow> ppu_tx \<Rightarrow> gas_bucket list \<times> gas_bucket \<Rightarrow> gas_bucket list \<times> gas_bucket" where
  "add_to_bucket gasBucketSize tx = (\<lambda>(buckets, current).
     let current = current\<lparr>gb_gasAccumulated := gb_gasAccumulated current + pt_gasLimit tx,
                           gb_numTransactions := gb_numTransactions current + 1\<rparr>;
         current = (if gb_numTransactions current = 1 then current\<lparr>gb_ppuBegin := pu_ppu tx\<rparr> else current)
     in if gb_gasAccumulated current \<ge> gasBucketSize
        then (buckets @ [current\<lparr>gb_ppuEnd := Some (pu_ppu tx)\<rparr>], empty_bucket (gb_index current + 1))
        else (buckets, current))"

definition distributeTransactionsIntoGasBuckets :: "ppu_tx list \<Rightarrow> int \<Rightarrow> gas_bucket list" where
  "distributeTransactionsIntoGasBuckets txs gasBucketSize =
     (case fold (add_to_bucket gasBucketSize) txs ([], empty_bucket 0) of (buckets, current) \<Rightarrow>
        if gb_numTransactions current > 0
        then buckets @ [current\<lparr>gb_ppuEnd := Some (pu_ppu (last txs))\<rparr>] else buckets)"

text \<open>The end of a bucket, or 0 when there is no such bucket or its end is 0.\<close>

definition bucket_end :: "gas_bucket list \<Rightarrow> nat \<Rightarrow> int" where
  "bucket_end buckets i = (case nth_opt buckets i of None \<Rightarrow> 0 | Some b \<Rightarrow> coalesce (gb_ppuEnd b) 0)"

definition latest_block_filter :: "int \<Rightarrow> block_filter" where
  "latest_block_filter shardId = \<lparr>bf_shard = Some shardId, bf_proposer = None, bf_validator = None, bf_epoch = None,
     bf_nonce = None, bf_beforeNonce = None, bf_afterNonce = None, bf_hashes = None, bf_order = Some Sort_desc\<rparr>"

definition sender_shard_filter :: "int \<Rightarrow> pool_filter" where
  "sender_shard_filter shardId = \<lparr>plf_sender = None, plf_receiver = None, plf_senderShard = Some shardId,
     plf_receiverShard = None, plf_type = None, plf_functions = None\<rparr>"

definition getPpuByShardIdRaw :: "'s gas_env \<Rightarrow> int \<Rightarrow> ('s, ppu_metadata option) io" where
  "getPpuByShardIdRaw env shardId = io_catch
     (if shardId < 0 \<or> shardId > 2 then io_return None
      else io_bind (ge_blocks env (latest_block_filter shardId) 0 1) (\<lambda>blocks.
        case blocks of
          [] \<Rightarrow> io_return None
        | lastBlock # _ \<Rightarrow>
            io_bind (ge_getConstants env) (\<lambda>constants.
            io_bind (getPoolWithFilters (pool_env.truncate env) (Some (sender_shard_filter shardId))) (\<lambda>pool.
              if pool = [] then io_return (Some \<lparr>pm_lastBlock = lastBlock, pm_fast = 0, pm_faster = 0\<rparr>)
              else io_bind (io_lift (calculatePpuForTransactions env pool (nc_minGasLimit constants)
                       (nc_gasPerDataByte constants) (nc_gasPriceModifier constants))) (\<lambda>txs.
                let gasBuckets = distributeTransactionsIntoGasBuckets (sortTransactionsByPriority env txs) GAS_BUCKET_SIZE
                in io_return (Some \<lparr>pm_lastBlock = lastBlock, pm_fast = bucket_end gasBuckets FAST_BUCKET_INDEX,
                     pm_faster = bucket_end gasBuckets FASTER_BUCKET_INDEX\<rparr>))))))
     (\<lambda>_. io_return None)"

definition getPpuByShardId :: "'s gas_env \<Rightarrow> int \<Rightarrow> ('s, ppu_metadata option) io" where
  "getPpuByShardId env shardId =
     ge_getOrSet env (ci_key (CacheInfo_PpuMetadataByShard (pe_consts env) shardId)) (getPpuByShardIdRaw env shardId)
       (ci_ttl (CacheInfo_PpuMetadataByShard (pe_consts env) shardId)) (ge_oneSecond env)"

section \<open>Properties\<close>

subsection \<open>Buckets\<close>

definition gas_of :: "ppu_tx list \<Rightarrow> int" where
  "gas_of txs = sum_list (map pt_gasLimit txs)"

text \<open>The bucket of a run of transactions.\<close>

definition bucket_of :: "nat \<Rightarrow> ppu_tx list \<Rightarrow> gas_bucket" where
  "bucket_of i g = \<lparr>gb_index = int i, gb_gasAccumulated = gas_of g, gb_ppuBegin = pu_ppu (hd g),
     gb_ppuEnd = Some (pu_ppu (last g)), gb_numTransactions = int (length g)\<rparr>"

text \<open>A bucket that is being filled by a run.\<close>

definition open_bucket :: "nat \<Rightarrow> ppu_tx list \<Rightarrow> gas_bucket" where
  "open_bucket i g = \<lparr>gb_index = int i, gb_gasAccumulated = gas_of g,
     gb_ppuBegin = (if g = [] then 0 else pu_ppu (hd g)), gb_ppuEnd = None, gb_numTransactions = int (length g)\<rparr>"

lemma gas_of_simps [simp]: "gas_of [] = 0" "gas_of (tx # g) = pt_gasLimit tx + gas_of g" "gas_of (g @ h) = gas_of g + gas_of h"
  by (simp_all add: gas_of_def)

lemma open_bucket_Nil [simp]: "open_bucket i [] = empty_bucket (int i)"
  by (simp add: open_bucket_def empty_bucket_def)

lemma add_to_open_bucket:
  "add_to_bucket limit tx (buckets, open_bucket i g) =
     (if gas_of (g @ [tx]) \<ge> limit then (buckets @ [bucket_of i (g @ [tx])], empty_bucket (int (Suc i)))
      else (buckets, open_bucket i (g @ [tx])))"
  by (cases g) (auto simp: add_to_bucket_def open_bucket_def bucket_of_def Let_def hd_append ac_simps)

text \<open>The runs that fill the buckets: each but the last reaches the size, and only with its last transaction.\<close>

fun gas_groups :: "int \<Rightarrow> ppu_tx list \<Rightarrow> ppu_tx list \<Rightarrow> ppu_tx list list" where
  "gas_groups limit g [] = (if g = [] then [] else [g])"
| "gas_groups limit g (tx # txs) =
     (if gas_of (g @ [tx]) \<ge> limit then (g @ [tx]) # gas_groups limit [] txs else gas_groups limit (g @ [tx]) txs)"

lemma fold_buckets:
  "(case fold (add_to_bucket limit) txs (buckets, open_bucket i g) of (bs, current) \<Rightarrow>
      if gb_numTransactions current > 0
      then bs @ [current\<lparr>gb_ppuEnd := Some (pu_ppu (last (g @ txs)))\<rparr>] else bs)
   = buckets @ map (\<lambda>(k, h). bucket_of k h) (List.enumerate i (gas_groups limit g txs))"
proof (induction txs arbitrary: buckets i g)
  case Nil
  then show ?case by (auto simp: open_bucket_def bucket_of_def empty_bucket_def)
next
  case (Cons tx txs)
  show ?case
  proof (cases "gas_of (g @ [tx]) \<ge> limit")
    case True
    note IH = Cons.IH [where buckets = "buckets @ [bucket_of i (g @ [tx])]" and i = "Suc i" and g = "[]"]
    show ?thesis
    proof (cases "txs = []")
      case True
      with \<open>gas_of (g @ [tx]) \<ge> limit\<close> show ?thesis
        by (simp add: add_to_open_bucket empty_bucket_def)
    next
      case False
      with True IH show ?thesis by (simp add: add_to_open_bucket split_def cong: if_cong)
    qed
  next
    case False
    with Cons.IH [where buckets = buckets and i = i and g = "g @ [tx]"] show ?thesis by (simp add: add_to_open_bucket split_def cong: if_cong)
  qed
qed

lemma gas_groups_concat: "concat (gas_groups limit g txs) = g @ txs"
  by (induction limit g txs rule: gas_groups.induct) auto

lemma gas_groups_nonempty: "h \<in> set (gas_groups limit g txs) \<Longrightarrow> h \<noteq> []"
  by (induction limit g txs rule: gas_groups.induct) (auto split: if_splits)

lemma gas_groups_full: "h \<in> set (butlast (gas_groups limit g txs)) \<Longrightarrow> gas_of h \<ge> limit"
  by (induction limit g txs rule: gas_groups.induct) (auto split: if_splits)

lemma gas_groups_tight:
  assumes "\<forall>k. 0 < k \<longrightarrow> k \<le> length g \<longrightarrow> gas_of (take k g) < limit" and "h \<in> set (gas_groups limit g txs)"
    and "0 < k" and "k < length h"
  shows "gas_of (take k h) < limit"
  using assms
proof (induction limit g txs rule: gas_groups.induct)
  case (1 limit g)
  then show ?case by (auto split: if_splits)
next
  case (2 limit g tx txs)
  show ?case
  proof (cases "gas_of (g @ [tx]) \<ge> limit")
    case True
    with 2 show ?thesis by (auto split: if_splits)
  next
    case False
    have "\<forall>k. 0 < k \<longrightarrow> k \<le> length (g @ [tx]) \<longrightarrow> gas_of (take k (g @ [tx])) < limit"
      using "2.prems"(1) False by (auto simp: le_Suc_eq)
    with False 2 show ?thesis by simp
  qed
qed

text \<open>
  The buckets of gas: the transactions, in their order, are cut into runs; there is one bucket for
  each run, with its number, gas, first and last price and number of transactions. Every run but the
  last reaches the size of a bucket, and none reaches it before its last transaction.
\<close>

theorem buckets_partition:
  "\<exists>groups. concat groups = txs
     \<and> distributeTransactionsIntoGasBuckets txs limit = map (\<lambda>(i, g). bucket_of i g) (List.enumerate 0 groups)
     \<and> [] \<notin> set groups
     \<and> (\<forall>g \<in> set (butlast groups). gas_of g \<ge> limit)
     \<and> (\<forall>g \<in> set groups. \<forall>k. 0 < k \<longrightarrow> k < length g \<longrightarrow> gas_of (take k g) < limit)"
proof (intro exI conjI)
  show "concat (gas_groups limit [] txs) = txs" by (simp add: gas_groups_concat)
  show "distributeTransactionsIntoGasBuckets txs limit
      = map (\<lambda>(i, g). bucket_of i g) (List.enumerate 0 (gas_groups limit [] txs))"
    using fold_buckets [where limit = limit and txs = txs and buckets = "[]" and i = 0 and g = "[]"] by (simp add: distributeTransactionsIntoGasBuckets_def split_def cong: if_cong)
  show "[] \<notin> set (gas_groups limit [] txs)" using gas_groups_nonempty by blast
  show "\<forall>g \<in> set (butlast (gas_groups limit [] txs)). gas_of g \<ge> limit" using gas_groups_full by blast
  show "\<forall>g \<in> set (gas_groups limit [] txs). \<forall>k. 0 < k \<longrightarrow> k < length g \<longrightarrow> gas_of (take k g) < limit"
  proof (intro ballI allI impI)
    fix g k assume "g \<in> set (gas_groups limit [] txs)" "0 < k" "k < length g"
    then show "gas_of (take k g) < limit" by (intro gas_groups_tight [where g = "[]" and txs = txs]) simp_all
  qed
qed


definition sample_ppu_tx :: "string \<Rightarrow> int \<Rightarrow> int \<Rightarrow> ppu_tx" where
  "sample_ppu_tx sender nonce ppu = pool_tx.extend
     ((new_pool_tx \<lparr>gf_hash = None, gf_from = Some sender, gf_to = None, gf_receiverusername = None, gf_txnonce = Some nonce,
        gf_txvalue = None, gf_gasprice = None, gf_gaslimit = Some 3000000000, gf_txdata = None, gf_guardian = None,
        gf_guardiansignature = None, gf_txsignature = None\<rparr> TxType_Transaction)) \<lparr>pu_ppu = ppu\<rparr>"

theorem buckets_partition_witness:
  "\<exists>groups. concat groups = [sample_ppu_tx ''alice'' 1 30, sample_ppu_tx ''bob'' 1 20, sample_ppu_tx ''carol'' 1 10]
     \<and> distributeTransactionsIntoGasBuckets
          [sample_ppu_tx ''alice'' 1 30, sample_ppu_tx ''bob'' 1 20, sample_ppu_tx ''carol'' 1 10] GAS_BUCKET_SIZE
        = map (\<lambda>(i, g). bucket_of i g) (List.enumerate 0 groups)
     \<and> [] \<notin> set groups"
  using buckets_partition [where txs = "[sample_ppu_tx ''alice'' 1 30, sample_ppu_tx ''bob'' 1 20, sample_ppu_tx ''carol'' 1 10]"
    and limit = GAS_BUCKET_SIZE] by blast

subsection \<open>The order of priority\<close>

text \<open>An order of the transactions that agrees with the comparison: no later one comes before an earlier one.\<close>

definition agrees_with :: "(ppu_tx \<Rightarrow> ppu_tx \<Rightarrow> int) \<Rightarrow> ppu_tx list \<Rightarrow> bool" where
  "agrees_with compare txs \<longleftrightarrow> sorted_wrt (\<lambda>a b. compare a b \<le> 0) txs"

text \<open>
  The comparison of priorities is not an order: as soon as a sender has two transactions, the later
  of which pays more, and another sender pays a price between the two, no order of the three agrees
  with the comparison, and the result of the sort is not specified.
\<close>

theorem priority_is_no_order:
  assumes "pt_sender a = pt_sender c" and "pt_sender b \<noteq> pt_sender a"
    and "pt_nonce a < pt_nonce c" and "pu_ppu a < pu_ppu b" and "pu_ppu b < pu_ppu c"
    and "mset txs = {#a, b, c#}"
  shows "\<not> agrees_with (priority_compare localeCompare) txs"
proof
  let ?cmp = "priority_compare localeCompare"
  assume sorted: "agrees_with ?cmp txs"
  have cycle: "?cmp c a > 0" "?cmp a b > 0" "?cmp b c > 0"
    using assms(1-5) by (simp_all add: priority_compare_def)
  have "length txs = 3" using arg_cong [OF assms(6), of size] by simp
  then obtain x y z where txs: "txs = [x, y, z]"
    by (metis (no_types, lifting) length_0_conv length_Suc_conv numeral_3_eq_3)
  have "a \<in> {x, y, z}" "b \<in> {x, y, z}" "c \<in> {x, y, z}"
    using arg_cong [OF assms(6), of set_mset] txs by auto
  moreover have "?cmp x y \<le> 0" "?cmp x z \<le> 0" "?cmp y z \<le> 0"
    using sorted txs by (simp_all add: agrees_with_def)
  moreover have "a \<noteq> b" "b \<noteq> c" "a \<noteq> c" using assms by auto
  ultimately show False using cycle by auto
qed

theorem priority_is_no_order_witness:
  "\<not> agrees_with (priority_compare (\<lambda>_ _. 0))
     [sample_ppu_tx ''alice'' 1 10, sample_ppu_tx ''bob'' 1 20, sample_ppu_tx ''alice'' 2 30]"
proof -
  let ?a = "sample_ppu_tx ''alice'' 1 10" and ?b = "sample_ppu_tx ''bob'' 1 20" and ?c = "sample_ppu_tx ''alice'' 2 30"
  have "pt_sender ?a = pt_sender ?c" "pt_sender ?b \<noteq> pt_sender ?a" "pt_nonce ?a < pt_nonce ?c"
    "pu_ppu ?a < pu_ppu ?b" "pu_ppu ?b < pu_ppu ?c" "mset [?a, ?b, ?c] = {#?a, ?b, ?c#}"
    by (simp_all add: sample_ppu_tx_def pool_tx.defs new_pool_tx_def)
  then show ?thesis by (rule priority_is_no_order)
qed

text \<open>
  The price per unit of gas of a shard: an error of a service, of the gateway or of the decoding of a
  transaction gives no price and is never thrown; a shard that is not one of the three has none.
\<close>

theorem ppu_never_throws:
  "\<exists>m t. getPpuByShardIdRaw env shardId s = (Inr m, t) \<and> (if shardId < 0 \<or> shardId > 2 then m = None \<and> t = s else True)"
  by (auto simp: getPpuByShardIdRaw_def io_simps split: prod.splits sum.splits)

end
