(* ===== verification/TransactionDetails.thy ===== *)
theory TransactionDetails imports TokenTransfer ElasticQueries Usernames "HOL-Library.Multiset" begin

text \<open>
  The details of one transaction (\<open>src/endpoints/transactions/transaction.get.service.ts\<close> and
  \<open>transaction.utils.ts\<close>): its results, logs and operations, read from the index or from the gateway.
\<close>

section \<open>Data\<close>

record tx_result = sc_result +
  tr_prevTxHash :: string
  tr_originalTxHash :: string
  tr_logs :: "transaction_log option"
  tr_senderAssets :: json
  tr_receiverAssets :: json

record detailed_tx =
  dt_txHash :: string
  dt_sender :: string
  dt_receiver :: string
  dt_data :: "string option"
  dt_status :: string
  dt_timestamp :: int
  dt_timestampMs :: int
  dt_nonce :: "int option"
  dt_gasLimit :: "int option"
  dt_gasPrice :: "int option"
  dt_gasUsed :: "int option"
  dt_round :: "int option"
  dt_miniBlockHash :: "string option"
  dt_type :: "transaction_type option"
  dt_isRelayed :: "bool option"
  dt_relayer :: "string option"
  dt_relayedVersion :: "string option"
  dt_pendingResults :: "bool option"
  dt_action :: json
  dt_senderAssets :: json
  dt_receiverAssets :: json
  dt_senderUsername :: string
  dt_receiverUsername :: string
  dt_price :: "js_float option"
  dt_results :: "tx_result list option"
  dt_receipt :: json
  dt_logs :: "transaction_log option"
  dt_operations :: "transaction_operation list"
  dt_senderBlockHash :: "string option"
  dt_senderBlockNonce :: "int option"
  dt_receiverBlockHash :: "string option"
  dt_receiverBlockNonce :: "int option"

text \<open>
  A transaction as the index keeps it: the copy of its fields into a detailed transaction
  (\<open>ApiUtils.mergeObjects(new TransactionDetailed(), ...)\<close>), and the fields that are read besides.
\<close>

record tx_document =
  td_copied :: detailed_tx
  td_scResults :: "tx_result list option"
  td_relayerAddr :: "string option"
  td_hasScResults :: "bool option"
  td_hasOperations :: "bool option"
  td_senderUserName :: "string option"
  td_senderUsername :: "string option"
  td_receiverUserName :: "string option"
  td_receiverUsername :: "string option"

record event_hit =
  eh_txHash :: string
  eh_logAddress :: string
  eh_identifier :: string
  eh_address :: string
  eh_data :: "string option"
  eh_additionalData :: "string option list option"
  eh_topics :: "string option list option"

text \<open>
  The services. \<open>xg_getLogs\<close> gives the logs of the index \<open>logs\<close>, \<open>xg_getEvents\<close> the events of the index
  \<open>events\<close>, \<open>xg_copyEvent\<close> the copy of the fields of an event, \<open>xg_getNfts\<close> the identifiers of NFTs with
  the name of their data, and \<open>xg_sorted\<close> the order by a number of the array extension.
\<close>

record 's tx_get_env =
  xg_tokens :: "'s token_env"
  xg_getTransaction :: "string \<Rightarrow> ('s, tx_document option) io"
  xg_getScResults :: "string \<Rightarrow> ('s, tx_result list) io"
  xg_getReceipts :: "string \<Rightarrow> ('s, json list) io"
  xg_migratedIndices :: "(string \<rightharpoonup> string) option"
  xg_getLogs :: "string list \<Rightarrow> ('s, transaction_log list) io"
  xg_getEvents :: "string list \<Rightarrow> ('s, event_hit list) io"
  xg_copyEvent :: "event_hit \<Rightarrow> string option \<Rightarrow> string option list option \<Rightarrow> string option list option \<Rightarrow> log_event"
  xg_getNfts :: "string list \<Rightarrow> ('s, (string \<times> string option) list) io"
  xg_hexToBase64 :: "string \<Rightarrow> string"
  xg_numberToHex :: "int \<Rightarrow> string"
  xg_base64Encode :: "string \<Rightarrow> string"
  xg_base64Decode :: "string \<Rightarrow> string"
  xg_md5 :: "string \<Rightarrow> string"
  xg_distinct :: "string list \<Rightarrow> string list"
  xg_sorted :: "(transaction_operation \<Rightarrow> int) \<Rightarrow> transaction_operation list \<Rightarrow> transaction_operation list"

section \<open>Operations\<close>

text \<open>A transfer with the same content as another one, of the result that caused its own.\<close>

definition repeats_operation :: "(string \<rightharpoonup> string) \<Rightarrow> transaction_operation \<Rightarrow> transaction_operation \<Rightarrow> bool" where
  "repeats_operation previousHashes operation x \<longleftrightarrow>
     op_sender x = op_sender operation \<and> op_receiver x = op_receiver operation
     \<and> op_collection x = op_collection operation \<and> op_identifier x = op_identifier operation
     \<and> op_type x = op_type operation \<and> op_value x = op_value operation
     \<and> op_action x = OA_transfer \<and> previousHashes (op_id operation) = Some (op_id x)"

definition trimOperations ::
  "((transaction_operation \<Rightarrow> int) \<Rightarrow> transaction_operation list \<Rightarrow> transaction_operation list)
   \<Rightarrow> string \<Rightarrow> transaction_operation list \<Rightarrow> (string \<rightharpoonup> string) \<Rightarrow> transaction_operation list" where
  "trimOperations sorted_by sender operations previousHashes =
     (let result = filter (\<lambda>operation. \<not> (op_action operation = OA_transfer
            \<and> filter (repeats_operation previousHashes operation) operations \<noteq> [])) operations
      in sorted_by (\<lambda>x. if op_sender x = sender then 0 else 1) result)"

section \<open>Logs\<close>

text \<open>The map from hashes to logs, in the order in which the hashes are first met.\<close>

definition logs_of_events :: "'s tx_get_env \<Rightarrow> event_hit list \<Rightarrow> transaction_log list" where
  "logs_of_events env hits = map snd (fold (\<lambda>source logsMap.
     let logsMap = (if map_of logsMap (eh_txHash source) = None
           then logsMap @ [(eh_txHash source, \<lparr>tl_id = Some (eh_txHash source), tl_address = eh_logAddress source, tl_events = []\<rparr>)]
           else logsMap);
         event = xg_copyEvent env source
           (if truthy (eh_data source) then Some (xg_hexToBase64 env (the (eh_data source))) else eh_data source)
           (map_option (map (\<lambda>d. if truthy d then Some (xg_hexToBase64 env (the d)) else d)) (eh_additionalData source))
           (map_option (map (\<lambda>t. if truthy t then Some (xg_hexToBase64 env (the t)) else t)) (eh_topics source))
     in map (\<lambda>(h, log). if h = eh_txHash source then (h, log\<lparr>tl_events := tl_events log @ [event]\<rparr>) else (h, log)) logsMap)
     hits [])"

definition getTransactionLogsFromElasticInternal :: "'s tx_get_env \<Rightarrow> string list \<Rightarrow> ('s, transaction_log list) io" where
  "getTransactionLogsFromElasticInternal env hashes =
     (let index = coalesce (Option.bind (xg_migratedIndices env) (\<lambda>m. m ''logs'')) ''logs''
      in if index = ''events''
         then io_bind (xg_getEvents env hashes) (\<lambda>hits. io_return (logs_of_events env hits))
         else xg_getLogs env hashes)"

text \<open>The loop over the hashes, a thousand at a time.\<close>

function getTransactionLogsFromElastic :: "'s tx_get_env \<Rightarrow> string list \<Rightarrow> ('s, transaction_log list) io" where
  "getTransactionLogsFromElastic env hashes =
     (if take 1000 hashes = [] then io_return []
      else io_bind (getTransactionLogsFromElasticInternal env (take 1000 hashes)) (\<lambda>items.
           io_bind (getTransactionLogsFromElastic env (drop 1000 hashes)) (\<lambda>rest. io_return (items @ rest))))"
  by pat_completeness auto
termination by (relation "measure (\<lambda>(env, hashes). length hashes)") auto

text \<open>The topics of the event, its first topic replaced by zero.\<close>

definition alterDuplicatedTransferValueOnlyEvents :: "'s tx_get_env \<Rightarrow> log_event list \<Rightarrow> log_event list" where
  "alterDuplicatedTransferValueOnlyEvents env events =
     (let positions = (\<lambda>data. filter (\<lambda>i. le_identifier (events ! i) = ''transferValueOnly''
            \<and> le_data (events ! i) = xg_base64Encode env data) [0..<length events]);
          backTransferEvents = positions ''BackTransfer'';
          asyncCallbackEvents = positions ''AsyncCallback''
      in case (backTransferEvents, asyncCallbackEvents) of
           ([b], [a]) \<Rightarrow>
             if length (le_topics (events ! a)) > 1 \<and> le_topics (events ! b) = le_topics (events ! a)
             then events[a := (events ! a)\<lparr>le_topics := (le_topics (events ! a))
                    [0 := xg_hexToBase64 env (xg_numberToHex env 0)]\<rparr>]
             else events
         | _ \<Rightarrow> events)"

definition getEventContentHash :: "'s tx_get_env \<Rightarrow> log_event \<Rightarrow> string" where
  "getEventContentHash env event = xg_md5 env (JSON_stringify (JObj
     [(''address'', JStr (le_address event)), (''identifier'', JStr (le_identifier event)),
      (''topics'', JArr (map JStr (le_topics event))), (''data'', JStr (le_data event)),
      (''additionalData'', opt_json (\<lambda>xs. JArr (map JStr xs)) (le_additionalData event))]))"

text \<open>The groups of the positions of events, by the hash of the content; a position stands for the event object.\<close>

definition add_to_group :: "(nat \<Rightarrow> string) \<Rightarrow> nat \<Rightarrow> (string \<times> nat list) list \<Rightarrow> (string \<times> nat list) list" where
  "add_to_group contentHash i groups =
     (let groups = (if map_of groups (contentHash i) = None then groups @ [(contentHash i, [])] else groups)
      in map (\<lambda>(h, g). if h = contentHash i then (h, g @ [i]) else (h, g)) groups)"

definition removeDuplicatedESDTTransferEvents :: "'s tx_get_env \<Rightarrow> log_event list \<Rightarrow> log_event list" where
  "removeDuplicatedESDTTransferEvents env events =
     (let esdtTransferEvents = filter (\<lambda>i. le_identifier (events ! i) = ''ESDTTransfer'') [0..<length events]
      in if length esdtTransferEvents \<le> 1 then events
         else (let eventGroups = fold (add_to_group (\<lambda>i. getEventContentHash env (events ! i))) esdtTransferEvents [];
                   duplicateEvents = concat (map (\<lambda>(h, g). tl g) eventGroups)
               in map (nth events) (filter (\<lambda>i. i \<notin> set duplicateEvents) [0..<length events])))"

section \<open>From the index\<close>

definition applyUsernamesToDetailedTransaction :: "'s tx_get_env \<Rightarrow> tx_document \<Rightarrow> detailed_tx \<Rightarrow> detailed_tx" where
  "applyUsernamesToDetailedTransaction env transaction tx =
     (let name = (\<lambda>raw. extractUsernameFromRawBase64 (xg_base64Decode env) raw);
          tx = (if truthy (td_senderUserName transaction) then tx\<lparr>dt_senderUsername := name (td_senderUserName transaction)\<rparr> else tx);
          tx = (if truthy (td_senderUsername transaction) then tx\<lparr>dt_senderUsername := name (td_senderUsername transaction)\<rparr> else tx);
          tx = (if truthy (td_receiverUserName transaction) then tx\<lparr>dt_receiverUsername := name (td_receiverUserName transaction)\<rparr> else tx)
      in if truthy (td_receiverUsername transaction) then tx\<lparr>dt_receiverUsername := name (td_receiverUsername transaction)\<rparr> else tx)"

definition name_operation :: "(string \<times> string option) list \<Rightarrow> transaction_operation \<Rightarrow> transaction_operation" where
  "name_operation nfts operation =
     (case map_of (rev nfts) (op_identifier operation) of
        None \<Rightarrow> operation
      | Some name \<Rightarrow> operation\<lparr>op_name := orelse name (op_name operation)\<rparr>)"

definition applyNftNameOnTransactionOperations :: "'s tx_get_env \<Rightarrow> detailed_tx list \<Rightarrow> ('s, detailed_tx list) io" where
  "applyNftNameOnTransactionOperations env txs =
     (let operations = concat (map dt_operations txs);
          identifiers = xg_distinct env (map op_identifier (filter (\<lambda>x. op_type x = OT_nft) operations))
      in if identifiers = [] then io_return txs
         else io_bind (xg_getNfts env identifiers) (\<lambda>nfts.
           io_return (map (\<lambda>tx. tx\<lparr>dt_operations := map (name_operation nfts) (dt_operations tx)\<rparr>) txs)))"

text \<open>The log of the transaction itself, or of the first of its results with the hash.\<close>

fun attach_to_result :: "transaction_log \<Rightarrow> tx_result list \<Rightarrow> tx_result list" where
  "attach_to_result log [] = []"
| "attach_to_result log (r # rs) =
     (if tl_id log = Some (sc_hash r) then r\<lparr>tr_logs := Some log\<rparr> # rs else r # attach_to_result log rs)"

definition attach_log :: "string \<Rightarrow> transaction_log \<Rightarrow> detailed_tx \<Rightarrow> detailed_tx" where
  "attach_log txHash log tx =
     (if tl_id log = Some txHash then tx\<lparr>dt_logs := Some log\<rparr>
      else tx\<lparr>dt_results := map_option (attach_to_result log) (dt_results tx)\<rparr>)"

definition previous_hashes :: "tx_result list \<Rightarrow> (string \<rightharpoonup> string)" where
  "previous_hashes results = map_of (rev (map (\<lambda>r. (sc_hash r, tr_prevTxHash r)) results))"

definition asks_for :: "string list option \<Rightarrow> string list \<Rightarrow> bool" where
  "asks_for columns names \<longleftrightarrow> \<not> non_empty columns \<or> (\<exists>n \<in> set names. n \<in> set (the columns))"

definition copied_transaction :: "tx_document \<Rightarrow> detailed_tx" where
  "copied_transaction transaction =
     (let tx = td_copied transaction;
          tx = (if td_scResults transaction \<noteq> None then tx\<lparr>dt_results := td_scResults transaction\<rparr> else tx)
      in if truthy (td_relayerAddr transaction) then tx\<lparr>dt_relayer := td_relayerAddr transaction\<rparr> else tx)"

definition with_results :: "'s tx_get_env \<Rightarrow> tx_document \<Rightarrow> string list option \<Rightarrow> detailed_tx \<Rightarrow> ('s, detailed_tx \<times> tx_result list) io" where
  "with_results env transaction columns tx =
     (if td_hasScResults transaction = Some True
         \<or> (td_hasOperations transaction = Some True \<and> asks_for columns [''results''])
      then io_bind (xg_getScResults env (dt_txHash tx)) (\<lambda>results. io_return (tx\<lparr>dt_results := Some results\<rparr>, results))
      else io_return (tx, []))"

definition with_receipt :: "'s tx_get_env \<Rightarrow> string \<Rightarrow> string list option \<Rightarrow> detailed_tx \<Rightarrow> ('s, detailed_tx) io" where
  "with_receipt env txHash columns tx =
     (if asks_for columns [''receipt''] then
        io_bind (xg_getReceipts env txHash) (\<lambda>receipts.
          io_return (case receipts of [] \<Rightarrow> tx | r # _ \<Rightarrow> tx\<lparr>dt_receipt := r\<rparr>))
      else io_return tx)"

definition clean_log :: "'s tx_get_env \<Rightarrow> transaction_log \<Rightarrow> transaction_log" where
  "clean_log env log = log\<lparr>tl_events :=
     removeDuplicatedESDTTransferEvents env (alterDuplicatedTransferValueOnlyEvents env (tl_events log))\<rparr>"

definition with_logs ::
  "'s tx_get_env \<Rightarrow> string \<Rightarrow> string list option \<Rightarrow> tx_result list \<Rightarrow> detailed_tx \<Rightarrow> ('s, detailed_tx) io" where
  "with_logs env txHash columns results tx =
     (if asks_for columns [''logs'', ''operations''] then
        io_bind (getTransactionLogsFromElastic env (txHash # map sc_hash results)) (\<lambda>logs.
        let logs = map (clean_log env) logs in
        io_bind (if asks_for columns [''operations''] then
            io_bind (getOperationsForTransaction (xg_tokens env)
                (map_option (map sc_result.truncate) (dt_results tx)) logs (dt_sender tx)) (\<lambda>operations.
              io_return (tx\<lparr>dt_operations :=
                trimOperations (xg_sorted env) (dt_sender tx) operations (previous_hashes results)\<rparr>))
          else io_return tx) (\<lambda>tx.
        io_return (fold (attach_log txHash) logs tx)))
      else io_return tx)"

definition tryGetTransactionFromElastic ::
  "'s tx_get_env \<Rightarrow> string \<Rightarrow> string list option \<Rightarrow> ('s, detailed_tx option) io" where
  "tryGetTransactionFromElastic env txHash columns =
     io_bind (xg_getTransaction env txHash) (\<lambda>transaction.
       case transaction of
         None \<Rightarrow> io_return None
       | Some document \<Rightarrow> io_catch
           (io_bind (with_results env document columns (copied_transaction document)) (\<lambda>(tx, results).
            io_bind (with_receipt env txHash columns tx) (\<lambda>tx.
            io_bind (with_logs env txHash columns results tx) (\<lambda>tx.
            io_bind (applyNftNameOnTransactionOperations env [applyUsernamesToDetailedTransaction env document tx]) (\<lambda>txs.
              io_return (nth_opt txs 0))))))
           (\<lambda>_. io_return None))"

section \<open>From the gateway\<close>

record gateway_result =
  gr_callType :: string
  gr_value :: string
  gr_data :: "string option"

text \<open>The transaction of the gateway; \<open>gt_fields\<close> are the fields that are only copied.\<close>

record gateway_tx =
  gt_fields :: json
  gt_miniblockType :: "string option"
  gt_miniblockHash :: "string option"
  gt_status :: string
  gt_sender :: string
  gt_nonce :: int
  gt_results :: "gateway_result list option"
  gt_senderUsername :: "string option"
  gt_receiverUsername :: "string option"

record 's gateway_env = "'s tx_get_env" +
  yg_getTransaction :: "string \<Rightarrow> ('s, gateway_tx option) io"
  yg_getBySenderAndNonce :: "string \<Rightarrow> int \<Rightarrow> ('s, string list) io"
  yg_copy :: "string \<Rightarrow> gateway_tx \<Rightarrow> string \<Rightarrow> string \<Rightarrow> bool \<Rightarrow> detailed_tx"

definition encode_gateway_results :: "('s, 'z) gateway_env_scheme \<Rightarrow> gateway_tx \<Rightarrow> gateway_tx" where
  "encode_gateway_results env tx = tx\<lparr>gt_results := map_option (map (\<lambda>r.
     if truthy (gr_data r) then r\<lparr>gr_data := Some (xg_base64Encode env (the (gr_data r)))\<rparr> else r)) (gt_results tx)\<rparr>"

definition tryGetTransactionFromGateway ::
  "('s, 'z) gateway_env_scheme \<Rightarrow> string \<Rightarrow> bool \<Rightarrow> ('s, detailed_tx option) io" where
  "tryGetTransactionFromGateway env txHash queryInElastic = io_catch
     (io_bind (yg_getTransaction env txHash) (\<lambda>result.
        case result of
          None \<Rightarrow> io_return None
        | Some tx \<Rightarrow>
            if gt_miniblockType tx = Some ''SmartContractResultBlock'' then io_return None
            else io_bind (if gt_status tx = ''pending'' \<and> queryInElastic
                then io_bind (yg_getBySenderAndNonce env (gt_sender tx) (gt_nonce tx)) (\<lambda>hashes.
                  io_return (case hashes of [] \<Rightarrow> False | h # _ \<Rightarrow> h \<noteq> txHash))
                else io_return False) (\<lambda>replaced.
              if replaced then io_return None
              else (let tx = encode_gateway_results env tx in
                io_return (Some (yg_copy env txHash tx
                  (extractUsernameFromRawBase64 (xg_base64Decode env) (gt_receiverUsername tx))
                  (extractUsernameFromRawBase64 (xg_base64Decode env) (gt_senderUsername tx))
                  (gt_miniblockHash tx \<noteq> None \<and> gt_status tx = ''pending'')))))))
     (\<lambda>_. io_return None)"

definition tryGetTransactionFromGatewayForList ::
  "('s, 'z) gateway_env_scheme \<Rightarrow> string \<Rightarrow> ('s, detailed_tx option) io" where
  "tryGetTransactionFromGatewayForList env txHash = tryGetTransactionFromGateway env txHash False"

section \<open>Grouping\<close>

fun keys_in_order :: "'k list \<Rightarrow> 'k list" where
  "keys_in_order [] = []"
| "keys_in_order (k # ks) = k # filter (\<lambda>x. x \<noteq> k) (keys_in_order ks)"

lemma set_keys_in_order [simp]: "set (keys_in_order ks) = set ks"
  by (induction ks) auto

lemma distinct_keys_in_order [simp]: "distinct (keys_in_order ks)"
  by (induction ks) auto

lemma keys_in_order_snoc:
  "keys_in_order (ks @ [k]) = (if k \<in> set ks then keys_in_order ks else keys_in_order ks @ [k])"
  by (induction ks) auto

lemma map_of_groups: "map_of (map (\<lambda>h. (h, g h)) hs) k = (if k \<in> set hs then Some (g k) else None)"
  by (induction hs) auto

lemma fold_add_to_group:
  "fold (add_to_group key) xs [] = map (\<lambda>h. (h, filter (\<lambda>i. key i = h) xs)) (keys_in_order (map key xs))"
proof (induction xs rule: rev_induct)
  case (snoc i xs)
  then show ?case
    by (auto simp: add_to_group_def map_of_groups keys_in_order_snoc Let_def filter_empty_conv image_iff)
qed simp

lemma tl_sorted: "sorted xs \<Longrightarrow> distinct xs \<Longrightarrow> i \<in> set (tl xs) \<longleftrightarrow> i \<in> set xs \<and> (\<exists>j \<in> set xs. j < i)" for i :: nat
  by (cases xs) (auto simp: less_le)

text \<open>The position of a transfer event that follows one with the same content.\<close>

definition repeated_transfer :: "'s tx_get_env \<Rightarrow> log_event list \<Rightarrow> nat \<Rightarrow> bool" where
  "repeated_transfer env events i \<longleftrightarrow> le_identifier (events ! i) = ''ESDTTransfer''
     \<and> (\<exists>j < i. le_identifier (events ! j) = ''ESDTTransfer''
          \<and> getEventContentHash env (events ! j) = getEventContentHash env (events ! i))"

section \<open>Properties\<close>

text \<open>
  The removal of repeated token transfers from a log: exactly those events go that repeat the
  content of an earlier transfer of the log; the others stay, in their order.
\<close>

theorem duplicates_removed:
  "removeDuplicatedESDTTransferEvents env events
     = map (nth events) (filter (\<lambda>i. \<not> repeated_transfer env events i) [0..<length events])"
proof -
  let ?key = "\<lambda>i. getEventContentHash env (events ! i)"
  let ?xs = "filter (\<lambda>i. le_identifier (events ! i) = ''ESDTTransfer'') [0..<length events]"
  let ?dups = "concat (map (\<lambda>(h, g). tl g) (fold (add_to_group ?key) ?xs []))"
  have "i \<in> set ?dups \<longleftrightarrow> repeated_transfer env events i" if "i < length events" for i
  proof -
    have sorted: "sorted (filter P [0..<n])" "distinct (filter P [0..<n])" for P n by (simp_all add: sorted_wrt_filter)
    have "i \<in> set ?dups \<longleftrightarrow> (\<exists>h \<in> ?key ` set ?xs. i \<in> set (tl (filter (\<lambda>j. ?key j = h) ?xs)))"
      by (simp add: fold_add_to_group)
    also have "\<dots> \<longleftrightarrow> repeated_transfer env events i"
      using that by (auto simp: tl_sorted [OF sorted] repeated_transfer_def dest: less_trans)
    finally show ?thesis .
  qed
  then have many: "map (nth events) (filter (\<lambda>i. i \<notin> set ?dups) [0..<length events])
      = map (nth events) (filter (\<lambda>i. \<not> repeated_transfer env events i) [0..<length events])"
    by (intro arg_cong [where f = "map (nth events)"] filter_cong) auto
  show ?thesis
  proof (cases "length ?xs \<le> 1")
    case True
    have "\<not> repeated_transfer env events i" if "i < length events" for i
    proof
      assume "repeated_transfer env events i"
      then obtain j where "j < i" "le_identifier (events ! j) = ''ESDTTransfer''" "le_identifier (events ! i) = ''ESDTTransfer''"
        by (auto simp: repeated_transfer_def)
      with that have "{j, i} \<subseteq> set ?xs" by auto
      then have "card {j, i} \<le> length ?xs" by (meson List.finite_set card_length card_mono le_trans)
      with \<open>j < i\<close> True show False by simp
    qed
    then have "filter (\<lambda>i. \<not> repeated_transfer env events i) [0..<length events] = [0..<length events]"
      by (intro filter_True) auto
    with True show ?thesis by (simp add: removeDuplicatedESDTTransferEvents_def Let_def map_nth)
  next
    case False
    with many show ?thesis by (simp add: removeDuplicatedESDTTransferEvents_def Let_def)
  qed
qed

text \<open>
  The logs of any number of hashes: when the index answers a request for at most a thousand hashes
  by the logs of each, all logs are returned, in the order of the hashes.
\<close>

theorem logs_in_batches:
  assumes "\<And>hs s. length hs \<le> 1000 \<Longrightarrow> getTransactionLogsFromElasticInternal env hs s = (Inr (concat (map logs hs)), s)"
  shows "getTransactionLogsFromElastic env hashes s = (Inr (concat (map logs hashes)), s)"
proof (induction hashes arbitrary: s rule: measure_induct_rule [where f = length])
  case (less hashes)
  show ?case
  proof (cases "hashes = []")
    case True
    then show ?thesis by (simp add: io_return_def)
  next
    case False
    then have "getTransactionLogsFromElastic env (drop 1000 hashes) s = (Inr (concat (map logs (drop 1000 hashes))), s)"
      by (intro less.IH) simp
    moreover have "concat (map logs hashes) = concat (map logs (take 1000 hashes)) @ concat (map logs (drop 1000 hashes))"
      by (metis append_take_drop_id concat_append map_append)
    ultimately show ?thesis
      using False assms [of "take 1000 hashes" s]
      by (subst getTransactionLogsFromElastic.simps) (simp add: io_bind_def io_return_def)
  qed
qed

definition event_of :: "'s tx_get_env \<Rightarrow> event_hit \<Rightarrow> log_event" where
  "event_of env source = xg_copyEvent env source
     (if truthy (eh_data source) then Some (xg_hexToBase64 env (the (eh_data source))) else eh_data source)
     (map_option (map (\<lambda>d. if truthy d then Some (xg_hexToBase64 env (the d)) else d)) (eh_additionalData source))
     (map_option (map (\<lambda>t. if truthy t then Some (xg_hexToBase64 env (the t)) else t)) (eh_topics source))"

definition log_of :: "'s tx_get_env \<Rightarrow> event_hit list \<Rightarrow> string \<Rightarrow> transaction_log" where
  "log_of env hits h = \<lparr>tl_id = Some h, tl_address = eh_logAddress (hd (filter (\<lambda>e. eh_txHash e = h) hits)),
     tl_events = map (event_of env) (filter (\<lambda>e. eh_txHash e = h) hits)\<rparr>"

lemma fold_logs:
  "fold (\<lambda>source logsMap.
     let logsMap = (if map_of logsMap (eh_txHash source) = None
           then logsMap @ [(eh_txHash source, \<lparr>tl_id = Some (eh_txHash source), tl_address = eh_logAddress source, tl_events = []\<rparr>)]
           else logsMap);
         event = event_of env source
     in map (\<lambda>(h, log). if h = eh_txHash source then (h, log\<lparr>tl_events := tl_events log @ [event]\<rparr>) else (h, log)) logsMap)
     hits [] = map (\<lambda>h. (h, log_of env hits h)) (keys_in_order (map eh_txHash hits))"
proof (induction hits rule: rev_induct)
  case (snoc e hits)
  show ?case
  proof (cases "eh_txHash e \<in> eh_txHash ` set hits")
    case True
    then have "filter (\<lambda>x. eh_txHash x = eh_txHash e) hits \<noteq> []" by (auto simp: filter_empty_conv)
    with True snoc show ?thesis
      by (auto simp: map_of_groups keys_in_order_snoc Let_def log_of_def hd_append)
  next
    case False
    then have new: "\<And>x. x \<in> set hits \<Longrightarrow> eh_txHash x \<noteq> eh_txHash e" by (metis imageI)
    then have "filter (\<lambda>x. eh_txHash x = eh_txHash e) hits = []" by (simp add: filter_empty_conv)
    with False snoc show ?thesis
      by (auto dest: new simp: map_of_groups keys_in_order_snoc Let_def log_of_def)
  qed
qed simp

text \<open>
  The logs put together from events: one log for each transaction that has an event, in the order
  in which the transactions are met, with its events in their order.
\<close>

theorem logs_from_events:
  "logs_of_events env hits = map (log_of env hits) (keys_in_order (map eh_txHash hits))"
  using fold_logs [of env hits] by (simp add: logs_of_events_def event_of_def [symmetric] comp_def)

definition documented_sorting :: "((transaction_operation \<Rightarrow> int) \<Rightarrow> transaction_operation list \<Rightarrow> transaction_operation list) \<Rightarrow> bool" where
  "documented_sorting f \<longleftrightarrow> (\<forall>key xs. mset (f key xs) = mset xs \<and> sorted (map key (f key xs)))"

lemma own_first:
  "sorted (map (\<lambda>x. if op_sender x = sender then 0 else 1 :: int) ys) \<Longrightarrow>
     \<forall>x \<in> set (dropWhile (\<lambda>x. op_sender x = sender) ys). op_sender x \<noteq> sender"
proof (induction ys)
  case (Cons y ys)
  show ?case
  proof (cases "op_sender y = sender")
    case False
    let ?key = "\<lambda>x. if op_sender x = sender then 0 else 1 :: int"
    have "\<forall>k \<in> set (map ?key ys). ?key y \<le> k" using Cons.prems unfolding list.map sorted_simps by (rule conjunct1)
    moreover have "?key x \<in> set (map ?key ys)" if "x \<in> set ys" for x unfolding set_map using that by (rule imageI)
    ultimately have "?key y \<le> ?key x" if "x \<in> set ys" for x using that by blast
    then have "op_sender x \<noteq> sender" if "x \<in> set ys" for x using False that by fastforce
    with False show ?thesis by simp
  next
    case True
    have "sorted (map (\<lambda>x. if op_sender x = sender then 0 else 1 :: int) ys)"
      using Cons.prems unfolding list.map sorted_simps by (rule conjunct2)
    then show ?thesis unfolding dropWhile.simps if_P [OF True] by (rule Cons.IH)
  qed
qed simp

text \<open>
  The operations of a transaction: what is left after trimming is, apart from the order, exactly
  the operations that are no transfer repeated from the result that caused it, and those sent by the
  sender of the transaction come first.
\<close>

theorem trimmed_operations:
  assumes "documented_sorting f"
  shows "mset (trimOperations f sender operations previousHashes)
       = filter_mset (\<lambda>x. \<not> (op_action x = OA_transfer \<and> (\<exists>y \<in> set operations. repeats_operation previousHashes x y)))
           (mset operations)
     \<and> (\<exists>own others. trimOperations f sender operations previousHashes = own @ others
          \<and> (\<forall>x \<in> set own. op_sender x = sender) \<and> (\<forall>x \<in> set others. op_sender x \<noteq> sender))"
proof
  let ?xs = "filter (\<lambda>operation. \<not> (op_action operation = OA_transfer
            \<and> filter (repeats_operation previousHashes operation) operations \<noteq> [])) operations"
  let ?key = "\<lambda>x. if op_sender x = sender then 0 else 1 :: int"
  have law: "mset (f ?key ?xs) = mset ?xs" "sorted (map ?key (f ?key ?xs))"
    using assms by (simp_all add: documented_sorting_def)
  have trim: "trimOperations f sender operations previousHashes = f ?key ?xs"
    by (simp add: trimOperations_def)
  show "mset (trimOperations f sender operations previousHashes)
       = filter_mset (\<lambda>x. \<not> (op_action x = OA_transfer \<and> (\<exists>y \<in> set operations. repeats_operation previousHashes x y)))
           (mset operations)"
    unfolding trim law(1) by (simp add: filter_empty_conv)
  have "\<exists>own others. ys = own @ others \<and> (\<forall>x \<in> set own. op_sender x = sender) \<and> (\<forall>x \<in> set others. op_sender x \<noteq> sender)"
    if "sorted (map ?key ys)" for ys
  proof (intro exI conjI)
    show "ys = takeWhile (\<lambda>x. op_sender x = sender) ys @ dropWhile (\<lambda>x. op_sender x = sender) ys" by simp
    show "\<forall>x \<in> set (takeWhile (\<lambda>x. op_sender x = sender) ys). op_sender x = sender" by (auto dest!: set_takeWhileD)
    show "\<forall>x \<in> set (dropWhile (\<lambda>x. op_sender x = sender) ys). op_sender x \<noteq> sender"
      using that by (rule own_first)
  qed
  from this [OF law(2)] show "\<exists>own others. trimOperations f sender operations previousHashes = own @ others
          \<and> (\<forall>x \<in> set own. op_sender x = sender) \<and> (\<forall>x \<in> set others. op_sender x \<noteq> sender)"
    unfolding trim .
qed

definition sample_get_env :: "unit token_env \<Rightarrow> unit tx_get_env" where
  "sample_get_env tokens = \<lparr>xg_tokens = tokens, xg_getTransaction = \<lambda>_. io_return None, xg_getScResults = \<lambda>_. io_return [],
     xg_getReceipts = \<lambda>_. io_return [], xg_migratedIndices = None,
     xg_getLogs = \<lambda>hs. io_return (map (\<lambda>h. \<lparr>tl_id = Some h, tl_address = [], tl_events = []\<rparr>) hs),
     xg_getEvents = \<lambda>_. io_return [],
     xg_copyEvent = \<lambda>hit _ _ _. \<lparr>le_address = eh_address hit, le_identifier = eh_identifier hit, le_topics = [], le_data = [], le_additionalData = None\<rparr>,
     xg_getNfts = \<lambda>_. io_return [], xg_hexToBase64 = id, xg_numberToHex = int_str, xg_base64Encode = id, xg_base64Decode = id,
     xg_md5 = id, xg_distinct = remdups, xg_sorted = sort_key\<rparr>"

theorem logs_in_batches_witness:
  "getTransactionLogsFromElastic (sample_get_env sample_tokens) (replicate 1500 ''a'') ()
     = (Inr (concat (map (\<lambda>h. [\<lparr>tl_id = Some h, tl_address = [], tl_events = []\<rparr>]) (replicate 1500 ''a''))), ())"
proof (rule logs_in_batches)
  show "getTransactionLogsFromElasticInternal (sample_get_env sample_tokens) hs s
      = (Inr (concat (map (\<lambda>h. [\<lparr>tl_id = Some h, tl_address = [], tl_events = []\<rparr>]) hs)), s)" for hs s
    by (simp add: getTransactionLogsFromElasticInternal_def sample_get_env_def io_return_def)
qed

theorem trimmed_operations_witness:
  "mset (trimOperations sort_key ''alice'' [new_operation\<lparr>op_action := OA_transfer, op_id := ''b'', op_sender := ''alice''\<rparr>,
        new_operation\<lparr>op_action := OA_transfer, op_id := ''a'', op_sender := ''alice''\<rparr>] [''b'' \<mapsto> ''a''])
     = {#new_operation\<lparr>op_action := OA_transfer, op_id := ''a'', op_sender := ''alice''\<rparr>#}"
proof -
  have "documented_sorting sort_key" by (simp add: documented_sorting_def)
  from trimmed_operations [OF this] show ?thesis
    by (simp add: repeats_operation_def new_operation_def)
qed

text \<open>
  The details of a transaction of the index: an error of the request for the transaction itself is
  thrown on, and is the only one that is; any later error gives no transaction.
\<close>

theorem details_errors:
  "(\<exists>t. tryGetTransactionFromElastic env txHash columns s = (Inl e, t)) = (\<exists>t. xg_getTransaction env txHash s = (Inl e, t))"
  by (auto simp: tryGetTransactionFromElastic_def io_simps split: prod.splits sum.splits option.splits)

end
