(* ===== verification/Transactions.thy ===== *)
theory Transactions imports TransactionDetails Pool ElasticIndexer "HOL-Library.Product_Lexorder" begin

text \<open>
  Lists of transactions and transfers (\<open>src/endpoints/transactions/transaction.service.ts\<close>,
  \<open>src/endpoints/transfers/transfer.service.ts\<close>): their number, the transactions of a page with what is
  asked for besides, one transaction, and the order of transfers. The price per unit of gas of the same
  service is in \<open>Pool\<close>.
\<close>

section \<open>Counting\<close>

text \<open>
  A filter as \<open>JSON.stringify\<close> sees it. The three members to which the class gives a value come first;
  the others follow in the order in which the caller gives them, taken here as that of the class.
\<close>

definition strings_json :: "string list \<Rightarrow> json" where
  "strings_json xs = JArr (map JStr xs)"

definition condition_text :: "condition_option \<Rightarrow> json" where
  "condition_text c = JStr (case c of QC_must \<Rightarrow> ''must'' | QC_should \<Rightarrow> ''should'' | QC_mustNot \<Rightarrow> ''must_not'')"

definition order_text :: "sort_order \<Rightarrow> json" where
  "order_text order = JStr (case order of Sort_asc \<Rightarrow> ''asc'' | Sort_desc \<Rightarrow> ''desc'')"

definition type_text :: "transaction_type \<Rightarrow> json" where
  "type_text t = JStr (case t of TxType_Transaction \<Rightarrow> ''Transaction'' | TxType_SmartContractResult \<Rightarrow> ''SmartContractResult''
     | TxType_Reward \<Rightarrow> ''Reward'')"

definition filter_json :: "transaction_filter \<Rightarrow> json" where
  "filter_json f = JObj
     [(''senders'', opt_json strings_json (tf_senders f)), (''receivers'', opt_json strings_json (tf_receivers f)),
      (''functions'', opt_json strings_json (tf_functions f)), (''address'', opt_json JStr (tf_address f)),
      (''sender'', opt_json JStr (tf_sender f)), (''token'', opt_json JStr (tf_token f)),
      (''senderShard'', opt_json JNum (tf_senderShard f)), (''receiverShard'', opt_json JNum (tf_receiverShard f)),
      (''miniBlockHash'', opt_json JStr (tf_miniBlockHash f)), (''hashes'', opt_json strings_json (tf_hashes f)),
      (''status'', opt_json JStr (tf_status f)), (''before'', opt_json JNum (tf_before f)),
      (''after'', opt_json JNum (tf_after f)), (''condition'', opt_json condition_text (tf_condition f)),
      (''order'', opt_json order_text (tf_order f)), (''type'', opt_json type_text (tf_type f)),
      (''tokens'', opt_json strings_json (tf_tokens f)), (''senderOrReceiver'', opt_json JStr (tf_senderOrReceiver f)),
      (''isScCall'', opt_json JBool (tf_isScCall f)), (''isRelayed'', opt_json JBool (tf_isRelayed f)),
      (''relayer'', opt_json JStr (tf_relayer f)), (''round'', opt_json JNum (tf_round f)),
      (''withRefunds'', opt_json JBool (tf_withRefunds f)), (''withRelayedScresults'', opt_json JBool (tf_withRelayedScresults f)),
      (''withTxsRelayedByAddress'', opt_json JBool (tf_withTxsRelayedByAddress f))]"

definition isTransactionCountQueryWithAddressOnly :: "transaction_filter \<Rightarrow> string option \<Rightarrow> bool" where
  "isTransactionCountQueryWithAddressOnly f address =
     (if \<not> truthy address then False else JSON_stringify (filter_json f) = JSON_stringify (JObj []))"

definition isTransactionCountQueryWithSenderAndReceiver :: "transaction_filter \<Rightarrow> bool" where
  "isTransactionCountQueryWithSenderAndReceiver f =
     (if \<not> truthy (tf_sender f) \<or> tf_receivers f = None then False
      else if the (tf_sender f) \<notin> set (the (tf_receivers f)) then False
      else JSON_stringify (filter_json f) = JSON_stringify (JObj
        [(''sender'', JStr (the (tf_sender f))), (''receivers'', strings_json (the (tf_receivers f))),
         (''condition'', JStr ''should'')]))"

record 's transactions_env = "'s gateway_env" +
  ve_consts :: time_consts
  ve_getOrSet :: "string \<Rightarrow> ('s, int) io \<Rightarrow> int \<Rightarrow> int \<Rightarrow> ('s, int) io"
  ve_countForAddress :: "string \<Rightarrow> ('s, int) io"
  ve_count :: "transaction_filter \<Rightarrow> string option \<Rightarrow> ('s, int) io"
  ve_transactions :: "transaction_filter \<Rightarrow> pagination \<Rightarrow> string option \<Rightarrow> ('s, json list) io"
  ve_copy :: "json \<Rightarrow> detailed_tx"
  ve_scResultsForTransactions :: "json list \<Rightarrow> ('s, tx_result list) io"
  ve_scResults :: "string list \<Rightarrow> ('s, tx_result list) io"
  ve_miniBlocks :: "string list \<Rightarrow> ('s, (string \<times> string \<times> string) list) io"
  ve_blocks :: "string list \<Rightarrow> ('s, (string \<times> int) list) io"
  ve_pluginProcess :: "detailed_tx list \<Rightarrow> bool \<Rightarrow> ('s, detailed_tx list) io"
  ve_action :: "detailed_tx \<Rightarrow> bool \<Rightarrow> ('s, json) io"
  ve_cacheGet :: "string \<Rightarrow> ('s, string option) io"
  ve_now :: "'s \<Rightarrow> int"
  ve_price :: "detailed_tx \<Rightarrow> ('s, js_float option) io"
  ve_accountAssets :: "('s, string \<rightharpoonup> json) io"
  ve_usernames :: "string list \<Rightarrow> ('s, string \<rightharpoonup> string option) io"
  ve_maiarIdUrl :: "string option"
  ve_isSmartContractAddress :: "string \<Rightarrow> bool"

definition getTransactionCountForAddressCached :: "('s, 'z) transactions_env_scheme \<Rightarrow> string \<Rightarrow> ('s, int) io" where
  "getTransactionCountForAddressCached env address =
     ve_getOrSet env (ci_key (CacheInfo_TxCount (ve_consts env) address)) (ve_countForAddress env address)
       (ci_ttl (CacheInfo_TxCount (ve_consts env) address)) (oneSecond (ve_consts env))"

definition getTransactionCountOf :: "('s, 'z) transactions_env_scheme \<Rightarrow> transaction_filter \<Rightarrow> string option \<Rightarrow> ('s, int) io" where
  "getTransactionCountOf env f address =
     (if isTransactionCountQueryWithAddressOnly f address then getTransactionCountForAddressCached env (coalesce address [])
      else if isTransactionCountQueryWithSenderAndReceiver f then getTransactionCountForAddressCached env (coalesce (tf_sender f) [])
      else ve_count env f address)"

section \<open>What is added to transactions\<close>

definition extractRelayedVersion :: "('s, 'z) transactions_env_scheme \<Rightarrow> detailed_tx \<Rightarrow> string option" where
  "extractRelayedVersion env tx =
     (let data = (if dt_isRelayed tx = Some True \<and> truthy (dt_data tx) then xg_base64Decode env (the (dt_data tx)) else [])
      in if startsWith data ''relayedTx@'' then Some ''v1''
         else if startsWith data ''relayedTxV2@'' then Some ''v2''
         else if truthy (dt_relayer tx) then Some ''v3'' else None)"

definition normalizeTimestampMs :: "detailed_tx list \<Rightarrow> detailed_tx list" where
  "normalizeTimestampMs txs = map (\<lambda>tx. if dt_timestampMs tx = 0 \<and> dt_timestamp tx \<noteq> 0
     then tx\<lparr>dt_timestampMs := dt_timestamp tx * 1000\<rparr> else tx) txs"

text \<open>The time is in milliseconds; the limit twenty minutes ago is compared in seconds.\<close>

definition getPendingResults :: "('s, 'z) transactions_env_scheme \<Rightarrow> detailed_tx \<Rightarrow> ('s, bool option) io" where
  "getPendingResults env tx = (\<lambda>s.
     if dt_timestamp tx * 1000 < ve_now env s - oneMinute (ve_consts env) * 20 * 1000 then io_return None s
     else io_bind (ve_cacheGet env (ci_key (CacheInfo_TransactionPendingResults (ve_consts env) (dt_txHash tx)))) (\<lambda>pending.
       io_return (if truthy pending then Some True else None)) s)"

definition getDistinctUserAddressesFromTransactions :: "('s, 'z) transactions_env_scheme \<Rightarrow> detailed_tx list \<Rightarrow> string list" where
  "getDistinctUserAddressesFromTransactions env txs =
     filter (\<lambda>x. \<not> ve_isSmartContractAddress env x) (xg_distinct env (concat (map (\<lambda>tx.
       [dt_sender tx, dt_receiver tx]
       @ (case json_opt (json_opt (dt_action tx) ''arguments'') ''receiver'' of JStr r \<Rightarrow> if r \<noteq> [] then [r] else [] | _ \<Rightarrow> [])
       @ concat (map (\<lambda>r. [sc_sender r, sc_receiver r]) (coalesce (dt_results tx) []))
       @ concat (map (\<lambda>op. (if op_sender op \<noteq> [] then [op_sender op] else [])
            @ (if op_receiver op \<noteq> [] then [op_receiver op] else [])) (dt_operations tx))
       @ (case dt_logs tx of None \<Rightarrow> [] | Some log \<Rightarrow> tl_address log # map le_address (tl_events log))) txs)))"

definition username_assets :: "string \<Rightarrow> json" where
  "username_assets name = JObj [(''name'', JStr name), (''tags'', JArr [JStr ''dns'', JStr ''username''])]"

text \<open>The assets of an address: those of the account, or those of its name.\<close>

definition assets_of :: "(string \<rightharpoonup> json) \<Rightarrow> (string \<rightharpoonup> string option) \<Rightarrow> string \<Rightarrow> json" where
  "assets_of accountAssets usernames address =
     (case accountAssets address of
        Some a \<Rightarrow> a
      | None \<Rightarrow> (case usernames address of Some (Some name) \<Rightarrow> if name \<noteq> [] then username_assets name else JUndefined | _ \<Rightarrow> JUndefined))"

text \<open>
  The assets of the transaction, of its action and of its results; those of operations and logs, which
  have no place in their records, are left out.
\<close>

definition put_assets :: "(string \<Rightarrow> json) \<Rightarrow> detailed_tx \<Rightarrow> detailed_tx" where
  "put_assets getAssets tx =
     (let arguments = json_opt (dt_action tx) ''arguments''; receiver = json_opt arguments ''receiver''
      in tx\<lparr>dt_senderAssets := getAssets (dt_sender tx), dt_receiverAssets := getAssets (dt_receiver tx),
            dt_action := (if json_truthy receiver
              then json_set ''arguments'' (json_set ''receiverAssets'' (getAssets (property_key receiver)) arguments) (dt_action tx)
              else dt_action tx),
            dt_results := map_option (map (\<lambda>r. r\<lparr>tr_senderAssets := getAssets (sc_sender r),
              tr_receiverAssets := getAssets (sc_receiver r)\<rparr>)) (dt_results tx)\<rparr>)"

definition applyAssets :: "('s, 'z) transactions_env_scheme \<Rightarrow> bool \<Rightarrow> detailed_tx list \<Rightarrow> ('s, detailed_tx list) io" where
  "applyAssets env withUsernameAssets txs =
     io_bind (ve_accountAssets env) (\<lambda>accountAssets.
     io_bind (if withUsernameAssets \<and> truthy (ve_maiarIdUrl env)
         then ve_usernames env (getDistinctUserAddressesFromTransactions env txs) else io_return Map.empty) (\<lambda>usernames.
       io_return (map (put_assets (assets_of accountAssets usernames)) txs)))"

text \<open>The body of the loop, with its \<open>try\<close>: an error leaves what was set before it.\<close>

definition process_transaction :: "('s, 'z) transactions_env_scheme \<Rightarrow> bool \<Rightarrow> detailed_tx \<Rightarrow> ('s, detailed_tx) io" where
  "process_transaction env withActionTransferValue tx = io_catch
     (io_bind (ve_action env tx withActionTransferValue) (\<lambda>action.
      let tx = tx\<lparr>dt_action := action\<rparr> in io_catch
       (io_bind (getPendingResults env tx) (\<lambda>pending.
          let tx = tx\<lparr>dt_pendingResults := pending\<rparr>
          in io_return (if pending = Some True then tx\<lparr>dt_status := ''pending''\<rparr> else tx)))
       (\<lambda>_. io_return tx)))
     (\<lambda>_. io_return tx)"

definition processTransactions ::
  "('s, 'z) transactions_env_scheme \<Rightarrow> bool \<Rightarrow> bool \<Rightarrow> bool \<Rightarrow> detailed_tx list \<Rightarrow> ('s, detailed_tx list) io" where
  "processTransactions env withScamInfo withUsername withActionTransferValue txs =
     (let txs = normalizeTimestampMs txs in
      io_bind (io_catch (ve_pluginProcess env txs withScamInfo) (\<lambda>_. io_return txs)) (\<lambda>txs.
      io_bind (io_mapM (process_transaction env withActionTransferValue) txs) (\<lambda>txs.
        applyAssets env withUsername txs)))"

definition add_block_info ::
  "(string \<times> string \<times> string) list \<Rightarrow> (string \<times> int) list \<Rightarrow> detailed_tx \<Rightarrow> detailed_tx" where
  "add_block_info miniBlocks blocks tx =
     (case map_of (rev miniBlocks) (coalesce (dt_miniBlockHash tx) []) of
        None \<Rightarrow> tx
      | Some (senderBlockHash, receiverBlockHash) \<Rightarrow>
          (let tx = tx\<lparr>dt_senderBlockHash := Some senderBlockHash, dt_receiverBlockHash := Some receiverBlockHash\<rparr>;
               tx = (case map_of (rev blocks) senderBlockHash of None \<Rightarrow> tx | Some n \<Rightarrow> tx\<lparr>dt_senderBlockNonce := Some n\<rparr>)
           in case map_of (rev blocks) receiverBlockHash of None \<Rightarrow> tx | Some n \<Rightarrow> tx\<lparr>dt_receiverBlockNonce := Some n\<rparr>))"

definition applyBlockInfo :: "('s, 'z) transactions_env_scheme \<Rightarrow> detailed_tx list \<Rightarrow> ('s, detailed_tx list) io" where
  "applyBlockInfo env txs =
     (let miniBlockHashes = xg_distinct env (map (\<lambda>x. the (dt_miniBlockHash x)) (filter (\<lambda>x. truthy (dt_miniBlockHash x)) txs))
      in if miniBlockHashes = [] then io_return txs
         else io_bind (ve_miniBlocks env miniBlockHashes) (\<lambda>miniBlocks.
           let blockHashes = filter (\<lambda>x. x \<noteq> []) (xg_distinct env
                 (map (\<lambda>(h, sender, receiver). sender) miniBlocks @ map (\<lambda>(h, sender, receiver). receiver) miniBlocks))
           in io_bind (ve_blocks env blockHashes) (\<lambda>blocks.
             io_return (map (add_block_info miniBlocks blocks) txs))))"

section \<open>Results, operations and logs\<close>

record query_options =
  qo_withScResults :: bool
  qo_withOperations :: bool
  qo_withLogs :: bool
  qo_withScResultLogs :: bool
  qo_withScamInfo :: "bool option"
  qo_withUsername :: "bool option"
  qo_withBlockInfo :: "bool option"
  qo_withActionTransferValue :: "bool option"
  qo_withTxsOrder :: "bool option"

text \<open>\<open>TransactionQueryOptions.applyDefaultOptions\<close>.\<close>

definition applyDefaultOptions :: "int \<Rightarrow> query_options \<Rightarrow> query_options res" where
  "applyDefaultOptions amount options =
     (let options = (if amount \<le> 50 then options\<lparr>qo_withScamInfo := Some True\<rparr> else options)
      in if qo_withUsername options = Some True \<and> amount > 50
         then Inl (HttpError (Some ([CHR 0x27] @ ''withUsername'' @ [CHR 0x27] @ '' flag can only be activated for a maximum size of 50'')))
         else if qo_withActionTransferValue options = Some True \<and> amount > 50
         then Inl (HttpError (Some ([CHR 0x27] @ ''withActionTransferValue'' @ [CHR 0x27]
                @ '' flag can only be activated for a maximum size of 50'')))
         else Inr options)"

definition attach_own_log :: "transaction_log list \<Rightarrow> detailed_tx \<Rightarrow> detailed_tx" where
  "attach_own_log logs tx = fold (\<lambda>log tx. if tl_id log = Some (dt_txHash tx) then tx\<lparr>dt_logs := Some log\<rparr> else tx) logs tx"

definition attach_result_logs :: "transaction_log list \<Rightarrow> detailed_tx \<Rightarrow> detailed_tx" where
  "attach_result_logs logs tx = fold (\<lambda>log tx. if tl_id log \<noteq> Some (dt_txHash tx)
     then tx\<lparr>dt_results := map_option (attach_to_result log) (dt_results tx)\<rparr> else tx) logs tx"

definition transaction_logs_of :: "transaction_log list \<Rightarrow> string list \<Rightarrow> transaction_log list" where
  "transaction_logs_of logs hashes = filter (\<lambda>log. coalesce (tl_id log) [] \<in> set hashes) logs"

definition detail_transaction ::
  "('s, 'z) transactions_env_scheme \<Rightarrow> query_options \<Rightarrow> tx_result list \<Rightarrow> transaction_log list \<Rightarrow> detailed_tx \<Rightarrow> ('s, detailed_tx) io" where
  "detail_transaction env options scResults logs tx =
     (let own = filter (\<lambda>r. tr_originalTxHash r = dt_txHash tx) scResults;
          tx = (if qo_withScResults options then tx\<lparr>dt_results := Some own\<rparr> else tx)
      in io_bind (if qo_withOperations options then
            io_bind (getOperationsForTransaction (xg_tokens env) (map_option (map sc_result.truncate) (dt_results tx))
                (transaction_logs_of logs (dt_txHash tx # map sc_hash own)) (dt_sender tx)) (\<lambda>operations.
              io_return (tx\<lparr>dt_operations := trimOperations (xg_sorted env) (dt_sender tx) operations (previous_hashes own)\<rparr>))
          else io_return tx) (\<lambda>tx.
         let tx = (if qo_withLogs options then attach_own_log logs tx else tx)
         in io_return (if qo_withScResultLogs options then attach_result_logs logs tx else tx)))"

definition getExtraDetailsForTransactions ::
  "('s, 'z) transactions_env_scheme \<Rightarrow> json list \<Rightarrow> detailed_tx list \<Rightarrow> query_options \<Rightarrow> ('s, detailed_tx list) io" where
  "getExtraDetailsForTransactions env elasticTransactions txs options =
     io_bind (ve_scResultsForTransactions env elasticTransactions) (\<lambda>scResults.
     io_bind (getTransactionLogsFromElastic (tx_get_env.truncate env) (map dt_txHash txs @ map sc_hash scResults)) (\<lambda>logs.
     io_bind (io_mapM (detail_transaction env options scResults logs) txs) (\<lambda>detailed.
       applyNftNameOnTransactionOperations (tx_get_env.truncate env) detailed)))"

text \<open>The map from transactions to their results, filled in the order of the results.\<close>

definition results_by_hash :: "tx_result list \<Rightarrow> (string \<times> tx_result list) list" where
  "results_by_hash results = fold (\<lambda>r groups.
     let groups = (if map_of groups (tr_originalTxHash r) = None then groups @ [(tr_originalTxHash r, [])] else groups)
     in map (\<lambda>(h, g). if h = tr_originalTxHash r then (h, g @ [r]) else (h, g)) groups) results []"

definition getSmartContractResultsRaw :: "('s, 'z) transactions_env_scheme \<Rightarrow> string list \<Rightarrow> ('s, tx_result list option list) io" where
  "getSmartContractResultsRaw env transactionHashes =
     io_bind (ve_scResults env transactionHashes) (\<lambda>resultsRaw.
       io_return (map (\<lambda>h. case map_of (results_by_hash resultsRaw) h of
            None \<Rightarrow> None | Some [] \<Rightarrow> None | Some rs \<Rightarrow> Some rs) transactionHashes))"

definition getLogs :: "('s, 'z) transactions_env_scheme \<Rightarrow> string list \<Rightarrow> ('s, transaction_log option list) io" where
  "getLogs env hashes =
     io_bind (getTransactionLogsFromElastic (tx_get_env.truncate env) hashes) (\<lambda>logsRaw.
       io_return (map (\<lambda>h. nth_opt (filter (\<lambda>log. tl_id log = Some h) logsRaw) 0) hashes))"

section \<open>Transactions\<close>

definition missing_hashes :: "string list \<Rightarrow> json list \<Rightarrow> string list" where
  "missing_hashes txHashes elasticTransactions =
     filter (\<lambda>h. JStr h \<notin> set (map (\<lambda>tx. json_opt tx ''txHash'') elasticTransactions)) txHashes"

definition wants_block_info :: "bool option \<Rightarrow> string list option \<Rightarrow> bool" where
  "wants_block_info flag columns \<longleftrightarrow> flag = Some True \<or> (\<exists>c \<in> set (coalesce columns []).
     c \<in> {''senderBlockHash'', ''receiverBlockHash'', ''senderBlockNonce'', ''receiverBlockNonce''})"

definition getTransactionsPage ::
  "('s, 'z) transactions_env_scheme \<Rightarrow> transaction_filter \<Rightarrow> pagination \<Rightarrow> query_options option \<Rightarrow> string option
   \<Rightarrow> string list option \<Rightarrow> ('s, detailed_tx list) io" where
  "getTransactionsPage env f p options address columns =
     io_bind (ve_transactions env f p address) (\<lambda>elasticTransactions.
     let txs = map (ve_copy env) elasticTransactions in
     io_bind (case tf_hashes f of
          None \<Rightarrow> io_return txs
        | Some hashes \<Rightarrow>
            io_bind (io_mapM (tryGetTransactionFromGatewayForList (gateway_env.truncate env))
                (missing_hashes hashes elasticTransactions)) (\<lambda>found.
              io_return (txs @ concat (map (\<lambda>tx. case tx of None \<Rightarrow> [] | Some t \<Rightarrow> [t]) found)))) (\<lambda>txs.
     io_bind (if wants_block_info (Option.bind options qo_withBlockInfo) columns then applyBlockInfo env txs else io_return txs) (\<lambda>txs.
     io_bind (case options of
          None \<Rightarrow> io_return txs
        | Some q \<Rightarrow>
            if qo_withScResults q \<or> qo_withOperations q \<or> qo_withLogs q
            then getExtraDetailsForTransactions env elasticTransactions txs (q\<lparr>qo_withScResultLogs := qo_withLogs q\<rparr>)
            else io_return txs) (\<lambda>txs.
     processTransactions env (coalesce (Option.bind options qo_withScamInfo) False)
       (coalesce (Option.bind options qo_withUsername) False) (coalesce (Option.bind options qo_withActionTransferValue) False)
       (map (\<lambda>tx. tx\<lparr>dt_type := None, dt_relayedVersion := extractRelayedVersion env tx\<rparr>) txs)))))"

text \<open>A transaction with an event \<open>completedTxEvent\<close> in the log of a result is not pending.\<close>

definition clear_completed :: "detailed_tx \<Rightarrow> detailed_tx" where
  "clear_completed tx =
     (if dt_pendingResults tx = Some True
         \<and> (\<exists>r \<in> set (coalesce (dt_results tx) []). \<exists>e \<in> set (case tr_logs r of None \<Rightarrow> [] | Some log \<Rightarrow> tl_events log).
              le_identifier e = ''completedTxEvent'')
      then tx\<lparr>dt_pendingResults := None\<rparr> else tx)"

definition getTransactionDetails ::
  "('s, 'z) transactions_env_scheme \<Rightarrow> string \<Rightarrow> string list option \<Rightarrow> bool \<Rightarrow> ('s, detailed_tx option) io" where
  "getTransactionDetails env txHash columns withActionTransferValue =
     io_bind (tryGetTransactionFromElastic (tx_get_env.truncate env) txHash columns) (\<lambda>found.
     io_bind (if found = None then tryGetTransactionFromGateway (gateway_env.truncate env) txHash True else io_return found) (\<lambda>found.
       case found of
         None \<Rightarrow> io_return None
       | Some tx \<Rightarrow>
           io_bind (io_catch (ve_price env tx) (\<lambda>_. io_return None)) (\<lambda>price.
           io_bind (processTransactions env True True withActionTransferValue
               [tx\<lparr>dt_price := price, dt_relayedVersion := extractRelayedVersion env tx\<rparr>]) (\<lambda>txs.
             io_return (map_option clear_completed (nth_opt txs 0))))))"

section \<open>Transfers\<close>

text \<open>A transfer of the index: the fields that order it, and its document.\<close>

record transfer_doc =
  td_txHash :: "string option"
  td_originalTxHash :: "string option"
  td_nonce :: int
  td_timestamp :: int
  td_order :: "int option"
  td_document :: json

record mini_block_details =
  mb_mbIndex :: int
  mb_executionOrderTxsIndices :: "int list option"
  mb_txsHashes :: "string list option"

record transfer_block =
  tb_miniBlocksHashes :: "string list option"
  tb_miniBlocksDetails :: "mini_block_details list option"

text \<open>
  \<open>we_sortedDescending\<close> is the order of the array extension by two numbers, the largest first; a key
  \<open>None\<close> is not a number.
\<close>

record 's transfers_env = "'s transactions_env" +
  we_transfers :: "transaction_filter \<Rightarrow> pagination \<Rightarrow> ('s, transfer_doc list) io"
  we_block :: "string \<Rightarrow> ('s, transfer_block option) io"
  we_sortedDescending :: "(transfer_doc \<Rightarrow> int option) \<Rightarrow> (transfer_doc \<Rightarrow> int option) \<Rightarrow> transfer_doc list \<Rightarrow> transfer_doc list"

text \<open>The last transfer with a hash.\<close>

definition transfer_of_hash :: "transfer_doc list \<Rightarrow> string \<Rightarrow> transfer_doc option" where
  "transfer_of_hash transfers h = map_of (rev (map (\<lambda>t. (the (td_txHash t), t)) (filter (\<lambda>t. truthy (td_txHash t)) transfers))) h"

definition nonce_order :: "transfer_doc list \<Rightarrow> transfer_doc \<Rightarrow> int" where
  "nonce_order transfers t =
     (if truthy (td_originalTxHash t) then
        (case transfer_of_hash transfers (the (td_originalTxHash t)) of
           None \<Rightarrow> 0 | Some transaction \<Rightarrow> td_nonce transaction * 10 + 1)
      else td_nonce t * 10)"

definition sortElasticTransfers :: "('s, 'z) transfers_env_scheme \<Rightarrow> transfer_doc list \<Rightarrow> transfer_doc list" where
  "sortElasticTransfers env transfers =
     we_sortedDescending env (\<lambda>t. Some (td_timestamp t)) td_order
       (map (\<lambda>t. t\<lparr>td_order := Some (nonce_order transfers t)\<rparr>) transfers)"

text \<open>The places of the transactions of a mini block in the order of execution; a place may be missing.\<close>

definition execution_orders :: "string list \<Rightarrow> int list \<Rightarrow> (string \<rightharpoonup> int option)" where
  "execution_orders txsHashes indices = map_of (rev (map (\<lambda>i. (txsHashes ! i, nth_opt indices i)) [0..<length txsHashes]))"

definition execution_order :: "transfer_doc list \<Rightarrow> (string \<rightharpoonup> int option) \<Rightarrow> transfer_doc \<Rightarrow> int option" where
  "execution_order transfers orders t =
     (case orders (if truthy (td_originalTxHash t) then the (td_originalTxHash t) else coalesce (td_txHash t) ''undefined'') of
        Some n \<Rightarrow> n | None \<Rightarrow> Some (nonce_order transfers t))"

definition details_of_mini_block :: "transfer_block \<Rightarrow> string \<Rightarrow> mini_block_details option" where
  "details_of_mini_block block miniBlockHash =
     Option.bind (tb_miniBlocksDetails block) (List.find (\<lambda>mb.
       case tb_miniBlocksHashes block of
         None \<Rightarrow> False
       | Some hashes \<Rightarrow> js_indexOf hashes miniBlockHash \<noteq> - 1 \<and> mb_mbIndex mb = js_indexOf hashes miniBlockHash))"

definition sortElasticTransfersByTxsOrder ::
  "('s, 'z) transfers_env_scheme \<Rightarrow> transfer_doc list \<Rightarrow> string \<Rightarrow> ('s, transfer_doc list) io" where
  "sortElasticTransfersByTxsOrder env transfers miniBlockHash =
     (if miniBlockHash = [] then io_return (sortElasticTransfers env transfers)
      else io_catch
        (io_bind (we_block env miniBlockHash) (\<lambda>block. io_return
          (case Option.bind block (\<lambda>b. details_of_mini_block b miniBlockHash) of
             None \<Rightarrow> sortElasticTransfers env transfers
           | Some mb \<Rightarrow>
               (case (mb_executionOrderTxsIndices mb, mb_txsHashes mb) of
                  (Some indices, Some txsHashes) \<Rightarrow>
                    we_sortedDescending env (\<lambda>t. map_option uminus (td_order t)) (\<lambda>t. Some (td_timestamp t))
                      (map (\<lambda>t. t\<lparr>td_order := execution_order transfers (execution_orders txsHashes indices) t\<rparr>) transfers)
                | _ \<Rightarrow> sortElasticTransfers env transfers))))
        (\<lambda>_. io_return (sortElasticTransfers env transfers)))"

text \<open>The copy of a transfer into a transaction; the fields that a result does not have are deleted.\<close>

definition transfer_transaction :: "('s, 'z) transfers_env_scheme \<Rightarrow> transfer_doc \<Rightarrow> detailed_tx" where
  "transfer_transaction env t =
     (let doc = td_document t; tx = ve_copy env doc;
          normal = (json_opt doc ''type'' = JStr ''normal'');
          text_of = (\<lambda>v. case v of JStr s \<Rightarrow> Some s | _ \<Rightarrow> None);
          tx = tx\<lparr>dt_type := Some (if normal then TxType_Transaction else TxType_SmartContractResult)\<rparr>;
          tx = (if json_truthy (json_opt doc ''relayer'')
                then tx\<lparr>dt_relayer := text_of (json_opt doc ''relayer''), dt_isRelayed := Some True\<rparr>
                else tx\<lparr>dt_relayer := text_of (json_opt doc ''relayerAddr'')\<rparr>)
      in if normal then tx
         else tx\<lparr>dt_gasLimit := None, dt_gasPrice := None, dt_gasUsed := None, dt_nonce := None, dt_round := None\<rparr>)"

definition getTransfers_page ::
  "('s, 'z) transfers_env_scheme \<Rightarrow> transaction_filter \<Rightarrow> pagination \<Rightarrow> query_options \<Rightarrow> string list option \<Rightarrow> ('s, detailed_tx list) io" where
  "getTransfers_page env f p options columns =
     io_bind (we_transfers env f p) (\<lambda>operations.
     io_bind (if qo_withTxsOrder options = Some True \<and> truthy (tf_miniBlockHash f)
         then sortElasticTransfersByTxsOrder env operations (the (tf_miniBlockHash f))
         else io_return (sortElasticTransfers env operations)) (\<lambda>operations.
     let txs = map (transfer_transaction env) operations in
     io_bind (if wants_block_info (qo_withBlockInfo options) columns
         then applyBlockInfo env txs else io_return txs) (\<lambda>txs.
     io_bind (if qo_withOperations options \<or> qo_withLogs options
         then getExtraDetailsForTransactions env (map td_document operations) txs
                (options\<lparr>qo_withScResultLogs := qo_withLogs options\<rparr>)
         else io_return txs) (\<lambda>txs.
     processTransactions env (coalesce (qo_withScamInfo options) False) (coalesce (qo_withUsername options) False)
       (coalesce (qo_withActionTransferValue options) False) txs))))"

section \<open>Properties\<close>

lemma results_by_hash_groups:
  "results_by_hash results = map (\<lambda>h. (h, filter (\<lambda>r. tr_originalTxHash r = h) results)) (keys_in_order (map tr_originalTxHash results))"
  unfolding results_by_hash_def
proof (induction results rule: rev_induct)
  case (snoc r results)
  show ?case
  proof (cases "tr_originalTxHash r \<in> tr_originalTxHash ` set results")
    case True
    with snoc show ?thesis by (auto simp: map_of_groups keys_in_order_snoc Let_def)
  next
    case False
    then have new: "\<And>x. x \<in> set results \<Longrightarrow> tr_originalTxHash x \<noteq> tr_originalTxHash r" by (metis imageI)
    then have "filter (\<lambda>x. tr_originalTxHash x = tr_originalTxHash r) results = []" by (simp add: filter_empty_conv)
    with False snoc show ?thesis by (auto dest: new simp: map_of_groups keys_in_order_snoc Let_def)
  qed
qed simp

text \<open>
  The results of transactions: they are fetched once for all the transactions and put into a map, and
  each transaction gets exactly those that name it, in their order, or none when there are none.
\<close>

theorem results_per_transaction:
  assumes "ve_scResults env hashes s = (Inr results, t)"
  shows "getSmartContractResultsRaw env hashes s
     = (Inr (map (\<lambda>h. let own = filter (\<lambda>r. tr_originalTxHash r = h) results in if own = [] then None else Some own) hashes), t)"
proof -
  have "(case map_of (results_by_hash results) h of None \<Rightarrow> None | Some [] \<Rightarrow> None | Some rs \<Rightarrow> Some rs)
      = (let own = filter (\<lambda>r. tr_originalTxHash r = h) results in if own = [] then None else Some own)" for h
    by (auto simp: results_by_hash_groups map_of_groups Let_def filter_empty_conv split: list.splits)
  with assms show ?thesis by (simp add: getSmartContractResultsRaw_def io_simps)
qed

lemma no_address_only: "tf_senders f \<noteq> None \<Longrightarrow> \<not> isTransactionCountQueryWithAddressOnly f address"
  by (auto simp: isTransactionCountQueryWithAddressOnly_def JSON_stringify_empty_iff filter_json_def strings_json_def)

text \<open>The text of an object starts with its first member that has a value.\<close>

lemma json_text_first_member:
  assumes "v \<noteq> JUndefined"
  shows "\<exists>rest. JSON_stringify (JObj ((k, v) # ms)) = ''{'' @ quote k @ '':'' @ rest"
  using assms by (cases "filter (\<lambda>(k, v). v \<noteq> JUndefined) ms") (auto simp: JSON_stringify_def)

lemma no_sender_and_receiver: "tf_senders f \<noteq> None \<Longrightarrow> \<not> isTransactionCountQueryWithSenderAndReceiver f"
proof
  assume senders: "tf_senders f \<noteq> None" and quick: "isTransactionCountQueryWithSenderAndReceiver f"
  from senders have "opt_json strings_json (tf_senders f) \<noteq> JUndefined" by (auto simp: strings_json_def)
  from json_text_first_member [OF this] obtain rest where own:
    "JSON_stringify (filter_json f) = ''{'' @ quote ''senders'' @ '':'' @ rest"
    unfolding filter_json_def by meson
  obtain rest' where other: "JSON_stringify (JObj [(''sender'', JStr (the (tf_sender f))),
      (''receivers'', strings_json (the (tf_receivers f))), (''condition'', JStr ''should'')])
    = ''{'' @ quote ''sender'' @ '':'' @ rest'"
    using json_text_first_member by (metis json.distinct(7))
  have "quote ''senders'' @ '':'' @ rest \<noteq> quote ''sender'' @ '':'' @ rest'" by (simp add: quote_def)
  with quick own other show False
    by (simp add: isTransactionCountQueryWithSenderAndReceiver_def split: if_splits)
qed

text \<open>
  The quick way to count the transactions of an account is never taken: a filter that the class has
  made has members that the compared filters do not have, or has them in another order, so that the
  texts differ, and the index is asked every time instead of the cache.
\<close>

theorem fast_count_unused:
  assumes "tf_senders f \<noteq> None"
  shows "getTransactionCountOf env f address = ve_count env f address"
  using assms by (simp add: getTransactionCountOf_def no_address_only no_sender_and_receiver)

text \<open>
  An event \<open>completedTxEvent\<close> of a result takes back that the results of a transaction are pending, but
  not the status, which stays \<open>pending\<close>.
\<close>

theorem completed_stays_pending:
  assumes "ve_action env tx withValue s = (Inr action, t)"
    and "getPendingResults env (tx\<lparr>dt_action := action\<rparr>) t = (Inr (Some True), u)"
    and "dt_results tx = Some results" and "r \<in> set results" and "tr_logs r = Some log"
    and "e \<in> set (tl_events log)" and "le_identifier e = ''completedTxEvent''"
  shows "map_prod (map_sum id clear_completed) id (process_transaction env withValue tx s)
    = (Inr (tx\<lparr>dt_action := action, dt_pendingResults := None, dt_status := ''pending''\<rparr>), u)"
proof -
  have completed: "\<exists>r \<in> set results. \<exists>e \<in> set (case tr_logs r of None \<Rightarrow> [] | Some log \<Rightarrow> tl_events log). le_identifier e = ''completedTxEvent''"
    using assms(4-7) by force
  have "process_transaction env withValue tx s
      = (Inr (tx\<lparr>dt_action := action, dt_pendingResults := Some True, dt_status := ''pending''\<rparr>), u)"
    using assms(1,2) by (simp add: process_transaction_def io_simps Let_def)
  with completed assms(3) show ?thesis
    unfolding clear_completed_def by simp
qed

definition documented_sorting_by_two ::
  "((transfer_doc \<Rightarrow> int option) \<Rightarrow> (transfer_doc \<Rightarrow> int option) \<Rightarrow> transfer_doc list \<Rightarrow> transfer_doc list) \<Rightarrow> bool" where
  "documented_sorting_by_two sorting \<longleftrightarrow> (\<forall>first second xs. mset (sorting first second xs) = mset xs
     \<and> ((\<forall>x \<in> set xs. first x \<noteq> None \<and> second x \<noteq> None) \<longrightarrow>
        sorted_wrt (\<lambda>a b. the (first a) > the (first b) \<or> first a = first b \<and> the (second a) \<ge> the (second b))
          (sorting first second xs)))"

lemma sorting_by_two:
  assumes "documented_sorting_by_two sorting" and "\<And>x. x \<in> set xs \<Longrightarrow> first x \<noteq> None" and "\<And>x. x \<in> set xs \<Longrightarrow> second x \<noteq> None"
  shows "sorted_wrt (\<lambda>a b. the (first a) > the (first b) \<or> first a = first b \<and> the (second a) \<ge> the (second b)) (sorting first second xs)"
  using assms unfolding documented_sorting_by_two_def by blast

definition result_before :: "transfer_doc \<Rightarrow> transfer_doc \<Rightarrow> bool" where
  "result_before a b \<longleftrightarrow> td_timestamp a \<ge> td_timestamp b
     \<and> \<not> (td_timestamp a = td_timestamp b \<and> truthy (td_txHash a) \<and> \<not> truthy (td_originalTxHash a)
          \<and> td_originalTxHash b = td_txHash a)"

lemma truthy_iff: "truthy x \<longleftrightarrow> (\<exists>s. x = Some s \<and> s \<noteq> [])"
  by (cases x) simp_all

lemma transfer_of_own_hash:
  assumes "distinct (map td_txHash (filter (\<lambda>t. truthy (td_txHash t)) transfers))"
    and "a \<in> set transfers" and "td_txHash a = Some h" and "h \<noteq> []"
  shows "transfer_of_hash transfers h = Some a"
proof -
  let ?own = "filter (\<lambda>t. truthy (td_txHash t)) transfers"
  have "distinct (map (\<lambda>t. the (td_txHash t)) ?own)"
    using assms(1) by (auto simp: distinct_map inj_on_def truthy_iff)
  then have "distinct (map fst (rev (map (\<lambda>t. (the (td_txHash t), t)) ?own)))"
    by (simp add: rev_map [symmetric] comp_def)
  moreover have "(h, a) \<in> set (rev (map (\<lambda>t. (the (td_txHash t), t)) ?own))"
    using assms(2-4) by (force simp: truthy_iff)
  ultimately show ?thesis unfolding transfer_of_hash_def by (rule map_of_is_SomeI)
qed

text \<open>
  C34. The order of transfers: no transfer is lost, the newest come first, and among those of the same time
  a result stands before the transaction that it comes from.
\<close>

theorem results_before_transactions:
  assumes sorting: "documented_sorting_by_two (we_sortedDescending env)"
    and hashes: "distinct (map td_txHash (filter (\<lambda>t. truthy (td_txHash t)) transfers))"
  shows "mset (sortElasticTransfers env transfers) = image_mset (\<lambda>t. t\<lparr>td_order := Some (nonce_order transfers t)\<rparr>) (mset transfers)
    \<and> sorted_wrt result_before (sortElasticTransfers env transfers)"
proof
  let ?ordered = "map (\<lambda>t. t\<lparr>td_order := Some (nonce_order transfers t)\<rparr>) transfers"
  let ?by = "\<lambda>a b. td_timestamp a > td_timestamp b \<or> td_timestamp a = td_timestamp b \<and> the (td_order a) \<ge> the (td_order b)"
  have permuted: "mset (sortElasticTransfers env transfers) = mset ?ordered"
    using sorting unfolding documented_sorting_by_two_def sortElasticTransfers_def by blast
  from permuted have members: "set (sortElasticTransfers env transfers) = set ?ordered" by (rule mset_eq_setD)
  show "mset (sortElasticTransfers env transfers) = image_mset (\<lambda>t. t\<lparr>td_order := Some (nonce_order transfers t)\<rparr>) (mset transfers)"
    by (simp only: permuted mset_map)
  have "sorted_wrt ?by (sortElasticTransfers env transfers)"
  proof -
    from sorting have "sorted_wrt (\<lambda>a b. the (Some (td_timestamp a)) > the (Some (td_timestamp b))
        \<or> Some (td_timestamp a) = Some (td_timestamp b) \<and> the (td_order a) \<ge> the (td_order b)) (sortElasticTransfers env transfers)"
      unfolding sortElasticTransfers_def by (rule sorting_by_two [where first = "\<lambda>t. Some (td_timestamp t)" and second = td_order]) auto
    then show ?thesis by simp
  qed
  then show "sorted_wrt result_before (sortElasticTransfers env transfers)"
  proof (rule sorted_wrt_mono_rel [rotated])
    fix a b
    assume "a \<in> set (sortElasticTransfers env transfers)" and "b \<in> set (sortElasticTransfers env transfers)" and ordering: "?by a b"
    then obtain a' b' where a: "a' \<in> set transfers" "a = a'\<lparr>td_order := Some (nonce_order transfers a')\<rparr>"
      and b: "b' \<in> set transfers" "b = b'\<lparr>td_order := Some (nonce_order transfers b')\<rparr>"
      unfolding members by auto
    have "\<not> (truthy (td_txHash a) \<and> \<not> truthy (td_originalTxHash a) \<and> td_originalTxHash b = td_txHash a)"
      if "td_timestamp a = td_timestamp b"
    proof
      assume own: "truthy (td_txHash a) \<and> \<not> truthy (td_originalTxHash a) \<and> td_originalTxHash b = td_txHash a"
      then obtain h where h: "td_txHash a' = Some h" "h \<noteq> []" using a(2) by (auto simp: truthy_iff)
      from transfer_of_own_hash [OF hashes a(1) h] own h a(2) b(2)
      have "the (td_order a) = td_nonce a' * 10" and "the (td_order b) = td_nonce a' * 10 + 1"
        by (auto simp: nonce_order_def)
      with ordering that show False by simp
    qed
    with ordering show "result_before a b" by (auto simp: result_before_def)
  qed
qed

section \<open>Witnesses\<close>

definition new_detailed_tx :: "string \<Rightarrow> detailed_tx" where
  "new_detailed_tx h = \<lparr>dt_txHash = h, dt_sender = [], dt_receiver = [], dt_data = None, dt_status = ''success'',
     dt_timestamp = 0, dt_timestampMs = 0, dt_nonce = None, dt_gasLimit = None, dt_gasPrice = None, dt_gasUsed = None,
     dt_round = None, dt_miniBlockHash = None, dt_type = None, dt_isRelayed = None, dt_relayer = None,
     dt_relayedVersion = None, dt_pendingResults = None, dt_action = JUndefined, dt_senderAssets = JUndefined,
     dt_receiverAssets = JUndefined, dt_senderUsername = [], dt_receiverUsername = [], dt_price = None, dt_results = None,
     dt_receipt = JUndefined, dt_logs = None, dt_operations = [], dt_senderBlockHash = None, dt_senderBlockNonce = None,
     dt_receiverBlockHash = None, dt_receiverBlockNonce = None\<rparr>"

definition sample_result :: "string \<Rightarrow> string \<Rightarrow> tx_result" where
  "sample_result h original = \<lparr>sc_hash = h, sc_nonce = 0, sc_value = None, sc_sender = [], sc_receiver = [],
     tr_prevTxHash = original, tr_originalTxHash = original,
     tr_logs = Some \<lparr>tl_id = Some h, tl_address = [], tl_events = [\<lparr>le_address = [], le_identifier = ''completedTxEvent'',
       le_topics = [], le_data = [], le_additionalData = None\<rparr>]\<rparr>,
     tr_senderAssets = JUndefined, tr_receiverAssets = JUndefined\<rparr>"

definition sample_transactions_env :: "unit transfers_env" where
  "sample_transactions_env = \<lparr>xg_tokens = sample_tokens, xg_getTransaction = \<lambda>_. io_return None,
     xg_getScResults = \<lambda>_. io_return [], xg_getReceipts = \<lambda>_. io_return [], xg_migratedIndices = None,
     xg_getLogs = \<lambda>_. io_return [], xg_getEvents = \<lambda>_. io_return [],
     xg_copyEvent = \<lambda>hit _ _ _. \<lparr>le_address = eh_address hit, le_identifier = eh_identifier hit, le_topics = [], le_data = [], le_additionalData = None\<rparr>,
     xg_getNfts = \<lambda>_. io_return [], xg_hexToBase64 = id, xg_numberToHex = int_str, xg_base64Encode = id, xg_base64Decode = id,
     xg_md5 = id, xg_distinct = remdups, xg_sorted = sort_key,
     yg_getTransaction = \<lambda>_. io_return None, yg_getBySenderAndNonce = \<lambda>_ _. io_return [], yg_copy = \<lambda>h _ _ _ _. new_detailed_tx h,
     ve_consts = \<lparr>oneSecond = 1, oneMinute = 60, oneHour = 3600, oneDay = 86400, oneWeek = 604800\<rparr>,
     ve_getOrSet = \<lambda>_ producer _ _. producer, ve_countForAddress = \<lambda>_. io_return 5, ve_count = \<lambda>_ _. io_return 7,
     ve_transactions = \<lambda>_ _ _. io_return [], ve_copy = \<lambda>_. new_detailed_tx ''a'', ve_scResultsForTransactions = \<lambda>_. io_return [],
     ve_scResults = \<lambda>_. io_return [sample_result ''r1'' ''a'', sample_result ''r2'' ''b'', sample_result ''r3'' ''a''],
     ve_miniBlocks = \<lambda>_. io_return [], ve_blocks = \<lambda>_. io_return [], ve_pluginProcess = \<lambda>txs _. io_return txs,
     ve_action = \<lambda>_ _. io_return JUndefined, ve_cacheGet = \<lambda>_. io_return (Some ''1''), ve_now = \<lambda>_. 0,
     ve_price = \<lambda>_. io_return None, ve_accountAssets = io_return Map.empty, ve_usernames = \<lambda>_. io_return Map.empty,
     ve_maiarIdUrl = None, ve_isSmartContractAddress = \<lambda>_. False,
     we_transfers = \<lambda>_ _. io_return [], we_block = \<lambda>_. io_return None,
     we_sortedDescending = \<lambda>first second. sort_key (\<lambda>x. (- the (first x), - the (second x)))\<rparr>"

theorem results_per_transaction_witness:
  "getSmartContractResultsRaw sample_transactions_env [''a'', ''c''] ()
    = (Inr [Some [sample_result ''r1'' ''a'', sample_result ''r3'' ''a''], None], ())"
proof -
  have "ve_scResults sample_transactions_env [''a'', ''c''] ()
      = (Inr [sample_result ''r1'' ''a'', sample_result ''r2'' ''b'', sample_result ''r3'' ''a''], ())"
    by (simp add: sample_transactions_env_def io_return_def)
  from results_per_transaction [OF this] show ?thesis by (simp add: sample_result_def)
qed

theorem fast_count_unused_witness:
  "getTransactionCountOf sample_transactions_env new_transaction_filter (Some ''erd1x'') () = (Inr 7, ())"
proof -
  have "tf_senders new_transaction_filter \<noteq> None" by (simp add: new_transaction_filter_def)
  then have "getTransactionCountOf sample_transactions_env new_transaction_filter (Some ''erd1x'')
      = ve_count sample_transactions_env new_transaction_filter (Some ''erd1x'')"
    by (rule fast_count_unused)
  moreover have "ve_count sample_transactions_env new_transaction_filter (Some ''erd1x'') () = (Inr 7, ())"
    by (simp add: sample_transactions_env_def io_return_def)
  ultimately show ?thesis by (simp only:)
qed

theorem completed_stays_pending_witness:
  "map_prod (map_sum id clear_completed) id (process_transaction sample_transactions_env False
      ((new_detailed_tx ''a'')\<lparr>dt_results := Some [sample_result ''r1'' ''a'']\<rparr>) ())
    = (Inr ((new_detailed_tx ''a'')\<lparr>dt_results := Some [sample_result ''r1'' ''a''], dt_action := JUndefined,
        dt_pendingResults := None, dt_status := ''pending''\<rparr>), ())"
proof (rule completed_stays_pending)
  show "ve_action sample_transactions_env ((new_detailed_tx ''a'')\<lparr>dt_results := Some [sample_result ''r1'' ''a'']\<rparr>) False ()
      = (Inr JUndefined, ())"
    by (simp add: sample_transactions_env_def io_return_def)
  show "getPendingResults sample_transactions_env
      ((new_detailed_tx ''a'')\<lparr>dt_results := Some [sample_result ''r1'' ''a''], dt_action := JUndefined\<rparr>) () = (Inr (Some True), ())"
    by (simp add: sample_transactions_env_def getPendingResults_def new_detailed_tx_def io_simps)
qed (auto simp: new_detailed_tx_def sample_result_def)

lemma sample_sorting: "documented_sorting_by_two (we_sortedDescending sample_transactions_env)"
  unfolding documented_sorting_by_two_def
proof (intro allI conjI impI)
  fix first second :: "transfer_doc \<Rightarrow> int option" and xs
  let ?key = "\<lambda>x. (- the (first x), - the (second x))"
  show "mset (we_sortedDescending sample_transactions_env first second xs) = mset xs"
    by (simp add: sample_transactions_env_def)
  assume keys: "\<forall>x \<in> set xs. first x \<noteq> None \<and> second x \<noteq> None"
  have "sorted_wrt (\<lambda>a b. ?key a \<le> ?key b) (sort_key ?key xs)"
    using sorted_sort_key [of ?key xs] by (simp add: sorted_map)
  then show "sorted_wrt (\<lambda>a b. the (first a) > the (first b) \<or> first a = first b \<and> the (second a) \<ge> the (second b))
      (we_sortedDescending sample_transactions_env first second xs)"
    unfolding sample_transactions_env_def transfers_env.simps
  proof (rule sorted_wrt_mono_rel [rotated])
    fix x y
    assume "x \<in> set (sort_key ?key xs)" and "y \<in> set (sort_key ?key xs)" and le: "?key x \<le> ?key y"
    then have "x \<in> set xs" and "y \<in> set xs" by (simp_all only: set_sort)
    with keys have "first x \<noteq> None" and "first y \<noteq> None" by blast+
    then obtain a b where "first x = Some a" and "first y = Some b" by blast
    with le show "the (first x) > the (first y) \<or> first x = first y \<and> the (second x) \<ge> the (second y)" by auto
  qed
qed

definition sample_transfers :: "transfer_doc list" where
  "sample_transfers = [\<lparr>td_txHash = Some ''a'', td_originalTxHash = None, td_nonce = 3, td_timestamp = 9, td_order = None, td_document = JObj []\<rparr>,
     \<lparr>td_txHash = Some ''r'', td_originalTxHash = Some ''a'', td_nonce = 0, td_timestamp = 9, td_order = None, td_document = JObj []\<rparr>]"

theorem results_before_transactions_witness:
  "sorted_wrt result_before (sortElasticTransfers sample_transactions_env sample_transfers)"
proof -
  have "distinct (map td_txHash (filter (\<lambda>t. truthy (td_txHash t)) sample_transfers))" by (simp add: sample_transfers_def)
  from results_before_transactions [OF sample_sorting this] show ?thesis by simp
qed

end
