(* ===== verification/Identities.thy ===== *)
theory Identities imports Stake "HOL-Library.AList" Complex_Main begin

text \<open>
  The identities of validators (\<open>src/endpoints/identities/identities.service.ts\<close>): the nodes of every
  identity, its stake, how the stake is spread over the providers, its yearly return and its rank.

  A number with two decimals is counted in hundredths. A number of the library of decimal numbers is a
  rational; its division, which rounds, is a parameter.
\<close>

section \<open>Data\<close>

record keybase_identity =
  ki_identity :: string
  ki_name :: string
  ki_description :: "string option"
  ki_avatar :: "string option"
  ki_twitter :: "string option"
  ki_website :: "string option"
  ki_location :: "string option"

record identity_detailed = keybase_identity +
  kd_nodes :: "node list option"

text \<open>A share of the distribution may be \<open>null\<close>; \<open>si_sort\<close> is \<open>None\<close> when it is not a number.\<close>

record stake_info =
  si_score :: js_float
  si_stake :: string
  si_topUp :: string
  si_locked :: string
  si_stakePercent :: int
  si_providers :: "string list"
  si_distribution :: "(string \<times> int option) list"
  si_validators :: nat
  si_queued :: nat
  si_auctioned :: nat
  si_sort :: "int option"

record identity =
  id_identity :: "string option"
  id_name :: "string option"
  id_description :: "string option"
  id_avatar :: "string option"
  id_website :: "string option"
  id_twitter :: "string option"
  id_location :: "string option"
  id_score :: "js_float option"
  id_validators :: "nat option"
  id_stake :: "string option"
  id_topUp :: "string option"
  id_locked :: string
  id_distribution :: "(string \<times> int option) list"
  id_providers :: "string list option"
  id_stakePercent :: "int option"
  id_rank :: "nat option"
  id_apr :: "js_float option"

definition new_identity :: identity where
  "new_identity = \<lparr>id_identity = Some [], id_name = None, id_description = None, id_avatar = None, id_website = None,
     id_twitter = None, id_location = None, id_score = None, id_validators = None, id_stake = None, id_topUp = None,
     id_locked = [], id_distribution = [], id_providers = None, id_stakePercent = None, id_rank = None, id_apr = None\<rparr>"

definition new_identity_detailed :: identity_detailed where
  "new_identity_detailed = \<lparr>ki_identity = [], ki_name = [], ki_description = Some [], ki_avatar = Some [], ki_twitter = Some [],
     ki_website = Some [], ki_location = Some [], kd_nodes = None\<rparr>"

datatype identity_sort = IS_validators | IS_stake | IS_locked

text \<open>
  The services: \<open>ie_BigInt_parseInt\<close> is \<open>BigInt(parseInt(s))\<close>, which goes through a floating point number;
  \<open>ie_sum\<close> and \<open>ie_sortedDescending\<close> are those of the array extension; \<open>ie_div\<close> and \<open>ie_toRounded\<close> those of
  decimal numbers and of numbers.
\<close>

record 's identities_env =
  ie_nodes :: "'s node_env"
  ie_getAllNodes :: "('s, node list) io"
  ie_profiles :: "string \<Rightarrow> ('s, keybase_identity list option) io"
  ie_getApr :: "('s, rat \<times> rat) io"
  ie_getOrSet :: "string \<Rightarrow> ('s, identity list) io \<Rightarrow> int \<Rightarrow> ('s, identity list) io"
  ie_BigInt_parseInt :: "string \<Rightarrow> int"
  ie_sum :: "js_float list \<Rightarrow> js_float"
  ie_sortedDescending :: "(identity \<Rightarrow> nat) \<Rightarrow> identity list \<Rightarrow> identity list"
  ie_div :: "rat \<Rightarrow> rat \<Rightarrow> rat"
  ie_toRounded :: "rat option \<Rightarrow> js_float"

section \<open>Stake of an identity\<close>

text \<open>\<open>BigInt(s ? s : '0')\<close>.\<close>

definition bigint_amount :: "string \<Rightarrow> int res" where
  "bigint_amount s = (if s = [] then Inr 0 else js_BigInt s)"

definition computeTotalStakeAndTopUp :: "node list \<Rightarrow> (string \<times> string \<times> string) res" where
  "computeTotalStakeAndTopUp nodes =
     (let validators = filter (\<lambda>node. nd_type node = Some NT_validator) nodes in
      res_bind (res_map (\<lambda>node. res_bind (bigint_amount (nd_stake node)) (\<lambda>s. res_bind (bigint_amount (nd_topUp node)) (\<lambda>t. Inr (s, t))))
          validators) (\<lambda>amounts.
        let totalStake = sum_list (map fst amounts); totalTopUp = sum_list (map snd amounts)
        in Inr (int_str totalStake, int_str totalTopUp, int_str (totalStake + totalTopUp))))"

text \<open>The object of the shares, in the order in which the providers are first met.\<close>

definition add_share :: "node \<Rightarrow> (string \<times> int) list \<Rightarrow> (string \<times> int) list res" where
  "add_share node shares =
     res_bind (bigint_amount (nd_stake node)) (\<lambda>stake. res_bind (bigint_amount (nd_topUp node)) (\<lambda>topUp.
       let key = (if truthy (nd_provider node) then the (nd_provider node) else ''direct'')
       in Inr (AList.update key (coalesce (map_of shares key) 0 + (stake + topUp)) shares)))"

fun add_shares :: "node list \<Rightarrow> (string \<times> int) list \<Rightarrow> (string \<times> int) list res" where
  "add_shares [] shares = Inr shares"
| "add_shares (node # nodes) shares = res_bind (add_share node shares) (add_shares nodes)"

definition hundredths :: "int \<Rightarrow> int \<Rightarrow> int option" where
  "hundredths locked share = (if locked \<noteq> 0 then Some ((100 * share) sdiv locked) else None)"

text \<open>The first share is what the others leave of one; \<open>null\<close> counts as zero.\<close>

definition complete_first :: "(string \<times> int option) list \<Rightarrow> (string \<times> int option) list" where
  "complete_first distribution =
     (case distribution of
        (first, share) # r # rest \<Rightarrow>
          (first, Some (100 - sum_list (map (\<lambda>(k, v). coalesce v 0) (r # rest)))) # r # rest
      | _ \<Rightarrow> distribution)"

definition getStakeDistributionForIdentity :: "int \<Rightarrow> node list \<Rightarrow> (string \<times> int option) list res" where
  "getStakeDistributionForIdentity locked nodes =
     res_bind (add_shares nodes []) (\<lambda>shares.
       Inr (filter (\<lambda>(key, share). share \<noteq> Some 0)
         (complete_first (map (\<lambda>(key, share). (key, hundredths locked share)) shares))))"

text \<open>\<open>s.slice(0, -18)\<close>: whole units.\<close>

definition whole_units :: "string \<Rightarrow> string" where
  "whole_units s = take (length s - 18) s"

definition validators_of :: "node list \<Rightarrow> node list" where
  "validators_of nodes = filter (\<lambda>x. nd_type x = Some NT_validator) nodes"

definition auctioned_nodes :: "bool \<Rightarrow> node list \<Rightarrow> node list" where
  "auctioned_nodes qualified nodes =
     filter (\<lambda>x. nd_status x = Some ''auction'' \<and> nd_auctionQualified x = Some qualified) (validators_of nodes)"

definition getStakeInfoForIdentity :: "'s identities_env \<Rightarrow> node list \<Rightarrow> int \<Rightarrow> int \<Rightarrow> stake_info res" where
  "getStakeInfoForIdentity env nodes totalLocked currentEpoch =
     res_bind (res_map (\<lambda>x. bigint_amount (nd_stake x)) nodes) (\<lambda>stakes.
     res_bind (res_map (\<lambda>x. bigint_amount (nd_topUp x)) nodes) (\<lambda>topUps.
     let stake = sum_list stakes; topUp = sum_list topUps; locked = stake + topUp;
         isStakingV4ActivationEpoch = (ne_isStakingV4Enabled (ie_nodes env)
           \<and> currentEpoch = ne_stakingV4ActivationEpoch (ie_nodes env))
     in res_bind (getStakeDistributionForIdentity locked nodes) (\<lambda>distribution. Inr
       \<lparr>si_score = ie_sum env (map nd_ratingModifier nodes), si_stake = int_str stake, si_topUp = int_str topUp,
        si_locked = int_str locked, si_stakePercent = (if totalLocked > 0 then (locked * 10000) sdiv totalLocked else 0),
        si_providers = ne_distinct (ie_nodes env) (map the (filter truthy (map nd_provider nodes))),
        si_distribution = distribution,
        si_validators = length (filter (\<lambda>x. nd_status x \<noteq> Some ''inactive'') (validators_of nodes)),
        si_queued = length (filter (\<lambda>x. nd_status x = Some ''queued'') (validators_of nodes)),
        si_auctioned = (if isStakingV4ActivationEpoch then length (auctioned_nodes True nodes) + length (auctioned_nodes False nodes)
                        else length (auctioned_nodes False nodes)),
        si_sort = (if locked \<noteq> 0 then (case js_BigInt (whole_units (int_str locked)) of
                     Inr n \<Rightarrow> if whole_units (int_str locked) = [] then None else Some n | Inl _ \<Rightarrow> None) else Some 0)\<rparr>)))"

section \<open>Yearly return\<close>

text \<open>\<open>new BigNumber(s)\<close> of decimal digits; \<open>None\<close> is not a number, as of the empty text.\<close>

definition BigNumber :: "string \<Rightarrow> rat option" where
  "BigNumber s = (if s = [] then None else case js_BigInt s of Inr n \<Rightarrow> Some (of_int n) | Inl _ \<Rightarrow> None)"

definition times_big :: "rat option \<Rightarrow> rat \<Rightarrow> rat option" where
  "times_big x r = map_option (\<lambda>a. a * r) x"

fun plus_big :: "rat option \<Rightarrow> rat option \<Rightarrow> rat option" where
  "plus_big (Some a) (Some b) = Some (a + b)"
| "plus_big _ _ = None"

text \<open>
  Division by zero gives no number here; it could give infinity, but only without validators, and such
  identities are not shown.
\<close>

fun div_big :: "'s identities_env \<Rightarrow> rat option \<Rightarrow> rat option \<Rightarrow> rat option" where
  "div_big env (Some a) (Some b) = (if b = 0 then None else Some (ie_div env a b))"
| "div_big env _ _ = None"

definition annual_percentage :: "'s identities_env \<Rightarrow> rat \<Rightarrow> rat \<Rightarrow> stake_info \<Rightarrow> js_float" where
  "annual_percentage env baseApr topUpApr info =
     (let stakeReturn = times_big (BigNumber (whole_units (si_stake info))) baseApr;
          topUpReturn = (if si_topUp info \<noteq> ''0'' then times_big (BigNumber (whole_units (si_topUp info))) topUpApr else Some 0);
          annualReturn = div_big env (times_big (plus_big stakeReturn topUpReturn)
              (of_int (int (si_validators info) - int (si_queued info) - int (si_auctioned info))))
            (Some (of_nat (si_validators info)))
      in ie_toRounded env (div_big env (times_big annualReturn 100) (BigNumber (whole_units (si_locked info)))))"

section \<open>All identities\<close>

definition profile_of :: "keybase_identity list option \<Rightarrow> string \<Rightarrow> identity_detailed list" where
  "profile_of profiles identity =
     (case List.find (\<lambda>item. ki_identity item = identity) (coalesce profiles []) of
        None \<Rightarrow> []
      | Some item \<Rightarrow> if ki_identity item \<noteq> [] then [keybase_identity.extend item \<lparr>kd_nodes = None\<rparr>] else [])"

definition keybase_profiles :: "'s identities_env \<Rightarrow> keybase_identity list option \<Rightarrow> node list \<Rightarrow> identity_detailed list" where
  "keybase_profiles env profiles nodes =
     concat (map (profile_of profiles) (ne_distinct (ie_nodes env) (map (\<lambda>x. the (nd_identity x)) (filter (\<lambda>x. truthy (nd_identity x)) nodes))))"

definition add_to_identity :: "node \<Rightarrow> identity_detailed \<Rightarrow> identity_detailed" where
  "add_to_identity node d =
     d\<lparr>kd_nodes := Some (coalesce (kd_nodes d) [] @ [node]),
       ki_name := (if ki_name d = [] then nd_bls node else ki_name d)\<rparr>"

definition group_node :: "node \<Rightarrow> identity_detailed list \<Rightarrow> identity_detailed list" where
  "group_node node details =
     (if truthy (nd_identity node) \<and> (\<exists>d \<in> set details. ki_identity d = the (nd_identity node))
      then update_first (\<lambda>d. ki_identity d = the (nd_identity node)) (add_to_identity node) details
      else details @ [new_identity_detailed\<lparr>ki_name := nd_bls node, kd_nodes := Some [node]\<rparr>])"

definition shown_identity ::
  "'s identities_env \<Rightarrow> rat \<times> rat \<Rightarrow> int \<Rightarrow> int \<Rightarrow> identity_detailed \<Rightarrow> identity res" where
  "shown_identity env aprs totalLocked currentEpoch d =
     (case kd_nodes d of
        Some (node # nodes) \<Rightarrow>
          res_bind (getStakeInfoForIdentity env (node # nodes) totalLocked currentEpoch) (\<lambda>info. Inr
            (new_identity\<lparr>id_identity := Some (ki_identity d), id_avatar := ki_avatar d, id_description := ki_description d,
               id_name := Some (ki_name d), id_website := ki_website d, id_twitter := ki_twitter d, id_location := ki_location d,
               id_score := Some (si_score info), id_validators := Some (si_validators info), id_stake := Some (si_stake info),
               id_topUp := Some (si_topUp info), id_locked := si_locked info, id_distribution := si_distribution info,
               id_providers := Some (si_providers info), id_stakePercent := Some (si_stakePercent info),
               id_apr := Some (annual_percentage env (fst aprs) (snd aprs) info)\<rparr>))
      | _ \<Rightarrow> Inr new_identity)"

definition rank_identities :: "'s identities_env \<Rightarrow> identity list \<Rightarrow> identity list" where
  "rank_identities env identities =
     map2 (\<lambda>index identity. identity\<lparr>id_rank := Some (index + 1)\<rparr>) [0..<length identities]
       (ie_sortedDescending env (\<lambda>i. coalesce (id_validators i) 0)
         (filter (\<lambda>i. coalesce (id_validators i) 0 > 0) identities))"

definition getAllIdentitiesRaw :: "'s identities_env \<Rightarrow> ('s, identity list) io" where
  "getAllIdentitiesRaw env =
     io_bind (ie_getAllNodes env) (\<lambda>nodes.
     io_bind (ie_profiles env (ci_key (CacheInfo_IdentityProfilesKeybases (ne_consts (ie_nodes env))))) (\<lambda>profiles.
     let details = fold group_node nodes (keybase_profiles env profiles nodes) in
     io_bind (io_lift (computeTotalStakeAndTopUp nodes)) (\<lambda>(_, _, totalLocked).
     io_bind (ie_getApr env) (\<lambda>aprs.
     io_bind (ne_getCurrentEpoch (ie_nodes env)) (\<lambda>currentEpoch.
     io_bind (io_lift (res_map (shown_identity env aprs (ie_BigInt_parseInt env totalLocked) currentEpoch) details)) (\<lambda>identities.
       io_return (rank_identities env identities)))))))"

definition getAllIdentities :: "'s identities_env \<Rightarrow> ('s, identity list) io" where
  "getAllIdentities env =
     (let info = CacheInfo_Identities (ne_consts (ie_nodes env))
      in ie_getOrSet env (ci_key info) (getAllIdentitiesRaw env) (ci_ttl info))"

section \<open>Queries\<close>

definition getIdentity :: "'s identities_env \<Rightarrow> string \<Rightarrow> ('s, identity option) io" where
  "getIdentity env identifier =
     io_bind (getAllIdentities env) (\<lambda>identities. io_return (List.find (\<lambda>x. id_identity x = Some identifier) identities))"

definition getIdentityAvatar :: "'s identities_env \<Rightarrow> string \<Rightarrow> ('s, string option) io" where
  "getIdentityAvatar env identifier =
     io_bind (getIdentity env identifier) (\<lambda>identity. io_return (Option.bind identity id_avatar))"

text \<open>\<open>Number(b) - Number(a)\<close>; \<open>None\<close> is not a number.\<close>

definition difference :: "int option \<Rightarrow> int option \<Rightarrow> int option" where
  "difference b a = (case (b, a) of (Some y, Some x) \<Rightarrow> Some (y - x) | _ \<Rightarrow> None)"

definition compare_by :: "'s identities_env \<Rightarrow> identity_sort \<Rightarrow> identity \<Rightarrow> identity \<Rightarrow> int option" where
  "compare_by env criterion a b =
     (case criterion of
        IS_validators \<Rightarrow> Some (int (coalesce (id_validators b) 0) - int (coalesce (id_validators a) 0))
      | IS_stake \<Rightarrow> difference (ne_Number (ie_nodes env) (coalesce (id_stake b) ''0'')) (ne_Number (ie_nodes env) (coalesce (id_stake a) ''0''))
      | IS_locked \<Rightarrow> difference (ne_Number (ie_nodes env) (id_locked b)) (ne_Number (ie_nodes env) (id_locked a)))"

fun compareWithCriteria :: "'s identities_env \<Rightarrow> identity \<Rightarrow> identity \<Rightarrow> identity_sort list \<Rightarrow> int option" where
  "compareWithCriteria env a b [] = Some 0"
| "compareWithCriteria env a b (criterion # criteria) =
     (let comparison = compare_by env criterion a b
      in if comparison = Some 0 \<and> criteria \<noteq> [] then compareWithCriteria env a b criteria else comparison)"

text \<open>A comparison that is not a number counts as equal.\<close>

definition getIdentities ::
  "'s identities_env \<Rightarrow> nat \<Rightarrow> nat \<Rightarrow> string list \<Rightarrow> identity_sort list option \<Rightarrow> ('s, identity list) io" where
  "getIdentities env start amount ids criteria =
     io_bind (getAllIdentities env) (\<lambda>identities.
       let identities = (if ids \<noteq> [] then filter (\<lambda>x. truthy (id_identity x) \<and> the (id_identity x) \<in> set ids) identities else identities);
           identities = (case criteria of
               Some (c # cs) \<Rightarrow> js_sort (\<lambda>a b. coalesce (compareWithCriteria env a b (c # cs)) 0) identities
             | _ \<Rightarrow> identities)
       in io_return (take amount (drop start identities)))"

section \<open>Properties\<close>

lemma update_first_Nil [simp]: "update_first p f [] = []"
  by (simp add: update_first_def)

lemma update_first_Cons [simp]: "update_first p f (x # xs) = (if p x then f x # xs else x # update_first p f xs)"
proof (cases "p x")
  case True
  then show ?thesis by (simp add: update_first_def upt_conv_Cons del: upt_Suc)
next
  case False
  have "filter (\<lambda>i. p ((x # xs) ! i)) [0..<length (x # xs)] = map Suc (filter (\<lambda>i. p (xs ! i)) [0..<length xs])"
    using False by (simp add: upt_conv_Cons map_Suc_upt [symmetric] filter_map comp_def del: upt_Suc)
  with False show ?thesis
    unfolding update_first_def by (auto split: list.splits)
qed

lemma update_first_append: "\<exists>x \<in> set xs. p x \<Longrightarrow> update_first p f (xs @ ys) = update_first p f xs @ ys"
  by (induction xs) auto

definition lone_node :: "node \<Rightarrow> identity_detailed" where
  "lone_node node = new_identity_detailed\<lparr>ki_name := nd_bls node, kd_nodes := Some [node]\<rparr>"

lemma add_to_identity_sel [simp]: "ki_identity (add_to_identity n d) = ki_identity d"
  by (simp add: add_to_identity_def)

lemma fold_add_identity [simp]: "ki_identity (fold add_to_identity ns d) = ki_identity d"
  by (induction ns arbitrary: d) simp_all

lemma fold_add_nodes: "kd_nodes (fold add_to_identity ns d) = (if ns = [] then kd_nodes d else Some (coalesce (kd_nodes d) [] @ ns))"
  by (induction ns arbitrary: d) (auto simp: add_to_identity_def)

definition own_nodes :: "node list \<Rightarrow> identity_detailed \<Rightarrow> node list" where
  "own_nodes nodes d = filter (\<lambda>n. nd_identity n = Some (ki_identity d)) nodes"

lemma group_node_known:
  assumes "nd_identity n = Some k" and "k \<noteq> []" and "\<exists>x \<in> set details. ki_identity x = k"
  shows "group_node n details = update_first (\<lambda>x. ki_identity x = k) (add_to_identity n) details"
  using assms by (simp add: group_node_def)

lemma group_nodes:
  assumes "distinct (map ki_identity ps)" and "[] \<notin> ki_identity ` set ps"
  shows "fold group_node nodes ps = map (\<lambda>d. fold add_to_identity (own_nodes nodes d) d) ps
    @ map lone_node (filter (\<lambda>n. nd_identity n \<notin> Some ` ki_identity ` set ps) nodes)"
proof (induction nodes rule: rev_induct)
  case Nil
  then show ?case by (simp add: own_nodes_def)
next
  case (snoc n nodes)
  let ?grouped = "map (\<lambda>d. fold add_to_identity (own_nodes nodes d) d) ps"
  let ?alone = "map lone_node (filter (\<lambda>n. nd_identity n \<notin> Some ` ki_identity ` set ps) nodes)"
  have lone: "ki_identity (lone_node m) = []" for m by (simp add: lone_node_def new_identity_detailed_def)
  show ?case
  proof (cases "nd_identity n \<in> Some ` ki_identity ` set ps")
    case True
    then obtain d where d: "d \<in> set ps" "nd_identity n = Some (ki_identity d)" by auto
    then have named: "ki_identity d \<noteq> []" using assms(2) by (metis imageI)
    have "map ki_identity ?grouped = map ki_identity ps" by (simp add: comp_def)
    then have unique: "distinct (map ki_identity ?grouped)" by (simp only: assms(1))
    have "update_first (\<lambda>x. ki_identity x = ki_identity d) (add_to_identity n) (?grouped @ ?alone)
        = update_first (\<lambda>x. ki_identity x = ki_identity d) (add_to_identity n) ?grouped @ ?alone"
      by (rule update_first_append) (use d(1) in auto)
    also have "\<dots> = map (\<lambda>x. if ki_identity x = ki_identity d then add_to_identity n x else x) ?grouped @ ?alone"
      by (simp only: update_first_key [OF unique])
    also have "\<dots> = map (\<lambda>x. fold add_to_identity (own_nodes (nodes @ [n]) x) x) ps @ ?alone"
      using d(2) by (auto simp: own_nodes_def)
    finally have step: "update_first (\<lambda>x. ki_identity x = ki_identity d) (add_to_identity n) (?grouped @ ?alone)
        = map (\<lambda>x. fold add_to_identity (own_nodes (nodes @ [n]) x) x) ps @ ?alone" .
    have "fold add_to_identity (own_nodes nodes d) d \<in> set (?grouped @ ?alone)" using d(1) by simp
    then have "\<exists>x \<in> set (?grouped @ ?alone). ki_identity x = ki_identity d" by (rule rev_bexI) simp
    then have "group_node n (?grouped @ ?alone) = update_first (\<lambda>x. ki_identity x = ki_identity d) (add_to_identity n) (?grouped @ ?alone)"
      by (rule group_node_known [OF d(2) named])
    with step True snoc show ?thesis by simp
  next
    case False
    then have "group_node n (?grouped @ ?alone) = (?grouped @ ?alone) @ [lone_node n]"
      by (cases "nd_identity n") (auto simp: group_node_def lone lone_node_def new_identity_detailed_def)
    with False snoc show ?thesis by (auto simp: own_nodes_def)
  qed
qed

text \<open>
  How the nodes are grouped: every identity with a profile gets exactly the nodes that name it, in their
  order, and every other node, also one whose identity has no profile, stands alone.
\<close>

theorem nodes_of_identities:
  assumes "distinct (map ki_identity ps)" and "[] \<notin> ki_identity ` set ps" and "\<forall>d \<in> set ps. kd_nodes d = None"
  shows "map (\<lambda>d. coalesce (kd_nodes d) []) (fold group_node nodes ps)
    = map (\<lambda>d. filter (\<lambda>n. nd_identity n = Some (ki_identity d)) nodes) ps
      @ map (\<lambda>n. [n]) (filter (\<lambda>n. nd_identity n \<notin> Some ` ki_identity ` set ps) nodes)"
  using assms(3) by (auto simp: group_nodes [OF assms(1,2)] fold_add_nodes own_nodes_def lone_node_def)

lemma sum_update_share:
  "sum_list (map snd (AList.update k (coalesce (map_of xs k) 0 + v) xs)) = sum_list (map snd xs) + (v :: int)"
  by (induction xs) auto

lemma add_shares_sum:
  assumes "add_shares nodes shares = Inr shares'"
    and "res_map (\<lambda>x. bigint_amount (nd_stake x)) nodes = Inr stakes" and "res_map (\<lambda>x. bigint_amount (nd_topUp x)) nodes = Inr topUps"
  shows "sum_list (map snd shares') = sum_list (map snd shares) + (sum_list stakes + sum_list topUps)"
  using assms
proof (induction nodes arbitrary: shares stakes topUps)
  case (Cons node nodes)
  then show ?case by (auto simp: res_bind_Inr add_share_def Let_def sum_update_share)
qed simp

lemma add_shares_nonneg:
  assumes "add_shares nodes shares = Inr shares'" and "\<forall>v \<in> snd ` set shares. v \<ge> 0"
    and "\<forall>n \<in> set nodes. \<forall>v. bigint_amount (nd_stake n) = Inr v \<or> bigint_amount (nd_topUp n) = Inr v \<longrightarrow> v \<ge> 0"
  shows "\<forall>v \<in> snd ` set shares'. v \<ge> (0 :: int)"
  using assms
proof (induction nodes arbitrary: shares)
  case (Cons node nodes)
  from Cons.prems(1) obtain s t where "bigint_amount (nd_stake node) = Inr s" "bigint_amount (nd_topUp node) = Inr t"
    and rest: "add_shares nodes (AList.update (if truthy (nd_provider node) then the (nd_provider node) else ''direct'')
        (coalesce (map_of shares (if truthy (nd_provider node) then the (nd_provider node) else ''direct'')) 0 + (s + t)) shares) = Inr shares'"
    by (auto simp: res_bind_Inr add_share_def Let_def)
  with Cons.prems(3) have "s \<ge> 0" "t \<ge> 0" by auto
  moreover have "coalesce (map_of shares k) 0 \<ge> 0" for k
    using Cons.prems(2) by (cases "map_of shares k") (force dest: map_of_SomeD)+
  moreover have "v \<in> snd ` set (AList.update k w xs) \<Longrightarrow> v = w \<or> v \<in> snd ` set xs" for v w :: int and k xs
    by (induction xs) (auto split: if_splits)
  ultimately have "\<forall>v \<in> snd ` set (AList.update k (coalesce (map_of shares k) 0 + (s + t)) shares). v \<ge> 0" for k
    using Cons.prems(2) by (smt (verit))
  from Cons.IH [OF rest this] Cons.prems(3) show ?case by simp
qed simp

lemma int_str_zero: "int_str 0 = ''0''"
  by code_simp

text \<open>The floors of shares of a whole leave something for the first.\<close>

lemma floors_below:
  assumes "locked > (0 :: int)" and "\<forall>v \<in> set vs. v \<ge> 0"
  shows "sum_list (map (\<lambda>v. (100 * v) div locked) vs) * locked \<le> 100 * sum_list vs"
proof (use assms(2) in \<open>induction vs\<close>)
  case (Cons v vs)
  have "(100 * v) div locked * locked \<le> 100 * v"
    using assms(1) by (simp add: minus_mod_eq_div_mult [symmetric])
  with Cons show ?case by (simp add: distrib_right)
qed simp

lemma shares_of_one:
  assumes "locked > 0" and "\<forall>v \<in> snd ` set shares. v \<ge> 0" and "sum_list (map snd shares) = locked"
  defines "final \<equiv> complete_first (map (\<lambda>(key, share). (key, hundredths locked share)) shares)"
  shows "\<forall>(k, v) \<in> set final. \<exists>h. v = Some h \<and> h \<ge> 0" and "sum_list (map (\<lambda>(k, v). coalesce v 0) final) = 100"
proof -
  have h: "hundredths locked v = Some ((100 * v) div locked)" if "v \<ge> 0" for v
    using assms(1) that by (cases "v = 0") (simp_all add: hundredths_def signed_divide_int_def sgn_mult)
  have "(\<forall>(k, v) \<in> set final. \<exists>h. v = Some h \<and> h \<ge> 0) \<and> sum_list (map (\<lambda>(k, v). coalesce v 0) final) = 100"
  proof (cases shares)
    case Nil
    with assms show ?thesis by simp
  next
    case (Cons first rest)
    obtain k v where first: "first = (k, v)" by (cases first)
    let ?floors = "sum_list (map (\<lambda>x. (100 * snd x) div locked) rest)"
    have nonneg: "\<forall>x \<in> set rest. snd x \<ge> 0" "v \<ge> 0" using assms(2) Cons first by auto
    then have rest: "map (\<lambda>(key, share). (key, hundredths locked share)) rest = map (\<lambda>x. (fst x, Some ((100 * snd x) div locked))) rest"
      by (auto simp: h)
    show ?thesis
    proof (cases rest)
      case Nil
      with assms Cons first nonneg have "v = locked" by simp
      with Nil Cons first assms(1) show ?thesis
        by (simp add: final_def complete_first_def h)
    next
      case (Cons r rs)
      have "?floors * locked \<le> 100 * sum_list (map snd rest)"
        using floors_below [OF assms(1), of "map snd rest"] nonneg by (simp add: comp_def)
      also have "\<dots> \<le> 100 * locked" using assms(3) \<open>shares = first # rest\<close> first nonneg by simp
      finally have "?floors \<le> 100" using assms(1) by simp
      moreover have "final = (k, Some (100 - ?floors)) # map (\<lambda>x. (fst x, Some ((100 * snd x) div locked))) rest"
        unfolding final_def \<open>shares = first # rest\<close> first list.map prod.case rest
        by (simp add: complete_first_def Cons comp_def)
      moreover have "\<forall>x \<in> set rest. (100 * snd x) div locked \<ge> 0"
        using nonneg assms(1) by (simp add: pos_imp_zdiv_nonneg_iff)
      ultimately show ?thesis by (auto simp: comp_def)
    qed
  qed
  then show "\<forall>(k, v) \<in> set final. \<exists>h. v = Some h \<and> h \<ge> 0" and "sum_list (map (\<lambda>(k, v). coalesce v 0) final) = 100"
    by simp_all
qed

lemma sum_without_zeros: "sum_list (map (\<lambda>(k, v). coalesce v 0) (filter (\<lambda>(k, v). v \<noteq> Some 0) xs)) = sum_list (map (\<lambda>(k, v). coalesce v (0::int)) xs)"
  by (induction xs) auto

text \<open>
  C29. The distribution of the stake of an identity: with some stake, its shares are positive and make up
  exactly one.
\<close>

theorem distribution_makes_one:
  assumes info: "getStakeInfoForIdentity env nodes totalLocked epoch = Inr info"
    and amounts: "\<forall>n \<in> set nodes. \<forall>v. bigint_amount (nd_stake n) = Inr v \<or> bigint_amount (nd_topUp n) = Inr v \<longrightarrow> v \<ge> 0"
    and "si_locked info \<noteq> ''0''"
  shows "(\<forall>(key, share) \<in> set (si_distribution info). \<exists>h. share = Some h \<and> h > 0)
    \<and> sum_list (map (\<lambda>(key, share). coalesce share 0) (si_distribution info)) = 100"
proof -
  from info obtain stakes topUps distribution where
    s: "res_map (\<lambda>x. bigint_amount (nd_stake x)) nodes = Inr stakes" "res_map (\<lambda>x. bigint_amount (nd_topUp x)) nodes = Inr topUps"
    and d: "getStakeDistributionForIdentity (sum_list stakes + sum_list topUps) nodes = Inr distribution"
    and i: "si_distribution info = distribution" "si_locked info = int_str (sum_list stakes + sum_list topUps)"
    by (auto simp: getStakeInfoForIdentity_def res_bind_Inr Let_def)
  from d obtain shares where shares: "add_shares nodes [] = Inr shares"
    and dist: "distribution = filter (\<lambda>(key, share). share \<noteq> Some 0) (complete_first
      (map (\<lambda>(key, share). (key, hundredths (sum_list stakes + sum_list topUps) share)) shares))"
    by (auto simp: getStakeDistributionForIdentity_def res_bind_Inr)
  have total: "sum_list (map snd shares) = sum_list stakes + sum_list topUps"
    using add_shares_sum [OF shares s] by simp
  have nonneg: "\<forall>v \<in> snd ` set shares. v \<ge> 0"
    by (rule add_shares_nonneg [OF shares _ amounts]) simp
  then have "sum_list (map snd shares) \<ge> 0" by (intro sum_list_nonneg) auto
  moreover have "sum_list stakes + sum_list topUps \<noteq> 0" using assms(3) i(2) by (auto simp: int_str_zero)
  ultimately have "sum_list stakes + sum_list topUps > 0" using total by simp
  from shares_of_one [OF this nonneg total] show ?thesis
    unfolding i dist sum_without_zeros by fastforce
qed

lemma nat_str_short: "n < 10 ^ k \<Longrightarrow> 0 < k \<Longrightarrow> length (nat_str n) \<le> k"
proof (induction k arbitrary: n)
  case (Suc k)
  show ?case
  proof (cases "n < 10")
    case True
    then show ?thesis by (subst nat_str.simps) simp
  next
    case False
    then have "0 < k" using Suc.prems by (cases k) auto
    moreover have "n div 10 < 10 ^ k" using Suc.prems(1) by (simp add: less_mult_imp_div_less)
    ultimately have "length (nat_str (n div 10)) \<le> k" by (rule Suc.IH [rotated])
    with False show ?thesis by (subst nat_str.simps) simp
  qed
qed simp

text \<open>
  An identity whose top-up is positive, but less than a whole unit, gets no yearly return: the digits of
  its whole units are the empty text, which is not a number.
\<close>

theorem small_top_up_no_return:
  assumes "0 < topUp" and "topUp < 10 ^ 18" and "si_topUp info = int_str topUp"
  shows "annual_percentage env baseApr topUpApr info = ie_toRounded env None"
proof -
  have "length (int_str topUp) \<le> 18"
    using assms(1,2) nat_str_short [of "nat topUp" 18] by (simp add: int_str_def nat_less_iff)
  then have "whole_units (int_str topUp) = []" by (simp add: whole_units_def)
  moreover have "int_str topUp \<noteq> ''0''" using assms(1) int_str_inj [of topUp 0] by (simp add: int_str_zero)
  ultimately have "plus_big x (if si_topUp info \<noteq> ''0'' then times_big (BigNumber (whole_units (si_topUp info))) topUpApr else Some 0) = None" for x
    by (cases x) (simp_all add: assms(3) BigNumber_def times_big_def)
  then show ?thesis by (simp add: annual_percentage_def Let_def times_big_def)
qed

definition documented_sorting_desc :: "((identity \<Rightarrow> nat) \<Rightarrow> identity list \<Rightarrow> identity list) \<Rightarrow> bool" where
  "documented_sorting_desc sorting \<longleftrightarrow> (\<forall>key xs. mset (sorting key xs) = mset xs \<and> sorted_wrt (\<lambda>a b. key a \<ge> key b) (sorting key xs))"

definition shown_identities :: "identity list \<Rightarrow> identity list" where
  "shown_identities identities = filter (\<lambda>i. coalesce (id_validators i) 0 > 0) identities"

text \<open>
  The list of identities: those without validators are left out, the rest keep their data and are ranked
  from one on by the number of their validators.
\<close>

theorem ranked_identities:
  assumes "documented_sorting_desc (ie_sortedDescending env)"
  shows "map id_rank (rank_identities env identities) = map (\<lambda>i. Some (Suc i)) [0..<length (shown_identities identities)]
    \<and> sorted_wrt (\<lambda>a b. coalesce (id_validators a) 0 \<ge> coalesce (id_validators b) 0) (rank_identities env identities)
    \<and> (\<exists>order. mset order = mset (shown_identities identities) \<and> map (id_rank_update (\<lambda>_. None)) (rank_identities env identities)
        = map (id_rank_update (\<lambda>_. None)) order)"
proof -
  let ?order = "ie_sortedDescending env (\<lambda>i. coalesce (id_validators i) 0) (shown_identities identities)"
  have perm: "mset ?order = mset (shown_identities identities)" and sorted: "sorted_wrt (\<lambda>a b. coalesce (id_validators a) 0 \<ge> coalesce (id_validators b) 0) ?order"
    using assms(1) by (simp_all add: documented_sorting_desc_def)
  from perm have len: "length ?order = length (shown_identities identities)" by (metis size_mset)
  then have "length ?order \<le> length identities" by (simp add: shown_identities_def)
  then have nth: "rank_identities env identities = map (\<lambda>i. (?order ! i)\<lparr>id_rank := Some (i + 1)\<rparr>) [0..<length ?order]"
    unfolding rank_identities_def shown_identities_def [symmetric] by (intro nth_equalityI) simp_all
  have "map id_rank (rank_identities env identities) = map (\<lambda>i. Some (Suc i)) [0..<length (shown_identities identities)]"
    unfolding nth len by simp
  moreover have "sorted_wrt (\<lambda>a b. coalesce (id_validators a) 0 \<ge> coalesce (id_validators b) 0) (rank_identities env identities)"
    using sorted unfolding nth by (simp add: sorted_wrt_iff_nth_less)
  moreover have "map (id_rank_update (\<lambda>_. None)) (rank_identities env identities) = map (id_rank_update (\<lambda>_. None)) ?order"
    unfolding nth by (intro nth_equalityI) simp_all
  ultimately show ?thesis using perm by blast
qed

section \<open>The order of the list\<close>

text \<open>
  A comparison that is total and transitive on the values of a program: \<open>xs.sort(compare)\<close> then gives the
  one stable order.
\<close>

locale consistent_comparison =
  fixes compare :: "'a \<Rightarrow> 'a \<Rightarrow> int"
  assumes antisym: "compare y x = - compare x y"
    and trans: "compare x y \<le> 0 \<Longrightarrow> compare y z \<le> 0 \<Longrightarrow> compare x z \<le> 0"
begin

lemma total: "compare x y \<le> 0 \<or> compare y x \<le> 0"
  using antisym [of x y] by linarith

lemma sort_ordered: "sorted_wrt (\<lambda>x y. compare x y \<le> 0) (js_sort compare xs)"
  using total trans by (intro sorted_js_sort) blast+

lemma sort_stable: "filter (\<lambda>y. compare x y = 0) (js_sort compare xs) = filter (\<lambda>y. compare x y = 0) xs"
proof (rule stable_js_sort)
  fix y z
  assume "compare x y = 0" "compare x z = 0"
  then show "compare y z \<le> 0" using antisym [of x y] trans [of y x z] by simp
qed

lemma sort_page: "mset (js_sort compare xs) = mset xs" "sorted_wrt (\<lambda>x y. compare x y \<le> 0) (take n (drop m (js_sort compare xs)))"
  using sort_ordered [of xs] by (simp_all add: sorted_wrt_take sorted_wrt_drop)

end

text \<open>The values compared by a criterion, and their lexicographic order, the largest first.\<close>

definition criterion_value :: "'s identities_env \<Rightarrow> identity_sort \<Rightarrow> identity \<Rightarrow> int" where
  "criterion_value env criterion a = (case criterion of
     IS_validators \<Rightarrow> int (coalesce (id_validators a) 0)
   | IS_stake \<Rightarrow> coalesce (ne_Number (ie_nodes env) (coalesce (id_stake a) ''0'')) 0
   | IS_locked \<Rightarrow> coalesce (ne_Number (ie_nodes env) (id_locked a)) 0)"

definition total_Number :: "'s identities_env \<Rightarrow> 's identities_env" where
  "total_Number env = env\<lparr>ie_nodes := (ie_nodes env)\<lparr>ne_Number := (\<lambda>s. Some (coalesce (ne_Number (ie_nodes env) s) 0))\<rparr>\<rparr>"

fun first_difference :: "int list \<Rightarrow> int" where
  "first_difference [] = 0"
| "first_difference (d # ds) = (if d = 0 then first_difference ds else d)"

lemma compare_by_total: "compare_by (total_Number env) c a b = Some (criterion_value env c b - criterion_value env c a)"
  by (cases c) (simp_all add: compare_by_def total_Number_def criterion_value_def difference_def)

lemma compare_first_difference:
  "compareWithCriteria (total_Number env) a b cs
     = Some (first_difference (map (\<lambda>c. criterion_value env c b - criterion_value env c a) cs))"
  by (induction cs) (auto simp: compare_by_total)

interpretation by_criteria: consistent_comparison "\<lambda>a b. coalesce (compareWithCriteria (total_Number env) a b cs) 0"
  for env :: "'s identities_env" and cs
proof
  fix x y z :: identity
  have "first_difference (map (\<lambda>c. criterion_value env c x - criterion_value env c y) cs)
      = - first_difference (map (\<lambda>c. criterion_value env c y - criterion_value env c x) cs)"
    by (induction cs) auto
  then show "coalesce (compareWithCriteria (total_Number env) y x cs) 0 = - coalesce (compareWithCriteria (total_Number env) x y cs) 0"
    by (simp add: compare_first_difference)
  have "first_difference (map (\<lambda>c. criterion_value env c y - criterion_value env c x) cs) \<le> 0
      \<Longrightarrow> first_difference (map (\<lambda>c. criterion_value env c z - criterion_value env c y) cs) \<le> 0
      \<Longrightarrow> first_difference (map (\<lambda>c. criterion_value env c z - criterion_value env c x) cs) \<le> 0"
    by (induction cs) (auto split: if_splits)
  then show "coalesce (compareWithCriteria (total_Number env) x y cs) 0 \<le> 0
      \<Longrightarrow> coalesce (compareWithCriteria (total_Number env) y z cs) 0 \<le> 0
      \<Longrightarrow> coalesce (compareWithCriteria (total_Number env) x z cs) 0 \<le> 0"
    by (simp add: compare_first_difference)
qed

lemma total_Number_id:
  assumes "\<forall>s. ne_Number (ie_nodes env) s \<noteq> None"
  shows "total_Number env = env"
proof -
  have "(\<lambda>s. Some (coalesce (ne_Number (ie_nodes env) s) 0)) = ne_Number (ie_nodes env)"
    using assms by (intro ext) (metis coalesce.simps(1) not_None_eq)
  then show ?thesis by (simp add: total_Number_def)
qed

definition criteria_order :: "'s identities_env \<Rightarrow> identity_sort list \<Rightarrow> identity \<Rightarrow> identity \<Rightarrow> int" where
  "criteria_order env cs a b = first_difference (map (\<lambda>c. criterion_value env c b - criterion_value env c a) cs)"

text \<open>
  The list of identities by criteria: a stable order of all identities in which the first criterion that
  tells two of them apart has the larger value in the one that comes first.
\<close>

theorem identities_in_order:
  assumes numbers: "\<forall>s. ne_Number (ie_nodes env) s \<noteq> None" and "cs \<noteq> []"
    and all: "getAllIdentities env s = (Inr identities, t)"
  shows "\<exists>ordered. getIdentities env start n [] (Some cs) s = (Inr (take n (drop start ordered)), t)
    \<and> mset ordered = mset identities
    \<and> sorted_wrt (\<lambda>a b. criteria_order env cs a b \<le> 0) ordered
    \<and> (\<forall>a. filter (\<lambda>b. criteria_order env cs a b = 0) ordered = filter (\<lambda>b. criteria_order env cs a b = 0) identities)"
proof -
  note total = total_Number_id [OF numbers]
  have same: "coalesce (compareWithCriteria env a b cs) 0 = criteria_order env cs a b" for a b
    using compare_first_difference [of env] unfolding total by (simp add: criteria_order_def)
  then have cmp: "(\<lambda>a b. coalesce (compareWithCriteria env a b cs) 0) = criteria_order env cs" by blast
  note order = by_criteria.sort_ordered [where env = env and cs = cs and xs = identities]
    by_criteria.sort_stable [where env = env and cs = cs and xs = identities]
    by_criteria.sort_page(1) [where env = env and cs = cs and xs = identities]
  have "getIdentities env start n [] (Some cs) s
      = (Inr (take n (drop start (js_sort (criteria_order env cs) identities))), t)"
    using assms(2) all cmp by (cases cs) (simp_all add: getIdentities_def io_simps)
  then show ?thesis using order unfolding total cmp same by blast
qed

section \<open>Witnesses\<close>

definition sample_profile :: "string \<Rightarrow> identity_detailed" where
  "sample_profile i = new_identity_detailed\<lparr>ki_identity := i, ki_name := i\<rparr>"

definition sample_validator :: "string \<Rightarrow> string option \<Rightarrow> string \<Rightarrow> node" where
  "sample_validator bls provider stake = new_node\<lparr>nd_bls := bls, nd_type := Some NT_validator, nd_identity := Some ''alpha'',
     nd_provider := provider, nd_stake := stake, nd_topUp := ''0''\<rparr>"

definition plain_identities_env :: "identity list \<Rightarrow> 's identities_env" where
  "plain_identities_env identities = \<lparr>ie_nodes = plain_nodes_env, ie_getAllNodes = io_return [],
     ie_profiles = \<lambda>_. io_return None, ie_getApr = io_return (1 / 10, 1 / 20),
     ie_getOrSet = \<lambda>_ _ _. io_return identities, ie_BigInt_parseInt = \<lambda>s. int (dec_val s), ie_sum = \<lambda>_. JsFloat ''0'',
     ie_sortedDescending = \<lambda>key. sort_key (\<lambda>x. - int (key x)), ie_div = (/),
     ie_toRounded = \<lambda>x. (case x of None \<Rightarrow> JsFloat ''NaN'' | Some _ \<Rightarrow> JsFloat ''0.05'')\<rparr>"

abbreviation sample_identities_env :: "identity list \<Rightarrow> unit identities_env" where
  "sample_identities_env \<equiv> plain_identities_env"

theorem nodes_of_identities_witness:
  "map (\<lambda>d. coalesce (kd_nodes d) []) (fold group_node
      [sample_validator ''k1'' None ''1'', new_node, sample_validator ''k2'' None ''1''] [sample_profile ''alpha''])
    = [[sample_validator ''k1'' None ''1'', sample_validator ''k2'' None ''1''], [new_node]]"
  by (subst nodes_of_identities)
    (simp_all add: sample_profile_def sample_validator_def new_identity_detailed_def new_node_def)

definition sample_nodes :: "node list" where
  "sample_nodes = [sample_validator ''k1'' (Some ''p1'') ''1000'', sample_validator ''k2'' (Some ''p2'') ''1000'',
     sample_validator ''k3'' None ''1000'']"

lemma sample_amounts: "bigint_amount ''1000'' = Inr 1000" "bigint_amount ''0'' = Inr 0"
  by code_simp+

lemma sample_node_amounts:
  assumes "n \<in> set sample_nodes"
  shows "bigint_amount (nd_stake n) = Inr 1000" and "bigint_amount (nd_topUp n) = Inr 0"
  using assms by (auto simp: sample_nodes_def sample_validator_def sample_amounts)

theorem distribution_makes_one_witness:
  "\<exists>info. getStakeInfoForIdentity (sample_identities_env []) sample_nodes 3000 5 = Inr info
    \<and> sum_list (map (\<lambda>(key, share). coalesce share 0) (si_distribution info)) = 100"
proof -
  have shares: "add_shares sample_nodes [] = Inr [(''p1'', 1000), (''p2'', 1000), (''direct'', 1000)]"
    by (simp add: sample_nodes_def sample_validator_def add_share_def sample_amounts)
  obtain info where info: "getStakeInfoForIdentity (sample_identities_env []) sample_nodes 3000 5 = Inr info"
    and locked: "si_locked info = int_str 3000"
    by (simp add: getStakeInfoForIdentity_def getStakeDistributionForIdentity_def shares res_bind_Inr)
      (simp add: sample_nodes_def sample_validator_def sample_amounts)
  have "si_locked info \<noteq> ''0''" unfolding locked int_str_zero [symmetric] by simp
  from distribution_makes_one [OF info _ this] info show ?thesis by (auto simp: sample_node_amounts)
qed

theorem small_top_up_no_return_witness:
  "annual_percentage (sample_identities_env []) (1 / 10) (1 / 20)
     \<lparr>si_score = JsFloat ''0'', si_stake = int_str 2500000000000000000000, si_topUp = int_str 7, si_locked = int_str 2500000000000000000007,
      si_stakePercent = 0, si_providers = [], si_distribution = [], si_validators = 1, si_queued = 0, si_auctioned = 0, si_sort = None\<rparr>
   = JsFloat ''NaN''"
  using small_top_up_no_return [of 7 "\<lparr>si_score = JsFloat ''0'', si_stake = int_str 2500000000000000000000, si_topUp = int_str 7,
      si_locked = int_str 2500000000000000000007, si_stakePercent = 0, si_providers = [], si_distribution = [], si_validators = 1,
      si_queued = 0, si_auctioned = 0, si_sort = None\<rparr>" "sample_identities_env []"]
  by (simp add: plain_identities_env_def)

lemma sample_sorting_desc: "documented_sorting_desc (ie_sortedDescending (sample_identities_env identities))"
proof -
  have "sorted_wrt (\<lambda>a b. key a \<ge> key b) (sort_key (\<lambda>x. - int (key x)) xs)" for key :: "identity \<Rightarrow> nat" and xs
    using sorted_sort_key [of "\<lambda>x. - int (key x)" xs] by (simp add: sorted_map)
  then show ?thesis by (simp add: documented_sorting_desc_def plain_identities_env_def)
qed

theorem ranked_identities_witness:
  "map id_rank (rank_identities (sample_identities_env []) [new_identity\<lparr>id_validators := Some 1\<rparr>, new_identity,
      new_identity\<lparr>id_validators := Some 4\<rparr>]) = [Some 1, Some 2]"
  using ranked_identities [OF sample_sorting_desc, of "[]" "[new_identity\<lparr>id_validators := Some 1\<rparr>, new_identity,
      new_identity\<lparr>id_validators := Some 4\<rparr>]"]
  by (simp add: shown_identities_def new_identity_def)

theorem identities_in_order_witness:
  "\<exists>ordered. getIdentities (sample_identities_env [new_identity, new_identity\<lparr>id_validators := Some 3\<rparr>]) 0 25 [] (Some [IS_validators]) ()
      = (Inr (take 25 (drop 0 ordered)), ())
    \<and> mset ordered = {#new_identity, new_identity\<lparr>id_validators := Some 3\<rparr>#}"
proof -
  let ?env = "sample_identities_env [new_identity, new_identity\<lparr>id_validators := Some 3\<rparr>]"
  have "\<forall>s. ne_Number (ie_nodes ?env) s \<noteq> None" by (simp add: plain_identities_env_def plain_nodes_env_def)
  moreover have "getAllIdentities ?env () = (Inr [new_identity, new_identity\<lparr>id_validators := Some 3\<rparr>], ())"
    by (simp add: getAllIdentities_def plain_identities_env_def io_return_def)
  ultimately show ?thesis using identities_in_order [of ?env "[IS_validators]"] by fastforce
qed

end
