(* ===== verification/Providers.thy ===== *)
theory Providers imports Identities ElasticIndexer begin

text \<open>
  The staking providers (\<open>src/endpoints/providers/provider.service.ts\<close> and its entities): their
  configuration as their contracts give it, their stake as the nodes give it, what the delegation service
  adds, and the filters and order in which they are shown.

  The fee of a provider, a number with four decimals, is counted in ten-thousandths. The objects of a list
  that the code changes in place are returned here.
\<close>

section \<open>Data\<close>

record provider_config =
  pc_owner :: string
  pc_serviceFee :: int
  pc_delegationCap :: string
  pc_apr :: js_float
  pc_automaticActivation :: bool
  pc_checkCapOnRedelegate :: bool

definition new_provider_config :: provider_config where
  "new_provider_config = \<lparr>pc_owner = [], pc_serviceFee = 0, pc_delegationCap = [], pc_apr = JsFloat ''0'',
     pc_automaticActivation = False, pc_checkCapOnRedelegate = False\<rparr>"

record nodes_infos =
  ns_numNodes :: int
  ns_stake :: string
  ns_topUp :: string
  ns_locked :: string

record staking_provider = nodes_infos +
  pv_provider :: string
  pv_owner :: "string option"
  pv_featured :: bool
  pv_serviceFee :: int
  pv_delegationCap :: string
  pv_apr :: js_float
  pv_numUsers :: int
  pv_cumulatedRewards :: "string option"
  pv_identity :: "string option"
  pv_initialOwnerFunds :: "string option"
  pv_automaticActivation :: "bool option"
  pv_checkCapOnRedelegate :: "bool option"
  pv_ownerBelowRequiredBalanceThreshold :: "bool option"
  pv_totalUnStaked :: "string option"
  pv_createdNonce :: "int option"
  pv_githubProfileValidated :: "bool option"
  pv_githubProfileValidatedAt :: "string option"
  pv_githubKeysValidated :: "bool option"
  pv_githubKeysValidatedAt :: "string option"
  pv_identityInfo :: "identity option"

record delegation_data =
  dd_aprValue :: "js_float option"
  dd_featured :: bool
  dd_contract :: "string option"
  dd_owner :: "string option"
  dd_automaticActivation :: bool
  dd_initialOwnerFunds :: string
  dd_checkCapOnRedelegate :: bool
  dd_totalUnStaked :: string
  dd_createdNonce :: int
  dd_ownerBelowRequiredBalanceThreshold :: bool

record provider_filter =
  pf_identity :: "string option"
  pf_providers :: "string list option"
  pf_owner :: "string option"

record provider_options =
  po_withLatestInfo :: "bool option"
  po_withIdentityInfo :: "bool option"

text \<open>
  The services. \<open>pe_vmQuery contract function caller\<close> gives the returned values, of which some may be
  \<open>null\<close>; \<open>pe_base64ToHex\<close> and \<open>pe_base64ToText\<close> read a buffer, \<open>pe_base64ToBigInt\<close> is that of the SDK.
  \<open>pe_batchConfigs\<close>, \<open>pe_batchCounts\<close> and \<open>pe_batchTexts\<close> are \<open>cachingService.batchProcess\<close>.
  The list of the delegation service is \<open>None\<close> when it is no array, and an entry of it may be \<open>null\<close>.
  \<open>pe_getRemoteNumber\<close> gives \<open>None\<close> for a value that is missing or no integer.
\<close>

record 's providers_env =
  pe_identities :: "'s identities_env"
  pe_vmQuery :: "string \<Rightarrow> string \<Rightarrow> string option \<Rightarrow> ('s, string option list option) io"
  pe_base64ToHex :: "string \<Rightarrow> string"
  pe_base64ToText :: "string \<Rightarrow> string"
  pe_base64ToBigInt :: "string option \<Rightarrow> int res"
  pe_bech32Encode :: "string \<Rightarrow> string res"
  pe_toFixed2 :: "js_float \<Rightarrow> js_float"
  pe_isoDate :: "int \<Rightarrow> string"
  pe_groupBy :: "(node \<Rightarrow> string) \<Rightarrow> node list \<Rightarrow> (string \<rightharpoonup> node list)"
  pe_delegationContract :: "string option"
  pe_delegationManager :: string
  pe_providersUrl :: string
  pe_providersFetchUrl :: string
  pe_isProvidersFetchFeatureEnabled :: bool
  pe_batchConfigs :: "string list \<Rightarrow> (string \<Rightarrow> string) \<Rightarrow> (string \<Rightarrow> ('s, provider_config option) io) \<Rightarrow> int
    \<Rightarrow> ('s, provider_config option list) io"
  pe_batchCounts :: "string list \<Rightarrow> (string \<Rightarrow> string) \<Rightarrow> (string \<Rightarrow> ('s, int option) io) \<Rightarrow> int \<Rightarrow> ('s, int option list) io"
  pe_batchTexts :: "string list \<Rightarrow> (string \<Rightarrow> string) \<Rightarrow> (string \<Rightarrow> ('s, string option) io) \<Rightarrow> int \<Rightarrow> ('s, string option list) io"
  pe_getRemote :: "string \<Rightarrow> ('s, string option) io"
  pe_getRemoteNumber :: "string \<Rightarrow> ('s, int option) io"
  pe_set :: "string \<Rightarrow> string option \<Rightarrow> int \<Rightarrow> ('s, unit) io"
  pe_getOrSetProviders :: "string \<Rightarrow> ('s, staking_provider list) io \<Rightarrow> int \<Rightarrow> ('s, staking_provider list) io"
  pe_getOrSetDelegations :: "string \<Rightarrow> ('s, delegation_data option list option) io \<Rightarrow> int \<Rightarrow> ('s, delegation_data option list option) io"
  pe_getOrSetDelegation :: "string \<Rightarrow> ('s, delegation_data option) io \<Rightarrow> int \<Rightarrow> ('s, delegation_data option) io"
  pe_fetchDelegations :: "string \<Rightarrow> ('s, delegation_data option list option) io"
  pe_fetchDelegation :: "string \<Rightarrow> ('s, delegation_data option) io"
  pe_fetchProviders :: "string \<Rightarrow> ('s, staking_provider list) io"
  pe_delegators :: "string \<Rightarrow> pagination \<Rightarrow> ('s, (string \<times> string) list option) io"
  pe_delegatorsCount :: "string \<Rightarrow> ('s, int) io"

definition provider_consts :: "'s providers_env \<Rightarrow> time_consts" where
  "provider_consts env = ne_consts (ie_nodes (pe_identities env))"

section \<open>What the contracts say\<close>

text \<open>A buffer of the value at a position; there is none of a missing value or of \<open>null\<close>.\<close>

definition base64_cell :: "string option list \<Rightarrow> nat \<Rightarrow> string res" where
  "base64_cell response i = (case nth_opt response i of Some (Some s) \<Rightarrow> Inr s | _ \<Rightarrow> Inl TypeError)"

text \<open>\<open>BigInt(hex ? '0x' + hex : hex)\<close>.\<close>

definition prefixed_BigInt :: "string \<Rightarrow> int res" where
  "prefixed_BigInt hex = js_BigInt (if hex \<noteq> [] then ''0x'' @ hex else hex)"

definition config_number :: "'s providers_env \<Rightarrow> string option list \<Rightarrow> nat \<Rightarrow> int option res" where
  "config_number env response i =
     (case nth_opt response i of
        None \<Rightarrow> Inl TypeError
      | Some None \<Rightarrow> Inr None
      | Some (Some base64) \<Rightarrow>
          res_bind (prefixed_BigInt (if base64 \<noteq> [] then pe_base64ToHex env base64 else base64)) (\<lambda>n. Inr (Some n)))"

definition decoded_config :: "'s providers_env \<Rightarrow> string option list \<Rightarrow> provider_config res" where
  "decoded_config env response =
     res_bind (base64_cell response 0) (\<lambda>ownerAddress.
     res_bind (pe_bech32Encode env (pe_base64ToHex env ownerAddress)) (\<lambda>owner.
     res_bind (config_number env response 1) (\<lambda>serviceFee.
     res_bind (config_number env response 2) (\<lambda>delegationCap.
     res_bind (base64_cell response 4) (\<lambda>automaticActivation.
     res_bind (base64_cell response 7) (\<lambda>checkCapOnRedelegate. Inr
       \<lparr>pc_owner = owner, pc_serviceFee = coalesce serviceFee 0,
        pc_delegationCap = (case delegationCap of None \<Rightarrow> ''0'' | Some n \<Rightarrow> int_str n), pc_apr = JsFloat ''0'',
        pc_automaticActivation = (pe_base64ToText env automaticActivation = ''true''),
        pc_checkCapOnRedelegate = (pe_base64ToText env checkCapOnRedelegate = ''true'')\<rparr>))))))"

definition getProviderConfig :: "'s providers_env \<Rightarrow> string \<Rightarrow> ('s, provider_config option) io" where
  "getProviderConfig env address =
     (if pe_delegationContract env = Some address then io_return None
      else io_catch
        (io_bind (pe_vmQuery env address ''getContractConfig'' None) (\<lambda>response.
          case response of
            None \<Rightarrow> io_throw TypeError
          | Some cells \<Rightarrow> io_bind (io_lift (decoded_config env cells)) (\<lambda>config. io_return (Some config))))
        (\<lambda>_. io_return None))"

text \<open>The name, website and identity; \<open>text\<close> is trimmed and in lower case.\<close>

definition getProviderMetadata :: "'s providers_env \<Rightarrow> string \<Rightarrow> ('s, string option list) io" where
  "getProviderMetadata env address = io_catch
     (io_bind (pe_vmQuery env address ''getMetaData'' None) (\<lambda>response. io_return
       (case response of
          None \<Rightarrow> [None, None, None]
        | Some cells \<Rightarrow>
            (let texts = map (\<lambda>cell. case cell of Some s \<Rightarrow> if s \<noteq> [] then to_lower (js_trim (pe_base64ToText env s)) else [] | None \<Rightarrow> []) cells
             in map (nth_opt texts) [0, 1, 2]))))
     (\<lambda>_. io_return [None, None, None])"

text \<open>The first value of an answer, of which \<open>[base64] = null\<close> has none.\<close>

definition first_cell :: "string option list option \<Rightarrow> string option res" where
  "first_cell response =
     (case response of None \<Rightarrow> Inl TypeError | Some cells \<Rightarrow> Inr (Option.bind (nth_opt cells 0) id))"

definition number_of_cell :: "'s providers_env \<Rightarrow> string option \<Rightarrow> int option res" where
  "number_of_cell env base64 =
     (if truthy base64 then res_bind (prefixed_BigInt (pe_base64ToHex env (the base64))) (\<lambda>n. Inr (Some n)) else Inr None)"

definition getNumUsers :: "'s providers_env \<Rightarrow> string \<Rightarrow> ('s, int option) io" where
  "getNumUsers env address =
     io_bind (pe_vmQuery env address ''getNumUsers'' None) (\<lambda>response.
     io_bind (io_lift (first_cell response)) (\<lambda>base64. io_lift (number_of_cell env base64)))"

definition getCumulatedRewards :: "'s providers_env \<Rightarrow> string \<Rightarrow> ('s, string option) io" where
  "getCumulatedRewards env address =
     io_bind (pe_vmQuery env address ''getTotalCumulatedRewards''
         (Some ''erd1qqqqqqqqqqqqqqqpqqqqqqqqlllllllllllllllllllllllllllsr9gav8'')) (\<lambda>response.
     io_bind (io_lift (first_cell response)) (\<lambda>base64.
     io_bind (io_lift (number_of_cell env base64)) (\<lambda>n. io_return (map_option int_str n))))"

definition getTotalActiveStake :: "'s providers_env \<Rightarrow> string \<Rightarrow> ('s, string) io" where
  "getTotalActiveStake env address =
     io_bind (pe_vmQuery env address ''getTotalActiveStake'' None) (\<lambda>response.
     io_bind (io_lift (first_cell response)) (\<lambda>base64.
     io_bind (io_lift (pe_base64ToBigInt env base64)) (\<lambda>n. io_return (int_str n))))"

definition getNumNodes :: "'s providers_env \<Rightarrow> string \<Rightarrow> ('s, int) io" where
  "getNumNodes env address =
     io_bind (pe_vmQuery env address ''getNumNodes'' None) (\<lambda>response.
     io_bind (io_lift (first_cell response)) (\<lambda>base64. io_lift (pe_base64ToBigInt env base64)))"

definition getProviderAddresses :: "'s providers_env \<Rightarrow> ('s, string list) io" where
  "getProviderAddresses env =
     io_bind (io_catch (pe_vmQuery env (pe_delegationManager env) ''getAllContractAddresses'' None)
         (\<lambda>_. io_return (Some []))) (\<lambda>response.
       case response of
         None \<Rightarrow> io_return []
       | Some cells \<Rightarrow> io_lift (res_map (\<lambda>cell. case cell of
             None \<Rightarrow> Inl TypeError | Some s \<Rightarrow> pe_bech32Encode env (pe_base64ToHex env s)) cells))"

section \<open>The delegation service\<close>

definition getDelegationProvidersRaw :: "'s providers_env \<Rightarrow> ('s, delegation_data option list option) io" where
  "getDelegationProvidersRaw env = io_catch (pe_fetchDelegations env (pe_providersUrl env)) (\<lambda>_. io_return (Some []))"

definition getDelegationProviders :: "'s providers_env \<Rightarrow> ('s, delegation_data option list option) io" where
  "getDelegationProviders env =
     (let info = CacheInfo_DelegationProviders (provider_consts env)
      in pe_getOrSetDelegations env (ci_key info) (getDelegationProvidersRaw env) (ci_ttl info))"

definition getDelegationProviderByAddressRaw :: "'s providers_env \<Rightarrow> string \<Rightarrow> ('s, delegation_data option) io" where
  "getDelegationProviderByAddressRaw env address =
     io_catch (pe_fetchDelegation env (pe_providersUrl env @ ''/'' @ address)) (\<lambda>_. io_return None)"

definition getDelegationProviderByAddress :: "'s providers_env \<Rightarrow> string \<Rightarrow> ('s, delegation_data option) io" where
  "getDelegationProviderByAddress env address =
     (let info = CacheInfo_DelegationProvider (provider_consts env) address
      in pe_getOrSetDelegation env (ci_key info) (getDelegationProviderByAddressRaw env address) (ci_ttl info))"

section \<open>All providers\<close>

definition new_provider :: "string \<Rightarrow> provider_config \<Rightarrow> int option \<Rightarrow> string option \<Rightarrow> staking_provider" where
  "new_provider address config numUsers cumulatedRewards =
     \<lparr>ns_numNodes = 0, ns_stake = ''0'', ns_topUp = ''0'', ns_locked = ''0'', pv_provider = address,
      pv_owner = Some (pc_owner config), pv_featured = False, pv_serviceFee = pc_serviceFee config,
      pv_delegationCap = pc_delegationCap config, pv_apr = pc_apr config, pv_numUsers = coalesce numUsers 0,
      pv_cumulatedRewards = Some (coalesce cumulatedRewards ''0''), pv_identity = None, pv_initialOwnerFunds = None,
      pv_automaticActivation = Some (pc_automaticActivation config), pv_checkCapOnRedelegate = Some (pc_checkCapOnRedelegate config),
      pv_ownerBelowRequiredBalanceThreshold = None, pv_totalUnStaked = None, pv_createdNonce = None,
      pv_githubProfileValidated = None, pv_githubProfileValidatedAt = None, pv_githubKeysValidated = None,
      pv_githubKeysValidatedAt = None, pv_identityInfo = None\<rparr>"

definition confirmed_identity :: "'s providers_env \<Rightarrow> staking_provider \<Rightarrow> ('s, staking_provider) io" where
  "confirmed_identity env p =
     io_bind (pe_getRemote env (ci_key (CacheInfo_ConfirmedProvider (provider_consts env) (pv_provider p)))) (\<lambda>identity.
       io_return (if truthy identity then p\<lparr>pv_identity := identity\<rparr> else p))"

definition cache_owner :: "'s providers_env \<Rightarrow> staking_provider \<Rightarrow> ('s, unit) io" where
  "cache_owner env p =
     (let info = CacheInfo_ProviderOwner (provider_consts env) (pv_provider p)
      in pe_set env (ci_key info) (pv_owner p) (ci_ttl info))"

text \<open>The three requests run at once; here they are made one after the other.\<close>

definition getAllProvidersRaw :: "'s providers_env \<Rightarrow> ('s, staking_provider list) io" where
  "getAllProvidersRaw env =
     (if pe_isProvidersFetchFeatureEnabled env then pe_fetchProviders env (pe_providersFetchUrl env @ ''/providers'')
      else
        io_bind (getProviderAddresses env) (\<lambda>addresses.
        io_bind (pe_batchConfigs env addresses (\<lambda>a. ''providerConfig:'' @ a) (getProviderConfig env) (oneMinute (provider_consts env) * 15)) (\<lambda>configs.
        io_bind (pe_batchCounts env addresses (\<lambda>a. ''providerNumUsers:'' @ a) (getNumUsers env) (oneHour (provider_consts env))) (\<lambda>numUsers.
        io_bind (pe_batchTexts env addresses (\<lambda>a. ''providerCumulatedRewards:'' @ a) (getCumulatedRewards env) (oneHour (provider_consts env))) (\<lambda>rewards.
        let providers = map (\<lambda>i. new_provider (addresses ! i) (coalesce (Option.bind (nth_opt configs i) id) new_provider_config)
              (Option.bind (nth_opt numUsers i) id) (Option.bind (nth_opt rewards i) id)) [0..<length addresses] in
        io_bind (io_mapM (confirmed_identity env) providers) (\<lambda>providers.
        io_bind (io_mapM (cache_owner env) providers) (\<lambda>_. io_return providers)))))))"

definition getAllProviders :: "'s providers_env \<Rightarrow> ('s, staking_provider list) io" where
  "getAllProviders env =
     (let info = CacheInfo_Providers (provider_consts env)
      in pe_getOrSetProviders env (ci_key info) (getAllProvidersRaw env) (ci_ttl info))"

section \<open>Stake\<close>

definition complete_node :: "node \<Rightarrow> bool" where
  "complete_node n \<longleftrightarrow> nd_stake n \<noteq> [] \<and> nd_topUp n \<noteq> [] \<and> nd_locked n \<noteq> []"

definition add_node_info :: "node \<Rightarrow> int \<times> int \<times> int \<times> int \<Rightarrow> (int \<times> int \<times> int \<times> int) res" where
  "add_node_info n = (\<lambda>(numNodes, stake, topUp, locked).
     if complete_node n then
       res_bind (js_BigInt (nd_stake n)) (\<lambda>s. res_bind (js_BigInt (nd_topUp n)) (\<lambda>t. res_bind (js_BigInt (nd_locked n)) (\<lambda>l.
         Inr (numNodes + 1, stake + s, topUp + t, locked + l))))
     else Inr (numNodes, stake, topUp, locked))"

fun add_node_infos :: "node list \<Rightarrow> int \<times> int \<times> int \<times> int \<Rightarrow> (int \<times> int \<times> int \<times> int) res" where
  "add_node_infos [] acc = Inr acc"
| "add_node_infos (n # ns) acc = res_bind (add_node_info n acc) (add_node_infos ns)"

definition getNodesInfosForProvider :: "node list \<Rightarrow> nodes_infos res" where
  "getNodesInfosForProvider nodes =
     res_bind (add_node_infos nodes (0, 0, 0, 0)) (\<lambda>(numNodes, stake, topUp, locked). Inr
       \<lparr>ns_numNodes = numNodes, ns_stake = int_str stake, ns_topUp = int_str topUp, ns_locked = int_str locked\<rparr>)"

text \<open>What the delegation service knows; a value that is not truthy leaves the provider as it is.\<close>

definition apply_delegation :: "'s providers_env \<Rightarrow> delegation_data \<Rightarrow> staking_provider \<Rightarrow> staking_provider" where
  "apply_delegation env d p =
     (let p = (if float_truthy (dd_aprValue d) then p\<lparr>pv_apr := pe_toFixed2 env (the (dd_aprValue d))\<rparr> else p);
          p = (if dd_featured d then p\<lparr>pv_featured := True\<rparr> else p);
          p = (if truthy (dd_owner d) then p\<lparr>pv_owner := dd_owner d\<rparr> else p);
          p = (if dd_automaticActivation d then p\<lparr>pv_automaticActivation := Some True\<rparr> else p);
          p = (if dd_checkCapOnRedelegate d then p\<lparr>pv_checkCapOnRedelegate := Some True\<rparr> else p)
      in if dd_ownerBelowRequiredBalanceThreshold d then p\<lparr>pv_ownerBelowRequiredBalanceThreshold := Some True\<rparr> else p)"

definition with_stake :: "'s providers_env \<Rightarrow> delegation_data option list \<Rightarrow> (string \<rightharpoonup> node list) \<Rightarrow> staking_provider \<Rightarrow> staking_provider res" where
  "with_stake env delegations nodesOf p =
     (let p = (case List.find (\<lambda>d. d \<noteq> None \<and> dd_contract (the d) = Some (pv_provider p)) delegations of
                 Some (Some d) \<Rightarrow> apply_delegation env d p | _ \<Rightarrow> p)
      in res_bind (getNodesInfosForProvider (coalesce (nodesOf (pv_provider p)) [])) (\<lambda>infos. Inr
           (p\<lparr>ns_numNodes := ns_numNodes infos, ns_stake := ns_stake infos, ns_topUp := ns_topUp infos, ns_locked := ns_locked infos\<rparr>)))"

text \<open>Whole units of the locked stake; \<open>None\<close> is not a number, and makes a comparison equal.\<close>

definition sort_amount :: "string \<Rightarrow> int option" where
  "sort_amount locked =
     (if locked = [] \<or> locked = ''0'' then Some 0
      else if whole_units locked = [] then None
      else case js_BigInt (whole_units locked) of Inr n \<Rightarrow> Some n | Inl _ \<Rightarrow> None)"

definition compare_locked :: "staking_provider \<Rightarrow> staking_provider \<Rightarrow> int" where
  "compare_locked a b = coalesce (difference (sort_amount (ns_locked b)) (sort_amount (ns_locked a))) 0"

definition github_validation :: "'s providers_env \<Rightarrow> staking_provider \<Rightarrow> ('s, staking_provider) io" where
  "github_validation env p =
     (if \<not> truthy (pv_identity p) then io_return p
      else
        io_bind (pe_getRemoteNumber env (ci_key (CacheInfo_GithubProfileValidated (provider_consts env) (the (pv_identity p))))) (\<lambda>profileAt.
        io_bind (pe_getRemoteNumber env (ci_key (CacheInfo_GithubKeysValidated (provider_consts env) (the (pv_identity p))))) (\<lambda>keysAt.
          io_return (p\<lparr>pv_githubProfileValidatedAt := map_option (\<lambda>n. pe_isoDate env (n * 1000)) profileAt,
            pv_githubKeysValidatedAt := map_option (\<lambda>n. pe_isoDate env (n * 1000)) keysAt,
            pv_githubProfileValidated := Some (profileAt \<noteq> None), pv_githubKeysValidated := Some (keysAt \<noteq> None)\<rparr>))))"

definition getProvidersWithStakeInformationRaw :: "'s providers_env \<Rightarrow> ('s, staking_provider list) io" where
  "getProvidersWithStakeInformationRaw env =
     io_bind (getAllProviders env) (\<lambda>providers.
     io_bind (ie_getAllNodes (pe_identities env)) (\<lambda>nodes.
     let nodesOf = pe_groupBy env (\<lambda>n. coalesce (nd_provider n) ''undefined'') nodes in
     io_bind (getDelegationProviders env) (\<lambda>delegations.
       case delegations of
         None \<Rightarrow> io_return providers
       | Some ds \<Rightarrow>
           io_bind (io_lift (res_map (with_stake env ds nodesOf) providers)) (\<lambda>providers.
             io_mapM (github_validation env) (js_sort compare_locked providers)))))"

definition getProvidersWithStakeInformation :: "'s providers_env \<Rightarrow> ('s, staking_provider list) io" where
  "getProvidersWithStakeInformation env =
     (let info = CacheInfo_ProvidersWithStakeInformation (provider_consts env)
      in pe_getOrSetProviders env (ci_key info) (getProvidersWithStakeInformationRaw env) (ci_ttl info))"

section \<open>Queries\<close>

definition getFilteredProviders :: "'s providers_env \<Rightarrow> provider_filter \<Rightarrow> ('s, staking_provider list) io" where
  "getFilteredProviders env query =
     io_bind (getProvidersWithStakeInformation env) (\<lambda>providers.
       let providers = (if truthy (pf_identity query) then filter (\<lambda>p. pv_identity p = pf_identity query) providers else providers);
           providers = (case pf_providers query of
               None \<Rightarrow> providers
             | Some addresses \<Rightarrow> filter (\<lambda>p. pv_provider p \<noteq> [] \<and> pv_provider p \<in> set addresses) providers);
           providers = (if truthy (pf_owner query) then filter (\<lambda>p. pv_owner p = pf_owner query) providers else providers)
       in io_return providers)"

definition validate_provider_options :: "string option \<Rightarrow> provider_options \<Rightarrow> provider_options res" where
  "validate_provider_options owner options =
     (if po_withLatestInfo options = Some True \<and> \<not> truthy owner
      then Inl (HttpError (Some ([CHR 0x27] @ ''withLatestInfo'' @ [CHR 0x27] @ '' can only be activated when an '' @ [CHR 0x27]
             @ ''owner'' @ [CHR 0x27] @ '' filter is also applied.'')))
      else Inr options)"

definition with_identity_info :: "'s providers_env \<Rightarrow> staking_provider \<Rightarrow> ('s, staking_provider) io" where
  "with_identity_info env p =
     (if truthy (pv_identity p) then
        io_bind (getIdentity (pe_identities env) (the (pv_identity p))) (\<lambda>info. io_return (p\<lparr>pv_identityInfo := info\<rparr>))
      else io_return p)"

definition with_latest_info :: "'s providers_env \<Rightarrow> staking_provider \<Rightarrow> ('s, staking_provider) io" where
  "with_latest_info env p =
     io_bind (getProviderConfig env (pv_provider p)) (\<lambda>config.
     io_bind (getTotalActiveStake env (pv_provider p)) (\<lambda>activeStake.
     io_bind (getNumNodes env (pv_provider p)) (\<lambda>numNodes. io_return
       (case config of
          None \<Rightarrow> p
        | Some c \<Rightarrow>
            (let p = p\<lparr>pv_serviceFee := pc_serviceFee c\<rparr>;
                 p = (if pv_automaticActivation p \<noteq> None then p\<lparr>pv_automaticActivation := Some (pc_automaticActivation c)\<rparr> else p);
                 p = (if pv_checkCapOnRedelegate p \<noteq> None then p\<lparr>pv_checkCapOnRedelegate := Some (pc_checkCapOnRedelegate c)\<rparr> else p)
             in p\<lparr>pv_delegationCap := pc_delegationCap c, ns_numNodes := numNodes, ns_locked := activeStake\<rparr>)))))"

definition queryProviders :: "'s providers_env \<Rightarrow> provider_filter \<Rightarrow> provider_options option \<Rightarrow> ('s, staking_provider list) io" where
  "queryProviders env query options =
     io_bind (getFilteredProviders env query) (\<lambda>providers.
     io_bind (if Option.bind options po_withIdentityInfo = Some True then io_mapM (with_identity_info env) providers
              else io_return (map (pv_identityInfo_update (\<lambda>_. None)) providers)) (\<lambda>providers.
       if Option.bind options po_withLatestInfo = Some True then io_mapM (with_latest_info env) providers else io_return providers))"

definition getProvider :: "'s providers_env \<Rightarrow> string \<Rightarrow> ('s, staking_provider option) io" where
  "getProvider env address =
     io_bind (queryProviders env \<lparr>pf_identity = None, pf_providers = None, pf_owner = None\<rparr> None) (\<lambda>providers.
       case List.find (\<lambda>p. pv_provider p = address) providers of
         None \<Rightarrow> io_return None
       | Some p \<Rightarrow>
           io_bind (getDelegationProviderByAddress env (pv_provider p)) (\<lambda>delegation. io_return
             (map_option (\<lambda>d. p\<lparr>pv_automaticActivation := Some (dd_automaticActivation d),
                pv_initialOwnerFunds := Some (dd_initialOwnerFunds d), pv_checkCapOnRedelegate := Some (dd_checkCapOnRedelegate d),
                pv_totalUnStaked := Some (dd_totalUnStaked d), pv_createdNonce := Some (dd_createdNonce d),
                pv_ownerBelowRequiredBalanceThreshold := Some (dd_ownerBelowRequiredBalanceThreshold d)\<rparr>) delegation)))"

definition isProvider :: "'s providers_env \<Rightarrow> string \<Rightarrow> ('s, bool) io" where
  "isProvider env address = io_bind (getProvider env address) (\<lambda>p. io_return (p \<noteq> None))"

definition getProviderIdentity :: "'s providers_env \<Rightarrow> string \<Rightarrow> ('s, string option) io" where
  "getProviderIdentity env address =
     io_bind (getProvider env address) (\<lambda>p. io_return (case p of None \<Rightarrow> None
       | Some q \<Rightarrow> if truthy (pv_identity q) then pv_identity q else None))"

definition getProviderAvatar :: "'s providers_env \<Rightarrow> string \<Rightarrow> ('s, string option) io" where
  "getProviderAvatar env address =
     io_bind (getProviderIdentity env address) (\<lambda>identity.
       if truthy identity then getIdentityAvatar (pe_identities env) (the identity) else io_return None)"

definition getProviderAccounts :: "'s providers_env \<Rightarrow> string \<Rightarrow> pagination \<Rightarrow> ('s, (string \<times> string) list) io" where
  "getProviderAccounts env address p =
     io_bind (pe_delegators env address p) (\<lambda>accounts. io_return (coalesce accounts []))"

definition getProviderAccountsCount :: "'s providers_env \<Rightarrow> string \<Rightarrow> ('s, int) io" where
  "getProviderAccountsCount env address = pe_delegatorsCount env address"

section \<open>Properties\<close>

lemma add_node_infos_sums:
  assumes "\<And>n. n \<in> set nodes \<Longrightarrow> complete_node n \<Longrightarrow>
      js_BigInt (nd_stake n) = Inr (st n) \<and> js_BigInt (nd_topUp n) = Inr (tu n) \<and> js_BigInt (nd_locked n) = Inr (lo n)"
  shows "add_node_infos nodes (c, s, t, l) = Inr (let own = filter complete_node nodes in
      (c + int (length own), s + sum_list (map st own), t + sum_list (map tu own), l + sum_list (map lo own)))"
  using assms
proof (induction nodes arbitrary: c s t l)
  case (Cons n nodes)
  have step: "add_node_info n (c, s, t, l) = Inr (if complete_node n then (c + 1, s + st n, t + tu n, l + lo n) else (c, s, t, l))"
    using Cons.prems [of n] by (simp add: add_node_info_def)
  have "add_node_infos nodes (c', s', t', l') = Inr (let own = filter complete_node nodes in
      (c' + int (length own), s' + sum_list (map st own), t' + sum_list (map tu own), l' + sum_list (map lo own)))" for c' s' t' l'
    by (rule Cons.IH) (use Cons.prems in auto)
  with step show ?case by (simp add: Let_def algebra_simps)
qed simp

text \<open>
  The stake of a provider: the number of its nodes that have all three amounts, and the sums of their
  amounts.
\<close>

theorem provider_stake_totals:
  assumes "\<And>n. n \<in> set nodes \<Longrightarrow> complete_node n \<Longrightarrow>
      js_BigInt (nd_stake n) = Inr (st n) \<and> js_BigInt (nd_topUp n) = Inr (tu n) \<and> js_BigInt (nd_locked n) = Inr (lo n)"
  shows "getNodesInfosForProvider nodes = Inr
    \<lparr>ns_numNodes = int (length (filter complete_node nodes)), ns_stake = int_str (sum_list (map st (filter complete_node nodes))),
     ns_topUp = int_str (sum_list (map tu (filter complete_node nodes))), ns_locked = int_str (sum_list (map lo (filter complete_node nodes)))\<rparr>"
  using add_node_infos_sums [OF assms, of nodes] by (simp add: getNodesInfosForProvider_def Let_def)

definition locked_units :: "staking_provider \<Rightarrow> int" where
  "locked_units p = coalesce (sort_amount (ns_locked p)) 0"

interpretation by_locked: consistent_comparison "\<lambda>a b. locked_units b - locked_units a"
  by unfold_locales auto

lemma js_insert_cong:
  "(\<And>y. y \<in> set ys \<Longrightarrow> c x y = d x y) \<Longrightarrow> js_insert c x ys = js_insert d x ys"
  by (induction ys) auto

lemma js_sort_cong:
  assumes "\<And>x y. x \<in> set xs \<Longrightarrow> y \<in> set xs \<Longrightarrow> c x y = d x y"
  shows "js_sort c xs = js_sort d xs"
proof -
  have "js_sort c ys = js_sort d ys" if "set ys \<subseteq> set xs" for ys
    using that
  proof (induction ys)
    case (Cons y ys)
    then have same: "js_sort c ys = js_sort d ys" by simp
    have "js_sort c (y # ys) = js_insert c y (js_sort c ys)" by (simp add: js_sort_def)
    also have "\<dots> = js_insert d y (js_sort d ys)"
      unfolding same by (rule js_insert_cong) (use Cons.prems assms in auto)
    finally show ?case by (simp add: js_sort_def)
  qed (simp add: js_sort_def)
  then show ?thesis by simp
qed

lemma github_validation_keeps: "github_validation env p s = (Inr q, t) \<Longrightarrow> nodes_infos.truncate q = nodes_infos.truncate p \<and> pv_provider q = pv_provider p"
  by (auto simp: github_validation_def io_simps nodes_infos.truncate_def split: if_splits prod.splits sum.splits)

lemma io_mapM_related:
  assumes "io_mapM f xs s = (Inr ys, t)" and "\<And>x s y t. f x s = (Inr y, t) \<Longrightarrow> R x y"
  shows "list_all2 R xs ys"
  using assms(1)
proof (induction xs arbitrary: s ys)
  case (Cons x xs)
  then show ?case by (auto simp: io_simps intro: assms(2) split: prod.splits sum.splits)
qed (simp add: io_simps)

lemma stake_information:
  assumes "getAllProviders env s = (Inr providers, s1)" and "ie_getAllNodes (pe_identities env) s1 = (Inr nodes, s2)"
    and "getDelegationProviders env s2 = (Inr (Some ds), s3)"
    and "res_map (with_stake env ds (pe_groupBy env (\<lambda>n. coalesce (nd_provider n) ''undefined'') nodes)) providers = Inr staked"
  shows "getProvidersWithStakeInformationRaw env s = io_mapM (github_validation env) (js_sort compare_locked staked) s3"
  using assms by (simp add: getProvidersWithStakeInformationRaw_def io_simps)

text \<open>
  The order of the providers: as long as every locked stake is zero or at least a whole unit, they come
  by their locked stake in whole units, the largest first, and none is lost.
\<close>

theorem providers_in_order:
  assumes "getAllProviders env s = (Inr providers, s1)" and "ie_getAllNodes (pe_identities env) s1 = (Inr nodes, s2)"
    and "getDelegationProviders env s2 = (Inr (Some ds), s3)"
    and "res_map (with_stake env ds (pe_groupBy env (\<lambda>n. coalesce (nd_provider n) ''undefined'') nodes)) providers = Inr staked"
    and units: "\<forall>p \<in> set staked. sort_amount (ns_locked p) \<noteq> None"
    and result: "getProvidersWithStakeInformationRaw env s = (Inr shown, t)"
  shows "sorted_wrt (\<lambda>a b. locked_units a \<ge> locked_units b) shown
    \<and> image_mset pv_provider (mset shown) = image_mset pv_provider (mset staked)"
proof -
  have "compare_locked a b = locked_units b - locked_units a" if "a \<in> set staked" "b \<in> set staked" for a b
    using units that by (auto simp: compare_locked_def locked_units_def difference_def split: option.splits)
  then have sort: "js_sort compare_locked staked = js_sort (\<lambda>a b. locked_units b - locked_units a) staked" by (rule js_sort_cong)
  have "io_mapM (github_validation env) (js_sort compare_locked staked) s3 = (Inr shown, t)"
    using result stake_information [OF assms(1-4)] by simp
  then have "list_all2 (\<lambda>p q. nodes_infos.truncate q = nodes_infos.truncate p \<and> pv_provider q = pv_provider p) (js_sort compare_locked staked) shown"
    by (rule io_mapM_related) (rule github_validation_keeps)
  then have "list_all2 (\<lambda>p q. locked_units q = locked_units p \<and> pv_provider q = pv_provider p) (js_sort compare_locked staked) shown"
    by (rule list_all2_mono) (auto simp: locked_units_def nodes_infos.truncate_def)
  then have "map locked_units shown = map locked_units (js_sort compare_locked staked)"
    and names: "map pv_provider shown = map pv_provider (js_sort compare_locked staked)"
    by (induction rule: list_all2_induct) simp_all
  moreover have "sorted_wrt (\<ge>) (map locked_units (js_sort compare_locked staked))"
    using by_locked.sort_ordered [of staked] unfolding sort sorted_wrt_map by simp
  ultimately have "sorted_wrt (\<ge>) (map locked_units shown)" by simp
  then have "sorted_wrt (\<lambda>a b. locked_units a \<ge> locked_units b) shown" by (simp add: sorted_wrt_map)
  moreover have "image_mset pv_provider (mset shown) = image_mset pv_provider (mset staked)"
    using names by (metis mset_js_sort mset_map)
  ultimately show ?thesis by blast
qed

text \<open>
  A provider without an answer of the delegation service: an error there makes a provider that is listed
  count as none.
\<close>

theorem provider_needs_delegation_service:
  assumes "\<And>k m ttl. pe_getOrSetDelegation env k m ttl = m"
    and "\<And>url s. pe_fetchDelegation env url s = (Inl e, s)"
    and "queryProviders env \<lparr>pf_identity = None, pf_providers = None, pf_owner = None\<rparr> None s = (Inr providers, t)"
  shows "isProvider env address s = (Inr False, t)"
proof -
  have "getDelegationProviderByAddress env a u = (Inr None, u)" for a u
    using assms(1,2) by (simp add: getDelegationProviderByAddress_def getDelegationProviderByAddressRaw_def Let_def io_simps)
  with assms(3) show ?thesis by (simp add: isProvider_def getProvider_def io_simps split: option.splits)
qed

section \<open>Witnesses\<close>

lemma io_mapM_idle: "(\<And>x. x \<in> set xs \<Longrightarrow> f x s = (Inr x, s)) \<Longrightarrow> io_mapM f xs s = (Inr xs, s)"
  by (induction xs) (auto simp: io_simps)

definition sample_provider :: "string \<Rightarrow> string \<Rightarrow> staking_provider" where
  "sample_provider address locked = (new_provider address new_provider_config None None)\<lparr>ns_locked := locked\<rparr>"

definition sample_node :: "string \<Rightarrow> string \<Rightarrow> string \<Rightarrow> string \<Rightarrow> node" where
  "sample_node address stake topUp locked = new_node\<lparr>nd_provider := Some address, nd_stake := stake, nd_topUp := topUp, nd_locked := locked\<rparr>"

definition plain_providers_env :: "staking_provider list \<Rightarrow> 's providers_env" where
  "plain_providers_env providers = \<lparr>pe_identities = plain_identities_env [], pe_vmQuery = \<lambda>_ _ _. io_return (Some []),
     pe_base64ToHex = id, pe_base64ToText = id, pe_base64ToBigInt = \<lambda>_. Inr 0, pe_bech32Encode = Inr, pe_toFixed2 = id,
     pe_isoDate = int_str, pe_groupBy = \<lambda>key nodes k. (if filter (\<lambda>n. key n = k) nodes = [] then None else Some (filter (\<lambda>n. key n = k) nodes)),
     pe_delegationContract = None, pe_delegationManager = [], pe_providersUrl = [], pe_providersFetchUrl = [],
     pe_isProvidersFetchFeatureEnabled = False, pe_batchConfigs = \<lambda>_ _ _ _. io_return [], pe_batchCounts = \<lambda>_ _ _ _. io_return [],
     pe_batchTexts = \<lambda>_ _ _ _. io_return [], pe_getRemote = \<lambda>_. io_return None, pe_getRemoteNumber = \<lambda>_. io_return None,
     pe_set = \<lambda>_ _ _. io_return (), pe_getOrSetProviders = \<lambda>_ _ _. io_return providers, pe_getOrSetDelegations = \<lambda>_ m _. m,
     pe_getOrSetDelegation = \<lambda>_ m _. m, pe_fetchDelegations = \<lambda>_. io_return (Some []), pe_fetchDelegation = \<lambda>_. io_throw TypeError,
     pe_fetchProviders = \<lambda>_. io_return [], pe_delegators = \<lambda>_ _. io_return None, pe_delegatorsCount = \<lambda>_. io_return 0\<rparr>"

abbreviation sample_providers_env :: "staking_provider list \<Rightarrow> unit providers_env" where
  "sample_providers_env \<equiv> plain_providers_env"

theorem provider_stake_totals_witness:
  "getNodesInfosForProvider [sample_node ''p'' (int_str 2500) (int_str 3) (int_str 2503), sample_node ''p'' [] [] []]
     = Inr \<lparr>ns_numNodes = 1, ns_stake = int_str 2500, ns_topUp = (int_str 3), ns_locked = (int_str 2503)\<rparr>"
proof -
  have "getNodesInfosForProvider [sample_node ''p'' (int_str 2500) (int_str 3) (int_str 2503), sample_node ''p'' [] [] []]
     = Inr \<lparr>ns_numNodes = int (length (filter complete_node [sample_node ''p'' (int_str 2500) (int_str 3) (int_str 2503), sample_node ''p'' [] [] []])),
       ns_stake = int_str (sum_list (map (\<lambda>_. 2500) (filter complete_node [sample_node ''p'' (int_str 2500) (int_str 3) (int_str 2503), sample_node ''p'' [] [] []]))),
       ns_topUp = int_str (sum_list (map (\<lambda>_. 3) (filter complete_node [sample_node ''p'' (int_str 2500) (int_str 3) (int_str 2503), sample_node ''p'' [] [] []]))),
       ns_locked = int_str (sum_list (map (\<lambda>_. 2503) (filter complete_node [sample_node ''p'' (int_str 2500) (int_str 3) (int_str 2503), sample_node ''p'' [] [] []])))\<rparr>"
    by (rule provider_stake_totals) (auto simp: complete_node_def sample_node_def new_node_def BigInt_int_str)
  then show ?thesis by (simp add: complete_node_def sample_node_def)
qed

lemma sample_with_stake:
  "with_stake (sample_providers_env providers) [] nodesOf (sample_provider a l)
    = res_bind (getNodesInfosForProvider (coalesce (nodesOf a) [])) (\<lambda>infos. Inr ((sample_provider a l)\<lparr>ns_numNodes := ns_numNodes infos,
        ns_stake := ns_stake infos, ns_topUp := ns_topUp infos, ns_locked := ns_locked infos\<rparr>))"
  by (simp add: with_stake_def sample_provider_def new_provider_def)

theorem providers_in_order_witness:
  "\<exists>shown. getProvidersWithStakeInformationRaw (sample_providers_env [sample_provider ''p'' ''0'', sample_provider ''q'' ''0'']) () = (Inr shown, ())
    \<and> sorted_wrt (\<lambda>a b. locked_units a \<ge> locked_units b) shown"
proof -
  let ?env = "sample_providers_env [sample_provider ''p'' ''0'', sample_provider ''q'' ''0'']"
  let ?staked = "[(sample_provider ''p'' ''0'')\<lparr>ns_numNodes := 0, ns_stake := ''0'', ns_topUp := ''0'', ns_locked := ''0''\<rparr>,
    (sample_provider ''q'' ''0'')\<lparr>ns_numNodes := 0, ns_stake := ''0'', ns_topUp := ''0'', ns_locked := ''0''\<rparr>]"
  have all: "getAllProviders ?env () = (Inr [sample_provider ''p'' ''0'', sample_provider ''q'' ''0''], ())"
    by (simp add: getAllProviders_def plain_providers_env_def Let_def io_return_def)
  have nodes: "ie_getAllNodes (pe_identities ?env) () = (Inr [], ())"
    by (simp add: plain_providers_env_def plain_identities_env_def io_return_def)
  have delegations: "getDelegationProviders ?env () = (Inr (Some []), ())"
    by (simp add: getDelegationProviders_def getDelegationProvidersRaw_def plain_providers_env_def Let_def io_simps)
  have "pe_groupBy ?env key [] = Map.empty" for key by (intro ext) (simp add: plain_providers_env_def)
  then have staked: "res_map (with_stake ?env [] (pe_groupBy ?env (\<lambda>n. coalesce (nd_provider n) ''undefined'') []))
      [sample_provider ''p'' ''0'', sample_provider ''q'' ''0''] = Inr ?staked"
    by (simp add: sample_with_stake getNodesInfosForProvider_def int_str_zero)
  have units: "\<forall>p \<in> set ?staked. sort_amount (ns_locked p) \<noteq> None" by (simp add: sort_amount_def)
  have no_identity: "\<forall>p \<in> set (js_sort compare_locked ?staked). pv_identity p = None"
    unfolding set_js_sort by (simp add: sample_provider_def new_provider_def)
  have "io_mapM (github_validation ?env) (js_sort compare_locked ?staked) () = (Inr (js_sort compare_locked ?staked), ())"
  proof (rule io_mapM_idle)
    fix p
    assume "p \<in> set (js_sort compare_locked ?staked)"
    with no_identity have "pv_identity p = None" by blast
    then show "github_validation ?env p () = (Inr p, ())" unfolding github_validation_def io_return_def by simp
  qed
  then have "getProvidersWithStakeInformationRaw ?env () = (Inr (js_sort compare_locked ?staked), ())"
    by (simp only: stake_information [OF all nodes delegations staked])
  from providers_in_order [OF all nodes delegations staked units this] this show ?thesis by blast
qed

theorem provider_needs_delegation_service_witness:
  "isProvider (sample_providers_env [sample_provider ''p'' ''0'']) ''p'' () = (Inr False, ())"
proof (rule provider_needs_delegation_service)
  show "queryProviders (sample_providers_env [sample_provider ''p'' ''0'']) \<lparr>pf_identity = None, pf_providers = None, pf_owner = None\<rparr> None ()
      = (Inr [(sample_provider ''p'' ''0'')\<lparr>pv_identityInfo := None\<rparr>], ())"
    by (simp add: queryProviders_def getFilteredProviders_def getProvidersWithStakeInformation_def plain_providers_env_def Let_def io_simps)
qed (simp_all add: plain_providers_env_def io_throw_def)

end
