(* ===== verification/Esdts.thy ===== *)
theory Esdts imports TransactionAction CacheInfo begin

text \<open>
  Properties, roles and supply of tokens (\<open>src/endpoints/esdt/esdt.service.ts\<close>, with
  \<open>src/utils/token.helpers.ts\<close> and the entities that they fill). A type of token is its text, since the
  chain and the index give types that the enumerations do not have.
\<close>

section \<open>Data\<close>

text \<open>A member that one of the sources does not set is \<open>None\<close>.\<close>

record token_props =
  pr_identifier :: string
  pr_name :: string
  pr_type :: string
  pr_subType :: "string option"
  pr_owner :: string
  pr_wiped :: "string option"
  pr_decimals :: "int option"
  pr_isPaused :: bool
  pr_canUpgrade :: bool
  pr_canMint :: bool
  pr_canBurn :: bool
  pr_canChangeOwner :: bool
  pr_canPause :: bool
  pr_canFreeze :: bool
  pr_canWipe :: bool
  pr_canAddSpecialRoles :: bool
  pr_canTransferNFTCreateRole :: "bool option"
  pr_NFTCreateStopped :: "bool option"
  pr_timestamp :: "int option"
  pr_ownersHistory :: "(string \<times> int) list option"

record token_roles =
  ro_address :: "string option"
  ro_canLocalMint :: bool
  ro_canLocalBurn :: bool
  ro_canCreate :: "bool option"
  ro_canBurn :: "bool option"
  ro_canAddQuantity :: "bool option"
  ro_canUpdateAttributes :: "bool option"
  ro_canAddUri :: "bool option"
  ro_canTransfer :: "bool option"
  ro_roles :: "string list"

definition new_token_roles :: token_roles where
  "new_token_roles = \<lparr>ro_address = None, ro_canLocalMint = False, ro_canLocalBurn = False, ro_canCreate = None, ro_canBurn = None,
     ro_canAddQuantity = None, ro_canUpdateAttributes = None, ro_canAddUri = None, ro_canTransfer = None, ro_roles = []\<rparr>"

record collection_roles =
  cr_address :: "string option"
  cr_canCreate :: bool
  cr_canBurn :: bool
  cr_canAddQuantity :: bool
  cr_canUpdateAttributes :: bool
  cr_canAddUri :: bool
  cr_canTransfer :: "bool option"
  cr_roles :: "string list"

definition new_collection_roles :: collection_roles where
  "new_collection_roles = \<lparr>cr_address = None, cr_canCreate = False, cr_canBurn = False, cr_canAddQuantity = False,
     cr_canUpdateAttributes = False, cr_canAddUri = False, cr_canTransfer = None, cr_roles = []\<rparr>"

record locked_account =
  la_address :: string
  la_name :: "string option"
  la_balance :: string

text \<open>The locked accounts of the assets of a token: addresses, or addresses with their names.\<close>

datatype locked_assets = Locked_addresses "string list" | Locked_names "(string \<times> string) list"

record gateway_supply =
  gs_supply :: string
  gs_minted :: string
  gs_burned :: string
  gs_initialMinted :: string

record esdt_supply =
  es_totalSupply :: string
  es_circulatingSupply :: string
  es_minted :: string
  es_burned :: string
  es_initialMinted :: string
  es_lockedAccounts :: "locked_account list option"

text \<open>\<open>ep_property\<close> reads a member of \<open>properties\<close>, which may be missing.\<close>

record elastic_properties =
  ep_identifier :: string
  ep_name :: string
  ep_type :: string
  ep_currentOwner :: string
  ep_ownersHistory :: "(string \<times> int) list option"
  ep_numDecimals :: "int option"
  ep_property :: "string \<Rightarrow> bool option"
  ep_paused :: "bool option"
  ep_timestamp :: "int option"

text \<open>
  The services: \<open>qe_vmQuery\<close> asks the contract of the tokens, and gives \<open>None\<close> for no answer;
  \<open>qe_tryBase64ToAddress\<close> gives \<open>None\<close> when the bytes are no address. \<open>qe_getAllAccountsWithToken\<close> calls
  the function with one page of addresses after the other.
\<close>

record 's esdt_env =
  qe_consts :: time_consts
  qe_vmQuery :: "string \<Rightarrow> string list \<Rightarrow> ('s, string option list option) io"
  qe_textToHex :: "string \<Rightarrow> string"
  qe_base64ToText :: "string \<Rightarrow> string"
  qe_base64ToHex :: "string \<Rightarrow> string"
  qe_bech32Encode :: "string \<Rightarrow> string res"
  qe_tryBase64ToAddress :: "string option \<Rightarrow> string option"
  qe_fromGateway :: bool
  qe_getEsdtProperties :: "string \<Rightarrow> ('s, elastic_properties option) io"
  qe_getAllFungibleTokens :: "('s, elastic_properties list) io"
  qe_getEsdtFungibleTokens :: "('s, string list) io"
  qe_batchProcess :: "string list \<Rightarrow> (string \<Rightarrow> string) \<Rightarrow> (string \<Rightarrow> ('s, token_props option) io) \<Rightarrow> int \<Rightarrow> ('s, token_props option list) io"
  qe_getOrSetProperties :: "string \<Rightarrow> ('s, token_props option) io \<Rightarrow> int \<Rightarrow> int \<Rightarrow> ('s, token_props option) io"
  qe_getOrSetRoles :: "string \<Rightarrow> ('s, token_roles list option) io \<Rightarrow> int \<Rightarrow> int \<Rightarrow> ('s, token_roles list option) io"
  qe_getOrSetLocked :: "string \<Rightarrow> ('s, locked_account list) io \<Rightarrow> int \<Rightarrow> ('s, locked_account list) io"
  qe_lockedAssets :: "string \<Rightarrow> ('s, locked_assets option) io"
  qe_getAccountEsdt :: "string \<Rightarrow> string list \<Rightarrow> ('s, (string \<times> string) list) io"
  qe_getEsdtSupply :: "string \<Rightarrow> ('s, gateway_supply) io"
  qe_formatTokenSupply :: "string \<Rightarrow> gateway_supply \<Rightarrow> gateway_supply"
  qe_getAllAccountsWithToken :: "string \<Rightarrow> (string list \<Rightarrow> ('s, unit) io) \<Rightarrow> ('s, unit) io"
  qe_distinct :: "string list \<Rightarrow> string list"
  qe_randomUUID :: "'s \<Rightarrow> string"
  qe_setAdd :: "string \<Rightarrow> string list \<Rightarrow> ('s, unit) io"
  qe_setCount :: "string \<Rightarrow> ('s, int) io"
  qe_delete :: "string \<Rightarrow> ('s, unit) io"

section \<open>Helpers\<close>

text \<open>\<open>s.split('-').pop()\<close>.\<close>

definition last_part :: "string \<Rightarrow> string" where
  "last_part s = last (split_on CHR ''-'' s)"

definition canBool :: "string \<Rightarrow> bool" where
  "canBool s \<longleftrightarrow> last_part s = ''true''"

text \<open>\<open>parseInt(s)\<close>: the longest prefix that is a number; \<open>None\<close> is not a number.\<close>

definition parseInt :: "string \<Rightarrow> int option" where
  "parseInt s =
     (let t = dropWhile is_space s;
          negative = (t \<noteq> [] \<and> hd t = CHR ''-'');
          t = (if t \<noteq> [] \<and> (hd t = CHR ''-'' \<or> hd t = CHR ''+'') then tl t else t);
          n = (if take 2 t \<in> {''0x'', ''0X''} then parse_base 16 (takeWhile (\<lambda>c. digit_value c < 16) (drop 2 t))
               else parse_base 10 (takeWhile (\<lambda>c. digit_value c < 10) t))
      in map_option (\<lambda>i. if negative then - i else i) n)"

definition setTokenRole :: "string \<Rightarrow> token_roles \<Rightarrow> token_roles" where
  "setTokenRole role r =
     (let r = r\<lparr>ro_roles := ro_roles r @ [role]\<rparr>
      in if role = ''ESDTRoleLocalMint'' then r\<lparr>ro_canLocalMint := True\<rparr>
         else if role = ''ESDTRoleLocalBurn'' then r\<lparr>ro_canLocalBurn := True\<rparr>
         else r)"

definition setCollectionRole :: "string \<Rightarrow> collection_roles \<Rightarrow> collection_roles" where
  "setCollectionRole role r =
     (let r = r\<lparr>cr_roles := cr_roles r @ [role]\<rparr>
      in if role = ''ESDTRoleNFTCreate'' then r\<lparr>cr_canCreate := True\<rparr>
         else if role = ''ESDTRoleNFTBurn'' then r\<lparr>cr_canBurn := True\<rparr>
         else if role = ''ESDTRoleNFTAddQuantity'' then r\<lparr>cr_canAddQuantity := True\<rparr>
         else if role = ''ESDTRoleNFTAddURI'' then r\<lparr>cr_canAddUri := True\<rparr>
         else if role = ''ESDTRoleNFTUpdateAttributes'' then r\<lparr>cr_canUpdateAttributes := True\<rparr>
         else if role = ''ESDTTransferRole'' then r\<lparr>cr_canTransfer := Some True\<rparr>
         else r)"

text \<open>The collection of an NFT: the first two parts of its identifier.\<close>

definition getCollectionIdentifier :: "string \<Rightarrow> string" where
  "getCollectionIdentifier nftIdentifier = join ''-'' (take 2 (split_on CHR ''-'' nftIdentifier))"

section \<open>Properties\<close>

definition applySubType :: "string \<Rightarrow> token_props \<Rightarrow> token_props" where
  "applySubType type p =
     (if type = ''NonFungibleESDTv2'' \<or> type = ''DynamicNonFungibleESDT''
      then p\<lparr>pr_type := ''NonFungibleESDT'', pr_subType := Some type\<rparr>
      else if type = ''DynamicSemiFungibleESDT'' then p\<lparr>pr_type := ''SemiFungibleESDT'', pr_subType := Some type\<rparr>
      else if type = ''DynamicMetaESDT'' then p\<lparr>pr_type := ''MetaESDT'', pr_subType := Some type\<rparr>
      else p)"

definition mapEsdtTokenPropertiesFromElastic :: "elastic_properties option \<Rightarrow> token_props res" where
  "mapEsdtTokenPropertiesFromElastic doc =
     (case doc of
        None \<Rightarrow> Inl TypeError
      | Some e \<Rightarrow>
          (let can = (\<lambda>k. coalesce (ep_property e k) False);
               p = \<lparr>pr_identifier = ep_identifier e, pr_name = ep_name e, pr_type = ep_type e, pr_subType = Some (ep_type e),
                 pr_owner = ep_currentOwner e, pr_wiped = Some [], pr_decimals = ep_numDecimals e, pr_isPaused = coalesce (ep_paused e) False,
                 pr_canUpgrade = can ''canUpgrade'', pr_canMint = can ''canMint'', pr_canBurn = can ''canBurn'',
                 pr_canChangeOwner = can ''canChangeOwner'', pr_canPause = can ''canPause'', pr_canFreeze = can ''canFreeze'',
                 pr_canWipe = can ''canWipe'', pr_canAddSpecialRoles = can ''canAddSpecialRoles'',
                 pr_canTransferNFTCreateRole = Some (can ''canTransferNFTCreateRole''),
                 pr_NFTCreateStopped = Some (can ''NFTCreateStopped''), pr_timestamp = ep_timestamp e,
                 pr_ownersHistory = ep_ownersHistory e\<rparr>;
               p = (if ep_type e = ''FungibleESDT''
                    then p\<lparr>pr_canTransferNFTCreateRole := None, pr_NFTCreateStopped := None\<rparr> else p)
           in Inr (applySubType (ep_type e) p)))"

definition getEsdtTokenPropertiesRawFromElastic :: "'s esdt_env \<Rightarrow> string \<Rightarrow> ('s, token_props) io" where
  "getEsdtTokenPropertiesRawFromElastic env identifier =
     io_bind (qe_getEsdtProperties env identifier) (\<lambda>doc. io_lift (mapEsdtTokenPropertiesFromElastic doc))"

text \<open>The decoded values, the third as hexadecimal digits; \<open>null\<close> and missing values throw.\<close>

definition decoded_values :: "'s esdt_env \<Rightarrow> string option list \<Rightarrow> string list res" where
  "decoded_values env cells = res_map (\<lambda>i. case cells ! i of
     None \<Rightarrow> Inl TypeError
   | Some encoded \<Rightarrow> Inr (if i = 2 then qe_base64ToHex env encoded else qe_base64ToText env encoded)) [0..<length cells]"

definition props_of_values :: "'s esdt_env \<Rightarrow> string \<Rightarrow> string list \<Rightarrow> token_props res" where
  "props_of_values env identifier values =
     (if length values < 18 then Inl TypeError
      else res_bind (qe_bech32Encode env (values ! 2)) (\<lambda>owner.
        let type = values ! 1;
            p = \<lparr>pr_identifier = identifier, pr_name = values ! 0, pr_type = type, pr_subType = None, pr_owner = owner,
              pr_wiped = Some (last_part (values ! 17)), pr_decimals = parseInt (last_part (values ! 5)),
              pr_isPaused = canBool (values ! 6), pr_canUpgrade = canBool (values ! 7), pr_canMint = canBool (values ! 8),
              pr_canBurn = canBool (values ! 9), pr_canChangeOwner = canBool (values ! 10), pr_canPause = canBool (values ! 11),
              pr_canFreeze = canBool (values ! 12), pr_canWipe = canBool (values ! 13),
              pr_canAddSpecialRoles = canBool (values ! 14), pr_canTransferNFTCreateRole = Some (canBool (values ! 15)),
              pr_NFTCreateStopped = Some (canBool (values ! 16)), pr_timestamp = None, pr_ownersHistory = None\<rparr>;
            p = (if type = ''FungibleESDT''
                 then p\<lparr>pr_canTransferNFTCreateRole := None, pr_NFTCreateStopped := None, pr_wiped := None\<rparr> else p)
        in Inr (applySubType type p)))"

definition getEsdtTokenPropertiesRawFromGateway :: "'s esdt_env \<Rightarrow> string \<Rightarrow> ('s, token_props option) io" where
  "getEsdtTokenPropertiesRawFromGateway env identifier =
     io_bind (qe_vmQuery env ''getTokenProperties'' [qe_textToHex env identifier]) (\<lambda>response.
       case response of
         None \<Rightarrow> io_return None
       | Some cells \<Rightarrow>
           io_bind (io_lift (decoded_values env cells)) (\<lambda>values.
           io_bind (io_lift (props_of_values env identifier values)) (\<lambda>p. io_return (Some p))))"

definition getEsdtTokenPropertiesRaw :: "'s esdt_env \<Rightarrow> string \<Rightarrow> ('s, token_props option) io" where
  "getEsdtTokenPropertiesRaw env identifier =
     (if \<not> qe_fromGateway env
      then io_bind (getEsdtTokenPropertiesRawFromElastic env identifier) (\<lambda>p. io_return (Some p))
      else getEsdtTokenPropertiesRawFromGateway env identifier)"

definition getEsdtTokenProperties :: "'s esdt_env \<Rightarrow> string \<Rightarrow> ('s, token_props option) io" where
  "getEsdtTokenProperties env identifier =
     (let info = CacheInfo_EsdtProperties (qe_consts env) identifier
      in io_catch (qe_getOrSetProperties env (ci_key info) (getEsdtTokenPropertiesRaw env identifier) (oneWeek (qe_consts env)) (ci_ttl info))
           (\<lambda>_. io_return None))"

definition getCollectionProperties :: "'s esdt_env \<Rightarrow> string \<Rightarrow> ('s, token_props option) io" where
  "getCollectionProperties env identifier =
     (let info = CacheInfo_CollectionProperties (qe_consts env) identifier
      in qe_getOrSetProperties env (ci_key info) (getEsdtTokenPropertiesRawFromGateway env identifier) (oneWeek (qe_consts env)) (ci_ttl info))"

definition getAllFungibleTokenPropertiesFromElastic :: "'s esdt_env \<Rightarrow> ('s, token_props list) io" where
  "getAllFungibleTokenPropertiesFromElastic env =
     io_bind (qe_getAllFungibleTokens env) (\<lambda>docs. io_lift (res_map (\<lambda>d. mapEsdtTokenPropertiesFromElastic (Some d)) docs))"

definition getAllFungibleTokenPropertiesFromGateway :: "'s esdt_env \<Rightarrow> ('s, token_props list) io" where
  "getAllFungibleTokenPropertiesFromGateway env =
     io_bind (io_catch (io_bind (qe_getEsdtFungibleTokens env) (\<lambda>xs. io_return (Some xs))) (\<lambda>_. io_return None)) (\<lambda>identifiers.
       case identifiers of
         None \<Rightarrow> io_return []
       | Some xs \<Rightarrow>
           io_bind (qe_batchProcess env xs (\<lambda>token. ci_key (CacheInfo_EsdtProperties (qe_consts env) token))
               (getEsdtTokenPropertiesRawFromGateway env) (oneDay (qe_consts env))) (\<lambda>props.
             io_return (map the (filter (\<lambda>x. x \<noteq> None) props))))"

definition getAllFungibleTokenProperties :: "'s esdt_env \<Rightarrow> ('s, token_props list) io" where
  "getAllFungibleTokenProperties env =
     (if \<not> qe_fromGateway env then getAllFungibleTokenPropertiesFromElastic env else getAllFungibleTokenPropertiesFromGateway env)"

section \<open>Roles\<close>

text \<open>The loop over the answer: the finished roles, and those that are being read.\<close>

definition finish_roles :: "token_roles option \<Rightarrow> token_roles list \<Rightarrow> token_roles list" where
  "finish_roles current result =
     (case current of Some r \<Rightarrow> if truthy (ro_address r) then result @ [r] else result | None \<Rightarrow> result)"

definition roles_step :: "'s esdt_env \<Rightarrow> string option \<Rightarrow> token_roles list \<times> token_roles option \<Rightarrow> token_roles list \<times> token_roles option" where
  "roles_step env valueEncoded = (\<lambda>(result, current).
     let address = qe_tryBase64ToAddress env valueEncoded
     in if truthy address \<or> valueEncoded = None
        then (finish_roles current result, Some (new_token_roles\<lparr>ro_address := address\<rparr>))
        else (result, Some (setTokenRole (qe_base64ToText env (the valueEncoded))
               (case current of None \<Rightarrow> new_token_roles | Some r \<Rightarrow> r))))"

definition processEncodedAddressesAndRoles :: "'s esdt_env \<Rightarrow> string option list \<Rightarrow> token_roles list" where
  "processEncodedAddressesAndRoles env encodedData =
     (case fold (roles_step env) encodedData ([], None) of (result, current) \<Rightarrow> finish_roles current result)"

definition getEsdtAddressesRolesRaw :: "'s esdt_env \<Rightarrow> string \<Rightarrow> ('s, token_roles list option) io" where
  "getEsdtAddressesRolesRaw env identifier =
     io_bind (qe_vmQuery env ''getAllAddressesAndRoles'' [qe_textToHex env identifier]) (\<lambda>response. io_return
       (Some (case response of None \<Rightarrow> [] | Some cells \<Rightarrow> processEncodedAddressesAndRoles env cells)))"

definition getEsdtAddressesRoles :: "'s esdt_env \<Rightarrow> string \<Rightarrow> ('s, token_roles list option) io" where
  "getEsdtAddressesRoles env identifier =
     (let info = CacheInfo_EsdtAddressesRoles (qe_consts env) identifier
      in qe_getOrSetRoles env (ci_key info) (getEsdtAddressesRolesRaw env identifier) (oneWeek (qe_consts env)) (ci_ttl info))"

section \<open>Supply\<close>

definition locked_of_assets :: "locked_assets \<Rightarrow> locked_account list" where
  "locked_of_assets assets =
     (case assets of
        Locked_addresses as \<Rightarrow> map (\<lambda>a. \<lparr>la_address = a, la_name = None, la_balance = ''0''\<rparr>) as
      | Locked_names names \<Rightarrow> map (\<lambda>(a, n). \<lparr>la_address = a, la_name = Some n, la_balance = ''0''\<rparr>) names)"

fun set_first_balance :: "string \<times> string \<Rightarrow> locked_account list \<Rightarrow> locked_account list" where
  "set_first_balance entry [] = []"
| "set_first_balance entry (a # as) =
     (if la_address a = fst entry then a\<lparr>la_balance := snd entry\<rparr> # as else a # set_first_balance entry as)"

definition getLockedAccountsRaw :: "'s esdt_env \<Rightarrow> string \<Rightarrow> ('s, locked_account list) io" where
  "getLockedAccountsRaw env identifier =
     io_bind (qe_lockedAssets env identifier) (\<lambda>assets.
       case assets of
         None \<Rightarrow> io_return []
       | Some locked \<Rightarrow>
           (let accounts = locked_of_assets locked
            in if accounts = [] then io_return []
               else io_bind (qe_getAccountEsdt env identifier (map la_address accounts)) (\<lambda>entries.
                 io_return (fold set_first_balance entries accounts))))"

definition getLockedAccounts :: "'s esdt_env \<Rightarrow> string \<Rightarrow> ('s, locked_account list) io" where
  "getLockedAccounts env identifier =
     (let info = CacheInfo_TokenLockedAccounts (qe_consts env) identifier
      in qe_getOrSetLocked env (ci_key info) (getLockedAccountsRaw env identifier) (ci_ttl info))"

definition getEsdtTokenSupply :: "'s esdt_env \<Rightarrow> string \<Rightarrow> ('s, esdt_supply) io" where
  "getEsdtTokenSupply env identifier =
     io_bind (qe_getEsdtSupply env identifier) (\<lambda>esdtSupply.
     let supply = qe_formatTokenSupply env identifier esdtSupply;
         answer = (\<lambda>circulating locked. \<lparr>es_totalSupply = gs_supply supply, es_circulatingSupply = circulating, es_minted = gs_minted supply,
           es_burned = gs_burned supply, es_initialMinted = gs_initialMinted supply, es_lockedAccounts = locked\<rparr>)
     in if length (split_on CHR ''-'' identifier) = 2 then
          io_bind (io_lift (js_BigInt (gs_supply supply))) (\<lambda>total.
          io_bind (getLockedAccounts env identifier) (\<lambda>locked.
          io_bind (io_lift (res_map (\<lambda>a. js_BigInt (la_balance a)) locked)) (\<lambda>balances.
            io_return (answer (int_str (total - sum_list balances)) (Some locked)))))
        else io_return (answer (gs_supply supply) None))"

section \<open>Distinct accounts\<close>

text \<open>\<open>BatchUtils.splitArrayIntoChunks(xs, 100)\<close>.\<close>

fun chunks_of :: "nat \<Rightarrow> 'a list \<Rightarrow> 'a list list" where
  "chunks_of n [] = []"
| "chunks_of n (x # xs) = take (Suc n) (x # xs) # chunks_of n (drop n xs)"

definition add_accounts :: "'s esdt_env \<Rightarrow> string \<Rightarrow> string list \<Rightarrow> ('s, unit) io" where
  "add_accounts env key items =
     (let distinctAccounts = qe_distinct env items
      in io_bind (io_mapM (qe_setAdd env key) (chunks_of 99 distinctAccounts)) (\<lambda>_. io_return ()))"

text \<open>\<open>identifiers[0]\<close> of an empty array is shown as \<open>undefined\<close>.\<close>

definition countAllDistinctAccounts :: "'s esdt_env \<Rightarrow> string list \<Rightarrow> ('s, int) io" where
  "countAllDistinctAccounts env identifiers = (\<lambda>s.
     let key = ''tokens:'' @ coalesce (nth_opt identifiers 0) ''undefined'' @ '':distinctAccounts:'' @ qe_randomUUID env s
     in io_finally
       (io_bind (io_mapM (\<lambda>i. qe_getAllAccountsWithToken env i (add_accounts env key)) identifiers) (\<lambda>_. qe_setCount env key))
       (qe_delete env key) s)"

section \<open>Theorems\<close>

definition encode_roles :: "(string \<Rightarrow> string) \<Rightarrow> (string \<Rightarrow> string) \<Rightarrow> (string \<times> string list) list \<Rightarrow> string option list" where
  "encode_roles encodeAddress encodeRole entries =
     concat (map (\<lambda>(address, roles). Some (encodeAddress address) # map (\<lambda>r. Some (encodeRole r)) roles) entries)"

definition roles_of_address :: "string \<Rightarrow> string list \<Rightarrow> token_roles" where
  "roles_of_address address roles = new_token_roles\<lparr>ro_address := Some address, ro_roles := roles,
     ro_canLocalMint := (''ESDTRoleLocalMint'' \<in> set roles), ro_canLocalBurn := (''ESDTRoleLocalBurn'' \<in> set roles)\<rparr>"

lemma fold_setTokenRole:
  "fold setTokenRole roles r = r\<lparr>ro_roles := ro_roles r @ roles,
     ro_canLocalMint := (ro_canLocalMint r \<or> ''ESDTRoleLocalMint'' \<in> set roles),
     ro_canLocalBurn := (ro_canLocalBurn r \<or> ''ESDTRoleLocalBurn'' \<in> set roles)\<rparr>"
proof (induction roles arbitrary: r)
  case (Cons role roles)
  have step: "setTokenRole role r = r\<lparr>ro_roles := ro_roles r @ [role],
      ro_canLocalMint := (ro_canLocalMint r \<or> ''ESDTRoleLocalMint'' = role),
      ro_canLocalBurn := (ro_canLocalBurn r \<or> ''ESDTRoleLocalBurn'' = role)\<rparr>"
    by (auto simp: setTokenRole_def Let_def)
  show ?case unfolding fold_simps comp_def Cons.IH step by (simp add: disj_assoc)
qed simp

definition readable_roles :: "'s esdt_env \<Rightarrow> (string \<Rightarrow> string) \<Rightarrow> (string \<Rightarrow> string) \<Rightarrow> (string \<times> string list) list \<Rightarrow> bool" where
  "readable_roles env encodeAddress encodeRole entries \<longleftrightarrow> (\<forall>(address, roles) \<in> set entries.
     address \<noteq> [] \<and> qe_tryBase64ToAddress env (Some (encodeAddress address)) = Some address
     \<and> (\<forall>r \<in> set roles. qe_tryBase64ToAddress env (Some (encodeRole r)) = None \<and> qe_base64ToText env (encodeRole r) = r))"

lemma fold_roles_steps:
  assumes "\<forall>r \<in> set roles. qe_tryBase64ToAddress env (Some (encodeRole r)) = None \<and> qe_base64ToText env (encodeRole r) = r"
  shows "fold (roles_step env) (map (\<lambda>r. Some (encodeRole r)) roles) (result, Some r0) = (result, Some (fold setTokenRole roles r0))"
  using assms by (induction roles arbitrary: r0) (auto simp: roles_step_def Let_def)

lemma fold_encoded_roles:
  assumes "readable_roles env encodeAddress encodeRole entries"
  shows "(case fold (roles_step env) (encode_roles encodeAddress encodeRole entries) (result, current) of
      (result, current) \<Rightarrow> finish_roles current result)
    = finish_roles current result @ map (\<lambda>(address, roles). roles_of_address address roles) entries"
  using assms
proof (induction entries arbitrary: result current)
  case (Cons entry entries)
  obtain address roles where entry: "entry = (address, roles)" by (cases entry)
  with Cons.prems have law: "address \<noteq> []" "qe_tryBase64ToAddress env (Some (encodeAddress address)) = Some address"
      "\<forall>r \<in> set roles. qe_tryBase64ToAddress env (Some (encodeRole r)) = None \<and> qe_base64ToText env (encodeRole r) = r"
    and rest: "readable_roles env encodeAddress encodeRole entries"
    by (auto simp: readable_roles_def)
  have roles: "fold setTokenRole roles (new_token_roles\<lparr>ro_address := Some address\<rparr>) = roles_of_address address roles"
    by (simp add: fold_setTokenRole roles_of_address_def new_token_roles_def)
  have "fold (roles_step env) (encode_roles encodeAddress encodeRole (entry # entries)) (result, current)
      = fold (roles_step env) (encode_roles encodeAddress encodeRole entries) (finish_roles current result, Some (roles_of_address address roles))"
    using law by (simp add: encode_roles_def entry fold_roles_steps roles) (simp add: roles_step_def fold_roles_steps roles)
  moreover have "finish_roles (Some (roles_of_address address roles)) xs = xs @ [roles_of_address address roles]" for xs
    using law(1) by (simp add: finish_roles_def roles_of_address_def)
  ultimately show ?case using Cons.IH [OF rest] by (simp add: entry)
qed (simp add: encode_roles_def)

text \<open>
  The roles of a token: reading the answer of the contract, every address followed by its roles, gives
  back the addresses with their roles, and marks those that may mint or burn.
\<close>

theorem roles_roundtrip:
  assumes "readable_roles env encodeAddress encodeRole entries"
  shows "processEncodedAddressesAndRoles env (encode_roles encodeAddress encodeRole entries)
    = map (\<lambda>(address, roles). roles_of_address address roles) entries"
  using fold_encoded_roles [OF assms, of "[]" None]
  by (simp add: processEncodedAddressesAndRoles_def finish_roles_def)

lemma BigInt_zero: "js_BigInt ''0'' = Inr 0"
  by code_simp

lemma set_first_balance_map:
  "distinct (map la_address accounts) \<Longrightarrow>
     set_first_balance e accounts = map (\<lambda>a. if la_address a = fst e then a\<lparr>la_balance := snd e\<rparr> else a) accounts"
proof (induction accounts)
  case (Cons a accounts)
  have "map (\<lambda>a. if la_address a = fst e then a\<lparr>la_balance := snd e\<rparr> else a) accounts = accounts" if "la_address a = fst e"
    by (rule map_idI) (use Cons.prems that in \<open>auto simp: image_iff\<close>)
  with Cons show ?case by simp
qed simp

text \<open>Every account gets the balance of its entry.\<close>

lemma fold_balances:
  assumes "distinct (map la_address accounts)" and "distinct (map fst entries)"
  shows "fold set_first_balance entries accounts
    = map (\<lambda>a. case map_of entries (la_address a) of None \<Rightarrow> a | Some b \<Rightarrow> a\<lparr>la_balance := b\<rparr>) accounts"
  using assms
proof (induction entries arbitrary: accounts)
  case (Cons e entries)
  let ?f = "\<lambda>a. if la_address a = fst e then a\<lparr>la_balance := snd e\<rparr> else a"
  have same: "map la_address (map ?f accounts) = map la_address accounts" by simp
  have "map_of entries (fst e) = None" using Cons.prems(2) by (simp add: map_of_eq_None_iff)
  then have "map (\<lambda>a. case map_of entries (la_address a) of None \<Rightarrow> a | Some b \<Rightarrow> a\<lparr>la_balance := b\<rparr>) (map ?f accounts)
      = map (\<lambda>a. case map_of (e # entries) (la_address a) of None \<Rightarrow> a | Some b \<Rightarrow> a\<lparr>la_balance := b\<rparr>) accounts"
    by (cases e) (auto split: option.split)
  moreover have "fold set_first_balance entries (map ?f accounts)
      = map (\<lambda>a. case map_of entries (la_address a) of None \<Rightarrow> a | Some b \<Rightarrow> a\<lparr>la_balance := b\<rparr>) (map ?f accounts)"
    by (rule Cons.IH) (unfold same, use Cons.prems in simp_all)
  ultimately show ?case by (simp only: fold_simps set_first_balance_map [OF Cons.prems(1)])
qed simp

text \<open>
  C21. The supply of a token or collection, when the locked accounts are not cached: what circulates is the total without what the
  index says that its locked accounts hold, where an account that the index does not list holds nothing; and the locked
  accounts are listed with what they hold. The addresses of the locked accounts are different, and the index lists
  an address once.
\<close>

theorem supply_conserved:
  assumes "length (split_on CHR ''-'' identifier) = 2" and "qe_getEsdtSupply env identifier s = (Inr raw, t)"
    and "js_BigInt (gs_supply (qe_formatTokenSupply env identifier raw)) = Inr entire"
    and "\<And>key action ttl. qe_getOrSetLocked env key action ttl t = action t"
    and "qe_lockedAssets env identifier t = (Inr assets, u)"
    and "addresses = (case assets of None \<Rightarrow> [] | Some (Locked_addresses as) \<Rightarrow> as | Some (Locked_names names) \<Rightarrow> map fst names)"
    and "distinct addresses" and "addresses \<noteq> [] \<Longrightarrow> qe_getAccountEsdt env identifier addresses u = (Inr holders, v)"
    and "distinct (map fst holders)" and "\<And>a b. (a, b) \<in> set holders \<Longrightarrow> js_BigInt b = Inr (held a)"
    and "\<And>a. a \<notin> fst ` set holders \<Longrightarrow> held a = 0"
  shows "\<exists>total_supply locked w. getEsdtTokenSupply env identifier s = (Inr total_supply, w)
    \<and> es_totalSupply total_supply = gs_supply (qe_formatTokenSupply env identifier raw)
    \<and> es_circulatingSupply total_supply = int_str (entire - (\<Sum>a \<leftarrow> addresses. held a))
    \<and> es_lockedAccounts total_supply = Some locked \<and> map la_address locked = addresses
    \<and> map (\<lambda>a. js_BigInt (la_balance a)) locked = map (\<lambda>a. Inr (held a)) addresses"
proof -
  define accounts where "accounts = (case assets of None \<Rightarrow> [] | Some l \<Rightarrow> locked_of_assets l)"
  have zero: "\<forall>a \<in> set (locked_of_assets l). la_balance a = ''0''" for l
    by (cases l) (auto simp: locked_of_assets_def)
  have "map la_address (locked_of_assets l) = (case l of Locked_addresses as \<Rightarrow> as | Locked_names names \<Rightarrow> map fst names)" for l
    by (cases l) (simp_all add: locked_of_assets_def comp_def split_def)
  then have accounts: "map la_address accounts = addresses" "\<forall>a \<in> set accounts. la_balance a = ''0''"
    using zero by (auto simp: accounts_def assms(6) split: option.splits)
  define locked where "locked = map (\<lambda>a. case map_of holders (la_address a) of None \<Rightarrow> a | Some b \<Rightarrow> a\<lparr>la_balance := b\<rparr>) accounts"
  have "fold set_first_balance holders accounts = locked"
    unfolding locked_def using accounts(1) assms(7,9) by (intro fold_balances) simp_all
  then have "\<exists>w. getLockedAccountsRaw env identifier t = (Inr locked, w)"
    using assms(5,8) accounts(1)
    by (cases "accounts = []") (auto simp: getLockedAccountsRaw_def accounts_def locked_def io_simps Let_def split: option.splits)
  then obtain w where listed: "getLockedAccounts env identifier t = (Inr locked, w)"
    using assms(4) by (auto simp: getLockedAccounts_def Let_def)
  have addresses: "map la_address locked = addresses"
    unfolding locked_def accounts(1) [symmetric] by (simp split: option.split)
  have balance: "js_BigInt (la_balance a) = Inr (held (la_address a))" if "a \<in> set locked" for a
  proof -
    obtain b where b: "b \<in> set accounts" "a = (case map_of holders (la_address b) of None \<Rightarrow> b | Some x \<Rightarrow> b\<lparr>la_balance := x\<rparr>)"
      using \<open>a \<in> set locked\<close> by (auto simp: locked_def)
    show ?thesis
    proof (cases "map_of holders (la_address b)")
      case None
      then have "held (la_address b) = 0" using assms(11) by (simp add: map_of_eq_None_iff)
      then show ?thesis using b(1) accounts(2) None by (simp add: b(2) BigInt_zero)
    next
      case (Some x)
      then show ?thesis using b assms(10) by (auto dest: map_of_SomeD)
    qed
  qed
  then have "res_map (\<lambda>a. js_BigInt (la_balance a)) locked = Inr (map (\<lambda>a. held (la_address a)) locked)"
    by (simp add: res_map_Inr list_all2_map2 list_all2_same)
  moreover have "map (\<lambda>a. held (la_address a)) locked = map held addresses" by (simp flip: addresses)
  moreover have "map (\<lambda>a. js_BigInt (la_balance a)) locked = map (\<lambda>a. Inr (held a)) addresses"
    using balance by (simp flip: addresses)
  ultimately show ?thesis
    using assms(1-3) listed addresses by (auto simp: getEsdtTokenSupply_def Let_def io_simps)
qed

definition same_token :: "'s esdt_env \<Rightarrow> elastic_properties \<Rightarrow> string list \<Rightarrow> bool" where
  "same_token env e values \<longleftrightarrow> length values \<ge> 18 \<and> values ! 0 = ep_name e \<and> values ! 1 = ep_type e
     \<and> qe_bech32Encode env (values ! 2) = Inr (ep_currentOwner e) \<and> parseInt (last_part (values ! 5)) = ep_numDecimals e
     \<and> canBool (values ! 6) = coalesce (ep_paused e) False
     \<and> (\<forall>i < 10. canBool (values ! (7 + i)) = coalesce (ep_property e ([''canUpgrade'', ''canMint'', ''canBurn'', ''canChangeOwner'',
          ''canPause'', ''canFreeze'', ''canWipe'', ''canAddSpecialRoles'', ''canTransferNFTCreateRole'', ''NFTCreateStopped''] ! i)) False)"

definition dynamic_types :: "string set" where
  "dynamic_types = {''NonFungibleESDTv2'', ''DynamicNonFungibleESDT'', ''DynamicSemiFungibleESDT'', ''DynamicMetaESDT''}"

definition plain_type :: "string \<Rightarrow> string" where
  "plain_type type = (if type = ''NonFungibleESDTv2'' \<or> type = ''DynamicNonFungibleESDT'' then ''NonFungibleESDT''
     else if type = ''DynamicSemiFungibleESDT'' then ''SemiFungibleESDT''
     else if type = ''DynamicMetaESDT'' then ''MetaESDT'' else type)"

lemma applySubType_update:
  "applySubType type p = p\<lparr>pr_type := (if type \<in> dynamic_types then plain_type type else pr_type p),
     pr_subType := (if type \<in> dynamic_types then Some type else pr_subType p)\<rparr>"
  by (simp add: applySubType_def plain_type_def dynamic_types_def)

text \<open>
  The properties of a token do not depend on where they are read from: the index and the contract give
  the same, but for the history, which only the index has, the wiped amount, which only the contract has,
  and the subtype of a token that is not of a dynamic kind.
\<close>

theorem properties_of_both_sources:
  assumes "same_token env e values"
  shows "\<exists>p q. props_of_values env (ep_identifier e) values = Inr p \<and> mapEsdtTokenPropertiesFromElastic (Some e) = Inr q
    \<and> p = q\<lparr>pr_subType := pr_subType p, pr_wiped := pr_wiped p, pr_timestamp := None, pr_ownersHistory := None\<rparr>
    \<and> (ep_type e \<in> dynamic_types \<longrightarrow> pr_subType p = Some (ep_type e) \<and> pr_subType q = Some (ep_type e))"
proof -
  have i: "canBool (values ! (7 + i)) = coalesce (ep_property e ([''canUpgrade'', ''canMint'', ''canBurn'', ''canChangeOwner'',
          ''canPause'', ''canFreeze'', ''canWipe'', ''canAddSpecialRoles'', ''canTransferNFTCreateRole'', ''NFTCreateStopped''] ! i)) False"
    if "i < 10" for i using assms that by (simp add: same_token_def)
  have flags: "canBool (values ! 7) = coalesce (ep_property e ''canUpgrade'') False" "canBool (values ! 8) = coalesce (ep_property e ''canMint'') False"
    "canBool (values ! 9) = coalesce (ep_property e ''canBurn'') False" "canBool (values ! 10) = coalesce (ep_property e ''canChangeOwner'') False"
    "canBool (values ! 11) = coalesce (ep_property e ''canPause'') False" "canBool (values ! 12) = coalesce (ep_property e ''canFreeze'') False"
    "canBool (values ! 13) = coalesce (ep_property e ''canWipe'') False" "canBool (values ! 14) = coalesce (ep_property e ''canAddSpecialRoles'') False"
    "canBool (values ! 15) = coalesce (ep_property e ''canTransferNFTCreateRole'') False"
    "canBool (values ! 16) = coalesce (ep_property e ''NFTCreateStopped'') False"
    using i [of 0] i [of 1] i [of 2] i [of 3] i [of 4] i [of 5] i [of 6] i [of 7] i [of 8] i [of 9] by simp_all
  have vals: "(length values < 18) = False" "values ! 0 = ep_name e" "values ! 1 = ep_type e"
    "qe_bech32Encode env (values ! 2) = Inr (ep_currentOwner e)" "parseInt (last_part (values ! 5)) = ep_numDecimals e"
    "canBool (values ! 6) = coalesce (ep_paused e) False"
    using assms by (auto simp add: same_token_def)
  show ?thesis
    unfolding props_of_values_def mapEsdtTokenPropertiesFromElastic_def vals flags Let_def if_False res_bind.simps option.case
      applySubType_update
    by (cases "ep_type e = ''FungibleESDT''") (simp_all add: dynamic_types_def)
qed

text \<open>The documented sets of the cache, seen through the sets that they hold.\<close>

definition documented_sets :: "'s esdt_env \<Rightarrow> ('s \<Rightarrow> string \<Rightarrow> string set) \<Rightarrow> bool" where
  "documented_sets env view \<longleftrightarrow>
     (\<forall>k xs s. \<exists>t. qe_setAdd env k xs s = (Inr (), t) \<and> view t = (view s)(k := view s k \<union> set xs))
     \<and> (\<forall>k s. qe_setCount env k s = (Inr (int (card (view s k))), s))
     \<and> (\<forall>k s. \<exists>t. qe_delete env k s = (Inr (), t) \<and> view t = (view s)(k := {}))"

definition documented_pages :: "'s esdt_env \<Rightarrow> (string \<Rightarrow> string list list) \<Rightarrow> bool" where
  "documented_pages env pages \<longleftrightarrow> (\<forall>i f s. qe_getAllAccountsWithToken env i f s = io_bind (io_mapM f (pages i)) (\<lambda>_. io_return ()) s)
     \<and> (\<forall>xs. set (qe_distinct env xs) = set xs)"

lemma concat_chunks: "concat (chunks_of n xs) = xs"
  by (induction n xs rule: chunks_of.induct) auto

lemma io_mapM_adds:
  fixes view :: "'s \<Rightarrow> string \<Rightarrow> string set"
  assumes "\<And>x s. x \<in> set xs \<Longrightarrow> \<exists>t. f x s = (Inr (), t) \<and> view t = (view s)(k := view s k \<union> A x)"
  shows "\<exists>ys t. io_mapM f xs s = (Inr ys, t) \<and> view t = (view s)(k := view s k \<union> (\<Union>x \<in> set xs. A x))"
  using assms
proof (induction xs arbitrary: s)
  case (Cons x xs)
  obtain t where first: "f x s = (Inr (), t)" and t: "view t = (view s)(k := view s k \<union> A x)"
    using Cons.prems [of x s] by (meson list.set_intros(1))
  obtain ys u where rest: "io_mapM f xs t = (Inr ys, u)" and u: "view u = (view t)(k := view t k \<union> (\<Union>x \<in> set xs. A x))"
    using Cons.IH [of t] Cons.prems by (meson list.set_intros(2))
  have "view u = (view s)(k := view s k \<union> (\<Union>x \<in> set (x # xs). A x))"
    unfolding u t by (simp add: Un_assoc)
  with first rest show ?case by (auto simp: io_simps)
qed (simp add: io_simps fun_upd_idem)

lemma add_accounts_adds:
  assumes "documented_sets env view" and "documented_pages env pages"
  shows "\<exists>t. add_accounts env k items s = (Inr (), t) \<and> view t = (view s)(k := view s k \<union> set items)"
proof -
  let ?chunks = "chunks_of 99 (qe_distinct env items)"
  obtain ys t where "io_mapM (qe_setAdd env k) ?chunks s = (Inr ys, t)"
    and t: "view t = (view s)(k := view s k \<union> (\<Union>c \<in> set ?chunks. set c))"
    using io_mapM_adds [where f = "qe_setAdd env k" and xs = ?chunks and A = set and s = s and view = view and k = k] assms(1)
    by (auto simp: documented_sets_def)
  moreover have "(\<Union>c \<in> set ?chunks. set c) = set items"
    using assms(2) by (simp add: documented_pages_def set_concat [symmetric] concat_chunks del: set_concat)
  ultimately show ?thesis by (simp add: add_accounts_def Let_def io_simps)
qed

text \<open>
  C14. The number of the distinct accounts of some tokens: it is the size of the union of their accounts, for
  any way in which the index pages them, and the set that is kept for the count is gone afterwards.
\<close>

theorem distinct_accounts_counted:
  assumes sets: "documented_sets env view" and pages: "documented_pages env pages"
    and fresh: "\<And>k. k = ''tokens:'' @ coalesce (nth_opt identifiers 0) ''undefined'' @ '':distinctAccounts:'' @ qe_randomUUID env s \<Longrightarrow> view s k = {}"
  shows "\<exists>t. countAllDistinctAccounts env identifiers s = (Inr (int (card (\<Union>i \<in> set identifiers. set (concat (pages i))))), t) \<and> view t = view s"
proof -
  define key where "key = ''tokens:'' @ coalesce (nth_opt identifiers 0) ''undefined'' @ '':distinctAccounts:'' @ qe_randomUUID env s"
  then have empty: "view s key = {}" by (rule fresh)
  have token: "\<exists>t. qe_getAllAccountsWithToken env i (add_accounts env key) s = (Inr (), t)
      \<and> view t = (view s)(key := view s key \<union> set (concat (pages i)))" for i s
  proof -
    obtain ys t where "io_mapM (add_accounts env key) (pages i) s = (Inr ys, t)"
      and "view t = (view s)(key := view s key \<union> (\<Union>c \<in> set (pages i). set c))"
      using io_mapM_adds [where f = "add_accounts env key" and A = set] add_accounts_adds [OF sets pages] by metis
    then show ?thesis using pages by (simp add: documented_pages_def io_simps)
  qed
  obtain ys t where loop: "io_mapM (\<lambda>i. qe_getAllAccountsWithToken env i (add_accounts env key)) identifiers s = (Inr ys, t)"
    and t: "view t = (view s)(key := view s key \<union> (\<Union>i \<in> set identifiers. set (concat (pages i))))"
    using io_mapM_adds [where f = "\<lambda>i. qe_getAllAccountsWithToken env i (add_accounts env key)" and A = "\<lambda>i. set (concat (pages i))"] token
    by metis
  obtain u where u: "qe_delete env key t = (Inr (), u)" "view u = (view t)(key := {})"
    using sets unfolding documented_sets_def by blast
  have count: "qe_setCount env key t = (Inr (int (card (\<Union>i \<in> set identifiers. set (concat (pages i))))), t)"
    using sets by (simp add: documented_sets_def t empty)
  have "view u = view s" unfolding u t by (simp add: empty [symmetric])
  moreover have "countAllDistinctAccounts env identifiers s = (Inr (int (card (\<Union>i \<in> set identifiers. set (concat (pages i))))), u)"
    unfolding countAllDistinctAccounts_def Let_def key_def [symmetric] by (simp add: io_simps loop count u(1))
  ultimately show ?thesis by blast
qed

section \<open>Witnesses\<close>

definition sample_esdt_env :: "(string \<Rightarrow> string set) esdt_env" where
  "sample_esdt_env = \<lparr>qe_consts = \<lparr>oneSecond = 1, oneMinute = 60, oneHour = 3600, oneDay = 86400, oneWeek = 604800\<rparr>,
     qe_vmQuery = \<lambda>_ _. io_return None, qe_textToHex = id, qe_base64ToText = id, qe_base64ToHex = id, qe_bech32Encode = Inr,
     qe_tryBase64ToAddress = \<lambda>v. (case v of Some s \<Rightarrow> if startsWith s ''erd'' then Some s else None | None \<Rightarrow> None),
     qe_fromGateway = False, qe_getEsdtProperties = \<lambda>_. io_return None, qe_getAllFungibleTokens = io_return [],
     qe_getEsdtFungibleTokens = io_return [], qe_batchProcess = \<lambda>_ _ _ _. io_return [], qe_getOrSetProperties = \<lambda>_ m _ _. m,
     qe_getOrSetRoles = \<lambda>_ m _ _. m, qe_getOrSetLocked = \<lambda>_ m _. m, qe_lockedAssets = \<lambda>_. io_return (Some (Locked_addresses [''erd1''])),
     qe_getAccountEsdt = \<lambda>_ _. io_return [(''erd1'', int_str 4)],
     qe_getEsdtSupply = \<lambda>_. io_return \<lparr>gs_supply = int_str 10, gs_minted = ''0'', gs_burned = ''0'', gs_initialMinted = ''0''\<rparr>,
     qe_formatTokenSupply = \<lambda>_ x. x, qe_getAllAccountsWithToken = \<lambda>i f. io_bind (io_mapM f [[i, ''a''], [''a'']]) (\<lambda>_. io_return ()),
     qe_distinct = remdups, qe_randomUUID = \<lambda>_. ''u'', qe_setAdd = \<lambda>k xs s. (Inr (), s(k := s k \<union> set xs)),
     qe_setCount = \<lambda>k s. (Inr (int (card (s k))), s), qe_delete = \<lambda>k s. (Inr (), s(k := {}))\<rparr>"

theorem roles_roundtrip_witness:
  "processEncodedAddressesAndRoles sample_esdt_env (encode_roles id id [(''erd1a'', [''ESDTRoleLocalMint'']), (''erd1b'', [])])
    = [roles_of_address ''erd1a'' [''ESDTRoleLocalMint''], roles_of_address ''erd1b'' []]"
proof -
  have "readable_roles sample_esdt_env id id [(''erd1a'', [''ESDTRoleLocalMint'']), (''erd1b'', [])]"
    by (simp add: readable_roles_def sample_esdt_env_def startsWith_def)
  from roles_roundtrip [OF this] show ?thesis by simp
qed

theorem supply_conserved_witness:
  "\<exists>total_supply w. getEsdtTokenSupply sample_esdt_env ''A-1'' (\<lambda>_. {}) = (Inr total_supply, w)
    \<and> es_totalSupply total_supply = int_str 10 \<and> es_circulatingSupply total_supply = int_str 6"
proof -
  have "\<exists>total_supply locked w. getEsdtTokenSupply sample_esdt_env ''A-1'' (\<lambda>_. {}) = (Inr total_supply, w)
      \<and> es_totalSupply total_supply = gs_supply (qe_formatTokenSupply sample_esdt_env ''A-1'' \<lparr>gs_supply = int_str 10, gs_minted = ''0'', gs_burned = ''0'', gs_initialMinted = ''0''\<rparr>)
      \<and> es_circulatingSupply total_supply = int_str (10 - (\<Sum>a \<leftarrow> [''erd1'']. if a = ''erd1'' then 4 else 0))
      \<and> es_lockedAccounts total_supply = Some locked \<and> map la_address locked = [''erd1'']
      \<and> map (\<lambda>a. js_BigInt (la_balance a)) locked = map (\<lambda>a. Inr (if a = ''erd1'' then 4 else 0)) [''erd1'']"
    by (rule supply_conserved [where assets = "Some (Locked_addresses [''erd1''])" and holders = "[(''erd1'', int_str 4)]"])
      (auto simp: sample_esdt_env_def io_return_def BigInt_int_str)
  then show ?thesis by (auto simp: sample_esdt_env_def)
qed

definition sample_properties :: elastic_properties where
  "sample_properties = \<lparr>ep_identifier = ''A-1'', ep_name = ''Alpha'', ep_type = ''DynamicMetaESDT'', ep_currentOwner = ''owner'',
     ep_ownersHistory = None, ep_numDecimals = Some 18, ep_property = \<lambda>_. None, ep_paused = None, ep_timestamp = Some 7\<rparr>"

definition sample_values :: "string list" where
  "sample_values = [''Alpha'', ''DynamicMetaESDT'', ''owner'', ''0'', ''0'', ''NumDecimals-18'', ''IsPaused-false''] @ replicate 11 ''Can-false''"

lemma sample_parts: "last_part ''NumDecimals-18'' = ''18''" "parseInt ''18'' = Some 18" "\<not> canBool ''Can-false''" "\<not> canBool ''IsPaused-false''"
  by code_simp+

theorem properties_of_both_sources_witness:
  "\<exists>p q. props_of_values sample_esdt_env ''A-1'' sample_values = Inr p \<and> mapEsdtTokenPropertiesFromElastic (Some sample_properties) = Inr q
    \<and> pr_decimals p = pr_decimals q \<and> pr_subType q = Some ''DynamicMetaESDT''"
proof -
  have "canBool (replicate 11 ''Can-false'' ! i) = False" if "i < 10" for i using that by (simp add: sample_parts)
  then have "same_token sample_esdt_env sample_properties sample_values"
    by (simp add: same_token_def sample_properties_def sample_values_def sample_esdt_env_def sample_parts nth_append del: replicate.simps)
  then obtain p q where both: "props_of_values sample_esdt_env (ep_identifier sample_properties) sample_values = Inr p"
      "mapEsdtTokenPropertiesFromElastic (Some sample_properties) = Inr q"
      "p = q\<lparr>pr_subType := pr_subType p, pr_wiped := pr_wiped p, pr_timestamp := None, pr_ownersHistory := None\<rparr>"
      "ep_type sample_properties \<in> dynamic_types \<longrightarrow> pr_subType p = Some (ep_type sample_properties) \<and> pr_subType q = Some (ep_type sample_properties)"
    using properties_of_both_sources by blast
  from arg_cong [OF both(3), of pr_decimals] both(1,2,4) show ?thesis
    by (simp add: sample_properties_def dynamic_types_def)
qed

theorem distinct_accounts_counted_witness:
  "\<exists>t. countAllDistinctAccounts sample_esdt_env [''b'', ''c''] (\<lambda>_. {}) = (Inr 3, t) \<and> t = (\<lambda>_. {})"
proof -
  have sets: "documented_sets sample_esdt_env id" by (simp add: documented_sets_def sample_esdt_env_def)
  have pages: "documented_pages sample_esdt_env (\<lambda>i. [[i, ''a''], [''a'']])" by (simp add: documented_pages_def sample_esdt_env_def)
  have three: "(\<Union>i \<in> set [''b'', ''c'']. set (concat [[i, ''a''], [''a'']])) = {''a'', ''b'', ''c''}" by auto
  show ?thesis using distinct_accounts_counted [OF sets pages, of "[''b'', ''c'']" "\<lambda>_. {}"] unfolding three by simp
qed

end
