(* ===== verification/RoleLists.thy ===== *)
theory RoleLists imports Prelude begin

text \<open>
  Lists of the roles that addresses have. The index gives for every role the addresses that have it; two
  services turn this around into one entry for every address, each with its own kind of entry. What they share
  is stated here once, as the interface of an entry.
\<close>

text \<open>\<open>distinct()\<close> of the array extension: every element once.\<close>

definition documented_distinct :: "(string list \<Rightarrow> string list) \<Rightarrow> bool" where
  "documented_distinct f \<longleftrightarrow> (\<forall>xs. distinct (f xs) \<and> set (f xs) = set xs)"

text \<open>The roles that list an address.\<close>

definition roles_held :: "string \<Rightarrow> (string \<times> string list) list \<Rightarrow> string list" where
  "roles_held a roles = map fst (filter (\<lambda>(role, addresses). a \<in> set addresses) roles)"

lemma roles_held_Nil [simp]: "roles_held a [] = []"
  by (simp add: roles_held_def)

lemma roles_held_Cons [simp]: "roles_held a ((role, addresses) # roles) = (if a \<in> set addresses then role # roles_held a roles else roles_held a roles)"
  by (simp add: roles_held_def)

text \<open>An entry of an address, given some more roles; there may have been no entry before.\<close>

definition more_roles :: "(string \<Rightarrow> 'r \<Rightarrow> 'r) \<Rightarrow> 'r \<Rightarrow> string list \<Rightarrow> 'r option \<Rightarrow> 'r option" where
  "more_roles set_role new roles entry = (if roles = [] then entry else Some (fold set_role roles (case entry of None \<Rightarrow> new | Some r \<Rightarrow> r)))"

lemma more_roles_Nil [simp]: "more_roles set_role new [] entry = entry"
  by (simp add: more_roles_def)

lemma more_roles_more [simp]: "more_roles set_role new roles (more_roles set_role new [role] entry) = more_roles set_role new (role # roles) entry"
  by (simp add: more_roles_def)

locale role_collector =
  fixes set_role :: "string \<Rightarrow> 'r \<Rightarrow> 'r" and new_entry :: "string \<Rightarrow> 'r" and address_of :: "'r \<Rightarrow> string option"
    and upsert :: "string \<Rightarrow> string \<Rightarrow> 'r list \<Rightarrow> 'r list"
  assumes address_set: "address_of (set_role role r) = address_of r" and address_new: "address_of (new_entry a) = Some a"
    and upsert_Nil: "upsert a role [] = [set_role role (new_entry a)]"
    and upsert_Cons: "upsert a role (r # rs) = (if address_of r = Some a then set_role role r # rs else r # upsert a role rs)"
begin

lemma find_upsert:
  "find (\<lambda>r. address_of r = Some a) (upsert b role rs)
    = (if a = b then more_roles set_role (new_entry a) [role] (find (\<lambda>r. address_of r = Some a) rs) else find (\<lambda>r. address_of r = Some a) rs)"
  by (induction rs) (auto simp: upsert_Nil upsert_Cons address_set address_new more_roles_def)

lemma addresses_upsert:
  "map address_of (upsert b role rs) = (if Some b \<in> address_of ` set rs then map address_of rs else map address_of rs @ [Some b])"
  by (induction rs) (auto simp: upsert_Nil upsert_Cons address_set address_new)

lemma find_upserts:
  "distinct as \<Longrightarrow> find (\<lambda>r. address_of r = Some a) (fold (\<lambda>b. upsert b role) as rs)
    = (if a \<in> set as then more_roles set_role (new_entry a) [role] (find (\<lambda>r. address_of r = Some a) rs) else find (\<lambda>r. address_of r = Some a) rs)"
  by (induction as arbitrary: rs) (auto simp: find_upsert)

lemma distinct_upserts: "distinct (map address_of rs) \<Longrightarrow> distinct (map address_of (fold (\<lambda>b. upsert b role) as rs))"
  by (induction as arbitrary: rs) (auto simp: addresses_upsert)

lemma find_collected:
  assumes "documented_distinct d"
  shows "find (\<lambda>r. address_of r = Some a) (fold (\<lambda>(role, addresses) acc. fold (\<lambda>b. upsert b role) (d addresses) acc) roles rs)
      = more_roles set_role (new_entry a) (roles_held a roles) (find (\<lambda>r. address_of r = Some a) rs)"
proof (induction roles arbitrary: rs)
  case (Cons e roles)
  obtain role addresses where e: "e = (role, addresses)" by (cases e)
  have "distinct (d addresses)" "set (d addresses) = set addresses"
    using assms by (auto simp: documented_distinct_def)
  then show ?case by (simp add: e Cons.IH find_upserts)
qed simp

lemma collected_entry:
  assumes "documented_distinct d"
  shows "find (\<lambda>r. address_of r = Some a) (fold (\<lambda>(role, addresses) acc. fold (\<lambda>b. upsert b role) (d addresses) acc) roles [])
      = (if roles_held a roles = [] then None else Some (fold set_role (roles_held a roles) (new_entry a)))"
  by (simp add: find_collected [OF assms] more_roles_def)

lemma collected_distinct:
  "distinct (map address_of (fold (\<lambda>(role, addresses) acc. fold (\<lambda>b. upsert b role) (d addresses) acc) roles []))"
proof -
  have "distinct (map address_of (fold (\<lambda>(role, addresses) acc. fold (\<lambda>b. upsert b role) (d addresses) acc) roles rs))"
    if "distinct (map address_of rs)" for rs
    using that by (induction roles arbitrary: rs) (auto simp: distinct_upserts)
  from this [of "[]"] show ?thesis by simp
qed

end

text \<open>The roles of one address alone.\<close>

lemma fold_roles_held:
  assumes "documented_distinct d"
  shows "fold (\<lambda>(role, addresses) r. if a \<in> set (d addresses) then set_role role r else r) roles r0 = fold set_role (roles_held a roles) r0"
  using assms by (induction roles arbitrary: r0) (auto simp: documented_distinct_def)

end
