(* ===== verification/Collections.thy ===== *)
theory Collections imports Assets ElasticQueries RoleLists begin

text \<open>
  Collections of NFTs (\<open>src/endpoints/collections/collection.service.ts\<close> and its entities): what the index
  knows of a collection, put together with its properties, its assets and its roles. The two methods that ask
  for the collections of an address with its roles are in the theory \<open>EsdtAddress\<close>, which they call.
\<close>

section \<open>Data\<close>

text \<open>A document of the index; \<open>ic_roles\<close> gives for every role the addresses that have it.\<close>

record indexed_collection =
  ic_token :: string
  ic_type :: string
  ic_timestamp :: "int option"
  ic_roles :: "(string \<times> string list) list option"
  ic_isVerified :: "bool option"
  ic_nftCount :: "int option"
  ic_holderCount :: "int option"
  ic_scamInfoType :: "string option"
  ic_scamInfoDescription :: "string option"

record scam_info =
  sc_type :: "string option"
  sc_info :: "string option"

record nft_collection =
  nc_collection :: string
  nc_type :: string
  nc_subType :: "string option"
  nc_name :: string
  nc_ticker :: string
  nc_owner :: "string option"
  nc_timestamp :: "int option"
  nc_canFreeze :: bool
  nc_canWipe :: bool
  nc_canPause :: bool
  nc_canTransferNftCreateRole :: "bool option"
  nc_canChangeOwner :: bool
  nc_canUpgrade :: bool
  nc_canAddSpecialRoles :: bool
  nc_decimals :: "int option"
  nc_assets :: "asset_details option"
  nc_scamInfo :: "scam_info option"
  nc_traits :: "json list"
  nc_auctionStats :: "json option"
  nc_isVerified :: "bool option"
  nc_holderCount :: "int option"
  nc_nftCount :: "int option"

record nft_collection_detailed = nft_collection +
  cd_canTransfer :: "bool option"
  cd_roles :: "collection_roles list"

record nft_collection_account = nft_collection +
  ca_count :: int

record collection_logo =
  lg_pngUrl :: string
  lg_svgUrl :: string

text \<open>
  The services. \<open>ce_applyProperties\<close> and \<open>ce_applyAssets\<close> are \<open>batchApplyAll\<close> of the cache: for some
  identifiers, the function of their keys, the function that computes a value that is not in the cache and the
  lifetime they give what is handed to the setter. \<open>ce_mergeDetailed\<close> and \<open>ce_mergeAccount\<close> are
  \<open>mergeObjects\<close> with a new object.
\<close>

record 's collection_env =
  ce_consts :: time_consts
  ce_esdt :: "'s esdt_env"
  ce_assetsService :: "'s assets_env"
  ce_getCollection :: "string \<Rightarrow> ('s, indexed_collection option) io"
  ce_getNftCollections :: "query_pagination \<Rightarrow> collection_filter \<Rightarrow> string option \<Rightarrow> ('s, indexed_collection list) io"
  ce_getNftCollectionsByIds :: "string list \<Rightarrow> ('s, indexed_collection list) io"
  ce_getNftCollectionCount :: "collection_filter \<Rightarrow> ('s, int) io"
  ce_getCollectionsForAddress :: "string \<Rightarrow> collection_filter \<Rightarrow> query_pagination \<Rightarrow> ('s, (string \<times> int) list) io"
  ce_applyProperties :: "string list \<Rightarrow> (string \<Rightarrow> string) \<Rightarrow> (string \<Rightarrow> ('s, token_props option) io) \<Rightarrow> int \<Rightarrow> ('s, string \<Rightarrow> token_props option) io"
  ce_applyAssets :: "string list \<Rightarrow> (string \<Rightarrow> string) \<Rightarrow> (string \<Rightarrow> ('s, asset_details option) io) \<Rightarrow> int \<Rightarrow> ('s, string \<Rightarrow> asset_details option) io"
  ce_isCollection :: "string \<Rightarrow> bool"
  ce_getCollectionTraits :: "string \<Rightarrow> ('s, json list option) io"
  ce_distinct :: "string list \<Rightarrow> string list"
  ce_mergeDetailed :: "nft_collection \<Rightarrow> nft_collection_detailed"
  ce_mergeAccount :: "nft_collection \<Rightarrow> nft_collection_account"

section \<open>Properties and assets of collections\<close>

definition collectionPropertiesOf :: "'s collection_env \<Rightarrow> string list \<Rightarrow> ('s, string \<Rightarrow> token_props option) io" where
  "collectionPropertiesOf env identifiers =
     ce_applyProperties env identifiers (\<lambda>i. ci_key (CacheInfo_CollectionProperties (ce_consts env) i))
       (getCollectionProperties (ce_esdt env)) (ci_ttl (CacheInfo_CollectionProperties (ce_consts env) []))"

definition esdtPropertiesOf :: "'s collection_env \<Rightarrow> string list \<Rightarrow> ('s, string \<Rightarrow> token_props option) io" where
  "esdtPropertiesOf env identifiers =
     ce_applyProperties env identifiers (\<lambda>i. ci_key (CacheInfo_EsdtProperties (ce_consts env) i))
       (getEsdtTokenProperties (ce_esdt env)) (ci_ttl (CacheInfo_EsdtProperties (ce_consts env) []))"

definition batchGetCollectionsProperties :: "'s collection_env \<Rightarrow> string list \<Rightarrow> ('s, string \<Rightarrow> token_props option) io" where
  "batchGetCollectionsProperties env identifiers =
     (if qe_fromGateway (ce_esdt env) then collectionPropertiesOf env identifiers else esdtPropertiesOf env identifiers)"

definition batchGetCollectionsAssets :: "'s collection_env \<Rightarrow> string list \<Rightarrow> ('s, string \<Rightarrow> asset_details option) io" where
  "batchGetCollectionsAssets env identifiers =
     io_bind (getAllTokenAssets (ce_assetsService env)) (\<lambda>allAssets.
       ce_applyAssets env identifiers (\<lambda>i. ci_key (CacheInfo_EsdtAssets (ce_consts env) i))
         (\<lambda>i. io_return (allAssets i)) (ci_ttl (CacheInfo_EsdtAssets (ce_consts env) [])))"

definition collection_of_props :: "string \<Rightarrow> token_props \<Rightarrow> asset_details option \<Rightarrow> nft_collection" where
  "collection_of_props collectionIdentifier p assets =
     (let parts = split_on CHR ''-'' collectionIdentifier;
          base = join ''-'' (take 2 parts)
      in \<lparr>nc_collection = base, nc_type = pr_type p, nc_subType = None, nc_name = pr_name p,
          nc_ticker = (if assets \<noteq> None then hd parts else base), nc_owner = Some (pr_owner p), nc_timestamp = Some 0,
          nc_canFreeze = pr_canFreeze p, nc_canWipe = pr_canWipe p, nc_canPause = pr_canPause p,
          nc_canTransferNftCreateRole = pr_canTransferNFTCreateRole p, nc_canChangeOwner = pr_canChangeOwner p,
          nc_canUpgrade = pr_canUpgrade p, nc_canAddSpecialRoles = pr_canAddSpecialRoles p,
          nc_decimals = (if pr_type p = ''MetaESDT'' then pr_decimals p else None), nc_assets = assets, nc_scamInfo = None,
          nc_traits = [], nc_auctionStats = None, nc_isVerified = None, nc_holderCount = None, nc_nftCount = None\<rparr>)"

definition applyPropertiesToCollections :: "'s collection_env \<Rightarrow> string list \<Rightarrow> ('s, nft_collection list) io" where
  "applyPropertiesToCollections env identifiers =
     io_bind (io_both (batchGetCollectionsProperties env identifiers) (batchGetCollectionsAssets env identifiers)) (\<lambda>(props, assets).
       io_return (concat (map (\<lambda>i. case props i of None \<Rightarrow> [] | Some p \<Rightarrow> [collection_of_props i p (assets i)]) identifiers)))"

definition elastic_type :: "string \<Rightarrow> string option" where
  "elastic_type type =
     (if type \<in> {''NonFungibleESDT'', ''NonFungibleESDTv2'', ''DynamicNonFungibleESDT''} then Some ''NonFungibleESDT''
      else if type \<in> {''MetaESDT'', ''DynamicMetaESDT''} then Some ''MetaESDT''
      else if type \<in> {''SemiFungibleESDT'', ''DynamicSemiFungibleESDT''} then Some ''SemiFungibleESDT''
      else None)"

definition applyPropertiesToCollectionFromElasticSearch :: "('a nft_collection_scheme) \<Rightarrow> indexed_collection \<Rightarrow> 'a nft_collection_scheme" where
  "applyPropertiesToCollectionFromElasticSearch c ic =
     (let c = c\<lparr>nc_type := coalesce (elastic_type (ic_type ic)) (nc_type c), nc_subType := Some (ic_type ic), nc_timestamp := ic_timestamp ic\<rparr>
      in if nc_type c \<in> {''NonFungibleESDT'', ''SemiFungibleESDT'', ''MetaESDT''} then
           c\<lparr>nc_isVerified := ic_isVerified ic, nc_nftCount := ic_nftCount ic, nc_holderCount := ic_holderCount ic,
             nc_scamInfo := (if truthy (ic_scamInfoType ic) \<and> ic_scamInfoType ic \<noteq> Some ''none''
               then Some \<lparr>sc_type = ic_scamInfoType ic, sc_info = ic_scamInfoDescription ic\<rparr> else nc_scamInfo c)\<rparr>
         else c)"

text \<open>The map of the documents by their tokens: a later one replaces an earlier one.\<close>

definition indexed_by_token :: "indexed_collection list \<Rightarrow> string \<Rightarrow> indexed_collection option" where
  "indexed_by_token docs k = find (\<lambda>d. ic_token d = k) (rev docs)"

definition processNftCollections :: "'s collection_env \<Rightarrow> indexed_collection list \<Rightarrow> ('s, nft_collection list) io" where
  "processNftCollections env docs =
     io_bind (applyPropertiesToCollections env (map ic_token docs)) (\<lambda>collections.
       io_return (map (\<lambda>c. case indexed_by_token docs (nc_collection c) of
          None \<Rightarrow> c | Some d \<Rightarrow> applyPropertiesToCollectionFromElasticSearch c d) collections))"

definition isCollection :: "'s collection_env \<Rightarrow> string \<Rightarrow> ('s, bool) io" where
  "isCollection env identifier = io_bind (ce_getCollection env identifier) (\<lambda>c. io_return (c \<noteq> None))"

definition nftCollections :: "'s collection_env \<Rightarrow> query_pagination \<Rightarrow> collection_filter \<Rightarrow> ('s, nft_collection list) io" where
  "nftCollections env pagination cfilter =
     io_bind (ce_getNftCollections env pagination cfilter None) (\<lambda>docs. processNftCollections env docs)"

definition nftCollectionsByIds :: "'s collection_env \<Rightarrow> string list \<Rightarrow> ('s, nft_collection list) io" where
  "nftCollectionsByIds env identifiers =
     io_bind (ce_getNftCollectionsByIds env identifiers) (\<lambda>docs. processNftCollections env docs)"

definition nftCollectionCount :: "'s collection_env \<Rightarrow> collection_filter \<Rightarrow> ('s, int) io" where
  "nftCollectionCount env cfilter = ce_getNftCollectionCount env cfilter"

definition getNftCollectionRanks :: "'s collection_env \<Rightarrow> string \<Rightarrow> ('s, nft_rank list option) io" where
  "getNftCollectionRanks env identifier =
     io_bind (ce_getCollection env identifier) (\<lambda>c.
       if c = None then io_return None
       else io_bind (getTokenAssets (ce_assetsService env) identifier) (\<lambda>assets.
         case assets of
           None \<Rightarrow> io_return None
         | Some a \<Rightarrow> if ta_preferredRankAlgorithm a \<noteq> Some ''custom'' then io_return None
             else getCollectionRanks (ce_assetsService env) identifier))"

section \<open>Roles\<close>

text \<open>\<open>find\<close> by the address, and either a role more for what was found or a new entry at the end.\<close>

fun upsert_role :: "string \<Rightarrow> string \<Rightarrow> collection_roles list \<Rightarrow> collection_roles list" where
  "upsert_role address role [] = [setCollectionRole role (new_collection_roles\<lparr>cr_address := Some address\<rparr>)]"
| "upsert_role address role (r # rs) =
     (if cr_address r = Some address then setCollectionRole role r # rs else r # upsert_role address role rs)"

definition getNftCollectionRolesFromElasticResponse :: "'s collection_env \<Rightarrow> indexed_collection \<Rightarrow> collection_roles list" where
  "getNftCollectionRolesFromElasticResponse env doc =
     (case ic_roles doc of
        None \<Rightarrow> []
      | Some roles \<Rightarrow> fold (\<lambda>(role, addresses) allRoles. fold (\<lambda>a. upsert_role a role) (ce_distinct env addresses) allRoles) roles [])"

definition getNftCollectionRoles :: "'s collection_env \<Rightarrow> indexed_collection \<Rightarrow> collection_roles list" where
  "getNftCollectionRoles env doc = getNftCollectionRolesFromElasticResponse env doc"

definition roles_of_text :: "string \<Rightarrow> collection_roles res" where
  "roles_of_text s =
     (case split_on CHR '':'' s of
        address # roles # _ \<Rightarrow> Inr (fold setCollectionRole (split_on CHR '','' roles) (new_collection_roles\<lparr>cr_address := Some address\<rparr>))
      | _ \<Rightarrow> Inl TypeError)"

definition getNftCollectionRolesFromEsdtContract :: "'s collection_env \<Rightarrow> string \<Rightarrow> ('s, collection_roles list) io" where
  "getNftCollectionRolesFromEsdtContract env identifier =
     io_bind (qe_vmQuery (ce_esdt env) ''getSpecialRoles'' [qe_textToHex (ce_esdt env) identifier]) (\<lambda>response.
       case response of
         None \<Rightarrow> io_return []
       | Some cells \<Rightarrow> io_lift (res_map (\<lambda>cell. case cell of None \<Rightarrow> Inl TypeError
           | Some encoded \<Rightarrow> roles_of_text (qe_base64ToText (ce_esdt env) encoded)) cells))"

definition getNftCollectionRolesFromGateway :: "'s collection_env \<Rightarrow> indexed_collection \<Rightarrow> ('s, collection_roles list) io" where
  "getNftCollectionRolesFromGateway env doc = getNftCollectionRolesFromEsdtContract env (ic_token doc)"

text \<open>The roles and \<open>canTransfer\<close> that are set on the collection, or on the token that is asked for.\<close>

definition applyCollectionRoles :: "'s collection_env \<Rightarrow> indexed_collection \<Rightarrow> ('s, collection_roles list \<times> bool) io" where
  "applyCollectionRoles env doc =
     io_bind (getNftCollectionRolesFromGateway env doc) (\<lambda>roles.
       let prohibited = (\<exists>x \<in> set roles. cr_canTransfer x = Some True)
       in io_return (if prohibited then roles else map (\<lambda>r. r\<lparr>cr_canTransfer := None\<rparr>) roles, \<not> prohibited))"

definition elastic_nft_types :: "string list" where
  "elastic_nft_types = [''NonFungibleESDT'', ''SemiFungibleESDT'', ''MetaESDT'', ''NonFungibleESDTv2'', ''DynamicNonFungibleESDT'',
     ''DynamicSemiFungibleESDT'', ''DynamicMetaESDT'']"

definition getNftCollection :: "'s collection_env \<Rightarrow> string \<Rightarrow> ('s, nft_collection_detailed option) io" where
  "getNftCollection env identifier =
     io_bind (ce_getCollection env identifier) (\<lambda>found. case found of
       None \<Rightarrow> io_return None
     | Some doc \<Rightarrow>
         if \<not> ce_isCollection env identifier \<or> ic_type doc \<notin> set elastic_nft_types then io_return None
         else io_bind (applyPropertiesToCollections env [identifier]) (\<lambda>collections.
           case collections of
             [] \<Rightarrow> io_return None
           | collection # _ \<Rightarrow>
               (let d = ce_mergeDetailed env collection;
                    d = d\<lparr>nc_type := ic_type doc, nc_timestamp := ic_timestamp doc\<rparr>;
                    d = applyPropertiesToCollectionFromElasticSearch d doc
                in io_bind (ce_getCollectionTraits env identifier) (\<lambda>traits.
                   io_bind (applyCollectionRoles env doc) (\<lambda>(roles, canTransfer).
                     io_return (Some (d\<lparr>nc_traits := coalesce traits [], cd_roles := roles, cd_canTransfer := Some canTransfer\<rparr>)))))))"

section \<open>Collections of an address\<close>

definition no_collection_filter :: collection_filter where
  "no_collection_filter = \<lparr>cf_collection = None, cf_identifiers = None, cf_search = None, cf_type = None, cf_subType = None,
     cf_owner = None, cf_before = None, cf_after = None, cf_canCreate = None, cf_canBurn = None, cf_canAddQuantity = None,
     cf_canUpdateAttributes = None, cf_canAddUri = None, cf_canTransferRole = None, cf_excludeMetaESDT = None, cf_sort = None, cf_order = None\<rparr>"

definition collectionsOfAddress :: "'s collection_env \<Rightarrow> string \<Rightarrow> collection_filter \<Rightarrow> query_pagination \<Rightarrow> ('s, nft_collection_account list) io" where
  "collectionsOfAddress env address cfilter pagination =
     io_bind (ce_getCollectionsForAddress env address cfilter pagination) (\<lambda>raw.
     io_bind (nftCollections env \<lparr>qp_from = 0, qp_size = int (length raw), qp_before = None, qp_after = None\<rparr>
         (no_collection_filter\<lparr>cf_identifiers := Some (map fst raw)\<rparr>)) (\<lambda>collections.
       io_return (map (\<lambda>c. let a = ce_mergeAccount env c in
         case find (\<lambda>x. fst x = nc_collection a) raw of None \<Rightarrow> a | Some item \<Rightarrow> a\<lparr>ca_count := snd item\<rparr>) collections)))"

definition collectionCountOfAddress :: "'s collection_env \<Rightarrow> string \<Rightarrow> collection_filter \<Rightarrow> ('s, nat) io" where
  "collectionCountOfAddress env address cfilter =
     io_bind (collectionsOfAddress env address cfilter \<lparr>qp_from = 0, qp_size = 10000, qp_before = None, qp_after = None\<rparr>) (\<lambda>collections.
       io_return (length collections))"

definition collectionOfAddress :: "'s collection_env \<Rightarrow> string \<Rightarrow> string \<Rightarrow> ('s, nft_collection_account option) io" where
  "collectionOfAddress env address identifier =
     (if \<not> ce_isCollection env identifier then io_return None
      else io_bind (collectionsOfAddress env address (no_collection_filter\<lparr>cf_collection := Some identifier\<rparr>)
          \<lparr>qp_from = 0, qp_size = 1, qp_before = None, qp_after = None\<rparr>) (\<lambda>collections.
        io_return (find (\<lambda>x. nc_collection x = identifier) collections)))"

section \<open>Logos\<close>

definition getCollectionLogo :: "'s collection_env \<Rightarrow> string \<Rightarrow> ('s, collection_logo option) io" where
  "getCollectionLogo env identifier =
     io_bind (getTokenAssets (ce_assetsService env) identifier) (\<lambda>assets.
       io_return (map_option (\<lambda>a. \<lparr>lg_pngUrl = ta_pngUrl a, lg_svgUrl = ta_svgUrl a\<rparr>) assets))"

definition collectionLogoPng :: "'s collection_env \<Rightarrow> string \<Rightarrow> ('s, string option) io" where
  "collectionLogoPng env identifier = io_bind (getCollectionLogo env identifier) (\<lambda>logo. io_return (map_option lg_pngUrl logo))"

definition collectionLogoSvg :: "'s collection_env \<Rightarrow> string \<Rightarrow> ('s, string option) io" where
  "collectionLogoSvg env identifier = io_bind (getCollectionLogo env identifier) (\<lambda>logo. io_return (map_option lg_svgUrl logo))"

section \<open>Theorems\<close>

definition roles_of_account :: "string \<Rightarrow> string list \<Rightarrow> collection_roles" where
  "roles_of_account address roles = \<lparr>cr_address = Some address, cr_canCreate = (''ESDTRoleNFTCreate'' \<in> set roles),
     cr_canBurn = (''ESDTRoleNFTBurn'' \<in> set roles), cr_canAddQuantity = (''ESDTRoleNFTAddQuantity'' \<in> set roles),
     cr_canUpdateAttributes = (''ESDTRoleNFTUpdateAttributes'' \<in> set roles), cr_canAddUri = (''ESDTRoleNFTAddURI'' \<in> set roles),
     cr_canTransfer = (if ''ESDTTransferRole'' \<in> set roles then Some True else None), cr_roles = roles\<rparr>"

lemma setCollectionRole_update:
  "setCollectionRole role r = r\<lparr>cr_roles := cr_roles r @ [role],
     cr_canCreate := (cr_canCreate r \<or> role = ''ESDTRoleNFTCreate''), cr_canBurn := (cr_canBurn r \<or> role = ''ESDTRoleNFTBurn''),
     cr_canAddQuantity := (cr_canAddQuantity r \<or> role = ''ESDTRoleNFTAddQuantity''),
     cr_canUpdateAttributes := (cr_canUpdateAttributes r \<or> role = ''ESDTRoleNFTUpdateAttributes''),
     cr_canAddUri := (cr_canAddUri r \<or> role = ''ESDTRoleNFTAddURI''),
     cr_canTransfer := (if role = ''ESDTTransferRole'' then Some True else cr_canTransfer r)\<rparr>"
  by (simp add: setCollectionRole_def Let_def)

lemma setCollectionRole_address [simp]: "cr_address (setCollectionRole role r) = cr_address r"
  by (simp add: setCollectionRole_update)

lemma setCollectionRole_account: "setCollectionRole role (roles_of_account a roles) = roles_of_account a (roles @ [role])"
  by (simp add: setCollectionRole_update roles_of_account_def disj_commute eq_commute [of role])

lemma new_account_roles: "new_collection_roles\<lparr>cr_address := Some a\<rparr> = roles_of_account a []"
  by (simp add: new_collection_roles_def roles_of_account_def)

lemma fold_setCollectionRole: "fold setCollectionRole roles (roles_of_account a held) = roles_of_account a (held @ roles)"
  by (induction roles arbitrary: held) (simp_all add: setCollectionRole_account)

text \<open>The entry of an address in a list of roles.\<close>

definition entry_of :: "string \<Rightarrow> collection_roles list \<Rightarrow> collection_roles option" where
  "entry_of a rs = find (\<lambda>r. cr_address r = Some a) rs"

interpretation collection_role_list: role_collector setCollectionRole "\<lambda>a. new_collection_roles\<lparr>cr_address := Some a\<rparr>" cr_address upsert_role
  by unfold_locales simp_all

text \<open>
  The roles of a collection from the index, which lists the addresses of every role: every address has
  one entry, with exactly the roles that list it in the order of the index, and no address has an entry
  without a role.
\<close>

theorem roles_per_address:
  assumes "documented_distinct (ce_distinct env)" and "ic_roles doc = Some roles"
  shows "distinct (map cr_address (getNftCollectionRoles env doc))
    \<and> (\<forall>a. entry_of a (getNftCollectionRoles env doc)
        = (if roles_held a roles = [] then None else Some (roles_of_account a (roles_held a roles))))"
  using assms(2) collection_role_list.collected_distinct [of "ce_distinct env" roles]
  by (simp add: getNftCollectionRoles_def getNftCollectionRolesFromElasticResponse_def entry_of_def
      collection_role_list.collected_entry [OF assms(1)] new_account_roles fold_setCollectionRole)

text \<open>The answer of the contract: for every address the text of the address and its roles.\<close>

definition roles_text :: "string \<Rightarrow> string list \<Rightarrow> string" where
  "roles_text address roles = address @ '':'' @ join '','' roles"

definition readable_entry :: "string \<times> string list \<Rightarrow> bool" where
  "readable_entry = (\<lambda>(address, roles). CHR '':'' \<notin> set address \<and> roles \<noteq> [] \<and> (\<forall>r \<in> set roles. CHR '':'' \<notin> set r \<and> CHR '','' \<notin> set r))"

lemma join_free: "\<forall>x \<in> set xs. c \<notin> set x \<Longrightarrow> c \<notin> set sep \<Longrightarrow> c \<notin> set (join sep xs)"
  by (induction sep xs rule: join.induct) auto

lemma roles_of_roles_text:
  assumes "readable_entry (address, roles)"
  shows "roles_of_text (roles_text address roles) = Inr (roles_of_account address roles)"
proof -
  have "CHR '':'' \<notin> set (join '','' roles)" using assms by (intro join_free) (auto simp: readable_entry_def)
  then have "split_on CHR '':'' (roles_text address roles) = [address, join '','' roles]"
    using assms by (simp add: readable_entry_def roles_text_def split_on_append split_on_free)
  moreover have "split_on CHR '','' (join '','' roles) = roles"
    using assms by (intro split_on_join) (auto simp: readable_entry_def)
  ultimately show ?thesis
    using fold_setCollectionRole [of roles address "[]"] by (simp add: roles_of_text_def new_account_roles)
qed

text \<open>
  C27. The roles of a collection from the contract: what the contract gives for some addresses and their roles
  is read back; the collection is freely transferable exactly when nobody has the transfer role, and then no
  entry speaks of transfers.
\<close>

theorem contract_roles_roundtrip:
  assumes "\<forall>e \<in> set entries. readable_entry e"
    and "qe_vmQuery (ce_esdt env) ''getSpecialRoles'' [qe_textToHex (ce_esdt env) (ic_token doc)] s
      = (Inr (Some (map (\<lambda>(a, roles). Some (encode (roles_text a roles))) entries)), t)"
    and "\<forall>x. qe_base64ToText (ce_esdt env) (encode x) = x"
  shows "applyCollectionRoles env doc s
    = (Inr (map (\<lambda>(a, rs). roles_of_account a rs) entries, \<forall>(a, rs) \<in> set entries. ''ESDTTransferRole'' \<notin> set rs), t)"
proof -
  have decoded: "res_map (\<lambda>cell. case cell of None \<Rightarrow> Inl TypeError | Some encoded \<Rightarrow> roles_of_text (qe_base64ToText (ce_esdt env) encoded))
      (map (\<lambda>(a, roles). Some (encode (roles_text a roles))) entries) = Inr (map (\<lambda>(a, rs). roles_of_account a rs) entries)"
    using assms(1,3) by (induction entries) (auto simp: roles_of_roles_text)
  define roles where "roles = map (\<lambda>(a, rs). roles_of_account a rs) entries"
  define free where "free = (\<forall>(a, rs) \<in> set entries. ''ESDTTransferRole'' \<notin> set rs)"
  have list: "getNftCollectionRolesFromGateway env doc s = (Inr roles, t)"
    using assms(2) decoded by (simp add: getNftCollectionRolesFromGateway_def getNftCollectionRolesFromEsdtContract_def io_simps roles_def)
  have prohibited: "(\<exists>x \<in> set roles. cr_canTransfer x = Some True) = (\<not> free)"
    unfolding roles_def free_def by (induction entries) (auto simp: roles_of_account_def)
  have same: "map (\<lambda>r. r\<lparr>cr_canTransfer := None\<rparr>) roles = roles" if free
    using that unfolding free_def roles_def by (induction entries) (auto simp: roles_of_account_def)
  have "applyCollectionRoles env doc s = (Inr (roles, free), t)"
    using prohibited same by (auto simp: applyCollectionRoles_def io_bind_def io_return_def list Let_def)
  then show ?thesis
    unfolding roles_def free_def by simp
qed

lemma indexed_by_token_own: "distinct (map ic_token docs) \<Longrightarrow> d \<in> set docs \<Longrightarrow> indexed_by_token docs (ic_token d) = Some d"
proof -
  assume d: "distinct (map ic_token docs)" "d \<in> set docs"
  have "find (\<lambda>x. ic_token x = ic_token d) xs = Some d" if "distinct (map ic_token xs)" "d \<in> set xs" for xs
    using that by (induction xs) auto
  then show ?thesis using d by (simp add: indexed_by_token_def rev_map [symmetric])
qed

text \<open>
  The list of collections: every document of the index whose properties are known is shown, in the order
  of the index and with its own values, and no other.
\<close>

theorem collections_listed:
  assumes "ce_getNftCollections env pagination cfilter None s = (Inr docs, t)" and "distinct (map ic_token docs)"
    and "\<forall>d \<in> set docs. length (split_on CHR ''-'' (ic_token d)) \<le> 2"
    and "batchGetCollectionsProperties env (map ic_token docs) t = (Inr props, u)"
    and "batchGetCollectionsAssets env (map ic_token docs) u = (Inr assets, v)"
  shows "nftCollections env pagination cfilter s = (Inr (concat (map (\<lambda>d. case props (ic_token d) of None \<Rightarrow> []
      | Some p \<Rightarrow> [applyPropertiesToCollectionFromElasticSearch (collection_of_props (ic_token d) p (assets (ic_token d))) d]) docs)), v)"
proof -
  have base: "nc_collection (collection_of_props (ic_token d) p a) = ic_token d" if "d \<in> set docs" for d p a
    using assms(3) that by (simp add: collection_of_props_def Let_def join_split_on)
  have "map (\<lambda>c. case indexed_by_token docs (nc_collection c) of None \<Rightarrow> c | Some d \<Rightarrow> applyPropertiesToCollectionFromElasticSearch c d)
      (concat (map (\<lambda>i. case props i of None \<Rightarrow> [] | Some p \<Rightarrow> [collection_of_props i p (assets i)]) (map ic_token ds)))
    = concat (map (\<lambda>d. case props (ic_token d) of None \<Rightarrow> []
      | Some p \<Rightarrow> [applyPropertiesToCollectionFromElasticSearch (collection_of_props (ic_token d) p (assets (ic_token d))) d]) ds)"
    if "set ds \<subseteq> set docs" for ds
    using that by (induction ds) (auto simp: base indexed_by_token_own [OF assms(2)] split: option.splits)
  from this [of docs] show ?thesis
    using assms(1,4,5) by (simp add: nftCollections_def processNftCollections_def applyPropertiesToCollections_def io_simps comp_def)
qed

section \<open>Witnesses\<close>

definition sample_doc :: indexed_collection where
  "sample_doc = \<lparr>ic_token = ''C-1'', ic_type = ''DynamicMetaESDT'', ic_timestamp = Some 3,
     ic_roles = Some [(''ESDTRoleNFTCreate'', [''a'', ''b'']), (''ESDTRoleNFTBurn'', [''b''])], ic_isVerified = Some True,
     ic_nftCount = Some 2, ic_holderCount = None, ic_scamInfoType = None, ic_scamInfoDescription = None\<rparr>"

definition sample_detailed :: "nft_collection \<Rightarrow> nft_collection_detailed" where
  "sample_detailed c = nft_collection.extend c (nft_collection_detailed.fields None [])"

definition sample_account :: "nft_collection \<Rightarrow> nft_collection_account" where
  "sample_account c = nft_collection.extend c (nft_collection_account.fields 0)"

definition sample_collection_env :: "(string \<Rightarrow> string set) collection_env" where
  "sample_collection_env = \<lparr>ce_consts = qe_consts sample_esdt_env,
     ce_esdt = sample_esdt_env\<lparr>qe_vmQuery := \<lambda>_ _. io_return (Some [Some ''erd1:ESDTRoleNFTCreate,ESDTTransferRole''])\<rparr>,
     ce_assetsService = sample_assets_env, ce_getCollection = \<lambda>_. io_return (Some sample_doc),
     ce_getNftCollections = \<lambda>_ _ _. io_return [sample_doc], ce_getNftCollectionsByIds = \<lambda>_. io_return [sample_doc],
     ce_getNftCollectionCount = \<lambda>_. io_return 1, ce_getCollectionsForAddress = \<lambda>_ _ _. io_return [(''C-1'', 5)],
     ce_applyProperties = \<lambda>_ _ _ _. io_return (\<lambda>_. None), ce_applyAssets = \<lambda>_ _ _ _. io_return (\<lambda>_. None),
     ce_isCollection = \<lambda>_. True, ce_getCollectionTraits = \<lambda>_. io_return None, ce_distinct = remdups,
     ce_mergeDetailed = sample_detailed, ce_mergeAccount = sample_account\<rparr>"

theorem roles_per_address_witness:
  "entry_of ''b'' (getNftCollectionRoles sample_collection_env sample_doc) = Some (roles_of_account ''b'' [''ESDTRoleNFTCreate'', ''ESDTRoleNFTBurn''])"
proof -
  have "documented_distinct (ce_distinct sample_collection_env)"
    by (simp add: documented_distinct_def sample_collection_env_def)
  moreover have "ic_roles sample_doc = Some [(''ESDTRoleNFTCreate'', [''a'', ''b'']), (''ESDTRoleNFTBurn'', [''b''])]"
    by (simp add: sample_doc_def)
  ultimately show ?thesis
    using roles_per_address [of sample_collection_env sample_doc] by (auto simp: roles_held_def)
qed

theorem contract_roles_roundtrip_witness:
  "applyCollectionRoles sample_collection_env sample_doc (\<lambda>_. {})
    = (Inr ([roles_of_account ''erd1'' [''ESDTRoleNFTCreate'', ''ESDTTransferRole'']], False), \<lambda>_. {})"
proof -
  let ?entries = "[(''erd1'', [''ESDTRoleNFTCreate'', ''ESDTTransferRole''])]"
  have readable: "\<forall>e \<in> set ?entries. readable_entry e" by (simp add: readable_entry_def)
  have answer: "qe_vmQuery (ce_esdt sample_collection_env) ''getSpecialRoles'' [qe_textToHex (ce_esdt sample_collection_env) (ic_token sample_doc)] (\<lambda>_. {})
      = (Inr (Some (map (\<lambda>(a, roles). Some (id (roles_text a roles))) ?entries)), \<lambda>_. {})"
    by (simp add: sample_collection_env_def io_return_def roles_text_def)
  have decoded: "\<forall>x. qe_base64ToText (ce_esdt sample_collection_env) (id x) = x"
    by (simp add: sample_collection_env_def sample_esdt_env_def)
  from contract_roles_roundtrip [OF readable answer decoded] show ?thesis by simp
qed

theorem collections_listed_witness:
  "nftCollections sample_collection_env \<lparr>qp_from = 0, qp_size = 1, qp_before = None, qp_after = None\<rparr> no_collection_filter (\<lambda>_. {}) = (Inr [], \<lambda>_. {})"
proof -
  have docs: "ce_getNftCollections sample_collection_env p f None s = (Inr [sample_doc], s)" for p f s
    by (simp add: sample_collection_env_def io_return_def)
  have props: "batchGetCollectionsProperties sample_collection_env (map ic_token [sample_doc]) s = (Inr (\<lambda>_. None), s)" for s
    by (simp add: batchGetCollectionsProperties_def esdtPropertiesOf_def collectionPropertiesOf_def sample_collection_env_def io_return_def)
  have assets: "batchGetCollectionsAssets sample_collection_env (map ic_token [sample_doc]) s = (Inr (\<lambda>_. None), s)" for s
    by (simp add: batchGetCollectionsAssets_def getAllTokenAssets_def getAllTokenAssetsRaw_def sample_collection_env_def sample_assets_env_def io_simps Let_def)
  have token: "\<forall>d \<in> set [sample_doc]. length (split_on CHR ''-'' (ic_token d)) \<le> 2" by (simp add: sample_doc_def)
  from collections_listed [OF docs _ token props assets] show ?thesis by simp
qed

end
