(* ===== verification/EsdtAddress.thy ===== *)
theory EsdtAddress imports Collections Nodes TransactionAction Reachability begin

text \<open>
  The tokens, NFTs and collections of an address (\<open>src/endpoints/esdt/esdt.address.service.ts\<close>): the choice
  between the gateway and the index, the memory of addresses whose trie is too slow, the filters that are
  applied to the answer of the gateway, the roles of an address, and the sharing of requests in flight. The
  two methods of the collection service that call it are here too, and the helpers for the address of a file.
\<close>

section \<open>Data\<close>

text \<open>
  What the gateway gives for one token of an address. \<open>gn_royalties\<close> is the number that the royalties
  read as, or \<open>None\<close> when they are not a number.
\<close>

record gateway_nft =
  gn_tokenIdentifier :: string
  gn_attributes :: "string option"
  gn_balance :: string
  gn_creator :: "string option"
  gn_hash :: "string option"
  gn_name :: "string option"
  gn_nonce :: "int option"
  gn_royalties :: "rat option"
  gn_uris :: "string list option"
  gn_timestamp :: "int option"
  gn_type :: "string option"
  gn_subType :: "string option"

definition new_gateway_nft :: gateway_nft where
  "new_gateway_nft = \<lparr>gn_tokenIdentifier = [], gn_attributes = Some [], gn_balance = ''0'', gn_creator = Some [], gn_hash = Some [],
     gn_name = Some [], gn_nonce = Some 0, gn_royalties = Some 0, gn_uris = Some [], gn_timestamp = None, gn_type = None, gn_subType = None\<rparr>"

text \<open>What the index gives for one token of an address.\<close>

record indexed_nft =
  en_tokenNonce :: "int option"
  en_balance :: string
  en_token :: string
  en_identifier :: string
  en_timestamp :: "int option"
  en_attributes :: "string option"
  en_creator :: "string option"
  en_name :: "string option"
  en_royalties :: "rat option"
  en_uris :: "string list option"

text \<open>Royalties are \<open>None\<close> when they are deleted and \<open>Some None\<close> when they are not a number.\<close>

record nft_account =
  na_identifier :: string
  na_collection :: string
  na_hash :: string
  na_timestamp :: "int option"
  na_attributes :: "string option"
  na_nonce :: "int option"
  na_type :: string
  na_subType :: "string option"
  na_name :: "string option"
  na_creator :: "string option"
  na_royalties :: "rat option option"
  na_uris :: "string list option"
  na_url :: string
  na_isWhitelistedStorage :: bool
  na_tags :: "string list"
  na_decimals :: "int option"
  na_scamInfo :: "scam_info option"
  na_balance :: string
  na_receivedAt :: "int option"

record nft_collection_with_roles = nft_collection +
  cw_role :: collection_roles
  cw_canTransfer :: bool
  cw_canCreate :: bool
  cw_canBurn :: bool
  cw_canAddQuantity :: "bool option"
  cw_canUpdateAttributes :: bool
  cw_canAddUri :: bool

record nft_query_options =
  no_withOwner :: bool
  no_withSupply :: bool
  no_withReceivedAt :: bool
  no_withAssets :: bool

definition validate_nft_options :: "nft_query_options \<Rightarrow> int \<Rightarrow> unit res" where
  "validate_nft_options options pageSize =
     (if no_withReceivedAt options \<and> pageSize > 25 then Inl (HttpError (Some ''withReceivedAt can only be used with a size of 25'')) else Inr ())"

text \<open>The functions of the SDK on texts: the replacement of a prefix, and the removal of a prefix or a suffix.\<close>

record uri_functions =
  uf_replaceUri :: "string \<Rightarrow> string \<Rightarrow> string \<Rightarrow> string"
  uf_removePrefix :: "string \<Rightarrow> string \<Rightarrow> string"
  uf_removeSuffix :: "string \<Rightarrow> string \<Rightarrow> string"

text \<open>
  The services. \<open>xa_gatewayEsdts\<close> asks the gateway for all tokens of an address, in the order of the keys of
  its answer; its function says of an error that it is handled (the answer is then \<open>undefined\<close>), that it is
  not, or throws another one. \<open>xa_dataError\<close> and \<open>xa_responseError\<close> are the message of the gateway in an
  error, and \<open>None\<close> where the error has none. \<open>xa_round\<close> rounds a quotient to a floating point number.
\<close>

record 's esdt_address_env =
  xa_consts :: time_consts
  xa_prefix :: string
  xa_collections :: "'s collection_env"
  xa_isSmartContract :: "string \<Rightarrow> bool"
  xa_flag :: "string \<Rightarrow> ('s, bool option) io"
  xa_setFlag :: "string \<Rightarrow> bool \<Rightarrow> int \<Rightarrow> ('s, unit) io"
  xa_getLocal :: "string \<Rightarrow> ('s, (string \<times> gateway_nft) list option) io"
  xa_setLocal :: "string \<Rightarrow> (string \<times> gateway_nft) list \<Rightarrow> int \<Rightarrow> ('s, unit) io"
  xa_secondsUntilNextRound :: "('s, int) io"
  xa_gatewayEsdts :: "string \<Rightarrow> (js_error \<Rightarrow> bool res) \<Rightarrow> ('s, (string \<times> gateway_nft) list option) io"
  xa_gatewayNft :: "string \<Rightarrow> ('s, gateway_nft option) io"
  xa_dataError :: "js_error \<Rightarrow> string option"
  xa_responseError :: "js_error \<Rightarrow> string option"
  xa_indexNfts :: "string \<Rightarrow> nft_filter \<Rightarrow> query_pagination \<Rightarrow> ('s, indexed_nft list) io"
  xa_indexNftCount :: "string \<Rightarrow> nft_filter \<Rightarrow> ('s, int) io"
  xa_indexCollectionCount :: "string \<Rightarrow> collection_filter \<Rightarrow> ('s, int) io"
  xa_receivedTimestamps :: "string \<Rightarrow> string list \<Rightarrow> ('s, string \<Rightarrow> int option) io"
  xa_addressEsdtRoles :: "string \<Rightarrow> ('s, string \<Rightarrow> string list option) io"
  xa_hexToNumber :: "string option \<Rightarrow> int option"
  xa_base64Decode :: "string \<Rightarrow> string res"
  xa_uriFunctions :: uri_functions
  xa_getTags :: "string \<Rightarrow> string list"
  xa_compare :: "string \<Rightarrow> string \<Rightarrow> int"
  xa_round :: "rat \<Rightarrow> rat"
  xa_mergeWithRoles :: "nft_collection \<Rightarrow> nft_collection_with_roles"

section \<open>Helpers for files\<close>

definition uri_word_char :: "char \<Rightarrow> bool" where
  "uri_word_char c = (let n = (of_char c :: nat) in (48 \<le> n \<and> n \<le> 57) \<or> (65 \<le> n \<and> n \<le> 90) \<or> (97 \<le> n \<and> n \<le> 122) \<or> n = 95)"

text \<open>\<open>s.replace(/https\:\/\/\w*\.mypinata\.cloud\/ipfs/, prefix)\<close>: the first match.\<close>

definition pinata_rest :: "string \<Rightarrow> string option" where
  "pinata_rest s =
     (if startsWith s ''https://''
      then (let r = dropWhile uri_word_char (drop 8 s)
            in if startsWith r ''.mypinata.cloud/ipfs'' then Some (drop 20 r) else None)
      else None)"

fun replace_pinata :: "string \<Rightarrow> string \<Rightarrow> string" where
  "replace_pinata p [] = []"
| "replace_pinata p (c # cs) = (case pinata_rest (c # cs) of Some r \<Rightarrow> p @ r | None \<Rightarrow> c # replace_pinata p cs)"

definition gateway_prefixes :: "string list" where
  "gateway_prefixes = [''https://ipfs.io/ipfs'', ''https://gateway.ipfs.io/ipfs'', ''https://gateway.pinata.cloud/ipfs'', ''https://dweb.link/ipfs'',
     ''ipfs:/'', ''https://media.elrond.com/nfts/asset'', ''https://devnet-media.elrond.com/nfts/asset'', ''https://testnet-media.elrond.com/nfts/asset'',
     ''https://api.multiversx.com/media/nfts/asset'', ''https://devnet-api.multiversx.com/media/nfts/asset'',
     ''https://testnet-api.multiversx.com/media/nfts/asset'']"

definition computeNftUri :: "uri_functions \<Rightarrow> string \<Rightarrow> string \<Rightarrow> string" where
  "computeNftUri uf uri p =
     (let uri = fold (\<lambda>g u. uf_replaceUri uf u g p) gateway_prefixes uri;
          uri = replace_pinata p uri
      in if suffix ''.ipfs.dweb.link'' uri
         then p @ ''/'' @ uf_removePrefix uf (uf_removeSuffix uf uri ''.ipfs.dweb.link'') ''https://''
         else uri)"

definition getNftProof :: "(string \<Rightarrow> string res) \<Rightarrow> string option \<Rightarrow> string option res" where
  "getNftProof decode hash =
     (if \<not> truthy hash then Inr None
      else res_bind (decode (the hash)) (\<lambda>decoded. Inr (Some (if startsWith decoded ''proof:'' then decoded else the hash))))"

section \<open>Requests to the gateway\<close>

definition gateway_error :: "'s esdt_address_env \<Rightarrow> js_error \<Rightarrow> bool res" where
  "gateway_error env error =
     (case xa_dataError env error of
        None \<Rightarrow> Inr False
      | Some message \<Rightarrow>
          if str_includes message ''account was not found'' then Inr True
          else if str_includes message ''trie operations timeout'' then Inl TrieOperationsTimeoutError
          else Inr False)"

definition getAllEsdtsForAddressFromGatewayRaw :: "'s esdt_address_env \<Rightarrow> string \<Rightarrow> ('s, (string \<times> gateway_nft) list) io" where
  "getAllEsdtsForAddressFromGatewayRaw env address =
     io_bind (xa_gatewayEsdts env (''address/'' @ address @ ''/esdt'') (gateway_error env)) (\<lambda>r. io_return (coalesce r []))"

text \<open>
  A call that nothing else interleaves with: no request is pending when it starts. The calls that share a
  request are the steps below.
\<close>

definition getAllEsdtsForAddressFromGateway :: "'s esdt_address_env \<Rightarrow> string \<Rightarrow> ('s, (string \<times> gateway_nft) list) io" where
  "getAllEsdtsForAddressFromGateway env address =
     io_bind (xa_getLocal env (''address:'' @ address @ '':esdts'')) (\<lambda>cached. case cached of
       Some esdts \<Rightarrow> io_return esdts
     | None \<Rightarrow>
         io_bind (getAllEsdtsForAddressFromGatewayRaw env address) (\<lambda>esdts.
         io_bind (xa_secondsUntilNextRound env) (\<lambda>ttl.
         io_bind (xa_setLocal env (''address:'' @ address @ '':esdts'') esdts ttl) (\<lambda>_. io_return esdts))))"

section \<open>Shared requests\<close>

text \<open>
  The state that concurrent calls share: the promises that were made, each with its address and its outcome
  once it has one, the pending promise of every address, the local cache, and the calls. A call waits for the
  promise of another call, waits for its own, waits for the lifetime to store what it has got, or is finished.
\<close>

datatype 'v esdt_call = Joined string nat | Asking string nat | Storing string 'v | Finished string "'v res"

record 'v esdt_requests =
  eq_promises :: "(string \<times> 'v res option) list"
  eq_pending :: "string \<Rightarrow> nat option"
  eq_local :: "string \<Rightarrow> 'v option"
  eq_calls :: "'v esdt_call list"

definition no_requests :: "'v esdt_requests" where
  "no_requests = \<lparr>eq_promises = [], eq_pending = \<lambda>_. None, eq_local = \<lambda>_. None, eq_calls = []\<rparr>"

text \<open>The call up to its first \<open>await\<close>.\<close>

definition start_call :: "string \<Rightarrow> 'v esdt_requests \<Rightarrow> 'v esdt_requests" where
  "start_call address q =
     (case eq_pending q address of
        Some p \<Rightarrow> q\<lparr>eq_calls := eq_calls q @ [Joined address p]\<rparr>
      | None \<Rightarrow>
          (case eq_local q address of
             Some v \<Rightarrow> q\<lparr>eq_calls := eq_calls q @ [Finished address (Inr v)]\<rparr>
           | None \<Rightarrow> q\<lparr>eq_promises := eq_promises q @ [(address, None)],
               eq_pending := (eq_pending q)(address \<mapsto> length (eq_promises q)),
               eq_calls := eq_calls q @ [Asking address (length (eq_promises q))]\<rparr>))"

text \<open>The gateway settles a promise.\<close>

definition settle :: "nat \<Rightarrow> 'v res \<Rightarrow> 'v esdt_requests \<Rightarrow> 'v esdt_requests" where
  "settle p outcome q = q\<lparr>eq_promises := (eq_promises q)[p := (fst (eq_promises q ! p), Some outcome)]\<rparr>"

text \<open>A call that waited for a settled promise goes on; the one that asked removes the pending entry.\<close>

definition resume_call :: "nat \<Rightarrow> 'v esdt_requests \<Rightarrow> 'v esdt_requests option" where
  "resume_call i q =
     (case eq_calls q ! i of
        Joined address p \<Rightarrow> map_option (\<lambda>outcome. q\<lparr>eq_calls := (eq_calls q)[i := Finished address outcome]\<rparr>) (snd (eq_promises q ! p))
      | Asking address p \<Rightarrow> map_option (\<lambda>outcome. q\<lparr>eq_pending := (eq_pending q)(address := None),
            eq_calls := (eq_calls q)[i := (case outcome of Inl e \<Rightarrow> Finished address (Inl e) | Inr v \<Rightarrow> Storing address v)]\<rparr>)
          (snd (eq_promises q ! p))
      | _ \<Rightarrow> None)"

text \<open>The lifetime arrives, and the value is stored and returned.\<close>

definition store_value :: "nat \<Rightarrow> int res \<Rightarrow> 'v esdt_requests \<Rightarrow> 'v esdt_requests option" where
  "store_value i ttl q =
     (case eq_calls q ! i of
        Storing address v \<Rightarrow>
          Some (case ttl of Inl e \<Rightarrow> q\<lparr>eq_calls := (eq_calls q)[i := Finished address (Inl e)]\<rparr>
            | Inr _ \<Rightarrow> q\<lparr>eq_local := (eq_local q)(address \<mapsto> v), eq_calls := (eq_calls q)[i := Finished address (Inr v)]\<rparr>)
      | _ \<Rightarrow> None)"

text \<open>
  The steps that end a call, and the two that come from outside; \<open>answers\<close> says what the gateway may answer for
  an address.
\<close>

inductive esdt_progress :: "(string \<Rightarrow> 'v res \<Rightarrow> bool) \<Rightarrow> 'v esdt_requests \<Rightarrow> 'v esdt_requests \<Rightarrow> bool"
  for answers :: "string \<Rightarrow> 'v res \<Rightarrow> bool" where
  settled: "p < length (eq_promises q) \<Longrightarrow> snd (eq_promises q ! p) = None \<Longrightarrow> answers (fst (eq_promises q ! p)) outcome
    \<Longrightarrow> esdt_progress answers q (settle p outcome q)"
| resumed: "i < length (eq_calls q) \<Longrightarrow> resume_call i q = Some r \<Longrightarrow> esdt_progress answers q r"
| stored: "i < length (eq_calls q) \<Longrightarrow> store_value i ttl q = Some r \<Longrightarrow> esdt_progress answers q r"

inductive esdt_request_step :: "(string \<Rightarrow> 'v res \<Rightarrow> bool) \<Rightarrow> 'v esdt_requests \<Rightarrow> 'v esdt_requests \<Rightarrow> bool"
  for answers :: "string \<Rightarrow> 'v res \<Rightarrow> bool" where
  progress: "esdt_progress answers q r \<Longrightarrow> esdt_request_step answers q r"
| new_call: "esdt_request_step answers q (start_call address q)"
| expiry: "esdt_request_step answers q (q\<lparr>eq_local := (eq_local q)(address := None)\<rparr>)"

section \<open>NFTs of an address\<close>

definition map_one :: "'s esdt_address_env \<Rightarrow> gateway_nft \<Rightarrow> ('s, nft_account) io" where
  "map_one env d =
     io_bind (io_lift (getNftProof (xa_base64Decode env) (gn_hash d))) (\<lambda>proof.
       let uris = filter (\<lambda>u. u \<noteq> []) (coalesce (gn_uris d) []);
           url = (case uris of [] \<Rightarrow> [] | u # _ \<Rightarrow> (case xa_base64Decode env u of Inl _ \<Rightarrow> []
             | Inr decoded \<Rightarrow> computeNftUri (xa_uriFunctions env) decoded (xa_prefix env)));
           nft = \<lparr>na_identifier = gn_tokenIdentifier d, na_collection = getCollectionIdentifier (gn_tokenIdentifier d),
             na_hash = coalesce proof [], na_timestamp = gn_timestamp d, na_attributes = gn_attributes d, na_nonce = gn_nonce d,
             na_type = ''NonFungibleESDT'', na_subType = Some ''NonFungibleESDT'', na_name = gn_name d, na_creator = gn_creator d,
             na_royalties = Some (map_option (\<lambda>r. xa_round env (r / 100)) (gn_royalties d)), na_uris = Some uris, na_url = url,
             na_isWhitelistedStorage = startsWith url (xa_prefix env),
             na_tags = (if truthy (gn_attributes d) then xa_getTags env (the (gn_attributes d)) else []),
             na_decimals = None, na_scamInfo = None, na_balance = gn_balance d, na_receivedAt = None\<rparr>
       in io_bind (getEsdtTokenProperties (ce_esdt (xa_collections env)) (na_collection nft)) (\<lambda>details. case details of
            None \<Rightarrow> io_return nft
          | Some p \<Rightarrow>
              (let nft = nft\<lparr>na_type := pr_type p, na_subType := pr_subType p\<rparr>
               in io_bind
                 (if na_type nft = ''MetaESDT'' then
                    io_bind (getTokenAssets (ce_assetsService (xa_collections env)) (na_collection nft)) (\<lambda>assets.
                      let nft = (case assets of Some a \<Rightarrow> if ta_name a \<noteq> [] then nft\<lparr>na_name := Some (ta_name a)\<rparr> else nft | None \<Rightarrow> nft)
                      in io_return (nft\<lparr>na_decimals := pr_decimals p, na_royalties := None, na_uris := None\<rparr>))
                  else io_return nft)
                 (\<lambda>nft. io_return (if truthy (na_name nft) then nft else nft\<lparr>na_name := Some (pr_name p)\<rparr>)))))"

definition batchFetchReceivedAtTimestamps :: "'s esdt_address_env \<Rightarrow> nft_account list \<Rightarrow> string \<Rightarrow> nft_query_options option \<Rightarrow> ('s, nft_account list) io" where
  "batchFetchReceivedAtTimestamps env nfts address options =
     (if \<not> (case options of None \<Rightarrow> False | Some v \<Rightarrow> no_withReceivedAt v) \<or> nfts = [] then io_return nfts
      else io_catch
        (io_bind (xa_receivedTimestamps env address (map na_identifier nfts)) (\<lambda>timestamps.
           io_return (map (\<lambda>n. case timestamps (na_identifier n) of
             None \<Rightarrow> n | Some t \<Rightarrow> if t = 0 then n else n\<lparr>na_receivedAt := Some t\<rparr>) nfts)))
        (\<lambda>_. io_return nfts))"

definition mapToNftAccount :: "'s esdt_address_env \<Rightarrow> gateway_nft list \<Rightarrow> string \<Rightarrow> query_pagination option \<Rightarrow> nft_query_options option
    \<Rightarrow> ('s, nft_account list) io" where
  "mapToNftAccount env nfts address pagination options =
     io_bind (io_mapM (map_one env) nfts) (\<lambda>accounts.
       if address \<noteq> [] \<and> pagination \<noteq> None then batchFetchReceivedAtTimestamps env accounts address options else io_return accounts)"

definition gateway_of_indexed :: "indexed_nft \<Rightarrow> gateway_nft" where
  "gateway_of_indexed e =
     (if en_tokenNonce e = None
      then new_gateway_nft\<lparr>gn_balance := en_balance e, gn_tokenIdentifier := en_token e\<rparr>
      else new_gateway_nft\<lparr>gn_attributes := en_attributes e, gn_balance := en_balance e, gn_creator := en_creator e, gn_name := en_name e,
        gn_nonce := en_tokenNonce e, gn_royalties := en_royalties e, gn_tokenIdentifier := en_identifier e, gn_uris := en_uris e,
        gn_timestamp := en_timestamp e\<rparr>)"

definition is_nft :: "gateway_nft \<Rightarrow> bool" where
  "is_nft n \<longleftrightarrow> length (split_on CHR ''-'' (gn_tokenIdentifier n)) = 3"

definition getNftsForAddressFromElastic :: "'s esdt_address_env \<Rightarrow> string \<Rightarrow> nft_filter \<Rightarrow> query_pagination \<Rightarrow> nft_query_options option
    \<Rightarrow> ('s, nft_account list) io" where
  "getNftsForAddressFromElastic env address nfilter pagination options =
     io_bind (xa_indexNfts env address nfilter pagination) (\<lambda>esdts.
       mapToNftAccount env (filter is_nft (map gateway_of_indexed esdts)) address (Some pagination) options)"

text \<open>
  The filters, one after the other. A name that is missing makes the two that look at it throw.
\<close>

definition name_filter :: "(string \<Rightarrow> nft_account \<Rightarrow> bool) \<Rightarrow> nft_account list \<Rightarrow> nft_account list res" where
  "name_filter f nfts =
     (if \<exists>n \<in> set nfts. na_name n = None then Inl TypeError
      else Inr (filter (\<lambda>n. f (to_lower (the (na_name n))) n) nfts))"

definition when_present :: "'a option \<Rightarrow> ('a \<Rightarrow> nft_account \<Rightarrow> bool) \<Rightarrow> nft_account list \<Rightarrow> nft_account list" where
  "when_present v f nfts = (case v of None \<Rightarrow> nfts | Some x \<Rightarrow> filter (f x) nfts)"

definition filterEsdtsForAddressFromGateway :: "nft_filter \<Rightarrow> query_pagination \<Rightarrow> nft_account list \<Rightarrow> nft_account list res" where
  "filterEsdtsForAddressFromGateway nf pagination nfts =
     res_bind (if truthy (ff_search nf)
       then name_filter (\<lambda>name n. str_includes name (to_lower (the (ff_search nf)))
         \<or> str_includes (to_lower (na_identifier n)) (to_lower (the (ff_search nf)))) nfts
       else Inr nfts) (\<lambda>nfts.
     let nfts = when_present (ff_identifiers nf) (\<lambda>is n. na_identifier n \<in> set is) nfts;
         nfts = when_present (ff_type nf) (\<lambda>types n. na_type n \<in> set types) nfts;
         nfts = when_present (ff_subType nf) (\<lambda>types n. case na_subType n of None \<Rightarrow> False | Some t \<Rightarrow> t \<in> set types) nfts;
         nfts = (if truthy (ff_collection nf) then filter (\<lambda>n. Some (na_collection n) = ff_collection nf) nfts else nfts)
     in res_bind (if truthy (ff_name nf) then name_filter (\<lambda>name _. str_includes name (to_lower (the (ff_name nf)))) nfts else Inr nfts) (\<lambda>nfts.
     let nfts = when_present (ff_collections nf) (\<lambda>cs n. na_collection n \<in> set cs) nfts;
         nfts = when_present (ff_tags nf) (\<lambda>tags n. set tags \<subseteq> set (na_tags n)) nfts;
         nfts = (if truthy (ff_creator nf) then filter (\<lambda>n. na_creator n = ff_creator nf) nfts else nfts);
         nfts = when_present (ff_hasUris nf) (\<lambda>has n. case na_uris n of None \<Rightarrow> False | Some us \<Rightarrow> has = (us \<noteq> [])) nfts;
         nfts = (if ff_includeFlagged nf \<noteq> Some True then filter (\<lambda>n. na_scamInfo n = None) nfts else nfts);
         nfts = (if ff_excludeMetaESDT nf = Some True then filter (\<lambda>n. na_type n \<in> {''NonFungibleESDT'', ''SemiFungibleESDT''}) nfts else nfts)
     in Inr (take (nat (qp_size pagination)) (drop (nat (qp_from pagination)) nfts))))"

definition single_identifier :: "nft_filter \<Rightarrow> string option" where
  "single_identifier nf = (case ff_identifiers nf of Some [i] \<Rightarrow> Some i | _ \<Rightarrow> None)"

definition gateway_nft_by_nonce :: "'s esdt_address_env \<Rightarrow> string \<Rightarrow> string \<Rightarrow> ('s, gateway_nft option) io" where
  "gateway_nft_by_nonce env address identifier =
     (let path = ''address/'' @ address @ ''/nft/'' @ getCollectionIdentifier identifier @ ''/nonce/''
        @ (case xa_hexToNumber env (nth_opt (split_on CHR ''-'' identifier) 2) of None \<Rightarrow> ''NaN'' | Some n \<Rightarrow> int_str n)
      in io_catch (xa_gatewayNft env path) (\<lambda>error. case xa_responseError env error of
           None \<Rightarrow> io_throw TypeError
         | Some message \<Rightarrow> if str_includes message ''account was not found'' then io_return None else io_throw error))"

definition getNftsForAddressFromGateway :: "'s esdt_address_env \<Rightarrow> string \<Rightarrow> nft_filter \<Rightarrow> query_pagination \<Rightarrow> nft_query_options option
    \<Rightarrow> ('s, nft_account list) io" where
  "getNftsForAddressFromGateway env address nf pagination options =
     (let answer = (\<lambda>esdts.
        let nfts = js_sort (\<lambda>a b. xa_compare env (gn_tokenIdentifier a) (gn_tokenIdentifier b)) (filter is_nft esdts)
        in io_bind (mapToNftAccount env nfts address (Some pagination) options) (\<lambda>accounts.
             io_lift (filterEsdtsForAddressFromGateway nf pagination accounts)))
      in case single_identifier nf of
           Some identifier \<Rightarrow>
             io_bind (gateway_nft_by_nonce env address identifier) (\<lambda>r. case r of
               None \<Rightarrow> io_return []
             | Some d \<Rightarrow> if gn_balance d = ''0'' then io_return [] else answer [d\<lparr>gn_tokenIdentifier := identifier\<rparr>])
         | None \<Rightarrow> io_bind (getAllEsdtsForAddressFromGateway env address) (\<lambda>esdts. answer (map snd esdts)))"

definition getNftsForAddressFromGatewayWithElasticFallback :: "'s esdt_address_env \<Rightarrow> string \<Rightarrow> nft_filter \<Rightarrow> query_pagination
    \<Rightarrow> nft_query_options option \<Rightarrow> ('s, nft_account list) io" where
  "getNftsForAddressFromGatewayWithElasticFallback env address nf pagination options =
     (let info = CacheInfo_AddressEsdtTrieTimeout (xa_consts env) address
      in io_bind (xa_flag env (ci_key info)) (\<lambda>isTrieTimeout.
           if isTrieTimeout = Some True then getNftsForAddressFromElastic env address nf pagination options
           else io_catch (getNftsForAddressFromGateway env address nf pagination options) (\<lambda>error.
             if error = TrieOperationsTimeoutError
             then io_then (xa_setFlag env (ci_key info) True (ci_ttl info)) (getNftsForAddressFromElastic env address nf pagination options)
             else io_throw error)))"

datatype esdt_data_source = Source_gateway | Source_elastic

definition nftsOfAddress :: "'s esdt_address_env \<Rightarrow> string \<Rightarrow> nft_filter \<Rightarrow> query_pagination \<Rightarrow> esdt_data_source option
    \<Rightarrow> nft_query_options option \<Rightarrow> ('s, nft_account list) io" where
  "nftsOfAddress env address nf pagination source options =
     (if single_identifier nf \<noteq> None then getNftsForAddressFromGatewayWithElasticFallback env address nf pagination options
      else if source = Some Source_elastic \<or> xa_isSmartContract env address then getNftsForAddressFromElastic env address nf pagination options
      else getNftsForAddressFromGatewayWithElasticFallback env address nf pagination options)"

definition getNftCountForAddressFromElastic :: "'s esdt_address_env \<Rightarrow> string \<Rightarrow> nft_filter \<Rightarrow> ('s, int) io" where
  "getNftCountForAddressFromElastic env address nf = xa_indexNftCount env address nf"

definition getCollectionCountForAddressFromElastic :: "'s esdt_address_env \<Rightarrow> string \<Rightarrow> collection_filter \<Rightarrow> ('s, int) io" where
  "getCollectionCountForAddressFromElastic env address cfilter = xa_indexCollectionCount env address cfilter"

section \<open>Collections of an address with its roles\<close>

definition roles_for_address :: "'s esdt_address_env \<Rightarrow> string \<Rightarrow> (string \<times> string list) list \<Rightarrow> bool \<Rightarrow> collection_roles" where
  "roles_for_address env address roles canTransfer =
     fold (\<lambda>(role, addresses) r. if address \<in> set (ce_distinct (xa_collections env) addresses) then setCollectionRole role r else r) roles
       (if \<not> canTransfer then new_collection_roles\<lparr>cr_canTransfer := Some False\<rparr> else new_collection_roles)"

definition with_roles :: "'s esdt_address_env \<Rightarrow> string \<Rightarrow> nft_collection \<Rightarrow> indexed_collection \<Rightarrow> nft_collection_with_roles" where
  "with_roles env address c doc =
     (let c = xa_mergeWithRoles env (c\<lparr>nc_timestamp := ic_timestamp doc, nc_subType := Some (ic_type doc)\<rparr>)
      in case ic_roles doc of
           None \<Rightarrow> c
         | Some roles \<Rightarrow>
             (let c = (if ''ESDTTransferRole'' \<notin> fst ` set roles then c\<lparr>cw_canTransfer := True\<rparr> else c);
                  r = roles_for_address env address roles (cw_canTransfer c)
              in c\<lparr>cw_role := r, cw_canCreate := cr_canCreate r, cw_canBurn := cr_canBurn r, cw_canAddQuantity := Some (cr_canAddQuantity r),
                   cw_canUpdateAttributes := cr_canUpdateAttributes r, cw_canAddUri := cr_canAddUri r\<rparr>))"

text \<open>
  The second loop: the name \<open>accountCollection\<close> that it uses for a timestamp of zero is not defined there.
\<close>

fun finish_collections :: "nft_collection_with_roles list \<Rightarrow> nft_collection_with_roles list res" where
  "finish_collections [] = Inr []"
| "finish_collections (c # cs) =
     (let c = (if nc_type c = ''NonFungibleESDT'' then c\<lparr>cw_canAddQuantity := None\<rparr> else c)
      in if nc_timestamp c = Some 0 then Inl ReferenceError
         else res_bind (finish_collections cs) (\<lambda>cs. Inr (c # cs)))"

definition rolesCollectionsOfAddress :: "'s esdt_address_env \<Rightarrow> string \<Rightarrow> collection_filter \<Rightarrow> query_pagination \<Rightarrow> ('s, nft_collection_with_roles list) io" where
  "rolesCollectionsOfAddress env address cfilter pagination =
     io_bind (ce_getNftCollections (xa_collections env) pagination cfilter (Some address)) (\<lambda>docs.
     io_bind (applyPropertiesToCollections (xa_collections env) (map ic_token docs)) (\<lambda>collections.
       io_lift (finish_collections (concat (map (\<lambda>c. case indexed_by_token docs (nc_collection c) of
         None \<Rightarrow> [] | Some d \<Rightarrow> [with_roles env address c d]) collections)))))"

text \<open>The roles that the gateway gives for an address.\<close>

definition applyRolesToAccountCollections :: "'s esdt_address_env \<Rightarrow> string \<Rightarrow> nft_collection_with_roles list \<Rightarrow> ('s, nft_collection_with_roles list) io" where
  "applyRolesToAccountCollections env address collections =
     io_bind (xa_addressEsdtRoles env address) (\<lambda>roles. io_return (map (\<lambda>c.
       let has = (\<lambda>r. case roles (nc_collection c) of None \<Rightarrow> False | Some rs \<Rightarrow> r \<in> set rs);
           role = (cw_role c)\<lparr>cr_canCreate := has ''ESDTRoleNFTCreate'', cr_canBurn := has ''ESDTRoleNFTBurn'',
             cr_canUpdateAttributes := has ''ESDTRoleNFTUpdateAttributes'', cr_canAddUri := has ''ESDTRoleNFTAddURI'',
             cr_canTransfer := Some (has ''ESDTTransferRole'')\<rparr>;
           role = (if nc_type c = ''SemiFungibleESDT'' then role\<lparr>cr_canAddQuantity := has ''ESDTRoleNFTAddQuantity''\<rparr> else role);
           c = c\<lparr>cw_role := role\<rparr>
       in if nc_timestamp c = Some 0 then c\<lparr>nc_timestamp := None\<rparr> else c) collections))"

definition getCollectionForAddressWithRole :: "'s esdt_address_env \<Rightarrow> string \<Rightarrow> string \<Rightarrow> ('s, nft_collection_with_roles option) io" where
  "getCollectionForAddressWithRole env address collection =
     io_bind (rolesCollectionsOfAddress env address (no_collection_filter\<lparr>cf_collection := Some collection\<rparr>)
         \<lparr>qp_from = 0, qp_size = 1, qp_before = None, qp_after = None\<rparr>) (\<lambda>collections. io_return (nth_opt collections 0))"

definition getCollectionsWithRolesForAddress :: "'s esdt_address_env \<Rightarrow> string \<Rightarrow> collection_filter \<Rightarrow> query_pagination
    \<Rightarrow> ('s, nft_collection_with_roles list) io" where
  "getCollectionsWithRolesForAddress env address cfilter pagination = rolesCollectionsOfAddress env address cfilter pagination"

definition getCollectionCountForAddressWithRoles :: "'s esdt_address_env \<Rightarrow> string \<Rightarrow> collection_filter \<Rightarrow> ('s, int) io" where
  "getCollectionCountForAddressWithRoles env address cfilter = getCollectionCountForAddressFromElastic env address cfilter"

section \<open>Theorems on shared requests\<close>

text \<open>
  The invariant: a call that asked holds the pending entry of its address and no other call does, a promise
  belongs to the address of the calls that wait for it, and an unsettled promise is pending.
\<close>

definition requests_inv :: "'v esdt_requests \<Rightarrow> bool" where
  "requests_inv q \<longleftrightarrow>
     (\<forall>i < length (eq_calls q). \<forall>a p. eq_calls q ! i = Asking a p
        \<longrightarrow> p < length (eq_promises q) \<and> fst (eq_promises q ! p) = a \<and> eq_pending q a = Some p)
     \<and> (\<forall>i < length (eq_calls q). \<forall>a p. eq_calls q ! i = Joined a p \<longrightarrow> p < length (eq_promises q) \<and> fst (eq_promises q ! p) = a)
     \<and> (\<forall>a p. eq_pending q a = Some p \<longrightarrow> p < length (eq_promises q) \<and> fst (eq_promises q ! p) = a)
     \<and> (\<forall>p < length (eq_promises q). snd (eq_promises q ! p) = None \<longrightarrow> eq_pending q (fst (eq_promises q ! p)) = Some p)
     \<and> (\<forall>i < length (eq_calls q). \<forall>j < length (eq_calls q). \<forall>a. (\<exists>p. eq_calls q ! i = Asking a p) \<longrightarrow> (\<exists>p. eq_calls q ! j = Asking a p) \<longrightarrow> i = j)"

lemma requests_invD:
  assumes "requests_inv q"
  shows "i < length (eq_calls q) \<Longrightarrow> eq_calls q ! i = Asking a p \<Longrightarrow> p < length (eq_promises q) \<and> fst (eq_promises q ! p) = a \<and> eq_pending q a = Some p"
    and "i < length (eq_calls q) \<Longrightarrow> eq_calls q ! i = Joined a p \<Longrightarrow> p < length (eq_promises q) \<and> fst (eq_promises q ! p) = a"
    and "eq_pending q a = Some p \<Longrightarrow> p < length (eq_promises q) \<and> fst (eq_promises q ! p) = a"
    and "p < length (eq_promises q) \<Longrightarrow> snd (eq_promises q ! p) = None \<Longrightarrow> eq_pending q (fst (eq_promises q ! p)) = Some p"
    and "i < length (eq_calls q) \<Longrightarrow> j < length (eq_calls q) \<Longrightarrow> eq_calls q ! i = Asking a p \<Longrightarrow> eq_calls q ! j = Asking a p' \<Longrightarrow> i = j"
  using assms unfolding requests_inv_def by blast+

lemma requests_invI:
  assumes "\<And>i a p. i < length (eq_calls q) \<Longrightarrow> eq_calls q ! i = Asking a p \<Longrightarrow> p < length (eq_promises q) \<and> fst (eq_promises q ! p) = a \<and> eq_pending q a = Some p"
    and "\<And>i a p. i < length (eq_calls q) \<Longrightarrow> eq_calls q ! i = Joined a p \<Longrightarrow> p < length (eq_promises q) \<and> fst (eq_promises q ! p) = a"
    and "\<And>a p. eq_pending q a = Some p \<Longrightarrow> p < length (eq_promises q) \<and> fst (eq_promises q ! p) = a"
    and "\<And>p. p < length (eq_promises q) \<Longrightarrow> snd (eq_promises q ! p) = None \<Longrightarrow> eq_pending q (fst (eq_promises q ! p)) = Some p"
    and "\<And>i j a p p'. i < length (eq_calls q) \<Longrightarrow> j < length (eq_calls q) \<Longrightarrow> eq_calls q ! i = Asking a p \<Longrightarrow> eq_calls q ! j = Asking a p' \<Longrightarrow> i = j"
  shows "requests_inv q"
  unfolding requests_inv_def using assms by blast

lemma resume_callE:
  assumes "resume_call i q = Some r"
  obtains (join) a p x where "eq_calls q ! i = Joined a p" "snd (eq_promises q ! p) = Some x"
      "r = q\<lparr>eq_calls := (eq_calls q)[i := Finished a x]\<rparr>"
    | (failed) a p e where "eq_calls q ! i = Asking a p" "snd (eq_promises q ! p) = Some (Inl e)"
      "r = q\<lparr>eq_pending := (eq_pending q)(a := None), eq_calls := (eq_calls q)[i := Finished a (Inl e)]\<rparr>"
    | (got) a p v where "eq_calls q ! i = Asking a p" "snd (eq_promises q ! p) = Some (Inr v)"
      "r = q\<lparr>eq_pending := (eq_pending q)(a := None), eq_calls := (eq_calls q)[i := Storing a v]\<rparr>"
proof (cases "eq_calls q ! i")
  case (Asking a p)
  with assms obtain x where x: "snd (eq_promises q ! p) = Some x"
    by (auto simp: resume_call_def)
  with assms Asking that(2,3) show thesis by (cases x) (auto simp: resume_call_def)
qed (use assms that(1) in \<open>auto simp: resume_call_def\<close>)

lemma store_valueE:
  assumes "store_value i ttl q = Some r"
  obtains (failed) a v e where "eq_calls q ! i = Storing a v" "r = q\<lparr>eq_calls := (eq_calls q)[i := Finished a (Inl e)]\<rparr>"
    | (kept) a v where "eq_calls q ! i = Storing a v"
      "r = q\<lparr>eq_local := (eq_local q)(a \<mapsto> v), eq_calls := (eq_calls q)[i := Finished a (Inr v)]\<rparr>"
proof (cases "eq_calls q ! i")
  case (Storing a v)
  with assms that show thesis by (cases ttl) (auto simp: store_value_def)
qed (use assms in \<open>auto simp: store_value_def\<close>)

lemma requests_inv_join:
  assumes "requests_inv q" and "eq_pending q a = Some p"
  shows "requests_inv (q\<lparr>eq_calls := eq_calls q @ [Joined a p]\<rparr>)"
  by (rule requests_invI) (use requests_invD [OF assms(1)] assms(2) in \<open>auto simp: nth_append less_Suc_eq split: if_splits\<close>)

lemma requests_inv_done:
  assumes "requests_inv q"
  shows "requests_inv (q\<lparr>eq_calls := eq_calls q @ [Finished a r]\<rparr>)"
  by (rule requests_invI) (use requests_invD [OF assms(1)] in \<open>auto simp: nth_append less_Suc_eq split: if_splits\<close>)

lemma requests_inv_ask:
  assumes "requests_inv q" and "eq_pending q a = None"
  shows "requests_inv (q\<lparr>eq_promises := eq_promises q @ [(a, None)], eq_pending := (eq_pending q)(a \<mapsto> length (eq_promises q)),
    eq_calls := eq_calls q @ [Asking a (length (eq_promises q))]\<rparr>)"
proof (rule requests_invI, goal_cases)
  case (1 i b p)
  then show ?case using requests_invD(1) [OF assms(1), of i b p] assms(2) by (auto simp: nth_append less_Suc_eq split: if_splits)
next
  case (2 i b p)
  then show ?case using requests_invD(2) [OF assms(1), of i b p] by (auto simp: nth_append less_Suc_eq split: if_splits)
next
  case (3 b p)
  then show ?case using requests_invD(3) [OF assms(1), of b p] by (auto simp: nth_append less_Suc_eq split: if_splits)
next
  case (4 p)
  then show ?case using requests_invD(4) [OF assms(1), of p] assms(2) by (auto simp: nth_append less_Suc_eq split: if_splits)
next
  case (5 i j b p p')
  then show ?case using requests_invD(5) [OF assms(1), of i j b p p'] requests_invD(1) [OF assms(1), of i b p] requests_invD(1) [OF assms(1), of j b p'] assms(2)
    by (auto simp: nth_append less_Suc_eq split: if_splits)
qed

lemma requests_inv_start: "requests_inv q \<Longrightarrow> requests_inv (start_call a q)"
  by (auto simp: start_call_def requests_inv_join requests_inv_done requests_inv_ask split: option.splits)

lemma requests_inv_settle:
  assumes "requests_inv q" and "p < length (eq_promises q)"
  shows "requests_inv (settle p r q)"
  by (rule requests_invI) (use requests_invD [OF assms(1)] assms(2) in \<open>auto simp: settle_def nth_list_update split: if_splits\<close>)

lemma requests_inv_finish:
  assumes "requests_inv q" and "i < length (eq_calls q)" and "eq_calls q ! i = Joined a p \<or> eq_calls q ! i = Storing a v"
  shows "requests_inv (q\<lparr>eq_calls := (eq_calls q)[i := Finished b r]\<rparr>)"
  by (rule requests_invI) (use requests_invD [OF assms(1)] assms(2,3) in \<open>auto simp: nth_list_update split: if_splits\<close>)

lemma requests_inv_answered:
  assumes inv: "requests_inv q" and i: "i < length (eq_calls q)" "eq_calls q ! i = Asking a p" and s: "snd (eq_promises q ! p) \<noteq> None"
    and c: "\<And>b p'. c \<noteq> Asking b p' \<and> c \<noteq> Joined b p'"
  shows "requests_inv (q\<lparr>eq_pending := (eq_pending q)(a := None), eq_calls := (eq_calls q)[i := c]\<rparr>)"
proof -
  have other: "j \<noteq> i \<and> j < length (eq_calls q) \<and> eq_calls q ! j = d"
    if "j < length ((eq_calls q)[i := c])" "(eq_calls q)[i := c] ! j = d" "\<exists>b p'. d = Asking b p' \<or> d = Joined b p'" for j d
    using that c i(1) by (cases "j = i") auto
  show ?thesis
  proof (rule requests_invI, goal_cases)
    case (1 j b p')
    then have j: "j \<noteq> i" "j < length (eq_calls q)" "eq_calls q ! j = Asking b p'" using other [of j "Asking b p'"] by simp_all
    then have "b \<noteq> a" using requests_invD(5) [OF inv i(1) j(2) i(2)] by auto
    then show ?case using requests_invD(1) [OF inv j(2,3)] by simp
  next
    case (2 j b p')
    then show ?case using requests_invD(2) [OF inv, of j b p'] other [of j "Joined b p'"] by simp
  next
    case (3 b p')
    then show ?case using requests_invD(3) [OF inv, of b p'] by (auto split: if_splits)
  next
    case (4 p')
    then have p': "eq_pending q (fst (eq_promises q ! p')) = Some p'" using requests_invD(4) [OF inv, of p'] by simp
    moreover have "p' \<noteq> p" using 4 s by auto
    ultimately have "fst (eq_promises q ! p') \<noteq> a" using requests_invD(1) [OF inv i] by auto
    with p' show ?case by simp
  next
    case (5 j k b p' p'')
    then show ?case using requests_invD(5) [OF inv, of j k b p' p''] other [of j "Asking b p'"] other [of k "Asking b p''"] by simp
  qed
qed

lemma requests_inv_resume:
  assumes "requests_inv q" and "i < length (eq_calls q)" and "resume_call i q = Some r"
  shows "requests_inv r"
  using assms(3)
proof (cases rule: resume_callE)
  case (join a p x)
  then show ?thesis using requests_inv_finish [OF assms(1,2)] by blast
next
  case (failed a p e)
  show ?thesis unfolding failed(3) by (rule requests_inv_answered [OF assms(1,2) failed(1)]) (simp_all add: failed)
next
  case (got a p v)
  show ?thesis unfolding got(3) by (rule requests_inv_answered [OF assms(1,2) got(1)]) (simp_all add: got)
qed

lemma requests_inv_local: "requests_inv (q\<lparr>eq_local := l\<rparr>) = requests_inv q"
  by (simp add: requests_inv_def)

lemma requests_inv_store:
  assumes "requests_inv q" and "i < length (eq_calls q)" and "store_value i ttl q = Some r"
  shows "requests_inv r"
  using assms(3)
proof (cases rule: store_valueE)
  case (failed a v e)
  then show ?thesis using requests_inv_finish [OF assms(1,2)] by blast
next
  case (kept a v)
  have "requests_inv ((q\<lparr>eq_calls := (eq_calls q)[i := Finished a (Inr v)]\<rparr>)\<lparr>eq_local := (eq_local q)(a \<mapsto> v)\<rparr>)"
    unfolding requests_inv_local using requests_inv_finish [OF assms(1,2)] kept(1) by blast
  then show ?thesis using kept(2) by (simp add: requests_inv_def)
qed

lemma requests_inv_progress: "esdt_progress answers q r \<Longrightarrow> requests_inv q \<Longrightarrow> requests_inv r"
  by (induction rule: esdt_progress.induct) (auto intro: requests_inv_settle requests_inv_resume requests_inv_store)

lemma requests_inv_step: "esdt_request_step answers q r \<Longrightarrow> requests_inv q \<Longrightarrow> requests_inv r"
  by (induction rule: esdt_request_step.induct) (simp_all add: requests_inv_progress requests_inv_start requests_inv_local)

lemma requests_inv_init: "requests_inv no_requests"
  by (simp add: requests_inv_def no_requests_def)

interpretation esdt_requests: inductive_invariant "\<lambda>q. q = no_requests" "esdt_request_step answers" requests_inv for answers
  by unfold_locales (auto intro: requests_inv_step requests_inv_init)

text \<open>
  C5. At most one request for an address is in flight: whatever the order in which calls start, are answered
  and go on, two promises for one address that are both unsettled are the same one.
\<close>

theorem one_request_in_flight:
  assumes "reach (\<lambda>q. q = no_requests) (esdt_request_step answers) q"
    and "p < length (eq_promises q)" and "p' < length (eq_promises q)" and "eq_promises q ! p = (a, None)" and "eq_promises q ! p' = (a, None)"
  shows "p = p'"
  using requests_invD(4) [OF esdt_requests.reach_inv [OF assms(1)], of p] requests_invD(4) [OF esdt_requests.reach_inv [OF assms(1)], of p'] assms(2-5)
  by simp

text \<open>What a call returns.\<close>

definition answers_inv :: "(string \<Rightarrow> 'v res \<Rightarrow> bool) \<Rightarrow> 'v esdt_requests \<Rightarrow> bool" where
  "answers_inv answers q \<longleftrightarrow>
     (\<forall>a r. (a, Some r) \<in> set (eq_promises q) \<longrightarrow> answers a r)
     \<and> (\<forall>a v. eq_local q a = Some v \<longrightarrow> answers a (Inr v))
     \<and> (\<forall>a v. Storing a v \<in> set (eq_calls q) \<or> Finished a (Inr v) \<in> set (eq_calls q) \<longrightarrow> answers a (Inr v))"

lemma answers_inv_calls:
  assumes "answers_inv answers q" and "\<And>a v. c = Storing a v \<or> c = Finished a (Inr v) \<Longrightarrow> answers a (Inr v)"
  shows "answers_inv answers (q\<lparr>eq_calls := (eq_calls q)[i := c]\<rparr>)" "answers_inv answers (q\<lparr>eq_calls := eq_calls q @ [c]\<rparr>)"
  using assms set_update_subset_insert [of "eq_calls q" i c] by (auto simp: answers_inv_def)

lemma answers_inv_pending: "answers_inv answers (q\<lparr>eq_pending := f\<rparr>) = answers_inv answers q"
  by (simp add: answers_inv_def)

lemma answers_inv_settle:
  assumes "answers_inv answers q" and "p < length (eq_promises q)" and "answers (fst (eq_promises q ! p)) r"
  shows "answers_inv answers (settle p r q)"
  using assms set_update_subset_insert [of "eq_promises q" p "(fst (eq_promises q ! p), Some r)"]
  by (auto simp: answers_inv_def settle_def)

lemma answers_inv_start: "answers_inv answers q \<Longrightarrow> answers_inv answers (start_call a q)"
  by (auto simp: start_call_def answers_inv_def split: option.splits)

lemma promise_answer:
  assumes "answers_inv answers q" and "p < length (eq_promises q)" and "snd (eq_promises q ! p) = Some r"
  shows "answers (fst (eq_promises q ! p)) r"
  using assms nth_mem [OF assms(2)] by (metis answers_inv_def prod.collapse)

lemma answers_inv_local: "answers_inv answers q \<Longrightarrow> (\<And>v. x = Some v \<Longrightarrow> answers a (Inr v)) \<Longrightarrow> answers_inv answers (q\<lparr>eq_local := (eq_local q)(a := x)\<rparr>)"
  by (auto simp: answers_inv_def)

lemma answers_inv_resume:
  assumes inv: "requests_inv q" "answers_inv answers q" and i: "i < length (eq_calls q)" and "resume_call i q = Some r"
  shows "answers_inv answers r"
  using assms(4)
proof (cases rule: resume_callE)
  case (join a p x)
  then have "answers a x" using requests_invD(2) [OF inv(1) i] promise_answer [OF inv(2), of p] by auto
  then show ?thesis unfolding join(3) by (intro answers_inv_calls inv(2)) auto
next
  case (failed a p e)
  show ?thesis using answers_inv_calls(1) [OF inv(2), of "Finished a (Inl e)" i] by (simp add: failed(3) answers_inv_def)
next
  case (got a p v)
  then have "answers a (Inr v)" using requests_invD(1) [OF inv(1) i] promise_answer [OF inv(2), of p] by auto
  then show ?thesis using answers_inv_calls(1) [OF inv(2), of "Storing a v" i] by (simp add: got(3) answers_inv_def)
qed

lemma answers_inv_store:
  assumes inv: "answers_inv answers q" and i: "i < length (eq_calls q)" and "store_value i ttl q = Some r"
  shows "answers_inv answers r"
  using assms(3)
proof (cases rule: store_valueE)
  case (failed a v e)
  show ?thesis unfolding failed(2) by (intro answers_inv_calls inv) auto
next
  case (kept a v)
  then have a: "answers a (Inr v)" using inv nth_mem [OF i] by (auto simp: answers_inv_def)
  have "answers_inv answers (q\<lparr>eq_calls := (eq_calls q)[i := Finished a (Inr v)]\<rparr>)"
    by (intro answers_inv_calls inv) (auto simp: a)
  from answers_inv_local [OF this, of "Some v" a] a show ?thesis by (simp add: kept(2) answers_inv_def)
qed

lemma answers_inv_progress: "esdt_progress answers q r \<Longrightarrow> requests_inv q \<Longrightarrow> answers_inv answers q \<Longrightarrow> answers_inv answers r"
  by (induction rule: esdt_progress.induct) (blast intro: answers_inv_settle answers_inv_resume answers_inv_store)+

lemma answers_inv_step: "esdt_request_step answers q r \<Longrightarrow> requests_inv q \<Longrightarrow> answers_inv answers q \<Longrightarrow> answers_inv answers r"
  by (induction rule: esdt_request_step.induct) (auto simp: answers_inv_progress answers_inv_start intro: answers_inv_local)

lemma answers_inv_init: "answers_inv answers no_requests"
  by (simp add: answers_inv_def no_requests_def)

interpretation esdt_answers: inductive_invariant "\<lambda>q. q = no_requests" "esdt_request_step answers" "\<lambda>q. requests_inv q \<and> answers_inv answers q" for answers
  by unfold_locales (auto intro: requests_inv_step requests_inv_init answers_inv_step answers_inv_init)

text \<open>
  C10. No call is answered with the tokens of another address: what a call returns is an answer that the
  gateway gave for the address that it asked for, also when it comes from another call or from the cache.
\<close>

theorem call_gets_own_answer:
  assumes "reach (\<lambda>q. q = no_requests) (esdt_request_step answers) q" and "Finished a (Inr v) \<in> set (eq_calls q)"
  shows "answers a (Inr v)"
  using esdt_answers.reach_inv [OF assms(1)] assms(2) by (simp add: answers_inv_def)

text \<open>The work that is left: what every progress step makes smaller.\<close>

definition call_work :: "'v esdt_call \<Rightarrow> nat" where
  "call_work c = (case c of Asking _ _ \<Rightarrow> 2 | Joined _ _ \<Rightarrow> 1 | Storing _ _ \<Rightarrow> 1 | Finished _ _ \<Rightarrow> 0)"

definition open_work :: "'v esdt_requests \<Rightarrow> nat" where
  "open_work q = sum_list (map call_work (eq_calls q)) + sum_list (map (\<lambda>(a, r). if r = None then 1 else 0) (eq_promises q))"

lemma sum_update_less:
  assumes "i < length xs" and "f x < (f (xs ! i) :: nat)"
  shows "sum_list (map f (xs[i := x])) < sum_list (map f xs)"
  using assms by (induction xs arbitrary: i) (auto split: nat.splits)

lemma call_update_work:
  assumes "i < length cs" and "call_work c < call_work (cs ! i)"
  shows "sum_list (map call_work (cs[i := c])) < sum_list (map call_work cs)"
  using assms by (rule sum_update_less)

lemma progress_work: "esdt_progress answers q r \<Longrightarrow> open_work r < open_work q"
proof (induction rule: esdt_progress.induct)
  case (settled p q outcome)
  then show ?case
    by (auto simp: open_work_def settle_def case_prod_unfold intro!: sum_update_less)
next
  case (resumed i q r)
  from resumed(2) show ?case
    by (cases rule: resume_callE) (use call_update_work [OF resumed(1)] in \<open>simp_all add: open_work_def call_work_def\<close>)
next
  case (stored i q ttl r)
  from stored(2) show ?case
    by (cases rule: store_valueE) (use call_update_work [OF stored(1)] in \<open>simp_all add: open_work_def call_work_def\<close>)
qed

definition all_finished :: "'v esdt_requests \<Rightarrow> bool" where
  "all_finished q \<longleftrightarrow> (\<forall>c \<in> set (eq_calls q). \<exists>a r. c = Finished a r)"

lemma not_stuck:
  assumes "requests_inv q" and "\<forall>a. \<exists>r. answers a r" and "\<not> all_finished q"
  shows "\<exists>r. esdt_progress answers q r"
proof -
  obtain i where i: "i < length (eq_calls q)" "\<nexists>a r. eq_calls q ! i = Finished a r"
    using assms(3) by (auto simp: all_finished_def in_set_conv_nth)
  have waits: "\<exists>r. esdt_progress answers q r"
    if p: "p < length (eq_promises q)" and c: "eq_calls q ! i = Joined a p \<or> eq_calls q ! i = Asking a p" for a p
  proof (cases "snd (eq_promises q ! p)")
    case None
    then show ?thesis using assms(2) settled [OF p] by blast
  next
    case (Some x)
    then have "resume_call i q \<noteq> None" using c by (auto simp: resume_call_def)
    then show ?thesis using resumed [OF i(1)] by blast
  qed
  show ?thesis
  proof (cases "eq_calls q ! i")
    case (Storing a v)
    then have "store_value i (Inr 0) q \<noteq> None" by (simp add: store_value_def)
    then show ?thesis using stored [OF i(1)] by blast
  qed (use i waits requests_invD(1,2) [OF assms(1) i(1)] in auto)
qed

text \<open>
  C7. Every call ends: if the gateway settles its promises, then from every reachable state the calls are all
  answered after at most as many steps as there is work, and no order of the steps gets stuck before.
\<close>

theorem every_call_ends:
  assumes "reach (\<lambda>q. q = no_requests) (esdt_request_step answers) q" and "\<forall>a. \<exists>r. answers a r"
  shows "(\<forall>n r. (esdt_progress answers ^^ n) q r \<longrightarrow> n \<le> open_work q \<and> (all_finished r \<or> (\<exists>r'. esdt_progress answers r r')))
    \<and> (\<exists>r. (esdt_progress answers)\<^sup>*\<^sup>* q r \<and> all_finished r)"
proof (intro conjI allI impI)
  have bound: "n + open_work r \<le> open_work q" if "(esdt_progress answers ^^ n) q r" for n r
    using that
  proof (induction n arbitrary: r)
    case (Suc n)
    then obtain m where "(esdt_progress answers ^^ n) q m" "esdt_progress answers m r" by auto
    with Suc.IH [of m] progress_work [of answers m r] show ?case by simp
  qed simp
  have inv: "requests_inv r" if "requests_inv q" "(esdt_progress answers)\<^sup>*\<^sup>* q r" for q r
    using that(2,1) by (induction rule: rtranclp_induct) (auto intro: requests_inv_progress)
  have q: "requests_inv q" by (rule esdt_requests.reach_inv [OF assms(1)])
  fix n r assume run: "(esdt_progress answers ^^ n) q r"
  show "n \<le> open_work q" using bound [OF run] by simp
  show "all_finished r \<or> (\<exists>r'. esdt_progress answers r r')"
    using not_stuck [OF inv [OF q relpowp_imp_rtranclp [OF run]] assms(2)] by blast
next
  have "\<exists>r. (esdt_progress answers)\<^sup>*\<^sup>* q r \<and> all_finished r" if "requests_inv q" for q
    using that
  proof (induction "open_work q" arbitrary: q rule: less_induct)
    case less
    show ?case
    proof (cases "all_finished q")
      case False
      then obtain r where r: "esdt_progress answers q r" using not_stuck [OF less.prems assms(2)] by blast
      then show ?thesis using less.hyps [OF progress_work [OF r] requests_inv_progress [OF r less.prems]]
        by (meson converse_rtranclp_into_rtranclp)
    qed auto
  qed
  then show "\<exists>r. (esdt_progress answers)\<^sup>*\<^sup>* q r \<and> all_finished r"
    using esdt_requests.reach_inv [OF assms(1)] by blast
qed

section \<open>Theorems on NFTs and collections\<close>

text \<open>
  What a filter asks of an NFT in a list of the gateway: first the conditions that are looked at before the
  name, then the others. An NFT without a list of addresses meets neither of the two conditions on these.
\<close>

definition nft_early_matches :: "nft_filter \<Rightarrow> nft_account \<Rightarrow> bool" where
  "nft_early_matches nf n \<longleftrightarrow>
     (truthy (ff_search nf) \<longrightarrow> str_includes (to_lower (the (na_name n))) (to_lower (the (ff_search nf)))
        \<or> str_includes (to_lower (na_identifier n)) (to_lower (the (ff_search nf))))
     \<and> (\<forall>is. ff_identifiers nf = Some is \<longrightarrow> na_identifier n \<in> set is)
     \<and> (\<forall>types. ff_type nf = Some types \<longrightarrow> na_type n \<in> set types)
     \<and> (\<forall>types. ff_subType nf = Some types \<longrightarrow> (\<exists>t \<in> set types. na_subType n = Some t))
     \<and> (truthy (ff_collection nf) \<longrightarrow> ff_collection nf = Some (na_collection n))"

definition nft_matches :: "nft_filter \<Rightarrow> nft_account \<Rightarrow> bool" where
  "nft_matches nf n \<longleftrightarrow> nft_early_matches nf n
     \<and> (truthy (ff_name nf) \<longrightarrow> str_includes (to_lower (the (na_name n))) (to_lower (the (ff_name nf))))
     \<and> (\<forall>cs. ff_collections nf = Some cs \<longrightarrow> na_collection n \<in> set cs)
     \<and> (\<forall>tags. ff_tags nf = Some tags \<longrightarrow> set tags \<subseteq> set (na_tags n))
     \<and> (truthy (ff_creator nf) \<longrightarrow> na_creator n = ff_creator nf)
     \<and> (\<forall>has. ff_hasUris nf = Some has \<longrightarrow> (\<exists>us. na_uris n = Some us \<and> has = (us \<noteq> [])))
     \<and> (ff_includeFlagged nf = Some True \<or> na_scamInfo n = None)
     \<and> (ff_excludeMetaESDT nf = Some True \<longrightarrow> na_type n \<in> {''NonFungibleESDT'', ''SemiFungibleESDT''})"

lemma when_present_filter: "when_present v f nfts = filter (\<lambda>n. \<forall>x. v = Some x \<longrightarrow> f x n) nfts"
  by (cases v) (simp_all add: when_present_def)

lemma if_filter: "(if b then filter f xs else xs) = filter (\<lambda>x. b \<longrightarrow> f x) xs"
  by (cases b) simp_all

lemma if_name_filter:
  "(if b then name_filter f nfts else Inr nfts)
     = (if b \<and> (\<exists>n \<in> set nfts. na_name n = None) then Inl TypeError else Inr (filter (\<lambda>n. b \<longrightarrow> f (to_lower (the (na_name n))) n) nfts))"
  by (cases b) (simp_all add: name_filter_def)

text \<open>
  C20. The page of the NFTs of an address from the gateway: of the NFTs that meet what the filter asks of the
  name or identifier (\<open>search\<close>), the identifier, type, subtype, collection, name, collections, tags, creator, media
  addresses (\<open>hasUris\<close>), scam flag (\<open>includeFlagged\<close>) and \<open>excludeMetaESDT\<close>, in their order, those of the page; an NFT
  without a name that the search, or the condition on the name, comes to makes the request throw. The other conditions (\<open>isScam\<close>, \<open>scamType\<close>, \<open>isNsfw\<close>,
  \<open>isWhitelistedStorage\<close>, \<open>traits\<close>, \<open>before\<close>, \<open>after\<close> and the bounds of the nonce) play no part.
\<close>

theorem gateway_nft_page:
  "filterEsdtsForAddressFromGateway nf pagination nfts
    = (if truthy (ff_search nf) \<and> (\<exists>n \<in> set nfts. na_name n = None)
          \<or> truthy (ff_name nf) \<and> (\<exists>n \<in> set nfts. na_name n = None \<and> nft_early_matches nf n) then Inl TypeError
       else Inr (take (nat (qp_size pagination)) (drop (nat (qp_from pagination)) (filter (nft_matches nf) nfts))))
   \<and> filterEsdtsForAddressFromGateway (nf\<lparr>ff_isScam := a, ff_scamType := b, ff_isNsfw := c, ff_isWhitelistedStorage := d, ff_traits := e,
        ff_before := f, ff_after := g, ff_nonceBefore := h, ff_nonceAfter := i\<rparr>) pagination nfts
     = filterEsdtsForAddressFromGateway nf pagination nfts"
proof
  have uris: "(case na_uris n of None \<Rightarrow> False | Some us \<Rightarrow> has = (us \<noteq> [])) = (\<exists>us. na_uris n = Some us \<and> has = (us \<noteq> []))" for n has
    by (cases "na_uris n") auto
  have sub: "(case na_subType n of None \<Rightarrow> False | Some t \<Rightarrow> t \<in> set types) = (\<exists>t \<in> set types. na_subType n = Some t)" for n types
    by (cases "na_subType n") auto
  have same: "(Some (na_collection n) = ff_collection nf) = (ff_collection nf = Some (na_collection n))" for n by auto
  have early: "filter (\<lambda>x. truthy (ff_collection nf) \<longrightarrow> ff_collection nf = Some (na_collection x))
      (filter (\<lambda>n. \<forall>x. ff_subType nf = Some x \<longrightarrow> (\<exists>t \<in> set x. na_subType n = Some t))
        (filter (\<lambda>n. \<forall>x. ff_type nf = Some x \<longrightarrow> na_type n \<in> set x)
          (filter (\<lambda>n. \<forall>x. ff_identifiers nf = Some x \<longrightarrow> na_identifier n \<in> set x)
            (filter (\<lambda>n. truthy (ff_search nf) \<longrightarrow> str_includes (to_lower (the (na_name n))) (to_lower (the (ff_search nf)))
              \<or> str_includes (to_lower (na_identifier n)) (to_lower (the (ff_search nf)))) nfts))))
    = filter (nft_early_matches nf) nfts"
    unfolding filter_filter nft_early_matches_def by (rule filter_cong [OF refl]) blast
  have res_bind_if: "res_bind (if b then Inl TypeError else Inr xs) k = (if b then Inl TypeError else k xs)"
    for b and xs :: "nft_account list" and k :: "nft_account list \<Rightarrow> nft_account list res"
    by simp
  have if_if_disj: "(if b then x else if c then x else y) = (if b \<or> c then x else y)" for b c and x y :: "nft_account list res"
    by simp
  have unnamed: "(\<exists>n \<in> set (filter (nft_early_matches nf) nfts). na_name n = None) = (\<exists>n \<in> set nfts. na_name n = None \<and> nft_early_matches nf n)"
    by auto
  have late: "filter (\<lambda>x. ff_excludeMetaESDT nf = Some True \<longrightarrow> na_type x \<in> {''NonFungibleESDT'', ''SemiFungibleESDT''})
      (filter (\<lambda>x. ff_includeFlagged nf \<noteq> Some True \<longrightarrow> na_scamInfo x = None)
        (filter (\<lambda>n. \<forall>x. ff_hasUris nf = Some x \<longrightarrow> (\<exists>us. na_uris n = Some us \<and> x = (us \<noteq> [])))
          (filter (\<lambda>x. truthy (ff_creator nf) \<longrightarrow> na_creator x = ff_creator nf)
            (filter (\<lambda>n. \<forall>x. ff_tags nf = Some x \<longrightarrow> set x \<subseteq> set (na_tags n))
              (filter (\<lambda>n. \<forall>x. ff_collections nf = Some x \<longrightarrow> na_collection n \<in> set x)
                (filter (\<lambda>n. truthy (ff_name nf) \<longrightarrow> str_includes (to_lower (the (na_name n))) (to_lower (the (ff_name nf))))
                  (filter (nft_early_matches nf) nfts)))))))
    = filter (nft_matches nf) nfts"
    unfolding filter_filter nft_matches_def
    by (rule filter_cong [OF refl]) (simp only: conj_assoc not_not imp_conv_disj disj_commute)
  show "filterEsdtsForAddressFromGateway nf pagination nfts
    = (if truthy (ff_search nf) \<and> (\<exists>n \<in> set nfts. na_name n = None)
          \<or> truthy (ff_name nf) \<and> (\<exists>n \<in> set nfts. na_name n = None \<and> nft_early_matches nf n) then Inl TypeError
       else Inr (take (nat (qp_size pagination)) (drop (nat (qp_from pagination)) (filter (nft_matches nf) nfts))))"
    unfolding filterEsdtsForAddressFromGateway_def if_name_filter Let_def when_present_filter if_filter uris sub same res_bind_if early late unnamed
    by (simp only: res_bind.simps if_if_disj)
next
  show "filterEsdtsForAddressFromGateway (nf\<lparr>ff_isScam := a, ff_scamType := b, ff_isNsfw := c, ff_isWhitelistedStorage := d, ff_traits := e,
        ff_before := f, ff_after := g, ff_nonceBefore := h, ff_nonceAfter := i\<rparr>) pagination nfts
     = filterEsdtsForAddressFromGateway nf pagination nfts"
    by (cases nf) (simp only: filterEsdtsForAddressFromGateway_def nft_filter.simps)
qed

text \<open>
  A trie that is too slow is remembered: the list of an address for which the gateway gives up is read
  from the index, and from then on, as long as the flag is there, without asking the gateway.
\<close>

theorem trie_timeout_remembered:
  assumes "single_identifier nf \<noteq> None \<or> source \<noteq> Some Source_elastic \<and> \<not> xa_isSmartContract env address"
    and "info = CacheInfo_AddressEsdtTrieTimeout (xa_consts env) address"
    and "xa_flag env (ci_key info) s = (Inr flag, t)" and "flag \<noteq> Some True"
    and "getNftsForAddressFromGateway env address nf pagination options t = (Inl TrieOperationsTimeoutError, u)"
    and "xa_setFlag env (ci_key info) True (ci_ttl info) u = (Inr (), v)"
    and "getNftsForAddressFromElastic env address nf pagination options v = (r, w)"
    and "xa_flag env (ci_key info) w = (Inr (Some True), w)"
  shows "nftsOfAddress env address nf pagination source options s = (r, w)
    \<and> nftsOfAddress env address nf pagination source options w = getNftsForAddressFromElastic env address nf pagination options w"
  using assms by (auto simp: nftsOfAddress_def getNftsForAddressFromGatewayWithElasticFallback_def io_simps Let_def)

text \<open>The collection of a merged object is the one that was merged; its own members have their initial values.\<close>

definition documented_merge :: "(nft_collection \<Rightarrow> nft_collection_with_roles) \<Rightarrow> bool" where
  "documented_merge f \<longleftrightarrow> (\<forall>c. f c = nft_collection.extend c (nft_collection_with_roles.fields new_collection_roles False False False (Some False) False False))"

lemma merged:
  assumes "documented_merge f"
  shows "cw_canTransfer (f c) = False" "nc_timestamp (f c) = nc_timestamp c" "nc_collection (f c) = nc_collection c" "nc_type (f c) = nc_type c"
  using assms by (simp_all add: documented_merge_def nft_collection.defs nft_collection_with_roles.defs)

lemma with_roles_timestamp: "documented_merge (xa_mergeWithRoles env) \<Longrightarrow> nc_timestamp (with_roles env a c d) = ic_timestamp d"
  by (simp add: with_roles_def Let_def merged split: option.splits)

lemma finish_collections_zero: "c \<in> set cs \<Longrightarrow> nc_timestamp c = Some 0 \<Longrightarrow> finish_collections cs = Inl ReferenceError"
  by (induction cs) (auto simp: Let_def)

text \<open>
  C36. A collection with the timestamp zero makes the whole list of the collections of an address fail: the
  loop that wants to remove the timestamp uses a variable of the loop before it.
\<close>

theorem zero_timestamp_throws:
  assumes "documented_merge (xa_mergeWithRoles env)"
    and "ce_getNftCollections (xa_collections env) pagination cfilter (Some address) s = (Inr docs, t)"
    and "applyPropertiesToCollections (xa_collections env) (map ic_token docs) t = (Inr collections, u)"
    and "c \<in> set collections" and "indexed_by_token docs (nc_collection c) = Some d" and "ic_timestamp d = Some 0"
  shows "rolesCollectionsOfAddress env address cfilter pagination s = (Inl ReferenceError, u)"
proof -
  have "with_roles env address c d \<in> set (concat (map (\<lambda>c. case indexed_by_token docs (nc_collection c) of
      None \<Rightarrow> [] | Some d \<Rightarrow> [with_roles env address c d]) collections))"
    using assms(4,5) by force
  moreover have "nc_timestamp (with_roles env address c d) = Some 0"
    using with_roles_timestamp [OF assms(1)] assms(6) by simp
  ultimately have "finish_collections (concat (map (\<lambda>c. case indexed_by_token docs (nc_collection c) of
      None \<Rightarrow> [] | Some d \<Rightarrow> [with_roles env address c d]) collections)) = Inl ReferenceError"
    by (rule finish_collections_zero)
  with assms(2,3) show ?thesis by (simp add: rolesCollectionsOfAddress_def io_simps)
qed

lemma fold_setCollectionRole_from:
  "fold setCollectionRole roles ((roles_of_account a held)\<lparr>cr_address := None, cr_canTransfer := x\<rparr>)
    = (roles_of_account a (held @ roles))\<lparr>cr_address := None, cr_canTransfer := (if ''ESDTTransferRole'' \<in> set roles then Some True else x)\<rparr>"
proof (induction roles arbitrary: held x)
  case (Cons role roles)
  have "setCollectionRole role ((roles_of_account a held)\<lparr>cr_address := None, cr_canTransfer := x\<rparr>)
    = (roles_of_account a (held @ [role]))\<lparr>cr_address := None, cr_canTransfer := (if role = ''ESDTTransferRole'' then Some True else x)\<rparr>"
    by (simp add: setCollectionRole_update roles_of_account_def disj_commute eq_commute [of role])
  then show ?case by (simp add: Cons.IH)
qed simp

text \<open>
  The roles that an address is shown for a collection are those of its entry in the list of the roles of
  the collection, and none when it has no entry; what is said of transfers says in addition whether they are
  restricted at all.
\<close>

theorem address_roles_agree:
  assumes "documented_merge (xa_mergeWithRoles env)" and "documented_distinct (ce_distinct (xa_collections env))"
    and "ic_roles doc = Some roles"
  shows "cw_canTransfer (with_roles env a c doc) = (''ESDTTransferRole'' \<notin> fst ` set roles)
    \<and> cw_role (with_roles env a c doc) = (coalesce (entry_of a (getNftCollectionRoles (xa_collections env) doc)) new_collection_roles)
        \<lparr>cr_address := None, cr_canTransfer := (if ''ESDTTransferRole'' \<in> set (roles_held a roles) then Some True
          else if ''ESDTTransferRole'' \<in> fst ` set roles then Some False else None)\<rparr>"
proof -
  let ?restricted = "''ESDTTransferRole'' \<in> fst ` set roles"
  have start: "(if ?restricted then new_collection_roles\<lparr>cr_canTransfer := Some False\<rparr> else new_collection_roles)
      = (roles_of_account a [])\<lparr>cr_address := None, cr_canTransfer := (if ?restricted then Some False else None)\<rparr>"
    by (simp add: new_collection_roles_def roles_of_account_def)
  have "roles_for_address env a roles (\<not> ?restricted)
      = (roles_of_account a (roles_held a roles))\<lparr>cr_address := None, cr_canTransfer := (if ''ESDTTransferRole'' \<in> set (roles_held a roles)
          then Some True else if ?restricted then Some False else None)\<rparr>"
    unfolding roles_for_address_def fold_roles_held [OF assms(2)] not_not start fold_setCollectionRole_from by simp
  moreover have "(coalesce (entry_of a (getNftCollectionRoles (xa_collections env) doc)) new_collection_roles)\<lparr>cr_address := None, cr_canTransfer := x\<rparr>
      = (roles_of_account a (roles_held a roles))\<lparr>cr_address := None, cr_canTransfer := x\<rparr>" for x
    using roles_per_address [OF assms(2,3)] by (auto simp: new_collection_roles_def roles_of_account_def)
  ultimately show ?thesis
    using assms(3) merged(1) [OF assms(1)] by (cases ?restricted; cases "''ESDTTransferRole'' \<in> set (roles_held a roles)") (simp_all add: with_roles_def Let_def)
qed

section \<open>Witnesses\<close>

definition sample_answers :: "string \<Rightarrow> nat res \<Rightarrow> bool" where
  "sample_answers a r \<longleftrightarrow> r = Inr (length a)"

definition sample_requests :: "nat esdt_requests" where
  "sample_requests = start_call ''a'' (start_call ''a'' no_requests)"

lemma sample_requests_reached: "reach (\<lambda>q. q = no_requests) (esdt_request_step sample_answers) sample_requests"
proof -
  have "reach (\<lambda>q. q = no_requests) (esdt_request_step sample_answers) no_requests" by (rule reach_init) simp
  from reach_step [OF reach_step [OF this new_call] new_call] show ?thesis unfolding sample_requests_def .
qed

lemma sample_requests_state: "eq_promises sample_requests = [(''a'', None)]" "eq_calls sample_requests = [Asking ''a'' 0, Joined ''a'' 0]"
  by (simp_all add: sample_requests_def start_call_def no_requests_def)

theorem one_request_in_flight_witness:
  "reach (\<lambda>q. q = no_requests) (esdt_request_step sample_answers) sample_requests \<and> eq_promises sample_requests = [(''a'', None)]
    \<and> (\<exists>!p. p < length (eq_promises sample_requests) \<and> eq_promises sample_requests ! p = (''a'', None))"
proof -
  have "p = 0" if "p < length (eq_promises sample_requests)" "eq_promises sample_requests ! p = (''a'', None)" for p
    using one_request_in_flight [OF sample_requests_reached that(1) _ that(2), of 0] by (simp add: sample_requests_state)
  then show ?thesis using sample_requests_reached by (intro conjI ex1I [of _ 0]) (simp_all add: sample_requests_state)
qed

theorem call_gets_own_answer_witness:
  "\<exists>q. reach (\<lambda>q. q = no_requests) (esdt_request_step sample_answers) q \<and> Finished ''a'' (Inr 1) \<in> set (eq_calls q) \<and> sample_answers ''a'' (Inr 1)"
proof -
  let ?q = "settle 0 (Inr 1) sample_requests"
  let ?r = "?q\<lparr>eq_calls := [Asking ''a'' 0, Finished ''a'' (Inr 1)]\<rparr>"
  have "esdt_progress sample_answers sample_requests ?q"
    by (rule settled) (simp_all add: sample_requests_state sample_answers_def)
  moreover have "esdt_progress sample_answers ?q ?r"
    by (rule resumed [of 1]) (simp_all add: settle_def sample_requests_state resume_call_def)
  ultimately have r: "reach (\<lambda>q. q = no_requests) (esdt_request_step sample_answers) ?r"
    by (intro reach_step [OF reach_step [OF sample_requests_reached]] progress)
  have m: "Finished ''a'' (Inr 1) \<in> set (eq_calls ?r)" by simp
  from r m call_gets_own_answer [OF r m] show ?thesis by blast
qed

theorem every_call_ends_witness:
  "\<exists>r. (esdt_progress sample_answers)\<^sup>*\<^sup>* sample_requests r \<and> all_finished r"
proof -
  have "\<forall>a. \<exists>r. sample_answers a r" by (simp add: sample_answers_def)
  from every_call_ends [OF sample_requests_reached this] show ?thesis by blast
qed

definition sample_nft :: nft_account where
  "sample_nft = \<lparr>na_identifier = ''C-1-01'', na_collection = ''C-1'', na_hash = [], na_timestamp = None, na_attributes = None, na_nonce = Some 1,
     na_type = ''NonFungibleESDT'', na_subType = None, na_name = Some ''Cat'', na_creator = None, na_royalties = None, na_uris = Some [],
     na_url = [], na_isWhitelistedStorage = False, na_tags = [], na_decimals = None, na_scamInfo = None, na_balance = ''1'', na_receivedAt = None\<rparr>"

definition empty_nft_filter :: nft_filter where
  "empty_nft_filter = \<lparr>ff_search = None, ff_identifiers = None, ff_type = None, ff_subType = None, ff_collection = None, ff_collections = None,
     ff_tags = None, ff_name = None, ff_creator = None, ff_hasUris = None, ff_includeFlagged = None, ff_before = None, ff_after = None,
     ff_nonceBefore = None, ff_nonceAfter = None, ff_isWhitelistedStorage = None, ff_isNsfw = None, ff_isScam = None, ff_scamType = None,
     ff_traits = None, ff_excludeMetaESDT = None, ff_sort = None, ff_order = None\<rparr>"

theorem gateway_nft_page_witness:
  "filterEsdtsForAddressFromGateway (empty_nft_filter\<lparr>ff_collection := Some ''C-1''\<rparr>) \<lparr>qp_from = 0, qp_size = 1, qp_before = None, qp_after = None\<rparr>
    [sample_nft, sample_nft\<lparr>na_identifier := ''C-1-02''\<rparr>] = Inr [sample_nft]"
proof -
  let ?nfts = "[sample_nft, sample_nft\<lparr>na_identifier := ''C-1-02''\<rparr>]"
  have "nft_matches (empty_nft_filter\<lparr>ff_collection := Some ''C-1''\<rparr>) n" if "na_collection n = ''C-1''" "na_scamInfo n = None" for n
    using that by (simp add: nft_matches_def nft_early_matches_def empty_nft_filter_def)
  then have "filter (nft_matches (empty_nft_filter\<lparr>ff_collection := Some ''C-1''\<rparr>)) ?nfts = ?nfts"
    by (simp add: sample_nft_def)
  moreover have "\<not> truthy (ff_search (empty_nft_filter\<lparr>ff_collection := Some ''C-1''\<rparr>))" "\<not> truthy (ff_name (empty_nft_filter\<lparr>ff_collection := Some ''C-1''\<rparr>))"
    by (simp_all add: empty_nft_filter_def)
  ultimately show ?thesis
    using gateway_nft_page [of "empty_nft_filter\<lparr>ff_collection := Some ''C-1''\<rparr>" "\<lparr>qp_from = 0, qp_size = 1, qp_before = None, qp_after = None\<rparr>" ?nfts]
    by simp
qed

definition sample_with_roles :: "nft_collection \<Rightarrow> nft_collection_with_roles" where
  "sample_with_roles c = nft_collection.extend c (nft_collection_with_roles.fields new_collection_roles False False False (Some False) False False)"

definition sample_zero_collection :: nft_collection where
  "sample_zero_collection = \<lparr>nc_collection = ''C-1'', nc_type = ''MetaESDT'', nc_subType = None, nc_name = ''C'', nc_ticker = ''C-1'', nc_owner = None,
     nc_timestamp = Some 0, nc_canFreeze = False, nc_canWipe = False, nc_canPause = False, nc_canTransferNftCreateRole = None, nc_canChangeOwner = False,
     nc_canUpgrade = False, nc_canAddSpecialRoles = False, nc_decimals = None, nc_assets = None, nc_scamInfo = None, nc_traits = [],
     nc_auctionStats = None, nc_isVerified = None, nc_holderCount = None, nc_nftCount = None\<rparr>"

definition sample_props :: token_props where
  "sample_props = \<lparr>pr_identifier = ''C-1'', pr_name = ''C'', pr_type = ''MetaESDT'', pr_subType = None, pr_owner = ''o'', pr_wiped = None, pr_decimals = None,
     pr_isPaused = False, pr_canUpgrade = False, pr_canMint = False, pr_canBurn = False, pr_canChangeOwner = False, pr_canPause = False, pr_canFreeze = False,
     pr_canWipe = False, pr_canAddSpecialRoles = False, pr_canTransferNFTCreateRole = None, pr_NFTCreateStopped = None, pr_timestamp = None, pr_ownersHistory = None\<rparr>"

text \<open>The flag of the addresses is the part of the world under the key of the address.\<close>

definition sample_esdt_address_env :: "(string \<Rightarrow> string set) esdt_address_env" where
  "sample_esdt_address_env = \<lparr>xa_consts = qe_consts sample_esdt_env, xa_prefix = ''https://media'',
     xa_collections = sample_collection_env\<lparr>ce_getNftCollections := \<lambda>_ _ _. io_return [sample_doc\<lparr>ic_timestamp := Some 0\<rparr>],
       ce_applyProperties := \<lambda>_ _ _ _. io_return (\<lambda>_. Some sample_props)\<rparr>,
     xa_isSmartContract = \<lambda>_. False, xa_flag = \<lambda>k s. (Inr (if s k = {} then None else Some True), s),
     xa_setFlag = \<lambda>k _ _ s. (Inr (), s(k := {''x''})), xa_getLocal = \<lambda>_. io_return None, xa_setLocal = \<lambda>_ _ _. io_return (),
     xa_secondsUntilNextRound = io_return 6, xa_gatewayEsdts = \<lambda>_ _. io_throw TrieOperationsTimeoutError, xa_gatewayNft = \<lambda>_. io_return None,
     xa_dataError = \<lambda>_. None, xa_responseError = \<lambda>_. None, xa_indexNfts = \<lambda>_ _ _. io_return [], xa_indexNftCount = \<lambda>_ _. io_return 0,
     xa_indexCollectionCount = \<lambda>_ _. io_return 0, xa_receivedTimestamps = \<lambda>_ _. io_return (\<lambda>_. None), xa_addressEsdtRoles = \<lambda>_. io_return (\<lambda>_. None),
     xa_hexToNumber = \<lambda>_. None, xa_base64Decode = Inr, xa_uriFunctions = \<lparr>uf_replaceUri = \<lambda>u _ _. u, uf_removePrefix = \<lambda>s _. s, uf_removeSuffix = \<lambda>s _. s\<rparr>,
     xa_getTags = \<lambda>_. [], xa_compare = \<lambda>_ _. 0, xa_round = id, xa_mergeWithRoles = sample_with_roles\<rparr>"

lemma sample_merge: "documented_merge (xa_mergeWithRoles sample_esdt_address_env)"
  by (simp add: documented_merge_def sample_esdt_address_env_def sample_with_roles_def)

theorem trie_timeout_remembered_witness:
  "\<exists>w. nftsOfAddress sample_esdt_address_env ''erd1'' empty_nft_filter \<lparr>qp_from = 0, qp_size = 1, qp_before = None, qp_after = None\<rparr> None None (\<lambda>_. {}) = (Inr [], w)
    \<and> nftsOfAddress sample_esdt_address_env ''erd1'' empty_nft_filter \<lparr>qp_from = 0, qp_size = 1, qp_before = None, qp_after = None\<rparr> None None w = (Inr [], w)"
proof -
  let ?p = "\<lparr>qp_from = 0, qp_size = 1, qp_before = None, qp_after = None\<rparr>"
  define info where "info = CacheInfo_AddressEsdtTrieTimeout (xa_consts sample_esdt_address_env) ''erd1''"
  define w where "w = (\<lambda>_. {})(ci_key info := {''x''})"
  have elastic: "getNftsForAddressFromElastic sample_esdt_address_env ''erd1'' empty_nft_filter ?p None u = (Inr [], u)" for u
    by (simp add: getNftsForAddressFromElastic_def mapToNftAccount_def batchFetchReceivedAtTimestamps_def sample_esdt_address_env_def io_simps)
  have gateway: "getNftsForAddressFromGateway sample_esdt_address_env ''erd1'' empty_nft_filter ?p None u = (Inl TrieOperationsTimeoutError, u)" for u
    by (simp add: getNftsForAddressFromGateway_def getAllEsdtsForAddressFromGateway_def getAllEsdtsForAddressFromGatewayRaw_def
        single_identifier_def empty_nft_filter_def sample_esdt_address_env_def Let_def io_simps)
  have flag: "xa_flag sample_esdt_address_env (ci_key info) (\<lambda>_. {}) = (Inr None, \<lambda>_. {})" "xa_flag sample_esdt_address_env (ci_key info) w = (Inr (Some True), w)"
    by (simp_all add: sample_esdt_address_env_def w_def)
  have set: "xa_setFlag sample_esdt_address_env (ci_key info) True (ci_ttl info) (\<lambda>_. {}) = (Inr (), w)"
    by (simp add: sample_esdt_address_env_def w_def)
  have "single_identifier empty_nft_filter \<noteq> None \<or> (None :: esdt_data_source option) \<noteq> Some Source_elastic \<and> \<not> xa_isSmartContract sample_esdt_address_env ''erd1''"
    by (simp add: sample_esdt_address_env_def)
  from trie_timeout_remembered [OF this info_def flag(1) _ gateway set elastic flag(2)] elastic [of w] show ?thesis by auto
qed

theorem zero_timestamp_throws_witness:
  "rolesCollectionsOfAddress sample_esdt_address_env ''erd1'' no_collection_filter \<lparr>qp_from = 0, qp_size = 1, qp_before = None, qp_after = None\<rparr> (\<lambda>_. {})
    = (Inl ReferenceError, \<lambda>_. {})"
proof -
  let ?doc = "sample_doc\<lparr>ic_timestamp := Some 0\<rparr>"
  let ?c = "collection_of_props ''C-1'' sample_props None"
  have docs: "ce_getNftCollections (xa_collections sample_esdt_address_env) p f a s = (Inr [?doc], s)" for p f a s
    by (simp add: sample_esdt_address_env_def io_return_def)
  have props: "applyPropertiesToCollections (xa_collections sample_esdt_address_env) (map ic_token [?doc]) s = (Inr [?c], s)" for s
    by (simp add: applyPropertiesToCollections_def batchGetCollectionsProperties_def collectionPropertiesOf_def esdtPropertiesOf_def
        batchGetCollectionsAssets_def getAllTokenAssets_def getAllTokenAssetsRaw_def sample_esdt_address_env_def sample_collection_env_def
        sample_assets_env_def sample_doc_def Let_def io_simps)
  have own: "indexed_by_token [?doc] (nc_collection ?c) = Some ?doc"
    by (simp add: indexed_by_token_def collection_of_props_def sample_doc_def Let_def)
  show ?thesis by (rule zero_timestamp_throws [OF sample_merge docs props _ own]) simp_all
qed

theorem address_roles_agree_witness:
  "cw_canTransfer (with_roles sample_esdt_address_env ''b'' sample_zero_collection sample_doc)
    \<and> cr_roles (cw_role (with_roles sample_esdt_address_env ''b'' sample_zero_collection sample_doc)) = [''ESDTRoleNFTCreate'', ''ESDTRoleNFTBurn'']"
proof -
  have d: "documented_distinct (ce_distinct (xa_collections sample_esdt_address_env))"
    by (simp add: documented_distinct_def sample_esdt_address_env_def sample_collection_env_def)
  have r: "ic_roles sample_doc = Some [(''ESDTRoleNFTCreate'', [''a'', ''b'']), (''ESDTRoleNFTBurn'', [''b''])]"
    by (simp add: sample_doc_def)
  have "entry_of ''b'' (getNftCollectionRoles (xa_collections sample_esdt_address_env) sample_doc) = Some (roles_of_account ''b'' [''ESDTRoleNFTCreate'', ''ESDTRoleNFTBurn''])"
    using roles_per_address [OF d r] by (auto simp: roles_held_def)
  with address_roles_agree [OF sample_merge d r, of "''b''" sample_zero_collection] show ?thesis
    by (simp add: roles_of_account_def roles_held_def)
qed

end
