(* ===== verification/Tokens.thy ===== *)
theory Tokens imports EsdtAddress ElasticIndexer begin

text \<open>
  The tokens (\<open>src/endpoints/tokens/token.service.ts\<close>, with \<open>src/utils/concurrency.utils.ts\<close> and the
  entities): the list of all tokens and how it is put together, its filters, order and pages, the tokens of an
  address, accounts, roles, supply and market capitalisation. A floating point number is a rational; \<open>tv_fl\<close>
  rounds the result of an operation to one.
\<close>

section \<open>Data\<close>

text \<open>A supply is a text of digits or a number.\<close>

datatype supply_value = Supply_text string | Supply_number rat

datatype role_list = Token_roles "token_roles list" | Collection_roles "collection_roles list"

record token =
  tk_type :: string
  tk_subType :: "string option"
  tk_identifier :: string
  tk_collection :: "string option"
  tk_nonce :: "int option"
  tk_name :: string
  tk_ticker :: string
  tk_owner :: string
  tk_minted :: string
  tk_burnt :: string
  tk_initialMinted :: string
  tk_decimals :: "int option"
  tk_isPaused :: bool
  tk_assets :: "asset_details option"
  tk_transactions :: "int option"
  tk_transactionsLastUpdatedAt :: "int option"
  tk_transfers :: "int option"
  tk_transfersLastUpdatedAt :: "int option"
  tk_accounts :: "int option"
  tk_accountsLastUpdatedAt :: "int option"
  tk_canUpgrade :: bool
  tk_canMint :: "bool option"
  tk_canBurn :: "bool option"
  tk_canChangeOwner :: "bool option"
  tk_canAddSpecialRoles :: "bool option"
  tk_canPause :: bool
  tk_canFreeze :: "bool option"
  tk_canWipe :: bool
  tk_canTransferNftCreateRole :: "bool option"
  tk_price :: "rat option"
  tk_marketCap :: "rat option"
  tk_supply :: "supply_value option"
  tk_circulatingSupply :: "supply_value option"
  tk_timestamp :: "int option"
  tk_mexPairType :: string
  tk_totalLiquidity :: "rat option"
  tk_totalVolume24h :: "rat option"
  tk_isLowLiquidity :: "bool option"
  tk_lowLiquidityThresholdPercent :: "rat option"
  tk_tradesCount :: "int option"
  tk_ownersHistory :: "(string \<times> int) list"

record token_detailed = token +
  tk_roles :: "role_list option"
  tk_canTransfer :: "bool option"

record token_with_balance = token +
  tb_balance :: string
  tb_valueUsd :: "rat option"
  tb_attributes :: "string option"

record token_detailed_with_balance = token_detailed +
  tdb_balance :: string
  tdb_valueUsd :: "rat option"
  tdb_attributes :: "string option"

text \<open>The roles of one address; a role that a token of the type cannot have is \<open>undefined\<close>.\<close>

record address_token_roles =
  ar_canLocalMint :: "bool option"
  ar_canLocalBurn :: "bool option"
  ar_canAddQuantity :: "bool option"
  ar_canAddUri :: "bool option"
  ar_canCreate :: "bool option"
  ar_canBurn :: "bool option"
  ar_canUpdateAttributes :: "bool option"
  ar_canTransfer :: "bool option"
  ar_roles :: "string list"

record token_with_roles = token +
  tr_role :: address_token_roles
  tr_canLocalMint :: "bool option"
  tr_canLocalBurn :: "bool option"
  tr_canCreate :: "bool option"
  tr_canAddQuantity :: "bool option"
  tr_canUpdateAttributes :: "bool option"
  tr_canAddUri :: "bool option"
  tr_canTransfer :: bool

definition new_token_detailed :: token_detailed where
  "new_token_detailed = \<lparr>tk_type = ''FungibleESDT'', tk_subType = Some [], tk_identifier = [], tk_collection = None, tk_nonce = None, tk_name = [],
     tk_ticker = [], tk_owner = [], tk_minted = [], tk_burnt = [], tk_initialMinted = [], tk_decimals = Some 0, tk_isPaused = False, tk_assets = None,
     tk_transactions = None, tk_transactionsLastUpdatedAt = None, tk_transfers = None, tk_transfersLastUpdatedAt = None, tk_accounts = None,
     tk_accountsLastUpdatedAt = None, tk_canUpgrade = False, tk_canMint = None, tk_canBurn = None, tk_canChangeOwner = None,
     tk_canAddSpecialRoles = None, tk_canPause = False, tk_canFreeze = None, tk_canWipe = False, tk_canTransferNftCreateRole = None,
     tk_price = None, tk_marketCap = None, tk_supply = None, tk_circulatingSupply = None, tk_timestamp = None, tk_mexPairType = ''experimental'',
     tk_totalLiquidity = None, tk_totalVolume24h = None, tk_isLowLiquidity = None, tk_lowLiquidityThresholdPercent = None, tk_tradesCount = None,
     tk_ownersHistory = [], tk_roles = None, tk_canTransfer = None\<rparr>"

datatype token_sort = TSort_accounts | TSort_transactions | TSort_price | TSort_marketCap | TSort_other string

record token_query = token_filter_options +
  kf_subType :: "string option"
  kf_sort :: "token_sort option"
  kf_order :: "sort_order option"
  kf_mexPairType :: "string list option"
  kf_priceSource :: "string option"

record token_account =
  tac_address :: string
  tac_balance :: string
  tac_identifier :: "string option"
  tac_attributes :: "string option"
  tac_assets :: "account_assets option"

record token_logo =
  tl_pngUrl :: string
  tl_svgUrl :: string

record token_supply_result =
  su_supply :: supply_value
  su_circulatingSupply :: supply_value
  su_minted :: "supply_value option"
  su_burnt :: "supply_value option"
  su_initialMinted :: "supply_value option"
  su_lockedAccounts :: "(locked_account \<times> supply_value) list option"

text \<open>A document of the index: a token that an address holds, and an account that holds a token.\<close>

record indexed_balance =
  ib_token :: string
  ib_identifier :: "string option"
  ib_balance :: string
  ib_attributes :: "string option"

record indexed_account =
  ia_address :: string
  ia_identifier :: string
  ia_balance :: string
  ia_type :: string
  ia_attributes :: "string option"

text \<open>What the gateway gives for one token of an address; a fungible token has no name.\<close>

record gateway_balance =
  gb_balance :: string
  gb_attributes :: "string option"
  gb_name :: "string option"
  gb_nonce :: "int option"

record mex_pair_data =
  mp_baseId :: string
  mp_quoteId :: string
  mp_totalValue :: rat
  mp_volume24h :: "rat option"
  mp_tradesCount :: "int option"
  mp_active :: bool

record mex_price =
  mr_price :: rat
  mr_isToken :: bool

text \<open>
  The services. \<open>tv_batchCounts\<close> and \<open>tv_batchAssets\<close> are \<open>batchApplyAll\<close> of the cache over a list of
  tokens; they give for each token what is handed to the setter. \<open>tv_merge...\<close> are \<open>mergeObjects\<close> with a new
  object; \<open>tv_price_of\<close> is the number that a value reads as in a product.
\<close>

record 's tokens_env =
  tv_consts :: time_consts
  tv_esdt :: "'s esdt_env"
  tv_assets :: "'s assets_env"
  tv_collections :: "'s collection_env"
  tv_addresses :: "'s esdt_address_env"
  tv_fetchFromApi :: bool
  tv_tokensFromApi :: "('s, token_detailed list) io"
  tv_getOrSetTokens :: "string \<Rightarrow> ('s, token_detailed list) io \<Rightarrow> int \<Rightarrow> ('s, token_detailed list) io"
  tv_getOrSetMarketCap :: "string \<Rightarrow> ('s, rat) io \<Rightarrow> int \<Rightarrow> ('s, rat) io"
  tv_isToken :: "string \<Rightarrow> bool"
  tv_isNft :: "string \<Rightarrow> bool"
  tv_sorted :: "(token_detailed \<Rightarrow> rat) \<Rightarrow> token_detailed list \<Rightarrow> token_detailed list"
  tv_sortedDescending :: "(token_detailed \<Rightarrow> rat) list \<Rightarrow> token_detailed list \<Rightarrow> token_detailed list"
  tv_sortedAccounts :: "(locked_account \<times> supply_value) list \<Rightarrow> (locked_account \<times> supply_value) list"
  tv_fl :: "rat \<Rightarrow> rat"
  tv_sum :: "rat list \<Rightarrow> rat"
  tv_denominateString :: "string \<Rightarrow> int option \<Rightarrow> rat"
  tv_denominate :: "int \<Rightarrow> int option \<Rightarrow> rat"
  tv_toFixed :: "rat \<Rightarrow> string"
  tv_indexTokens :: "string \<Rightarrow> query_pagination \<Rightarrow> token_query \<Rightarrow> ('s, indexed_balance list) io"
  tv_indexTokenCount :: "string \<Rightarrow> token_query \<Rightarrow> ('s, int) io"
  tv_indexToken :: "string \<Rightarrow> ('s, (string \<times> string list) list option option) io"
  tv_indexTokensWithRoles :: "string \<Rightarrow> token_roles_filter \<Rightarrow> query_pagination \<Rightarrow> ('s, (string \<times> (string \<times> string list) list option) list) io"
  tv_indexTokensWithRolesCount :: "string \<Rightarrow> token_roles_filter \<Rightarrow> ('s, int) io"
  tv_indexTokenAccounts :: "query_pagination \<Rightarrow> string \<Rightarrow> ('s, indexed_account list) io"
  tv_indexTokenAccountsCount :: "string \<Rightarrow> ('s, int) io"
  tv_esdtAccountsCount :: "string \<Rightarrow> ('s, int) io"
  tv_accountsExtra :: "string \<Rightarrow> ('s, int option) io"
  tv_transactionCount :: "string list \<Rightarrow> ('s, int) io"
  tv_transfersCount :: "string list \<Rightarrow> ('s, int) io"
  tv_now :: "'s \<Rightarrow> int"
  tv_batchCounts :: "token_detailed list \<Rightarrow> (token_detailed \<Rightarrow> string) \<Rightarrow> (token_detailed \<Rightarrow> ('s, (int \<times> int) option) io) \<Rightarrow> int
    \<Rightarrow> ('s, (int \<times> int) option list) io"
  tv_batchAssets :: "token_detailed list \<Rightarrow> (token_detailed \<Rightarrow> string) \<Rightarrow> (token_detailed \<Rightarrow> ('s, asset_details option) io) \<Rightarrow> int
    \<Rightarrow> ('s, asset_details option list) io"
  tv_mexPairs :: "('s, mex_pair_data list) io"
  tv_mexTokenTypes :: "('s, (string \<times> string) list) io"
  tv_mexPrices :: "('s, string \<Rightarrow> mex_price option) io"
  tv_dataApiPrice :: "string \<Rightarrow> ('s, rat option) io"
  tv_egldPrice :: "('s, rat option) io"
  tv_headersForUrl :: "string \<Rightarrow> (string \<times> string) list option"
  tv_httpGet :: "string \<Rightarrow> (string \<times> string) list option \<Rightarrow> ('s, json option) io"
  tv_price_of :: "json \<Rightarrow> rat"
  tv_addressNft :: "string \<Rightarrow> string \<Rightarrow> ('s, gateway_balance option) io"
  tv_addressEsdt :: "string \<Rightarrow> string \<Rightarrow> ('s, gateway_balance option) io"
  tv_mergeProps :: "token_props \<Rightarrow> token_detailed"
  tv_mergeRoles :: "token_detailed \<Rightarrow> token_with_roles"

section \<open>Concurrency\<close>

text \<open>The batches of a limit: \<open>chunks_of\<close> takes the size less one.\<close>

definition executeWithConcurrencyLimit :: "'x list \<Rightarrow> ('x \<Rightarrow> ('s, 'b) io) \<Rightarrow> nat \<Rightarrow> ('s, 'b list) io" where
  "executeWithConcurrencyLimit items f limit =
     io_bind (io_mapM (io_all f) (chunks_of (limit - 1) items)) (\<lambda>results. io_return (concat results))"

section \<open>Helpers\<close>

definition to_upper :: "string \<Rightarrow> string" where
  "to_upper s = map (\<lambda>c. let n = (of_char c :: nat) in if 97 \<le> n \<and> n < 123 then char_of (n - 32) else c) s"

definition egldIdentifierInMultiTransfer :: string where
  "egldIdentifierInMultiTransfer = ''EGLD-000000''"

definition thresholdFaultyMarketCap :: rat where
  "thresholdFaultyMarketCap = 10000000000"

definition normalizeIdentifierCase :: "string \<Rightarrow> string" where
  "normalizeIdentifierCase identifier =
     (let parts = split_on CHR ''-'' identifier
      in if \<not> truthy (nth_opt parts 0) \<or> \<not> truthy (nth_opt parts 1) then to_upper identifier
         else to_upper (parts ! 0) @ ''-'' @ to_lower (parts ! 1))"

definition applyTickerFromAssets :: "'a token_scheme \<Rightarrow> 'a token_scheme" where
  "applyTickerFromAssets t = t\<lparr>tk_ticker := (if tk_assets t \<noteq> None then hd (split_on CHR ''-'' (tk_identifier t)) else tk_identifier t)\<rparr>"

definition rat_truthy :: "rat option \<Rightarrow> bool" where
  "rat_truthy x \<longleftrightarrow> x \<noteq> None \<and> x \<noteq> Some 0"

definition price_source_type :: "'a token_scheme \<Rightarrow> string option" where
  "price_source_type t = (case tk_assets t of None \<Rightarrow> None | Some a \<Rightarrow> (case ta_priceSource a of None \<Rightarrow> None | Some p \<Rightarrow> ps_type p))"

section \<open>All tokens\<close>

text \<open>The time is read when the count has been taken.\<close>

definition counted :: "'s tokens_env \<Rightarrow> int \<Rightarrow> ('s, (int \<times> int) option) io" where
  "counted env n = (\<lambda>s. (Inr (Some (n, tv_now env s)), s))"

definition extra_tokens :: "token_detailed \<Rightarrow> string list" where
  "extra_tokens t = (case tk_assets t of None \<Rightarrow> [] | Some a \<Rightarrow> coalesce (ta_extraTokens a) [])"

definition getTotalTransactions :: "'s tokens_env \<Rightarrow> token_detailed \<Rightarrow> ('s, (int \<times> int) option) io" where
  "getTotalTransactions env t =
     io_catch (io_bind (tv_transactionCount env (tk_identifier t # extra_tokens t)) (counted env)) (\<lambda>_. io_return None)"

definition getTotalTransfers :: "'s tokens_env \<Rightarrow> token_detailed \<Rightarrow> ('s, (int \<times> int) option) io" where
  "getTotalTransfers env t =
     io_catch (io_bind (tv_transfersCount env (tk_identifier t # extra_tokens t)) (counted env)) (\<lambda>_. io_return None)"

definition esdtAccountsCount :: "'s tokens_env \<Rightarrow> string \<Rightarrow> ('s, int option) io" where
  "esdtAccountsCount env identifier =
     io_catch (io_bind (tv_esdtAccountsCount env identifier) (\<lambda>n. io_return (Some n))) (\<lambda>_. io_return None)"

definition getTotalAccounts :: "'s tokens_env \<Rightarrow> token_detailed \<Rightarrow> ('s, (int \<times> int) option) io" where
  "getTotalAccounts env t =
     io_bind (tv_accountsExtra env (ci_key (CacheInfo_TokenAccountsExtra (tv_consts env) (tk_identifier t)))) (\<lambda>extra.
     io_bind (if extra = None \<or> extra = Some 0 then esdtAccountsCount env (tk_identifier t) else io_return extra) (\<lambda>accounts.
       case accounts of None \<Rightarrow> io_return None | Some n \<Rightarrow> if n = 0 then io_return None else counted env n))"

definition set_transactions :: "token_detailed \<times> (int \<times> int) option \<Rightarrow> token_detailed" where
  "set_transactions = (\<lambda>(t, r). t\<lparr>tk_transactions := map_option fst r, tk_transactionsLastUpdatedAt := map_option snd r\<rparr>)"

definition set_accounts :: "token_detailed \<times> (int \<times> int) option \<Rightarrow> token_detailed" where
  "set_accounts = (\<lambda>(t, r). t\<lparr>tk_accounts := map_option fst r, tk_accountsLastUpdatedAt := map_option snd r\<rparr>)"

definition set_transfers :: "token_detailed \<times> (int \<times> int) option \<Rightarrow> token_detailed" where
  "set_transfers = (\<lambda>(t, r). t\<lparr>tk_transfers := map_option fst r, tk_transfersLastUpdatedAt := map_option snd r\<rparr>)"

definition batchProcessTokens :: "'s tokens_env \<Rightarrow> token_detailed list \<Rightarrow> ('s, token_detailed list) io" where
  "batchProcessTokens env tokens =
     (let K = tv_consts env
      in io_bind (io_both
        (tv_batchCounts env tokens (\<lambda>t. ci_key (CacheInfo_TokenTransactions K (tk_identifier t))) (getTotalTransactions env) (ci_ttl (CacheInfo_TokenTransactions K [])))
        (io_both
          (tv_batchCounts env tokens (\<lambda>t. ci_key (CacheInfo_TokenAccounts K (tk_identifier t))) (getTotalAccounts env) (ci_ttl (CacheInfo_TokenAccounts K [])))
          (tv_batchCounts env tokens (\<lambda>t. ci_key (CacheInfo_TokenTransfers K (tk_identifier t))) (getTotalTransfers env) (ci_ttl (CacheInfo_TokenTransfers K [])))))
        (\<lambda>(transactions, accounts, transfers).
          io_return (map set_transfers (zip (map set_accounts (zip (map set_transactions (zip tokens transactions)) accounts)) transfers))))"

definition pairs_of :: "token_detailed \<Rightarrow> mex_pair_data list \<Rightarrow> mex_pair_data list" where
  "pairs_of t pairs = filter (\<lambda>x. mp_baseId x = tk_identifier t \<or> mp_quoteId x = tk_identifier t) pairs"

definition applyMexLiquidity :: "'s tokens_env \<Rightarrow> token_detailed list \<Rightarrow> ('s, token_detailed list) io" where
  "applyMexLiquidity env tokens = io_catch
     (io_bind (tv_mexPairs env) (\<lambda>allPairs. io_return (map (\<lambda>t. let pairs = pairs_of t allPairs in
        if pairs = [] then t
        else t\<lparr>tk_totalLiquidity := Some (tv_sum env (map (\<lambda>x. tv_fl env (mp_totalValue x / 2)) pairs)),
               tk_totalVolume24h := Some (tv_sum env (map (\<lambda>x. coalesce (mp_volume24h x) 0) pairs))\<rparr>) tokens)))
     (\<lambda>_. io_return tokens)"

definition LOW_LIQUIDITY_THRESHOLD :: rat where
  "LOW_LIQUIDITY_THRESHOLD = 5 / 1000"

definition low_liquidity :: "'s tokens_env \<Rightarrow> token_detailed \<Rightarrow> token_detailed" where
  "low_liquidity env t =
     (if rat_truthy (tk_totalLiquidity t) \<and> rat_truthy (tk_marketCap t)
        \<and> tv_fl env (the (tk_totalLiquidity t) / the (tk_marketCap t)) < LOW_LIQUIDITY_THRESHOLD
      then t\<lparr>tk_isLowLiquidity := Some True, tk_lowLiquidityThresholdPercent := Some (tv_fl env (LOW_LIQUIDITY_THRESHOLD * 100))\<rparr>
      else t)"

definition cut_market_cap :: "token_detailed \<Rightarrow> token_detailed" where
  "cut_market_cap t = (case tk_marketCap t of Some m \<Rightarrow> if m > thresholdFaultyMarketCap then t\<lparr>tk_marketCap := Some 0\<rparr> else t | None \<Rightarrow> t)"

text \<open>The adjusted price is written back to the dictionary, where no other token reads it.\<close>

definition adjusted_price :: "'s tokens_env \<Rightarrow> token_detailed \<Rightarrow> mex_price \<Rightarrow> mex_price" where
  "adjusted_price env t price =
     (if tk_assets t \<noteq> None \<and> hd (split_on CHR ''-'' (tk_identifier t)) = ''EGLDUSDC''
      then price\<lparr>mr_price := tv_fl env (tv_fl env (mr_price price / 10 ^ 12) * 2)\<rparr> else price)"

definition mex_priced :: "'s tokens_env \<Rightarrow> mex_price \<Rightarrow> token_detailed \<Rightarrow> ('s, token_detailed) io" where
  "mex_priced env price t = io_catch
     (io_bind (getEsdtTokenSupply (tv_esdt env) (tk_identifier t)) (\<lambda>supply.
        let price = adjusted_price env t price;
            t = (if mr_isToken price
                 then low_liquidity env (cut_market_cap (t\<lparr>tk_price := Some (mr_price price),
                   tk_marketCap := Some (tv_fl env (mr_price price * tv_denominateString env (es_circulatingSupply supply) (tk_decimals t)))\<rparr>))
                 else t)
        in io_return (t\<lparr>tk_supply := Some (Supply_text (es_totalSupply supply)), tk_circulatingSupply := Some (Supply_text (es_circulatingSupply supply))\<rparr>)))
     (\<lambda>_. io_return t)"

text \<open>The tokens without a price of the exchange stay as they are.\<close>

definition applyMexPrices :: "'s tokens_env \<Rightarrow> token_detailed list \<Rightarrow> ('s, token_detailed list) io" where
  "applyMexPrices env tokens = io_catch
     (io_bind (tv_mexPrices env) (\<lambda>indexedTokens.
        executeWithConcurrencyLimit tokens (\<lambda>t. case indexedTokens (tk_identifier t) of None \<Rightarrow> io_return t | Some price \<Rightarrow> mex_priced env price t) 50))
     (\<lambda>_. io_return tokens)"

definition applyMexPairType :: "'s tokens_env \<Rightarrow> token_detailed list \<Rightarrow> ('s, token_detailed list) io" where
  "applyMexPairType env tokens = io_catch
     (io_bind (tv_mexTokenTypes env) (\<lambda>types. io_return (map (\<lambda>t. case map_of (rev types) (tk_identifier t) of
        None \<Rightarrow> t | Some type \<Rightarrow> t\<lparr>tk_mexPairType := type\<rparr>) tokens)))
     (\<lambda>_. io_return tokens)"

definition sum_counts :: "int option list \<Rightarrow> int" where
  "sum_counts xs = sum_list (map (\<lambda>x. coalesce x 0) xs)"

definition applyMexPairTradesCount :: "'s tokens_env \<Rightarrow> token_detailed list \<Rightarrow> ('s, token_detailed list) io" where
  "applyMexPairTradesCount env tokens =
     (if tokens = [] then io_return tokens
      else io_catch
        (io_bind (tv_mexPairs env) (\<lambda>pairs.
           let filteredPairs = filter mp_active pairs
           in io_return (map (\<lambda>t. let ps = pairs_of t filteredPairs in
                if ps = [] then t else t\<lparr>tk_tradesCount := Some (sum_counts (map mp_tradesCount ps))\<rparr>) tokens)))
        (\<lambda>_. io_return tokens))"

text \<open>
  The four run at the same time on the same tokens. They write different members, and the prices read the
  liquidity, which is there first: the pairs come from the local cache, the supply from the gateway.
\<close>

definition applyMexData :: "'s tokens_env \<Rightarrow> token_detailed list \<Rightarrow> ('s, token_detailed list) io" where
  "applyMexData env tokens =
     io_bind (applyMexLiquidity env tokens) (\<lambda>tokens.
     io_bind (applyMexPrices env tokens) (\<lambda>tokens.
     io_bind (applyMexPairType env tokens) (\<lambda>tokens.
       applyMexPairTradesCount env tokens)))"

text \<open>\<open>extractData\<close>: a key that reads as a number is an index; of the notations of numbers, digits are read.\<close>

definition json_number_key :: "string \<Rightarrow> nat option" where
  "json_number_key key = (if key = [] then Some 0 else if list_all is_digit key then Some (dec_val key) else None)"

definition data_member :: "string \<Rightarrow> json \<Rightarrow> json option" where
  "data_member key j =
     (case j of
        JUndefined \<Rightarrow> None
      | JNull \<Rightarrow> None
      | JArr xs \<Rightarrow> (case json_number_key key of Some i \<Rightarrow> nth_opt xs i | None \<Rightarrow> if key = ''length'' then Some (JNum (int (length xs))) else None)
      | JObj fs \<Rightarrow> map_of (rev fs) (case json_number_key key of Some i \<Rightarrow> nat_str i | None \<Rightarrow> key)
      | JStr s \<Rightarrow> (case json_number_key key of Some i \<Rightarrow> map_option (\<lambda>c. JStr [c]) (nth_opt s i)
          | None \<Rightarrow> if key = ''length'' then Some (JNum (int (length s))) else None)
      | _ \<Rightarrow> None)"

fun extract_keys :: "string list \<Rightarrow> json option \<Rightarrow> json option" where
  "extract_keys [] j = j"
| "extract_keys (k # ks) j = (case j of None \<Rightarrow> None | Some JNull \<Rightarrow> None | Some JUndefined \<Rightarrow> None | Some v \<Rightarrow> extract_keys ks (data_member k v))"

definition extractData :: "json \<Rightarrow> string \<Rightarrow> json option" where
  "extractData data path = extract_keys (split_on CHR ''.'' path) (Some data)"

definition data_truthy :: "json option \<Rightarrow> bool" where
  "data_truthy j \<longleftrightarrow> (case j of None \<Rightarrow> False | Some v \<Rightarrow> json_truthy v)"

definition fetchTokenDataFromUrl :: "'s tokens_env \<Rightarrow> string \<Rightarrow> string \<Rightarrow> (string \<times> string) list option \<Rightarrow> ('s, json option) io" where
  "fetchTokenDataFromUrl env url path headers = io_catch
     (io_bind (tv_httpGet env url headers) (\<lambda>data.
        if \<not> data_truthy data then io_return None
        else let v = extractData (the data) path in io_return (if data_truthy v then v else None)))
     (\<lambda>_. io_return None)"

text \<open>The price from the source that the assets name.\<close>

definition source_price :: "'s tokens_env \<Rightarrow> token_detailed \<Rightarrow> ('s, token_detailed) io" where
  "source_price env t =
     (if price_source_type t = Some ''dataApi''
      then io_bind (tv_dataApiPrice env (tk_identifier t)) (\<lambda>p. io_return (t\<lparr>tk_price := p\<rparr>))
      else (case tk_assets t of
          Some a \<Rightarrow> (case ta_priceSource a of
            Some p \<Rightarrow> (if ps_type p = Some ''customUrl'' \<and> truthy (ps_url p)
              then io_bind (fetchTokenDataFromUrl env (the (ps_url p)) (coalesce (ps_path p) ''0.usdPrice'') (tv_headersForUrl env (the (ps_url p)))) (\<lambda>v.
                io_return (case v of None \<Rightarrow> t | Some j \<Rightarrow> t\<lparr>tk_price := Some (tv_price_of env j)\<rparr>))
              else io_return t)
          | None \<Rightarrow> io_return t)
        | None \<Rightarrow> io_return t))"

definition fallback_price :: "'s tokens_env \<Rightarrow> token_detailed \<Rightarrow> ('s, token_detailed) io" where
  "fallback_price env t =
     (if \<not> rat_truthy (tk_price t) \<and> tk_type t = ''FungibleESDT''
      then io_catch (io_bind (tv_dataApiPrice env (tk_identifier t)) (\<lambda>p. io_return (if rat_truthy p then t\<lparr>tk_price := p\<rparr> else t))) (\<lambda>_. io_return t)
      else io_return t)"

definition with_supply :: "'s tokens_env \<Rightarrow> token_detailed \<Rightarrow> esdt_supply \<Rightarrow> token_detailed" where
  "with_supply env t supply =
     (let t = t\<lparr>tk_supply := Some (Supply_text (es_totalSupply supply)), tk_circulatingSupply := Some (Supply_text (es_circulatingSupply supply))\<rparr>
      in if rat_truthy (tk_price t) \<and> es_circulatingSupply supply \<noteq> []
         then cut_market_cap (t\<lparr>tk_marketCap := Some (tv_fl env (the (tk_price t) * tv_denominateString env (es_circulatingSupply supply) (tk_decimals t)))\<rparr>)
         else t)"

text \<open>What was set before an error stays set.\<close>

definition price_and_supply :: "'s tokens_env \<Rightarrow> token_detailed \<Rightarrow> ('s, token_detailed) io" where
  "price_and_supply env t = io_catch
     (io_bind (source_price env t) (\<lambda>t1.
      io_bind (fallback_price env t1) (\<lambda>t2.
        io_catch (io_bind (getEsdtTokenSupply (tv_esdt env) (tk_identifier t2)) (\<lambda>supply. io_return (with_supply env t2 supply))) (\<lambda>_. io_return t2))))
     (\<lambda>_. io_return t)"

definition meta_token :: "nft_collection \<Rightarrow> token_detailed" where
  "meta_token c = new_token_detailed\<lparr>tk_type := ''MetaESDT'', tk_subType := nc_subType c, tk_identifier := nc_collection c, tk_name := nc_name c,
     tk_timestamp := nc_timestamp c, tk_owner := coalesce (nc_owner c) [], tk_decimals := nc_decimals c, tk_canFreeze := Some (nc_canFreeze c),
     tk_canPause := nc_canPause c, tk_canTransferNftCreateRole := nc_canTransferNftCreateRole c, tk_canWipe := nc_canWipe c,
     tk_canAddSpecialRoles := Some (nc_canAddSpecialRoles c), tk_canChangeOwner := Some (nc_canChangeOwner c), tk_canUpgrade := nc_canUpgrade c\<rparr>"

definition fungible_token :: "'s tokens_env \<Rightarrow> (string \<Rightarrow> asset_details option) \<Rightarrow> token_props \<Rightarrow> token_detailed" where
  "fungible_token env allAssets p =
     (let t = tv_mergeProps env p;
          t = (case allAssets (tk_identifier t) of Some a \<Rightarrow> if ta_name a \<noteq> [] then t\<lparr>tk_name := ta_name a\<rparr> else t | None \<Rightarrow> t)
      in t\<lparr>tk_type := ''FungibleESDT''\<rparr>)"

definition is_meta :: "'a token_scheme \<Rightarrow> bool" where
  "is_meta t \<longleftrightarrow> tk_type t = ''MetaESDT''"

text \<open>The fungible tokens come first, so that the others are those after them, changed or not.\<close>

fun put_back :: "token_detailed list \<Rightarrow> token_detailed list \<Rightarrow> token_detailed list" where
  "put_back [] changed = []"
| "put_back (t # ts) changed =
     (if is_meta t then t # put_back ts changed else (case changed of [] \<Rightarrow> t # put_back ts [] | c # cs \<Rightarrow> c # put_back ts cs))"

definition list_criteria :: "(token_detailed \<Rightarrow> rat) list" where
  "list_criteria = [\<lambda>t. if tk_assets t \<noteq> None then 1 else 0, \<lambda>t. if rat_truthy (tk_marketCap t) then 1 else 0,
     \<lambda>t. if tk_isLowLiquidity t = Some True \<or> price_source_type t = Some ''customUrl'' then 0 else coalesce (tk_marketCap t) 0,
     \<lambda>t. of_int (coalesce (tk_transactions t) 0)]"

definition getAllTokensRaw :: "'s tokens_env \<Rightarrow> ('s, token_detailed list) io" where
  "getAllTokensRaw env =
     (if tv_fetchFromApi env then tv_tokensFromApi env
      else
        io_bind (getAllFungibleTokenProperties (tv_esdt env)) (\<lambda>properties.
        io_bind (getAllTokenAssets (tv_assets env)) (\<lambda>allAssets.
        io_bind (nftCollections (tv_collections env) \<lparr>qp_from = 0, qp_size = 10000, qp_before = None, qp_after = None\<rparr>
          (no_collection_filter\<lparr>cf_type := Some [''MetaESDT'']\<rparr>)) (\<lambda>collections.
        io_bind (batchProcessTokens env (map (fungible_token env allAssets) properties @ map meta_token collections)) (\<lambda>tokens.
        io_bind (applyMexData env (filter (\<lambda>t. \<not> is_meta t) tokens)) (\<lambda>priced.
        let tokens = put_back tokens priced
        in io_bind (tv_batchAssets env tokens (\<lambda>t. ci_key (CacheInfo_EsdtAssets (tv_consts env) (tk_identifier t)))
             (\<lambda>t. getTokenAssets (tv_assets env) (tk_identifier t)) (ci_ttl (CacheInfo_EsdtAssets (tv_consts env) []))) (\<lambda>assets.
        io_bind (executeWithConcurrencyLimit (map (\<lambda>(t, a). t\<lparr>tk_assets := a\<rparr>) (zip tokens assets)) (price_and_supply env) 50) (\<lambda>tokens.
        io_bind (getTokenAssets (tv_assets env) egldIdentifierInMultiTransfer) (\<lambda>egldAssets.
        io_bind (tv_egldPrice env) (\<lambda>egldPrice.
          io_return (tv_sortedDescending env list_criteria tokens
            @ [new_token_detailed\<lparr>tk_identifier := egldIdentifierInMultiTransfer, tk_name := ''EGLD'', tk_type := ''FungibleESDT'', tk_assets := egldAssets,
                tk_decimals := Some 18, tk_isLowLiquidity := Some False, tk_price := egldPrice, tk_supply := Some (Supply_text ''0''),
                tk_circulatingSupply := Some (Supply_text ''0''), tk_marketCap := Some 0\<rparr>])))))))))))"

definition getAllTokens :: "'s tokens_env \<Rightarrow> ('s, token_detailed list) io" where
  "getAllTokens env =
     (let info = CacheInfo_AllEsdtTokens (tv_consts env) in tv_getOrSetTokens env (ci_key info) (getAllTokensRaw env) (ci_ttl info))"

definition counts_for_market :: "token_detailed \<Rightarrow> bool" where
  "counts_for_market t \<longleftrightarrow> rat_truthy (tk_price t) \<and> rat_truthy (tk_marketCap t) \<and> tk_isLowLiquidity t \<noteq> Some True
     \<and> price_source_type t \<noteq> Some ''customUrl''"

definition getTokenMarketCapRaw :: "'s tokens_env \<Rightarrow> ('s, rat) io" where
  "getTokenMarketCapRaw env =
     io_bind (getAllTokens env) (\<lambda>tokens. io_return
       (fold (\<lambda>t acc. if counts_for_market t then tv_fl env (acc + the (tk_marketCap t)) else acc) tokens 0))"

definition getTokenMarketCap :: "'s tokens_env \<Rightarrow> ('s, rat) io" where
  "getTokenMarketCap env =
     (let info = CacheInfo_TokenMarketCap (tv_consts env) in tv_getOrSetMarketCap env (ci_key info) (getTokenMarketCapRaw env) (ci_ttl info))"

section \<open>Filters, order and pages\<close>

definition name_matches :: "string \<Rightarrow> token_detailed \<Rightarrow> bool" where
  "name_matches s t \<longleftrightarrow> str_includes (to_lower (tk_name t)) (to_lower s) \<or> str_includes (to_lower (tk_identifier t)) (to_lower s)"

definition sort_criteria :: "token_sort \<Rightarrow> (token_detailed \<Rightarrow> rat) res" where
  "sort_criteria field =
     (case field of
        TSort_accounts \<Rightarrow> Inr (\<lambda>t. of_int (coalesce (tk_accounts t) 0))
      | TSort_transactions \<Rightarrow> Inr (\<lambda>t. of_int (coalesce (tk_transactions t) 0))
      | TSort_price \<Rightarrow> Inr (\<lambda>t. coalesce (tk_price t) 0)
      | TSort_marketCap \<Rightarrow> Inr (\<lambda>t. if tk_isLowLiquidity t = Some True then 0 else coalesce (tk_marketCap t) 0)
      | TSort_other s \<Rightarrow> Inl (ErrorMsg (''Unsupported sorting criteria '' @ [CHR 0x27] @ s @ [CHR 0x27])))"

definition sortTokens :: "'s tokens_env \<Rightarrow> token_detailed list \<Rightarrow> token_sort \<Rightarrow> sort_order \<Rightarrow> token_detailed list res" where
  "sortTokens env tokens field order =
     res_bind (sort_criteria field) (\<lambda>criteria. Inr (case order of
       Sort_asc \<Rightarrow> tv_sorted env criteria tokens | Sort_desc \<Rightarrow> tv_sortedDescending env [criteria] tokens))"

text \<open>\<open>token.subType.toString()\<close> throws when there is no subtype.\<close>

definition subtype_filter :: "string \<Rightarrow> token_detailed list \<Rightarrow> token_detailed list res" where
  "subtype_filter s tokens = (if \<exists>t \<in> set tokens. tk_subType t = None then Inl TypeError else Inr (filter (\<lambda>t. tk_subType t = Some s) tokens))"

definition filter_tokens :: "'s tokens_env \<Rightarrow> token_query \<Rightarrow> token_detailed list \<Rightarrow> token_detailed list res" where
  "filter_tokens env f tokens =
     (let tokens = (if truthy (kf_type f) then filter (\<lambda>t. Some (tk_type t) = kf_type f) tokens else tokens)
      in res_bind (if truthy (kf_subType f) then subtype_filter (the (kf_subType f)) tokens else Inr tokens) (\<lambda>tokens.
      let tokens = (if truthy (kf_search f) then filter (name_matches (the (kf_search f))) tokens else tokens);
          tokens = (if truthy (kf_name f) then filter (\<lambda>t. to_lower (tk_name t) = to_lower (the (kf_name f))) tokens else tokens);
          tokens = (if truthy (kf_identifier f)
            then filter (\<lambda>t. str_includes (to_lower (tk_identifier t)) (to_lower (the (kf_identifier f)))) tokens else tokens);
          tokens = (case kf_identifiers f of None \<Rightarrow> tokens
            | Some is \<Rightarrow> filter (\<lambda>t. to_lower (tk_identifier t) \<in> set (map to_lower is)) tokens);
          tokens = (if kf_includeMetaESDT f \<noteq> Some True then filter (\<lambda>t. tk_type t = ''FungibleESDT'') tokens else tokens)
      in res_bind (case kf_sort f of None \<Rightarrow> Inr tokens | Some field \<Rightarrow> sortTokens env tokens field (coalesce (kf_order f) Sort_desc)) (\<lambda>tokens.
      let types = coalesce (kf_mexPairType f) [];
          tokens = (if types \<noteq> [] then filter (\<lambda>t. tk_mexPairType t \<in> set types) tokens else tokens)
      in Inr (if truthy (kf_priceSource f) then filter (\<lambda>t. price_source_type t = kf_priceSource f) tokens else tokens))))"

definition getFilteredTokens :: "'s tokens_env \<Rightarrow> token_query \<Rightarrow> ('s, token_detailed list) io" where
  "getFilteredTokens env f = io_bind (getAllTokens env) (\<lambda>tokens. io_lift (filter_tokens env f tokens))"

definition tokens_slice :: "query_pagination \<Rightarrow> 'a list \<Rightarrow> 'a list" where
  "tokens_slice p xs = take (nat (qp_size p)) (drop (nat (qp_from p)) xs)"

definition tokensPage :: "'s tokens_env \<Rightarrow> query_pagination \<Rightarrow> token_query \<Rightarrow> ('s, token_detailed list) io" where
  "tokensPage env pagination f =
     io_bind (getFilteredTokens env f) (\<lambda>tokens.
       io_return (filter (\<lambda>t. tk_identifier t \<noteq> egldIdentifierInMultiTransfer) (map applyTickerFromAssets (tokens_slice pagination tokens))))"

definition tokenCount :: "'s tokens_env \<Rightarrow> token_query \<Rightarrow> ('s, nat) io" where
  "tokenCount env f = io_bind (getFilteredTokens env f) (\<lambda>tokens. io_return (length tokens))"

definition isTokenIdentifier :: "'s tokens_env \<Rightarrow> string \<Rightarrow> ('s, bool) io" where
  "isTokenIdentifier env identifier =
     io_bind (getAllTokens env) (\<lambda>tokens. io_return (find (\<lambda>t. to_lower (tk_identifier t) = to_lower identifier) tokens \<noteq> None))"

section \<open>Supply\<close>

definition applySupply :: "'s tokens_env \<Rightarrow> 'a token_scheme \<Rightarrow> bool option \<Rightarrow> ('s, 'a token_scheme) io" where
  "applySupply env t denominated =
     io_bind (getEsdtTokenSupply (tv_esdt env) (tk_identifier t)) (\<lambda>supply.
     io_bind (io_lift (case denominated of
         Some False \<Rightarrow> Inr (Supply_text (es_totalSupply supply), Supply_text (es_circulatingSupply supply))
       | _ \<Rightarrow> res_bind (js_BigInt (es_totalSupply supply)) (\<lambda>entire. res_bind (js_BigInt (es_circulatingSupply supply)) (\<lambda>circulating.
           let shown = (\<lambda>n. let x = tv_denominate env n (tk_decimals t) in if denominated = Some True then Supply_number x else Supply_text (tv_toFixed env x))
           in Inr (shown entire, shown circulating))))) (\<lambda>(entire, circulating).
     let t = t\<lparr>tk_supply := Some entire, tk_circulatingSupply := Some circulating\<rparr>;
         t = (if es_minted supply \<noteq> [] then t\<lparr>tk_minted := es_minted supply\<rparr> else t);
         t = (if es_burned supply \<noteq> [] then t\<lparr>tk_burnt := es_burned supply\<rparr> else t)
     in io_return (if es_initialMinted supply \<noteq> [] then t\<lparr>tk_initialMinted := es_initialMinted supply\<rparr> else t)))"

definition tokenProperties :: "'s tokens_env \<Rightarrow> string \<Rightarrow> ('s, token_props option) io" where
  "tokenProperties env identifier =
     (if length (split_on CHR ''-'' identifier) \<noteq> 2 then io_return None
      else io_bind (getEsdtTokenProperties (tv_esdt env) identifier) (\<lambda>properties. io_return (case properties of
        None \<Rightarrow> None | Some p \<Rightarrow> if pr_type p \<in> {''FungibleESDT'', ''MetaESDT''} then Some p else None)))"

definition tokenSupply :: "'s tokens_env \<Rightarrow> string \<Rightarrow> bool option \<Rightarrow> ('s, token_supply_result option) io" where
  "tokenSupply env identifier denominated =
     io_bind (tokenProperties env identifier) (\<lambda>properties. case properties of
       None \<Rightarrow> io_return None
     | Some p \<Rightarrow> io_bind (getEsdtTokenSupply (tv_esdt env) identifier) (\<lambda>result.
         let number = (\<lambda>s. tv_denominateString env s (pr_decimals p));
             shown = (\<lambda>s. case denominated of Some True \<Rightarrow> Supply_number (number s) | Some False \<Rightarrow> Supply_text s | None \<Rightarrow> Supply_text (tv_toFixed env (number s)));
             part = (\<lambda>s. if denominated = Some True \<and> s \<noteq> [] then Supply_number (number s) else Supply_text s);
             locked = map_option (map (\<lambda>a. (a, if denominated = Some True then Supply_number (number (la_balance a)) else Supply_text (la_balance a))))
               (es_lockedAccounts result)
         in io_return (Some \<lparr>su_supply = shown (es_totalSupply result), su_circulatingSupply = shown (es_circulatingSupply result),
              su_minted = Some (part (es_minted result)), su_burnt = Some (part (es_burned result)), su_initialMinted = Some (part (es_initialMinted result)),
              su_lockedAccounts = map_option (tv_sortedAccounts env) locked\<rparr>)))"

section \<open>Roles\<close>

fun upsert_token_role :: "string \<Rightarrow> string \<Rightarrow> token_roles list \<Rightarrow> token_roles list" where
  "upsert_token_role address role [] = [setTokenRole role (new_token_roles\<lparr>ro_address := Some address\<rparr>)]"
| "upsert_token_role address role (r # rs) =
     (if ro_address r = Some address then setTokenRole role r # rs else r # upsert_token_role address role rs)"

definition getTokenRolesFromElastic :: "'s tokens_env \<Rightarrow> string \<Rightarrow> ('s, token_roles list option) io" where
  "getTokenRolesFromElastic env identifier =
     io_bind (tv_indexToken env identifier) (\<lambda>found. io_return (case found of
       None \<Rightarrow> None
     | Some None \<Rightarrow> Some []
     | Some (Some roles) \<Rightarrow> Some (fold (\<lambda>(role, addresses) rs. fold (\<lambda>a. upsert_token_role a role) (ce_distinct (tv_collections env) addresses) rs) roles [])))"

definition getTokenRoles :: "'s tokens_env \<Rightarrow> string \<Rightarrow> ('s, token_roles list option) io" where
  "getTokenRoles env identifier = getTokenRolesFromElastic env identifier"

definition getTokenRolesForIdentifierAndAddress :: "'s tokens_env \<Rightarrow> string \<Rightarrow> string \<Rightarrow> ('s, token_roles option) io" where
  "getTokenRolesForIdentifierAndAddress env identifier address =
     io_bind (tv_indexToken env identifier) (\<lambda>found. io_return (case found of
       Some (Some roles) \<Rightarrow> Some ((fold (\<lambda>(role, addresses) r. if address \<in> set (ce_distinct (tv_collections env) addresses) then setTokenRole role r else r) roles
         (new_token_roles\<lparr>ro_address := Some address\<rparr>))\<lparr>ro_address := None\<rparr>)
     | _ \<Rightarrow> None))"

definition role_of_token :: "string \<Rightarrow> (string \<times> string list) list \<Rightarrow> string \<Rightarrow> bool \<Rightarrow> address_token_roles" where
  "role_of_token type roles address canTransfer =
     (let held = map fst (filter (\<lambda>(role, addresses). address \<in> set addresses) roles);
          fungible = (\<lambda>r. if type = ''FungibleESDT'' then Some (r \<in> set held) else None);
          meta = (\<lambda>r. if type = ''MetaESDT'' then Some (r \<in> set held) else None)
      in \<lparr>ar_canLocalMint = fungible ''ESDTRoleLocalMint'', ar_canLocalBurn = fungible ''ESDTRoleLocalBurn'',
          ar_canAddQuantity = meta ''ESDTRoleNFTAddQuantity'', ar_canAddUri = meta ''ESDTRoleNFTAddURI'', ar_canCreate = meta ''ESDTRoleNFTCreate'',
          ar_canBurn = meta ''ESDTRoleNFTBurn'', ar_canUpdateAttributes = meta ''ESDTRoleNFTUpdateAttributes'',
          ar_canTransfer = (if \<not> canTransfer then Some (''ESDTTransferRole'' \<in> set held) else None), ar_roles = held\<rparr>)"

text \<open>The copies of the roles on the token itself replace its own \<open>canBurn\<close>.\<close>

definition token_roles_shown :: "'s tokens_env \<Rightarrow> string \<Rightarrow> token_detailed \<Rightarrow> (string \<times> string list) list option \<Rightarrow> token_with_roles" where
  "token_roles_shown env address t roles =
     (let item = tv_mergeRoles env (applyTickerFromAssets t)
      in case roles of
           None \<Rightarrow> item
         | Some rs \<Rightarrow>
             (let item = (if ''ESDTTransferRole'' \<notin> fst ` set rs then item\<lparr>tr_canTransfer := True\<rparr> else item);
                  r = role_of_token (tk_type t) rs address (tr_canTransfer item)
              in item\<lparr>tr_role := r, tr_canLocalMint := ar_canLocalMint r, tr_canLocalBurn := ar_canLocalBurn r, tr_canCreate := ar_canCreate r,
                   tk_canBurn := ar_canBurn r, tr_canAddQuantity := ar_canAddQuantity r, tr_canUpdateAttributes := ar_canUpdateAttributes r,
                   tr_canAddUri := ar_canAddUri r\<rparr>))"

definition tokensWithRoles :: "'s tokens_env \<Rightarrow> string \<Rightarrow> token_roles_filter \<Rightarrow> query_pagination \<Rightarrow> ('s, token_with_roles list) io" where
  "tokensWithRoles env address f pagination =
     io_bind (tv_indexTokensWithRoles env address f pagination) (\<lambda>tokenList.
     io_bind (getAllTokens env) (\<lambda>allTokens. io_return
       (concat (map (\<lambda>(identifier, roles). case find (\<lambda>t. tk_identifier t = identifier) allTokens of
          None \<Rightarrow> [] | Some t \<Rightarrow> [token_roles_shown env address t roles]) tokenList))))"

definition tokensWithRolesCount :: "'s tokens_env \<Rightarrow> string \<Rightarrow> token_roles_filter \<Rightarrow> ('s, int) io" where
  "tokensWithRolesCount env address f = tv_indexTokensWithRolesCount env address f"

definition tokenWithRoles :: "'s tokens_env \<Rightarrow> string \<Rightarrow> string \<Rightarrow> ('s, token_with_roles option) io" where
  "tokenWithRoles env address identifier =
     io_bind (tokensWithRoles env address \<lparr>rf_identifier = Some identifier, rf_search = None, rf_owner = None, rf_canMint = None, rf_canBurn = None,
         rf_includeMetaESDT = Some True\<rparr> \<lparr>qp_from = 0, qp_size = 1, qp_before = None, qp_after = None\<rparr>) (\<lambda>tokens. io_return (nth_opt tokens 0))"

section \<open>One token\<close>

text \<open>The roles of a token, and whether it can be transferred where that is said.\<close>

definition roles_of_token :: "'s tokens_env \<Rightarrow> token_detailed \<Rightarrow> ('s, token_detailed \<Rightarrow> token_detailed) io" where
  "roles_of_token env t =
     (if tk_type t = ''FungibleESDT'' then
        io_bind (getTokenRoles env (tk_identifier t)) (\<lambda>roles. io_return (\<lambda>t. t\<lparr>tk_roles := map_option Token_roles roles\<rparr>))
      else if tk_type t = ''MetaESDT'' then
        io_bind (ce_getCollection (tv_collections env) (tk_identifier t)) (\<lambda>found. case found of
          None \<Rightarrow> io_return id
        | Some doc \<Rightarrow> io_bind (applyCollectionRoles (tv_collections env) doc) (\<lambda>(roles, canTransfer).
            io_return (\<lambda>t. t\<lparr>tk_roles := Some (Collection_roles roles), tk_canTransfer := Some canTransfer\<rparr>)))
      else io_return id)"

definition tokenDetails :: "'s tokens_env \<Rightarrow> string \<Rightarrow> bool option \<Rightarrow> ('s, token_detailed option) io" where
  "tokenDetails env rawIdentifier denominated =
     io_bind (getAllTokens env) (\<lambda>tokens.
     let identifier = normalizeIdentifierCase rawIdentifier
     in case find (\<lambda>t. tk_identifier t = identifier) tokens of
          None \<Rightarrow> io_return None
        | Some t \<Rightarrow>
            if \<not> tv_isToken env identifier then io_return None
            else (let t = applyTickerFromAssets t
              in io_bind (io_both (applySupply env t denominated) (roles_of_token env t)) (\<lambda>(t, set_roles). io_return (Some (set_roles t)))))"

definition tokenAccounts :: "'s tokens_env \<Rightarrow> query_pagination \<Rightarrow> string \<Rightarrow> ('s, token_account list option) io" where
  "tokenAccounts env pagination identifier =
     io_bind (tokenProperties env identifier) (\<lambda>properties.
       if properties = None then io_return None
       else io_bind (tv_indexTokenAccounts env pagination identifier) (\<lambda>accounts.
            io_bind (getAllAccountAssets (tv_assets env)) (\<lambda>assets. io_return (Some (map (\<lambda>a.
              \<lparr>tac_address = ia_address a, tac_balance = ia_balance a,
               tac_identifier = (if ia_type a = ''MetaESDT'' then Some (ia_identifier a) else None), tac_attributes = ia_attributes a,
               tac_assets = assets (ia_address a)\<rparr>) accounts)))))"

definition tokenAccountsCount :: "'s tokens_env \<Rightarrow> string \<Rightarrow> ('s, int option) io" where
  "tokenAccountsCount env identifier =
     io_bind (tokenProperties env identifier) (\<lambda>properties.
       if properties = None then io_return None
       else io_bind (tv_indexTokenAccountsCount env identifier) (\<lambda>n. io_return (Some n)))"

definition getTokenLogo :: "'s tokens_env \<Rightarrow> string \<Rightarrow> ('s, token_logo option) io" where
  "getTokenLogo env identifier =
     io_bind (getTokenAssets (tv_assets env) identifier) (\<lambda>assets. io_return (map_option (\<lambda>a. \<lparr>tl_pngUrl = ta_pngUrl a, tl_svgUrl = ta_svgUrl a\<rparr>) assets))"

definition tokenLogoPng :: "'s tokens_env \<Rightarrow> string \<Rightarrow> ('s, string option) io" where
  "tokenLogoPng env identifier = io_bind (getTokenLogo env identifier) (\<lambda>logo. io_return (map_option tl_pngUrl logo))"

definition tokenLogoSvg :: "'s tokens_env \<Rightarrow> string \<Rightarrow> ('s, string option) io" where
  "tokenLogoSvg env identifier = io_bind (getTokenLogo env identifier) (\<lambda>logo. io_return (map_option tl_svgUrl logo))"

section \<open>Tokens of an address\<close>

definition value_usd :: "'s tokens_env \<Rightarrow> rat option \<Rightarrow> string \<Rightarrow> int option \<Rightarrow> rat option \<Rightarrow> rat option" where
  "value_usd env price balance decimals old =
     (if rat_truthy price then Some (tv_fl env (the price * tv_denominateString env balance decimals)) else old)"

definition applyValueUsd :: "'s tokens_env \<Rightarrow> token_with_balance \<Rightarrow> token_with_balance" where
  "applyValueUsd env t = t\<lparr>tb_valueUsd := value_usd env (tk_price t) (tb_balance t) (tk_decimals t) (tb_valueUsd t)\<rparr>"

definition with_balance :: "token_detailed \<Rightarrow> string \<Rightarrow> string option \<Rightarrow> token_with_balance" where
  "with_balance t balance attributes = token.extend (token.truncate t) (token_with_balance.fields balance None attributes)"

definition tokensOfAddressFromElastic :: "'s tokens_env \<Rightarrow> string \<Rightarrow> query_pagination \<Rightarrow> token_query \<Rightarrow> ('s, token_with_balance list) io" where
  "tokensOfAddressFromElastic env address pagination f =
     io_bind (tv_indexTokens env address pagination f) (\<lambda>elasticTokens.
     io_bind (getAllTokens env) (\<lambda>allTokens. io_return
       (concat (map (\<lambda>e. case find (\<lambda>t. tk_identifier t = ib_token e) (rev allTokens) of
          None \<Rightarrow> []
        | Some t \<Rightarrow> [applyTickerFromAssets (applyValueUsd env ((with_balance t (ib_balance e) (ib_attributes e))
            \<lparr>tk_identifier := coalesce (ib_identifier e) (ib_token e)\<rparr>))]) elasticTokens))))"

definition nftSubTypes :: "string list" where
  "nftSubTypes = [''DynamicNonFungibleESDT'', ''DynamicMetaESDT'', ''NonFungibleESDTv2'', ''DynamicSemiFungibleESDT'']"

text \<open>The type and the subtype of an entry of the gateway: for the first two the subtype is read after the type is replaced.\<close>

definition esdt_types :: "gateway_nft \<Rightarrow> gateway_nft" where
  "esdt_types e =
     (if truthy (gn_type e) \<and> the (gn_type e) \<in> set nftSubTypes
      then (if gn_type e = Some ''DynamicNonFungibleESDT'' \<or> gn_type e = Some ''NonFungibleESDTv2''
            then let e = e\<lparr>gn_type := Some ''NonFungibleESDT''\<rparr> in e\<lparr>gn_subType := gn_type e\<rparr>
            else if gn_type e = Some ''DynamicMetaESDT'' then e\<lparr>gn_type := Some ''MetaESDT'', gn_subType := Some ''DynamicMetaESDT''\<rparr>
            else if gn_type e = Some ''DynamicSemiFungibleESDT'' then e\<lparr>gn_type := Some ''SemiFungibleESDT'', gn_subType := Some ''DynamicSemiFungibleESDT''\<rparr>
            else e\<lparr>gn_subType := Some []\<rparr>)
      else e)"

text \<open>\<open>{...token, ...esdt}\<close>: the members that the entry has replace those of the token.\<close>

definition merge_esdt :: "token_detailed \<Rightarrow> gateway_nft \<Rightarrow> token_with_balance" where
  "merge_esdt t e =
     (let e = esdt_types e;
          type = (if gn_type e = Some [] then tk_type t else coalesce (gn_type e) (tk_type t))
      in (with_balance t (gn_balance e) (gn_attributes e))\<lparr>tk_type := type, tk_subType := orelse (gn_subType e) (tk_subType t),
           tk_name := coalesce (gn_name e) (tk_name t), tk_nonce := orelse (gn_nonce e) (tk_nonce t), tk_identifier := gn_tokenIdentifier e\<rparr>)"

definition allTokensOfAddress :: "'s tokens_env \<Rightarrow> string \<Rightarrow> token_query \<Rightarrow> ('s, token_with_balance list) io" where
  "allTokensOfAddress env address f =
     io_bind (getFilteredTokens env f) (\<lambda>tokens.
     io_bind (getAllEsdtsForAddressFromGateway (tv_addresses env) address) (\<lambda>esdts. io_return
       (concat (map (\<lambda>(key, e). case find (\<lambda>t. tk_identifier t = getCollectionIdentifier key) (rev tokens) of
          None \<Rightarrow> [] | Some t \<Rightarrow> [merge_esdt t e]) esdts))))"

definition tokensOfAddressFromGateway :: "'s tokens_env \<Rightarrow> string \<Rightarrow> query_pagination \<Rightarrow> token_query \<Rightarrow> ('s, token_with_balance list) io" where
  "tokensOfAddressFromGateway env address pagination f =
     io_bind (allTokensOfAddress env address f) (\<lambda>tokens.
       io_return (map (\<lambda>t. applyValueUsd env (applyTickerFromAssets t)) (tokens_slice pagination tokens)))"

definition tokensOfAddressWithFallback :: "'s tokens_env \<Rightarrow> string \<Rightarrow> query_pagination \<Rightarrow> token_query \<Rightarrow> ('s, token_with_balance list) io" where
  "tokensOfAddressWithFallback env address pagination f =
     (let info = CacheInfo_AddressEsdtTrieTimeout (tv_consts env) address
      in io_bind (xa_flag (tv_addresses env) (ci_key info)) (\<lambda>isTrieTimeout.
           if isTrieTimeout = Some True then tokensOfAddressFromElastic env address pagination f
           else io_catch (tokensOfAddressFromGateway env address pagination f) (\<lambda>error.
             if error = TrieOperationsTimeoutError
             then io_then (xa_setFlag (tv_addresses env) (ci_key info) True (ci_ttl info)) (tokensOfAddressFromElastic env address pagination f)
             else io_throw error)))"

definition tokensOfAddress :: "'s tokens_env \<Rightarrow> string \<Rightarrow> query_pagination \<Rightarrow> token_query \<Rightarrow> ('s, token_with_balance list) io" where
  "tokensOfAddress env address pagination f =
     io_bind (if xa_isSmartContract (tv_addresses env) address then tokensOfAddressFromElastic env address pagination f
       else tokensOfAddressWithFallback env address pagination f) (\<lambda>tokens.
       io_return (map (\<lambda>t. if is_meta t
         then t\<lparr>tk_collection := Some (getCollectionIdentifier (tk_identifier t)),
                tk_nonce := xa_hexToNumber (tv_addresses env) (nth_opt (split_on CHR ''-'' (tk_identifier t)) 2)\<rparr>
         else t) tokens))"

definition tokenCountOfAddressFromElastic :: "'s tokens_env \<Rightarrow> string \<Rightarrow> token_query \<Rightarrow> ('s, int) io" where
  "tokenCountOfAddressFromElastic env address f = tv_indexTokenCount env address f"

definition tokenCountOfAddressFromGateway :: "'s tokens_env \<Rightarrow> string \<Rightarrow> token_query \<Rightarrow> ('s, int) io" where
  "tokenCountOfAddressFromGateway env address f = io_bind (allTokensOfAddress env address f) (\<lambda>tokens. io_return (int (length tokens)))"

definition tokenCountOfAddress :: "'s tokens_env \<Rightarrow> string \<Rightarrow> token_query \<Rightarrow> ('s, int) io" where
  "tokenCountOfAddress env address f =
     (if xa_isSmartContract (tv_addresses env) address then tokenCountOfAddressFromElastic env address f
      else tokenCountOfAddressFromGateway env address f)"

definition no_token_filter :: token_query where
  "no_token_filter = \<lparr>kf_type = None, kf_search = None, kf_name = None, kf_identifier = None, kf_identifiers = None, kf_includeMetaESDT = None,
     kf_subType = None, kf_sort = None, kf_order = None, kf_mexPairType = None, kf_priceSource = None\<rparr>"

definition detailed_balance :: "token_detailed \<Rightarrow> gateway_balance option \<Rightarrow> token_detailed_with_balance" where
  "detailed_balance t data =
     (let balance = (case data of None \<Rightarrow> [] | Some b \<Rightarrow> gb_balance b);
          attributes = (case data of None \<Rightarrow> None | Some b \<Rightarrow> gb_attributes b);
          t = (case data of None \<Rightarrow> t | Some b \<Rightarrow> t\<lparr>tk_name := coalesce (gb_name b) (tk_name t), tk_nonce := orelse (gb_nonce b) (tk_nonce t)\<rparr>)
      in token_detailed.extend t (token_detailed_with_balance.fields balance None attributes))"

definition tokenOfAddress :: "'s tokens_env \<Rightarrow> string \<Rightarrow> string \<Rightarrow> ('s, token_detailed_with_balance option) io" where
  "tokenOfAddress env address identifier =
     io_bind (getFilteredTokens env (no_token_filter\<lparr>kf_identifier := Some (getCollectionIdentifier identifier), kf_includeMetaESDT := Some True\<rparr>)) (\<lambda>tokens.
       if \<not> tv_isToken env identifier \<and> \<not> tv_isNft env identifier then io_return None
       else (case tokens of
         [] \<Rightarrow> io_return None
       | t # _ \<Rightarrow>
           io_bind (if tv_isNft env identifier then tv_addressNft env address identifier else tv_addressEsdt env address identifier) (\<lambda>data.
           io_bind (tv_addressEsdt env address identifier) (\<lambda>esdt.
             if (case esdt of None \<Rightarrow> True | Some b \<Rightarrow> gb_balance b = ''0'') then io_return None
             else (let d = detailed_balance t data;
                       d = d\<lparr>tdb_valueUsd := value_usd env (tk_price d) (tdb_balance d) (tk_decimals d) None\<rparr>;
                       d = applyTickerFromAssets (d\<lparr>tk_identifier := tk_identifier t\<rparr>)
               in io_bind (applySupply env d None) (\<lambda>d. io_return (Some d)))))))"

section \<open>Theorems on the list of tokens\<close>

lemma set_executeWithConcurrencyLimit:
  assumes "executeWithConcurrencyLimit items f n s = (Inr ys, t)" and "\<And>x s y t. x \<in> set items \<Longrightarrow> f x s = (Inr y, t) \<Longrightarrow> Q y"
  shows "\<forall>y \<in> set ys. Q y"
proof -
  from assms(1) obtain yss where yss: "io_mapM (io_all f) (chunks_of (n - 1) items) s = (Inr yss, t)" and ys: "ys = concat yss"
    by (auto simp: executeWithConcurrencyLimit_def io_simps split: prod.splits sum.splits)
  have "\<forall>ys \<in> set yss. \<forall>y \<in> set ys. Q y"
  proof (rule set_io_mapM [OF yss])
    fix c s zs u assume "c \<in> set (chunks_of (n - 1) items)" and run: "io_all f c s = (Inr zs, u)"
    then have "set c \<subseteq> set items" by (metis UN_upper concat_chunks set_concat)
    with assms(2) show "\<forall>y \<in> set zs. Q y" by (intro set_io_all [OF run]) blast
  qed
  then show ?thesis by (auto simp: ys)
qed

definition capped :: "token_detailed \<Rightarrow> bool" where
  "capped t \<longleftrightarrow> (\<forall>m. tk_marketCap t = Some m \<longrightarrow> m \<le> thresholdFaultyMarketCap)"

lemma capped_cut: "capped (cut_market_cap t)"
  by (auto simp: capped_def cut_market_cap_def thresholdFaultyMarketCap_def split: option.splits)

lemma capped_low: "capped (low_liquidity env t) = capped t"
  by (simp add: capped_def low_liquidity_def)

lemma capped_supply: "capped (t\<lparr>tk_supply := a, tk_circulatingSupply := b\<rparr>) = capped t"
  by (simp add: capped_def)

lemma capped_mex_priced: "capped t \<Longrightarrow> mex_priced env price t s = (Inr y, u) \<Longrightarrow> capped y"
  by (auto simp: mex_priced_def io_simps Let_def capped_supply capped_low capped_cut split: prod.splits sum.splits if_splits)

lemma capped_with_supply: "capped t \<Longrightarrow> capped (with_supply env t supply)"
  by (simp add: with_supply_def Let_def capped_cut capped_supply)

lemma capped_source_price:
  assumes "source_price env t s = (Inr y, u)" and "capped t"
  shows "capped y"
  using assms by (auto simp: source_price_def io_simps capped_def split: prod.splits sum.splits if_splits option.splits)

lemma capped_fallback_price:
  assumes "fallback_price env t s = (Inr y, u)" and "capped t"
  shows "capped y"
  using assms by (auto simp: fallback_price_def io_simps capped_def split: prod.splits sum.splits if_splits)

lemma capped_price_and_supply:
  assumes "price_and_supply env t s = (Inr y, u)" and t: "capped t"
  shows "capped y"
  using assms(1) unfolding price_and_supply_def
proof (cases rule: io_catch_InrE)
  case returned
  then obtain t1 s1 t2 s2 where steps: "source_price env t s = (Inr t1, s1)" "fallback_price env t1 s1 = (Inr t2, s2)"
    and rest: "io_catch (io_bind (getEsdtTokenSupply (tv_esdt env) (tk_identifier t2)) (\<lambda>supply. io_return (with_supply env t2 supply)))
      (\<lambda>_. io_return t2) s2 = (Inr y, u)"
    by (elim io_bind_InrE) blast
  then have "capped t2" using t by (blast intro: capped_source_price capped_fallback_price)
  with rest capped_with_supply show ?thesis
    by (auto elim!: io_catch_InrE io_bind_InrE simp: io_return_def)
next
  case (caught e v)
  with t show ?thesis by (simp add: io_return_def)
qed

text \<open>The steps before the prices do not touch the market capitalisation, or cut it.\<close>

lemma capped_batch:
  assumes "batchProcessTokens env tokens s = (Inr ys, t)" and "\<forall>x \<in> set tokens. capped x"
  shows "\<forall>y \<in> set ys. capped y"
proof -
  from assms(1) obtain a b c where ys: "ys = map set_transfers (zip (map set_accounts (zip (map set_transactions (zip tokens a)) b)) c)"
    by (auto simp: batchProcessTokens_def Let_def io_simps res_bind_Inr split: prod.splits sum.splits)
  have "capped (set_transactions (x, r)) = capped x" "capped (set_accounts (x, r)) = capped x" "capped (set_transfers (x, r)) = capped x" for x r
    by (simp_all add: capped_def set_transactions_def set_accounts_def set_transfers_def)
  with assms(2) show ?thesis unfolding ys by (auto dest!: set_zip_leftD)
qed

lemma capped_liquidity: "applyMexLiquidity env tokens s = (Inr ys, t) \<Longrightarrow> \<forall>x \<in> set tokens. capped x \<Longrightarrow> \<forall>y \<in> set ys. capped y"
  by (auto simp: applyMexLiquidity_def io_simps Let_def capped_def split: prod.splits sum.splits if_splits)

lemma capped_pair_type: "applyMexPairType env tokens s = (Inr ys, t) \<Longrightarrow> \<forall>x \<in> set tokens. capped x \<Longrightarrow> \<forall>y \<in> set ys. capped y"
  by (auto simp: applyMexPairType_def io_simps Let_def capped_def split: prod.splits sum.splits if_splits option.splits)

lemma capped_trades: "applyMexPairTradesCount env tokens s = (Inr ys, t) \<Longrightarrow> \<forall>x \<in> set tokens. capped x \<Longrightarrow> \<forall>y \<in> set ys. capped y"
  by (auto simp: applyMexPairTradesCount_def io_simps Let_def capped_def split: prod.splits sum.splits if_splits)

lemma capped_prices:
  assumes "applyMexPrices env tokens s = (Inr ys, t)" and "\<forall>x \<in> set tokens. capped x"
  shows "\<forall>y \<in> set ys. capped y"
proof (cases "tv_mexPrices env s")
  case (Pair r u)
  show ?thesis
  proof (cases r)
    case (Inr prices)
    let ?f = "\<lambda>t. case prices (tk_identifier t) of None \<Rightarrow> io_return t | Some price \<Rightarrow> mex_priced env price t"
    have f: "x \<in> set tokens \<Longrightarrow> ?f x s = (Inr y, t) \<Longrightarrow> capped y" for x s y t
      using assms(2) by (auto simp: io_return_def intro: capped_mex_priced split: option.splits)
    consider (ran) "executeWithConcurrencyLimit tokens ?f 50 u = (Inr ys, t)" | (kept) "ys = tokens"
      using assms(1) Pair Inr by (auto simp: applyMexPrices_def io_simps split: prod.splits sum.splits)
    then show ?thesis
      by cases (use set_executeWithConcurrencyLimit [of tokens ?f 50 u ys t capped] f assms(2) in blast)+
  qed (use assms Pair in \<open>simp add: applyMexPrices_def io_simps\<close>)
qed

lemma capped_mex_data:
  assumes "applyMexData env tokens s = (Inr ys, t)" and "\<forall>x \<in> set tokens. capped x"
  shows "\<forall>y \<in> set ys. capped y"
proof -
  from assms(1) obtain a u b v c w where "applyMexLiquidity env tokens s = (Inr a, u)" "applyMexPrices env a u = (Inr b, v)"
    "applyMexPairType env b v = (Inr c, w)" "applyMexPairTradesCount env c w = (Inr ys, t)"
    by (auto simp: applyMexData_def io_bind_def split: prod.splits sum.splits)
  with assms(2) show ?thesis using capped_liquidity capped_prices capped_pair_type capped_trades by metis
qed

lemma unpriced_tokens:
  "tk_marketCap (fungible_token env A p) = tk_marketCap (tv_mergeProps env p)" "tk_assets (fungible_token env A p) = tk_assets (tv_mergeProps env p)"
  "tk_marketCap (meta_token c) = None" "tk_assets (meta_token c) = None"
  by (simp_all add: fungible_token_def meta_token_def new_token_detailed_def Let_def split: option.splits)

lemma set_put_back: "set (put_back ts changed) \<subseteq> set ts \<union> set changed"
proof (induction ts changed rule: put_back.induct)
  case (2 t ts changed)
  then show ?case by (cases "is_meta t"; cases changed) auto
qed simp

lemma market_cap_bound:
  assumes "getAllTokensRaw env s = (Inr tokens, t)" and "\<not> tv_fetchFromApi env" and "\<forall>p. tk_marketCap (tv_mergeProps env p) = None"
    and "\<forall>cs xs. set (tv_sortedDescending env cs xs) = set xs"
    and "x \<in> set tokens" and "tk_marketCap x = Some m"
  shows "m \<le> thresholdFaultyMarketCap"
proof -
  obtain properties allAssets collections s1 ts1 s2 priced s3 assets s4 ts2 s5 egld where
    batch: "batchProcessTokens env (map (fungible_token env allAssets) properties @ map meta_token collections) s1 = (Inr ts1, s2)"
    and mex: "applyMexData env (filter (\<lambda>t. \<not> is_meta t) ts1) s2 = (Inr priced, s3)"
    and last: "executeWithConcurrencyLimit (map (\<lambda>(t, a). t\<lparr>tk_assets := a\<rparr>) (zip (put_back ts1 priced) assets)) (price_and_supply env) 50 s4 = (Inr ts2, s5)"
    and tokens: "tokens = tv_sortedDescending env list_criteria ts2 @ [egld]" and egld: "tk_marketCap egld = Some 0"
    using assms(1,2) by (auto simp: getAllTokensRaw_def io_bind_def io_return_def Let_def split: prod.splits sum.splits)
  have "\<forall>x \<in> set (map (fungible_token env allAssets) properties @ map meta_token collections). capped x"
    using assms(3) by (auto simp: capped_def unpriced_tokens)
  from capped_batch [OF batch this] have ts1: "\<forall>x \<in> set ts1. capped x" .
  then have "\<forall>x \<in> set (filter (\<lambda>t. \<not> is_meta t) ts1). capped x" by simp
  from capped_mex_data [OF mex this] have "\<forall>x \<in> set priced. capped x" .
  with ts1 have "\<forall>x \<in> set (put_back ts1 priced). capped x" using set_put_back by blast
  then have items: "\<forall>x \<in> set (map (\<lambda>(t, a). t\<lparr>tk_assets := a\<rparr>) (zip (put_back ts1 priced) assets)). capped x"
    by (auto simp: capped_def dest!: set_zip_leftD)
  have "\<forall>x \<in> set ts2. capped x"
    by (rule set_executeWithConcurrencyLimit [OF last]) (rule capped_price_and_supply, assumption, rule bspec [OF items])
  moreover from assms(4,5) tokens have "x \<in> set ts2 \<or> x = egld" by auto
  ultimately show ?thesis using egld assms(6) by (fastforce simp: capped_def thresholdFaultyMarketCap_def)
qed

text \<open>
  C17. When the list of the tokens is put together here, no token of it has a market capitalisation above
  ten thousand million dollars, whatever the prices and supplies that the exchange, the price sources and the gateway give; when the list is fetched
  from another API, it is the list that this one gives.
\<close>

theorem market_caps_bounded:
  assumes "getAllTokensRaw env s = (Inr tokens, t)" and "\<forall>p. tk_marketCap (tv_mergeProps env p) = None"
    and "\<forall>cs xs. set (tv_sortedDescending env cs xs) = set xs"
  shows "if tv_fetchFromApi env then tv_tokensFromApi env s = (Inr tokens, t)
    else \<forall>x \<in> set tokens. \<forall>m. tk_marketCap x = Some m \<longrightarrow> m \<le> 10000000000"
proof (cases "tv_fetchFromApi env")
  case True
  then show ?thesis using assms(1) by (simp add: getAllTokensRaw_def)
next
  case False
  have "m \<le> 10000000000" if "x \<in> set tokens" "tk_marketCap x = Some m" for x m
    using market_cap_bound [OF assms(1) False assms(2,3) that] by (simp add: thresholdFaultyMarketCap_def)
  then show ?thesis using False by simp
qed



section \<open>Theorems on the roles, filters and pages\<close>

text \<open>The entries of the roles of a token are those of the interface of a list of roles.\<close>

interpretation token_role_list: role_collector setTokenRole "\<lambda>a. new_token_roles\<lparr>ro_address := Some a\<rparr>" ro_address upsert_token_role
  by unfold_locales (simp_all add: setTokenRole_def Let_def)

definition token_entry :: "string \<Rightarrow> token_roles list \<Rightarrow> token_roles option" where
  "token_entry a rs = find (\<lambda>r. ro_address r = Some a) rs"

lemma new_token_entry: "fold setTokenRole roles (new_token_roles\<lparr>ro_address := Some a\<rparr>) = roles_of_address a roles"
  by (simp add: fold_setTokenRole roles_of_address_def new_token_roles_def)

text \<open>
  C28. Turned around, the roles of a token give every address that has a role one entry with exactly its roles,
  and the roles that are looked up for one address alone are those of its entry.
\<close>

theorem token_roles_per_address:
  assumes "documented_distinct (ce_distinct (tv_collections env))" and "tv_indexToken env identifier s = (Inr (Some (Some roles)), t)"
  shows "\<exists>rs r. getTokenRoles env identifier s = (Inr (Some rs), t) \<and> getTokenRolesForIdentifierAndAddress env identifier a s = (Inr (Some r), t)
    \<and> distinct (map ro_address rs) \<and> r\<lparr>ro_address := Some a\<rparr> = roles_of_address a (roles_held a roles)
    \<and> token_entry a rs = (if roles_held a roles = [] then None else Some (r\<lparr>ro_address := Some a\<rparr>))"
proof -
  have "roles_of_address a xs\<lparr>ro_address := Some a\<rparr> = roles_of_address a xs" for xs
    by (simp add: roles_of_address_def)
  with assms(2) show ?thesis
    using token_role_list.collected_distinct [of "ce_distinct (tv_collections env)" roles]
    by (simp add: getTokenRoles_def getTokenRolesFromElastic_def getTokenRolesForIdentifierAndAddress_def io_simps token_entry_def
        token_role_list.collected_entry [OF assms(1)] fold_roles_held [OF assms(1)] new_token_entry)
qed

text \<open>What a token has to satisfy, each condition of the filter on its own.\<close>

definition token_matches :: "token_query \<Rightarrow> token_detailed \<Rightarrow> bool" where
  "token_matches f t \<longleftrightarrow> (truthy (kf_type f) \<longrightarrow> Some (tk_type t) = kf_type f)
     \<and> (truthy (kf_subType f) \<longrightarrow> tk_subType t = kf_subType f)
     \<and> (truthy (kf_search f) \<longrightarrow> name_matches (the (kf_search f)) t)
     \<and> (truthy (kf_name f) \<longrightarrow> to_lower (tk_name t) = to_lower (the (kf_name f)))
     \<and> (truthy (kf_identifier f) \<longrightarrow> str_includes (to_lower (tk_identifier t)) (to_lower (the (kf_identifier f))))
     \<and> (kf_identifiers f \<noteq> None \<longrightarrow> to_lower (tk_identifier t) \<in> to_lower ` set (the (kf_identifiers f)))
     \<and> (kf_includeMetaESDT f \<noteq> Some True \<longrightarrow> tk_type t = ''FungibleESDT'')
     \<and> (coalesce (kf_mexPairType f) [] \<noteq> [] \<longrightarrow> tk_mexPairType t \<in> set (coalesce (kf_mexPairType f) []))
     \<and> (truthy (kf_priceSource f) \<longrightarrow> price_source_type t = kf_priceSource f)"

text \<open>\<open>sorted\<close> and \<open>sortedDescending\<close> of the array extension with one criterion.\<close>

definition documented_sort :: "'s tokens_env \<Rightarrow> bool" where
  "documented_sort env \<longleftrightarrow>
     (\<forall>c xs. mset (tv_sorted env c xs) = mset xs \<and> sorted_wrt (\<lambda>x y. c x \<le> c y) (tv_sorted env c xs)) \<and>
     (\<forall>c xs. mset (tv_sortedDescending env [c] xs) = mset xs \<and> sorted_wrt (\<lambda>x y. c x \<ge> c y) (tv_sortedDescending env [c] xs))"

definition in_order :: "sort_order option \<Rightarrow> (token_detailed \<Rightarrow> rat) \<Rightarrow> token_detailed list \<Rightarrow> bool" where
  "in_order order c ts \<longleftrightarrow> (if order = Some Sort_asc then sorted_wrt (\<lambda>x y. c x \<le> c y) ts else sorted_wrt (\<lambda>x y. c x \<ge> c y) ts)"

lemma in_order_filter: "in_order order c ts \<Longrightarrow> in_order order c (filter P ts)"
  by (simp add: in_order_def sorted_wrt_filter)

lemma sortTokens_order:
  assumes "documented_sort env" and "sortTokens env ts field (coalesce order Sort_desc) = Inr us"
  shows "mset us = mset ts \<and> (\<exists>c. sort_criteria field = Inr c \<and> in_order order c us)"
  using assms by (cases order rule: option.exhaust; cases "the order")
    (auto simp: sortTokens_def res_bind_Inr documented_sort_def in_order_def)


lemma filter_if: "(if b then filter P xs else xs) = filter (\<lambda>x. b \<longrightarrow> P x) xs"
  by simp

lemma filter_case: "(case v of None \<Rightarrow> xs | Some y \<Rightarrow> filter (P y) xs) = filter (\<lambda>x. v \<noteq> None \<longrightarrow> P (the v) x) xs"
  by (cases v) auto

lemma subtype_filter_Inr:
  assumes "(if truthy v then subtype_filter (the v) ts else Inr ts) = Inr us"
  shows "us = filter (\<lambda>t. truthy v \<longrightarrow> tk_subType t = v) ts"
  using assms by (cases v) (auto simp: subtype_filter_def split: if_splits)

definition before_sort :: "token_query \<Rightarrow> token_detailed \<Rightarrow> bool" where
  "before_sort f t \<longleftrightarrow> (truthy (kf_type f) \<longrightarrow> Some (tk_type t) = kf_type f)
     \<and> (truthy (kf_subType f) \<longrightarrow> tk_subType t = kf_subType f)
     \<and> (truthy (kf_search f) \<longrightarrow> name_matches (the (kf_search f)) t)
     \<and> (truthy (kf_name f) \<longrightarrow> to_lower (tk_name t) = to_lower (the (kf_name f)))
     \<and> (truthy (kf_identifier f) \<longrightarrow> str_includes (to_lower (tk_identifier t)) (to_lower (the (kf_identifier f))))
     \<and> (kf_identifiers f \<noteq> None \<longrightarrow> to_lower (tk_identifier t) \<in> to_lower ` set (the (kf_identifiers f)))
     \<and> (kf_includeMetaESDT f \<noteq> Some True \<longrightarrow> tk_type t = ''FungibleESDT'')"

definition after_sort :: "token_query \<Rightarrow> token_detailed \<Rightarrow> bool" where
  "after_sort f t \<longleftrightarrow> (coalesce (kf_mexPairType f) [] \<noteq> [] \<longrightarrow> tk_mexPairType t \<in> set (coalesce (kf_mexPairType f) []))
     \<and> (truthy (kf_priceSource f) \<longrightarrow> price_source_type t = kf_priceSource f)"

lemma token_matches_split: "token_matches f t \<longleftrightarrow> before_sort f t \<and> after_sort f t"
  by (simp add: token_matches_def before_sort_def after_sort_def)

text \<open>The filters before and after the sorting are each one filter.\<close>

lemma filter_tokens_Inr:
  assumes "filter_tokens env f ts = Inr us"
  obtains vs where "us = filter (after_sort f) vs"
    "(case kf_sort f of None \<Rightarrow> Inr (filter (before_sort f) ts) | Some field \<Rightarrow> sortTokens env (filter (before_sort f) ts) field (coalesce (kf_order f) Sort_desc)) = Inr vs"
proof -
  from assms obtain xs ys vs where xs: "(if truthy (kf_subType f) then subtype_filter (the (kf_subType f)) (filter (\<lambda>t. truthy (kf_type f) \<longrightarrow> Some (tk_type t) = kf_type f) ts)
        else Inr (filter (\<lambda>t. truthy (kf_type f) \<longrightarrow> Some (tk_type t) = kf_type f) ts)) = Inr xs"
    and ys: "ys = filter (\<lambda>t. kf_includeMetaESDT f \<noteq> Some True \<longrightarrow> tk_type t = ''FungibleESDT'')
          (filter (\<lambda>t. kf_identifiers f \<noteq> None \<longrightarrow> to_lower (tk_identifier t) \<in> set (map to_lower (the (kf_identifiers f))))
          (filter (\<lambda>t. truthy (kf_identifier f) \<longrightarrow> str_includes (to_lower (tk_identifier t)) (to_lower (the (kf_identifier f))))
          (filter (\<lambda>t. truthy (kf_name f) \<longrightarrow> to_lower (tk_name t) = to_lower (the (kf_name f)))
          (filter (\<lambda>t. truthy (kf_search f) \<longrightarrow> name_matches (the (kf_search f)) t) xs))))"
    and vs: "(case kf_sort f of None \<Rightarrow> Inr ys | Some field \<Rightarrow> sortTokens env ys field (coalesce (kf_order f) Sort_desc)) = Inr vs"
    and us: "us = filter (\<lambda>t. truthy (kf_priceSource f) \<longrightarrow> price_source_type t = kf_priceSource f)
        (filter (\<lambda>t. coalesce (kf_mexPairType f) [] \<noteq> [] \<longrightarrow> tk_mexPairType t \<in> set (coalesce (kf_mexPairType f) [])) vs)"
    unfolding filter_tokens_def Let_def filter_if filter_case res_bind_Inr by blast
  have "us = filter (after_sort f) vs" unfolding us filter_filter by (rule filter_cong) (auto simp: after_sort_def)
  moreover have "ys = filter (before_sort f) ts"
    unfolding ys subtype_filter_Inr [OF xs] filter_filter by (rule filter_cong) (auto simp: before_sort_def)
  ultimately show ?thesis using vs that by blast
qed


text \<open>
  C12. The filtered tokens are exactly those that satisfy every condition of the filter, each as often as it is
  in the list; they are in the order of the criterion when the filter sorts, and in that of the list when not.
\<close>

theorem filtered_tokens_spec:
  assumes "documented_sort env" and "getAllTokens env s = (Inr ts, t)" and "getFilteredTokens env f s = (Inr us, u)"
  shows "u = t \<and> mset us = filter_mset (token_matches f) (mset ts)
    \<and> (case kf_sort f of None \<Rightarrow> us = filter (token_matches f) ts | Some field \<Rightarrow> \<exists>c. sort_criteria field = Inr c \<and> in_order (kf_order f) c us)"
proof -
  from assms(2,3) have filtered: "filter_tokens env f ts = Inr us" and "u = t"
    by (auto simp: getFilteredTokens_def io_simps)
  from filter_tokens_Inr [OF filtered] obtain vs where us: "us = filter (after_sort f) vs"
    and vs: "(case kf_sort f of None \<Rightarrow> Inr (filter (before_sort f) ts) | Some field \<Rightarrow> sortTokens env (filter (before_sort f) ts) field (coalesce (kf_order f) Sort_desc)) = Inr vs" .
  have matches: "token_matches f = (\<lambda>x. before_sort f x \<and> after_sort f x)" by (simp add: fun_eq_iff token_matches_split)
  show ?thesis
  proof (cases "kf_sort f")
    case None
    with vs have "vs = filter (before_sort f) ts" by simp
    with None show ?thesis by (simp add: us matches \<open>u = t\<close>)
  next
    case (Some field)
    with vs sortTokens_order [OF assms(1)] obtain c where "mset vs = mset (filter (before_sort f) ts)" "sort_criteria field = Inr c" "in_order (kf_order f) c vs"
      by fastforce
    with Some show ?thesis by (auto simp: us matches \<open>u = t\<close> in_order_filter filter_filter_mset conj_commute)
  qed
qed

text \<open>Pages that follow each other make up the list.\<close>

definition nth_page :: "nat \<Rightarrow> nat \<Rightarrow> query_pagination" where
  "nth_page n i = \<lparr>qp_from = int (i * n), qp_size = int n, qp_before = None, qp_after = None\<rparr>"

lemma slices_concat: "concat (map (\<lambda>i. tokens_slice (nth_page n i) xs) [0..<k]) = take (k * n) xs"
proof (induction k)
  case (Suc k)
  have "take (Suc k * n) xs = take (k * n) xs @ take n (drop (k * n) xs)" by (simp add: take_add [symmetric] add.commute)
  then show ?case using Suc.IH by (simp add: tokens_slice_def nth_page_def nat_mult_distrib)
qed simp

lemma ticker_keeps_identifier [simp]: "tk_identifier (applyTickerFromAssets t) = tk_identifier t"
  by (simp add: applyTickerFromAssets_def)

text \<open>
  C35. The pages of the tokens, one after the other, give every filtered token once but for the entry of the
  EGLD; the count counts that entry, and the page it would be on is one shorter.
\<close>

theorem token_pages_and_count:
  assumes "getFilteredTokens env f s = (Inr ts, t)" and "length ts \<le> k * n"
  shows "\<exists>page. (\<forall>i < k. tokensPage env (nth_page n i) f s = (Inr (page i), t))
    \<and> concat (map page [0..<k]) = map applyTickerFromAssets (filter (\<lambda>t. tk_identifier t \<noteq> egldIdentifierInMultiTransfer) ts)
    \<and> tokenCount env f s = (Inr (length (concat (map page [0..<k])) + length (filter (\<lambda>t. tk_identifier t = egldIdentifierInMultiTransfer) ts)), t)"
proof -
  let ?page = "\<lambda>i. filter (\<lambda>t. tk_identifier t \<noteq> egldIdentifierInMultiTransfer) (map applyTickerFromAssets (tokens_slice (nth_page n i) ts))"
  have "concat (map ?page [0..<k]) = filter (\<lambda>t. tk_identifier t \<noteq> egldIdentifierInMultiTransfer)
      (map applyTickerFromAssets (concat (map (\<lambda>i. tokens_slice (nth_page n i) ts) [0..<k])))"
    by (simp add: filter_concat map_concat comp_def)
  also have "\<dots> = map applyTickerFromAssets (filter (\<lambda>t. tk_identifier t \<noteq> egldIdentifierInMultiTransfer) ts)"
    using assms(2) by (simp add: slices_concat filter_map comp_def)
  finally have pages: "concat (map ?page [0..<k]) = map applyTickerFromAssets (filter (\<lambda>t. tk_identifier t \<noteq> egldIdentifierInMultiTransfer) ts)" .
  have "length ts = length (filter (\<lambda>t. tk_identifier t \<noteq> egldIdentifierInMultiTransfer) ts) + length (filter (\<lambda>t. tk_identifier t = egldIdentifierInMultiTransfer) ts)"
    using sum_length_filter_compl [of "\<lambda>t. tk_identifier t \<noteq> egldIdentifierInMultiTransfer" ts] by simp
  with assms(1) pages show ?thesis
    by (intro exI [of _ ?page]) (simp add: tokensPage_def tokenCount_def io_simps)
qed

text \<open>\<open>batchApplyAll\<close>: what it gives depends on the getter only at the elements of the list.\<close>

definition documented_batch :: "'s tokens_env \<Rightarrow> bool" where
  "documented_batch env \<longleftrightarrow> (\<forall>ts key get1 get2 ttl. (\<forall>t \<in> set ts. get1 t = get2 t) \<longrightarrow> tv_batchCounts env ts key get1 ttl = tv_batchCounts env ts key get2 ttl)"

definition first_only :: "'s tokens_env \<Rightarrow> 's tokens_env" where
  "first_only env = env\<lparr>tv_transactionCount := \<lambda>ids. tv_transactionCount env (take 1 ids), tv_transfersCount := \<lambda>ids. tv_transfersCount env (take 1 ids)\<rparr>"

lemma first_only_selectors [simp]:
  "tv_consts (first_only env) = tv_consts env" "tv_esdt (first_only env) = tv_esdt env" "tv_assets (first_only env) = tv_assets env"
  "tv_fetchFromApi (first_only env) = tv_fetchFromApi env" "tv_tokensFromApi (first_only env) = tv_tokensFromApi env"
  "tv_collections (first_only env) = tv_collections env" "tv_batchCounts (first_only env) = tv_batchCounts env"
  "tv_batchAssets (first_only env) = tv_batchAssets env" "tv_mexPairs (first_only env) = tv_mexPairs env" "tv_mexPrices (first_only env) = tv_mexPrices env"
  "tv_mexTokenTypes (first_only env) = tv_mexTokenTypes env" "tv_fl (first_only env) = tv_fl env" "tv_sum (first_only env) = tv_sum env"
  "tv_denominateString (first_only env) = tv_denominateString env" "tv_dataApiPrice (first_only env) = tv_dataApiPrice env"
  "tv_httpGet (first_only env) = tv_httpGet env" "tv_headersForUrl (first_only env) = tv_headersForUrl env" "tv_price_of (first_only env) = tv_price_of env"
  "tv_egldPrice (first_only env) = tv_egldPrice env" "tv_sortedDescending (first_only env) = tv_sortedDescending env" "tv_now (first_only env) = tv_now env"
  "tv_mergeProps (first_only env) = tv_mergeProps env" "tv_accountsExtra (first_only env) = tv_accountsExtra env" "tv_esdtAccountsCount (first_only env) = tv_esdtAccountsCount env"
  by (simp_all add: first_only_def)

lemma first_only_steps:
  "counted (first_only env) = counted env" "getTotalAccounts (first_only env) = getTotalAccounts env" "mex_priced (first_only env) = mex_priced env"
  "source_price (first_only env) = source_price env" "fallback_price (first_only env) = fallback_price env" "with_supply (first_only env) = with_supply env"
  "fungible_token (first_only env) = fungible_token env"
  by (simp_all add: fun_eq_iff counted_def getTotalAccounts_def esdtAccountsCount_def mex_priced_def adjusted_price_def low_liquidity_def Let_def source_price_def
      fetchTokenDataFromUrl_def fallback_price_def with_supply_def fungible_token_def cong: option.case_cong if_cong)

lemma first_only_later:
  "applyMexData (first_only env) = applyMexData env" "price_and_supply (first_only env) = price_and_supply env"
  unfolding fun_eq_iff applyMexData_def applyMexLiquidity_def applyMexPrices_def applyMexPairType_def applyMexPairTradesCount_def
      price_and_supply_def first_only_steps first_only_selectors by (rule refl | intro allI conjI)+

lemma first_only_batch:
  assumes "documented_batch env" and "\<forall>t \<in> set ts. tk_assets t = None"
  shows "batchProcessTokens (first_only env) ts = batchProcessTokens env ts"
proof -
  have same: "getTotalTransactions (first_only env) t = getTotalTransactions env t" "getTotalTransfers (first_only env) t = getTotalTransfers env t" if "t \<in> set ts" for t
    using assms(2) that by (simp_all add: getTotalTransactions_def getTotalTransfers_def first_only_steps) (simp_all add: first_only_def extra_tokens_def)
  with assms(1) have "tv_batchCounts env ts key (getTotalTransactions (first_only env)) ttl = tv_batchCounts env ts key (getTotalTransactions env) ttl"
      "tv_batchCounts env ts key (getTotalTransfers (first_only env)) ttl = tv_batchCounts env ts key (getTotalTransfers env) ttl" for key ttl
    unfolding documented_batch_def by blast+
  then show ?thesis by (simp add: batchProcessTokens_def Let_def first_only_steps)
qed

text \<open>
  The transactions and transfers of a token are counted for its own identifier only: the list of all tokens
  is the same when the extra tokens of the assets are left out of every count, since the assets are set after
  the counts are taken.
\<close>

theorem extra_tokens_ignored:
  assumes "documented_batch env" and "\<forall>p. tk_assets (tv_mergeProps env p) = None"
  shows "getAllTokensRaw (first_only env) = getAllTokensRaw env"
proof -
  have "batchProcessTokens (first_only env) (map (fungible_token env A) ps @ map meta_token cs) = batchProcessTokens env (map (fungible_token env A) ps @ map meta_token cs)"
    for A ps cs using assms(2) by (intro first_only_batch [OF assms(1)]) (auto simp: unpriced_tokens)
  then show ?thesis by (simp add: getAllTokensRaw_def first_only_later first_only_steps)
qed

section \<open>Witnesses\<close>

definition sample_role :: address_token_roles where
  "sample_role = \<lparr>ar_canLocalMint = None, ar_canLocalBurn = None, ar_canAddQuantity = None, ar_canAddUri = None, ar_canCreate = None, ar_canBurn = None,
     ar_canUpdateAttributes = None, ar_canTransfer = None, ar_roles = []\<rparr>"

definition sample_merged_roles :: "token_detailed \<Rightarrow> token_with_roles" where
  "sample_merged_roles t = token.extend (token.truncate t) (token_with_roles.fields sample_role None None None None None None False)"

definition sample_listed_token :: "string \<Rightarrow> token_detailed" where
  "sample_listed_token identifier = new_token_detailed\<lparr>tk_identifier := identifier, tk_price := Some (of_nat (length identifier))\<rparr>"

definition sample_tokens_env :: "(string \<Rightarrow> string set) tokens_env" where
  "sample_tokens_env = \<lparr>tv_consts = qe_consts sample_esdt_env,
     tv_esdt = sample_esdt_env\<lparr>qe_fromGateway := True, qe_getEsdtFungibleTokens := io_return [''A'', ''B''],
       qe_batchProcess := \<lambda>_ _ _ _. io_return [Some (sample_props\<lparr>pr_identifier := ''A''\<rparr>), Some (sample_props\<lparr>pr_identifier := ''B''\<rparr>)],
       qe_getEsdtSupply := \<lambda>_. io_return \<lparr>gs_supply = ''10'', gs_minted = ''0'', gs_burned = ''0'', gs_initialMinted = ''0''\<rparr>\<rparr>,
     tv_assets = sample_assets_env, tv_collections = sample_collection_env\<lparr>ce_getNftCollections := \<lambda>_ _ _. io_return []\<rparr>,
     tv_addresses = sample_esdt_address_env, tv_fetchFromApi = False, tv_tokensFromApi = io_return [],
     tv_getOrSetTokens = \<lambda>_ _ _. io_return [sample_listed_token ''ALPHA-1'', sample_listed_token ''BETA-1'', sample_listed_token egldIdentifierInMultiTransfer],
     tv_getOrSetMarketCap = \<lambda>_ m _. m, tv_isToken = \<lambda>_. True, tv_isNft = \<lambda>_. False,
     tv_sorted = sort_key, tv_sortedDescending = \<lambda>cs xs. (case cs of [c] \<Rightarrow> rev (sort_key c xs) | _ \<Rightarrow> xs), tv_sortedAccounts = id,
     tv_fl = id, tv_sum = sum_list, tv_denominateString = \<lambda>_ _. 10 ^ 10, tv_denominate = \<lambda>n _. of_int n, tv_toFixed = \<lambda>_. ''0'',
     tv_indexTokens = \<lambda>_ _ _. io_return [], tv_indexTokenCount = \<lambda>_ _. io_return 0,
     tv_indexToken = \<lambda>_. io_return (Some (Some [(''ESDTRoleLocalMint'', [''a'', ''b'']), (''ESDTRoleLocalBurn'', [''b''])])),
     tv_indexTokensWithRoles = \<lambda>_ _ _. io_return [], tv_indexTokensWithRolesCount = \<lambda>_ _. io_return 0,
     tv_indexTokenAccounts = \<lambda>_ _. io_return [], tv_indexTokenAccountsCount = \<lambda>_. io_return 0, tv_esdtAccountsCount = \<lambda>_. io_return 4,
     tv_accountsExtra = \<lambda>_. io_return None, tv_transactionCount = \<lambda>is. io_return (int (length is)), tv_transfersCount = \<lambda>is. io_return (int (length is)),
     tv_now = \<lambda>_. 7, tv_batchCounts = \<lambda>ts _ get _. io_mapM get ts, tv_batchAssets = \<lambda>ts _ get _. io_mapM get ts,
     tv_mexPairs = io_return [], tv_mexTokenTypes = io_return [], tv_mexPrices = io_return (\<lambda>_. None),
     tv_dataApiPrice = \<lambda>i. io_return (Some (if i = ''A'' then 2 else 1 / 2)), tv_egldPrice = io_return (Some 40), tv_headersForUrl = \<lambda>_. None,
     tv_httpGet = \<lambda>_ _. io_return None, tv_price_of = \<lambda>_. 0, tv_addressNft = \<lambda>_ _. io_return None, tv_addressEsdt = \<lambda>_ _. io_return None,
     tv_mergeProps = \<lambda>p. new_token_detailed\<lparr>tk_identifier := pr_identifier p, tk_name := pr_name p\<rparr>, tv_mergeRoles = sample_merged_roles\<rparr>"

theorem token_roles_per_address_witness:
  "\<exists>rs. getTokenRoles sample_tokens_env ''A-1'' (\<lambda>_. {}) = (Inr (Some rs), \<lambda>_. {})
    \<and> token_entry ''b'' rs = Some (roles_of_address ''b'' [''ESDTRoleLocalMint'', ''ESDTRoleLocalBurn''])"
proof -
  have d: "documented_distinct (ce_distinct (tv_collections sample_tokens_env))"
    by (simp add: documented_distinct_def sample_tokens_env_def sample_collection_env_def)
  have index: "tv_indexToken sample_tokens_env ''A-1'' (\<lambda>_. {}) = (Inr (Some (Some [(''ESDTRoleLocalMint'', [''a'', ''b'']), (''ESDTRoleLocalBurn'', [''b''])])), \<lambda>_. {})"
    by (simp add: sample_tokens_env_def io_return_def)
  from token_roles_per_address [OF d index, of "''b''"] show ?thesis by auto
qed

lemma sample_list: "getAllTokens sample_tokens_env s = (Inr [sample_listed_token ''ALPHA-1'', sample_listed_token ''BETA-1'', sample_listed_token egldIdentifierInMultiTransfer], s)"
  by (simp add: getAllTokens_def sample_tokens_env_def Let_def io_return_def)

lemma sample_unfiltered: "getFilteredTokens sample_tokens_env no_token_filter s
    = (Inr [sample_listed_token ''ALPHA-1'', sample_listed_token ''BETA-1'', sample_listed_token egldIdentifierInMultiTransfer], s)"
  by (simp add: getFilteredTokens_def filter_tokens_def no_token_filter_def io_simps sample_list Let_def sample_listed_token_def new_token_detailed_def)

theorem token_pages_and_count_witness:
  "tokenCount sample_tokens_env no_token_filter (\<lambda>_. {}) = (Inr 3, \<lambda>_. {})
    \<and> (\<exists>a b. tokensPage sample_tokens_env (nth_page 2 0) no_token_filter (\<lambda>_. {}) = (Inr a, \<lambda>_. {})
      \<and> tokensPage sample_tokens_env (nth_page 2 1) no_token_filter (\<lambda>_. {}) = (Inr b, \<lambda>_. {}) \<and> length (a @ b) = 2)"
proof -
  have le: "length [sample_listed_token ''ALPHA-1'', sample_listed_token ''BETA-1'', sample_listed_token egldIdentifierInMultiTransfer] \<le> 2 * 2" by simp
  from token_pages_and_count [OF sample_unfiltered [of "\<lambda>_. {}"] le] obtain page where pages: "\<forall>i < 2. tokensPage sample_tokens_env (nth_page 2 i) no_token_filter (\<lambda>_. {}) = (Inr (page i), \<lambda>_. {})"
    and all: "concat (map page [0..<2]) = map applyTickerFromAssets (filter (\<lambda>t. tk_identifier t \<noteq> egldIdentifierInMultiTransfer)
        [sample_listed_token ''ALPHA-1'', sample_listed_token ''BETA-1'', sample_listed_token egldIdentifierInMultiTransfer])"
    and "tokenCount sample_tokens_env no_token_filter (\<lambda>_. {}) = (Inr (length (concat (map page [0..<2])) + length (filter (\<lambda>t. tk_identifier t = egldIdentifierInMultiTransfer)
        [sample_listed_token ''ALPHA-1'', sample_listed_token ''BETA-1'', sample_listed_token egldIdentifierInMultiTransfer])), \<lambda>_. {})"
    by blast
  then have count: "tokenCount sample_tokens_env no_token_filter (\<lambda>_. {}) = (Inr 3, \<lambda>_. {})"
    by (simp add: sample_listed_token_def egldIdentifierInMultiTransfer_def)
  have upto: "concat (map page [0..<2]) = page 0 @ page 1" by (simp add: upt_rec)
  have two: "length (page 0 @ page 1) = 2"
    unfolding upto [symmetric] all by (simp add: sample_listed_token_def egldIdentifierInMultiTransfer_def)
  have "tokensPage sample_tokens_env (nth_page 2 0) no_token_filter (\<lambda>_. {}) = (Inr (page 0), \<lambda>_. {})"
    "tokensPage sample_tokens_env (nth_page 2 1) no_token_filter (\<lambda>_. {}) = (Inr (page 1), \<lambda>_. {})"
    using pages by simp_all
  with count two show ?thesis by blast
qed

theorem filtered_tokens_spec_witness:
  "\<exists>us. getFilteredTokens sample_tokens_env (no_token_filter\<lparr>kf_search := Some ''a-1'', kf_sort := Some TSort_price, kf_order := Some Sort_asc\<rparr>) (\<lambda>_. {}) = (Inr us, \<lambda>_. {})
    \<and> mset us = mset [sample_listed_token ''ALPHA-1'', sample_listed_token ''BETA-1''] \<and> in_order (Some Sort_asc) (\<lambda>t. coalesce (tk_price t) 0) us"
proof -
  let ?f = "no_token_filter\<lparr>kf_search := Some ''a-1'', kf_sort := Some TSort_price, kf_order := Some Sort_asc\<rparr>"
  have law: "documented_sort sample_tokens_env"
    by (auto simp: documented_sort_def sample_tokens_env_def sorted_wrt_rev) (metis (no_types) sorted_map sorted_sort_key)+
  obtain us where us: "getFilteredTokens sample_tokens_env ?f (\<lambda>_. {}) = (Inr us, \<lambda>_. {})"
    by (simp add: getFilteredTokens_def filter_tokens_def no_token_filter_def io_simps sample_list sortTokens_def sort_criteria_def)
  have "name_matches ''a-1'' (sample_listed_token ''ALPHA-1'')" "name_matches ''a-1'' (sample_listed_token ''BETA-1'')"
      "\<not> name_matches ''a-1'' (sample_listed_token egldIdentifierInMultiTransfer)"
    by code_simp+
  then have "filter_mset (token_matches ?f) (mset [sample_listed_token ''ALPHA-1'', sample_listed_token ''BETA-1'', sample_listed_token egldIdentifierInMultiTransfer])
      = mset [sample_listed_token ''ALPHA-1'', sample_listed_token ''BETA-1'']"
    by (simp add: token_matches_def no_token_filter_def sample_listed_token_def new_token_detailed_def)
  with filtered_tokens_spec [OF law sample_list us] us show ?thesis
    by (auto simp: no_token_filter_def sort_criteria_def)
qed

lemma sample_laws: "documented_batch sample_tokens_env" "tk_assets (tv_mergeProps sample_tokens_env p) = None" "tk_marketCap (tv_mergeProps sample_tokens_env p) = None"
proof -
  have "io_mapM f xs = io_mapM g xs" if "\<forall>x \<in> set xs. f x = g x" for f g :: "token_detailed \<Rightarrow> (string \<Rightarrow> string set, (int \<times> int) option) io" and xs
    using that by (induction xs) auto
  then show "documented_batch sample_tokens_env" by (simp add: documented_batch_def sample_tokens_env_def)
qed (simp_all add: sample_tokens_env_def new_token_detailed_def)

theorem extra_tokens_ignored_witness: "getAllTokensRaw (first_only sample_tokens_env) = getAllTokensRaw sample_tokens_env"
  by (rule extra_tokens_ignored) (simp_all add: sample_laws)

theorem market_caps_bounded_witness:
  "\<exists>tokens. getAllTokensRaw sample_tokens_env (\<lambda>_. {}) = (Inr tokens, \<lambda>_. {}) \<and> length tokens = 3
    \<and> (\<forall>m \<in> set (map (\<lambda>t. coalesce (tk_marketCap t) 0) tokens). m \<le> 10000000000)"
proof -
  let ?p = "\<lambda>i. sample_props\<lparr>pr_identifier := i\<rparr>"
  have properties: "getAllFungibleTokenProperties (tv_esdt sample_tokens_env) = io_return [?p ''A'', ?p ''B'']"
    by (simp add: getAllFungibleTokenProperties_def getAllFungibleTokenPropertiesFromGateway_def sample_tokens_env_def io_simps fun_eq_iff)
  have assets: "getAllTokenAssets (tv_assets sample_tokens_env) = io_return Map.empty"
    by (simp add: getAllTokenAssets_def getAllTokenAssetsRaw_def sample_tokens_env_def sample_assets_env_def write_all_def Let_def)
  have no_assets: "getTokenAssets (tv_assets sample_tokens_env) i = io_return None" for i
    by (simp add: getTokenAssets_def assets)
  have collections: "nftCollections (tv_collections sample_tokens_env) q f = io_return []" for q f
    by (simp add: nftCollections_def processNftCollections_def applyPropertiesToCollections_def batchGetCollectionsProperties_def
        batchGetCollectionsAssets_def esdtPropertiesOf_def collectionPropertiesOf_def sample_tokens_env_def sample_collection_env_def sample_esdt_env_def
        sample_assets_env_def getAllTokenAssets_def getAllTokenAssetsRaw_def write_all_def Let_def io_simps fun_eq_iff)
  let ?env = "sample_tokens_env"
  have one: "tk_assets t = None \<Longrightarrow> getTotalTransactions ?env t = io_return (Some (1, 7))" "tk_assets t = None \<Longrightarrow> getTotalTransfers ?env t = io_return (Some (1, 7))"
    "getTotalAccounts ?env t = io_return (Some (4, 7))" for t
    by (simp_all add: fun_eq_iff getTotalTransactions_def getTotalTransfers_def getTotalAccounts_def esdtAccountsCount_def extra_tokens_def counted_def
        sample_tokens_env_def io_simps)
  have counts: "tv_batchCounts ?env ts key get ttl = io_mapM get ts" for ts key get ttl by (simp add: sample_tokens_env_def)
  have batch: "batchProcessTokens ?env [x, y] = io_return (map (\<lambda>t. t\<lparr>tk_transactions := Some 1, tk_transactionsLastUpdatedAt := Some 7, tk_accounts := Some 4,
      tk_accountsLastUpdatedAt := Some 7, tk_transfers := Some 1, tk_transfersLastUpdatedAt := Some 7\<rparr>) [x, y])"
    if "tk_assets x = None" "tk_assets y = None" for x y
    using that by (simp add: batchProcessTokens_def fun_eq_iff Let_def counts one set_transactions_def set_accounts_def set_transfers_def io_simps)
  have mex: "applyMexData ?env [x, y] = io_return [x, y]" for x y
    by (simp add: applyMexData_def applyMexLiquidity_def applyMexPrices_def applyMexPairType_def applyMexPairTradesCount_def pairs_of_def
        executeWithConcurrencyLimit_def sample_tokens_env_def io_simps Let_def fun_eq_iff)
  have "length (split_on CHR ''-'' ''A'') = 1" "length (split_on CHR ''-'' ''B'') = 1" by code_simp+
  then have supplied: "getEsdtTokenSupply (tv_esdt ?env) i = io_return \<lparr>es_totalSupply = ''10'', es_circulatingSupply = ''10'', es_minted = ''0'', es_burned = ''0'',
      es_initialMinted = ''0'', es_lockedAccounts = None\<rparr>" if "i = ''A'' \<or> i = ''B''" for i
    using that by (auto simp: getEsdtTokenSupply_def sample_tokens_env_def sample_esdt_env_def Let_def)
  have parts: "tv_dataApiPrice ?env i = io_return (Some (if i = ''A'' then 2 else 1 / 2))" "tv_fl ?env = id" "tv_denominateString ?env = (\<lambda>_ _. 10 ^ 10)" for i
    by (simp_all add: sample_tokens_env_def)
  define priced where "priced p t = t\<lparr>tk_price := Some p, tk_supply := Some (Supply_text ''10''), tk_circulatingSupply := Some (Supply_text ''10''),
      tk_marketCap := Some (if p = 2 then 0 else p * 10 ^ 10)\<rparr>" for p and t :: token_detailed
  have step: "price_and_supply ?env t = io_return (priced (if tk_identifier t = ''A'' then 2 else 1 / 2) t)"
    if "tk_assets t = None" "tk_price t = None" "tk_type t = ''FungibleESDT''" "tk_identifier t \<in> {''A'', ''B''}" for t
    using that by (auto simp: price_and_supply_def source_price_def fallback_price_def price_source_type_def supplied with_supply_def cut_market_cap_def
        thresholdFaultyMarketCap_def priced_def rat_truthy_def parts io_simps fun_eq_iff Let_def)
  have fungible: "fungible_token ?env Map.empty (?p i) = new_token_detailed\<lparr>tk_identifier := i, tk_name := ''C''\<rparr>" for i
    by (simp add: fungible_token_def sample_tokens_env_def sample_props_def new_token_detailed_def)
  have fetched: "tv_fetchFromApi ?env = False" "tv_egldPrice ?env = io_return (Some 40)" "tv_batchAssets ?env ts key get ttl = io_mapM get ts"
    "tv_sortedDescending ?env list_criteria ts = ts" for ts key get ttl
    by (simp_all add: sample_tokens_env_def list_criteria_def)
  have run: "\<exists>tokens. getAllTokensRaw ?env s = (Inr tokens, s) \<and> length tokens = 3" for s
    by (simp add: getAllTokensRaw_def properties collections Let_def assets fungible fetched batch mex is_meta_def no_assets step executeWithConcurrencyLimit_def
        new_token_detailed_def io_simps)
  then obtain tokens where tokens: "getAllTokensRaw ?env (\<lambda>_. {}) = (Inr tokens, \<lambda>_. {})" "length tokens = 3" by blast
  have sets: "\<forall>cs xs. set (tv_sortedDescending ?env cs xs) = set xs" by (simp add: sample_tokens_env_def split: list.split)
  have "coalesce (tk_marketCap t) 0 \<le> 10000000000" if "t \<in> set tokens" for t
  proof (cases "tk_marketCap t")
    case (Some m)
    with market_caps_bounded [OF tokens(1) _ sets] that show ?thesis
      by (simp add: fetched sample_laws)
  qed simp
  with tokens show ?thesis by auto
qed

end
