(* ===== verification/Accounts.thy ===== *)
theory Accounts imports Providers Usernames Assets ElasticQueries Esdts begin

text \<open>
  Accounts (\<open>src/endpoints/accounts/account.service.ts\<close>, \<open>src/endpoints/keys/keys.service.ts\<close> and the
  entities): one account with what the gateway, the index, the verifier, the assets and the plugins know of
  it; pages of accounts; the keys of a staking account with their rewards, queue and unbonding; deployed
  contracts, upgrades and histories.
\<close>

section \<open>Data\<close>

record account =
  av_address :: string
  av_balance :: string
  av_nonce :: int
  av_timestampMs :: int
  av_timestamp :: int
  av_shard :: int
  av_ownerAddress :: "string option"
  av_assets :: "account_assets option"
  av_deployedAt :: "int option"
  av_deployTxHash :: "string option"
  av_ownerAssets :: "account_assets option"
  av_isVerified :: "bool option"
  av_txCount :: "int option"
  av_scrCount :: "int option"
  av_transfersLast24h :: "int option"

text \<open>The members that services outside fill (collections, NFTs, scam) are left out: they stay \<open>undefined\<close>.\<close>

record account_detailed = account +
  av_code :: string
  av_codeHash :: string
  av_rootHash :: string
  av_username :: "string option"
  av_developerReward :: string
  av_isUpgradeable :: "bool option"
  av_isReadable :: "bool option"
  av_isPayable :: "bool option"
  av_isPayableBySmartContract :: "bool option"
  av_activeGuardianActivationEpoch :: "int option"
  av_activeGuardianAddress :: "string option"
  av_activeGuardianServiceUid :: "string option"
  av_pendingGuardianActivationEpoch :: "int option"
  av_pendingGuardianAddress :: "string option"
  av_pendingGuardianServiceUid :: "string option"
  av_isGuarded :: "bool option"

text \<open>The account as the gateway gives it, the attributes that its code metadata encode, and guardians.\<close>

record gateway_account =
  gw_nonce :: int
  gw_balance :: string
  gw_code :: string
  gw_codeHash :: string
  gw_rootHash :: string
  gw_developerReward :: string
  gw_ownerAddress :: string
  gw_codeMetadata :: "string option"

record code_attributes =
  at_isUpgradeable :: bool
  at_isReadable :: bool
  at_isPayable :: bool
  at_isPayableBySmartContract :: bool

record guardian =
  gu_activationEpoch :: "int option"
  gu_address :: "string option"
  gu_serviceUID :: "string option"

record guardian_data =
  gu_activeGuardian :: "guardian option"
  gu_pendingGuardian :: "guardian option"
  gu_guarded :: "bool option"

record account_fetch_options =
  fo_withGuardianInfo :: "bool option"
  fo_withTxCount :: "bool option"
  fo_withScrCount :: "bool option"
  fo_withTimestamp :: "bool option"
  fo_withAssets :: "bool option"

text \<open>Documents of the index.\<close>

record indexed_account_doc =
  xi_address :: string
  xi_nonce :: int
  xi_timestampMs :: int
  xi_timestamp :: int
  xi_balance :: string
  xi_currentOwner :: "string option"
  xi_transfersLast24h :: "int option"

record sc_upgrade =
  ug_upgrader :: string
  ug_upgradeTxHash :: string
  ug_codeHash :: string
  ug_timestamp :: int

record sc_deploy =
  sd_contract :: string
  sd_deployTxHash :: string
  sd_timestamp :: int
  sd_upgrades :: "sc_upgrade list"

record account_deferred =
  df_deferredPayment :: string
  df_secondsLeft :: int

record account_key =
  ak_blsKey :: string
  ak_stake :: string
  ak_topUp :: string
  ak_status :: string
  ak_rewardAddress :: string
  ak_queueIndex :: "string option"
  ak_queueSize :: "string option"
  ak_remainingUnBondPeriod :: "int option option"

definition new_account_key :: account_key where
  "new_account_key = \<lparr>ak_blsKey = [], ak_stake = [], ak_topUp = [], ak_status = [], ak_rewardAddress = [], ak_queueIndex = None,
     ak_queueSize = None, ak_remainingUnBondPeriod = Some (Some 0)\<rparr>"

record account_key_filter =
  kx_status :: "string list"

record deployed_contract =
  dc_address :: string
  dc_deployTxHash :: string
  dc_timestamp :: int
  dc_assets :: "account_assets option"

record contract_upgrades =
  cu_address :: string
  cu_txHash :: string
  cu_codeHash :: string
  cu_timestamp :: int

record account_history =
  ah_address :: string
  ah_balance :: string
  ah_timestamp :: int
  ah_isSender :: "bool option"

record account_esdt_history = account_history +
  ah_token :: string
  ah_identifier :: "string option"

record application_most_used =
  mu_address :: string
  mu_transfers24H :: int

definition node_status_raw :: "string list" where
  "node_status_raw = [''staked'', ''jailed'', ''queued'', ''unStaked'', ''notStaked'']"

text \<open>
  The services. \<open>zc_getOrSet...\<close> are \<open>cachingService.getOrSet\<close> for values of each type, \<open>zc_merge...\<close> are
  \<open>mergeObjects\<close> with a new object, \<open>zc_shard\<close> is \<open>computeShard(bech32Decode(address), shardCount)\<close>, and
  \<open>zc_processAccount\<close> gives the account as the plugins leave it. \<open>zc_vmQuery contract function caller args\<close>
  gives the returned values; there may be none, and one may be \<open>null\<close>.
\<close>

record 's account_env =
  zc_consts :: time_consts
  zc_providers :: "'s providers_env"
  zc_stake :: "'s stake_env"
  zc_usernames :: "'s username_env"
  zc_assets :: "'s assets_env"
  zc_isAddressValid :: "string \<Rightarrow> bool"
  zc_isSmartContract :: "string \<Rightarrow> bool"
  zc_shard :: "string \<Rightarrow> int \<Rightarrow> int res"
  zc_shardCount :: "('s, int) io"
  zc_bech32Decode :: "string \<Rightarrow> string res"
  zc_bech32Encode :: "string \<Rightarrow> string res"
  zc_decodeCodeMetadata :: "string option \<Rightarrow> code_attributes option"
  zc_base64ToText :: "string \<Rightarrow> string"
  zc_base64ToHex :: "string \<Rightarrow> string"
  zc_base64ToBigInt :: "string option \<Rightarrow> int res"
  zc_padHex :: "string \<Rightarrow> string"
  zc_verifierUrl :: "string res"
  zc_delegationContract :: "string option"
  zc_auctionContract :: "string option"
  zc_stakingContract :: "string option"
  zc_transfersLast24hUrl :: "string option"
  zc_get :: "string \<Rightarrow> ('s, json) io"
  zc_getList :: "string \<Rightarrow> ('s, string list) io"
  zc_getCodeHash :: "string \<Rightarrow> ('s, string option) io"
  zc_getMostUsed :: "string \<Rightarrow> ('s, (string \<times> int) list) io"
  zc_vmQuery :: "string \<Rightarrow> string \<Rightarrow> string option \<Rightarrow> string list \<Rightarrow> ('s, string option list option) io"
  zc_addressDetails :: "string \<Rightarrow> ('s, gateway_account) io"
  zc_guardianData :: "string \<Rightarrow> ('s, guardian_data option) io"
  zc_accountsBulk :: "string list \<Rightarrow> ('s, (string \<times> string) list) io"
  zc_networkNonce :: "int \<Rightarrow> ('s, int) io"
  zc_indexAccountsCount :: "account_query_options \<Rightarrow> ('s, int) io"
  zc_indexAccount :: "string \<Rightarrow> ('s, indexed_account_doc option) io"
  zc_indexAccounts :: "query_pagination \<Rightarrow> account_query_options \<Rightarrow> ('s, indexed_account_doc list) io"
  zc_indexAccountsForAddresses :: "string list \<Rightarrow> ('s, indexed_account_doc list) io"
  zc_indexScDeploy :: "string \<Rightarrow> ('s, sc_deploy option) io"
  zc_indexTransactionTime :: "string \<Rightarrow> ('s, int option) io"
  zc_indexDeploys :: "query_pagination \<Rightarrow> string \<Rightarrow> ('s, sc_deploy list) io"
  zc_indexDeploysCount :: "string \<Rightarrow> ('s, int) io"
  zc_indexContracts :: "query_pagination \<Rightarrow> string \<Rightarrow> ('s, sc_deploy list) io"
  zc_indexContractsCount :: "string \<Rightarrow> ('s, int) io"
  zc_indexHistory :: "string \<Rightarrow> query_pagination \<Rightarrow> account_history_filter \<Rightarrow> ('s, json list) io"
  zc_indexHistoryCount :: "string \<Rightarrow> account_history_filter \<Rightarrow> ('s, int) io"
  zc_indexTokenHistory :: "string \<Rightarrow> string \<Rightarrow> query_pagination \<Rightarrow> account_history_filter \<Rightarrow> ('s, json list) io"
  zc_indexTokenHistoryCount :: "string \<Rightarrow> string \<Rightarrow> account_history_filter \<Rightarrow> ('s, int) io"
  zc_indexEsdtHistory :: "string \<Rightarrow> query_pagination \<Rightarrow> account_history_filter \<Rightarrow> ('s, json list) io"
  zc_indexEsdtHistoryCount :: "string \<Rightarrow> account_history_filter \<Rightarrow> ('s, int) io"
  zc_transfersCount :: "transaction_filter \<Rightarrow> ('s, int) io"
  zc_processAccount :: "account_detailed \<Rightarrow> ('s, account_detailed) io"
  zc_verifiedAccounts :: "string \<Rightarrow> ('s, string list option) io"
  zc_getOrSetCount :: "string \<Rightarrow> ('s, int) io \<Rightarrow> int \<Rightarrow> ('s, int) io"
  zc_getOrSetNumber :: "string \<Rightarrow> ('s, int option) io \<Rightarrow> int \<Rightarrow> ('s, int option) io"
  zc_getOrSetText :: "string \<Rightarrow> ('s, string option) io \<Rightarrow> int \<Rightarrow> ('s, string option) io"
  zc_getOrSetFlag :: "string \<Rightarrow> ('s, bool option) io \<Rightarrow> int \<Rightarrow> ('s, bool option) io"
  zc_getOrSetAccounts :: "string \<Rightarrow> ('s, account list) io \<Rightarrow> int \<Rightarrow> ('s, account list) io"
  zc_getOrSetMostUsed :: "string \<Rightarrow> ('s, application_most_used list) io \<Rightarrow> int \<Rightarrow> ('s, application_most_used list) io"
  zc_mergeAccount :: "indexed_account_doc \<Rightarrow> account"
  zc_mergeHistory :: "json \<Rightarrow> account_history"
  zc_mergeEsdtHistory :: "json \<Rightarrow> account_esdt_history"
  zc_sortedKeys :: "(account_key \<Rightarrow> nat) \<Rightarrow> account_key list \<Rightarrow> account_key list"
  zc_sortedUpgrades :: "(contract_upgrades \<Rightarrow> int) \<Rightarrow> contract_upgrades list \<Rightarrow> contract_upgrades list"

section \<open>One account\<close>

definition accountsCount :: "'s account_env \<Rightarrow> account_query_options \<Rightarrow> ('s, int) io" where
  "accountsCount env f =
     (if \<not> account_query_isSet f
      then (let info = CacheInfo_AccountsCount (zc_consts env) in zc_getOrSetCount env (ci_key info) (zc_indexAccountsCount env f) (ci_ttl info))
      else zc_indexAccountsCount env f)"

definition accountTxCount :: "'s account_env \<Rightarrow> string \<Rightarrow> ('s, int) io" where
  "accountTxCount env address = zc_transfersCount env (new_transaction_filter\<lparr>tf_address := Some address, tf_type := Some TxType_Transaction\<rparr>)"

definition accountScResults :: "'s account_env \<Rightarrow> string \<Rightarrow> ('s, int) io" where
  "accountScResults env address = zc_transfersCount env (new_transaction_filter\<lparr>tf_address := Some address, tf_type := Some TxType_SmartContractResult\<rparr>)"

definition accountDeployedAtRaw :: "'s account_env \<Rightarrow> string \<Rightarrow> ('s, int option) io" where
  "accountDeployedAtRaw env address =
     io_bind (zc_indexScDeploy env address) (\<lambda>scDeploy. case scDeploy of
       None \<Rightarrow> io_return None
     | Some d \<Rightarrow> if sd_deployTxHash d = [] then io_return None else zc_indexTransactionTime env (sd_deployTxHash d))"

definition accountDeployedAt :: "'s account_env \<Rightarrow> string \<Rightarrow> ('s, int option) io" where
  "accountDeployedAt env address =
     (let info = CacheInfo_AccountDeployedAt (zc_consts env) address
      in zc_getOrSetNumber env (ci_key info) (accountDeployedAtRaw env address) (ci_ttl info))"

definition accountDeployedTxHashRaw :: "'s account_env \<Rightarrow> string \<Rightarrow> ('s, string option) io" where
  "accountDeployedTxHashRaw env address =
     io_bind (zc_indexScDeploy env address) (\<lambda>scDeploy. io_return (map_option sd_deployTxHash scDeploy))"

definition accountDeployedTxHash :: "'s account_env \<Rightarrow> string \<Rightarrow> ('s, string option) io" where
  "accountDeployedTxHash env address =
     (let info = CacheInfo_AccountDeployTxHash (zc_consts env) address
      in zc_getOrSetText env (ci_key info) (accountDeployedTxHashRaw env address) (ci_ttl info))"

definition accountIsVerifiedRaw :: "'s account_env \<Rightarrow> string \<Rightarrow> string \<Rightarrow> ('s, bool option) io" where
  "accountIsVerifiedRaw env address codeHash = io_catch
     (io_bind (io_lift (zc_verifierUrl env)) (\<lambda>url.
      io_bind (zc_getCodeHash env (url @ ''/verifier/'' @ address @ ''/codehash'')) (\<lambda>found.
        io_return (if found = Some (zc_base64ToHex env codeHash) then Some True else None))))
     (\<lambda>_. io_return None)"

definition accountIsVerified :: "'s account_env \<Rightarrow> string \<Rightarrow> string \<Rightarrow> ('s, bool option) io" where
  "accountIsVerified env address codeHash =
     (let info = CacheInfo_AccountIsVerified (zc_consts env) address
      in zc_getOrSetFlag env (ci_key info) (accountIsVerifiedRaw env address codeHash) (ci_ttl info))"

definition account_of_gateway :: "string \<Rightarrow> int \<Rightarrow> gateway_account \<Rightarrow> account_detailed" where
  "account_of_gateway address shard g =
     \<lparr>av_address = address, av_balance = gw_balance g, av_nonce = gw_nonce g, av_timestampMs = 0, av_timestamp = 0, av_shard = shard,
      av_ownerAddress = Some (gw_ownerAddress g), av_assets = None, av_deployedAt = None, av_deployTxHash = None, av_ownerAssets = None,
      av_isVerified = None, av_txCount = None, av_scrCount = None, av_transfersLast24h = None, av_code = gw_code g, av_codeHash = gw_codeHash g,
      av_rootHash = gw_rootHash g, av_username = None, av_developerReward = gw_developerReward g, av_isUpgradeable = None, av_isReadable = None,
      av_isPayable = None, av_isPayableBySmartContract = None, av_activeGuardianActivationEpoch = None, av_activeGuardianAddress = None,
      av_activeGuardianServiceUid = None, av_pendingGuardianActivationEpoch = None, av_pendingGuardianAddress = None,
      av_pendingGuardianServiceUid = None, av_isGuarded = None\<rparr>"

definition with_code_attributes :: "code_attributes option \<Rightarrow> account_detailed \<Rightarrow> account_detailed" where
  "with_code_attributes attributes account =
     (case attributes of None \<Rightarrow> account
      | Some a \<Rightarrow> account\<lparr>av_isUpgradeable := Some (at_isUpgradeable a), av_isReadable := Some (at_isReadable a), av_isPayable := Some (at_isPayable a),
          av_isPayableBySmartContract := Some (at_isPayableBySmartContract a)\<rparr>)"

text \<open>What is known of the deployment of a contract; a time that is zero or missing is not set.\<close>

definition with_deployment :: "'s account_env \<Rightarrow> account_detailed \<Rightarrow> ('s, account_detailed) io" where
  "with_deployment env account =
     (let address = av_address account
      in io_bind (io_both (accountDeployedTxHash env address) (io_both (accountDeployedAt env address) (accountIsVerified env address (av_codeHash account))))
        (\<lambda>(deployTxHash, deployedAt, isVerified).
          let account = (if truthy deployTxHash then account\<lparr>av_deployTxHash := deployTxHash\<rparr> else account);
              account = (if deployedAt \<noteq> None \<and> deployedAt \<noteq> Some 0 then account\<lparr>av_deployedAt := deployedAt\<rparr> else account)
          in io_return (if isVerified = Some True then account\<lparr>av_isVerified := isVerified\<rparr> else account)))"

definition with_username :: "'s account_env \<Rightarrow> account_detailed \<Rightarrow> ('s, account_detailed) io" where
  "with_username env account =
     io_bind (getUsernameForAddress (zc_usernames env) (av_address account)) (\<lambda>username.
       io_return (account\<lparr>av_username := username, av_isPayableBySmartContract := None, av_isUpgradeable := None, av_isReadable := None, av_isPayable := None\<rparr>))"

definition with_account_assets :: "'s account_env \<Rightarrow> string \<Rightarrow> account_detailed \<Rightarrow> ('s, account_detailed) io" where
  "with_account_assets env ownerAddress account =
     io_bind (getAllAccountAssets (zc_assets env)) (\<lambda>assets.
       io_return (account\<lparr>av_assets := assets (av_address account), av_ownerAssets := assets ownerAddress\<rparr>))"

definition accountRaw :: "'s account_env \<Rightarrow> string \<Rightarrow> bool option \<Rightarrow> ('s, account_detailed option) io" where
  "accountRaw env address withAssets = io_catch
     (io_bind (zc_addressDetails env address) (\<lambda>g.
      io_bind (zc_shardCount env) (\<lambda>shardCount.
      io_bind (io_lift (zc_shard env address shardCount)) (\<lambda>shard.
      io_bind (if withAssets = Some True then with_account_assets env (gw_ownerAddress g) (account_of_gateway address shard g)
        else io_return (account_of_gateway address shard g)) (\<lambda>account.
      let account = with_code_attributes (zc_decodeCodeMetadata env (gw_codeMetadata g)) account
      in io_bind (if zc_isSmartContract env address \<and> av_code account \<noteq> [] then with_deployment env account else io_return account) (\<lambda>account.
      io_bind (if \<not> zc_isSmartContract env address then with_username env account else io_return account) (\<lambda>account.
      io_bind (zc_processAccount env account) (\<lambda>account. io_return (Some account)))))))))
     (\<lambda>_. io_return None)"

definition accountSimple :: "'s account_env \<Rightarrow> string \<Rightarrow> ('s, account_detailed option) io" where
  "accountSimple env address = (if \<not> zc_isAddressValid env address then io_return None else accountRaw env address None)"

definition set_active :: "guardian option \<Rightarrow> account_detailed \<Rightarrow> account_detailed" where
  "set_active g account = (case g of None \<Rightarrow> account
     | Some x \<Rightarrow> account\<lparr>av_activeGuardianActivationEpoch := gu_activationEpoch x, av_activeGuardianAddress := gu_address x, av_activeGuardianServiceUid := gu_serviceUID x\<rparr>)"

definition set_pending :: "guardian option \<Rightarrow> account_detailed \<Rightarrow> account_detailed" where
  "set_pending g account = (case g of None \<Rightarrow> account
     | Some x \<Rightarrow> account\<lparr>av_pendingGuardianActivationEpoch := gu_activationEpoch x, av_pendingGuardianAddress := gu_address x, av_pendingGuardianServiceUid := gu_serviceUID x\<rparr>)"

definition applyGuardianInfo :: "'s account_env \<Rightarrow> account_detailed \<Rightarrow> ('s, account_detailed) io" where
  "applyGuardianInfo env account = io_catch
     (io_bind (zc_guardianData env (av_address account)) (\<lambda>found. io_return (case found of
        None \<Rightarrow> account
      | Some d \<Rightarrow> (set_pending (gu_pendingGuardian d) (set_active (gu_activeGuardian d) account))\<lparr>av_isGuarded := gu_guarded d\<rparr>)))
     (\<lambda>_. io_return account)"

text \<open>The document of the index is read without a test that there is one.\<close>

definition with_timestamp :: "'s account_env \<Rightarrow> string \<Rightarrow> account_detailed \<Rightarrow> ('s, account_detailed) io" where
  "with_timestamp env address account =
     io_bind (zc_indexAccount env address) (\<lambda>found. case found of
       None \<Rightarrow> io_throw TypeError
     | Some d \<Rightarrow> (let account = account\<lparr>av_timestamp := xi_timestamp d\<rparr>
         in io_return (if xi_timestampMs d \<noteq> 0 then account\<lparr>av_timestampMs := xi_timestampMs d\<rparr> else account)))"

definition with_provider_owner :: "'s account_env \<Rightarrow> string \<Rightarrow> account_detailed \<Rightarrow> ('s, account_detailed) io" where
  "with_provider_owner env address account =
     io_bind (getProvider (zc_providers env) address) (\<lambda>provider. io_return (case provider of
       None \<Rightarrow> account
     | Some p \<Rightarrow> if truthy (pv_owner p) then account\<lparr>av_ownerAddress := pv_owner p\<rparr> else account))"

definition when_set :: "bool option \<Rightarrow> ('a \<Rightarrow> ('s, 'a) io) \<Rightarrow> 'a \<Rightarrow> ('s, 'a) io" where
  "when_set flag f x = (if flag = Some True then f x else io_return x)"

definition accountOf :: "'s account_env \<Rightarrow> string \<Rightarrow> account_fetch_options \<Rightarrow> ('s, account_detailed option) io" where
  "accountOf env address options =
     (if \<not> zc_isAddressValid env address then io_return None
      else io_bind (accountRaw env address (fo_withAssets options)) (\<lambda>found. case found of
        None \<Rightarrow> io_return None
      | Some account \<Rightarrow>
          io_bind (when_set (fo_withTxCount options) (\<lambda>a. io_bind (accountTxCount env address) (\<lambda>n. io_return (a\<lparr>av_txCount := Some n\<rparr>))) account) (\<lambda>account.
          io_bind (when_set (fo_withScrCount options) (\<lambda>a. io_bind (accountScResults env address) (\<lambda>n. io_return (a\<lparr>av_scrCount := Some n\<rparr>))) account) (\<lambda>account.
          io_bind (when_set (fo_withGuardianInfo options) (applyGuardianInfo env) account) (\<lambda>account.
          io_bind (when_set (fo_withTimestamp options) (with_timestamp env address) account) (\<lambda>account.
          io_bind (if zc_isSmartContract env address then with_provider_owner env address account else io_return account) (\<lambda>account.
            io_return (Some account))))))))"

definition accountVerification :: "'s account_env \<Rightarrow> string \<Rightarrow> ('s, json option) io" where
  "accountVerification env address =
     (if \<not> zc_isAddressValid env address then io_return None
      else io_bind (io_lift (zc_verifierUrl env)) (\<lambda>url. io_bind (zc_get env (url @ ''/verifier/'' @ address)) (\<lambda>data. io_return (Some data))))"

definition verifiedAccounts :: "'s account_env \<Rightarrow> ('s, string list) io" where
  "verifiedAccounts env = io_bind (io_lift (zc_verifierUrl env)) (\<lambda>url. zc_getList env (url @ ''/verifier''))"

section \<open>Pages of accounts\<close>

definition with_index_owner :: "'s account_env \<Rightarrow> indexed_account_doc \<Rightarrow> account" where
  "with_index_owner env d = (zc_mergeAccount env d)\<lparr>av_ownerAddress := xi_currentOwner d, av_transfersLast24h := xi_transfersLast24h d\<rparr>"

definition with_bulk_balance :: "(string \<times> string) list \<Rightarrow> account \<Rightarrow> account" where
  "with_bulk_balance balances a = (case map_of (rev balances) (av_address a) of None \<Rightarrow> a | Some b \<Rightarrow> a\<lparr>av_balance := b\<rparr>)"

definition with_deploy_info :: "'s account_env \<Rightarrow> account \<Rightarrow> ('s, account) io" where
  "with_deploy_info env a =
     (if zc_isSmartContract env (av_address a)
      then io_bind (io_both (accountDeployedAt env (av_address a)) (accountDeployedTxHash env (av_address a))) (\<lambda>(deployedAt, deployTxHash).
        io_return (a\<lparr>av_deployedAt := deployedAt, av_deployTxHash := deployTxHash\<rparr>))
      else io_return a)"

definition shown_account :: "'s account_env \<Rightarrow> account_query_options \<Rightarrow> int \<Rightarrow> (string \<Rightarrow> account_assets option) \<Rightarrow> string list option
    \<Rightarrow> account \<Rightarrow> ('s, account) io" where
  "shown_account env q shardCount assets verified a =
     io_bind (io_lift (zc_shard env (av_address a) shardCount)) (\<lambda>shard.
     io_bind (when_set (aq_withDeployInfo q) (with_deploy_info env) (a\<lparr>av_shard := shard, av_assets := assets (av_address a)\<rparr>)) (\<lambda>a.
     io_bind (when_set (aq_withTxCount q) (\<lambda>a. io_bind (accountTxCount env (av_address a)) (\<lambda>n. io_return (a\<lparr>av_txCount := Some n\<rparr>))) a) (\<lambda>a.
     io_bind (when_set (aq_withScrCount q) (\<lambda>a. io_bind (accountScResults env (av_address a)) (\<lambda>n. io_return (a\<lparr>av_scrCount := Some n\<rparr>))) a) (\<lambda>a.
     let a = (if aq_withOwnerAssets q = Some True \<and> truthy (av_ownerAddress a) then a\<lparr>av_ownerAssets := assets (the (av_ownerAddress a))\<rparr> else a)
     in io_return (if av_address a \<in> set (coalesce verified []) then a\<lparr>av_isVerified := Some True\<rparr> else a)))))"

definition accountsPageRaw :: "'s account_env \<Rightarrow> query_pagination \<Rightarrow> account_query_options \<Rightarrow> ('s, account list) io" where
  "accountsPageRaw env pagination q =
     io_bind (zc_indexAccounts env pagination q) (\<lambda>result.
     io_bind (getAllAccountAssets (zc_assets env)) (\<lambda>assets.
     let accounts = map (with_index_owner env) result
     in io_bind (zc_shardCount env) (\<lambda>shardCount.
     io_bind (zc_verifiedAccounts env (ci_key (CacheInfo_VerifiedAccounts (zc_consts env)))) (\<lambda>verified.
     io_bind (if coalesce (aq_addresses q) [] \<noteq> []
       then io_bind (zc_accountsBulk env (the (aq_addresses q))) (\<lambda>balances. io_return (map (with_bulk_balance balances) accounts))
       else io_return accounts) (\<lambda>accounts.
       io_mapM (shown_account env q shardCount assets verified) accounts)))))"

definition accountsPage :: "'s account_env \<Rightarrow> query_pagination \<Rightarrow> account_query_options \<Rightarrow> ('s, account list) io" where
  "accountsPage env pagination q =
     (if \<not> account_query_isSet q
      then (let info = CacheInfo_Accounts (zc_consts env) pagination
        in zc_getOrSetAccounts env (ci_key info) (accountsPageRaw env pagination q) (ci_ttl info))
      else accountsPageRaw env pagination q)"

definition accountsForAddresses :: "'s account_env \<Rightarrow> string list \<Rightarrow> ('s, account list) io" where
  "accountsForAddresses env addresses =
     io_bind (getAllAccountAssets (zc_assets env)) (\<lambda>assets.
     io_bind (zc_indexAccountsForAddresses env addresses) (\<lambda>docs.
     io_bind (zc_shardCount env) (\<lambda>shardCount.
       io_mapM (\<lambda>a. io_bind (io_lift (zc_shard env (av_address a) shardCount)) (\<lambda>shard.
         io_return (a\<lparr>av_shard := shard, av_assets := assets (av_address a)\<rparr>))) (map (zc_mergeAccount env) docs))))"

section \<open>Deferred payments\<close>

text \<open>The values come in pairs; of an odd number the last pair lacks its nonce.\<close>

fun deferred_payments :: "'s account_env \<Rightarrow> int \<Rightarrow> int \<Rightarrow> string option list \<Rightarrow> account_deferred list res" where
  "deferred_payments env numBlocksBeforeUnBond erdNonce [] = Inr []"
| "deferred_payments env numBlocksBeforeUnBond erdNonce (payment # rest) =
     res_bind (zc_base64ToBigInt env payment) (\<lambda>deferredPayment.
     res_bind (zc_base64ToBigInt env (case rest of [] \<Rightarrow> None | nonce # _ \<Rightarrow> nonce)) (\<lambda>unstakedNonce.
     let blocksLeft = max 0 (unstakedNonce + numBlocksBeforeUnBond - erdNonce)
     in res_bind (deferred_payments env numBlocksBeforeUnBond erdNonce (drop 1 rest)) (\<lambda>payments.
       Inr (\<lparr>df_deferredPayment = int_str deferredPayment, df_secondsLeft = blocksLeft * 6\<rparr> # payments))))"

definition deferredAccount :: "'s account_env \<Rightarrow> string \<Rightarrow> ('s, account_deferred list) io" where
  "deferredAccount env address =
     io_bind (io_lift (zc_bech32Decode env address)) (\<lambda>publicKey.
       if \<not> truthy (zc_delegationContract env) then io_return []
       else (let contract = the (zc_delegationContract env)
         in io_bind (zc_shardCount env) (\<lambda>shardCount.
            io_bind (io_lift (zc_shard env contract shardCount)) (\<lambda>shard.
            io_bind (io_both (zc_vmQuery env contract ''getUserDeferredPaymentList'' None [publicKey])
              (io_both (zc_vmQuery env contract ''getNumBlocksBeforeUnBond'' None []) (zc_networkNonce env shard))) (\<lambda>(list, blocks, erdNonce).
              case blocks of
                None \<Rightarrow> io_throw TypeError
              | Some bs \<Rightarrow> io_lift (res_bind (zc_base64ToBigInt env (case bs of [] \<Rightarrow> None | b # _ \<Rightarrow> b)) (\<lambda>numBlocksBeforeUnBond.
                  case list of None \<Rightarrow> Inl TypeError | Some xs \<Rightarrow> deferred_payments env numBlocksBeforeUnBond erdNonce xs)))))))"

section \<open>Keys\<close>

text \<open>\<open>Buffer.from(x, 'base64')\<close> throws for \<open>undefined\<close> and \<open>null\<close>.\<close>

definition cell_text :: "'s account_env \<Rightarrow> string option \<Rightarrow> string res" where
  "cell_text env v = (case v of None \<Rightarrow> Inl TypeError | Some s \<Rightarrow> Inr (zc_base64ToText env s))"

definition cell_hex :: "'s account_env \<Rightarrow> string option \<Rightarrow> string res" where
  "cell_hex env v = (case v of None \<Rightarrow> Inl TypeError | Some s \<Rightarrow> Inr (zc_base64ToHex env s))"

text \<open>A result that is not a number is \<open>Some None\<close>, no result is \<open>None\<close>.\<close>

definition getKeyUnbondPeriod :: "'s account_env \<Rightarrow> string \<Rightarrow> ('s, int option option) io" where
  "getKeyUnbondPeriod env key =
     (if \<not> truthy (zc_stakingContract env) then io_return None
      else io_catch
        (io_bind (zc_vmQuery env (the (zc_stakingContract env)) ''getRemainingUnBondPeriod'' None [key]) (\<lambda>encoded.
           io_return (case encoded of
             Some (Some e # _) \<Rightarrow>
               if e = [] then Some (Some 0)
               else (case parseInt (zc_base64ToText env e) of
                   Some n \<Rightarrow> Some (Some n)
                 | None \<Rightarrow> Some ((if zc_base64ToHex env e = [] then None else parse_base 16 (zc_base64ToHex env e))))
           | _ \<Rightarrow> Some (Some 0))))
        (\<lambda>_. io_return None))"

definition getBlsKeysStatusForPublicKey :: "'s account_env \<Rightarrow> string \<Rightarrow> ('s, string option list option) io" where
  "getBlsKeysStatusForPublicKey env publicKey =
     (if \<not> truthy (zc_auctionContract env) then io_return None
      else zc_vmQuery env (the (zc_auctionContract env)) ''getBlsKeysStatus'' (zc_auctionContract env) [publicKey])"

definition getRewardAddressForNode :: "'s account_env \<Rightarrow> string \<Rightarrow> ('s, string) io" where
  "getRewardAddressForNode env blsKey =
     (if \<not> truthy (zc_stakingContract env) then io_return []
      else io_bind (zc_vmQuery env (the (zc_stakingContract env)) ''getRewardAddress'' None [blsKey]) (\<lambda>response. io_lift (case response of
        None \<Rightarrow> Inl TypeError
      | Some cells \<Rightarrow> res_bind (cell_text env (case cells of [] \<Rightarrow> None | c # _ \<Rightarrow> c)) (zc_bech32Encode env))))"

definition getAllNodeStates :: "'s account_env \<Rightarrow> string \<Rightarrow> ('s, string option list option) io" where
  "getAllNodeStates env address = zc_vmQuery env address ''getAllNodeStates'' None []"

text \<open>
  The states: a status, and the keys that have it up to the next status. \<open>i\<close> is the position of one value;
  it contributes keys when it is the status \<open>notStaked\<close>.
\<close>

definition is_status :: "'s account_env \<Rightarrow> string \<Rightarrow> bool" where
  "is_status env s \<longleftrightarrow> zc_base64ToText env s \<in> set node_status_raw"

definition inactive_after :: "'s account_env \<Rightarrow> string list \<Rightarrow> nat \<Rightarrow> string list" where
  "inactive_after env states i =
     (if is_status env (states ! i) \<and> zc_base64ToText env (states ! i) = ''notStaked''
      then (case find (\<lambda>j. i < j \<and> is_status env (states ! j)) [0..<length states] of
          None \<Rightarrow> drop (Suc i) states
        | Some j \<Rightarrow> take (j - Suc i) (drop (Suc i) states))
      else [])"

definition getInactiveNodesBuffers :: "'s account_env \<Rightarrow> string option list option \<Rightarrow> string list res" where
  "getInactiveNodesBuffers env allNodeStates =
     (case allNodeStates of
        None \<Rightarrow> Inr []
      | Some cells \<Rightarrow> res_bind (res_map (\<lambda>c. case c of None \<Rightarrow> Inl TypeError | Some s \<Rightarrow> Inr s) cells) (\<lambda>states.
          Inr (concat (map (inactive_after env states) [0..<length states]))))"

definition nodeStake :: string where
  "nodeStake = ''2500000000000000000000''"

definition createNotStakedNodes :: "'s account_env \<Rightarrow> string list \<Rightarrow> account_key list" where
  "createNotStakedNodes env buffers =
     map (\<lambda>b. new_account_key\<lparr>ak_blsKey := zc_padHex env (zc_base64ToHex env b), ak_status := ''notStaked'', ak_stake := nodeStake\<rparr>) buffers"

fun createAccountKeys :: "'s account_env \<Rightarrow> string option list \<Rightarrow> account_key list res" where
  "createAccountKeys env [] = Inr []"
| "createAccountKeys env (key # rest) =
     res_bind (cell_hex env key) (\<lambda>blsKey.
     res_bind (cell_text env (case rest of [] \<Rightarrow> None | status # _ \<Rightarrow> status)) (\<lambda>status.
     res_bind (createAccountKeys env (drop 1 rest)) (\<lambda>keys.
       Inr (new_account_key\<lparr>ak_blsKey := zc_padHex env blsKey, ak_status := status, ak_stake := nodeStake\<rparr> # keys))))"

definition applyRewardAddressAndTopUpToNodes :: "'s account_env \<Rightarrow> string \<Rightarrow> account_key list \<Rightarrow> ('s, account_key list) io" where
  "applyRewardAddressAndTopUpToNodes env address nodes =
     (case nodes of
        [] \<Rightarrow> io_return []
      | n # _ \<Rightarrow>
          io_bind (getRewardAddressForNode env (ak_blsKey n)) (\<lambda>rewardAddress.
          io_bind (getAllStakesForNode (zc_stake env) address) (\<lambda>stake.
            io_return (map (\<lambda>n. n\<lparr>ak_rewardAddress := rewardAddress, ak_topUp := st_topUp stake, ak_remainingUnBondPeriod := None\<rparr>) nodes))))"

definition applyKeyUnbondingPeriods :: "'s account_env \<Rightarrow> account_key list \<Rightarrow> ('s, account_key list) io" where
  "applyKeyUnbondingPeriods env nodes =
     io_all (\<lambda>n. if ak_status n = ''unStaked''
       then io_bind (getKeyUnbondPeriod env (ak_blsKey n)) (\<lambda>period. io_return (n\<lparr>ak_remainingUnBondPeriod := period\<rparr>))
       else io_return n) nodes"

text \<open>
  The answers for the queued keys, in their order; an answer that is \<open>null\<close> does not move the index. The
  node that is found is the first one with the key.
\<close>

fun set_queue :: "string \<Rightarrow> string \<Rightarrow> string \<Rightarrow> account_key list \<Rightarrow> account_key list" where
  "set_queue key position amount [] = []"
| "set_queue key position amount (n # ns) =
     (if ak_blsKey n = key then n\<lparr>ak_queueIndex := Some position, ak_queueSize := Some amount\<rparr> # ns else n # set_queue key position amount ns)"

fun set_queue_indexes :: "'s account_env \<Rightarrow> string \<Rightarrow> string list \<Rightarrow> string option list option list \<Rightarrow> account_key list \<Rightarrow> account_key list res" where
  "set_queue_indexes env amount queued [] nodes = Inr nodes"
| "set_queue_indexes env amount queued (None # answers) nodes = set_queue_indexes env amount queued answers nodes"
| "set_queue_indexes env amount queued (Some cells # answers) nodes =
     (case queued of
        [] \<Rightarrow> Inl TypeError
      | key # keys \<Rightarrow> res_bind (cell_text env (case cells of [] \<Rightarrow> None | c # _ \<Rightarrow> c)) (\<lambda>position.
          set_queue_indexes env amount keys answers (set_queue key position amount nodes)))"

definition updateQueuedNodes :: "'s account_env \<Rightarrow> account_key list \<Rightarrow> ('s, account_key list) io" where
  "updateQueuedNodes env nodes =
     (if \<not> truthy (zc_stakingContract env) then io_return nodes
      else (let contract = the (zc_stakingContract env);
                queued = map ak_blsKey (filter (\<lambda>n. ak_status n = ''queued'') nodes)
        in if queued = [] then io_return nodes
           else io_bind (zc_vmQuery env contract ''getQueueSize'' None []) (\<lambda>response. case response of
               None \<Rightarrow> io_throw TypeError
             | Some (Some encoded # _) \<Rightarrow>
                 if encoded = [] then io_return nodes
                 else io_bind (io_all (\<lambda>key. zc_vmQuery env contract ''getQueueIndex'' (zc_auctionContract env) [key]) queued) (\<lambda>answers.
                   io_lift (set_queue_indexes env (zc_base64ToText env encoded) queued answers nodes))
             | Some _ \<Rightarrow> io_return nodes)))"

definition status_position :: "string list \<Rightarrow> account_key \<Rightarrow> nat" where
  "status_position statuses n = length (takeWhile (\<lambda>s. s \<noteq> ak_status n) statuses)"

definition sortNodesByStatus :: "'s account_env \<Rightarrow> account_key list \<Rightarrow> string list \<Rightarrow> account_key list" where
  "sortNodesByStatus env nodes statuses = zc_sortedKeys env (status_position statuses) nodes"

definition staked_nodes :: "'s account_env \<Rightarrow> string \<Rightarrow> string option list \<Rightarrow> ('s, account_key list) io" where
  "staked_nodes env address blsKeysStatus =
     io_bind (io_lift (createAccountKeys env blsKeysStatus)) (\<lambda>nodes.
     io_bind (applyRewardAddressAndTopUpToNodes env address nodes) (\<lambda>nodes.
     io_bind (applyKeyUnbondingPeriods env nodes) (\<lambda>nodes.
       updateQueuedNodes env nodes)))"

definition filter_keys :: "'s account_env \<Rightarrow> string list \<Rightarrow> account_key list \<Rightarrow> account_key list" where
  "filter_keys env statuses nodes =
     (if statuses \<noteq> [] then sortNodesByStatus env (filter (\<lambda>n. ak_status n \<in> set statuses) nodes) statuses else nodes)"

definition accountKeys :: "'s account_env \<Rightarrow> string \<Rightarrow> account_key_filter \<Rightarrow> query_pagination \<Rightarrow> ('s, account_key list) io" where
  "accountKeys env address f pagination =
     io_bind (io_lift (zc_bech32Decode env address)) (\<lambda>publicKey.
     io_bind (isProvider (zc_providers env) address) (\<lambda>isStakingProvider.
     io_bind (if isStakingProvider
       then io_bind (getAllNodeStates env address) (\<lambda>states.
            io_bind (io_lift (getInactiveNodesBuffers env states)) (\<lambda>buffers. io_return (createNotStakedNodes env buffers)))
       else io_return []) (\<lambda>notStakedNodes.
     io_bind (getBlsKeysStatusForPublicKey env publicKey) (\<lambda>blsKeysStatus.
     io_bind (case blsKeysStatus of None \<Rightarrow> io_return [] | Some cells \<Rightarrow> staked_nodes env address cells) (\<lambda>nodes.
       io_return (take (nat (qp_size pagination)) (drop (nat (qp_from pagination)) (filter_keys env (kx_status f) (notStakedNodes @ nodes)))))))))"

section \<open>Contracts and histories\<close>

definition deployed_of :: "(string \<Rightarrow> account_assets option) \<Rightarrow> sc_deploy \<Rightarrow> deployed_contract" where
  "deployed_of assets d = \<lparr>dc_address = sd_contract d, dc_deployTxHash = sd_deployTxHash d, dc_timestamp = sd_timestamp d, dc_assets = assets (sd_contract d)\<rparr>"

definition accountDeploys :: "'s account_env \<Rightarrow> query_pagination \<Rightarrow> string \<Rightarrow> ('s, deployed_contract list) io" where
  "accountDeploys env pagination address =
     io_bind (zc_indexDeploys env pagination address) (\<lambda>docs.
     io_bind (getAllAccountAssets (zc_assets env)) (\<lambda>assets. io_return (map (deployed_of assets) docs)))"

definition accountDeploysCount :: "'s account_env \<Rightarrow> string \<Rightarrow> ('s, int) io" where
  "accountDeploysCount env address = zc_indexDeploysCount env address"

definition accountContracts :: "'s account_env \<Rightarrow> query_pagination \<Rightarrow> string \<Rightarrow> ('s, deployed_contract list) io" where
  "accountContracts env pagination address =
     io_bind (zc_indexContracts env pagination address) (\<lambda>docs.
     io_bind (getAllAccountAssets (zc_assets env)) (\<lambda>assets. io_return (map (deployed_of assets) docs)))"

definition accountContractsCount :: "'s account_env \<Rightarrow> string \<Rightarrow> ('s, int) io" where
  "accountContractsCount env address = zc_indexContractsCount env address"

definition upgrade_of :: "sc_upgrade \<Rightarrow> contract_upgrades" where
  "upgrade_of u = \<lparr>cu_address = ug_upgrader u, cu_txHash = ug_upgradeTxHash u, cu_codeHash = ug_codeHash u, cu_timestamp = ug_timestamp u\<rparr>"

definition contractUpgrades :: "'s account_env \<Rightarrow> query_pagination \<Rightarrow> string \<Rightarrow> ('s, contract_upgrades list) io" where
  "contractUpgrades env pagination address =
     io_bind (zc_indexScDeploy env address) (\<lambda>found. io_return (case found of
       None \<Rightarrow> []
     | Some d \<Rightarrow> take (nat (qp_size pagination)) (drop (nat (qp_from pagination)) (zc_sortedUpgrades env cu_timestamp (map upgrade_of (sd_upgrades d))))))"

definition accountHistory :: "'s account_env \<Rightarrow> string \<Rightarrow> query_pagination \<Rightarrow> account_history_filter \<Rightarrow> ('s, account_history list) io" where
  "accountHistory env address pagination f =
     io_bind (zc_indexHistory env address pagination f) (\<lambda>docs. io_return (map (zc_mergeHistory env) docs))"

definition accountHistoryCount :: "'s account_env \<Rightarrow> string \<Rightarrow> account_history_filter \<Rightarrow> ('s, int) io" where
  "accountHistoryCount env address f = zc_indexHistoryCount env address f"

definition accountTokenHistory :: "'s account_env \<Rightarrow> string \<Rightarrow> string \<Rightarrow> query_pagination \<Rightarrow> account_history_filter \<Rightarrow> ('s, account_esdt_history list) io" where
  "accountTokenHistory env address identifier pagination f =
     io_bind (zc_indexTokenHistory env address identifier pagination f) (\<lambda>docs. io_return (map (zc_mergeEsdtHistory env) docs))"

definition accountTokenHistoryCount :: "'s account_env \<Rightarrow> string \<Rightarrow> string \<Rightarrow> account_history_filter \<Rightarrow> ('s, int) io" where
  "accountTokenHistoryCount env address identifier f = zc_indexTokenHistoryCount env address identifier f"

definition accountEsdtHistory :: "'s account_env \<Rightarrow> string \<Rightarrow> query_pagination \<Rightarrow> account_history_filter \<Rightarrow> ('s, account_esdt_history list) io" where
  "accountEsdtHistory env address pagination f =
     io_bind (zc_indexEsdtHistory env address pagination f) (\<lambda>docs. io_return (map (zc_mergeEsdtHistory env) docs))"

definition accountEsdtHistoryCount :: "'s account_env \<Rightarrow> string \<Rightarrow> account_history_filter \<Rightarrow> ('s, int) io" where
  "accountEsdtHistoryCount env address f = zc_indexEsdtHistoryCount env address f"

definition applicationMostUsedRaw :: "'s account_env \<Rightarrow> ('s, application_most_used list) io" where
  "applicationMostUsedRaw env =
     (if \<not> truthy (zc_transfersLast24hUrl env) then io_throw (ErrorMsg ''Transfers last 24h URL is not set'')
      else io_bind (zc_getMostUsed env (the (zc_transfersLast24hUrl env))) (\<lambda>items.
        io_return (map (\<lambda>(key, amount). \<lparr>mu_address = key, mu_transfers24H = amount\<rparr>) items)))"

definition applicationMostUsed :: "'s account_env \<Rightarrow> ('s, application_most_used list) io" where
  "applicationMostUsed env =
     (let info = CacheInfo_ApplicationMostUsed (zc_consts env)
      in zc_getOrSetMostUsed env (ci_key info) (applicationMostUsedRaw env) (ci_ttl info))"

section \<open>Properties\<close>

text \<open>The states of nodes as the contract lists them: a status, and the keys that have it.\<close>

definition state_cells :: "(string \<Rightarrow> string) \<Rightarrow> (string \<times> string list) list \<Rightarrow> string list" where
  "state_cells encode groups = concat (map (\<lambda>(status, keys). encode status # keys) groups)"

definition listed_states :: "'s account_env \<Rightarrow> (string \<Rightarrow> string) \<Rightarrow> (string \<times> string list) list \<Rightarrow> bool" where
  "listed_states env encode groups \<longleftrightarrow> (\<forall>(status, keys) \<in> set groups. status \<in> set node_status_raw \<and> zc_base64ToText env (encode status) = status
     \<and> (\<forall>k \<in> set keys. \<not> is_status env k))"

definition inactive_here :: "'s account_env \<Rightarrow> string \<Rightarrow> string list \<Rightarrow> string list" where
  "inactive_here env x xs = (if is_status env x \<and> zc_base64ToText env x = ''notStaked'' then takeWhile (\<lambda>y. \<not> is_status env y) xs else [])"

fun inactive_keys :: "'s account_env \<Rightarrow> string list \<Rightarrow> string list" where
  "inactive_keys env [] = []"
| "inactive_keys env (x # xs) = inactive_here env x xs @ inactive_keys env xs"

lemma inactive_after_here:
  assumes "i < length xs"
  shows "inactive_after env xs i = inactive_here env (xs ! i) (drop (Suc i) xs)"
proof -
  let ?P = "\<lambda>j. i < j \<and> is_status env (xs ! j)" and ?ys = "drop (Suc i) xs"
  have "takeWhile (\<lambda>y. \<not> is_status env y) ?ys = (case find ?P [0..<length xs] of None \<Rightarrow> ?ys | Some j \<Rightarrow> take (j - Suc i) ?ys)"
  proof (cases "find ?P [0..<length xs]")
    case None
    then have "\<forall>y \<in> set ?ys. \<not> is_status env y" by (auto simp: find_None_iff in_set_conv_nth)
    with None show ?thesis by simp
  next
    case (Some j)
    then have j: "j < length xs" "?P j" "\<forall>k < j. \<not> ?P k" by (auto simp: find_Some_iff)
    have "takeWhile (\<lambda>y. \<not> is_status env y) ?ys = take (j - Suc i) ?ys"
      by (rule takeWhile_eq_take_P_nth) (use j in auto)
    with Some show ?thesis by simp
  qed
  then show ?thesis by (simp add: inactive_after_def inactive_here_def)
qed

lemma inactive_keys_positions: "concat (map (\<lambda>i. inactive_here env (xs ! i) (drop (Suc i) xs)) [0..<length xs]) = inactive_keys env xs"
proof (induction xs)
  case (Cons x xs)
  have "map (\<lambda>i. inactive_here env ((x # xs) ! i) (drop (Suc i) (x # xs))) [0..<length (x # xs)]
      = inactive_here env x xs # map (\<lambda>i. inactive_here env (xs ! i) (drop (Suc i) xs)) [0..<length xs]"
    by (simp add: upt_conv_Cons map_Suc_upt [symmetric] comp_def del: upt_Suc)
  with Cons.IH show ?case by simp
qed simp

lemma inactive_keys_plain: "\<forall>k \<in> set keys. \<not> is_status env k \<Longrightarrow> inactive_keys env (keys @ rest) = inactive_keys env rest"
  by (induction keys) (auto simp: inactive_here_def)

lemma inactive_keys_groups:
  assumes "listed_states env encode groups"
  shows "inactive_keys env (state_cells encode groups) = concat (map (\<lambda>(status, keys). if status = ''notStaked'' then keys else []) groups)"
  using assms
proof (induction groups)
  case (Cons g groups)
  obtain status keys where g: "g = (status, keys)" by (cases g)
  have plain: "\<forall>k \<in> set keys. \<not> is_status env k" and status: "is_status env (encode status)" "zc_base64ToText env (encode status) = status"
    and rest: "listed_states env encode groups"
    using Cons.prems by (auto simp: listed_states_def g is_status_def)
  have "takeWhile (\<lambda>y. \<not> is_status env y) (state_cells encode groups) = []"
  proof (cases groups)
    case (Cons h hs)
    then show ?thesis using rest by (cases h) (simp add: state_cells_def listed_states_def is_status_def)
  qed (simp add: state_cells_def)
  then have "takeWhile (\<lambda>y. \<not> is_status env y) (keys @ state_cells encode groups) = keys"
    using plain by (simp add: takeWhile_append2)
  moreover have "state_cells encode (g # groups) = encode status # keys @ state_cells encode groups" by (simp add: state_cells_def g)
  ultimately show ?case using status Cons.IH [OF rest] by (simp add: g inactive_here_def inactive_keys_plain [OF plain])
qed (simp add: state_cells_def)

text \<open>
  C22. The keys that a staking provider has not staked are read off the list of all states: exactly the keys
  that follow the status of those, in their order, wherever it stands in the list.
\<close>

theorem inactive_nodes_of_states:
  assumes "listed_states env encode groups"
  shows "getInactiveNodesBuffers env (Some (map Some (state_cells encode groups)))
    = Inr (concat (map (\<lambda>(status, keys). if status = ''notStaked'' then keys else []) groups))"
proof -
  have "res_map (\<lambda>c. case c of None \<Rightarrow> Inl TypeError | Some s \<Rightarrow> Inr s) (map Some xs) = Inr xs" for xs :: "string list"
    by (induction xs) auto
  moreover have "concat (map (inactive_after env xs) [0..<length xs]) = inactive_keys env xs" for xs
    unfolding inactive_keys_positions [symmetric] by (rule arg_cong [of _ _ concat], rule map_cong) (auto simp: inactive_after_here)
  ultimately show ?thesis by (simp add: getInactiveNodesBuffers_def inactive_keys_groups [OF assms])
qed

text \<open>The answers that are there, read as texts.\<close>

definition present_answers :: "'s account_env \<Rightarrow> string option list option list \<Rightarrow> string list" where
  "present_answers env answers = concat (map (\<lambda>a. case a of Some (Some e # _) \<Rightarrow> [zc_base64ToText env e] | _ \<Rightarrow> []) answers)"

definition readable_answer :: "string option list option \<Rightarrow> bool" where
  "readable_answer a \<longleftrightarrow> a = None \<or> (\<exists>e rest. a = Some (Some e # rest))"

definition queued_as :: "string \<Rightarrow> (string \<rightharpoonup> string) \<Rightarrow> account_key \<Rightarrow> account_key" where
  "queued_as amount positions n = (case positions (ak_blsKey n) of None \<Rightarrow> n | Some p \<Rightarrow> n\<lparr>ak_queueIndex := Some p, ak_queueSize := Some amount\<rparr>)"

lemma queued_as_key [simp]: "ak_blsKey (queued_as amount positions n) = ak_blsKey n"
  by (simp add: queued_as_def split: option.splits)

lemma set_queue_distinct:
  "distinct (map ak_blsKey ns) \<Longrightarrow> set_queue key p amount ns = map (queued_as amount [key \<mapsto> p]) ns"
proof (induction ns)
  case (Cons n ns)
  show ?case
  proof (cases "ak_blsKey n = key")
    case True
    have "queued_as amount [key \<mapsto> p] x = x" if "x \<in> set ns" for x
    proof -
      have "ak_blsKey x \<noteq> key" using that Cons.prems True by (metis distinct.simps(2) image_eqI list.set_map list.simps(9))
      then show ?thesis by (simp add: queued_as_def)
    qed
    then have "map (queued_as amount [key \<mapsto> p]) ns = ns" by (intro map_idI)
    moreover have "queued_as amount [key \<mapsto> p] n = n\<lparr>ak_queueIndex := Some p, ak_queueSize := Some amount\<rparr>"
      using True by (simp add: queued_as_def)
    ultimately show ?thesis using True by (simp only: set_queue.simps list.map refl if_True)
  next
    case False
    with Cons show ?thesis by (simp add: queued_as_def)
  qed
qed simp

lemma queue_indexes_set:
  assumes "distinct (map ak_blsKey nodes)" and "distinct queued" and "\<forall>a \<in> set answers. readable_answer a"
    and "length (present_answers env answers) \<le> length queued"
  shows "set_queue_indexes env amount queued answers nodes = Inr (map (queued_as amount (map_of (zip queued (present_answers env answers)))) nodes)"
  using assms
proof (induction env amount queued answers nodes rule: set_queue_indexes.induct)
  case (1 env amount queued nodes)
  then show ?case by (simp add: present_answers_def queued_as_def)
next
  case (2 env amount queued answers nodes)
  then show ?case by (simp add: present_answers_def)
next
  case (3 env amount queued cells answers nodes)
  then obtain e rest where cells: "cells = Some e # rest" by (auto simp: readable_answer_def)
  have present: "present_answers env (Some (Some e # rest) # answers) = zc_base64ToText env e # present_answers env answers"
    by (simp add: present_answers_def)
  with "3.prems"(4) cells obtain key keys where queued: "queued = key # keys" by (cases queued) auto
  let ?nodes = "map (queued_as amount [key \<mapsto> zc_base64ToText env e]) nodes"
  have new: "key \<notin> set keys" using "3.prems"(2) queued by simp
  have "distinct (map ak_blsKey ?nodes)" using "3.prems"(1) by (simp add: comp_def)
  then have "set_queue_indexes env amount keys answers ?nodes
      = Inr (map (queued_as amount (map_of (zip keys (present_answers env answers)))) ?nodes)"
    using "3.IH" [OF queued] "3.prems" by (simp add: cells queued present set_queue_distinct cell_text_def)
  moreover have "queued_as amount (map_of (zip keys ps)) (queued_as amount [key \<mapsto> p] n)
      = queued_as amount (map_of ((key, p) # zip keys ps)) n" for ps p n
  proof -
    have "map_of (zip keys ps) key = None" using new by (auto simp: map_of_eq_None_iff dest: set_zip_leftD)
    then show ?thesis by (auto simp: queued_as_def split: option.splits)
  qed
  moreover have "set_queue_indexes env amount queued (Some cells # answers) nodes = set_queue_indexes env amount keys answers ?nodes"
    using "3.prems"(1) by (simp add: cells queued cell_text_def set_queue_distinct)
  ultimately show ?case by (simp only: cells queued present zip_Cons_Cons map_map comp_def)
qed

lemma length_present: "length (present_answers env answers) \<le> length answers"
  by (induction answers) (auto simp: present_answers_def split: option.splits list.splits)

text \<open>
  C39. The positions of the queued keys: the answers of the contract that are there go to the queued keys in
  order. With an answer for every key each one gets its own; when there is none for a key, this key gets
  the position of the next one, and so on.
\<close>

theorem queue_positions:
  assumes "truthy (zc_stakingContract env)" and "queued = map ak_blsKey (filter (\<lambda>n. ak_status n = ''queued'') nodes)" and "queued \<noteq> []"
    and "zc_vmQuery env (the (zc_stakingContract env)) ''getQueueSize'' None [] s = (Inr (Some (Some encoded # rest)), t)" and "encoded \<noteq> []"
    and "io_all (\<lambda>key. zc_vmQuery env (the (zc_stakingContract env)) ''getQueueIndex'' (zc_auctionContract env) [key]) queued t = (Inr answers, u)"
    and "\<forall>a \<in> set answers. readable_answer a" and "distinct (map ak_blsKey nodes)"
  shows "updateQueuedNodes env nodes s
    = (Inr (map (queued_as (zc_base64ToText env encoded) (map_of (zip queued (present_answers env answers)))) nodes), u)"
proof -
  have d: "distinct queued" using assms(2,8) by (auto simp: distinct_map intro: inj_on_subset)
  have "length (present_answers env answers) \<le> length queued"
    using length_present [of env answers] length_io_all [OF assms(6)] by simp
  from queue_indexes_set [OF assms(8) d assms(7) this] show ?thesis
    using assms(1-6) by (simp add: updateQueuedNodes_def Let_def io_simps)
qed

text \<open>\<open>getOrSet\<close>: a value that is there is returned, and one that is computed is there afterwards.\<close>

definition documented_page_cache :: "'s account_env \<Rightarrow> ('s \<Rightarrow> string \<Rightarrow> account list option) \<Rightarrow> bool" where
  "documented_page_cache env cached \<longleftrightarrow>
     (\<forall>k m ttl s v. cached s k = Some v \<longrightarrow> zc_getOrSetAccounts env k m ttl s = (Inr v, s)) \<and>
     (\<forall>k m ttl s v t. zc_getOrSetAccounts env k m ttl s = (Inr v, t) \<longrightarrow> cached t k = Some v)"

text \<open>
  A page of accounts without a filter is one page in the cache, whatever else is asked for: who asks for
  the same page with other options, such as the counts of transactions, gets the page as it was made first.
\<close>

theorem cached_page_ignores_options:
  assumes "documented_page_cache env cached" and "\<not> account_query_isSet q" and "\<not> account_query_isSet q'"
    and "accountsPage env pagination q s = (Inr accounts, t)"
  shows "accountsPage env pagination q' t = (Inr accounts, t)"
proof -
  let ?info = "CacheInfo_Accounts (zc_consts env) pagination"
  from assms(2,4) have "zc_getOrSetAccounts env (ci_key ?info) (accountsPageRaw env pagination q) (ci_ttl ?info) s = (Inr accounts, t)"
    by (simp add: accountsPage_def Let_def)
  with assms(1) have "cached t (ci_key ?info) = Some accounts" unfolding documented_page_cache_def by blast
  with assms(1) have "zc_getOrSetAccounts env (ci_key ?info) (accountsPageRaw env pagination q') (ci_ttl ?info) t = (Inr accounts, t)"
    unfolding documented_page_cache_def by blast
  with assms(3) show ?thesis by (simp add: accountsPage_def Let_def)
qed

text \<open>
  The time that is left of a deferred payment is never negative, and a multiple of the duration of a
  round; every pair of values gives one payment.
\<close>

theorem deferred_payments_bounds:
  assumes "deferred_payments env blocks erdNonce cells = Inr payments"
  shows "length payments = (length cells + 1) div 2 \<and> (\<forall>p \<in> set payments. 0 \<le> df_secondsLeft p \<and> 6 dvd df_secondsLeft p)"
  using assms
proof (induction env blocks erdNonce cells arbitrary: payments rule: deferred_payments.induct)
  case (2 env blocks erdNonce payment rest)
  from "2.prems" obtain amount nonce ps where
    steps: "zc_base64ToBigInt env payment = Inr amount" "zc_base64ToBigInt env (case rest of [] \<Rightarrow> None | nonce # _ \<Rightarrow> nonce) = Inr nonce"
    and ps: "deferred_payments env blocks erdNonce (drop 1 rest) = Inr ps"
    and payments: "payments = \<lparr>df_deferredPayment = int_str amount, df_secondsLeft = max 0 (nonce + blocks - erdNonce) * 6\<rparr> # ps"
    by (auto simp: res_bind_Inr Let_def)
  from "2.IH" [OF refl ps] show ?case unfolding payments by (cases rest) auto
qed simp

text \<open>\<open>sorted\<close> of the array extension.\<close>

definition documented_key_sort :: "((account_key \<Rightarrow> nat) \<Rightarrow> account_key list \<Rightarrow> account_key list) \<Rightarrow> bool" where
  "documented_key_sort f \<longleftrightarrow> (\<forall>c xs. mset (f c xs) = mset xs \<and> sorted (map c (f c xs)))"

lemma status_position_nth: "ak_status n \<in> set statuses \<Longrightarrow> status_position statuses n < length statuses \<and> statuses ! status_position statuses n = ak_status n"
  by (induction statuses) (auto simp: status_position_def)

text \<open>
  The keys of an account by status: with some statuses given, exactly the keys with one of them are
  listed, and those with an earlier status of the list come first.
\<close>

theorem keys_by_status:
  assumes "documented_key_sort (zc_sortedKeys env)" and "statuses \<noteq> []"
  shows "mset (filter_keys env statuses nodes) = filter_mset (\<lambda>n. ak_status n \<in> set statuses) (mset nodes)
    \<and> sorted (map (status_position statuses) (filter_keys env statuses nodes))
    \<and> (\<forall>n \<in> set (filter_keys env statuses nodes). status_position statuses n < length statuses \<and> statuses ! status_position statuses n = ak_status n)"
proof -
  have m: "mset (filter_keys env statuses nodes) = filter_mset (\<lambda>n. ak_status n \<in> set statuses) (mset nodes)"
    and "sorted (map (status_position statuses) (filter_keys env statuses nodes))"
    using assms by (auto simp: filter_keys_def sortNodesByStatus_def documented_key_sort_def)
  moreover have "n \<in> set (filter_keys env statuses nodes) \<Longrightarrow> ak_status n \<in> set statuses" for n
    using arg_cong [OF m, of "\<lambda>M. n \<in># M"] by simp
  ultimately show ?thesis by (simp add: status_position_nth)
qed

section \<open>Witnesses\<close>

definition sample_listed_account :: account where
  "sample_listed_account = \<lparr>av_address = ''erd1a'', av_balance = ''7'', av_nonce = 0, av_timestampMs = 0, av_timestamp = 0, av_shard = 1, av_ownerAddress = None,
     av_assets = None, av_deployedAt = None, av_deployTxHash = None, av_ownerAssets = None, av_isVerified = None, av_txCount = None,
     av_scrCount = None, av_transfersLast24h = None\<rparr>"

definition sample_account_history :: account_history where
  "sample_account_history = \<lparr>ah_address = [], ah_balance = [], ah_timestamp = 0, ah_isSender = None\<rparr>"

definition plain_account_env :: "'s account_env" where
  "plain_account_env = \<lparr>zc_consts = qe_consts sample_esdt_env, zc_providers = plain_providers_env [], zc_stake = plain_stake_env,
     zc_usernames = plain_username_env, zc_assets = sample_assets_env, zc_isAddressValid = \<lambda>_. True, zc_isSmartContract = \<lambda>_. False,
     zc_shard = \<lambda>_ _. Inr 1, zc_shardCount = io_return 3, zc_bech32Decode = Inr, zc_bech32Encode = Inr, zc_decodeCodeMetadata = \<lambda>_. None,
     zc_base64ToText = id, zc_base64ToHex = id, zc_base64ToBigInt = \<lambda>_. Inr 5, zc_padHex = id, zc_verifierUrl = Inr ''https://verifier'',
     zc_delegationContract = None, zc_auctionContract = Some ''auction'', zc_stakingContract = Some ''staking'', zc_transfersLast24hUrl = None,
     zc_get = \<lambda>_. io_return JNull, zc_getList = \<lambda>_. io_return [], zc_getCodeHash = \<lambda>_. io_return None, zc_getMostUsed = \<lambda>_. io_return [],
     zc_vmQuery = \<lambda>_ f _ args. io_return (if f = ''getQueueSize'' then Some [Some ''9''] else if args = [''k2''] then Some [Some ''4''] else None),
     zc_addressDetails = \<lambda>_. io_throw TypeError, zc_guardianData = \<lambda>_. io_return None, zc_accountsBulk = \<lambda>_. io_return [],
     zc_networkNonce = \<lambda>_. io_return 0, zc_indexAccountsCount = \<lambda>_. io_return 0, zc_indexAccount = \<lambda>_. io_return None,
     zc_indexAccounts = \<lambda>_ _. io_return [], zc_indexAccountsForAddresses = \<lambda>_. io_return [], zc_indexScDeploy = \<lambda>_. io_return None,
     zc_indexTransactionTime = \<lambda>_. io_return None, zc_indexDeploys = \<lambda>_ _. io_return [], zc_indexDeploysCount = \<lambda>_. io_return 0,
     zc_indexContracts = \<lambda>_ _. io_return [], zc_indexContractsCount = \<lambda>_. io_return 0, zc_indexHistory = \<lambda>_ _ _. io_return [],
     zc_indexHistoryCount = \<lambda>_ _. io_return 0, zc_indexTokenHistory = \<lambda>_ _ _ _. io_return [], zc_indexTokenHistoryCount = \<lambda>_ _ _. io_return 0,
     zc_indexEsdtHistory = \<lambda>_ _ _. io_return [], zc_indexEsdtHistoryCount = \<lambda>_ _. io_return 0, zc_transfersCount = \<lambda>_. io_return 2,
     zc_processAccount = io_return, zc_verifiedAccounts = \<lambda>_. io_return None, zc_getOrSetCount = \<lambda>_ m _. m, zc_getOrSetNumber = \<lambda>_ m _. m,
     zc_getOrSetText = \<lambda>_ m _. m, zc_getOrSetFlag = \<lambda>_ m _. m, zc_getOrSetAccounts = \<lambda>_ _ _. io_return [sample_listed_account],
     zc_getOrSetMostUsed = \<lambda>_ m _. m, zc_mergeAccount = \<lambda>d. sample_listed_account\<lparr>av_address := xi_address d\<rparr>, zc_mergeHistory = \<lambda>_. sample_account_history,
     zc_mergeEsdtHistory = \<lambda>_. account_history.extend sample_account_history (account_esdt_history.fields [] None), zc_sortedKeys = sort_key,
     zc_sortedUpgrades = \<lambda>c xs. rev (sort_key c xs)\<rparr>"

abbreviation sample_account_env :: "unit account_env" where
  "sample_account_env \<equiv> plain_account_env"

theorem inactive_nodes_of_states_witness:
  "getInactiveNodesBuffers sample_account_env (Some (map Some [''staked'', ''k1'', ''notStaked'', ''k2'', ''k3'', ''queued'', ''k4''])) = Inr [''k2'', ''k3'']"
proof -
  have "listed_states sample_account_env id [(''staked'', [''k1'']), (''notStaked'', [''k2'', ''k3'']), (''queued'', [''k4''])]"
    by (simp add: listed_states_def plain_account_env_def is_status_def node_status_raw_def)
  from inactive_nodes_of_states [OF this] show ?thesis by (simp add: state_cells_def)
qed

theorem queue_positions_witness:
  "\<exists>nodes. updateQueuedNodes sample_account_env [new_account_key\<lparr>ak_blsKey := ''k1'', ak_status := ''queued''\<rparr>, new_account_key\<lparr>ak_blsKey := ''k2'', ak_status := ''queued''\<rparr>] ()
      = (Inr nodes, ()) \<and> map ak_queueIndex nodes = [Some ''4'', None]"
proof -
  let ?nodes = "[new_account_key\<lparr>ak_blsKey := ''k1'', ak_status := ''queued''\<rparr>, new_account_key\<lparr>ak_blsKey := ''k2'', ak_status := ''queued''\<rparr>]"
  have keys: "[''k1'', ''k2''] = map ak_blsKey (filter (\<lambda>n. ak_status n = ''queued'') ?nodes)" by (simp add: new_account_key_def)
  have staking: "truthy (zc_stakingContract sample_account_env)" by (simp add: plain_account_env_def)
  have amount: "zc_vmQuery sample_account_env (the (zc_stakingContract sample_account_env)) ''getQueueSize'' None [] () = (Inr (Some (Some ''9'' # [])), ())"
    by (simp add: plain_account_env_def io_return_def)
  have answers: "io_all (\<lambda>key. zc_vmQuery sample_account_env (the (zc_stakingContract sample_account_env)) ''getQueueIndex'' (zc_auctionContract sample_account_env) [key])
      [''k1'', ''k2''] () = (Inr [None, Some [Some ''4'']], ())"
    by (simp add: plain_account_env_def io_simps)
  have "updateQueuedNodes sample_account_env ?nodes ()
      = (Inr (map (queued_as (zc_base64ToText sample_account_env ''9'') (map_of (zip [''k1'', ''k2''] (present_answers sample_account_env [None, Some [Some ''4'']])))) ?nodes), ())"
    by (rule queue_positions [OF staking keys _ amount _ answers]) (simp_all add: readable_answer_def new_account_key_def)
  then show ?thesis by (simp add: present_answers_def queued_as_def new_account_key_def plain_account_env_def)
qed

definition no_account_query :: account_query_options where
  "no_account_query = \<lparr>aq_addresses = None, aq_ownerAddress = None, aq_sort = None, aq_order = None, aq_isSmartContract = None, aq_withOwnerAssets = None,
     aq_withDeployInfo = None, aq_withTxCount = None, aq_withScrCount = None, aq_name = None, aq_tags = None, aq_excludeTags = None,
     aq_hasAssets = None, aq_search = None, aq_withBalance = None\<rparr>"

theorem cached_page_ignores_options_witness:
  "accountsPage sample_account_env \<lparr>qp_from = 0, qp_size = 1, qp_before = None, qp_after = None\<rparr> (no_account_query\<lparr>aq_withTxCount := Some True\<rparr>) ()
    = (Inr [sample_listed_account], ())"
proof -
  have cache: "documented_page_cache sample_account_env (\<lambda>_ _. Some [sample_listed_account])"
    by (simp add: documented_page_cache_def plain_account_env_def io_return_def)
  have first: "accountsPage sample_account_env \<lparr>qp_from = 0, qp_size = 1, qp_before = None, qp_after = None\<rparr> no_account_query () = (Inr [sample_listed_account], ())"
    by (simp add: accountsPage_def no_account_query_def account_query_isSet_def plain_account_env_def Let_def io_return_def)
  show ?thesis
    by (rule cached_page_ignores_options [OF cache _ _ first]) (simp_all add: no_account_query_def account_query_isSet_def)
qed

theorem deferred_payments_bounds_witness:
  "\<exists>payments. deferred_payments sample_account_env 10 1 [Some ''a'', Some ''b'', Some ''c''] = Inr payments \<and> length payments = 2
    \<and> (\<forall>p \<in> set payments. 0 \<le> df_secondsLeft p)"
proof -
  obtain payments where run: "deferred_payments sample_account_env 10 1 [Some ''a'', Some ''b'', Some ''c''] = Inr payments"
    by (simp add: plain_account_env_def)
  from deferred_payments_bounds [OF this] run show ?thesis by simp
qed

theorem keys_by_status_witness:
  "mset (filter_keys sample_account_env [''queued''] [new_account_key\<lparr>ak_status := ''staked''\<rparr>, new_account_key\<lparr>ak_status := ''queued''\<rparr>])
    = {#new_account_key\<lparr>ak_status := ''queued''\<rparr>#}"
proof -
  have "documented_key_sort (zc_sortedKeys sample_account_env)" by (simp add: documented_key_sort_def plain_account_env_def)
  from keys_by_status [OF this, of "[''queued'']" "[new_account_key\<lparr>ak_status := ''staked''\<rparr>, new_account_key\<lparr>ak_status := ''queued''\<rparr>]"]
  show ?thesis by (simp add: new_account_key_def)
qed

end
