(* ===== verification/LockedAssets.thy ===== *)
theory LockedAssets imports MexSettings Esdts Complex_Main "HOL-Library.Signed_Division" begin

text \<open>
  Locked tokens of the exchange (\<open>src/common/locked-asset/locked-asset.service.ts\<close>): when the parts of a
  locked token are unlocked. Percentages are rationals; \<open>lo_fl\<close> rounds the result of an operation on floating
  point numbers.
\<close>

record unlock_milestone =
  um_remainingEpochs :: int
  um_percent :: rat

record locked_tokens =
  lt_lkmex :: "string option"
  lt_xmex :: "string option"

text \<open>
  The services. \<open>lo_schedule\<close> and \<open>lo_unlockEpoch\<close> decode the attributes of the two kinds of locked tokens
  (\<open>LockedAssetAttributes\<close> and \<open>LockedTokenAttributes\<close> of the SDK), \<open>lo_getOrSet...\<close> are \<open>getOrSet\<close> of the cache.
\<close>

record 's locked_env =
  lo_consts :: time_consts
  lo_mex :: "'s mex_env"
  lo_vmQuery :: "string \<Rightarrow> string \<Rightarrow> ('s, string option list option) io"
  lo_base64ToHex :: "string \<Rightarrow> string"
  lo_schedule :: "bool \<Rightarrow> string \<Rightarrow> (int \<times> rat) list option res"
  lo_unlockEpoch :: "string \<Rightarrow> int option res"
  lo_metaChainEpoch :: "('s, int) io"
  lo_getOrSetNumber :: "string \<Rightarrow> ('s, int option) io \<Rightarrow> int \<Rightarrow> ('s, int option) io"
  lo_getOrSetEpoch :: "string \<Rightarrow> ('s, int option) io \<Rightarrow> int \<Rightarrow> int \<Rightarrow> ('s, int option) io"
  lo_getOrSetLocked :: "string \<Rightarrow> ('s, locked_tokens) io \<Rightarrow> int \<Rightarrow> ('s, locked_tokens option) io"
  lo_fl :: "rat \<Rightarrow> rat"

section \<open>The contract and the epochs\<close>

text \<open>\<open>parseInt(s, 16)\<close>.\<close>

definition parseHex :: "string \<Rightarrow> int option" where
  "parseHex s =
     (let t = dropWhile is_space s;
          negative = (t \<noteq> [] \<and> hd t = CHR ''-'');
          t = (if t \<noteq> [] \<and> (hd t = CHR ''-'' \<or> hd t = CHR ''+'') then tl t else t);
          t = (if take 2 t \<in> {''0x'', ''0X''} then drop 2 t else t)
      in map_option (\<lambda>i. if negative then - i else i) (parse_base 16 (takeWhile (\<lambda>c. digit_value c < 16) t)))"

definition tokenNonce :: "string \<Rightarrow> int option" where
  "tokenNonce tokenID = Option.bind (nth_opt (split_on CHR ''-'' tokenID) 2) parseHex"

text \<open>A number that the locked asset contract gives; zero without settings or without a value.\<close>

definition contract_number :: "'s locked_env \<Rightarrow> string \<Rightarrow> ('s, int option) io" where
  "contract_number env function =
     io_bind (getSettings (lo_mex env)) (\<lambda>settings. case settings of
       None \<Rightarrow> io_return (Some 0)
     | Some x \<Rightarrow> io_bind (lo_vmQuery env (mx_lockedAssetContract x) function) (\<lambda>response. case response of
         None \<Rightarrow> io_throw TypeError
       | Some cells \<Rightarrow> (case cells of
           Some encoded # _ \<Rightarrow> io_return (if encoded = [] then Some 0 else parseHex (lo_base64ToHex env encoded))
         | _ \<Rightarrow> io_return (Some 0))))"

definition getExtendedAttributesActivationNonceRaw :: "'s locked_env \<Rightarrow> ('s, int option) io" where
  "getExtendedAttributesActivationNonceRaw env = contract_number env ''getExtendedAttributesActivationNonce''"

definition getExtendedAttributesActivationNonce :: "'s locked_env \<Rightarrow> ('s, int option) io" where
  "getExtendedAttributesActivationNonce env =
     (let info = CacheInfo_ExtendedAttributesActivationNonce (lo_consts env)
      in lo_getOrSetNumber env (ci_key info) (getExtendedAttributesActivationNonceRaw env) (ci_ttl info))"

definition getInitEpochRaw :: "'s locked_env \<Rightarrow> ('s, int option) io" where
  "getInitEpochRaw env = contract_number env ''getInitEpoch''"

definition getInitEpoch :: "'s locked_env \<Rightarrow> ('s, int option) io" where
  "getInitEpoch env =
     (let info = CacheInfo_InitEpoch (lo_consts env)
      in lo_getOrSetEpoch env (ci_key info) (getInitEpochRaw env) (oneWeek (lo_consts env)) (ci_ttl info))"

definition getLockedTokensRaw :: "'s locked_env \<Rightarrow> ('s, locked_tokens) io" where
  "getLockedTokensRaw env =
     io_bind (getSettings (lo_mex env)) (\<lambda>settings. io_return (case settings of
       None \<Rightarrow> \<lparr>lt_lkmex = Some [], lt_xmex = Some []\<rparr>
     | Some x \<Rightarrow> \<lparr>lt_lkmex = mx_lockedAssetIdentifier x, lt_xmex = mx_lockedAssetIdentifierV2 x\<rparr>))"

definition getLockedTokens :: "'s locked_env \<Rightarrow> ('s, locked_tokens option) io" where
  "getLockedTokens env =
     (let info = CacheInfo_LockedTokenIDs (lo_consts env) in lo_getOrSetLocked env (ci_key info) (getLockedTokensRaw env) (ci_ttl info))"

definition getCurrentEpochCached :: "'s locked_env \<Rightarrow> ('s, int option) io" where
  "getCurrentEpochCached env =
     (let info = CacheInfo_CurrentEpoch (lo_consts env)
      in lo_getOrSetEpoch env (ci_key info) (io_bind (lo_metaChainEpoch env) (\<lambda>n. io_return (Some n))) (oneMinute (lo_consts env)) (ci_ttl info))"

section \<open>Milestones\<close>

text \<open>\<open>a % b\<close> has the sign of the dividend. \<open>None\<close> is not a number.\<close>

definition month_start :: "int \<Rightarrow> int \<Rightarrow> int" where
  "month_start initEpoch unlockEpoch = unlockEpoch - (unlockEpoch - initEpoch) smod 30"

definition getMonthStartEpoch :: "'s locked_env \<Rightarrow> int \<Rightarrow> ('s, int option) io" where
  "getMonthStartEpoch env unlockEpoch = io_bind (getInitEpoch env) (\<lambda>initEpoch. io_return (map_option (\<lambda>i. month_start i unlockEpoch) initEpoch))"

definition remaining_epochs :: "int \<Rightarrow> int \<Rightarrow> int \<Rightarrow> int" where
  "remaining_epochs currentEpoch unlockStartEpoch unlockEpoch =
     (if unlockEpoch \<le> unlockStartEpoch \<and> unlockEpoch \<le> currentEpoch then 0 else unlockStartEpoch + 30 - currentEpoch)"

definition getRemainingEpochs :: "'s locked_env \<Rightarrow> int \<Rightarrow> ('s, int option) io" where
  "getRemainingEpochs env unlockEpoch =
     io_bind (io_both (getCurrentEpochCached env) (getMonthStartEpoch env unlockEpoch)) (\<lambda>(currentEpoch, unlockStartEpoch).
       io_return (case (currentEpoch, unlockStartEpoch) of (Some c, Some s) \<Rightarrow> Some (remaining_epochs c s unlockEpoch) | _ \<Rightarrow> None))"

text \<open>
  The sums by the epochs that remain, as a dictionary whose keys are integers: they are listed in ascending
  order. What remains is at least zero, also when it is not a number.
\<close>

fun add_percent :: "'s locked_env \<Rightarrow> int \<Rightarrow> rat \<Rightarrow> (int \<times> rat) list \<Rightarrow> (int \<times> rat) list" where
  "add_percent env epoch percent [] = [(epoch, lo_fl env (0 + percent))]"
| "add_percent env epoch percent ((e, p) # rest) =
     (if epoch = e then (e, lo_fl env (p + percent)) # rest
      else if epoch < e then (epoch, lo_fl env (0 + percent)) # (e, p) # rest
      else (e, p) # add_percent env epoch percent rest)"

definition milestone_step :: "'s locked_env \<Rightarrow> bool \<Rightarrow> int \<times> rat \<Rightarrow> (int \<times> rat) list \<Rightarrow> ('s, (int \<times> rat) list) io" where
  "milestone_step env withActivationNonce = (\<lambda>(epoch, percent) aggregated.
     io_bind (getRemainingEpochs env epoch) (\<lambda>remaining.
       io_return (add_percent env (max 0 (coalesce remaining 0)) (lo_fl env (if withActivationNonce then percent / 1000 else percent)) aggregated)))"

definition getUnlockMilestones :: "'s locked_env \<Rightarrow> (int \<times> rat) list \<Rightarrow> bool \<Rightarrow> ('s, unlock_milestone list) io" where
  "getUnlockMilestones env unlockSchedule withActivationNonce =
     io_bind (io_fold (milestone_step env withActivationNonce) unlockSchedule []) (\<lambda>aggregated.
       io_return (map (\<lambda>(epoch, percent). \<lparr>um_remainingEpochs = epoch, um_percent = percent\<rparr>) aggregated))"

definition getLkmexUnlockSchedule :: "'s locked_env \<Rightarrow> string \<Rightarrow> string \<Rightarrow> ('s, unlock_milestone list option) io" where
  "getLkmexUnlockSchedule env identifier attributes =
     io_bind (getLockedTokens env) (\<lambda>lockedTokenIds.
       if \<not> truthy (Option.bind lockedTokenIds lt_lkmex) \<or> \<not> startsWith identifier (the (lt_lkmex (the lockedTokenIds))) then io_return None
       else io_bind (getExtendedAttributesActivationNonce env) (\<lambda>activation.
         let withActivationNonce = (case (tokenNonce identifier, activation) of (Some n, Some a) \<Rightarrow> n \<ge> a | _ \<Rightarrow> False)
         in io_bind (io_lift (lo_schedule env withActivationNonce attributes)) (\<lambda>schedule. case schedule of
              None \<Rightarrow> io_return None
            | Some xs \<Rightarrow> io_bind (getUnlockMilestones env xs withActivationNonce) (\<lambda>milestones. io_return (Some milestones)))))"

definition getXmexUnlockEpoch :: "'s locked_env \<Rightarrow> string \<Rightarrow> string \<Rightarrow> ('s, int option) io" where
  "getXmexUnlockEpoch env identifier attributes =
     io_bind (getLockedTokens env) (\<lambda>lockedTokenIds.
       if \<not> truthy (Option.bind lockedTokenIds lt_xmex) \<or> \<not> startsWith identifier (the (lt_xmex (the lockedTokenIds))) then io_return None
       else io_lift (lo_unlockEpoch env attributes))"

section \<open>Properties\<close>

lemma add_percent_epochs: "fst ` set (add_percent env e p xs) = insert e (fst ` set xs)"
  by (induction env e p xs rule: add_percent.induct) (simp_all add: insert_commute split: if_split)

lemma add_percent_sorted: "sorted_wrt (<) (map fst xs) \<Longrightarrow> sorted_wrt (<) (map fst (add_percent env e p xs))"
proof (induction xs)
  case (Cons x xs)
  obtain a b where x: "x = (a, b)" by (cases x)
  have "fst y \<in> insert e (fst ` set xs)" if "y \<in> set (add_percent env e p xs)" for y
    using imageI [OF that, of fst] by (simp add: add_percent_epochs)
  with Cons show ?case by (fastforce simp: x)
qed simp

lemma add_percent_lookup:
  "sorted_wrt (<) (map fst xs) \<Longrightarrow>
     map_of (add_percent env e p xs) = (map_of xs)(e \<mapsto> lo_fl env (coalesce (map_of xs e) 0 + p))"
proof (induction xs)
  case (Cons x xs)
  obtain a b where x: "x = (a, b)" by (cases x)
  have "map_of xs e = None" if "e < a"
    using Cons.prems that by (force simp: x map_of_eq_None_iff)
  with Cons show ?case by (auto simp: x fun_eq_iff)
qed (simp add: fun_eq_iff)

lemma add_percent_values:
  "(k, q) \<in> set (add_percent env e p xs) \<Longrightarrow> (k, q) \<in> set xs \<or> q = lo_fl env (0 + p) \<or> (\<exists>r. (e, r) \<in> set xs \<and> q = lo_fl env (r + p))"
  by (induction env e p xs rule: add_percent.induct) (auto split: if_splits)

lemma add_percent_sum:
  assumes "lo_fl env p = p" and "\<And>k q. (k, q) \<in> set xs \<Longrightarrow> lo_fl env (q + p) = q + p"
  shows "sum_list (map snd (add_percent env e p xs)) = p + sum_list (map snd xs)"
  using assms(2)
proof (induction xs)
  case (Cons x xs)
  obtain a b where x: "x = (a, b)" by (cases x)
  have "lo_fl env (b + p) = b + p" using Cons.prems [of a b] by (simp add: x)
  moreover have "sum_list (map snd (add_percent env e p xs)) = p + sum_list (map snd xs)"
    using Cons.prems by (intro Cons.IH) auto
  ultimately show ?case by (simp add: x assms(1))
qed (simp add: assms(1))

text \<open>
  The epochs after which a part is unlocked, with the current epoch and the first one of the exchange: none when the epoch of the part begins a
  month of 30 epochs and is over, and otherwise those until the end of its month, if any are left.
\<close>

definition unlock_delay :: "int \<Rightarrow> int \<Rightarrow> int \<Rightarrow> int" where
  "unlock_delay current first epoch =
     (if 30 dvd epoch - first \<and> epoch \<le> current then 0 else max 0 (first + 30 * ((epoch - first) div 30 + 1) - current))"

text \<open>What the parts of one delay add up to, every sum rounded.\<close>

definition part_sum :: "'s locked_env \<Rightarrow> bool \<Rightarrow> int \<Rightarrow> int \<Rightarrow> (int \<times> rat) list \<Rightarrow> int \<Rightarrow> rat" where
  "part_sum env thousandths current first schedule delay =
     foldl (\<lambda>sum p. lo_fl env (sum + lo_fl env (if thousandths then p / 1000 else p))) 0
       (map snd (filter (\<lambda>(epoch, _). unlock_delay current first epoch = delay) schedule))"

lemma month_start_div: "first \<le> epoch \<Longrightarrow> month_start first epoch = first + 30 * ((epoch - first) div 30)"
proof -
  assume "first \<le> epoch"
  then have "(epoch - first) smod 30 = (epoch - first) mod 30"
    by (cases "epoch = first") (simp_all add: signed_modulo_int_def)
  moreover have "epoch - first = 30 * ((epoch - first) div 30) + (epoch - first) mod 30" by simp
  ultimately show ?thesis unfolding month_start_def by linarith
qed

lemma remaining_delay:
  assumes "first \<le> epoch"
  shows "max 0 (remaining_epochs current (month_start first epoch) epoch) = unlock_delay current first epoch"
proof -
  have "epoch \<le> month_start first epoch \<longleftrightarrow> 30 dvd epoch - first"
  proof
    assume "epoch \<le> month_start first epoch"
    then have "epoch - first \<le> 30 * ((epoch - first) div 30)" using month_start_div [OF assms] by linarith
    then have "(epoch - first) mod 30 = 0"
      using pos_mod_sign [of 30 "epoch - first"] minus_mult_div_eq_mod [of "epoch - first" 30] by linarith
    then show "30 dvd epoch - first" by (simp add: dvd_eq_mod_eq_0)
  next
    assume "30 dvd epoch - first"
    then have "30 * ((epoch - first) div 30) = epoch - first" by (rule dvd_mult_div_cancel)
    then show "epoch \<le> month_start first epoch" using month_start_div [OF assms] by linarith
  qed
  then show ?thesis
    by (simp add: remaining_epochs_def unlock_delay_def month_start_div [OF assms] distrib_left algebra_simps)
qed

definition add_part :: "'s locked_env \<Rightarrow> bool \<Rightarrow> int \<Rightarrow> int \<Rightarrow> int \<times> rat \<Rightarrow> (int \<times> rat) list \<Rightarrow> (int \<times> rat) list" where
  "add_part env thousandths current first = (\<lambda>(epoch, p).
     add_percent env (unlock_delay current first epoch) (lo_fl env (if thousandths then p / 1000 else p)))"

lemma milestones_fold:
  assumes "getCurrentEpochCached env = io_return (Some current)" and "getInitEpoch env = io_return (Some first)"
    and "\<forall>(epoch, p) \<in> set schedule. first \<le> epoch"
  shows "io_fold (milestone_step env w) schedule acc = io_return (fold (add_part env w current first) schedule acc)"
  using assms(3)
proof (induction schedule arbitrary: acc)
  case (Cons x schedule)
  obtain epoch p where x: "x = (epoch, p)" by (cases x)
  have "first \<le> epoch" using Cons.prems x by simp
  then have "milestone_step env w x acc = io_return (add_part env w current first x acc)"
    by (simp add: x fun_eq_iff milestone_step_def add_part_def getRemainingEpochs_def getMonthStartEpoch_def assms(1,2) remaining_delay io_simps)
  with Cons show ?case by simp
qed simp

text \<open>The sums are in the order of their delays, and there is one for every delay of the schedule.\<close>

lemma parts_in_order:
  "sorted_wrt (<) (map fst (fold (add_part env w current first) schedule []))
   \<and> fst ` set (fold (add_part env w current first) schedule []) = unlock_delay current first ` fst ` set schedule
   \<and> (\<forall>delay \<in> unlock_delay current first ` fst ` set schedule.
        map_of (fold (add_part env w current first) schedule []) delay = Some (part_sum env w current first schedule delay))"
proof (induction schedule rule: rev_induct)
  case (snoc x schedule)
  obtain epoch p where x: "x = (epoch, p)" by (cases x)
  let ?acc = "fold (add_part env w current first) schedule []" and ?e = "unlock_delay current first epoch"
  have sorted: "sorted_wrt (<) (map fst ?acc)" and keys: "fst ` set ?acc = unlock_delay current first ` fst ` set schedule"
    and sums: "\<forall>delay \<in> unlock_delay current first ` fst ` set schedule. map_of ?acc delay = Some (part_sum env w current first schedule delay)"
    using snoc by simp_all
  have absent: "coalesce (map_of ?acc ?e) 0 = part_sum env w current first schedule ?e"
  proof (cases "?e \<in> fst ` set ?acc")
    case True
    then have "map_of ?acc ?e = Some (part_sum env w current first schedule ?e)"
      unfolding keys by (rule bspec [OF sums])
    then show ?thesis by simp
  next
    case False
    then have "map_of ?acc ?e = None" by (simp add: map_of_eq_None_iff)
    moreover have "unlock_delay current first f \<noteq> ?e" if "(f, q) \<in> set schedule" for f q
      using False that unfolding keys by (metis fst_conv image_eqI)
    then have "filter (\<lambda>(f, _). unlock_delay current first f = ?e) schedule = []"
      by (auto simp: filter_empty_conv)
    ultimately show ?thesis by (simp add: part_sum_def)
  qed
  define q where "q = lo_fl env (if w then p / 1000 else p)"
  have step: "fold (add_part env w current first) (schedule @ [x]) [] = add_percent env ?e q ?acc"
    by (simp add: x q_def add_part_def)
  have part: "part_sum env w current first (schedule @ [x]) d
      = (if d = ?e then lo_fl env (part_sum env w current first schedule ?e + q) else part_sum env w current first schedule d)" for d
    by (simp add: part_sum_def x q_def)
  have lookup: "map_of (add_percent env ?e q ?acc) = (map_of ?acc)(?e \<mapsto> lo_fl env (part_sum env w current first schedule ?e + q))"
    using add_percent_lookup [OF sorted, of env ?e q] absent by simp
  have delays: "unlock_delay current first ` fst ` set (schedule @ [x]) = insert ?e (unlock_delay current first ` fst ` set schedule)"
    by (simp add: x)
  show ?case unfolding step delays part lookup add_percent_epochs keys
  proof (intro conjI ballI refl)
    show "sorted_wrt (<) (map fst (add_percent env ?e q ?acc))" by (rule add_percent_sorted [OF sorted])
  next
    fix d assume "d \<in> insert ?e (unlock_delay current first ` fst ` set schedule)"
    then have "d = ?e \<or> map_of ?acc d = Some (part_sum env w current first schedule d)" using bspec [OF sums] by (elim insertE) simp_all
    then show "((map_of ?acc)(?e \<mapsto> lo_fl env (part_sum env w current first schedule ?e + q))) d
      = Some (if d = ?e then lo_fl env (part_sum env w current first schedule ?e + q) else part_sum env w current first schedule d)"
      by auto
  qed
qed simp

lemma parts_sum_up:
  assumes "\<And>n. 0 \<le> n \<Longrightarrow> n \<le> 2 ^ 53 \<Longrightarrow> lo_fl env (of_int n) = of_int n"
    and "\<forall>(epoch, n) \<in> set parts. 0 \<le> n" and "sum_list (map snd parts) \<le> 2 ^ 53"
  shows "(\<forall>(d, q) \<in> set (fold (add_part env False current first) (map (\<lambda>(epoch, n). (epoch, of_int n)) parts) []). \<exists>n \<ge> 0. q = of_int n)
    \<and> sum_list (map snd (fold (add_part env False current first) (map (\<lambda>(epoch, n). (epoch, of_int n)) parts) [])) = of_int (sum_list (map snd parts))"
  using assms(2,3)
proof (induction parts rule: rev_induct)
  case (snoc x parts)
  obtain epoch m where x: "x = (epoch, m)" by (cases x)
  let ?acc = "fold (add_part env False current first) (map (\<lambda>(epoch, n). (epoch, of_int n)) parts) []"
  have "0 \<le> sum_list (map snd parts)" using snoc.prems(1) by (intro sum_list_nonneg) auto
  moreover have bound: "0 \<le> m" "sum_list (map snd parts) + m \<le> 2 ^ 53" using snoc.prems by (auto simp: x)
  ultimately have m: "m \<le> 2 ^ 53" and "sum_list (map snd parts) \<le> 2 ^ 53" by linarith+
  then have acc: "\<forall>(d, q) \<in> set ?acc. \<exists>n \<ge> 0. q = of_int n" "sum_list (map snd ?acc) = of_int (sum_list (map snd parts))"
    using snoc by auto
  have each: "\<exists>n \<ge> 0. q = of_int n \<and> n + m \<le> 2 ^ 53" if member: "(d, q) \<in> set ?acc" for d q
  proof -
    obtain n where n: "0 \<le> n" "q = of_int n" using acc(1) member by fast
    obtain xs ys where "?acc = xs @ (d, q) # ys" using split_list [OF member] by blast
    moreover have "0 \<le> r" if "r \<in> set (map snd ?acc)" for r using that acc(1) by fastforce
    ultimately have "q \<le> sum_list (map snd ?acc)"
      using sum_list_nonneg [of "map snd xs"] sum_list_nonneg [of "map snd ys"] by fastforce
    then have "n \<le> sum_list (map snd parts)" using n acc(2) by simp
    with n bound show ?thesis by auto
  qed
  have exact: "lo_fl env (of_int m) = of_int m" "\<And>d q. (d, q) \<in> set ?acc \<Longrightarrow> lo_fl env (q + of_int m) = q + of_int m"
    using assms(1) bound(1) m each by (simp, metis add_increasing2 of_int_add add.commute add_nonneg_nonneg)
  have step: "fold (add_part env False current first) (map (\<lambda>(epoch, n). (epoch, of_int n)) (parts @ [x])) []
      = add_percent env (unlock_delay current first epoch) (of_int m) ?acc"
    by (simp add: x add_part_def exact(1))
  have "\<exists>n \<ge> 0. q = of_int n" if member: "(d, q) \<in> set (add_percent env (unlock_delay current first epoch) (of_int m) ?acc)" for d q
  proof -
    consider (old) "(d, q) \<in> set ?acc" | (first) "q = of_int m" | (more) r e where "(e, r) \<in> set ?acc" "q = r + of_int m"
      using add_percent_values [OF member] exact by auto
    then show ?thesis
    proof cases
      case old
      then show ?thesis using acc(1) by blast
    next
      case first
      then show ?thesis using bound(1) by blast
    next
      case more
      then show ?thesis using each bound(1) by (metis add_nonneg_nonneg of_int_add)
    qed
  qed
  moreover have "sum_list (map snd (add_percent env (unlock_delay current first epoch) (of_int m) ?acc)) = of_int m + sum_list (map snd ?acc)"
    by (rule add_percent_sum [OF exact])
  ultimately show ?case unfolding step using acc(2) by (auto simp: x)
qed simp

text \<open>
  C24. The milestones of a locked token, with the current epoch and the first epoch of the exchange at hand and no part before the first epoch: one for
  every delay that a part of the schedule has, in ascending order of the delays, where a part whose epoch begins a month of 30 epochs and is over has none, and every other one
  those until the end of its month, cut off at zero. A milestone unlocks the rounded sum of the parts with its
  delay, a thousandth of each for the attributes with the larger precision. For whole percentages (the other attributes) whose sum
  a floating point number represents exactly, the milestones together unlock what the schedule says.
\<close>

theorem milestones_keep_schedule:
  assumes "getCurrentEpochCached env = io_return (Some current)" and "getInitEpoch env = io_return (Some first)"
    and "\<forall>(epoch, p) \<in> set schedule. first \<le> epoch"
  shows "\<exists>milestones. getUnlockMilestones env schedule withActivationNonce s = (Inr milestones, s)
    \<and> map um_remainingEpochs milestones = sorted_list_of_set (unlock_delay current first ` fst ` set schedule)
    \<and> (\<forall>m \<in> set milestones. um_percent m = part_sum env withActivationNonce current first schedule (um_remainingEpochs m))
    \<and> (\<forall>parts. \<not> withActivationNonce \<longrightarrow> schedule = map (\<lambda>(epoch, n). (epoch, of_int n)) parts \<longrightarrow> (\<forall>(epoch, n) \<in> set parts. 0 \<le> n)
         \<longrightarrow> sum_list (map snd parts) \<le> 2 ^ 53 \<longrightarrow> (\<forall>n. 0 \<le> n \<longrightarrow> n \<le> 2 ^ 53 \<longrightarrow> lo_fl env (of_int n) = of_int n)
         \<longrightarrow> sum_list (map um_percent milestones) = of_int (sum_list (map snd parts)))"
proof -
  let ?sums = "fold (add_part env withActivationNonce current first) schedule []"
  let ?milestones = "map (\<lambda>(epoch, percent). \<lparr>um_remainingEpochs = epoch, um_percent = percent\<rparr>) ?sums"
  have run: "getUnlockMilestones env schedule withActivationNonce s = (Inr ?milestones, s)"
    by (simp add: getUnlockMilestones_def milestones_fold [OF assms] io_simps)
  have fields: "map um_remainingEpochs ?milestones = map fst ?sums" "map um_percent ?milestones = map snd ?sums"
    by (simp_all add: comp_def split_def)
  note order = parts_in_order [of env withActivationNonce current first schedule]
  have "sorted_list_of_set (set (map fst ?sums)) = map fst ?sums"
    using order by (intro sorted_list_of_set.idem_if_sorted_distinct) (simp_all only: strict_sorted_iff)
  then have delays: "map um_remainingEpochs ?milestones = sorted_list_of_set (unlock_delay current first ` fst ` set schedule)"
    using order fields(1) by (simp only: set_map)
  have percents: "um_percent m = part_sum env withActivationNonce current first schedule (um_remainingEpochs m)" if member: "m \<in> set ?milestones" for m
  proof -
    obtain d q where m: "(d, q) \<in> set ?sums" "m = \<lparr>um_remainingEpochs = d, um_percent = q\<rparr>" using member by auto
    have "distinct (map fst ?sums)" using order by (auto simp: strict_sorted_iff)
    then have "map_of ?sums d = Some q" using m(1) by (rule map_of_is_SomeI)
    moreover have "d \<in> unlock_delay current first ` fst ` set schedule" using m(1) order by force
    ultimately show ?thesis using order m(2) by auto
  qed
  have "sum_list (map um_percent ?milestones) = of_int (sum_list (map snd parts))"
    if "\<not> withActivationNonce" "schedule = map (\<lambda>(epoch, n). (epoch, of_int n)) parts" "\<forall>(epoch, n) \<in> set parts. 0 \<le> n"
      "sum_list (map snd parts) \<le> 2 ^ 53" "\<forall>n. 0 \<le> n \<longrightarrow> n \<le> 2 ^ 53 \<longrightarrow> lo_fl env (of_int n) = of_int n" for parts
    using parts_sum_up [of env parts current first] that unfolding fields by auto
  then show ?thesis using run delays percents by (intro exI [of _ ?milestones]) blast
qed

text \<open>
  A month of the exchange starts at most 29 epochs before an epoch in it, and a whole number of months
  after the first epoch, provided the epoch is not before that one.
\<close>

theorem month_start_bounds:
  assumes "initEpoch \<le> unlockEpoch"
  shows "month_start initEpoch unlockEpoch \<le> unlockEpoch \<and> unlockEpoch < month_start initEpoch unlockEpoch + 30
    \<and> 30 dvd month_start initEpoch unlockEpoch - initEpoch"
proof -
  define d where "d = unlockEpoch - initEpoch"
  have "0 \<le> d" using assms by (simp add: d_def)
  then have "d smod 30 = d mod 30" by (cases "d = 0") (simp_all add: signed_modulo_int_def)
  moreover have "unlockEpoch = initEpoch + d" by (simp add: d_def)
  ultimately show ?thesis by (simp add: month_start_def)
qed

section \<open>Witnesses\<close>

theorem month_start_bounds_witness:
  "month_start 240 (305::int) \<le> 305 \<and> 305 < month_start 240 305 + 30 \<and> 30 dvd month_start 240 305 - 240"
  by (rule month_start_bounds) simp

definition sample_mex_env :: "'s mex_env" where
  "sample_mex_env = \<lparr>me_consts = doc_consts, me_distinct = remdups, me_isExchangeEnabled = False, me_exchangeServiceUrl = None,
     me_pairCountQuery = io_return None, me_settingsQuery = \<lambda>_. io_return None, me_getOrSet = \<lambda>_ action _ _. action,
     me_setRemoteSettings = \<lambda>_ _ _. io_return (), me_setLocalSettings = \<lambda>_ _ _. io_return (), me_setRemoteContracts = \<lambda>_ _ _. io_return (),
     me_getLocalContracts = \<lambda>_. io_return None, me_setLocalContracts = \<lambda>_ _ _. io_return (), me_getWegldId = io_return None,
     me_setWegldId = \<lambda>_. io_return ()\<rparr>"

definition sample_locked_env :: "'s locked_env" where
  "sample_locked_env = \<lparr>lo_consts = doc_consts, lo_mex = sample_mex_env, lo_vmQuery = \<lambda>_ _. io_return None, lo_base64ToHex = \<lambda>s. s,
     lo_schedule = \<lambda>_ _. Inr None, lo_unlockEpoch = \<lambda>_. Inr None, lo_metaChainEpoch = io_return 310,
     lo_getOrSetNumber = \<lambda>_ action _. action, lo_getOrSetEpoch = \<lambda>_ action _ _. action,
     lo_getOrSetLocked = \<lambda>_ action _. io_bind action (\<lambda>r. io_return (Some r)), lo_fl = \<lambda>x. x\<rparr>"

text \<open>
  At epoch 310 and with the first epoch at zero, two of five parts are free, two are in the month that ends at
  330, and one is in a later month.
\<close>

theorem milestones_keep_schedule_witness:
  "\<exists>parts. getUnlockMilestones sample_locked_env [(250, 10), (270, 20), (305, 30), (400, 30), (301, 10)] False () = (Inr parts, ())
    \<and> map um_remainingEpochs parts = [0, 20, 110] \<and> sum_list (map um_percent parts) = 100"
proof -
  define schedule :: "(int \<times> rat) list" where "schedule = [(250, 10), (270, 20), (305, 30), (400, 30), (301, 10)]"
  let ?parts = "[(250, 10), (270, 20), (305, 30), (400, 30), (301, 10)] :: (int \<times> int) list"
  have epochs: "getCurrentEpochCached sample_locked_env = io_return (Some 310)" "getInitEpoch sample_locked_env = io_return (Some 0)"
    by (simp_all add: fun_eq_iff getCurrentEpochCached_def getInitEpoch_def getInitEpochRaw_def contract_number_def getSettings_def
        sample_locked_env_def sample_mex_env_def Let_def io_simps)
  have "unlock_delay 310 0 ` fst ` set schedule = {0, 20, 110}" by (auto simp: unlock_delay_def schedule_def)
  moreover have "sorted_list_of_set {0, 20, 110 :: int} = [0, 20, 110]" by simp
  moreover have "schedule = map (\<lambda>(epoch, n). (epoch, of_int n)) ?parts" by (simp add: schedule_def)
  moreover have "\<forall>(epoch, p) \<in> set schedule. 0 \<le> epoch" by (simp add: schedule_def)
  then obtain parts where parts: "getUnlockMilestones sample_locked_env schedule False () = (Inr parts, ())"
    "map um_remainingEpochs parts = sorted_list_of_set (unlock_delay 310 0 ` fst ` set schedule)"
    "\<forall>ps. \<not> False \<longrightarrow> schedule = map (\<lambda>(epoch, n). (epoch, of_int n)) ps \<longrightarrow> (\<forall>(epoch, n) \<in> set ps. 0 \<le> n)
       \<longrightarrow> sum_list (map snd ps) \<le> 2 ^ 53 \<longrightarrow> (\<forall>n. 0 \<le> n \<longrightarrow> n \<le> 2 ^ 53 \<longrightarrow> lo_fl (sample_locked_env :: unit locked_env) (of_int n) = of_int n)
       \<longrightarrow> sum_list (map um_percent parts) = of_int (sum_list (map snd ps))"
    by (rule exE [OF milestones_keep_schedule [OF epochs, of schedule False "()"]]) (elim conjE, rule that)
  moreover have "sum_list (map um_percent parts) = of_int (sum_list (map snd ?parts))"
    by (rule parts(3) [rule_format]) (auto simp: sample_locked_env_def schedule_def)
  ultimately show ?thesis by (auto simp: schedule_def)
qed

end
