(* ===== verification/Nfts.thy ===== *)
theory Nfts imports EsdtAddress Tokens LockedAssets "HOL-Library.Sublist" begin

text \<open>
  NFTs (\<open>src/endpoints/nfts/nft.service.ts\<close>): the list, a single one, those of an address, and what is added
  to them: assets, owners, supply, media, metadata, ranks and the parts that are still locked.
\<close>

section \<open>Data\<close>

record nft_media =
  nm_url :: string
  nm_originalUrl :: string
  nm_thumbnailUrl :: string
  nm_fileType :: string
  nm_fileSize :: int

text \<open>
  The media of an NFT are its own ones, or the array \<open>DEFAULT_MEDIA\<close> that all NFTs without media share.
\<close>

datatype media_ref = Own_media "nft_media list" | Default_media

record nft_rarity =
  rr_score :: "rat option"
  rr_rank :: "rat option"

record nft_rarities =
  rs_trait :: "nft_rarity option"
  rs_statistical :: "nft_rarity option"
  rs_jaccardDistances :: "nft_rarity option"
  rs_openRarity :: "nft_rarity option"
  rs_custom :: "nft_rarity option"

text \<open>An NFT that is not listed for an address has the balance \<open>''\<close>.\<close>

record nft = nft_account +
  nn_assets :: "asset_details option"
  nn_ticker :: string
  nn_supply :: "string option"
  nn_media :: "media_ref option"
  nn_metadata :: "json option"
  nn_owner :: "string option"
  nn_score :: "rat option"
  nn_rank :: "rat option"
  nn_rarities :: "nft_rarities option"
  nn_isNsfw :: "bool option"
  nn_unlockSchedule :: "unlock_milestone list option"
  nn_unlockEpoch :: "int option"
  nn_price :: "rat option"
  nn_valueUsd :: "rat option"

definition new_nft_account :: nft_account where
  "new_nft_account = \<lparr>na_identifier = [], na_collection = [], na_hash = [], na_timestamp = None, na_attributes = Some [], na_nonce = Some 0,
     na_type = ''NonFungibleESDT'', na_subType = Some ''NonFungibleESDT'', na_name = Some [], na_creator = Some [], na_royalties = None,
     na_uris = Some [], na_url = [], na_isWhitelistedStorage = False, na_tags = [], na_decimals = None, na_scamInfo = None, na_balance = [],
     na_receivedAt = None\<rparr>"

definition nft_of_account :: "nft_account \<Rightarrow> nft" where
  "nft_of_account a = nft_account.extend a
     \<lparr>nn_assets = None, nn_ticker = [], nn_supply = None, nn_media = None, nn_metadata = None, nn_owner = None, nn_score = None, nn_rank = None,
      nn_rarities = None, nn_isNsfw = None, nn_unlockSchedule = None, nn_unlockEpoch = None, nn_price = None, nn_valueUsd = None\<rparr>"

text \<open>What the index stores of an NFT; \<open>nd_numbers\<close> are the scores and ranks under their keys.\<close>

record nft_data =
  nx_name :: "string option"
  nx_hash :: "string option"
  nx_creator :: "string option"
  nx_royalties :: "rat option"
  nx_attributes :: "string option"
  nx_uris :: "string list option"
  nx_tags :: "string list option"
  nx_whiteListedStorage :: "bool option"

record nft_doc =
  nd_identifier :: string
  nd_token :: string
  nd_timestamp :: "int option"
  nd_scamInfoType :: "string option"
  nd_scamInfoDescription :: "string option"
  nd_numbers :: "string \<Rightarrow> rat option"
  nd_nsfw_mark :: "rat option"
  nd_data :: "nft_data option"

record account_esdt =
  ac_address :: string
  ac_balance :: string
  ac_identifier :: string

text \<open>
  The services. \<open>nv_applyMedia\<close>, \<open>nv_applyMetadata\<close> and \<open>nv_applySupply\<close> are \<open>batchApply\<close> and \<open>batchApplyAll\<close> of
  the cache for some identifiers: from the keys, the function that computes what is missing and the lifetime they
  give what is handed to the setter. \<open>nv_changeDefaultMedia\<close> changes the shared array in place. \<open>nv_fl\<close> rounds to
  a floating point number.
\<close>

record 's nft_env =
  nv_consts :: time_consts
  nv_address :: "'s esdt_address_env"
  nv_locked :: "'s locked_env"
  nv_indexNfts :: "query_pagination \<Rightarrow> nft_filter \<Rightarrow> string option \<Rightarrow> ('s, nft_doc list) io"
  nv_indexNftCount :: "nft_filter \<Rightarrow> ('s, int) io"
  nv_indexOwnersCount :: "string \<Rightarrow> ('s, int) io"
  nv_accountEsdtByIdentifiers :: "string list \<Rightarrow> query_pagination option \<Rightarrow> ('s, account_esdt list) io"
  nv_accountsEsdtByCollection :: "string list \<Rightarrow> query_pagination option \<Rightarrow> ('s, account_esdt list) io"
  nv_applyMedia :: "string list \<Rightarrow> (string \<Rightarrow> string) \<Rightarrow> (string list \<Rightarrow> ('s, (string \<times> nft_media list) list) io) \<Rightarrow> int
     \<Rightarrow> ('s, string \<Rightarrow> nft_media list option) io"
  nv_applyMetadata :: "string list \<Rightarrow> (string \<Rightarrow> string) \<Rightarrow> (string list \<Rightarrow> ('s, (string \<times> json) list) io) \<Rightarrow> int
     \<Rightarrow> ('s, string \<Rightarrow> json option) io"
  nv_applySupply :: "string list \<Rightarrow> (string \<Rightarrow> string) \<Rightarrow> (string \<Rightarrow> ('s, esdt_supply) io) \<Rightarrow> int \<Rightarrow> ('s, string \<Rightarrow> esdt_supply option) io"
  nv_batchGetMedia :: "string list \<Rightarrow> ('s, (string \<times> nft_media list) list) io"
  nv_batchGetMetadata :: "string list \<Rightarrow> ('s, (string \<times> json) list) io"
  nv_getMedia :: "string \<Rightarrow> ('s, nft_media list option) io"
  nv_getMetadata :: "string \<Rightarrow> ('s, json option) io"
  nv_changeDefaultMedia :: "(nft_media list \<Rightarrow> nft_media list) \<Rightarrow> ('s, unit) io"
  nv_getOrSetCount :: "string \<Rightarrow> ('s, int option) io \<Rightarrow> int \<Rightarrow> ('s, int option) io"
  nv_mexPrices :: "('s, string \<Rightarrow> mex_price option) io"
  nv_denominateString :: "string \<Rightarrow> int option \<Rightarrow> rat"
  nv_fl :: "rat \<Rightarrow> rat"
  nv_network :: "string res"
  nv_mediaUrl :: "string res"
  nv_nsfwThreshold :: rat
  nv_extendedAttributesEnabled :: bool
  nv_isNft :: "string \<Rightarrow> bool"
  nv_merge :: "nft \<Rightarrow> nft"
  nv_splitArrayIntoChunks :: "string list \<Rightarrow> int \<Rightarrow> string list list"

abbreviation nv_esdt :: "'s nft_env \<Rightarrow> 's esdt_env" where
  "nv_esdt env \<equiv> ce_esdt (xa_collections (nv_address env))"

abbreviation nv_assets :: "'s nft_env \<Rightarrow> 's assets_env" where
  "nv_assets env \<equiv> ce_assetsService (xa_collections (nv_address env))"

abbreviation nv_prefix :: "'s nft_env \<Rightarrow> string" where
  "nv_prefix env \<equiv> xa_prefix (nv_address env)"

text \<open>
  \<open>Promise.all\<close> over operations that change different members of the same object: all run, in the order of
  their first steps, and the first failure is thrown.
\<close>

fun io_updates :: "('x \<Rightarrow> ('s, 'x) io) list \<Rightarrow> 'x \<Rightarrow> ('s, 'x) io" where
  "io_updates [] x = io_return x"
| "io_updates (f # fs) x = (\<lambda>s. case f x s of
     (Inl e, t) \<Rightarrow> (Inl e, snd (io_updates fs x t))
   | (Inr y, t) \<Rightarrow> io_updates fs y t)"

text \<open>\<open>fields && fields.includesNone(names)\<close>, and the negation of \<open>!fields || fields.includesSome(names)\<close>.\<close>

definition fields_without :: "string list option \<Rightarrow> string list \<Rightarrow> bool" where
  "fields_without flds names = (case flds of None \<Rightarrow> False | Some fs \<Rightarrow> set fs \<inter> set names = {})"

definition first_page :: "int \<Rightarrow> query_pagination" where
  "first_page n = \<lparr>qp_from = 0, qp_size = n, qp_before = None, qp_after = None\<rparr>"

definition no_nft_filter :: nft_filter where
  "no_nft_filter = \<lparr>ff_search = None, ff_identifiers = None, ff_type = None, ff_subType = None, ff_collection = None, ff_collections = None,
     ff_tags = None, ff_name = None, ff_creator = None, ff_hasUris = None, ff_includeFlagged = None, ff_before = None, ff_after = None,
     ff_nonceBefore = None, ff_nonceAfter = None, ff_isWhitelistedStorage = None, ff_isNsfw = None, ff_isScam = None, ff_scamType = None,
     ff_traits = None, ff_excludeMetaESDT = None, ff_sort = None, ff_order = None\<rparr>"

section \<open>Ranks\<close>

definition getNftRankAlgorithmFromAssets :: "asset_details option \<Rightarrow> string" where
  "getNftRankAlgorithmFromAssets assets = coalesce (Option.bind assets ta_preferredRankAlgorithm) ''openRarity''"

definition getNftRankElasticKey :: "string \<Rightarrow> string" where
  "getNftRankElasticKey algorithm = ''nft_rank_'' @ algorithm"

definition getNftScoreElasticKey :: "string \<Rightarrow> string" where
  "getNftScoreElasticKey algorithm = ''nft_score_'' @ algorithm"

definition getNftRarity :: "nft_doc \<Rightarrow> string \<Rightarrow> nft_rarity option" where
  "getNftRarity elasticNft algorithm =
     (let score = nd_numbers elasticNft (getNftScoreElasticKey algorithm);
          rank = nd_numbers elasticNft (getNftRankElasticKey algorithm)
      in if coalesce score 0 = 0 \<and> coalesce rank 0 = 0 then None else Some \<lparr>rr_score = score, rr_rank = rank\<rparr>)"

definition applyExtendedAttributes :: "'s nft_env \<Rightarrow> nft_doc \<Rightarrow> nft \<Rightarrow> ('s, nft) io" where
  "applyExtendedAttributes env d n =
     io_bind (getTokenAssets (nv_assets env) (na_collection n)) (\<lambda>collectionAssets.
       let algorithm = getNftRankAlgorithmFromAssets collectionAssets;
           n = n\<lparr>nn_score := nd_numbers d (getNftScoreElasticKey algorithm), nn_rank := nd_numbers d (getNftRankElasticKey algorithm),
             nn_rarities := Some \<lparr>rs_trait = getNftRarity d ''trait'', rs_statistical = getNftRarity d ''statistical'',
               rs_jaccardDistances = getNftRarity d ''jaccardDistances'', rs_openRarity = getNftRarity d ''openRarity'',
               rs_custom = getNftRarity d ''custom''\<rparr>\<rparr>
       in io_return (case nd_nsfw_mark d of None \<Rightarrow> n | Some mark \<Rightarrow> n\<lparr>nn_isNsfw := Some (mark \<ge> nv_nsfwThreshold env)\<rparr>))"

section \<open>NFTs of the index\<close>

definition nft_scam_info :: "nft_doc \<Rightarrow> scam_info option" where
  "nft_scam_info d =
     (if truthy (nd_scamInfoType d) \<and> nd_scamInfoType d \<noteq> Some ''none''
      then Some \<lparr>sc_type = nd_scamInfoType d, sc_info = nd_scamInfoDescription d\<rparr> else None)"

definition uri_url :: "'s nft_env \<Rightarrow> string \<Rightarrow> string res" where
  "uri_url env uri =
     res_bind (xa_base64Decode (nv_address env) uri) (\<lambda>decoded. Inr (computeNftUri (xa_uriFunctions (nv_address env)) decoded (nv_prefix env)))"

definition apply_nft_data :: "'s nft_env \<Rightarrow> nft_data \<Rightarrow> nft \<Rightarrow> nft res" where
  "apply_nft_data env x n =
     res_bind (getNftProof (xa_base64Decode (nv_address env)) (nx_hash x)) (\<lambda>proof.
       let n = n\<lparr>na_name := nx_name x, na_hash := coalesce proof [], na_creator := nx_creator x,
             na_royalties := (case nx_royalties x of None \<Rightarrow> None | Some r \<Rightarrow> if r = 0 then None else Some (Some (nv_fl env (r / 100)))),
             na_attributes := nx_attributes x\<rparr>;
           n = (if nx_uris x \<noteq> None then n\<lparr>na_uris := nx_uris x\<rparr> else n);
           n = (case nx_tags x of Some tags \<Rightarrow> n\<lparr>na_tags := tags\<rparr> | None \<Rightarrow> n);
           n = (case na_uris n of Some (u # _) \<Rightarrow> (case uri_url env u of Inl _ \<Rightarrow> n | Inr url \<Rightarrow> n\<lparr>na_url := url\<rparr>) | _ \<Rightarrow> n)
       in Inr (n\<lparr>na_isWhitelistedStorage := coalesce (nx_whiteListedStorage x) False\<rparr>))"

definition nft_of_doc :: "'s nft_env \<Rightarrow> nft_doc \<Rightarrow> ('s, nft) io" where
  "nft_of_doc env d =
     (let n = (nft_of_account new_nft_account)\<lparr>na_identifier := nd_identifier d, na_collection := nd_token d,
            na_nonce := parseHex (''0x'' @ coalesce (nth_opt (split_on CHR ''-'' (nd_identifier d)) 2) ''undefined''),
            na_timestamp := nd_timestamp d, na_scamInfo := nft_scam_info d\<rparr>
      in io_bind (applyExtendedAttributes env d n) (\<lambda>n. case nd_data d of
           None \<Rightarrow> io_return n
         | Some x \<Rightarrow> io_lift (apply_nft_data env x n)))"

definition apply_collection :: "'s nft_env \<Rightarrow> nft \<Rightarrow> ('s, nft) io" where
  "apply_collection env n =
     io_bind (getEsdtTokenProperties (nv_esdt env) (na_collection n)) (\<lambda>collectionProperties. io_return (case collectionProperties of
       None \<Rightarrow> n
     | Some p \<Rightarrow>
         (let n = (if truthy (na_name n) then n else n\<lparr>na_name := Some (pr_name p)\<rparr>);
              n = n\<lparr>na_type := pr_type p, na_subType := pr_subType p\<rparr>
          in if na_type n = ''MetaESDT'' then n\<lparr>na_decimals := pr_decimals p, na_royalties := None\<rparr> else n)))"

text \<open>Sorting by rank becomes sorting by the rank of the algorithm that the collection prefers.\<close>

definition rank_sort :: "'s nft_env \<Rightarrow> nft_filter \<Rightarrow> ('s, nft_filter) io" where
  "rank_sort env nf =
     (if ff_sort nf = Some ''rank'' \<and> truthy (ff_collection nf)
      then io_bind (getTokenAssets (nv_assets env) (the (ff_collection nf))) (\<lambda>assets.
             io_return (nf\<lparr>ff_sort := Some (getNftRankElasticKey (getNftRankAlgorithmFromAssets assets))\<rparr>))
      else io_return nf)"

definition getNftsInternal :: "'s nft_env \<Rightarrow> query_pagination \<Rightarrow> nft_filter \<Rightarrow> string option \<Rightarrow> ('s, nft list) io" where
  "getNftsInternal env pagination nf identifier =
     io_bind (rank_sort env nf) (\<lambda>nf.
     io_bind (nv_indexNfts env pagination nf identifier) (\<lambda>elasticNfts.
     io_bind (io_mapM (nft_of_doc env) elasticNfts) (\<lambda>nfts.
       io_mapM (apply_collection env) nfts)))"

fun getNftsInternalByChunks :: "'s nft_env \<Rightarrow> string list list \<Rightarrow> ('s, nft list) io" where
  "getNftsInternalByChunks env [] = io_return []"
| "getNftsInternalByChunks env (identifiers # chunks) =
     io_bind (getNftsInternal env (first_page (int (length identifiers))) (no_nft_filter\<lparr>ff_identifiers := Some identifiers\<rparr>) None) (\<lambda>internalNfts.
     io_bind (getNftsInternalByChunks env chunks) (\<lambda>result. io_return (internalNfts @ result)))"

definition getNftsInternalByIdentifiers :: "'s nft_env \<Rightarrow> string list \<Rightarrow> ('s, nft list) io" where
  "getNftsInternalByIdentifiers env identifiers = getNftsInternalByChunks env (nv_splitArrayIntoChunks env identifiers 1024)"

section \<open>Assets, owners and supply\<close>

definition collection_ticker :: "asset_details option \<Rightarrow> string \<Rightarrow> string" where
  "collection_ticker assets collection = (if assets \<noteq> None then hd (split_on CHR ''-'' collection) else collection)"

definition conditionallyApplyAssetsAndTicker :: "'s nft_env \<Rightarrow> string list option \<Rightarrow> nft_query_options option \<Rightarrow> nft list \<Rightarrow> ('s, nft list) io" where
  "conditionallyApplyAssetsAndTicker env flds options nfts =
     (if fields_without flds [''ticker'', ''assets''] then io_return nfts
      else io_bind (getAllTokenAssets (nv_assets env)) (\<lambda>allAssets.
        if (case options of None \<Rightarrow> False | Some v \<Rightarrow> \<not> no_withAssets v) then io_return nfts
        else io_return (map (\<lambda>n.
          let assets = orelse (allAssets (na_identifier n)) (allAssets (na_collection n))
          in n\<lparr>nn_assets := assets, nn_ticker := collection_ticker assets (na_collection n)\<rparr>) nfts)))"

definition applyAssetsAndTicker :: "'s nft_env \<Rightarrow> string list option \<Rightarrow> nft \<Rightarrow> ('s, nft) io" where
  "applyAssetsAndTicker env flds n =
     (if fields_without flds [''ticker'', ''assets''] then io_return n
      else io_bind (getTokenAssets (nv_assets env) (na_identifier n)) (\<lambda>own.
           io_bind (case own of Some a \<Rightarrow> io_return (Some a) | None \<Rightarrow> getTokenAssets (nv_assets env) (na_collection n)) (\<lambda>assets.
             io_return (n\<lparr>nn_assets := assets, nn_ticker := collection_ticker assets (na_collection n)\<rparr>))))"

definition accountEsdtByIdentifiers :: "'s nft_env \<Rightarrow> string list \<Rightarrow> query_pagination option \<Rightarrow> ('s, account_esdt list) io" where
  "accountEsdtByIdentifiers env identifiers pagination = nv_accountEsdtByIdentifiers env identifiers pagination"

definition getAccountEsdtByIdentifier :: "'s nft_env \<Rightarrow> string \<Rightarrow> query_pagination option \<Rightarrow> ('s, account_esdt list) io" where
  "getAccountEsdtByIdentifier env identifier pagination = accountEsdtByIdentifiers env [identifier] pagination"

definition getAccountEsdtByCollection :: "'s nft_env \<Rightarrow> string \<Rightarrow> query_pagination option \<Rightarrow> ('s, account_esdt list) io" where
  "getAccountEsdtByCollection env identifier pagination = nv_accountsEsdtByCollection env [identifier] pagination"

definition owner_map :: "account_esdt list \<Rightarrow> string \<Rightarrow> string option" where
  "owner_map accountsEsdts = map_of (rev (map (\<lambda>e. (ac_identifier e, ac_address e)) accountsEsdts))"

definition conditionallyApplyOwners :: "'s nft_env \<Rightarrow> nft_query_options option \<Rightarrow> nft list \<Rightarrow> ('s, nft list) io" where
  "conditionallyApplyOwners env options nfts =
     (if \<not> (case options of None \<Rightarrow> False | Some v \<Rightarrow> no_withOwner v) then io_return nfts
      else let identifiers = map na_identifier (filter (\<lambda>n. na_type n = ''NonFungibleESDT'') nfts)
        in if identifiers = [] then io_return nfts
           else io_bind (accountEsdtByIdentifiers env identifiers (Some (first_page (int (length identifiers))))) (\<lambda>accountsEsdts.
             io_return (map (\<lambda>n. if na_type n = ''NonFungibleESDT'' \<and> truthy (owner_map accountsEsdts (na_identifier n))
               then n\<lparr>nn_owner := owner_map accountsEsdts (na_identifier n)\<rparr> else n) nfts)))"

text \<open>The supply of those NFTs of a list that meet a condition.\<close>

definition batchApplySupply :: "'s nft_env \<Rightarrow> string list option \<Rightarrow> (nft \<Rightarrow> bool) \<Rightarrow> nft list \<Rightarrow> ('s, nft list) io" where
  "batchApplySupply env flds meets nfts =
     (if (case flds of None \<Rightarrow> False | Some fs \<Rightarrow> ''supply'' \<notin> set fs) then io_return nfts
      else io_bind (nv_applySupply env (map na_identifier (filter meets nfts)) (\<lambda>i. ci_key (CacheInfo_TokenSupply (nv_consts env) i))
          (getEsdtTokenSupply (nv_esdt env)) (ci_ttl (CacheInfo_TokenSupply (nv_consts env) []))) (\<lambda>supplies.
        io_return (map (\<lambda>n. if meets n then (case supplies (na_identifier n) of None \<Rightarrow> n | Some v \<Rightarrow> n\<lparr>nn_supply := Some (es_totalSupply v)\<rparr>)
          else n) nfts)))"

definition has_supply :: "nft \<Rightarrow> bool" where
  "has_supply n \<longleftrightarrow> na_type n \<in> {''SemiFungibleESDT'', ''MetaESDT''}"

definition conditionallyApplySupply :: "'s nft_env \<Rightarrow> nft_query_options option \<Rightarrow> nft list \<Rightarrow> ('s, nft list) io" where
  "conditionallyApplySupply env options nfts =
     (if \<not> (case options of None \<Rightarrow> False | Some v \<Rightarrow> no_withSupply v) then io_return nfts
      else if filter has_supply nfts = [] then io_return nfts
      else batchApplySupply env None has_supply nfts)"

definition applyNftSupply :: "'s nft_env \<Rightarrow> nft \<Rightarrow> ('s, nft) io" where
  "applyNftSupply env n = io_bind (getEsdtTokenSupply (nv_esdt env) (na_identifier n)) (\<lambda>v. io_return (n\<lparr>nn_supply := Some (es_totalSupply v)\<rparr>))"

definition applyNftOwner :: "'s nft_env \<Rightarrow> nft \<Rightarrow> ('s, nft) io" where
  "applyNftOwner env n =
     (if na_type n = ''NonFungibleESDT''
      then io_bind (getAccountEsdtByIdentifier env (na_identifier n) None) (\<lambda>accountsEsdt.
        io_return (case accountsEsdt of [] \<Rightarrow> n | e # _ \<Rightarrow> n\<lparr>nn_owner := Some (ac_address e)\<rparr>))
      else io_return n)"

definition applyNftAttributes :: "'s nft_env \<Rightarrow> nft \<Rightarrow> ('s, nft) io" where
  "applyNftAttributes env n =
     (if \<not> truthy (nn_owner n) then io_return n
      else io_bind (nftsOfAddress (nv_address env) (the (nn_owner n)) (no_nft_filter\<lparr>ff_identifiers := Some [na_identifier n]\<rparr>) (first_page 1) None None)
        (\<lambda>nfts. io_return (case nfts of [] \<Rightarrow> n | a # _ \<Rightarrow> n\<lparr>na_attributes := na_attributes a\<rparr>)))"

section \<open>Media and metadata\<close>

definition needsDefaultMedia :: "nft \<Rightarrow> bool" where
  "needsDefaultMedia n \<longleftrightarrow> na_type n \<noteq> ''MetaESDT''
     \<and> \<not> (case nn_media n of None \<Rightarrow> False | Some Default_media \<Rightarrow> True | Some (Own_media ms) \<Rightarrow> ms \<noteq> [])"

definition redirect_url :: "uri_functions \<Rightarrow> string \<Rightarrow> string \<Rightarrow> string \<Rightarrow> string" where
  "redirect_url uf network mediaUrl url =
     (let n = (if network = ''mainnet'' then [] else network @ ''-'');
          defaultMediaUrl = ''https://'' @ n @ ''media.elrond.com'';
          defaultApiMediaUrl = ''https://'' @ n @ ''api.multiversx.com/media''
      in if url = [] then url else uf_replaceUri uf (uf_replaceUri uf url defaultMediaUrl mediaUrl) defaultApiMediaUrl mediaUrl)"

definition redirect_media :: "uri_functions \<Rightarrow> string \<Rightarrow> string \<Rightarrow> nft_media \<Rightarrow> nft_media" where
  "redirect_media uf network mediaUrl m =
     m\<lparr>nm_url := redirect_url uf network mediaUrl (nm_url m), nm_thumbnailUrl := redirect_url uf network mediaUrl (nm_thumbnailUrl m)\<rparr>"

definition redirect_all :: "'s nft_env \<Rightarrow> nft_media list \<Rightarrow> nft_media list" where
  "redirect_all env ms = (case (nv_network env, nv_mediaUrl env) of
     (Inr network, Inr mediaUrl) \<Rightarrow> map (redirect_media (xa_uriFunctions (nv_address env)) network mediaUrl) ms
   | _ \<Rightarrow> ms)"

text \<open>The media are changed in place, the shared array too.\<close>

definition applyRedirectMedia :: "'s nft_env \<Rightarrow> nft \<Rightarrow> ('s, nft) io" where
  "applyRedirectMedia env n = (case nn_media n of
     None \<Rightarrow> io_return n
   | Some (Own_media ms) \<Rightarrow> io_return (n\<lparr>nn_media := Some (Own_media (redirect_all env ms))\<rparr>)
   | Some Default_media \<Rightarrow> io_then (nv_changeDefaultMedia env (redirect_all env)) (io_return n))"

definition default_media :: "nft \<Rightarrow> nft" where
  "default_media n = (if needsDefaultMedia n then n\<lparr>nn_media := Some Default_media\<rparr> else n)"

definition batchApplyMedia :: "'s nft_env \<Rightarrow> string list option \<Rightarrow> nft list \<Rightarrow> ('s, nft list) io" where
  "batchApplyMedia env flds nfts =
     (let key = (\<lambda>i. ci_key (CacheInfo_NftMedia (nv_consts env) i))
      in if (case flds of None \<Rightarrow> False | Some fs \<Rightarrow> ''media'' \<notin> set fs) then io_return nfts
         else io_bind (nv_applyMedia env (map na_identifier nfts) key
             (\<lambda>ids. io_bind (nv_batchGetMedia env ids) (\<lambda>results. io_return (map (\<lambda>(i, v). (key i, v)) results)))
             (ci_ttl (CacheInfo_NftMedia (nv_consts env) []))) (\<lambda>media.
           io_mapM (\<lambda>n. applyRedirectMedia env (default_media (case media (na_identifier n) of
             None \<Rightarrow> n | Some ms \<Rightarrow> n\<lparr>nn_media := Some (Own_media ms)\<rparr>))) nfts))"

definition batchApplyMetadata :: "'s nft_env \<Rightarrow> string list option \<Rightarrow> nft list \<Rightarrow> ('s, nft list) io" where
  "batchApplyMetadata env flds nfts =
     (let key = (\<lambda>i. ci_key (CacheInfo_NftMetadata (nv_consts env) i))
      in if (case flds of None \<Rightarrow> False | Some fs \<Rightarrow> ''metadata'' \<notin> set fs) then io_return nfts
         else io_bind (nv_applyMetadata env (map na_identifier nfts) key
             (\<lambda>ids. io_bind (nv_batchGetMetadata env ids) (\<lambda>results. io_return (map (\<lambda>(i, v). (key i, v)) results)))
             (ci_ttl (CacheInfo_NftMetadata (nv_consts env) []))) (\<lambda>metadata.
           io_return (map (\<lambda>n. case metadata (na_identifier n) of None \<Rightarrow> n | Some v \<Rightarrow> n\<lparr>nn_metadata := Some v\<rparr>) nfts)))"

definition batchProcessNfts :: "'s nft_env \<Rightarrow> string list option \<Rightarrow> nft list \<Rightarrow> ('s, nft list) io" where
  "batchProcessNfts env flds = io_updates [batchApplyMedia env flds, batchApplyMetadata env flds]"

definition applyMedia :: "'s nft_env \<Rightarrow> nft \<Rightarrow> ('s, nft) io" where
  "applyMedia env n =
     io_bind (nv_getMedia env (na_identifier n)) (\<lambda>media. applyRedirectMedia env (n\<lparr>nn_media := map_option Own_media media\<rparr>))"

definition applyMetadata :: "'s nft_env \<Rightarrow> nft \<Rightarrow> ('s, nft) io" where
  "applyMetadata env n = io_bind (nv_getMetadata env (na_identifier n)) (\<lambda>metadata. io_return (n\<lparr>nn_metadata := metadata\<rparr>))"

definition processNft :: "'s nft_env \<Rightarrow> nft \<Rightarrow> ('s, nft) io" where
  "processNft env n = io_bind (io_updates [applyMedia env, applyMetadata env] n) (\<lambda>n. io_return (default_media n))"

section \<open>Parts that are locked\<close>

definition applyUnlockFields :: "'s nft_env \<Rightarrow> string list option \<Rightarrow> nft \<Rightarrow> ('s, nft) io" where
  "applyUnlockFields env flds n =
     (if fields_without flds [''unlockSchedule'', ''unlockEpoch''] \<or> \<not> truthy (na_attributes n) then io_return n
      else io_bind (io_catch (io_bind (getLkmexUnlockSchedule (nv_locked env) (na_identifier n) (the (na_attributes n))) (\<lambda>v.
                 io_return (n\<lparr>nn_unlockSchedule := v\<rparr>))) (\<lambda>_. io_return n)) (\<lambda>n.
           io_catch (io_bind (getXmexUnlockEpoch (nv_locked env) (na_identifier n) (the (na_attributes n))) (\<lambda>v.
                 io_return (n\<lparr>nn_unlockEpoch := v\<rparr>))) (\<lambda>_. io_return n)))"

definition batchApplyUnlockFields :: "'s nft_env \<Rightarrow> string list option \<Rightarrow> nft list \<Rightarrow> ('s, nft list) io" where
  "batchApplyUnlockFields env flds nfts =
     (if fields_without flds [''unlockSchedule'', ''unlockEpoch''] then io_return nfts else io_all (applyUnlockFields env flds) nfts)"

section \<open>The list and a single NFT\<close>

definition nftsPage :: "'s nft_env \<Rightarrow> query_pagination \<Rightarrow> nft_filter \<Rightarrow> nft_query_options option \<Rightarrow> ('s, nft list) io" where
  "nftsPage env pagination nf options =
     io_bind (getNftsInternal env (\<lparr>qp_from = qp_from pagination, qp_size = qp_size pagination, qp_before = None, qp_after = None\<rparr>) nf None) (\<lambda>nfts.
     io_bind (io_updates [conditionallyApplyAssetsAndTicker env None options, conditionallyApplyOwners env options,
         conditionallyApplySupply env options, batchProcessNfts env None] nfts) (\<lambda>nfts.
       batchApplyUnlockFields env None nfts))"

definition supply_types :: "string list" where
  "supply_types = [''SemiFungibleESDT'', ''MetaESDT'', ''DynamicSemiFungibleESDT'', ''DynamicMetaESDT'']"

definition getSingleNft :: "'s nft_env \<Rightarrow> string \<Rightarrow> ('s, nft option) io" where
  "getSingleNft env identifier =
     io_bind (getNftsInternal env (first_page 1) no_nft_filter (Some identifier)) (\<lambda>nfts.
       if \<not> nv_isNft env identifier then io_return None
       else case nfts of
         [] \<Rightarrow> io_return None
       | n # _ \<Rightarrow>
           (let n = nv_merge env n
            in if to_lower (na_identifier n) \<noteq> to_lower identifier then io_return None
               else io_bind (io_updates [\<lambda>n. if na_type n \<in> set supply_types then applyNftSupply env n else io_return n,
                   applyAssetsAndTicker env None, processNft env,
                   \<lambda>n. io_bind (applyNftOwner env n) (applyNftAttributes env)] n) (\<lambda>n.
                 io_bind (applyUnlockFields env None n) (\<lambda>n. io_return (Some n)))))"

definition isNft :: "'s nft_env \<Rightarrow> string \<Rightarrow> ('s, bool) io" where
  "isNft env identifier =
     (if length (split_on CHR ''-'' identifier) \<noteq> 3 then io_return False
      else io_bind (getNftsInternal env (first_page 1) no_nft_filter (Some identifier)) (\<lambda>nfts. io_return (nfts \<noteq> [])))"

definition getNftOwners :: "'s nft_env \<Rightarrow> string \<Rightarrow> query_pagination \<Rightarrow> ('s, (string \<times> string) list option) io" where
  "getNftOwners env identifier pagination =
     io_bind (isNft env identifier) (\<lambda>found.
       if \<not> found then io_return None
       else io_bind (getAccountEsdtByIdentifier env identifier (Some pagination)) (\<lambda>accountsEsdt.
         io_return (Some (map (\<lambda>e. (ac_address e, ac_balance e)) accountsEsdt))))"

definition getCollectionOwners :: "'s nft_env \<Rightarrow> string \<Rightarrow> query_pagination \<Rightarrow> ('s, (string \<times> string) list) io" where
  "getCollectionOwners env identifier pagination =
     io_bind (getAccountEsdtByIdentifier env identifier (Some pagination)) (\<lambda>accountsEsdt.
       io_return (map (\<lambda>e. (ac_address e, ac_balance e)) accountsEsdt))"

definition isWhitelistedStorage :: "'s nft_env \<Rightarrow> string list option \<Rightarrow> bool" where
  "isWhitelistedStorage env uris = (case uris of
     Some (u # _) \<Rightarrow> (case uri_url env u of Inl _ \<Rightarrow> False | Inr url \<Rightarrow> startsWith url (nv_prefix env))
   | _ \<Rightarrow> False)"

definition getNftOwnersCountRaw :: "'s nft_env \<Rightarrow> string \<Rightarrow> ('s, int option) io" where
  "getNftOwnersCountRaw env identifier =
     io_bind (isNft env identifier) (\<lambda>found.
       if \<not> found then io_return None else io_bind (nv_indexOwnersCount env identifier) (\<lambda>n. io_return (Some n)))"

definition nftOwnersCount :: "'s nft_env \<Rightarrow> string \<Rightarrow> ('s, int option) io" where
  "nftOwnersCount env identifier =
     (let info = CacheInfo_NftOwnersCount (nv_consts env) identifier
      in nv_getOrSetCount env (ci_key info) (getNftOwnersCountRaw env identifier) (ci_ttl info))"

definition nftCount :: "'s nft_env \<Rightarrow> nft_filter \<Rightarrow> ('s, int) io" where
  "nftCount env nf = nv_indexNftCount env nf"

definition getNftSupply :: "'s nft_env \<Rightarrow> string \<Rightarrow> ('s, string option) io" where
  "getNftSupply env identifier =
     (if length (split_on CHR ''-'' identifier) \<noteq> 3 then io_return None
      else io_bind (getNftsInternal env (first_page 1) no_nft_filter (Some identifier)) (\<lambda>nfts.
        if nfts = [] then io_return None
        else io_bind (getEsdtTokenSupply (nv_esdt env) identifier) (\<lambda>v. io_return (Some (es_totalSupply v)))))"

text \<open>What stands between the first \<open>proof:\<close>, with which the text begins, and the second one.\<close>

fun before_text :: "string \<Rightarrow> string \<Rightarrow> string" where
  "before_text p [] = []"
| "before_text p (c # cs) = (if startsWith (c # cs) p then [] else c # before_text p cs)"

definition getNftProofHash :: "'s nft_env \<Rightarrow> nft \<Rightarrow> string option res" where
  "getNftProofHash env n =
     res_bind (xa_base64Decode (nv_address env) (na_hash n)) (\<lambda>hashField.
       Inr (if na_type n \<noteq> ''MetaESDT'' \<or> \<not> startsWith hashField ''proof:'' then None
         else Some (before_text ''proof:'' (drop 6 hashField))))"

section \<open>NFTs of an address\<close>

definition applyNftPriceUsd :: "'s nft_env \<Rightarrow> string list option \<Rightarrow> nft \<Rightarrow> ('s, nft) io" where
  "applyNftPriceUsd env flds n =
     (if fields_without flds [''price'', ''valueUsd''] \<or> na_type n \<noteq> ''MetaESDT'' then io_return n
      else io_catch (io_bind (nv_mexPrices env) (\<lambda>prices. io_return (case prices (na_collection n) of
             None \<Rightarrow> n
           | Some p \<Rightarrow> n\<lparr>nn_price := Some (mr_price p), nn_valueUsd := Some (nv_fl env (mr_price p * nv_denominateString env (na_balance n) (na_decimals n)))\<rparr>)))
         (\<lambda>_. io_return n))"

definition scam_type :: "nft \<Rightarrow> string option" where
  "scam_type n = Option.bind (na_scamInfo n) sc_type"

definition applyScamFilter :: "nft_filter \<Rightarrow> nft list \<Rightarrow> nft list" where
  "applyScamFilter nf nfts =
     (let nfts = (if truthy (ff_scamType nf) then filter (\<lambda>n. scam_type n = ff_scamType nf) nfts else nfts)
      in case ff_isScam nf of
           None \<Rightarrow> nfts
         | Some True \<Rightarrow> filter (\<lambda>n. truthy (scam_type n)) nfts
         | Some False \<Rightarrow> filter (\<lambda>n. \<not> truthy (scam_type n)) nfts)"

definition copy_extended :: "nft list \<Rightarrow> nft \<Rightarrow> nft" where
  "copy_extended internalNfts n =
     (case map_of (rev (map (\<lambda>i. (na_identifier i, i)) internalNfts)) (na_identifier n) of
        None \<Rightarrow> n
      | Some i \<Rightarrow>
          (let n = n\<lparr>nn_score := nn_score i, nn_rank := nn_rank i, nn_isNsfw := nn_isNsfw i\<rparr>
           in case na_scamInfo i of None \<Rightarrow> n | Some v \<Rightarrow> n\<lparr>na_scamInfo := Some \<lparr>sc_type = sc_type v, sc_info = sc_info v\<rparr>\<rparr>))"

definition nftsForAddress :: "'s nft_env \<Rightarrow> string \<Rightarrow> query_pagination \<Rightarrow> nft_filter \<Rightarrow> string list option \<Rightarrow> nft_query_options option
    \<Rightarrow> esdt_data_source option \<Rightarrow> ('s, nft list) io" where
  "nftsForAddress env address pagination nf flds options source =
     io_bind (nftsOfAddress (nv_address env) address nf pagination source options) (\<lambda>accounts.
     io_bind (io_mapM (\<lambda>n. io_bind (applyAssetsAndTicker env flds n) (applyNftPriceUsd env flds)) (map nft_of_account accounts)) (\<lambda>nfts.
     io_bind (if (case options of None \<Rightarrow> False | Some v \<Rightarrow> no_withSupply v) then batchApplySupply env flds has_supply nfts else io_return nfts) (\<lambda>nfts.
     io_bind (batchProcessNfts env flds nfts) (\<lambda>nfts.
     io_bind (if nv_extendedAttributesEnabled env \<and> \<not> fields_without flds [''score'', ''rank'', ''isNsfw'', ''scamInfo'']
         then io_bind (getNftsInternalByIdentifiers env (map na_identifier nfts)) (\<lambda>internalNfts. io_return (map (copy_extended internalNfts) nfts))
         else io_return nfts) (\<lambda>nfts.
       io_mapM (applyUnlockFields env flds) (applyScamFilter nf nfts))))))"

definition nftCountForAddress :: "'s nft_env \<Rightarrow> string \<Rightarrow> nft_filter \<Rightarrow> ('s, int) io" where
  "nftCountForAddress env address nf = getNftCountForAddressFromElastic (nv_address env) address nf"

definition getNftForAddress :: "'s nft_env \<Rightarrow> string \<Rightarrow> string \<Rightarrow> string list option \<Rightarrow> ('s, nft option) io" where
  "getNftForAddress env address identifier flds =
     (if \<not> nv_isNft env identifier then io_return None
      else io_bind (nftsForAddress env address (first_page 1) (no_nft_filter\<lparr>ff_identifiers := Some [identifier]\<rparr>) flds None None) (\<lambda>nfts.
        io_return (nth_opt nfts 0)))"

section \<open>What the updates keep\<close>

definition keeps :: "('x \<Rightarrow> 'y) \<Rightarrow> ('x \<Rightarrow> ('s, 'x) io) \<Rightarrow> bool" where
  "keeps g f \<longleftrightarrow> (\<forall>x s y t. f x s = (Inr y, t) \<longrightarrow> g y = g x)"

lemma keepsD: "keeps g f \<Longrightarrow> f x s = (Inr y, t) \<Longrightarrow> g y = g x"
  unfolding keeps_def by blast

lemma keeps_updates:
  assumes "\<And>f. f \<in> set fs \<Longrightarrow> keeps g f"
  shows "keeps g (io_updates fs)"
proof -
  have "io_updates fs x s = (Inr y, t) \<Longrightarrow> g y = g x" for x s y t
    using assms
  proof (induction fs arbitrary: x s)
    case (Cons f fs)
    from Cons.prems(1) obtain z u where z: "f x s = (Inr z, u)" "io_updates fs z u = (Inr y, t)"
      by (auto split: prod.splits sum.splits)
    have "g y = g z" using Cons.IH [OF z(2)] Cons.prems(2) by simp
    with keepsD [of g f x s z u] Cons.prems(2) z(1) show ?case by simp
  qed (simp add: io_simps)
  then show ?thesis by (auto simp: keeps_def)
qed

lemma keeps_mapM:
  assumes "keeps g f"
  shows "keeps (map g) (io_mapM f)"
proof -
  have "io_mapM f xs s = (Inr ys, t) \<Longrightarrow> map g ys = map g xs" for xs s ys t
  proof (induction xs arbitrary: s ys)
    case (Cons x xs)
    then show ?case using keepsD [OF assms] by (fastforce simp: io_simps split: prod.splits sum.splits)
  qed (simp add: io_simps)
  then show ?thesis by (auto simp: keeps_def)
qed

lemma keeps_all:
  assumes "keeps g f"
  shows "keeps (map g) (io_all f)"
proof -
  have "io_all f xs s = (Inr ys, t) \<Longrightarrow> map g ys = map g xs" for xs s ys t
  proof (induction xs arbitrary: s ys t)
    case (Cons x xs)
    from Cons.prems obtain y u zs where "f x s = (Inr y, u)" "io_all f xs u = (Inr zs, t)" "ys = y # zs"
      by (auto simp: io_simps res_bind_Inr split: prod.splits sum.splits)
    with Cons.IH keepsD [OF assms] show ?case by fastforce
  qed (simp add: io_simps)
  then show ?thesis by (auto simp: keeps_def)
qed

lemma keeps_bind:
  assumes "keeps g f" and "keeps g h"
  shows "keeps g (\<lambda>x. io_bind (f x) h)"
  unfolding keeps_def
proof (intro allI impI)
  fix x s y t
  assume "io_bind (f x) h s = (Inr y, t)"
  then obtain z u where "f x s = (Inr z, u)" "h z u = (Inr y, t)" by (rule io_bind_InrE)
  with keepsD [OF assms(1)] keepsD [OF assms(2)] show "g y = g x" by metis
qed

lemma keeps_catch:
  assumes "keeps g f"
  shows "keeps g (\<lambda>x. io_catch (f x) (\<lambda>_. io_return x))"
  unfolding keeps_def using keepsD [OF assms] by (auto simp: io_simps split: prod.splits sum.splits)

lemma keeps_reader:
  assumes "\<And>x v. g (h x v) = g x"
  shows "keeps g (\<lambda>x. io_bind (m x) (\<lambda>v. io_return (h x v)))"
  using assms by (auto simp: keeps_def io_simps split: prod.splits sum.splits)

lemma keeps_if:
  assumes "keeps g f" and "keeps g h"
  shows "keeps g (\<lambda>x. if b x then f x else h x)"
  using assms by (auto simp: keeps_def)

lemma keeps_return: "(\<And>x. g (h x) = g x) \<Longrightarrow> keeps g (\<lambda>x. io_return (h x))"
  by (auto simp: keeps_def io_simps)

text \<open>The members that only the first steps set.\<close>

definition nft_core :: "nft \<Rightarrow> string \<times> string \<times> string \<times> rat option option" where
  "nft_core n = (na_identifier n, na_collection n, na_type n, na_royalties n)"

lemma keeps_assets: "keeps (map nft_core) (conditionallyApplyAssetsAndTicker env flds options)"
  by (auto simp: keeps_def conditionallyApplyAssetsAndTicker_def io_simps nft_core_def Let_def comp_def split: if_splits option.splits prod.splits sum.splits)

lemma keeps_owners: "keeps (map nft_core) (conditionallyApplyOwners env options)"
  by (auto simp: keeps_def conditionallyApplyOwners_def io_simps nft_core_def Let_def comp_def split: if_splits option.splits prod.splits sum.splits)

lemma keeps_batch_supply: "keeps (map nft_core) (batchApplySupply env flds meets)"
  by (auto simp: keeps_def batchApplySupply_def io_simps nft_core_def comp_def split: if_splits option.splits prod.splits sum.splits)

lemma keeps_supply: "keeps (map nft_core) (conditionallyApplySupply env options)"
  by (auto simp: keeps_def conditionallyApplySupply_def io_simps dest: keepsD [OF keeps_batch_supply] split: if_splits)

lemma keeps_redirect: "keeps nft_core (applyRedirectMedia env)"
  by (auto simp: keeps_def applyRedirectMedia_def io_simps nft_core_def split: option.splits media_ref.splits prod.splits sum.splits)

lemma core_default_media: "nft_core (default_media n) = nft_core n"
  by (simp add: default_media_def nft_core_def)

lemma keeps_media: "keeps (map nft_core) (batchApplyMedia env flds)"
proof -
  have "keeps nft_core (\<lambda>n. applyRedirectMedia env (default_media (case media (na_identifier n) of None \<Rightarrow> n
      | Some ms \<Rightarrow> n\<lparr>nn_media := Some (Own_media ms)\<rparr>)))" for media
    using keeps_redirect [of env] by (auto simp: keeps_def core_default_media) (auto simp: nft_core_def split: option.splits)
  from keepsD [OF keeps_mapM [OF this]] show ?thesis
    by (auto simp: keeps_def batchApplyMedia_def Let_def io_simps split: if_splits option.splits prod.splits sum.splits)
qed

lemma keeps_metadata: "keeps (map nft_core) (batchApplyMetadata env flds)"
  by (auto simp: keeps_def batchApplyMetadata_def io_simps nft_core_def Let_def comp_def split: if_splits option.splits prod.splits sum.splits)

lemma keeps_process: "keeps (map nft_core) (batchProcessNfts env flds)"
  unfolding batchProcessNfts_def by (rule keeps_updates) (auto simp: keeps_media keeps_metadata)

text \<open>The unlock fields are the only members that change at the end.\<close>

lemma keeps_unlock:
  assumes "\<And>n v. g (n\<lparr>nn_unlockSchedule := v\<rparr>) = g n" and "\<And>n v. g (n\<lparr>nn_unlockEpoch := v\<rparr>) = g n"
  shows "keeps g (applyUnlockFields env flds)"
  unfolding applyUnlockFields_def
  by (intro keeps_if keeps_bind keeps_catch keeps_reader keeps_return assms refl)

lemma keeps_unlock_core: "keeps nft_core (applyUnlockFields env flds)"
  by (rule keeps_unlock) (simp_all add: nft_core_def)

lemma keeps_batch_unlock: "keeps (map nft_core) (batchApplyUnlockFields env flds)"
  using keepsD [OF keeps_all [OF keeps_unlock_core]] by (auto simp: keeps_def batchApplyUnlockFields_def io_simps split: if_splits)

section \<open>Theorems\<close>

lemma nft_of_doc_identity:
  assumes "nft_of_doc env d s = (Inr n, t)"
  shows "na_identifier n = nd_identifier d \<and> na_collection n = nd_token d \<and> na_type n = ''NonFungibleESDT''"
proof -
  define n0 where "n0 = (nft_of_account new_nft_account)\<lparr>na_identifier := nd_identifier d, na_collection := nd_token d,
    na_nonce := parseHex (''0x'' @ coalesce (nth_opt (split_on CHR ''-'' (nd_identifier d)) 2) ''undefined''),
    na_timestamp := nd_timestamp d, na_scamInfo := nft_scam_info d\<rparr>"
  have n0: "na_identifier n0 = nd_identifier d" "na_collection n0 = nd_token d" "na_type n0 = ''NonFungibleESDT''"
    by (simp_all add: n0_def nft_of_account_def new_nft_account_def nft_account.defs)
  obtain n1 u where n1: "applyExtendedAttributes env d n0 s = (Inr n1, u)"
    and n: "(case nd_data d of None \<Rightarrow> io_return n1 | Some x \<Rightarrow> io_lift (apply_nft_data env x n1)) u = (Inr n, t)"
    using assms unfolding nft_of_doc_def Let_def n0_def [symmetric] by (rule io_bind_InrE)
  have "na_identifier n1 = na_identifier n0 \<and> na_collection n1 = na_collection n0 \<and> na_type n1 = na_type n0"
    using n1 unfolding applyExtendedAttributes_def Let_def
    by (elim io_bind_InrE) (auto simp: io_simps split: option.splits)
  moreover have "na_identifier n = na_identifier n1 \<and> na_collection n = na_collection n1 \<and> na_type n = na_type n1"
  proof (cases "nd_data d")
    case None
    with n show ?thesis by (simp add: io_simps)
  next
    case (Some x)
    with n have "apply_nft_data env x n1 = Inr n" by (simp add: io_simps)
    then show ?thesis
      by (auto simp: apply_nft_data_def Let_def res_bind_Inr split: if_splits option.splits sum.splits list.splits)
  qed
  ultimately show ?thesis by (simp add: n0)
qed

text \<open>Of an element of a result: what made it.\<close>

lemma apply_collection_identity:
  assumes "apply_collection env n s = (Inr m, t)" and "na_type n = ''NonFungibleESDT''"
  shows "na_identifier m = na_identifier n \<and> na_collection m = na_collection n \<and> (na_type m = ''MetaESDT'' \<longrightarrow> na_royalties m = None)"
  using assms unfolding apply_collection_def
  by (elim io_bind_InrE) (auto simp: io_simps Let_def split: option.splits if_splits)

lemma io_mapM_list_all2: "io_mapM f xs s = (Inr ys, t) \<Longrightarrow> list_all2 (\<lambda>x y. \<exists>u v. f x u = (Inr y, v)) xs ys"
proof (induction xs arbitrary: s ys)
  case (Cons x xs)
  from Cons.prems obtain y u zs where "f x s = (Inr y, u)" "io_mapM f xs u = (Inr zs, t)" "ys = y # zs"
    by (auto simp: io_simps split: prod.splits sum.splits)
  with Cons.IH show ?case by auto
qed (simp add: io_simps)

lemma internal_listing:
  assumes "rank_sort env nf s = (Inr sorted_nf, u)" and "nv_indexNfts env pagination sorted_nf identifier u = (Inr docs, v)"
    and "getNftsInternal env pagination nf identifier s = (Inr nfts, t)"
  shows "list_all2 (\<lambda>d n. na_identifier n = nd_identifier d \<and> na_collection n = nd_token d \<and> (na_type n = ''MetaESDT'' \<longrightarrow> na_royalties n = None)) docs nfts"
proof -
  obtain mid w where mid: "io_mapM (nft_of_doc env) docs v = (Inr mid, w)" and nfts: "io_mapM (apply_collection env) mid w = (Inr nfts, t)"
    using assms(3) unfolding getNftsInternal_def by (elim io_bind_InrE) (use assms(1,2) in simp)
  show ?thesis
    by (rule list_all2_trans [OF _ io_mapM_list_all2 [OF mid] io_mapM_list_all2 [OF nfts]])
      (use nft_of_doc_identity apply_collection_identity in fastforce)
qed

text \<open>
  C23. The list of NFTs is that of the index: in its order, with the identifiers and collections that the index
  has, and no NFT of the kind \<open>MetaESDT\<close> has royalties, whatever is added to the NFTs.
\<close>

theorem nfts_keep_listing:
  assumes "rank_sort env nf s = (Inr sorted_nf, u)"
    and "nv_indexNfts env \<lparr>qp_from = qp_from pagination, qp_size = qp_size pagination, qp_before = None, qp_after = None\<rparr> sorted_nf None u = (Inr docs, v)"
    and "nftsPage env pagination nf options s = (Inr nfts, t)"
  shows "map na_identifier nfts = map nd_identifier docs \<and> map na_collection nfts = map nd_token docs
    \<and> (\<forall>n \<in> set nfts. na_type n = ''MetaESDT'' \<longrightarrow> na_royalties n = None)"
proof -
  obtain first_nfts w added x where first: "getNftsInternal env \<lparr>qp_from = qp_from pagination, qp_size = qp_size pagination, qp_before = None,
        qp_after = None\<rparr> nf None s = (Inr first_nfts, w)"
    and added: "io_updates [conditionallyApplyAssetsAndTicker env None options, conditionallyApplyOwners env options,
        conditionallyApplySupply env options, batchProcessNfts env None] first_nfts w = (Inr added, x)"
    and last: "batchApplyUnlockFields env None added x = (Inr nfts, t)"
    using assms(3) unfolding nftsPage_def by (elim io_bind_InrE)
  have "keeps (map nft_core) (io_updates [conditionallyApplyAssetsAndTicker env None options, conditionallyApplyOwners env options,
      conditionallyApplySupply env options, batchProcessNfts env None])"
    by (rule keeps_updates) (auto simp: keeps_assets keeps_owners keeps_supply keeps_process)
  from keepsD [OF this added] keepsD [OF keeps_batch_unlock last] have core: "map nft_core nfts = map nft_core first_nfts" by simp
  have rel: "list_all2 (\<lambda>d n. na_identifier n = nd_identifier d \<and> na_collection n = nd_token d \<and> (na_type n = ''MetaESDT'' \<longrightarrow> na_royalties n = None)) docs first_nfts"
    by (rule internal_listing [OF assms(1,2) first])
  have "list_all2 (\<lambda>m n. nft_core n = nft_core m) first_nfts nfts"
    using core by (simp add: list_all2_conv_all_nth) (metis length_map nth_map)
  from list_all2_trans [OF _ rel this, of "\<lambda>d n. na_identifier n = nd_identifier d \<and> na_collection n = nd_token d \<and> (na_type n = ''MetaESDT'' \<longrightarrow> na_royalties n = None)"]
  have "list_all2 (\<lambda>d n. na_identifier n = nd_identifier d \<and> na_collection n = nd_token d \<and> (na_type n = ''MetaESDT'' \<longrightarrow> na_royalties n = None)) docs nfts"
    by (auto simp: nft_core_def)
  then show ?thesis
    by (auto simp: list_all2_conv_all_nth in_set_conv_nth intro!: nth_equalityI)
qed

lemma keeps_single_core: "keeps nft_core (applyAssetsAndTicker env flds)" "keeps nft_core (applyNftSupply env)"
    "keeps nft_core (processNft env)" "keeps nft_core (applyNftOwner env)" "keeps nft_core (applyNftAttributes env)"
proof -
  show "keeps nft_core (applyAssetsAndTicker env flds)"
    by (auto simp: keeps_def applyAssetsAndTicker_def io_return_def elim!: io_bind_InrE split: if_splits) (simp_all add: nft_core_def)
  show "keeps nft_core (applyNftSupply env)" unfolding applyNftSupply_def by (rule keeps_reader) (simp add: nft_core_def)
  have "keeps nft_core (applyMedia env)" "keeps nft_core (applyMetadata env)"
    by (auto simp: keeps_def applyMedia_def applyMetadata_def io_return_def elim!: io_bind_InrE dest!: keepsD [OF keeps_redirect]) (simp_all add: nft_core_def)
  then have "keeps nft_core (io_updates [applyMedia env, applyMetadata env])" by (intro keeps_updates) auto
  then show "keeps nft_core (processNft env)"
    unfolding processNft_def by (intro keeps_bind keeps_return core_default_media)
  show "keeps nft_core (applyNftOwner env)"
    by (auto simp: keeps_def applyNftOwner_def io_return_def elim!: io_bind_InrE split: if_splits list.splits) (simp_all add: nft_core_def)
  show "keeps nft_core (applyNftAttributes env)"
    by (auto simp: keeps_def applyNftAttributes_def io_return_def elim!: io_bind_InrE split: if_splits list.splits) (simp_all add: nft_core_def)
qed

lemma io_updates_Cons:
  assumes "io_updates (f # fs) x s = (Inr y, t)"
  obtains z u where "f x s = (Inr z, u)" "io_updates fs z u = (Inr y, t)"
  using assms by (auto split: prod.splits sum.splits)

lemma default_media_given: "\<not> needsDefaultMedia (default_media n)"
  by (cases "needsDefaultMedia n") (simp_all add: default_media_def needsDefaultMedia_def)

lemma processed_media: "processNft env n s = (Inr m, t) \<Longrightarrow> \<not> needsDefaultMedia m"
  unfolding processNft_def by (erule io_bind_InrE) (use default_media_given in \<open>auto simp: io_return_def simp del: io_updates.simps\<close>)

lemma needsDefaultMedia_cong: "nft_core m = nft_core n \<Longrightarrow> nn_media m = nn_media n \<Longrightarrow> needsDefaultMedia m = needsDefaultMedia n"
  by (simp add: needsDefaultMedia_def nft_core_def)

lemma keeps_owner_media: "keeps nn_media (\<lambda>n. io_bind (applyNftOwner env n) (applyNftAttributes env))"
proof (rule keeps_bind)
  show "keeps nn_media (applyNftOwner env)"
    by (auto simp: keeps_def applyNftOwner_def io_return_def elim!: io_bind_InrE split: if_splits list.splits)
  show "keeps nn_media (applyNftAttributes env)"
    by (auto simp: keeps_def applyNftAttributes_def io_return_def elim!: io_bind_InrE split: if_splits list.splits)
qed

lemma single_updates:
  assumes "io_updates [\<lambda>n. if na_type n \<in> set supply_types then applyNftSupply env n else io_return n,
      applyAssetsAndTicker env None, processNft env, \<lambda>n. io_bind (applyNftOwner env n) (applyNftAttributes env)] n s = (Inr m, t)"
  shows "nft_core m = nft_core n \<and> \<not> needsDefaultMedia m"
proof -
  have owner: "keeps nft_core (\<lambda>n. io_bind (applyNftOwner env n) (applyNftAttributes env))"
    by (intro keeps_bind keeps_single_core)
  have "keeps nft_core (\<lambda>n. if na_type n \<in> set supply_types then applyNftSupply env n else io_return n)"
    by (intro keeps_if keeps_single_core keeps_return refl)
  then have "keeps nft_core (io_updates [\<lambda>n. if na_type n \<in> set supply_types then applyNftSupply env n else io_return n,
      applyAssetsAndTicker env None, processNft env, \<lambda>n. io_bind (applyNftOwner env n) (applyNftAttributes env)])"
    using owner keeps_single_core by (intro keeps_updates) auto
  from keepsD [OF this assms] have core: "nft_core m = nft_core n" .
  obtain n1 u1 n2 u2 n3 u3 where processed: "processNft env n2 u2 = (Inr n3, u3)"
    and owned: "io_bind (applyNftOwner env n3) (applyNftAttributes env) u3 = (Inr m, t)"
    using assms by (elim io_updates_Cons) (auto simp: io_return_def)
  have "\<not> needsDefaultMedia n3" by (rule processed_media [OF processed])
  moreover have "needsDefaultMedia m = needsDefaultMedia n3"
    by (rule needsDefaultMedia_cong) (rule keepsD [OF owner owned], rule keepsD [OF keeps_owner_media owned])
  ultimately show ?thesis using core by simp
qed

text \<open>
  A single NFT is the one that was asked for, up to the case of its letters, and its identifier has the
  form of one; unless it is of the kind \<open>MetaESDT\<close> it has media, its own ones or the default ones.
\<close>

theorem single_nft_is_asked:
  assumes "getSingleNft env identifier s = (Inr (Some n), t)"
  shows "nv_isNft env identifier \<and> to_lower (na_identifier n) = to_lower identifier \<and> \<not> needsDefaultMedia n"
proof -
  obtain nfts u where u: "(if \<not> nv_isNft env identifier then io_return None else case nfts of [] \<Rightarrow> io_return None | n # _ \<Rightarrow>
      (let n = nv_merge env n in if to_lower (na_identifier n) \<noteq> to_lower identifier then io_return None
       else io_bind (io_updates [\<lambda>n. if na_type n \<in> set supply_types then applyNftSupply env n else io_return n,
           applyAssetsAndTicker env None, processNft env, \<lambda>n. io_bind (applyNftOwner env n) (applyNftAttributes env)] n) (\<lambda>n.
         io_bind (applyUnlockFields env None n) (\<lambda>n. io_return (Some n))))) u = (Inr (Some n), t)"
    using assms unfolding getSingleNft_def by (rule io_bind_InrE)
  then obtain m rest where isNft: "nv_isNft env identifier" and "nfts = m # rest" and same: "to_lower (na_identifier (nv_merge env m)) = to_lower identifier"
    and run: "io_bind (io_updates [\<lambda>n. if na_type n \<in> set supply_types then applyNftSupply env n else io_return n,
           applyAssetsAndTicker env None, processNft env, \<lambda>n. io_bind (applyNftOwner env n) (applyNftAttributes env)] (nv_merge env m)) (\<lambda>n.
         io_bind (applyUnlockFields env None n) (\<lambda>n. io_return (Some n))) u = (Inr (Some n), t)"
    by (cases nfts) (auto simp: io_return_def Let_def split: if_splits)
  from run obtain k v where k: "io_updates [\<lambda>n. if na_type n \<in> set supply_types then applyNftSupply env n else io_return n,
      applyAssetsAndTicker env None, processNft env, \<lambda>n. io_bind (applyNftOwner env n) (applyNftAttributes env)] (nv_merge env m) u = (Inr k, v)"
    and end_step: "io_bind (applyUnlockFields env None k) (\<lambda>n. io_return (Some n)) v = (Inr (Some n), t)"
    by (rule io_bind_InrE)
  have unlock: "applyUnlockFields env None k v = (Inr n, t)" by (rule io_bind_InrE [OF end_step]) (simp add: io_return_def)
  have "keeps nn_media (applyUnlockFields env None)" by (rule keeps_unlock) simp_all
  from keepsD [OF this unlock] keepsD [OF keeps_unlock_core unlock] single_updates [OF k] isNft same show ?thesis
    using needsDefaultMedia_cong [of n k] by (simp add: nft_core_def)
qed

section \<open>NFTs of an address\<close>

lemma keeps_price: "keeps nft_core (applyNftPriceUsd env flds)"
  unfolding applyNftPriceUsd_def by (intro keeps_if keeps_return keeps_catch keeps_reader refl) (simp add: nft_core_def split: option.split)

lemma core_copy_extended: "nft_core (copy_extended internalNfts n) = nft_core n"
  by (simp add: copy_extended_def nft_core_def Let_def split: option.split)

lemma subseq_scam: "subseq (applyScamFilter nf nfts) nfts"
  by (auto simp: applyScamFilter_def Let_def intro: subseq_order.trans subseq_filter_left split: option.splits bool.splits)

lemma scam_filtered:
  assumes "n \<in> set (applyScamFilter nf nfts)"
  shows "(\<forall>isScam. ff_isScam nf = Some isScam \<longrightarrow> truthy (scam_type n) = isScam) \<and> (truthy (ff_scamType nf) \<longrightarrow> scam_type n = ff_scamType nf)"
  using assms by (auto simp: applyScamFilter_def Let_def split: option.splits bool.splits if_splits)

text \<open>
  The NFTs of an address are those of one page of its tokens, in the order of the page, and every one meets
  what the filter says of scams. The page is taken before that filter, so it can be shorter than what was
  asked for, or empty, though more NFTs meet the filter.
\<close>

theorem scam_filter_after_page:
  assumes "nftsOfAddress (nv_address env) address nf pagination source options s = (Inr accounts, u)"
    and "nftsForAddress env address pagination nf flds options source s = (Inr nfts, t)"
  shows "subseq (map na_identifier nfts) (map na_identifier accounts)
    \<and> (\<forall>n \<in> set nfts. (\<forall>isScam. ff_isScam nf = Some isScam \<longrightarrow> truthy (scam_type n) = isScam)
        \<and> (truthy (ff_scamType nf) \<longrightarrow> scam_type n = ff_scamType nf))"
proof -
  obtain a ua b ub c uc d ud where a: "io_mapM (\<lambda>n. io_bind (applyAssetsAndTicker env flds n) (applyNftPriceUsd env flds)) (map nft_of_account accounts) u = (Inr a, ua)"
    and b: "(if (case options of None \<Rightarrow> False | Some v \<Rightarrow> no_withSupply v) then batchApplySupply env flds has_supply a else io_return a) ua = (Inr b, ub)"
    and c: "batchProcessNfts env flds b ub = (Inr c, uc)"
    and d: "(if nv_extendedAttributesEnabled env \<and> \<not> fields_without flds [''score'', ''rank'', ''isNsfw'', ''scamInfo'']
         then io_bind (getNftsInternalByIdentifiers env (map na_identifier c)) (\<lambda>internalNfts. io_return (map (copy_extended internalNfts) c))
         else io_return c) uc = (Inr d, ud)"
    and last: "io_mapM (applyUnlockFields env flds) (applyScamFilter nf d) ud = (Inr nfts, t)"
    using assms(2) unfolding nftsForAddress_def by (elim io_bind_InrE) (use assms(1) in simp)
  have "keeps nft_core (\<lambda>n. io_bind (applyAssetsAndTicker env flds n) (applyNftPriceUsd env flds))"
    by (intro keeps_bind keeps_single_core keeps_price)
  from keepsD [OF keeps_mapM [OF this] a] have "map nft_core a = map nft_core (map nft_of_account accounts)" .
  moreover have "map nft_core b = map nft_core a" using b keepsD [OF keeps_batch_supply] by (auto simp: io_return_def split: if_splits)
  moreover have "map nft_core c = map nft_core b" by (rule keepsD [OF keeps_process c])
  moreover have "map nft_core d = map nft_core c"
    using d by (auto simp: io_return_def core_copy_extended elim!: io_bind_InrE split: if_splits)
  ultimately have "map nft_core d = map nft_core (map nft_of_account accounts)" by simp
  from arg_cong [OF this, of "map fst"] have ids: "map na_identifier d = map na_identifier accounts"
    by (simp add: comp_def nft_core_def nft_of_account_def nft_account.defs)
  have "keeps na_identifier (applyUnlockFields env flds)" "keeps na_scamInfo (applyUnlockFields env flds)"
    by (rule keeps_unlock; simp)+
  from this [THEN keeps_mapM, THEN keepsD, OF last]
  have same: "map na_identifier nfts = map na_identifier (applyScamFilter nf d)" "map na_scamInfo nfts = map na_scamInfo (applyScamFilter nf d)" by auto
  have "subseq (map na_identifier nfts) (map na_identifier accounts)"
    unfolding same(1) ids [symmetric] by (rule subseq_map [OF subseq_scam])
  moreover have "\<exists>m \<in> set (applyScamFilter nf d). scam_type m = scam_type n" if "n \<in> set nfts" for n
    using that same(2) by (auto simp: scam_type_def dest!: arg_cong [of _ _ set]) (metis imageE imageI)
  then have "\<forall>n \<in> set nfts. (\<forall>isScam. ff_isScam nf = Some isScam \<longrightarrow> truthy (scam_type n) = isScam)
      \<and> (truthy (ff_scamType nf) \<longrightarrow> scam_type n = ff_scamType nf)"
    using scam_filtered by metis
  ultimately show ?thesis by blast
qed

section \<open>Witnesses\<close>

definition sample_indexed :: "string \<Rightarrow> indexed_nft" where
  "sample_indexed i = \<lparr>en_tokenNonce = Some 1, en_balance = ''1'', en_token = ''C-1'', en_identifier = i, en_timestamp = None, en_attributes = None,
     en_creator = None, en_name = Some ''N'', en_royalties = None, en_uris = None\<rparr>"

definition sample_nft_doc :: "string \<Rightarrow> string option \<Rightarrow> nft_doc" where
  "sample_nft_doc i scam = \<lparr>nd_identifier = i, nd_token = ''C-1'', nd_timestamp = None, nd_scamInfoType = scam, nd_scamInfoDescription = None,
     nd_numbers = \<lambda>k. if k = ''nft_rank_openRarity'' then Some 1 else None, nd_nsfw_mark = None, nd_data = None\<rparr>"

text \<open>An address with two NFTs, of which the first is said to be a scam.\<close>

definition sample_docs :: "nft_doc list" where
  "sample_docs = [sample_nft_doc ''C-1-01'' (Some ''scam''), sample_nft_doc ''C-1-02'' None]"

definition sample_nft_env :: "(string \<Rightarrow> string set) nft_env" where
  "sample_nft_env = \<lparr>nv_consts = qe_consts sample_esdt_env,
     nv_address = sample_esdt_address_env\<lparr>xa_indexNfts := \<lambda>_ _ p. io_return (take (nat (qp_size p)) (drop (nat (qp_from p)) (map sample_indexed [''C-1-01'', ''C-1-02''])))\<rparr>,
     nv_locked = sample_locked_env,
     nv_indexNfts = \<lambda>_ nf i. io_return (filter (\<lambda>d. nd_identifier d \<in> set (coalesce (ff_identifiers nf) [''C-1-01'', ''C-1-02'']) \<and> nd_identifier d = coalesce i (nd_identifier d)) sample_docs),
     nv_indexNftCount = \<lambda>_. io_return 2, nv_indexOwnersCount = \<lambda>_. io_return 1,
     nv_accountEsdtByIdentifiers = \<lambda>is _. io_return (map (\<lambda>i. \<lparr>ac_address = ''erd1'', ac_balance = ''1'', ac_identifier = i\<rparr>) is),
     nv_accountsEsdtByCollection = \<lambda>_ _. io_return [], nv_applyMedia = \<lambda>_ _ _ _. io_return (\<lambda>_. None), nv_applyMetadata = \<lambda>_ _ _ _. io_return (\<lambda>_. None),
     nv_applySupply = \<lambda>_ _ _ _. io_return (\<lambda>_. None), nv_batchGetMedia = \<lambda>_. io_return [], nv_batchGetMetadata = \<lambda>_. io_return [],
     nv_getMedia = \<lambda>_. io_return None, nv_getMetadata = \<lambda>_. io_return None, nv_changeDefaultMedia = \<lambda>_. io_return (),
     nv_getOrSetCount = \<lambda>_ m _. m, nv_mexPrices = io_return (\<lambda>_. None), nv_denominateString = \<lambda>_ _. 0, nv_fl = id, nv_network = Inr ''mainnet'',
     nv_mediaUrl = Inr ''https://media'', nv_nsfwThreshold = 1, nv_extendedAttributesEnabled = True,
     nv_isNft = \<lambda>s. length (split_on CHR ''-'' s) = 3, nv_merge = id, nv_splitArrayIntoChunks = \<lambda>xs _. [xs]\<rparr>"

abbreviation sample_world :: "string \<Rightarrow> string set" where
  "sample_world \<equiv> \<lambda>_. {}"

lemma sample_single: "case fst (getSingleNft sample_nft_env ''C-1-01'' sample_world) of Inr (Some n) \<Rightarrow> nn_media n = Some Default_media | _ \<Rightarrow> False"
  by code_simp

lemma sample_nfts: "case fst (nftsPage sample_nft_env (first_page 2) no_nft_filter None sample_world) of Inr nfts \<Rightarrow> length nfts = 2 | _ \<Rightarrow> False"
  by code_simp

lemma sample_accounts:
  "case fst (nftsOfAddress (nv_address sample_nft_env) ''e'' (no_nft_filter\<lparr>ff_isScam := Some False\<rparr>) (first_page 1) (Some Source_elastic) None sample_world) of
     Inr accounts \<Rightarrow> map na_identifier accounts = [''C-1-01''] | _ \<Rightarrow> False"
  by code_simp

text \<open>The clean NFT of the address is the second one: it is not on the first page, which is empty.\<close>

lemma sample_empty_page:
  "fst (nftsForAddress sample_nft_env ''e'' (first_page 1) (no_nft_filter\<lparr>ff_isScam := Some False\<rparr>) None None (Some Source_elastic) sample_world) = Inr []"
  by code_simp

lemma fst_Inr_case:
  assumes "case fst p of Inr x \<Rightarrow> P x | Inl _ \<Rightarrow> False"
  obtains x t where "p = (Inr x, t)" "P x"
  using assms by (cases p) (auto split: sum.splits)

theorem single_nft_is_asked_witness: "\<exists>n. to_lower (na_identifier n) = to_lower ''C-1-01'' \<and> \<not> needsDefaultMedia n"
proof -
  obtain r t where r: "getSingleNft sample_nft_env ''C-1-01'' sample_world = (Inr r, t)"
      "case r of None \<Rightarrow> False | Some n \<Rightarrow> nn_media n = Some Default_media"
    using sample_single by (rule fst_Inr_case)
  then obtain n where "getSingleNft sample_nft_env ''C-1-01'' sample_world = (Inr (Some n), t)" by (cases r) auto
  from single_nft_is_asked [OF this] show ?thesis by blast
qed

theorem nfts_keep_listing_witness: "\<exists>nfts t. nftsPage sample_nft_env (first_page 2) no_nft_filter None sample_world = (Inr nfts, t)
  \<and> map na_identifier nfts = [''C-1-01'', ''C-1-02''] \<and> map na_collection nfts = [''C-1'', ''C-1'']
  \<and> (\<forall>n \<in> set nfts. na_type n = ''MetaESDT'' \<longrightarrow> na_royalties n = None)"
proof -
  obtain nfts t where nfts: "nftsPage sample_nft_env (first_page 2) no_nft_filter None sample_world = (Inr nfts, t)"
    using sample_nfts by (rule fst_Inr_case)
  have "rank_sort sample_nft_env no_nft_filter sample_world = (Inr no_nft_filter, sample_world)"
    by (simp add: rank_sort_def no_nft_filter_def io_simps)
  moreover have "nv_indexNfts sample_nft_env p no_nft_filter None sample_world = (Inr sample_docs, sample_world)" for p
    by (simp add: sample_nft_env_def no_nft_filter_def sample_docs_def sample_nft_doc_def io_simps)
  ultimately have "map na_identifier nfts = map nd_identifier sample_docs \<and> map na_collection nfts = map nd_token sample_docs
    \<and> (\<forall>n \<in> set nfts. na_type n = ''MetaESDT'' \<longrightarrow> na_royalties n = None)"
    by (rule nfts_keep_listing [OF _ _ nfts])
  then show ?thesis using nfts by (intro exI [of _ nfts] exI [of _ t]) (simp add: sample_docs_def sample_nft_doc_def)
qed

theorem scam_filter_after_page_witness: "subseq (map na_identifier []) [''C-1-01''] \<and> (\<forall>n \<in> set []. \<not> truthy (scam_type n))"
proof -
  let ?nf = "no_nft_filter\<lparr>ff_isScam := Some False\<rparr>"
  obtain accounts u where accounts: "nftsOfAddress (nv_address sample_nft_env) ''e'' ?nf (first_page 1) (Some Source_elastic) None sample_world = (Inr accounts, u)"
    "map na_identifier accounts = [''C-1-01'']"
    using sample_accounts by (rule fst_Inr_case)
  obtain t where "nftsForAddress sample_nft_env ''e'' (first_page 1) ?nf None None (Some Source_elastic) sample_world = (Inr [], t)"
    using sample_empty_page by (metis prod.collapse)
  from scam_filter_after_page [OF accounts(1) this] show ?thesis by (simp add: accounts(2))
qed

end
