(* ===== verification/NftWorker.thy ===== *)
theory NftWorker imports Nfts Accounts begin

text \<open>
  The worker that fetches the metadata and the media of NFTs and makes their thumbnails
  (\<open>src/queue.worker/nft.worker\<close>), the requests for it (\<open>src/endpoints/process-nfts\<close>), the attributes of an
  NFT (\<open>src/endpoints/nfts/nft.extendedattributes.service.ts\<close>) and the lock that several workers share
  (\<open>src/utils/caching.utils.ts\<close>).
\<close>

section \<open>Data\<close>

record process_settings =
  ps_forceRefreshMedia :: bool
  ps_forceRefreshMetadata :: bool
  ps_forceRefreshThumbnail :: bool
  ps_skipRefreshThumbnail :: bool
  ps_uploadAsset :: bool

record process_request =
  pq_collection :: "string option"
  pq_identifier :: "string option"
  pq_forceRefreshMedia :: "bool option"
  pq_forceRefreshMetadata :: "bool option"
  pq_forceRefreshThumbnail :: "bool option"
  pq_skipRefreshThumbnail :: "bool option"
  pq_uploadAsset :: "bool option"

definition settings_fromRequest :: "process_request \<Rightarrow> process_settings" where
  "settings_fromRequest r =
     \<lparr>ps_forceRefreshMedia = coalesce (pq_forceRefreshMedia r) False, ps_forceRefreshMetadata = coalesce (pq_forceRefreshMetadata r) False,
      ps_forceRefreshThumbnail = coalesce (pq_forceRefreshThumbnail r) False, ps_skipRefreshThumbnail = coalesce (pq_skipRefreshThumbnail r) False,
      ps_uploadAsset = coalesce (pq_uploadAsset r) False\<rparr>"

record nft_message =
  mg_identifier :: string
  mg_settings :: process_settings

text \<open>The headers of a message, as far as they are read: the counts of \<open>x-death\<close>.\<close>

type_synonym message_headers = "int list option option"

datatype thumbnail_result = Thumbnail_success | Thumbnail_noUrl | Thumbnail_noMetadata | Thumbnail_unhandledException
  | Thumbnail_unrecognizedFileType | Thumbnail_couldNotExtractThumbnail | Thumbnail_pendingUploadAsset

definition media_mime_types :: "string list" where
  "media_mime_types = [''image/png'', ''image/jpeg'', ''image/webp'', ''image/jpg'', ''image/gif'', ''image/svg'', ''image/svg+xml'',
     ''audio/aac'', ''audio/flac'', ''audio/m4a'', ''audio/mpeg'', ''audio/wav'', ''video/mov'', ''video/quicktime'', ''video/mp4'', ''video/webm'', ''video/mpeg'']"

text \<open>The content type and the length that a server gives for a file; a length can be no number.\<close>

record file_properties =
  fl_contentType :: "string option"
  fl_contentLength :: "int option"

datatype metadata_error_code = Ipfs_error | Not_found | Timeout_error | Unknown_error | Invalid_content_type | Json_parse_error | Empty_metadata

text \<open>
  The services. A file is its text. \<open>wk_head\<close> asks for the headers of a file and gives the status with them;
  \<open>wk_headHandled\<close> and its function say that an error is handled (the answer is then \<open>undefined\<close>).
  \<open>wk_getJson\<close> gives the content type and the data of an answer, a text or another value. The functions on
  pictures, sounds and the moments of a film are those of sharp and ffmpeg.
\<close>

record 's worker_env =
  wk_consts :: time_consts
  wk_nfts :: "'s nft_env"
  wk_accounts :: "'s account_env"
  wk_isSmartContract :: "string option \<Rightarrow> bool res"
  wk_getRemote :: "string \<Rightarrow> ('s, bool) io"
  wk_setRemote :: "string \<Rightarrow> bool \<Rightarrow> int \<Rightarrow> ('s, unit) io"
  wk_deleteInCache :: "string \<Rightarrow> ('s, unit) io"
  wk_incrementRemote :: "string \<Rightarrow> ('s, int) io"
  wk_getOrSetOwner :: "string \<Rightarrow> ('s, string option) io \<Rightarrow> int \<Rightarrow> ('s, string option) io"
  wk_persistedMedia :: "string \<Rightarrow> ('s, nft_media list option) io"
  wk_persistMedia :: "string \<Rightarrow> nft_media list \<Rightarrow> ('s, unit) io"
  wk_persistedMetadata :: "string \<Rightarrow> ('s, json option) io"
  wk_persistMetadata :: "string \<Rightarrow> json \<Rightarrow> ('s, unit) io"
  wk_getOrSetMedia :: "string \<Rightarrow> ('s, nft_media list option) io \<Rightarrow> int \<Rightarrow> ('s, nft_media list option) io"
  wk_getOrSetMetadata :: "string \<Rightarrow> ('s, json option) io \<Rightarrow> int \<Rightarrow> ('s, json option) io"
  wk_getOrSetProperties :: "string \<Rightarrow> ('s, file_properties option) io \<Rightarrow> int \<Rightarrow> ('s, file_properties option) io"
  wk_setMedia :: "string \<Rightarrow> nft_media list \<Rightarrow> int \<Rightarrow> ('s, unit) io"
  wk_setMetadata :: "string \<Rightarrow> json \<Rightarrow> int \<Rightarrow> ('s, unit) io"
  wk_emitRefresh :: "string \<Rightarrow> int \<Rightarrow> ('s, unit) io"
  wk_emitDelete :: "string list \<Rightarrow> ('s, unit) io"
  wk_send :: "nft_message \<Rightarrow> ('s, unit) io"
  wk_ack :: "('s, unit) io"
  wk_reject :: "bool \<Rightarrow> ('s, unit) io"
  wk_head :: "string \<Rightarrow> ('s, int \<times> file_properties) io"
  wk_headHandled :: "string \<Rightarrow> bool \<Rightarrow> (js_error \<Rightarrow> bool) \<Rightarrow> ('s, file_properties option) io"
  wk_getFile :: "string \<Rightarrow> ('s, string) io"
  wk_getJson :: "string \<Rightarrow> ('s, string option \<times> json) io"
  wk_uploadToS3 :: "string \<Rightarrow> string \<Rightarrow> string \<Rightarrow> ('s, unit) io"
  wk_responseStatus :: "js_error \<Rightarrow> int option"
  wk_responseText :: "js_error \<Rightarrow> string option"
  wk_message :: "js_error \<Rightarrow> string option"
  wk_sha256 :: "string \<Rightarrow> string"
  wk_thumbnailOfImage :: "string \<Rightarrow> ('s, string) io"
  wk_waveform :: "string \<Rightarrow> string \<Rightarrow> ('s, unit) io"
  wk_screenshot :: "string \<Rightarrow> int \<Rightarrow> string \<Rightarrow> ('s, unit) io"
  wk_writeFile :: "string \<Rightarrow> string \<Rightarrow> ('s, unit) io"
  wk_readFile :: "string \<Rightarrow> ('s, string option) io"
  wk_fileExists :: "string \<Rightarrow> ('s, bool) io"
  wk_fileSize :: "string \<Rightarrow> ('s, int) io"
  wk_deleteFile :: "string \<Rightarrow> ('s, unit) io"
  wk_joinPath :: "string \<Rightarrow> string \<Rightarrow> string"
  wk_tempUrl :: string
  wk_externalMediaUrl :: string
  wk_mediaUrl :: string
  wk_mediaInternalUrl :: "string option"
  wk_ipfsUrl :: string
  wk_retryLimit :: int
  wk_poolLimit :: int
  wk_asyncPool :: "int \<Rightarrow> nft list \<Rightarrow> (nft \<Rightarrow> ('s, bool) io) \<Rightarrow> ('s, bool list) io"
  wk_metadataMatch :: "string \<Rightarrow> string option"
  wk_tagsMatch :: "string \<Rightarrow> string option"
  wk_parseJson :: "string \<Rightarrow> json res"
  wk_cleanup :: "json \<Rightarrow> json"
  wk_now :: "('s, int) io"

abbreviation wk_decode :: "'s worker_env \<Rightarrow> string \<Rightarrow> string res" where
  "wk_decode env \<equiv> xa_base64Decode (nv_address (wk_nfts env))"

abbreviation wk_uris :: "'s worker_env \<Rightarrow> uri_functions" where
  "wk_uris env \<equiv> xa_uriFunctions (nv_address (wk_nfts env))"

definition getUrlHash :: "'s worker_env \<Rightarrow> string \<Rightarrow> string" where
  "getUrlHash env url = take 8 (wk_sha256 env (js_trim url))"

definition getThumbnailUrlIdentifier :: "'s worker_env \<Rightarrow> string \<Rightarrow> string \<Rightarrow> string" where
  "getThumbnailUrlIdentifier env nftIdentifier fileUrl = join ''-'' (take 2 (split_on CHR ''-'' nftIdentifier)) @ ''-'' @ getUrlHash env fileUrl"

section \<open>The lock\<close>

definition executeOptimistic :: "'s worker_env \<Rightarrow> string \<Rightarrow> int \<Rightarrow> ('s, 'a) io \<Rightarrow> ('s, 'a option) io" where
  "executeOptimistic env key ttl action =
     io_bind (wk_getRemote env key) (\<lambda>cacheValue.
       if cacheValue then io_return None
       else io_bind (wk_setRemote env key True ttl) (\<lambda>_.
            io_bind action (\<lambda>r.
            io_bind (wk_deleteInCache env key) (\<lambda>_. io_return (Some r)))))"

text \<open>
  The same call step by step, for several workers on one key: it reads the key, writes it, runs the action and
  deletes the key, and between two steps others can go on. An action that throws leaves the key.
\<close>

datatype lock_phase = Lock_start | Lock_free | Lock_running | Lock_skipped | Lock_done | Lock_failed

record lock_state =
  lk_key :: bool
  lk_workers :: "lock_phase list"

inductive lock_step :: "lock_state \<Rightarrow> lock_state \<Rightarrow> bool" where
  seen_key: "w < length (lk_workers q) \<Longrightarrow> lk_workers q ! w = Lock_start \<Longrightarrow> lk_key q
    \<Longrightarrow> lock_step q (q\<lparr>lk_workers := (lk_workers q)[w := Lock_skipped]\<rparr>)"
| seen_free: "w < length (lk_workers q) \<Longrightarrow> lk_workers q ! w = Lock_start \<Longrightarrow> \<not> lk_key q
    \<Longrightarrow> lock_step q (q\<lparr>lk_workers := (lk_workers q)[w := Lock_free]\<rparr>)"
| set_key: "w < length (lk_workers q) \<Longrightarrow> lk_workers q ! w = Lock_free
    \<Longrightarrow> lock_step q (q\<lparr>lk_key := True, lk_workers := (lk_workers q)[w := Lock_running]\<rparr>)"
| ended: "w < length (lk_workers q) \<Longrightarrow> lk_workers q ! w = Lock_running
    \<Longrightarrow> lock_step q (q\<lparr>lk_key := False, lk_workers := (lk_workers q)[w := Lock_done]\<rparr>)"
| failed: "w < length (lk_workers q) \<Longrightarrow> lk_workers q ! w = Lock_running
    \<Longrightarrow> lock_step q (q\<lparr>lk_workers := (lk_workers q)[w := Lock_failed]\<rparr>)"
| expired: "lock_step q (q\<lparr>lk_key := False\<rparr>)"

definition lock_init :: "nat \<Rightarrow> lock_state" where
  "lock_init n = \<lparr>lk_key = False, lk_workers = replicate n Lock_start\<rparr>"

section \<open>Metadata\<close>

definition metadata_error_text :: "metadata_error_code \<Rightarrow> string" where
  "metadata_error_text c = (case c of Ipfs_error \<Rightarrow> ''ipfs_error'' | Not_found \<Rightarrow> ''not_found'' | Timeout_error \<Rightarrow> ''timeout''
     | Unknown_error \<Rightarrow> ''unknown_error'' | Invalid_content_type \<Rightarrow> ''invalid_content_type'' | Json_parse_error \<Rightarrow> ''json_parse_error''
     | Empty_metadata \<Rightarrow> ''empty_metadata'')"

definition createMetadataError :: "'s worker_env \<Rightarrow> metadata_error_code \<Rightarrow> string \<Rightarrow> ('s, json option) io" where
  "createMetadataError env code message =
     io_bind (wk_now env) (\<lambda>now. io_return (Some (JObj [(''error'', JObj [(''code'', JStr (metadata_error_text code)), (''message'', JStr message),
       (''timestamp'', JNum now)])])))"

text \<open>\<open>Object.keys(v).length\<close>; it throws for \<open>null\<close> and \<open>undefined\<close>.\<close>

fun object_size :: "json \<Rightarrow> nat res" where
  "object_size JUndefined = Inl TypeError"
| "object_size JNull = Inl TypeError"
| "object_size (JStr s) = Inr (length s)"
| "object_size (JArr xs) = Inr (length xs)"
| "object_size (JObj ms) = Inr (length ms)"
| "object_size _ = Inr 0"

definition quoted :: "string \<Rightarrow> string" where
  "quoted s = CHR 0x27 # s @ [CHR 0x27]"

definition metadata_failure :: "'s worker_env \<Rightarrow> string \<Rightarrow> js_error \<Rightarrow> ('s, json option) io" where
  "metadata_failure env metadata error =
     (if error_status error = Some 400 \<and> wk_responseText env error \<noteq> None
      then createMetadataError env Ipfs_error (''IPFS error when fetching metadata: '' @ the (wk_responseText env error))
      else if error_status error = Some 404 then createMetadataError env Not_found ''Metadata file not found on IPFS''
      else if wk_message env error = Some ''timeout of 10000ms exceeded'' then createMetadataError env Timeout_error ''Timeout exceeded when fetching metadata''
      else createMetadataError env Unknown_error (''Unknown error when fetching metadata '' @ quoted metadata))"

definition getExtendedAttributesFromIpfs :: "'s worker_env \<Rightarrow> string \<Rightarrow> ('s, json option) io" where
  "getExtendedAttributesFromIpfs env metadata =
     (let uri = computeNftUri (wk_uris env) (''https://ipfs.io/ipfs/'' @ metadata) (wk_mediaUrl env @ ''/nfts/asset'')
      in io_bind (io_catch (io_bind (wk_getJson env uri) (\<lambda>r. io_return (Inr r))) (\<lambda>e. io_bind (metadata_failure env metadata e) (\<lambda>v. io_return (Inl v)))) (\<lambda>outcome.
         case outcome of
           Inl v \<Rightarrow> io_return v
         | Inr (contentType, body) \<Rightarrow>
             if contentType \<noteq> Some ''application/json''
             then createMetadataError env Invalid_content_type (''Invalid content type '' @ CHR 0x27 # coalesce contentType ''undefined'')
             else (case (case body of JStr s \<Rightarrow> wk_parseJson env s | v \<Rightarrow> Inr v) of
               Inl _ \<Rightarrow> createMetadataError env Json_parse_error ''Error when parsing as JSON''
             | Inr v \<Rightarrow>
                 (let v = wk_cleanup env v
                  in io_bind (io_lift (object_size v)) (\<lambda>n.
                       if n = 0 then createMetadataError env Empty_metadata ''Metadata value is empty''
                       else io_return (case v of JObj _ \<Rightarrow> Some v | JArr _ \<Rightarrow> Some v | _ \<Rightarrow> None))))))"

definition json_falsy :: "json \<Rightarrow> bool" where
  "json_falsy v \<longleftrightarrow> v \<in> {JUndefined, JNull, JBool False, JNum 0, JStr []}"

text \<open>A link to a file that is not a text makes the replacement of its prefix throw.\<close>

definition apply_fileUri :: "'s worker_env \<Rightarrow> json \<Rightarrow> json res" where
  "apply_fileUri env v = (case v of
     JObj members \<Rightarrow>
       (let uri = coalesce (map_of members ''fileUri'') JUndefined
        in if json_falsy uri then Inr v
           else (case uri of
             JStr s \<Rightarrow> Inr (JObj (AList.update ''fileUri'' (JStr (computeNftUri (wk_uris env) s (wk_externalMediaUrl env @ ''/nfts/asset''))) members))
           | _ \<Rightarrow> Inl TypeError))
   | _ \<Rightarrow> Inr v)"

definition getExtendedAttributesFromMetadata :: "'s worker_env \<Rightarrow> string \<Rightarrow> ('s, json option) io" where
  "getExtendedAttributesFromMetadata env metadata =
     io_bind (getExtendedAttributesFromIpfs env metadata) (\<lambda>r. case r of
       None \<Rightarrow> io_return None
     | Some v \<Rightarrow> io_bind (io_lift (object_size v)) (\<lambda>n.
         if n = 0 then io_return None else io_bind (io_lift (apply_fileUri env v)) (\<lambda>v. io_return (Some v))))"

definition getMetadataFromBase64EncodedAttributes :: "'s worker_env \<Rightarrow> string \<Rightarrow> string option" where
  "getMetadataFromBase64EncodedAttributes env attributes = wk_metadataMatch env attributes"

definition getTags :: "'s worker_env \<Rightarrow> string \<Rightarrow> string list" where
  "getTags env attributes = (case wk_tagsMatch env attributes of None \<Rightarrow> [] | Some tags \<Rightarrow> split_on CHR '','' tags)"

definition getExtendedAttributesFromBase64EncodedAttributes :: "'s worker_env \<Rightarrow> string \<Rightarrow> ('s, json option) io" where
  "getExtendedAttributesFromBase64EncodedAttributes env attributes =
     (case getMetadataFromBase64EncodedAttributes env attributes of None \<Rightarrow> io_return None | Some metadata \<Rightarrow> getExtendedAttributesFromMetadata env metadata)"

definition tryGetExtendedAttributes :: "'s worker_env \<Rightarrow> string \<Rightarrow> ('s, json option) io" where
  "tryGetExtendedAttributes env attributes = io_catch (getExtendedAttributesFromBase64EncodedAttributes env attributes) (\<lambda>_. io_return None)"

definition getMetadata :: "'s worker_env \<Rightarrow> nft \<Rightarrow> ('s, json option) io" where
  "getMetadata env n =
     (let info = CacheInfo_NftMetadata (wk_consts env) (na_identifier n)
      in wk_getOrSetMetadata env (ci_key info) (wk_persistedMetadata env (na_identifier n)) (ci_ttl info))"

definition getMetadataRaw :: "'s worker_env \<Rightarrow> nft \<Rightarrow> ('s, json option) io" where
  "getMetadataRaw env n =
     (if \<not> truthy (na_attributes n) then io_return None
      else let info = CacheInfo_PendingMetadataGet (wk_consts env) (na_identifier n)
        in io_bind (executeOptimistic env (ci_key info) (ci_ttl info) (tryGetExtendedAttributes env (the (na_attributes n)))) (\<lambda>r.
             io_return (Option.bind r id)))"

definition refreshMetadata :: "'s worker_env \<Rightarrow> nft \<Rightarrow> ('s, json) io" where
  "refreshMetadata env n =
     (let info = CacheInfo_NftMetadata (wk_consts env) (na_identifier n)
      in io_bind (getMetadataRaw env n) (\<lambda>raw.
         let metadata = coalesce raw (JObj [])
         in io_then (wk_persistMetadata env (na_identifier n) metadata)
           (io_then (wk_setMetadata env (ci_key info) metadata (ci_ttl info))
           (io_then (wk_emitRefresh env (ci_key info) (ci_ttl info)) (io_return metadata)))))"

definition getOrRefreshMetadata :: "'s worker_env \<Rightarrow> nft \<Rightarrow> ('s, json option) io" where
  "getOrRefreshMetadata env n =
     (if \<not> truthy (na_attributes n) \<or> na_type n = ''MetaESDT'' then io_return None
      else io_bind (getMetadata env n) (\<lambda>metadata. case metadata of
        Some v \<Rightarrow> io_return (Some v)
      | None \<Rightarrow> io_bind (refreshMetadata env n) (\<lambda>v. io_return (Some v))))"

section \<open>Media\<close>

definition media_prefix :: "'s worker_env \<Rightarrow> string" where
  "media_prefix env = wk_externalMediaUrl env @ ''/nfts/asset''"

definition default_thumbnail :: "'s worker_env \<Rightarrow> string" where
  "default_thumbnail env = wk_mediaUrl env @ ''/nfts/thumbnail/default.png''"

definition getMedia :: "'s worker_env \<Rightarrow> string \<Rightarrow> ('s, nft_media list option) io" where
  "getMedia env identifier =
     (let info = CacheInfo_NftMedia (wk_consts env) identifier
      in wk_getOrSetMedia env (ci_key info) (wk_persistedMedia env identifier) (ci_ttl info))"

definition getMediaUrl :: "'s worker_env \<Rightarrow> string \<Rightarrow> string \<Rightarrow> string res" where
  "getMediaUrl env nftUri p = res_bind (wk_decode env nftUri) (\<lambda>url. Inr (computeNftUri (wk_uris env) url p))"

definition getFilePropertiesFromHeaders :: "'s worker_env \<Rightarrow> string \<Rightarrow> string \<Rightarrow> ('s, file_properties option) io" where
  "getFilePropertiesFromHeaders env uri p =
     io_bind (io_lift (getMediaUrl env uri p)) (\<lambda>url.
       if suffix ''.json'' url then io_return None
       else io_bind (wk_head env url) (\<lambda>(status, properties). io_return (if status \<noteq> 200 then None else Some properties)))"

definition getFilePropertiesRaw :: "'s worker_env \<Rightarrow> string \<Rightarrow> ('s, file_properties option) io" where
  "getFilePropertiesRaw env uri =
     io_bind (getFilePropertiesFromHeaders env uri (media_prefix env)) (\<lambda>r. case r of
       Some p \<Rightarrow> io_return (Some p)
     | None \<Rightarrow> getFilePropertiesFromHeaders env uri (wk_ipfsUrl env))"

definition getFileProperties :: "'s worker_env \<Rightarrow> string \<Rightarrow> ('s, file_properties option) io" where
  "getFileProperties env uri =
     (let info = CacheInfo_NftMediaProperties (wk_consts env) uri in wk_getOrSetProperties env (ci_key info) (getFilePropertiesRaw env uri) (ci_ttl info))"

definition isContentTypeAccepted :: "string option \<Rightarrow> bool res" where
  "isContentTypeAccepted contentType = (case contentType of
     None \<Rightarrow> Inl TypeError
   | Some c \<Rightarrow> Inr (js_trim (hd (split_on CHR '';'' c)) \<in> set media_mime_types))"

definition isFileSizeAccepted :: "int option \<Rightarrow> bool" where
  "isFileSizeAccepted fileSize = (case fileSize of None \<Rightarrow> False | Some n \<Rightarrow> n \<le> 64 * 1024 * 1024)"

definition media_of_file :: "'s worker_env \<Rightarrow> nft \<Rightarrow> string \<Rightarrow> file_properties \<Rightarrow> nft_media option res" where
  "media_of_file env n uri p =
     res_bind (isContentTypeAccepted (fl_contentType p)) (\<lambda>accepted.
       if \<not> accepted then Inr None
       else res_bind (wk_decode env uri) (\<lambda>original.
         let url = computeNftUri (wk_uris env) original (media_prefix env)
         in Inr (Some \<lparr>nm_url = url, nm_originalUrl = original,
           nm_thumbnailUrl = (if isFileSizeAccepted (fl_contentLength p)
             then wk_externalMediaUrl env @ ''/nfts/thumbnail/'' @ na_collection n @ ''-'' @ getUrlHash env url else default_thumbnail env),
           nm_fileType = the (fl_contentType p), nm_fileSize = coalesce (fl_contentLength p) 0\<rparr>)))"

definition media_of_uri :: "'s worker_env \<Rightarrow> nft \<Rightarrow> string \<Rightarrow> ('s, nft_media option) io" where
  "media_of_uri env n uri =
     (if uri = [] then io_return None
      else let info = CacheInfo_PendingMediaGet (wk_consts env) (na_identifier n @ ''-'' @ getUrlHash env uri)
        in io_bind (io_catch (io_bind (executeOptimistic env (ci_key info) (ci_ttl info) (getFileProperties env uri)) (\<lambda>r. io_return (Option.bind r id)))
             (\<lambda>_. io_return None)) (\<lambda>fileProperties. case fileProperties of
               None \<Rightarrow> io_return None
             | Some p \<Rightarrow> io_lift (media_of_file env n uri p)))"

definition getMediaRaw :: "'s worker_env \<Rightarrow> nft \<Rightarrow> ('s, nft_media list option) io" where
  "getMediaRaw env n = (case na_uris n of
     None \<Rightarrow> io_return None
   | Some uris \<Rightarrow> io_bind (io_mapM (media_of_uri env n) uris) (\<lambda>media. io_return (Some (concat (map (\<lambda>m. case m of None \<Rightarrow> [] | Some x \<Rightarrow> [x]) media)))))"

definition refreshMedia :: "'s worker_env \<Rightarrow> nft \<Rightarrow> ('s, nft_media list option) io" where
  "refreshMedia env n =
     (let info = CacheInfo_NftMedia (wk_consts env) (na_identifier n)
      in io_bind (getMediaRaw env n) (\<lambda>raw. case raw of
           None \<Rightarrow> io_return None
         | Some media \<Rightarrow>
             io_then (wk_persistMedia env (na_identifier n) media)
             (io_then (wk_setMedia env (ci_key info) media (ci_ttl info))
             (io_then (wk_emitRefresh env (ci_key info) (ci_ttl info)) (io_return (Some media))))))"

section \<open>Assets\<close>

definition absent_status :: "'s worker_env \<Rightarrow> js_error \<Rightarrow> bool" where
  "absent_status env e \<longleftrightarrow> (case wk_responseStatus env e of None \<Rightarrow> False | Some status \<Rightarrow> status \<in> {302, 404, 403})"

definition uploadAsset :: "'s worker_env \<Rightarrow> string \<Rightarrow> string \<Rightarrow> string \<Rightarrow> ('s, unit) io" where
  "uploadAsset env identifier fileUrl fileType =
     (let info = CacheInfo_PendingUploadAsset (wk_consts env) (identifier @ ''-'' @ getUrlHash env fileUrl);
          mediaUrl = computeNftUri (wk_uris env) fileUrl (wk_mediaUrl env @ ''/nfts/asset'')
      in io_catch (io_bind (executeOptimistic env (ci_key info) (ci_ttl info) (wk_getFile env mediaUrl)) (\<lambda>fileResult. case fileResult of
             None \<Rightarrow> io_throw TypeError
           | Some file \<Rightarrow> wk_uploadToS3 env (''nfts/asset'' @ computeNftUri (wk_uris env) fileUrl []) file fileType))
           (\<lambda>_. io_return ()))"

definition isAssetUploaded :: "'s worker_env \<Rightarrow> nft_media \<Rightarrow> ('s, bool) io" where
  "isAssetUploaded env media =
     (let url = computeNftUri (wk_uris env) (nm_originalUrl media) (coalesce (wk_mediaInternalUrl env) (wk_mediaUrl env) @ ''/nfts/asset'')
      in io_catch (io_bind (wk_headHandled env url False (absent_status env)) (\<lambda>response. io_return (response \<noteq> None))) (\<lambda>_. io_return False))"

section \<open>Thumbnails\<close>

definition getThumbnailUrlSuffix :: "string \<Rightarrow> string" where
  "getThumbnailUrlSuffix urlIdentifier = ''nfts/thumbnail/'' @ urlIdentifier"

definition getFullThumbnailUrl :: "'s worker_env \<Rightarrow> string \<Rightarrow> string" where
  "getFullThumbnailUrl env urlIdentifier = coalesce (wk_mediaInternalUrl env) (wk_mediaUrl env) @ ''/'' @ getThumbnailUrlSuffix urlIdentifier"

definition hasThumbnailGenerated :: "'s worker_env \<Rightarrow> string \<Rightarrow> string \<Rightarrow> ('s, bool) io" where
  "hasThumbnailGenerated env identifier fileUrl =
     io_bind (wk_headHandled env (getFullThumbnailUrl env (getThumbnailUrlIdentifier env identifier fileUrl)) True (absent_status env)) (\<lambda>response.
       io_return (response \<noteq> None))"

definition uploadThumbnail :: "'s worker_env \<Rightarrow> string \<Rightarrow> string \<Rightarrow> string \<Rightarrow> ('s, unit) io" where
  "uploadThumbnail env urlIdentifier buffer fileType = wk_uploadToS3 env (getThumbnailUrlSuffix urlIdentifier) buffer fileType"

definition remove_file :: "'s worker_env \<Rightarrow> string \<Rightarrow> ('s, unit) io" where
  "remove_file env path = io_bind (wk_fileExists env path) (\<lambda>found. if found then wk_deleteFile env path else io_return ())"

definition extractThumbnailFromImage :: "'s worker_env \<Rightarrow> string \<Rightarrow> ('s, string option) io" where
  "extractThumbnailFromImage env buffer =
     io_catch (io_bind (wk_thumbnailOfImage env buffer) (\<lambda>picture. io_return (Some picture))) (\<lambda>_. io_return None)"

definition extractThumbnailFromAudio :: "'s worker_env \<Rightarrow> string \<Rightarrow> string \<Rightarrow> ('s, string option) io" where
  "extractThumbnailFromAudio env buffer nftIdentifier =
     (let audioPath = wk_joinPath env (wk_tempUrl env) nftIdentifier;
          outputPath = wk_joinPath env (wk_tempUrl env) (nftIdentifier @ ''.screenshot.jpg'')
      in io_then (wk_writeFile env buffer audioPath)
        (io_finally (io_then (wk_waveform env audioPath outputPath) (wk_readFile env outputPath)) (remove_file env outputPath)))"

text \<open>The largest picture of three moments of a film; of two that are equal the first.\<close>

definition screenshot_step :: "'s worker_env \<Rightarrow> string \<Rightarrow> int \<times> string \<Rightarrow> int \<times> string option \<Rightarrow> ('s, int \<times> string option) io" where
  "screenshot_step env videoPath = (\<lambda>(frame, path) (maxSize, best).
     io_then (wk_screenshot env videoPath frame path)
     (io_bind (wk_fileExists env path) (\<lambda>found.
       if \<not> found then io_return (maxSize, best)
       else io_bind (wk_fileSize env path) (\<lambda>n. io_return (if n > maxSize then (n, Some path) else (maxSize, best))))))"

definition screenshot_paths :: "'s worker_env \<Rightarrow> string \<Rightarrow> (int \<times> string) list" where
  "screenshot_paths env nftIdentifier =
     map (\<lambda>x. (x, wk_joinPath env (wk_tempUrl env) (nftIdentifier @ ''.screenshot.'' @ int_str x @ ''.jpg''))) [0, 10, 30]"

definition extractScreenshotFromVideo :: "'s worker_env \<Rightarrow> string \<Rightarrow> string \<Rightarrow> ('s, string option) io" where
  "extractScreenshotFromVideo env buffer nftIdentifier =
     (let videoPath = wk_joinPath env (wk_tempUrl env) nftIdentifier; paths = screenshot_paths env nftIdentifier
      in io_then (wk_writeFile env buffer videoPath)
        (io_finally
          (io_catch (io_bind (io_fold (screenshot_step env videoPath) paths (-1, None)) (\<lambda>(_, best). case best of
              None \<Rightarrow> io_return None
            | Some path \<Rightarrow> wk_readFile env path)) (\<lambda>_. io_return None))
          (io_then (io_mapM (\<lambda>(_, path). remove_file env path) paths) (remove_file env videoPath))))"

definition extractThumbnailFromVideo :: "'s worker_env \<Rightarrow> string \<Rightarrow> string \<Rightarrow> ('s, string option) io" where
  "extractThumbnailFromVideo env buffer nftIdentifier =
     io_bind (extractScreenshotFromVideo env buffer nftIdentifier) (\<lambda>screenshot. case screenshot of
       None \<Rightarrow> io_return None | Some s \<Rightarrow> extractThumbnailFromImage env s)"

definition isImage :: "string \<Rightarrow> bool" where "isImage fileType = startsWith fileType ''image''"

definition isVideo :: "string \<Rightarrow> bool" where "isVideo fileType = startsWith fileType ''video''"

definition isAudio :: "string \<Rightarrow> bool" where "isAudio fileType = startsWith fileType ''audio''"

definition store_thumbnail :: "'s worker_env \<Rightarrow> string \<Rightarrow> ('s, string option) io \<Rightarrow> ('s, thumbnail_result) io" where
  "store_thumbnail env urlIdentifier extract =
     io_bind extract (\<lambda>thumbnail. case thumbnail of
       None \<Rightarrow> io_return Thumbnail_couldNotExtractThumbnail
     | Some picture \<Rightarrow> io_then (uploadThumbnail env urlIdentifier picture ''image/jpeg'') (io_return Thumbnail_success))"

definition make_thumbnail :: "'s worker_env \<Rightarrow> string \<Rightarrow> string \<Rightarrow> string \<Rightarrow> string \<Rightarrow> ('s, thumbnail_result) io" where
  "make_thumbnail env nftIdentifier fileUrl fileType file =
     (let urlIdentifier = getThumbnailUrlIdentifier env nftIdentifier fileUrl
      in if isAudio fileType then store_thumbnail env urlIdentifier (extractThumbnailFromAudio env file nftIdentifier)
         else if isImage fileType then store_thumbnail env urlIdentifier (extractThumbnailFromImage env file)
         else if isVideo fileType then store_thumbnail env urlIdentifier (extractThumbnailFromVideo env file nftIdentifier)
         else io_return Thumbnail_unrecognizedFileType)"

definition thumbnail_lock :: "'s worker_env \<Rightarrow> string \<Rightarrow> string \<Rightarrow> cache_info" where
  "thumbnail_lock env nftIdentifier fileUrl = CacheInfo_PendingGenerateThumbnail (wk_consts env) (nftIdentifier @ ''-'' @ getUrlHash env fileUrl)"

definition generateThumbnail :: "'s worker_env \<Rightarrow> string \<Rightarrow> string \<Rightarrow> string \<Rightarrow> bool \<Rightarrow> ('s, thumbnail_result) io" where
  "generateThumbnail env nftIdentifier fileUrl fileType forceRefresh =
     (if fileUrl = [] \<or> \<not> startsWith fileUrl ''https://'' then io_return Thumbnail_noUrl
      else let info = thumbnail_lock env nftIdentifier fileUrl
        in io_bind (executeOptimistic env (ci_key info) (ci_ttl info) (wk_getFile env fileUrl)) (\<lambda>fileResult. case fileResult of
             None \<Rightarrow> io_return Thumbnail_pendingUploadAsset
           | Some file \<Rightarrow>
               io_bind (if forceRefresh then io_return False else hasThumbnailGenerated env nftIdentifier fileUrl) (\<lambda>generated.
                 if generated then io_return Thumbnail_success else make_thumbnail env nftIdentifier fileUrl fileType file)))"

section \<open>The worker\<close>

text \<open>A loop that is left with \<open>true\<close> at the first element that meets a test.\<close>

fun io_any :: "('x \<Rightarrow> ('s, bool) io) \<Rightarrow> 'x list \<Rightarrow> ('s, bool) io" where
  "io_any f [] = io_return False"
| "io_any f (x # xs) = io_bind (f x) (\<lambda>b. if b then io_return True else io_any f xs)"

definition negated :: "('s, bool) io \<Rightarrow> ('s, bool) io" where
  "negated m = io_bind m (\<lambda>b. io_return (\<not> b))"

text \<open>The media of an NFT are here always its own ones, since they were just read.\<close>

definition needsProcessing :: "'s worker_env \<Rightarrow> string \<Rightarrow> json option \<Rightarrow> nft_media list option \<Rightarrow> process_settings \<Rightarrow> ('s, bool) io" where
  "needsProcessing env identifier metadata nftMedia settings =
     (if ps_forceRefreshMedia settings \<or> ps_forceRefreshMetadata settings \<or> ps_forceRefreshThumbnail settings then io_return True
      else io_bind (wk_persistedMedia env identifier) (\<lambda>media. case media of
        None \<Rightarrow> io_return True
      | Some stored \<Rightarrow>
          if metadata = None then io_return True
          else io_bind (if ps_skipRefreshThumbnail settings then io_return False
              else io_any (\<lambda>m. negated (hasThumbnailGenerated env identifier (nm_url m))) (coalesce nftMedia [])) (\<lambda>missing.
            if missing then io_return True
            else if ps_uploadAsset settings then io_any (\<lambda>m. negated (isAssetUploaded env m)) stored
            else io_return False)))"

definition addProcessNftQueueJob :: "'s worker_env \<Rightarrow> process_settings \<Rightarrow> nft \<Rightarrow> ('s, bool) io" where
  "addProcessNftQueueJob env settings n =
     io_bind (getMetadata env n) (\<lambda>metadata.
     io_bind (getMedia env (na_identifier n)) (\<lambda>media.
     io_bind (needsProcessing env (na_identifier n) metadata media settings) (\<lambda>needed.
       if \<not> needed then io_return False
       else io_then (wk_send env \<lparr>mg_identifier = na_identifier n, mg_settings = settings\<rparr>) (io_return True))))"

definition getAttempt :: "message_headers \<Rightarrow> int res" where
  "getAttempt headers = (case headers of
     None \<Rightarrow> Inl TypeError
   | Some deaths \<Rightarrow> Inr (case deaths of Some (n # _) \<Rightarrow> n | _ \<Rightarrow> 0))"

definition getProcessNftActivatedSettings :: "process_settings \<Rightarrow> string list" where
  "getProcessNftActivatedSettings settings =
     (if ps_forceRefreshMedia settings then [''forceRefreshMedia''] else []) @ (if ps_forceRefreshMetadata settings then [''forceRefreshMetadata''] else [])
     @ (if ps_forceRefreshThumbnail settings then [''forceRefreshThumbnail''] else []) @ (if ps_skipRefreshThumbnail settings then [''skipRefreshThumbnail''] else [])
     @ (if ps_uploadAsset settings then [''uploadAsset''] else [])"

definition generateThumbnailOf :: "'s worker_env \<Rightarrow> string \<Rightarrow> bool \<Rightarrow> nft_media \<Rightarrow> ('s, unit) io" where
  "generateThumbnailOf env identifier forceRefresh media =
     io_bind (generateThumbnail env identifier (js_trim (nm_url media)) (nm_fileType media) forceRefresh) (\<lambda>r.
       if r = Thumbnail_couldNotExtractThumbnail then io_throw (ErrorMsg ''Could not extract thumbnail'') else io_return ())"

definition process_metadata :: "'s worker_env \<Rightarrow> process_settings \<Rightarrow> nft \<Rightarrow> ('s, unit) io" where
  "process_metadata env settings n =
     io_bind (getMetadata env n) (\<lambda>metadata.
       if metadata \<noteq> None \<and> ps_forceRefreshMetadata settings
       then io_then (refreshMetadata env n) (wk_emitDelete env [ci_key (CacheInfo_NftMetadata (wk_consts env) (na_identifier n))])
       else if metadata = None then io_then (refreshMetadata env n) (io_return ())
       else io_return ())"

definition upload_asset_of :: "'s worker_env \<Rightarrow> string \<Rightarrow> nft_media \<Rightarrow> ('s, unit) io" where
  "upload_asset_of env identifier media =
     io_bind (isAssetUploaded env media) (\<lambda>uploaded.
       if uploaded then io_return () else uploadAsset env identifier (nm_originalUrl media) (nm_fileType media))"

definition process_media :: "'s worker_env \<Rightarrow> process_settings \<Rightarrow> nft \<Rightarrow> ('s, unit) io" where
  "process_media env settings n =
     io_bind (getMedia env (na_identifier n)) (\<lambda>media.
     io_bind (if ps_forceRefreshMedia settings \<or> media = None then refreshMedia env n else io_return media) (\<lambda>media. case media of
       None \<Rightarrow> io_return ()
     | Some ms \<Rightarrow>
         io_then (if ps_uploadAsset settings then io_then (io_mapM (upload_asset_of env (na_identifier n)) ms) (io_return ()) else io_return ())
           (if ps_skipRefreshThumbnail settings then io_return ()
            else io_then (io_all (generateThumbnailOf env (na_identifier n) (ps_forceRefreshThumbnail settings))
              (filter (\<lambda>m. nm_thumbnailUrl m \<noteq> default_thumbnail env) ms)) (io_return ()))))"

definition process_message :: "'s worker_env \<Rightarrow> nft_message \<Rightarrow> ('s, unit) io" where
  "process_message env message =
     io_bind (getSingleNft (wk_nfts env) (mg_identifier message)) (\<lambda>found. case found of
       None \<Rightarrow> io_throw (ErrorMsg ''Could not fetch details for NFT'')
     | Some n \<Rightarrow> io_then (process_metadata env (mg_settings message) n) (process_media env (mg_settings message) n))"

definition onNftCreated :: "'s worker_env \<Rightarrow> nft_message \<Rightarrow> message_headers \<Rightarrow> ('s, unit) io" where
  "onNftCreated env message headers =
     io_bind (io_lift (getAttempt headers)) (\<lambda>attempt.
       if attempt \<ge> wk_retryLimit env then wk_ack env
       else io_catch (io_then (process_message env message) (wk_ack env)) (\<lambda>_. wk_reject env False))"

section \<open>Requests\<close>

definition processNftOf :: "'s worker_env \<Rightarrow> string \<Rightarrow> process_settings \<Rightarrow> ('s, bool) io" where
  "processNftOf env identifier settings =
     io_bind (getSingleNft (wk_nfts env) identifier) (\<lambda>found. case found of
       None \<Rightarrow> io_return False
     | Some n \<Rightarrow> addProcessNftQueueJob env settings n)"

definition processCollection :: "'s worker_env \<Rightarrow> string \<Rightarrow> process_settings \<Rightarrow> ('s, string \<Rightarrow> bool option) io" where
  "processCollection env collection settings =
     io_bind (nftsPage (wk_nfts env) (first_page 10000) (no_nft_filter\<lparr>ff_collection := Some collection\<rparr>) None) (\<lambda>nfts.
     io_bind (wk_asyncPool env (wk_poolLimit env) nfts (addProcessNftQueueJob env settings)) (\<lambda>results.
       io_return (map_of (rev (zip (map na_identifier nfts) results)))))"

definition processRequest :: "'s worker_env \<Rightarrow> process_request \<Rightarrow> ('s, string \<Rightarrow> bool option) io" where
  "processRequest env request =
     (let settings = settings_fromRequest request
      in if truthy (pq_collection request) then processCollection env (the (pq_collection request)) settings
         else if truthy (pq_identifier request)
         then io_bind (processNftOf env (the (pq_identifier request)) settings) (\<lambda>processed. io_return [the (pq_identifier request) \<mapsto> processed])
         else io_throw (ErrorMsg ''Provide an identifier or a collection to generate thumbnails for''))"

definition no_fetch_options :: account_fetch_options where
  "no_fetch_options = \<lparr>fo_withGuardianInfo = None, fo_withTxCount = None, fo_withScrCount = None, fo_withTimestamp = None, fo_withAssets = None\<rparr>"

text \<open>The owners of the owner, at most as many as the number says.\<close>

fun follow_owners :: "'s worker_env \<Rightarrow> nat \<Rightarrow> string option \<Rightarrow> ('s, string option) io" where
  "follow_owners env 0 owner = io_return owner"
| "follow_owners env (Suc n) owner =
     io_bind (io_lift (wk_isSmartContract env owner)) (\<lambda>isContract.
       if \<not> isContract then io_return owner
       else io_bind (accountOf (wk_accounts env) (the owner) no_fetch_options) (\<lambda>account. case account of
         None \<Rightarrow> io_throw (ErrorMsg ''Could not fetch account details'')
       | Some a \<Rightarrow> follow_owners env n (av_ownerAddress a)))"

definition getCollectionNonScOwnerRaw :: "'s worker_env \<Rightarrow> string \<Rightarrow> ('s, string option) io" where
  "getCollectionNonScOwnerRaw env collection =
     io_bind (getNftCollection (xa_collections (nv_address (wk_nfts env))) collection) (\<lambda>found. case found of
       None \<Rightarrow> io_throw (ErrorMsg ''NFT Collection not found'')
     | Some c \<Rightarrow>
         if \<not> truthy (nc_owner c) then io_throw (ErrorMsg ''NFT Collection does not have any owner'')
         else io_bind (follow_owners env 10 (nc_owner c)) (\<lambda>owner.
              io_bind (io_lift (wk_isSmartContract env owner)) (\<lambda>isContract.
                if isContract then io_throw (ErrorMsg ''Collection owner should not be smart contract'') else io_return owner)))"

definition getCollectionNonScOwner :: "'s worker_env \<Rightarrow> string \<Rightarrow> ('s, string option) io" where
  "getCollectionNonScOwner env collection =
     (let info = CacheInfo_CollectionNonScOwner (wk_consts env) collection
      in wk_getOrSetOwner env (ci_key info) (getCollectionNonScOwnerRaw env collection) (ci_ttl info))"

definition isCollectionOwner :: "'s worker_env \<Rightarrow> string \<Rightarrow> string \<Rightarrow> ('s, bool) io" where
  "isCollectionOwner env address collection = io_bind (getCollectionNonScOwner env collection) (\<lambda>owner. io_return (Some address = owner))"

definition processWithOwnerCheck :: "'s worker_env \<Rightarrow> string \<Rightarrow> process_request \<Rightarrow> ('s, string \<Rightarrow> bool option) io" where
  "processWithOwnerCheck env address request =
     (let collectionOrIdentifier = orelse (pq_identifier request) (pq_collection request)
      in if \<not> truthy collectionOrIdentifier then io_throw (ErrorMsg ''No collection or identifier has been provided'')
         else io_bind (wk_incrementRemote env (ci_key (CacheInfo_GenerateThumbnails (wk_consts env) (the collectionOrIdentifier)))) (\<lambda>retries.
           if retries > 2 then io_throw (ErrorMsg ''Thumbnails have already been generated'')
           else io_bind (isCollectionOwner env address (getCollectionIdentifier (the collectionOrIdentifier))) (\<lambda>owned.
             if \<not> owned then io_throw (ErrorMsg ''Provided address is not collection owner'') else processRequest env request)))"

section \<open>Theorems\<close>

text \<open>
  The lock does not exclude: the key is read and written in two steps, and two workers that read it one
  after the other both run their action. The first that ends deletes the key although the other one is
  running, so that a third one can start as well.
\<close>

theorem lock_not_exclusive:
  "\<exists>q. reach (\<lambda>q. q = lock_init 3) lock_step q \<and> lk_workers q = [Lock_done, Lock_running, Lock_running]"
proof -
  let ?q = "\<lambda>k ws. \<lparr>lk_key = k, lk_workers = ws\<rparr>"
  have "reach (\<lambda>q. q = lock_init 3) lock_step (lock_init 3)" by (rule reach_init) simp
  then have "reach (\<lambda>q. q = lock_init 3) lock_step (?q False [Lock_start, Lock_start, Lock_start])"
    by (simp add: lock_init_def numeral_3_eq_3)
  then have "reach (\<lambda>q. q = lock_init 3) lock_step (?q False [Lock_free, Lock_start, Lock_start])"
    by (rule reach_step) (use seen_free [of 0 "?q False [Lock_start, Lock_start, Lock_start]"] in simp)
  then have "reach (\<lambda>q. q = lock_init 3) lock_step (?q False [Lock_free, Lock_free, Lock_start])"
    by (rule reach_step) (use seen_free [of 1 "?q False [Lock_free, Lock_start, Lock_start]"] in simp)
  then have "reach (\<lambda>q. q = lock_init 3) lock_step (?q True [Lock_running, Lock_free, Lock_start])"
    by (rule reach_step) (use set_key [of 0 "?q False [Lock_free, Lock_free, Lock_start]"] in simp)
  then have "reach (\<lambda>q. q = lock_init 3) lock_step (?q True [Lock_running, Lock_running, Lock_start])"
    by (rule reach_step) (use set_key [of 1 "?q True [Lock_running, Lock_free, Lock_start]"] in simp)
  then have "reach (\<lambda>q. q = lock_init 3) lock_step (?q False [Lock_done, Lock_running, Lock_start])"
    by (rule reach_step) (use ended [of 0 "?q True [Lock_running, Lock_running, Lock_start]"] in simp)
  then have "reach (\<lambda>q. q = lock_init 3) lock_step (?q False [Lock_done, Lock_running, Lock_free])"
    by (rule reach_step) (use seen_free [of 2 "?q False [Lock_done, Lock_running, Lock_start]"] in simp)
  then have "reach (\<lambda>q. q = lock_init 3) lock_step (?q True [Lock_done, Lock_running, Lock_running])"
    by (rule reach_step) (use set_key [of 2 "?q False [Lock_done, Lock_running, Lock_free]"] in simp)
  then show ?thesis by (intro exI [of _ "?q True [Lock_done, Lock_running, Lock_running]"]) simp
qed

text \<open>
  C37. A download that fails is not tried again: the error leaves the key of the lock, which lasts for twelve
  hours, and as long as it is there the message that comes back is handled as if its thumbnail was made by
  another worker, without an error that would bring it back once more.
\<close>

theorem failed_download_not_retried:
  assumes "startsWith (js_trim (nm_url media)) ''https://''"
    and "info = thumbnail_lock env identifier (js_trim (nm_url media))"
    and "wk_getRemote env (ci_key info) s = (Inr False, t)" and "wk_setRemote env (ci_key info) True (ci_ttl info) t = (Inr (), u)"
    and "wk_getFile env (js_trim (nm_url media)) u = (Inl e, v)"
    and "wk_getRemote env (ci_key info) w = (Inr True, w)"
  shows "generateThumbnailOf env identifier force media s = (Inl e, v) \<and> generateThumbnailOf env identifier force media w = (Inr (), w)
    \<and> ci_ttl info = 12 * oneHour (wk_consts env)"
proof -
  have "js_trim (nm_url media) \<noteq> []" using assms(1) by (auto simp: startsWith_def)
  then show ?thesis using assms
    by (simp add: generateThumbnailOf_def generateThumbnail_def Let_def executeOptimistic_def thumbnail_lock_def io_simps key_simps)
qed

text \<open>Accounts that the service knows, with their owners.\<close>

definition documented_accounts :: "'s worker_env \<Rightarrow> (string \<Rightarrow> string) \<Rightarrow> (string \<Rightarrow> bool) \<Rightarrow> bool" where
  "documented_accounts env owner contract \<longleftrightarrow>
     (\<forall>a. wk_isSmartContract env (Some a) = Inr (contract a))
     \<and> (\<forall>a s. \<exists>x t. accountOf (wk_accounts env) a no_fetch_options s = (Inr (Some x), t) \<and> av_ownerAddress x = Some (owner a))"

fun owner_along :: "(string \<Rightarrow> string) \<Rightarrow> (string \<Rightarrow> bool) \<Rightarrow> nat \<Rightarrow> string \<Rightarrow> string" where
  "owner_along owner contract 0 a = a"
| "owner_along owner contract (Suc n) a = (if contract a then owner_along owner contract n (owner a) else a)"

lemma follow_owners_along:
  assumes "documented_accounts env owner contract"
  shows "fst (follow_owners env n (Some a) s) = Inr (Some (owner_along owner contract n a))"
proof (induction n arbitrary: a s)
  case (Suc n)
  obtain x t where "accountOf (wk_accounts env) a no_fetch_options s = (Inr (Some x), t)" "av_ownerAddress x = Some (owner a)"
    using assms unfolding documented_accounts_def by metis
  moreover have "wk_isSmartContract env (Some a) = Inr (contract a)" using assms by (simp add: documented_accounts_def)
  ultimately show ?case using Suc.IH by (simp add: io_simps)
qed (simp add: io_simps)

lemma owner_along_first:
  "\<not> contract ((owner ^^ k) a) \<Longrightarrow> \<forall>j < k. contract ((owner ^^ j) a) \<Longrightarrow> k \<le> n \<Longrightarrow> owner_along owner contract n a = (owner ^^ k) a"
proof (induction n arbitrary: a k)
  case (Suc n)
  show ?case
  proof (cases k)
    case (Suc j)
    have "contract a" using Suc.prems(2) Suc by force
    moreover have "owner_along owner contract n (owner a) = (owner ^^ j) (owner a)"
    proof (rule Suc.IH)
      show "\<not> contract ((owner ^^ j) (owner a))" using Suc.prems(1) Suc by (simp add: funpow_swap1)
      show "\<forall>i < j. contract ((owner ^^ i) (owner a))"
      proof (intro allI impI)
        fix i assume "i < j"
        then have "contract ((owner ^^ Suc i) a)" using Suc.prems(2) Suc by blast
        then show "contract ((owner ^^ i) (owner a))" by (simp add: funpow_swap1)
      qed
      show "j \<le> n" using Suc.prems(3) Suc by simp
    qed
    ultimately show ?thesis using Suc by (simp add: funpow_swap1)
  qed (use Suc.prems in simp)
qed simp

lemma owner_along_none: "\<forall>j \<le> n. contract ((owner ^^ j) a) \<Longrightarrow> contract (owner_along owner contract n a)"
proof (induction n arbitrary: a)
  case (Suc n)
  have "\<forall>j \<le> n. contract ((owner ^^ j) (owner a))"
  proof (intro allI impI)
    fix j assume "j \<le> n"
    then have "contract ((owner ^^ Suc j) a)" using Suc.prems by blast
    then show "contract ((owner ^^ j) (owner a))" by (simp add: funpow_swap1)
  qed
  moreover have "contract a" using Suc.prems [rule_format, of 0] by simp
  ultimately show ?case using Suc.IH by simp
qed simp

text \<open>
  C25. The owner of a collection that counts is found along the chain of owners: the first one that is no
  contract, of at most ten steps; when there is none, the request fails.
\<close>

theorem first_owner_without_contract:
  assumes "documented_accounts env owner contract"
    and "getNftCollection (xa_collections (nv_address (wk_nfts env))) collection s = (Inr (Some c), t)" and "nc_owner c = Some a" and "a \<noteq> []"
  shows "(\<forall>k \<le> 10. \<not> contract ((owner ^^ k) a) \<longrightarrow> (\<forall>j < k. contract ((owner ^^ j) a))
        \<longrightarrow> fst (getCollectionNonScOwnerRaw env collection s) = Inr (Some ((owner ^^ k) a)))
    \<and> ((\<forall>k \<le> 10. contract ((owner ^^ k) a)) \<longrightarrow> fst (getCollectionNonScOwnerRaw env collection s) = Inl (ErrorMsg ''Collection owner should not be smart contract''))"
proof -
  let ?o = "owner_along owner contract 10 a"
  obtain u where u: "follow_owners env 10 (Some a) t = (Inr (Some ?o), u)"
    using follow_owners_along [OF assms(1), of 10 a t] by (metis prod.collapse)
  have sc: "wk_isSmartContract env (Some ?o) = Inr (contract ?o)" using assms(1) by (simp add: documented_accounts_def)
  have raw: "fst (getCollectionNonScOwnerRaw env collection s)
      = (if contract ?o then Inl (ErrorMsg ''Collection owner should not be smart contract'') else Inr (Some ?o))"
    using assms(2-4) u sc by (simp add: getCollectionNonScOwnerRaw_def io_simps)
  show ?thesis unfolding raw using owner_along_first [where contract = contract and owner = owner and a = a and n = 10] owner_along_none [where contract = contract and owner = owner and a = a and n = 10] by auto
qed

text \<open>
  C38. A request that names an NFT and a collection is checked for the collection of the NFT and carried out for
  the other one: the owner of some collection can have every collection processed.
\<close>

theorem owner_check_of_other_collection:
  assumes "pq_identifier request = Some identifier" and "identifier \<noteq> []" and "pq_collection request = Some collection" and "collection \<noteq> []"
    and "wk_incrementRemote env (ci_key (CacheInfo_GenerateThumbnails (wk_consts env) identifier)) s = (Inr retries, t)" and "retries \<le> 2"
    and "isCollectionOwner env address (getCollectionIdentifier identifier) t = (Inr True, u)"
  shows "processWithOwnerCheck env address request s = processCollection env collection (settings_fromRequest request) u"
  using assms by (simp add: processWithOwnerCheck_def processRequest_def Let_def io_simps)

text \<open>
  Every message with headers is acknowledged or rejected, and what is thrown while it is processed is not
  thrown any further.
\<close>

theorem message_is_settled:
  assumes "headers \<noteq> None"
  shows "\<exists>t. onNftCreated env message headers s = wk_ack env t \<or> onNftCreated env message headers s = wk_reject env False t"
proof -
  obtain n where "getAttempt headers = Inr n" using assms by (cases headers) (auto simp: getAttempt_def)
  then show ?thesis
    by (cases "process_message env message s"; cases "fst (wk_ack env (snd (process_message env message s)))")
      (auto simp: onNftCreated_def io_simps split: prod.splits sum.splits; metis)+
qed

text \<open>Only files of the accepted kinds are kept, and the small ones get a thumbnail of their own.\<close>

lemma kept_media:
  assumes "media_of_file env n uri p = Inr (Some m)"
  shows "js_trim (hd (split_on CHR '';'' (nm_fileType m))) \<in> set media_mime_types
    \<and> (isFileSizeAccepted (fl_contentLength p) \<or> nm_thumbnailUrl m = default_thumbnail env)"
  using assms by (auto simp: media_of_file_def isContentTypeAccepted_def res_bind_Inr Let_def split: option.splits if_splits)

section \<open>Witnesses\<close>

definition sample_owner :: "string \<Rightarrow> string" where
  "sample_owner a = (if a = ''o'' then ''p'' else ''q'')"

definition sample_contract :: "string \<Rightarrow> bool" where
  "sample_contract a \<longleftrightarrow> a = ''o'' \<or> a = ''p''"

definition sample_gateway_account :: "string \<Rightarrow> gateway_account" where
  "sample_gateway_account owner = \<lparr>gw_nonce = 0, gw_balance = ''0'', gw_code = [], gw_codeHash = [], gw_rootHash = [], gw_developerReward = ''0'',
     gw_ownerAddress = owner, gw_codeMetadata = None\<rparr>"

text \<open>The key of the lock is a part of the world; no file can be downloaded.\<close>

definition sample_worker_env :: "(string \<Rightarrow> string set) worker_env" where
  "sample_worker_env = \<lparr>wk_consts = doc_consts, wk_nfts = sample_nft_env,
     wk_accounts = plain_account_env\<lparr>zc_addressDetails := \<lambda>a. io_return (sample_gateway_account (sample_owner a))\<rparr>,
     wk_isSmartContract = \<lambda>a. (case a of None \<Rightarrow> Inl TypeError | Some x \<Rightarrow> Inr (sample_contract x)),
     wk_getRemote = \<lambda>k s. (Inr (s k \<noteq> {}), s), wk_setRemote = \<lambda>k _ _ s. (Inr (), s(k := {''x''})), wk_deleteInCache = \<lambda>k s. (Inr (), s(k := {})),
     wk_incrementRemote = \<lambda>_. io_return 1, wk_getOrSetOwner = \<lambda>_ m _. m, wk_persistedMedia = \<lambda>_. io_return None, wk_persistMedia = \<lambda>_ _. io_return (),
     wk_persistedMetadata = \<lambda>_. io_return None, wk_persistMetadata = \<lambda>_ _. io_return (), wk_getOrSetMedia = \<lambda>_ m _. m, wk_getOrSetMetadata = \<lambda>_ m _. m,
     wk_getOrSetProperties = \<lambda>_ m _. m, wk_setMedia = \<lambda>_ _ _. io_return (), wk_setMetadata = \<lambda>_ _ _. io_return (), wk_emitRefresh = \<lambda>_ _. io_return (),
     wk_emitDelete = \<lambda>_. io_return (), wk_send = \<lambda>_. io_return (), wk_ack = io_return (), wk_reject = \<lambda>_. io_return (),
     wk_head = \<lambda>_. io_return (404, \<lparr>fl_contentType = None, fl_contentLength = None\<rparr>), wk_headHandled = \<lambda>_ _ _. io_return None,
     wk_getFile = \<lambda>_. io_throw (ErrorMsg ''timeout''), wk_getJson = \<lambda>_. io_throw TypeError, wk_uploadToS3 = \<lambda>_ _ _. io_return (),
     wk_responseStatus = \<lambda>_. None, wk_responseText = \<lambda>_. None, wk_message = \<lambda>_. None, wk_sha256 = id, wk_thumbnailOfImage = io_return,
     wk_waveform = \<lambda>_ _. io_return (), wk_screenshot = \<lambda>_ _ _. io_return (), wk_writeFile = \<lambda>_ _. io_return (), wk_readFile = \<lambda>_. io_return None,
     wk_fileExists = \<lambda>_. io_return False, wk_fileSize = \<lambda>_. io_return 0, wk_deleteFile = \<lambda>_. io_return (), wk_joinPath = \<lambda>a b. a @ ''/'' @ b,
     wk_tempUrl = ''/tmp'', wk_externalMediaUrl = ''https://media'', wk_mediaUrl = ''https://media'', wk_mediaInternalUrl = None, wk_ipfsUrl = ''https://ipfs'',
     wk_retryLimit = 3, wk_poolLimit = 10, wk_asyncPool = \<lambda>_ xs f. io_mapM f xs, wk_metadataMatch = \<lambda>_. None, wk_tagsMatch = \<lambda>_. None,
     wk_parseJson = \<lambda>_. Inl (SyntaxError []), wk_cleanup = id, wk_now = io_return 0\<rparr>"

definition sample_request :: "string option \<Rightarrow> string option \<Rightarrow> process_request" where
  "sample_request identifier collection = \<lparr>pq_collection = collection, pq_identifier = identifier, pq_forceRefreshMedia = None,
     pq_forceRefreshMetadata = None, pq_forceRefreshThumbnail = None, pq_skipRefreshThumbnail = None, pq_uploadAsset = None\<rparr>"

definition sample_media :: nft_media where
  "sample_media = \<lparr>nm_url = ''https://f'', nm_originalUrl = ''https://f'', nm_thumbnailUrl = ''t'', nm_fileType = ''image/png'', nm_fileSize = 1\<rparr>"

lemma sample_url: "startsWith (js_trim (nm_url sample_media)) ''https://''"
  by code_simp

theorem failed_download_not_retried_witness:
  "\<exists>w. generateThumbnailOf sample_worker_env ''C-1-01'' False sample_media sample_world = (Inl (ErrorMsg ''timeout''), w)
    \<and> generateThumbnailOf sample_worker_env ''C-1-01'' False sample_media w = (Inr (), w)"
proof -
  let ?info = "thumbnail_lock sample_worker_env ''C-1-01'' (js_trim (nm_url sample_media))"
  define w where "w = sample_world(ci_key ?info := {''x''})"
  have free: "wk_getRemote sample_worker_env (ci_key ?info) sample_world = (Inr False, sample_world)"
    and set: "wk_setRemote sample_worker_env (ci_key ?info) True (ci_ttl ?info) sample_world = (Inr (), w)"
    and get: "wk_getFile sample_worker_env (js_trim (nm_url sample_media)) w = (Inl (ErrorMsg ''timeout''), w)"
    and taken: "wk_getRemote sample_worker_env (ci_key ?info) w = (Inr True, w)"
    by (simp_all add: sample_worker_env_def w_def io_throw_def)
  show ?thesis using failed_download_not_retried [OF sample_url refl free set get taken] by blast
qed

lemma sample_accounts_documented: "documented_accounts sample_worker_env sample_owner sample_contract"
  by (simp add: documented_accounts_def sample_worker_env_def accountOf_def accountRaw_def plain_account_env_def no_fetch_options_def when_set_def
      with_username_def getUsernameForAddress_def getUsernameForAddressRaw_def plain_username_env_def with_code_attributes_def sample_gateway_account_def account_of_gateway_def io_simps Let_def)

lemma sample_collection_owner:
  "case fst (getNftCollection (xa_collections (nv_address (wk_nfts sample_worker_env))) ''C-1'' sample_world) of
     Inr (Some c) \<Rightarrow> nc_owner c = Some ''o'' | _ \<Rightarrow> False"
  by code_simp

theorem first_owner_without_contract_witness:
  "fst (getCollectionNonScOwnerRaw sample_worker_env ''C-1'' sample_world) = Inr (Some ''q'')"
proof -
  obtain c t where c: "getNftCollection (xa_collections (nv_address (wk_nfts sample_worker_env))) ''C-1'' sample_world = (Inr (Some c), t)" "nc_owner c = Some ''o''"
    using sample_collection_owner by (rule fst_Inr_case) (auto split: option.splits)
  have "''o'' \<noteq> []" by simp
  from first_owner_without_contract [OF sample_accounts_documented c this]
  have "\<not> sample_contract ((sample_owner ^^ 2) ''o'') \<longrightarrow> (\<forall>j < 2. sample_contract ((sample_owner ^^ j) ''o''))
      \<longrightarrow> fst (getCollectionNonScOwnerRaw sample_worker_env ''C-1'' sample_world) = Inr (Some ((sample_owner ^^ 2) ''o''))"
    by simp
  then show ?thesis by (simp add: sample_owner_def sample_contract_def numeral_2_eq_2 less_Suc_eq)
qed

theorem owner_check_of_other_collection_witness:
  "\<exists>u. processWithOwnerCheck sample_worker_env ''q'' (sample_request (Some ''C-1-01'') (Some ''D-2'')) sample_world
     = processCollection sample_worker_env ''D-2'' (settings_fromRequest (sample_request (Some ''C-1-01'') (Some ''D-2''))) u"
proof -
  have "fst (isCollectionOwner sample_worker_env ''q'' (getCollectionIdentifier ''C-1-01'') sample_world) = Inr True"
    by code_simp
  then obtain u where owned: "isCollectionOwner sample_worker_env ''q'' (getCollectionIdentifier ''C-1-01'') sample_world = (Inr True, u)"
    by (metis prod.collapse)
  have count: "wk_incrementRemote sample_worker_env (ci_key (CacheInfo_GenerateThumbnails (wk_consts sample_worker_env) ''C-1-01'')) sample_world
      = (Inr 1, sample_world)"
    by (simp add: sample_worker_env_def io_return_def)
  have request: "pq_identifier (sample_request (Some ''C-1-01'') (Some ''D-2'')) = Some ''C-1-01''" "''C-1-01'' \<noteq> []"
    "pq_collection (sample_request (Some ''C-1-01'') (Some ''D-2'')) = Some ''D-2''" "''D-2'' \<noteq> []" by (simp_all add: sample_request_def)
  have "(1 :: int) \<le> 2" by simp
  from owner_check_of_other_collection [OF request count this owned]
  show ?thesis by blast
qed

end
