(* ===== verification/Spec2Isabelle.thy ===== *)
theory Spec2Isabelle
  imports Prelude JsonText CacheInfo Reachability CircuitBreaker TransactionsBatch BatchProcessor TokenTransfer
    TransactionAction MexSettings Recognizers CronProcessors Nodes Stake ElasticQueries ElasticIndexer Pool Usernames
    TransactionDetails Transactions Identities Providers Esdts Assets Collections EsdtAddress Tokens Accounts LockedAssets Nfts
    NftWorker
begin

text \<open>
  A model of the API service of the MultiversX network (the TypeScript sources under \<open>src/src\<close>), with the
  theorems that make its parts correct.

  \<^bold>\<open>The program.\<close> The service answers HTTP requests about the chain. It keeps no database of its own: its
  services read an Elasticsearch index (\<open>common/indexer\<close>), the gateway of the network (\<open>common/gateway\<close>),
  contracts (\<open>endpoints/vm.query\<close>) and some other services, put what they read together and keep the result
  in caches with a lifetime (\<open>utils/cache.info.ts\<close>). Crons (\<open>crons\<close>) follow the chain, fill caches and
  delete what has become stale. The code that decides something is in the services under \<open>endpoints\<close> and in
  \<open>common/indexer/elastic\<close>; controllers and modules are wiring.

  \<^bold>\<open>How it is modelled.\<close> A method is a definition with the name of the method. An asynchronous method is a
  function from the state of the outside world to a result, which is a value or a thrown error, and the
  state that it leaves (type \<open>io\<close> of \<open>Prelude\<close>); a synchronous method that can throw gives a value of the
  sum type \<open>res\<close>. What a service calls outside its own code is a field of a record \<open>..._env\<close> that is the
  first argument of its definitions: the index, the gateway, contracts, caches, the clock, and functions of
  the SDK packages and other libraries. The world of such a record is a type variable, so that the theorems
  hold for every behaviour of these services; where a result depends on one, its documented law is a named
  hypothesis (\<open>documented_...\<close>). Loops over lists are folds (\<open>io_fold\<close>, \<open>io_mapM\<close>), \<open>Promise.all\<close> is the
  sequence of its parts, \<open>undefined\<close> and \<open>null\<close> are \<open>None\<close>, and truthiness is written out. An amount of
  tokens is a text of digits in the code and in the model; \<open>bigint\<close> is \<open>int\<close>, with the division that
  truncates. A floating point number that is only passed on is its text (\<open>js_float\<close>); one with two decimals
  is counted in hundredths. Objects that the code changes in place are returned changed. Logging is left
  out.

  \<^bold>\<open>The theories.\<close>
  \<^item> \<open>Prelude\<close>: optional values, decimal texts, splitting and joining, errors, the type \<open>io\<close> with its
    combinators and the lemmas on its loops. \<open>JsonText\<close>: values as \<open>JSON.stringify\<close> sees them, members of
    values. \<open>Reachability\<close>: reachable states of a step relation and the interface (locale) by which a
    component shows an invariant.
  \<^item> \<open>CacheInfo\<close> (\<open>utils/cache.info.ts\<close>): every cache key and lifetime. The locale \<open>key_family\<close> is the
    interface of a family of keys, interpreted on the families that the services use; no two members share
    a key.
  \<^item> \<open>CircuitBreaker\<close> (\<open>common/indexer/elastic/circuit-breaker\<close>): one call, every method of the proxy, and
    the interleaving of calls in flight as a step relation, whose invariants say when the circuit is open. A
    sequence of calls refines a contract that is stated over the history of the operations alone, without the
    fields of the breaker.
  \<^item> \<open>TransactionsBatch\<close> (\<open>endpoints/transactions.batch\<close>) and \<open>BatchProcessor\<close>
    (\<open>crons/transaction.processor/batch.transaction.processor.service.ts\<close>): batches of transactions that are
    sent group after group; how a batch advances, ends or stalls; the guard against overlapping runs of the
    cron.
  \<^item> \<open>TokenTransfer\<close> (\<open>endpoints/tokens/token.transfer.service.ts\<close>): the operations that the events of a log
    stand for. \<open>TransactionAction\<close> and \<open>Recognizers\<close> (\<open>endpoints/transactions/transaction-action\<close>): the
    metadata of a transaction, also of one that others relayed, and the recognizers that name its action,
    with a locale for what every recognizer promises. \<open>MexSettings\<close> (\<open>endpoints/mex\<close>): the settings that they
    need.
  \<^item> \<open>CronProcessors\<close> (\<open>crons/transaction.processor\<close>): what is deleted from caches when transactions come, and
    the extractors, with a locale for their contract.
  \<^item> \<open>Nodes\<close>, \<open>Stake\<close>, \<open>Identities\<close>, \<open>Providers\<close> (\<open>endpoints/nodes\<close>, \<open>stake\<close>, \<open>identities\<close>, \<open>providers\<close>): the list of
    validators with its filters, order, queue, owners and auctions; stakes and the Nakamoto coefficient; the
    nodes of an identity, the distribution of its stake and its return; providers with the stake of their
    nodes. The locale \<open>consistent_comparison\<close> is the contract of a comparison that is given to \<open>sort\<close>.
  \<^item> \<open>ElasticQueries\<close> and \<open>ElasticIndexer\<close> (\<open>common/indexer/elastic\<close>): the queries of every filter, as the list
    of the calls to the query builder with a parametric meaning, and every method of the index service behind
    the circuit breaker.
  \<^item> \<open>Pool\<close> (\<open>endpoints/pool\<close>, gas prices of \<open>transaction.service.ts\<close>), \<open>Usernames\<close> (\<open>endpoints/usernames\<close>),
    \<open>TransactionDetails\<close> and \<open>Transactions\<close> (\<open>endpoints/transactions\<close>, \<open>endpoints/transfers\<close>): the waiting
    transactions and the price per unit of gas; names and the contracts that keep them; the results, logs and
    operations of a transaction; pages of transactions and the order of transfers.
  \<^item> \<open>Esdts\<close> (\<open>endpoints/esdt/esdt.service.ts\<close>): the properties, roles, supply and distinct accounts of a
    token. \<open>Assets\<close> (\<open>common/assets\<close>): the assets of tokens, collections and accounts, and the names of known
    contracts. \<open>RoleLists\<close>: the interface of a list of roles by address (locale \<open>role_collector\<close>), which
    collections and tokens provide. \<open>Collections\<close> (\<open>endpoints/collections/collection.service.ts\<close>),
    \<open>EsdtAddress\<close> (\<open>endpoints/esdt/esdt.address.service.ts\<close>) and \<open>Tokens\<close>
    (\<open>endpoints/tokens/token.service.ts\<close>): collections and tokens with their roles, prices, supply, filters and
    pages, and those of an address, with the requests to the gateway that concurrent calls share as a step
    relation: one request for an address is in flight, no call gets the answer of another address, and every
    call ends.
  \<^item> \<open>Accounts\<close> (\<open>endpoints/accounts\<close>, \<open>endpoints/keys\<close>): accounts, their pages and histories, deferred
    payments, contracts and their upgrades, and the keys of a staking provider with their status and place in
    the queue. \<open>LockedAssets\<close> (\<open>common/locked-asset\<close>): when the parts of a locked token are unlocked. \<open>Nfts\<close>
    (\<open>endpoints/nfts/nft.service.ts\<close>): the list of NFTs, a single one and those of an address, with all that is
    added to them; the lemmas on what an update keeps (\<open>keeps\<close>) show that the list stays that of the index.
  \<^item> \<open>NftWorker\<close> (\<open>queue.worker/nft.worker\<close>, \<open>endpoints/process-nfts\<close>, \<open>utils/caching.utils.ts\<close>): the worker that
    fetches metadata and media and makes thumbnails, the requests for it with the check of the owner, and the
    lock of the workers, whose interleavings are a step relation.

  \<^bold>\<open>What the lemmas show.\<close> Functional theorems give the result of an operation in closed form: which
  transactions a query selects, which slice a page is, which group a transaction is put into. Equivalence
  theorems compare a routine that reuses or batches requests with the direct one. Invariants and safety
  theorems speak of every reachable state of a component that keeps state between concurrent calls. Error
  theorems say what is left when a service fails; several of them show what the code gets wrong, and the
  manifest lists these findings.

  \<^bold>\<open>Bounds.\<close> Two loops carry fuel. The decoding of nested relayed transactions gets the length of the data
  field, which every level shortens; the loop over the batches of collections gets the number of wanted rows
  plus one, since every batch that goes on is not empty. Both are shown to end with it. Logs are fetched in
  batches of a thousand hashes by a recursion on what remains. The owners of a collection are followed for ten
  steps, as in the code.

  \<^bold>\<open>Not modelled.\<close> Controllers, modules, GraphQL resolvers and the start of the processes, which are routing of
  the framework; the gateway service and other clients, which only make requests; plugins, the database of
  the NFT workers, and what sharp and ffmpeg do; web sockets. Of the modelled parts, the merging of heartbeats with validator statistics
  (\<open>Nodes\<close>), sending and decoding a single transaction (\<open>Transactions\<close>) and the scroll over all fungible tokens
  (\<open>ElasticIndexer\<close>) are left out, and so are the crons that warm caches and compare the index with the chain,
  and the getters of the configuration, whose values are parameters here.
\<close>

end
